(* ===== verification/Prelude.thy ===== *)
theory Prelude
  imports Main "HOL-Library.AList"
begin

text \<open>
  What every theory of the development shares: the exceptions of the Python code as values, the
  result type of a function that may raise, the two combinators that model
  \<^verbatim>\<open>if not condition: raise ...\<close> and \<^verbatim>\<open>value = ...; (raise if it is missing)\<close>, the
  reading of a Python \<^verbatim>\<open>dict\<close> as an insertion-ordered association list, and the list
  searches the event handlers use.  The collection \<open>raise_simps\<close> turns the statement that a
  guarded function returned into the conjunction of its guards.
\<close>

named_theorems raise_simps

section \<open>Exceptions and results\<close>

text \<open>
  One constructor per exception class the modelled code raises, with the message where the
  code fixes it; \<open>Raised name message\<close> is an exception class that only one component raises.
\<close>

datatype exc =
    TransitionError string
  | ValueError string
  | KeyError string
  | IndexError
  | AttributeError
  | LedgerError string
  | LedgerCorruptionError string
  | DuplicateIdempotencyKey string
  | FinalizationError string
  | NoOpRecoveryRequired string
  | ValidationError string
  | Raised string string

type_synonym 'a res = "exc + 'a"

definition returns :: "'a res \<Rightarrow> bool" where
  "returns r = (case r of Inl _ \<Rightarrow> False | Inr _ \<Rightarrow> True)"

lemma returns_simps [simp]: "returns (Inr x)" "\<not> returns (Inl e)"
  by (simp_all add: returns_def)

lemma returnsE:
  assumes "returns r" obtains x where "r = Inr x"
  using assms by (cases r) auto

text \<open>\<open>require c m k\<close> is \<^verbatim>\<open>_require(c, m)\<close> of the state machine followed by \<open>k\<close>.\<close>

definition guarded :: "exc \<Rightarrow> bool \<Rightarrow> 'a res \<Rightarrow> 'a res" where
  "guarded e c k = (if c then k else Inl e)"

definition fetch :: "exc \<Rightarrow> 'b option \<Rightarrow> ('b \<Rightarrow> 'a res) \<Rightarrow> 'a res" where
  "fetch e v k = (case v of None \<Rightarrow> Inl e | Some x \<Rightarrow> k x)"

definition bind_res :: "'b res \<Rightarrow> ('b \<Rightarrow> 'a res) \<Rightarrow> 'a res" where
  "bind_res r k = (case r of Inl e \<Rightarrow> Inl e | Inr x \<Rightarrow> k x)"

lemma guarded_Inr [raise_simps]: "guarded e c k = Inr x \<longleftrightarrow> c \<and> k = Inr x"
  by (simp add: guarded_def)

lemma fetch_Inr [raise_simps]: "fetch e v k = Inr x \<longleftrightarrow> (\<exists>y. v = Some y \<and> k y = Inr x)"
  by (auto simp: fetch_def split: option.splits)

lemma bind_res_Inr [raise_simps]: "bind_res r k = Inr x \<longleftrightarrow> (\<exists>y. r = Inr y \<and> k y = Inr x)"
  by (auto simp: bind_res_def split: sum.splits)

lemma guarded_simps [simp]: "guarded e True k = k" "guarded e False k = Inl e"
  by (simp_all add: guarded_def)

lemma fetch_simps [simp]: "fetch e None k = Inl e" "fetch e (Some y) k = k y"
  by (simp_all add: fetch_def)

lemma bind_res_simps [simp]: "bind_res (Inl e) k = Inl e" "bind_res (Inr y) k = k y"
  by (simp_all add: bind_res_def)

lemma bind_res_assoc: "bind_res (bind_res r f) g = bind_res r (\<lambda>x. bind_res (f x) g)"
  by (simp add: bind_res_def split: sum.splits)

text \<open>
  A \<^verbatim>\<open>for\<close> loop whose body may raise: the state is threaded through, and the first
  exception ends the loop.
\<close>

primrec fold_res :: "('s \<Rightarrow> 'e \<Rightarrow> 's res) \<Rightarrow> 's \<Rightarrow> 'e list \<Rightarrow> 's res" where
  "fold_res f s [] = Inr s"
| "fold_res f s (x # xs) = bind_res (f s x) (\<lambda>t. fold_res f t xs)"

lemma fold_res_append:
  "fold_res f s (xs @ ys) = bind_res (fold_res f s xs) (\<lambda>t. fold_res f t ys)"
  by (induction xs arbitrary: s) (simp_all add: bind_res_assoc)

lemma fold_res_snoc:
  "fold_res f s (xs @ [x]) = bind_res (fold_res f s xs) (\<lambda>t. f t x)"
proof -
  have "\<And>r :: 'a res. bind_res r Inr = r"
    by (simp add: bind_res_def split: sum.splits)
  then show ?thesis by (simp add: fold_res_append)
qed

text \<open>
  \<^verbatim>\<open>any(f(x) for x in xs)\<close> where evaluating \<open>f\<close> may raise: the elements are tried in order and
  the first that holds, or raises, ends the search.
\<close>

primrec any_res :: "('e \<Rightarrow> bool res) \<Rightarrow> 'e list \<Rightarrow> bool res" where
  "any_res f [] = Inr False"
| "any_res f (x # xs) = bind_res (f x) (\<lambda>b. if b then Inr True else any_res f xs)"

lemma any_res_TrueD: "any_res f xs = Inr True \<Longrightarrow> \<exists>x \<in> set xs. f x = Inr True"
  by (induction xs) (auto simp: raise_simps split: if_splits)

section \<open>Dictionaries\<close>

text \<open>
  A Python dictionary keeps the insertion order of its keys and replaces a value in place, which
  is what \<^const>\<open>AList.update\<close> does.  \<open>dict_ok\<close> says that no key occurs twice.
\<close>

type_synonym ('k, 'v) dict = "('k \<times> 'v) list"

abbreviation dget :: "('k, 'v) dict \<Rightarrow> 'k \<Rightarrow> 'v option" where
  "dget \<equiv> map_of"

abbreviation dset :: "'k \<Rightarrow> 'v \<Rightarrow> ('k, 'v) dict \<Rightarrow> ('k, 'v) dict" where
  "dset \<equiv> AList.update"

definition dkeys :: "('k, 'v) dict \<Rightarrow> 'k list" where
  "dkeys d = map fst d"

definition dvalues :: "('k, 'v) dict \<Rightarrow> 'v list" where
  "dvalues d = map snd d"

definition dict_ok :: "('k, 'v) dict \<Rightarrow> bool" where
  "dict_ok d = distinct (dkeys d)"

lemma dict_ok_Nil [simp]: "dict_ok []"
  by (simp add: dict_ok_def dkeys_def)

lemma dget_dset [simp]: "dget (dset k v d) = (dget d)(k \<mapsto> v)"
  by (rule update_conv')

lemma dict_ok_dset [simp]: "dict_ok d \<Longrightarrow> dict_ok (dset k v d)"
  by (simp add: dict_ok_def dkeys_def distinct_update)

lemma dget_in_set: "dict_ok d \<Longrightarrow> dget d k = Some v \<longleftrightarrow> (k, v) \<in> set d"
  by (simp add: dict_ok_def dkeys_def)

lemma dset_new: "dget d k = None \<Longrightarrow> dset k v d = d @ [(k, v)]"
  by (induction d) (auto split: if_splits)

lemma dget_None_keys: "dget d k = None \<longleftrightarrow> k \<notin> fst ` set d"
  by (auto simp: map_of_eq_None_iff)

text \<open>
  The entries of a dictionary whose values satisfy \<open>P\<close>: a write changes their number by what
  it does at its own key.
\<close>

lemma filter_dset_same:
  assumes "dget d k = Some v" and "P v = P w"
  shows "length (filter P (dvalues (dset k w d))) = length (filter P (dvalues d))"
  using assms by (induction d) (auto simp: dvalues_def split: if_splits)

lemma filter_dset_new:
  assumes "dget d k = None"
  shows "filter P (dvalues (dset k w d)) = filter P (dvalues d) @ (if P w then [w] else [])"
  using assms by (simp add: dset_new dvalues_def)

section \<open>List searches\<close>

text \<open>\<^verbatim>\<open>next((e for e in reversed(xs) if P(e)), None)\<close> and \<^verbatim>\<open>[e for e in xs if P(e)][-1]\<close>.\<close>

definition last_such :: "('a \<Rightarrow> bool) \<Rightarrow> 'a list \<Rightarrow> 'a option" where
  "last_such P xs = find P (rev xs)"

definition first_such :: "('a \<Rightarrow> bool) \<Rightarrow> 'a list \<Rightarrow> 'a option" where
  "first_such P xs = find P xs"

lemma last_such_Nil [simp]: "last_such P [] = None"
  by (simp add: last_such_def)

lemma last_such_snoc [simp]:
  "last_such P (xs @ [x]) = (if P x then Some x else last_such P xs)"
  by (simp add: last_such_def)

lemma last_such_SomeD: "last_such P xs = Some x \<Longrightarrow> x \<in> set xs \<and> P x"
  by (auto simp: last_such_def find_Some_iff) (metis nth_mem set_rev length_rev)

lemma first_such_SomeD: "first_such P xs = Some x \<Longrightarrow> x \<in> set xs \<and> P x"
  by (auto simp: first_such_def find_Some_iff)

lemma last_such_None: "last_such P xs = None \<longleftrightarrow> (\<forall>x \<in> set xs. \<not> P x)"
  by (auto simp: last_such_def find_None_iff)

lemma first_such_None: "first_such P xs = None \<longleftrightarrow> (\<forall>x \<in> set xs. \<not> P x)"
  by (auto simp: first_such_def find_None_iff)

lemma last_such_ex: "x \<in> set xs \<Longrightarrow> P x \<Longrightarrow> \<exists>y. last_such P xs = Some y"
  using last_such_None [of P xs] by (cases "last_such P xs") auto

text \<open>
  Every element of a list with distinct keys is at its own index, which is how
  \<^verbatim>\<open>events[: events.index(event)]\<close> finds the prefix before an event.
\<close>

fun before :: "('a \<Rightarrow> bool) \<Rightarrow> 'a list \<Rightarrow> 'a list" where
  "before P xs = takeWhile (\<lambda>x. \<not> P x) xs"

lemma before_prefix: "\<exists>ys. xs = before P xs @ ys"
  by (metis before.simps takeWhile_dropWhile_id)

lemma set_before: "set (before P xs) \<subseteq> set xs"
  by (auto dest: set_takeWhileD)

end
