(* ===== verification/Floats.thy ===== *)
theory Floats
  imports Complex_Main Prelude
begin

text \<open>
  Python's \<^verbatim>\<open>float\<close>.  A finite value is a rational number, and an arithmetic operation
  returns the exact result rounded to 53 significant bits, ties to even (IEEE 754 binary64).
  The exponent range is not bounded here: overflow to infinity and subnormal results are not
  modelled (the scores and thresholds of the program lie between \<open>1e-12\<close> and \<open>1e6\<close>).  NaN and
  infinities never enter the shared records, whose fields reject them
  (\<^verbatim>\<open>allow_inf_nan=False\<close>).  Rounding is monotone and leaves representable values alone, and
  nothing else about it is used by the other theories.
\<close>

type_synonym pyfloat = rat

section \<open>Powers of two and binary logarithm\<close>

definition pow2 :: "int \<Rightarrow> rat" where
  "pow2 k = (if 0 \<le> k then 2 ^ nat k else 1 / 2 ^ nat (- k))"

lemma pow2_pos [simp]: "0 < pow2 k"
  by (simp add: pow2_def)

lemma pow2_nonzero [simp]: "pow2 k \<noteq> 0"
  using pow2_pos [of k] by linarith

lemma pow2_0 [simp]: "pow2 0 = 1"
  by (simp add: pow2_def)

lemma pow2_Suc: "pow2 (k + 1) = 2 * pow2 k"
proof (cases "0 \<le> k")
  case True
  then show ?thesis by (simp add: pow2_def nat_add_distrib)
next
  case False
  then have "nat (- k) = Suc (nat (- k - 1))" by simp
  with False show ?thesis by (simp add: pow2_def)
qed

lemma pow2_add_nat: "pow2 (k + int n) = 2 ^ n * pow2 k"
proof (induction n)
  case (Suc n)
  have "pow2 (k + int (Suc n)) = pow2 ((k + int n) + 1)" by (simp add: algebra_simps)
  with Suc show ?case by (simp add: pow2_Suc)
qed simp

lemma pow2_mono: "j \<le> k \<Longrightarrow> pow2 j \<le> pow2 k"
proof -
  assume "j \<le> k"
  then obtain n where k: "k = j + int n" by (metis zle_iff_zadd)
  have "1 \<le> (2::rat) ^ n" by simp
  then show ?thesis by (simp add: k pow2_add_nat)
qed

fun ilog2 :: "nat \<Rightarrow> nat" where
  "ilog2 n = (if n < 2 then 0 else Suc (ilog2 (n div 2)))"

declare ilog2.simps [simp del]

lemma ilog2_bounds: "0 < n \<Longrightarrow> 2 ^ ilog2 n \<le> n \<and> n < 2 * 2 ^ ilog2 n"
proof (induction n rule: ilog2.induct)
  case (1 n)
  show ?case
  proof (cases "n < 2")
    case True
    with "1.prems" show ?thesis by (simp add: ilog2.simps [of n])
  next
    case False
    then have IH: "2 ^ ilog2 (n div 2) \<le> n div 2 \<and> n div 2 < 2 * 2 ^ ilog2 (n div 2)"
      using "1.IH" by simp
    from False have "(2::nat) ^ ilog2 n = 2 * 2 ^ ilog2 (n div 2)"
      by (simp add: ilog2.simps [of n])
    with IH show ?thesis by linarith
  qed
qed

text \<open>The exponent of the binade of a positive rational: \<open>pow2 e \<le> x < 2 * pow2 e\<close>.\<close>

definition rat_log2 :: "rat \<Rightarrow> int" where
  "rat_log2 x = (let (n, d) = quotient_of x; e = int (ilog2 (nat n)) - int (ilog2 (nat d))
     in if pow2 e \<le> x then e else e - 1)"

lemma rat_log2_bounds:
  assumes "0 < x"
  shows "pow2 (rat_log2 x) \<le> x \<and> x < 2 * pow2 (rat_log2 x)"
proof -
  obtain n d where q: "quotient_of x = (n, d)" by (cases "quotient_of x")
  then have d: "0 < d" and x: "x = of_int n / of_int d"
    by (simp_all add: quotient_of_denom_pos quotient_of_div)
  with assms have n: "0 < n" by (simp add: zero_less_divide_iff)
  define a b where "a = ilog2 (nat n)" and "b = ilog2 (nat d)"
  have na: "2 ^ a \<le> nat n" "nat n < 2 * 2 ^ a" and db: "2 ^ b \<le> nat d" "nat d < 2 * 2 ^ b"
    using ilog2_bounds [of "nat n"] ilog2_bounds [of "nat d"] n d by (auto simp: a_def b_def)
  have N: "(2::rat) ^ a \<le> of_int n" "of_int n < (2::rat) * 2 ^ a"
    using na n by (simp_all flip: of_nat_less_iff [where 'a = rat] of_nat_le_iff [where 'a = rat])
  have D: "(2::rat) ^ b \<le> of_int d" "of_int d < (2::rat) * 2 ^ b"
    using db d by (simp_all flip: of_nat_less_iff [where 'a = rat] of_nat_le_iff [where 'a = rat])
  define e where "e = int a - int b"
  have pe: "pow2 e * 2 ^ b = 2 ^ a"
    using pow2_add_nat [of e b] pow2_add_nat [of 0 a] by (simp add: e_def algebra_simps)
  have dpos: "(0::rat) < of_int d" using d by simp
  have up: "x < 2 * pow2 e"
  proof -
    have "of_int n < 2 * (pow2 e * 2 ^ b)" using N(2) pe by simp
    also have "\<dots> \<le> 2 * (pow2 e * of_int d)" using D(1) by simp
    finally show ?thesis using dpos by (simp add: x divide_less_eq algebra_simps)
  qed
  have lo: "pow2 (e - 1) \<le> x"
  proof -
    have "pow2 (e - 1) * of_int d \<le> pow2 (e - 1) * (2 * 2 ^ b)" using D(2) by simp
    also have "\<dots> = pow2 e * 2 ^ b" using pow2_Suc [of "e - 1"] by simp
    also have "\<dots> \<le> of_int n" using N(1) pe by simp
    finally show ?thesis using dpos by (simp add: x le_divide_eq)
  qed
  have "rat_log2 x = (if pow2 e \<le> x then e else e - 1)"
    by (simp add: rat_log2_def q e_def a_def b_def)
  with up lo show ?thesis using pow2_Suc [of "e - 1"] by auto
qed

lemma rat_log2_mono:
  assumes "0 < x" "x \<le> y" shows "rat_log2 x \<le> rat_log2 y"
proof (rule ccontr)
  assume "\<not> rat_log2 x \<le> rat_log2 y"
  then have "pow2 (rat_log2 y + 1) \<le> pow2 (rat_log2 x)" by (intro pow2_mono) simp
  also have "\<dots> \<le> x" using rat_log2_bounds [OF assms(1)] by simp
  finally show False
    using rat_log2_bounds [of y] assms by (simp add: pow2_Suc)
qed

section \<open>Rounding to nearest, ties to even\<close>

definition round_even :: "rat \<Rightarrow> int" where
  "round_even x = (let f = \<lfloor>x\<rfloor>; r = x - of_int f
     in if r < 1 / 2 then f else if 1 / 2 < r then f + 1 else if even f then f else f + 1)"

lemma round_even_of_int [simp]: "round_even (of_int k) = k"
  by (simp add: round_even_def)

lemma round_even_between: "\<lfloor>x\<rfloor> \<le> round_even x \<and> round_even x \<le> \<lfloor>x\<rfloor> + 1"
  by (simp add: round_even_def Let_def)

lemma round_even_mono: assumes "x \<le> y" shows "round_even x \<le> round_even y"
proof (cases "\<lfloor>x\<rfloor> = \<lfloor>y\<rfloor>")
  case True
  with assms show ?thesis by (auto simp: round_even_def Let_def)
next
  case False
  with assms have "\<lfloor>x\<rfloor> + 1 \<le> \<lfloor>y\<rfloor>" using floor_mono [OF assms] by simp
  with round_even_between [of x] round_even_between [of y] show ?thesis by linarith
qed

lemma round_even_le: "x \<le> of_int k \<Longrightarrow> round_even x \<le> k"
  using round_even_mono [of x "of_int k"] by simp

lemma round_even_ge: "of_int k \<le> x \<Longrightarrow> k \<le> round_even x"
  using round_even_mono [of "of_int k" x] by simp

text \<open>The unit in the last place of a positive value, and rounding of a positive value.\<close>

definition ulp :: "rat \<Rightarrow> rat" where
  "ulp x = pow2 (rat_log2 x - 52)"

definition fl_pos :: "rat \<Rightarrow> rat" where
  "fl_pos x = of_int (round_even (x / ulp x)) * ulp x"

definition fl :: "rat \<Rightarrow> pyfloat" where
  "fl x = (if x = 0 then 0 else if 0 < x then fl_pos x else - fl_pos (- x))"

lemma ulp_pos [simp]: "0 < ulp x"
  by (simp add: ulp_def)

lemma ulp_nonzero [simp]: "ulp x \<noteq> 0"
  using ulp_pos [of x] by linarith

lemma pow2_ulp: "pow2 (rat_log2 x) = of_int (2 ^ 52) * ulp x"
  using pow2_add_nat [of "rat_log2 x - 52" 52] by (simp add: ulp_def)

lemma fl_pos_bounds:
  assumes "0 < x"
  shows "pow2 (rat_log2 x) \<le> fl_pos x \<and> fl_pos x \<le> 2 * pow2 (rat_log2 x)"
proof -
  have "of_int (2 ^ 52) \<le> x / ulp x"
    using rat_log2_bounds [OF assms] by (simp only: pow2_ulp le_divide_eq ulp_pos if_True)
  then have lo: "2 ^ 52 \<le> round_even (x / ulp x)" by (rule round_even_ge)
  have "x / ulp x \<le> of_int (2 * 2 ^ 52)"
    using rat_log2_bounds [OF assms] by (simp add: pow2_ulp divide_le_eq)
  then have hi: "round_even (x / ulp x) \<le> 2 * 2 ^ 52" by (rule round_even_le)
  have "of_int (2 ^ 52) * ulp x \<le> of_int (round_even (x / ulp x)) * ulp x"
    using lo ulp_pos [of x] by (intro mult_right_mono) (simp_all only: of_int_le_iff less_imp_le)
  moreover have "of_int (round_even (x / ulp x)) * ulp x \<le> of_int (2 * 2 ^ 52) * ulp x"
    using hi ulp_pos [of x] by (intro mult_right_mono) (simp_all only: of_int_le_iff less_imp_le)
  ultimately show ?thesis by (simp add: fl_pos_def pow2_ulp)
qed

lemma fl_pos_mono:
  assumes "0 < x" "x \<le> y" shows "fl_pos x \<le> fl_pos y"
proof (cases "rat_log2 x = rat_log2 y")
  case True
  then have u: "ulp x = ulp y" by (simp add: ulp_def)
  have "round_even (x / ulp y) \<le> round_even (y / ulp y)"
    using assms(2) by (intro round_even_mono divide_right_mono) (simp_all add: less_imp_le)
  then show ?thesis using ulp_pos [of y] by (simp add: fl_pos_def u)
next
  case False
  with rat_log2_mono [OF assms] have "pow2 (rat_log2 x + 1) \<le> pow2 (rat_log2 y)"
    by (intro pow2_mono) simp
  moreover have "fl_pos x \<le> 2 * pow2 (rat_log2 x)" using fl_pos_bounds [OF assms(1)] by simp
  moreover have "pow2 (rat_log2 y) \<le> fl_pos y" using fl_pos_bounds [of y] assms by simp
  ultimately show ?thesis by (simp add: pow2_Suc)
qed

lemma fl_0 [simp]: "fl 0 = 0"
  by (simp add: fl_def)

lemma fl_pos_pos: "0 < x \<Longrightarrow> 0 < fl_pos x"
  using fl_pos_bounds [of x] pow2_pos [of "rat_log2 x"] by linarith

lemma fl_uminus: "fl (- x) = - fl x"
  by (simp add: fl_def)

lemma fl_nonneg: "0 \<le> x \<Longrightarrow> 0 \<le> fl x"
  using fl_pos_pos [of x] by (auto simp: fl_def)

theorem fl_mono:
  assumes "x \<le> y" shows "fl x \<le> fl y"
proof (cases "0 < x")
  case True
  with assms show ?thesis by (simp add: fl_def fl_pos_mono)
next
  case False
  show ?thesis
  proof (cases "0 \<le> y")
    case True
    have "0 \<le> fl (- x)" using False by (intro fl_nonneg) simp
    with True fl_nonneg [of y] show ?thesis by (simp add: fl_uminus)
  next
    case False
    with assms have "fl_pos (- y) \<le> fl_pos (- x)" by (intro fl_pos_mono) auto
    with False assms show ?thesis by (simp add: fl_def)
  qed
qed

section \<open>Representable values and arithmetic\<close>

definition is_float :: "rat \<Rightarrow> bool" where
  "is_float x \<longleftrightarrow> fl x = x"

lemma is_float_0 [simp]: "is_float 0"
  by (simp add: is_float_def)

text \<open>An integer multiple of a power of two with at most 53 significant bits is representable.\<close>

lemma round_even_scale:
  assumes "x / u = of_int m" and "0 < u" shows "of_int (round_even (x / u)) * u = x"
  using assms by (simp add: field_simps)

lemma is_float_pow2_mult:
  assumes "0 < m" "m < 2 ^ 53" shows "is_float (of_int m * pow2 k)"
proof -
  define x where "x = of_int m * pow2 k"
  have x: "0 < x" using assms by (simp add: x_def)
  have "pow2 (rat_log2 x) < pow2 (k + int 53)"
  proof -
    have "(of_int m :: rat) < of_int (2 ^ 53)" using assms(2) by (simp only: of_int_less_iff)
    then have "x < of_int (2 ^ 53) * pow2 k" unfolding x_def by (rule mult_strict_right_mono) simp
    also have "\<dots> = pow2 (k + int 53)" by (simp only: pow2_add_nat of_int_power of_int_numeral)
    finally show ?thesis using rat_log2_bounds [OF x] by simp
  qed
  then have "rat_log2 x < k + 53" using pow2_mono [of "k + 53" "rat_log2 x"] by (force simp: not_le)
  then have "0 \<le> k + 52 - rat_log2 x" by simp
  then obtain n where k: "k = (rat_log2 x - 52) + int n"
    by (metis add_diff_eq diff_add_cancel diff_add_eq nonneg_int_cases add.commute)
  have "pow2 k = 2 ^ n * ulp x"
    unfolding ulp_def pow2_add_nat [symmetric] by (rule arg_cong [OF k])
  then have "x = of_int m * (2 ^ n * ulp x)" by (simp add: x_def)
  then have "x / ulp x = of_int (m * 2 ^ n)"
    using ulp_pos [of x] by (simp add: divide_eq_eq mult_ac)
  then have "fl x = x"
    using round_even_scale [of x "ulp x" "m * 2 ^ n"] x by (simp add: fl_def fl_pos_def)
  then show ?thesis by (simp add: is_float_def x_def)
qed

lemma is_float_1 [simp]: "is_float 1"
  using is_float_pow2_mult [of 1 0] by simp

lemma is_float_uminus [simp]: "is_float (- x) \<longleftrightarrow> is_float x"
  by (simp add: is_float_def fl_uminus)

text \<open>What rounding returns is representable.\<close>

lemma is_float_fl_pos:
  assumes "0 < x" shows "is_float (fl_pos x)"
proof -
  define m where "m = round_even (x / ulp x)"
  have fl: "fl_pos x = of_int m * pow2 (rat_log2 x - 52)" by (simp add: fl_pos_def m_def ulp_def)
  have "of_int m * ulp x \<le> 2 * (of_int (2 ^ 52) * ulp x)" "of_int (2 ^ 52) * ulp x \<le> of_int m * ulp x"
    using fl_pos_bounds [OF assms] by (simp_all only: pow2_ulp fl_pos_def m_def)
  then have "of_int m * ulp x \<le> of_int (2 ^ 53) * ulp x" "of_int (2 ^ 52) * ulp x \<le> of_int m * ulp x"
    by simp_all
  then have m: "m \<le> 2 ^ 53" "2 ^ 52 \<le> m"
    using ulp_pos [of x] by (simp_all only: mult_le_cancel_right_pos of_int_le_iff)
  show ?thesis
  proof (cases "m = 2 ^ 53")
    case True
    have "fl_pos x = of_int 1 * pow2 (rat_log2 x - 52 + int 53)"
      using pow2_add_nat [of "rat_log2 x - 52" 53] by (simp only: fl True of_int_power of_int_numeral of_int_1 mult_1)
    with is_float_pow2_mult [of 1] show ?thesis by (simp only: one_less_numeral_iff) simp
  next
    case False
    with m is_float_pow2_mult [of m] show ?thesis by (simp add: fl)
  qed
qed

lemma is_float_fl [simp]: "is_float (fl x)"
  using is_float_fl_pos [of x] is_float_fl_pos [of "- x"] by (simp add: fl_def)

lemma fl_id: "is_float x \<Longrightarrow> fl x = x"
  by (simp add: is_float_def)

lemma fl_unit:
  assumes "0 \<le> x" and "x \<le> 1" shows "0 \<le> fl x \<and> fl x \<le> 1"
  using assms fl_nonneg [of x] fl_mono [of x 1] by (simp add: fl_id)

text \<open>Rounding does not cross a power of two.\<close>

lemma fl_pow2 [simp]: "fl (pow2 k) = pow2 k"
  using is_float_pow2_mult [of 1 k] by (simp add: is_float_def)

lemma fl_le_pow2: "x \<le> pow2 k \<Longrightarrow> fl x \<le> pow2 k" and fl_ge_pow2: "pow2 k \<le> x \<Longrightarrow> pow2 k \<le> fl x"
  using fl_mono [of x "pow2 k"] fl_mono [of "pow2 k" x] by simp_all

definition fadd :: "pyfloat \<Rightarrow> pyfloat \<Rightarrow> pyfloat" where
  "fadd a b = fl (a + b)"

definition fsub :: "pyfloat \<Rightarrow> pyfloat \<Rightarrow> pyfloat" where
  "fsub a b = fl (a - b)"

definition fmul :: "pyfloat \<Rightarrow> pyfloat \<Rightarrow> pyfloat" where
  "fmul a b = fl (a * b)"

definition fdiv :: "pyfloat \<Rightarrow> pyfloat \<Rightarrow> pyfloat" where
  "fdiv a b = fl (a / b)"

text \<open>A non-negative margin never moves a threshold below the value it is added to.\<close>

lemma fadd_ge: "is_float a \<Longrightarrow> 0 \<le> e \<Longrightarrow> a \<le> fadd a e"
  using fl_mono [of a "a + e"] by (simp add: is_float_def fadd_def)

lemma fsub_posD: "0 < fsub a b \<Longrightarrow> b < a"
  using fl_mono [of "a - b" 0] by (force simp: fsub_def)

end
