(* ===== verification/Identifiers.thy ===== *)
theory Identifiers
  imports Prelude
begin

text \<open>
  The string checks of \<^verbatim>\<open>schemas.py\<close>: Python's \<^verbatim>\<open>strip\<close> and \<^verbatim>\<open>split\<close>, the patterns
  \<^verbatim>\<open>SHA256_RE\<close>, \<^verbatim>\<open>ID_RE\<close> and \<^verbatim>\<open>EVENT_ID_RE\<close>, the event identifier
  \<^verbatim>\<open>"evt_%06d" % seq\<close>, and \<^verbatim>\<open>normalize_relative_path\<close>.  A \<^typ>\<open>string\<close> is a list
  of characters with code points below 256; a Python string with larger code points is outside
  the model.
\<close>

section \<open>Python string operations\<close>

definition py_isspace :: "char \<Rightarrow> bool" where
  "py_isspace c \<longleftrightarrow> of_char c \<in> set [9, 10, 11, 12, 13, 28, 29, 30, 31, 32, 133, 160 :: nat]"

definition py_strip :: "string \<Rightarrow> string" where
  "py_strip s = rev (dropWhile py_isspace (rev (dropWhile py_isspace s)))"

definition is_digit :: "char \<Rightarrow> bool" where
  "is_digit c \<longleftrightarrow> 48 \<le> (of_char c :: nat) \<and> (of_char c :: nat) \<le> 57"

definition is_lower_hex :: "char \<Rightarrow> bool" where
  "is_lower_hex c \<longleftrightarrow> is_digit c \<or> 97 \<le> (of_char c :: nat) \<and> (of_char c :: nat) \<le> 102"

definition is_alnum :: "char \<Rightarrow> bool" where
  "is_alnum c \<longleftrightarrow> is_digit c \<or> 65 \<le> (of_char c :: nat) \<and> (of_char c :: nat) \<le> 90
     \<or> 97 \<le> (of_char c :: nat) \<and> (of_char c :: nat) \<le> 122"

text \<open>\<^verbatim>\<open>s.split(sep)\<close> for a separator of one character: one more part than separators.\<close>

fun split_on :: "char \<Rightarrow> string \<Rightarrow> string list" where
  "split_on d [] = [[]]"
| "split_on d (c # s) =
     (if c = d then [] # split_on d s
      else (case split_on d s of [] \<Rightarrow> [[c]] | p # ps \<Rightarrow> (c # p) # ps))"

fun join_with :: "string \<Rightarrow> string list \<Rightarrow> string" where
  "join_with d [] = []"
| "join_with d [p] = p"
| "join_with d (p # q # ps) = p @ d @ join_with d (q # ps)"

lemma split_on_nonempty [simp]: "split_on d s \<noteq> []"
  by (induction s) (auto split: list.splits)

lemma join_cons_head: "join_with d ((c # p) # ps) = c # join_with d (p # ps)"
  by (cases ps) simp_all

lemma join_split: "join_with [d] (split_on d s) = s"
proof (induction s)
  case (Cons c s)
  then show ?case
    by (cases "split_on d s") (auto simp: neq_Nil_conv join_cons_head)
qed simp

lemma split_on_no_sep: "p \<in> set (split_on d s) \<Longrightarrow> d \<notin> set p"
  by (induction s arbitrary: p) (auto split: if_splits list.splits)

lemma split_join:
  assumes "ps \<noteq> []" and "\<forall>p \<in> set ps. d \<notin> set p"
  shows "split_on d (join_with [d] ps) = ps"
proof -
  have no_sep: "split_on d p = [p]" if "d \<notin> set p" for p
    using that by (induction p) auto
  have app: "split_on d (p @ d # s) = p # split_on d s" if "d \<notin> set p" for p s
    using that by (induction p) auto
  show ?thesis
    using assms by (induction "[d]" ps rule: join_with.induct) (auto simp: no_sep app)
qed

section \<open>The patterns of the schema\<close>

definition SHA256_RE :: "string \<Rightarrow> bool" where
  "SHA256_RE s \<longleftrightarrow> length s = 64 \<and> list_all is_lower_hex s"

definition id_char :: "char \<Rightarrow> bool" where
  "id_char c \<longleftrightarrow> is_alnum c \<or> c \<in> set ''_.-''"

definition ID_RE :: "string \<Rightarrow> bool" where
  "ID_RE s \<longleftrightarrow> (case s of [] \<Rightarrow> False
     | c # cs \<Rightarrow> is_alnum c \<and> list_all id_char cs \<and> length cs \<le> 127)"

definition EVENT_ID_RE :: "string \<Rightarrow> bool" where
  "EVENT_ID_RE s \<longleftrightarrow> take 4 s = ''evt_'' \<and> 6 \<le> length (drop 4 s) \<and> list_all is_digit (drop 4 s)"

text \<open>\<^verbatim>\<open>NonEmptyStr\<close> under \<^verbatim>\<open>str_strip_whitespace\<close>: what is stored is stripped and not empty.\<close>

definition nonempty_str :: "string \<Rightarrow> bool" where
  "nonempty_str s \<longleftrightarrow> s \<noteq> [] \<and> py_strip s = s"

definition valid_id :: "string \<Rightarrow> bool" where
  "valid_id s \<longleftrightarrow> ID_RE s"

definition ZERO_SHA256 :: string where
  "ZERO_SHA256 = replicate 64 CHR ''0''"

lemma ZERO_SHA256_ok: "SHA256_RE ZERO_SHA256"
  by (simp add: SHA256_RE_def ZERO_SHA256_def is_lower_hex_def is_digit_def list_all_iff)

section \<open>Event identifiers\<close>

fun digits_of :: "nat \<Rightarrow> string" where
  "digits_of n = (if n < 10 then [char_of (48 + n)] else digits_of (n div 10) @ [char_of (48 + n mod 10)])"

declare digits_of.simps [simp del]

definition digit_value :: "char \<Rightarrow> nat" where
  "digit_value c = of_char c - 48"

definition number_of_digits :: "string \<Rightarrow> nat" where
  "number_of_digits s = foldl (\<lambda>n c. 10 * n + digit_value c) 0 s"

lemma digit_value_char [simp]: "k < 10 \<Longrightarrow> digit_value (char_of (48 + k)) = k"
  by (simp add: digit_value_def of_char_of)

lemma number_of_digits_snoc [simp]:
  "number_of_digits (s @ [c]) = 10 * number_of_digits s + digit_value c"
  by (simp add: number_of_digits_def)

lemma number_of_digits_of [simp]: "number_of_digits (digits_of n) = n"
proof (induction n rule: digits_of.induct)
  case (1 n)
  show ?case
  proof (cases "n < 10")
    case True
    then show ?thesis
      by (simp add: digits_of.simps [of n] number_of_digits_def)
  next
    case False
    with 1 show ?thesis by (simp add: digits_of.simps [of n])
  qed
qed

lemma number_of_zeros: "number_of_digits (replicate k CHR ''0'' @ s) = number_of_digits s"
proof -
  have "foldl (\<lambda>n c. 10 * n + digit_value c) 0 (replicate k CHR ''0'') = 0"
    by (induction k) (simp_all add: digit_value_def)
  then show ?thesis by (simp add: number_of_digits_def)
qed

text \<open>\<^verbatim>\<open>"evt_%06d" % seq\<close>\<close>

definition event_id_of :: "nat \<Rightarrow> string" where
  "event_id_of seq = ''evt_'' @ replicate (6 - length (digits_of seq)) CHR ''0'' @ digits_of seq"

lemma event_id_of_inject [simp]: "event_id_of m = event_id_of n \<longleftrightarrow> m = n"
proof
  assume "event_id_of m = event_id_of n"
  then have "replicate (6 - length (digits_of m)) CHR ''0'' @ digits_of m
      = replicate (6 - length (digits_of n)) CHR ''0'' @ digits_of n"
    by (simp add: event_id_of_def)
  then show "m = n" using number_of_zeros number_of_digits_of by metis
qed simp

text \<open>\<^verbatim>\<open>int(event_id.split("_")[1])\<close>\<close>

definition event_id_number :: "string \<Rightarrow> nat" where
  "event_id_number s = number_of_digits (drop 4 s)"

lemma event_id_number_of [simp]: "event_id_number (event_id_of n) = n"
  by (simp add: event_id_number_def event_id_of_def number_of_zeros)

section \<open>Repository-relative paths\<close>

text \<open>\<^verbatim>\<open>PurePosixPath(value).parts\<close>: empty and \<^verbatim>\<open>"."\<close> components are dropped.\<close>

definition pure_parts :: "string \<Rightarrow> string list" where
  "pure_parts v = filter (\<lambda>p. p \<noteq> [] \<and> p \<noteq> ''.'') (split_on CHR ''/'' v)"

definition is_absolute :: "string \<Rightarrow> bool" where
  "is_absolute v \<longleftrightarrow> take 1 v = ''/''"

text \<open>\<^verbatim>\<open>str(PurePosixPath(value))\<close> for a relative path.\<close>

definition pure_str :: "string \<Rightarrow> string" where
  "pure_str v = (if pure_parts v = [] then ''.'' else join_with ''/'' (pure_parts v))"

definition normalize_relative_path :: "string \<Rightarrow> string res" where
  "normalize_relative_path v =
     guarded (ValueError ''path must be a non-empty POSIX path'')
       (v \<noteq> [] \<and> CHR 0x5C \<notin> set v \<and> CHR 0x00 \<notin> set v)
     (guarded (ValueError ''path must be normalized and repository-relative'')
       (\<not> is_absolute v \<and> ''..'' \<notin> set (pure_parts v))
     (guarded (ValueError ''path must already be normalized'') (pure_str v = v)
     (Inr v)))"

definition valid_path :: "string \<Rightarrow> bool" where
  "valid_path v \<longleftrightarrow> normalize_relative_path v = Inr v"

lemma normalize_relative_path_id: "normalize_relative_path v = Inr w \<Longrightarrow> w = v"
  by (simp add: normalize_relative_path_def raise_simps)

text \<open>
  The components of an accepted path: none is empty, \<^verbatim>\<open>"."\<close> or \<^verbatim>\<open>".."\<close>, and joining them
  gives the path back.  The path \<^verbatim>\<open>"."\<close> (the root itself, with no components) is accepted too.
\<close>

lemma normalized_components:
  assumes "normalize_relative_path v = Inr w" and "v \<noteq> ''.''"
  shows "split_on CHR ''/'' v = pure_parts v \<and> (\<forall>p \<in> set (pure_parts v). p \<notin> {[], ''.'', ''..''})"
proof -
  from assms have str: "pure_str v = v" and dots: "''..'' \<notin> set (pure_parts v)"
    by (auto simp: normalize_relative_path_def raise_simps)
  with assms(2) have ne: "pure_parts v \<noteq> []" and j: "join_with ''/'' (pure_parts v) = v"
    by (auto simp: pure_str_def split: if_splits)
  have "\<forall>p \<in> set (pure_parts v). CHR ''/'' \<notin> set p"
    by (auto simp: pure_parts_def dest: split_on_no_sep)
  with ne have "split_on CHR ''/'' (join_with ''/'' (pure_parts v)) = pure_parts v"
    by (rule split_join)
  moreover have "\<forall>p \<in> set (pure_parts v). p \<noteq> [] \<and> p \<noteq> ''.''" by (simp add: pure_parts_def)
  ultimately show ?thesis using j dots by auto
qed

end
