(* ===== verification/Schemas.thy ===== *)
theory Schemas
  imports Floats Identifiers
begin

text \<open>
  The shared records of \<^verbatim>\<open>src/src/tacorank/schemas.py\<close> that cross the component boundaries:
  enumerations as datatypes (constructors carry the enumeration's name, since the Python members
  repeat names), Pydantic models as records (fields carry a short prefix of the model's name), and
  for each model the predicate \<open>valid_M\<close> that says that the model's constructor accepts a value
  as it is.  \<^verbatim>\<open>StrictModel\<close> strips the strings it stores, so a stored \<^verbatim>\<open>NonEmptyStr\<close> is
  stripped and non-empty (\<^const>\<open>nonempty_str\<close>); the text of a \<^verbatim>\<open>ValidationError\<close> is not
  modelled, only whether it is raised.
\<close>

section \<open>Enumerations\<close>

datatype artifact_kind = Artifact_DIFF | Artifact_TRAJECTORY | Artifact_CONTEXT | Artifact_LOG
  | Artifact_CHECKPOINT | Artifact_PREDICTIONS | Artifact_METRICS | Artifact_DELTA_VECTOR
  | Artifact_VERIFICATION_RECEIPT | Artifact_SUBMISSION | Artifact_REPORT | Artifact_OTHER

datatype token_measurement = Measured_PROVIDER | Measured_ESTIMATED | Measured_NONE

datatype cost_tier = Cost_LOW | Cost_MEDIUM | Cost_HIGH

datatype fidelity = Fidelity_SMOKE | Fidelity_PROXY | Fidelity_FULL | Fidelity_FINAL

datatype check_status = Check_PASS | Check_FAIL | Check_NOT_APPLICABLE

datatype planner_action = Planner_PROPOSE | Planner_RECOMMEND_STOP | Planner_BLOCKED

datatype run_outcome = Outcome_SUCCESS | Outcome_CODE_ERROR | Outcome_INTERFACE_ERROR
  | Outcome_CONTRACT_ERROR | Outcome_NUMERICAL_ERROR | Outcome_OOM | Outcome_TIMEOUT
  | Outcome_HANG | Outcome_INFRASTRUCTURE_ERROR | Outcome_CANCELLED

datatype monitor_action = Monitor_CONTINUE | Monitor_TERMINATE

datatype recovery_action = Recovery_TRAE_REPAIR | Recovery_RESTART_FROM_TRUSTED_PARENT
  | Recovery_RETRY_SAME_COMMIT | Recovery_ADJUST_APPROVED_RUNTIME_SETTING
  | Recovery_RETURN_TO_PLANNER | Recovery_ROLLBACK | Recovery_ABANDON

datatype population = Population_INTERNAL_PROXY | Population_PUBLIC_VALIDATION
  | Population_UNBIASED_AUDIT | Population_HIDDEN_FINAL

datatype trust_verdict = Verdict_ACCEPTED | Verdict_INCONCLUSIVE | Verdict_NEGATIVE
  | Verdict_NO_OP | Verdict_SUSPICIOUS | Verdict_REDUNDANT

datatype stability = Stability_SINGLE_SEED | Stability_CONFIRMED | Stability_UNSTABLE
  | Stability_NOT_APPLICABLE

datatype integrity = Integrity_CLEAN | Integrity_COMPROMISED | Integrity_INCONCLUSIVE

datatype decision_kind = Decision_PROMOTE | Decision_ACCEPT | Decision_REJECT | Decision_PRUNE
  | Decision_INVALID

datatype experiment_family = Family_OBJECTIVE | Family_SAMPLING | Family_TEMPORAL_HISTORY
  | Family_FEATURES | Family_MODEL | Family_MULTITASK | Family_DURATION_BIAS | Family_ENSEMBLE
  | Family_EVALUATION | Family_OTHER

datatype experiment_kind = Kind_FRAME | Kind_CONTENT | Kind_CAPACITY | Kind_COMPOSITION
  | Kind_POLICY | Kind_OTHER

datatype method_status = Method_CANDIDATE | Method_BLOCKED | Method_KNOWN_NEGATIVE
  | Method_FORBIDDEN

datatype lesson_origin = Origin_OPERATIONAL | Origin_RESEARCH

datatype lesson_category = Category_RESEARCH_RESULT | Category_RESOURCE_CONSTRAINT
  | Category_IMPLEMENTATION_CONSTRAINT | Category_INTEGRITY_WARNING | Category_PROCESS_RULE

datatype lesson_status = Lesson_ACTIVE | Lesson_SUPERSEDED | Lesson_STALE | Lesson_REJECTED

fun family_kind :: "experiment_family \<Rightarrow> experiment_kind" where
  "family_kind Family_OBJECTIVE = Kind_FRAME"
| "family_kind Family_SAMPLING = Kind_FRAME"
| "family_kind Family_TEMPORAL_HISTORY = Kind_CONTENT"
| "family_kind Family_FEATURES = Kind_CONTENT"
| "family_kind Family_MULTITASK = Kind_CONTENT"
| "family_kind Family_DURATION_BIAS = Kind_CONTENT"
| "family_kind Family_MODEL = Kind_CAPACITY"
| "family_kind Family_ENSEMBLE = Kind_COMPOSITION"
| "family_kind Family_EVALUATION = Kind_POLICY"
| "family_kind Family_OTHER = Kind_OTHER"

section \<open>Untyped values and runtime settings\<close>

text \<open>The values a field of type \<^verbatim>\<open>Any\<close> can hold: what JSON can express.\<close>

datatype pyval = PyNone | PyBool bool | PyInt int | PyFloat rat | PyStr string
  | PyList "pyval list" | PyDict "(string \<times> pyval) list"

definition RUNTIME_ADJUSTMENT_KEYS :: "string list" where
  "RUNTIME_ADJUSTMENT_KEYS = [''batch_size'', ''num_workers'', ''mixed_precision'', ''timeout_profile'']"

text \<open>\<^verbatim>\<open>value.get("next_value", value.get("value"))\<close> of a mapping, the head of a sequence.\<close>

fun runtime_next_value :: "pyval \<Rightarrow> pyval" where
  "runtime_next_value (PyDict d) =
     (case dget d ''next_value'' of Some v \<Rightarrow> v
      | None \<Rightarrow> (case dget d ''value'' of Some v \<Rightarrow> v | None \<Rightarrow> PyNone))"
| "runtime_next_value (PyList xs) = (case xs of [] \<Rightarrow> PyNone | x # _ \<Rightarrow> x)"
| "runtime_next_value v = v"

definition runtime_value_ok :: "string \<Rightarrow> pyval \<Rightarrow> bool" where
  "runtime_value_ok name v =
     (if name = ''batch_size'' then (case v of PyInt k \<Rightarrow> 0 < k | _ \<Rightarrow> False)
      else if name = ''num_workers'' then (case v of PyInt k \<Rightarrow> 0 \<le> k | _ \<Rightarrow> False)
      else if name = ''mixed_precision'' then (case v of PyBool _ \<Rightarrow> True | _ \<Rightarrow> False)
      else if name = ''timeout_profile'' then (case v of PyStr s \<Rightarrow> py_strip s \<noteq> [] | _ \<Rightarrow> False)
      else False)"

definition valid_runtime_mapping :: "(string, pyval) dict \<Rightarrow> bool" where
  "valid_runtime_mapping d \<longleftrightarrow> dict_ok d \<and> set (dkeys d) \<subseteq> set RUNTIME_ADJUSTMENT_KEYS
     \<and> list_all (\<lambda>(name, raw). runtime_value_ok name (runtime_next_value raw)) d"

section \<open>Artifacts, resources, metrics\<close>

record artifact_ref =
  art_artifact_id :: string
  art_kind :: artifact_kind
  art_path :: string
  art_sha256 :: string
  art_size_bytes :: int
  art_content_type :: "string option"

definition valid_artifact_ref :: "artifact_ref \<Rightarrow> bool" where
  "valid_artifact_ref a \<longleftrightarrow> valid_id (art_artifact_id a) \<and> valid_path (art_path a)
     \<and> SHA256_RE (art_sha256 a) \<and> 0 \<le> art_size_bytes a"

record resource_delta =
  rd_llm_input_tokens :: int
  rd_llm_output_tokens :: int
  rd_token_measurement :: token_measurement
  rd_wall_time_ms :: int
  rd_cpu_time_ms :: int
  rd_gpu_time_ms :: int
  rd_gpu_count :: int
  rd_peak_rss_mb :: "int option"
  rd_peak_gpu_memory_mb :: "int option"
  rd_manual_interventions :: int

definition nonneg_opt :: "int option \<Rightarrow> bool" where
  "nonneg_opt v = (case v of None \<Rightarrow> True | Some k \<Rightarrow> 0 \<le> k)"

definition valid_resource_delta :: "resource_delta \<Rightarrow> bool" where
  "valid_resource_delta r \<longleftrightarrow> 0 \<le> rd_llm_input_tokens r \<and> 0 \<le> rd_llm_output_tokens r
     \<and> 0 \<le> rd_wall_time_ms r \<and> 0 \<le> rd_cpu_time_ms r \<and> 0 \<le> rd_gpu_time_ms r
     \<and> 0 \<le> rd_gpu_count r \<and> nonneg_opt (rd_peak_rss_mb r) \<and> nonneg_opt (rd_peak_gpu_memory_mb r)
     \<and> 0 \<le> rd_manual_interventions r"

text \<open>\<^verbatim>\<open>ResourceDelta()\<close>\<close>

definition zero_delta :: resource_delta where
  "zero_delta = \<lparr>rd_llm_input_tokens = 0, rd_llm_output_tokens = 0,
     rd_token_measurement = Measured_NONE, rd_wall_time_ms = 0, rd_cpu_time_ms = 0,
     rd_gpu_time_ms = 0, rd_gpu_count = 0, rd_peak_rss_mb = None, rd_peak_gpu_memory_mb = None,
     rd_manual_interventions = 0\<rparr>"

lemma zero_delta_valid [simp]: "valid_resource_delta zero_delta"
  by (simp add: valid_resource_delta_def zero_delta_def nonneg_opt_def)

record metric_set =
  ms_metrics :: "(string, pyfloat) dict"
  ms_primary_metric_name :: string
  ms_primary_score :: pyfloat

definition valid_metric_set :: "metric_set \<Rightarrow> bool" where
  "valid_metric_set m \<longleftrightarrow> dict_ok (ms_metrics m) \<and> ms_metrics m \<noteq> []
     \<and> list_all (\<lambda>(name, v). py_strip name \<noteq> [] \<and> is_float v) (ms_metrics m)
     \<and> nonempty_str (ms_primary_metric_name m) \<and> is_float (ms_primary_score m)
     \<and> (case dget (ms_metrics m) (ms_primary_metric_name m) of
          None \<Rightarrow> True | Some v \<Rightarrow> v = ms_primary_score m)"

text \<open>
  \<^verbatim>\<open>MetricSet.validate_contract\<close>; \<^verbatim>\<open>math.isclose(a, b, rel_tol=0.0, abs_tol=t)\<close> holds of
  finite values when they are equal or their rounded difference is at most \<open>t\<close>.
\<close>

definition isclose_abs :: "pyfloat \<Rightarrow> pyfloat \<Rightarrow> pyfloat \<Rightarrow> bool" where
  "isclose_abs a b t \<longleftrightarrow> a = b \<or> \<bar>fsub b a\<bar> \<le> t"

definition metric_set_validate_contract ::
  "metric_set \<Rightarrow> string list \<Rightarrow> string list \<Rightarrow> pyfloat option \<Rightarrow> pyfloat \<Rightarrow> unit res" where
  "metric_set_validate_contract m required diagnostic expected tolerance =
     (let names = set (dkeys (ms_metrics m)); allowed = set required \<union> set diagnostic in
      guarded (ValueError ''MetricSet is missing required contract metrics'')
        (set required \<subseteq> names)
     (guarded (ValueError ''MetricSet contains undeclared diagnostic metrics'') (names \<subseteq> allowed)
     (guarded (ValueError ''primary_score does not match contract aggregation'')
        (case expected of None \<Rightarrow> True | Some e \<Rightarrow> isclose_abs (ms_primary_score m) e tolerance)
     (Inr ()))))"

record cost_estimate =
  ce_llm_tokens_upper_bound :: int
  ce_wall_time_seconds_upper_bound :: int
  ce_gpu_seconds_upper_bound :: int
  ce_cost_tier :: cost_tier

definition valid_cost_estimate :: "cost_estimate \<Rightarrow> bool" where
  "valid_cost_estimate c \<longleftrightarrow> 0 \<le> ce_llm_tokens_upper_bound c
     \<and> 0 \<le> ce_wall_time_seconds_upper_bound c \<and> 0 \<le> ce_gpu_seconds_upper_bound c"

record check_result =
  ck_name :: string
  ck_status :: check_status
  ck_summary :: "string option"

definition valid_check_result :: "check_result \<Rightarrow> bool" where
  "valid_check_result c \<longleftrightarrow> nonempty_str (ck_name c)"

record violation =
  vi_code :: string
  vi_message :: string
  vi_path :: "string option"

definition valid_violation :: "violation \<Rightarrow> bool" where
  "valid_violation v \<longleftrightarrow> nonempty_str (vi_code v) \<and> nonempty_str (vi_message v)
     \<and> (case vi_path v of None \<Rightarrow> True | Some p \<Rightarrow> valid_path p)"

end
