(* ===== verification/Schemas_Research.thy ===== *)
theory Schemas_Research
  imports Schemas
begin

text \<open>
  The records the research planner exchanges with the controller (\<^verbatim>\<open>schemas.py\<close>): method-card
  metadata, lesson candidates, literature evidence, the code-blind \<^verbatim>\<open>ResearchProposal\<close>, the
  controller-bound \<^verbatim>\<open>ExperimentSpec\<close> that extends it, and \<^verbatim>\<open>PlannerOutput\<close>.
\<close>

record method_card_metadata =
  mc_method_id :: string
  mc_family :: experiment_family
  mc_status :: method_status
  mc_tags :: "string list"
  mc_cost_tier :: cost_tier
  mc_sources :: "string list"

definition starts_with :: "string \<Rightarrow> string \<Rightarrow> bool" where
  "starts_with p s \<longleftrightarrow> take (length p) s = p"

definition valid_method_card :: "method_card_metadata \<Rightarrow> bool" where
  "valid_method_card c \<longleftrightarrow> nonempty_str (mc_method_id c) \<and> list_all nonempty_str (mc_tags c)
     \<and> list_all nonempty_str (mc_sources c) \<and> mc_tags c \<noteq> [] \<and> distinct (mc_tags c)
     \<and> distinct (mc_sources c)
     \<and> list_all (\<lambda>s. starts_with ''https://'' s \<or> starts_with ''http://'' s) (mc_sources c)"

section \<open>Lessons and literature\<close>

record lesson_candidate =
  lc_origin :: lesson_origin
  lc_category :: lesson_category
  lc_tags :: "string list"
  lc_summary :: string
  lc_applicability :: string
  lc_avoid_when :: "string option"
  lc_confidence :: pyfloat
  lc_source_event_ids :: "string list"
  lc_source_commit_shas :: "string list"
  lc_measured_under_frame_experiment_id :: "string option"

definition valid_lesson_candidate :: "lesson_candidate \<Rightarrow> bool" where
  "valid_lesson_candidate l \<longleftrightarrow> list_all nonempty_str (lc_tags l) \<and> nonempty_str (lc_summary l)
     \<and> nonempty_str (lc_applicability l) \<and> is_float (lc_confidence l)
     \<and> 0 \<le> lc_confidence l \<and> lc_confidence l \<le> 1
     \<and> list_all nonempty_str (lc_source_event_ids l)
     \<and> list_all nonempty_str (lc_source_commit_shas l)
     \<and> (case lc_measured_under_frame_experiment_id l of None \<Rightarrow> True | Some i \<Rightarrow> valid_id i)"

datatype literature_provider = Provider_openalex | Provider_paper_bank
datatype literature_organization = Org_bytedance | Org_meta | Org_kuaishou
datatype literature_relationship = Rel_company_authored | Rel_company_coauthored
  | Rel_company_deployed

record literature_evidence =
  le_evidence_id :: string
  le_provider :: literature_provider
  le_paper_id :: string
  le_title :: string
  le_abstract :: string
  le_year :: "int option"
  le_authors :: "string list"
  le_venue :: "string option"
  le_citation_count :: int
  le_influential_citation_count :: int
  le_url :: string
  le_query :: string
  le_organization :: "literature_organization option"
  le_relationship :: "literature_relationship option"
  le_topics :: "string list"
  le_priority :: "int option"
  le_prominence_basis :: "string list"
  le_authors_truncated :: bool

text \<open>The pattern \<^verbatim>\<open>https://[^\s/?#]+(?:/[^\s]*)?\<close>, matched in full.\<close>

definition https_url :: "string \<Rightarrow> bool" where
  "https_url s \<longleftrightarrow> starts_with ''https://'' s
     \<and> (let rest = drop 8 s;
            host = takeWhile (\<lambda>c. \<not> py_isspace c \<and> c \<notin> set ''/?#'') rest;
            tail = drop (length host) rest
        in host \<noteq> [] \<and> (case tail of [] \<Rightarrow> True
             | c # cs \<Rightarrow> c = CHR ''/'' \<and> list_all (\<lambda>x. \<not> py_isspace x) cs))"

definition int_opt_between :: "int \<Rightarrow> int \<Rightarrow> int option \<Rightarrow> bool" where
  "int_opt_between lo hi v = (case v of None \<Rightarrow> True | Some k \<Rightarrow> lo \<le> k \<and> k \<le> hi)"

definition valid_literature_evidence :: "literature_evidence \<Rightarrow> bool" where
  "valid_literature_evidence e \<longleftrightarrow> valid_id (le_evidence_id e) \<and> nonempty_str (le_paper_id e)
     \<and> nonempty_str (le_title e) \<and> nonempty_str (le_abstract e)
     \<and> int_opt_between 1800 2100 (le_year e)
     \<and> list_all nonempty_str (le_authors e) \<and> distinct (le_authors e)
     \<and> (case le_venue e of None \<Rightarrow> True | Some v \<Rightarrow> nonempty_str v)
     \<and> 0 \<le> le_citation_count e \<and> 0 \<le> le_influential_citation_count e
     \<and> https_url (le_url e) \<and> nonempty_str (le_query e)
     \<and> list_all nonempty_str (le_topics e) \<and> distinct (le_topics e)
     \<and> int_opt_between 1 3 (le_priority e)
     \<and> list_all nonempty_str (le_prominence_basis e) \<and> distinct (le_prominence_basis e)"

section \<open>Proposals and experiment specifications\<close>

record research_proposal =
  rp_run_id :: string
  rp_experiment_id :: string
  rp_parent_experiment_id :: "string option"
  rp_parent_commit_sha :: string
  rp_context_id :: string
  rp_hypothesis :: string
  rp_family :: string
  rp_change_summary :: string
  rp_expected_mechanism :: string
  rp_success_criteria :: string
  rp_falsification_condition :: string
  rp_estimated_cost :: cost_estimate
  rp_method_card_ids :: "string list"
  rp_component_experiment_ids :: "string list"
  rp_evidence_event_ids :: "string list"
  rp_literature_evidence :: "literature_evidence list"
  rp_duplicate_key :: string

definition valid_research_proposal :: "'a research_proposal_scheme \<Rightarrow> bool" where
  "valid_research_proposal p \<longleftrightarrow> valid_id (rp_run_id p) \<and> valid_id (rp_experiment_id p)
     \<and> (case rp_parent_experiment_id p of None \<Rightarrow> True | Some i \<Rightarrow> valid_id i)
     \<and> nonempty_str (rp_parent_commit_sha p) \<and> valid_id (rp_context_id p)
     \<and> nonempty_str (rp_hypothesis p) \<and> nonempty_str (rp_family p)
     \<and> nonempty_str (rp_change_summary p) \<and> nonempty_str (rp_expected_mechanism p)
     \<and> nonempty_str (rp_success_criteria p) \<and> nonempty_str (rp_falsification_condition p)
     \<and> valid_cost_estimate (rp_estimated_cost p) \<and> list_all nonempty_str (rp_method_card_ids p)
     \<and> list_all valid_id (rp_component_experiment_ids p)
     \<and> distinct (rp_component_experiment_ids p)
     \<and> list_all nonempty_str (rp_evidence_event_ids p)
     \<and> list_all valid_literature_evidence (rp_literature_evidence p)
     \<and> distinct (map le_evidence_id (rp_literature_evidence p))
     \<and> nonempty_str (rp_duplicate_key p)"

record experiment_spec = research_proposal +
  es_target_stage :: string
  es_target_files :: "string list"
  es_fidelity_plan :: "fidelity list"

text \<open>
  The local table \<^verbatim>\<open>order\<close> of the plan validator has no entry for the final fidelity: a plan of
  two or more stages that names it raises \<^verbatim>\<open>KeyError\<close>, and a plan of one stage is not looked up.
\<close>

fun fidelity_rank :: "fidelity \<Rightarrow> nat option" where
  "fidelity_rank Fidelity_SMOKE = Some 0"
| "fidelity_rank Fidelity_PROXY = Some 1"
| "fidelity_rank Fidelity_FULL = Some 2"
| "fidelity_rank Fidelity_FINAL = None"

fun fidelity_plan_increasing :: "fidelity list \<Rightarrow> bool" where
  "fidelity_plan_increasing (p # c # cs) =
     ((case (fidelity_rank p, fidelity_rank c) of
         (Some i, Some j) \<Rightarrow> i < j | _ \<Rightarrow> False)
      \<and> fidelity_plan_increasing (c # cs))"
| "fidelity_plan_increasing _ = True"

definition valid_fidelity_plan :: "fidelity list \<Rightarrow> bool" where
  "valid_fidelity_plan fs \<longleftrightarrow> fs \<noteq> [] \<and> fidelity_plan_increasing fs"

definition valid_experiment_spec :: "experiment_spec \<Rightarrow> bool" where
  "valid_experiment_spec s \<longleftrightarrow> valid_research_proposal s \<and> nonempty_str (es_target_stage s)
     \<and> es_target_files s \<noteq> [] \<and> list_all valid_path (es_target_files s)
     \<and> distinct (es_target_files s) \<and> valid_fidelity_plan (es_fidelity_plan s)"

text \<open>A legal ladder never repeats or lowers a fidelity.\<close>

lemma fidelity_plan_sorted:
  assumes "fidelity_plan_increasing fs" and "2 \<le> length fs"
  shows "\<exists>ranks. map fidelity_rank fs = map Some ranks \<and> sorted_wrt (<) ranks"
  using assms
proof (induction fs rule: fidelity_plan_increasing.induct)
  case (1 p c cs)
  then obtain i j where ij: "fidelity_rank p = Some i" "fidelity_rank c = Some j" "i < j"
    by (auto split: option.splits)
  show ?case
  proof (cases cs)
    case Nil
    with ij have "map fidelity_rank (p # c # cs) = map Some [i, j]" by simp
    with ij(3) show ?thesis by (intro exI [of _ "[i, j]"]) simp
  next
    case (Cons d ds)
    with "1.prems"(1) have "\<exists>rs. map fidelity_rank (c # cs) = map Some rs \<and> sorted_wrt (<) rs"
      by (intro "1.IH") simp_all
    then obtain rs where rs: "map fidelity_rank (c # cs) = map Some rs" "sorted_wrt (<) rs"
      by blast
    then obtain r rs' where "rs = r # rs'" by (cases rs) auto
    with rs ij have "sorted_wrt (<) (i # rs)" by auto
    with rs(1) ij show ?thesis by (intro exI [of _ "i # rs"]) simp
  qed
qed simp_all

datatype proposal_or_spec = Proposal research_proposal | Spec experiment_spec

record planner_output =
  po_action :: planner_action
  po_spec :: "proposal_or_spec option"
  po_reason_code :: string
  po_reason :: string
  po_supporting_event_ids :: "string list"
  po_resource_delta :: resource_delta

definition valid_planner_output :: "planner_output \<Rightarrow> bool" where
  "valid_planner_output p \<longleftrightarrow>
     (case po_spec p of None \<Rightarrow> True | Some (Proposal r) \<Rightarrow> valid_research_proposal r
        | Some (Spec s) \<Rightarrow> valid_experiment_spec s)
     \<and> nonempty_str (po_reason_code p) \<and> nonempty_str (po_reason p)
     \<and> list_all nonempty_str (po_supporting_event_ids p)
     \<and> valid_resource_delta (po_resource_delta p)
     \<and> ((po_action p = Planner_PROPOSE) = (po_spec p \<noteq> None))"

end
