(* ===== verification/Schemas_Lifecycle.thy ===== *)
theory Schemas_Lifecycle
  imports Schemas_Research
begin

text \<open>
  The records of one experiment's life (\<^verbatim>\<open>schemas.py\<close>), in the order the lifecycle produces them:
  patch, Gate A check, run request, telemetry and monitor directive, run result, adapter and
  planning failures, Gate B check, recovery decision, trust assessment, evaluation, decision.
\<close>

section \<open>Patches and Gate A\<close>

record patch_candidate =
  pc_run_id :: string
  pc_experiment_id :: string
  pc_attempt :: int
  pc_experiment_spec_event_id :: string
  pc_context_id :: string
  pc_base_commit_sha :: string
  pc_patch_commit_sha :: string
  pc_diff_sha256 :: string
  pc_changed_files :: "string list"
  pc_diff_artifact :: artifact_ref
  pc_trajectory_artifact :: artifact_ref
  pc_trae_version :: string
  pc_model_id :: string
  pc_steps_used :: int
  pc_resource_delta :: resource_delta

definition valid_patch_candidate :: "patch_candidate \<Rightarrow> bool" where
  "valid_patch_candidate c \<longleftrightarrow> nonempty_str (pc_run_id c) \<and> nonempty_str (pc_experiment_id c)
     \<and> 1 \<le> pc_attempt c \<and> nonempty_str (pc_experiment_spec_event_id c)
     \<and> nonempty_str (pc_context_id c) \<and> nonempty_str (pc_base_commit_sha c)
     \<and> nonempty_str (pc_patch_commit_sha c) \<and> SHA256_RE (pc_diff_sha256 c)
     \<and> pc_changed_files c \<noteq> [] \<and> list_all valid_path (pc_changed_files c)
     \<and> distinct (pc_changed_files c)
     \<and> valid_artifact_ref (pc_diff_artifact c) \<and> valid_artifact_ref (pc_trajectory_artifact c)
     \<and> nonempty_str (pc_trae_version c) \<and> nonempty_str (pc_model_id c)
     \<and> 0 \<le> pc_steps_used c \<and> valid_resource_delta (pc_resource_delta c)"

text \<open>\<^verbatim>\<open>not receipt_id\<close>: an absent receipt identifier or the empty string.\<close>

definition truthy_str :: "string option \<Rightarrow> bool" where
  "truthy_str s = (case s of None \<Rightarrow> False | Some t \<Rightarrow> t \<noteq> [])"

record patch_check_result =
  pk_run_id :: string
  pk_experiment_id :: string
  pk_attempt :: int
  pk_patch_commit_sha :: string
  pk_diff_sha256 :: string
  pk_accepted :: bool
  pk_receipt_id :: "string option"
  pk_receipt_artifact :: "artifact_ref option"
  pk_checks :: "check_result list"
  pk_violations :: "violation list"
  pk_resource_delta :: resource_delta

definition valid_patch_check_result :: "patch_check_result \<Rightarrow> bool" where
  "valid_patch_check_result r \<longleftrightarrow> nonempty_str (pk_run_id r) \<and> nonempty_str (pk_experiment_id r)
     \<and> 1 \<le> pk_attempt r \<and> nonempty_str (pk_patch_commit_sha r)
     \<and> (case pk_receipt_artifact r of None \<Rightarrow> True | Some a \<Rightarrow> valid_artifact_ref a)
     \<and> list_all valid_check_result (pk_checks r) \<and> list_all valid_violation (pk_violations r)
     \<and> valid_resource_delta (pk_resource_delta r)
     \<and> \<not> (pk_accepted r \<and> (\<not> truthy_str (pk_receipt_id r) \<or> pk_receipt_artifact r = None))
     \<and> \<not> (\<not> pk_accepted r \<and> (truthy_str (pk_receipt_id r) \<or> pk_receipt_artifact r \<noteq> None))
     \<and> \<not> (pk_accepted r \<and> list_ex (\<lambda>c. ck_status c = Check_FAIL) (pk_checks r))"

section \<open>Execution\<close>

record run_request =
  rq_run_id :: string
  rq_experiment_id :: string
  rq_attempt :: int
  rq_fidelity :: fidelity
  rq_command_id :: string
  rq_patch_commit_sha :: string
  rq_patch_receipt_id :: string
  rq_seed :: int
  rq_data_manifest_sha256 :: string
  rq_timeout_seconds :: int
  rq_memory_limit_mb :: int
  rq_gpu_memory_limit_mb :: int
  rq_network_enabled :: bool
  rq_runtime_settings :: "(string, pyval) dict"

definition valid_run_request :: "run_request \<Rightarrow> bool" where
  "valid_run_request r \<longleftrightarrow> nonempty_str (rq_run_id r) \<and> nonempty_str (rq_experiment_id r)
     \<and> 1 \<le> rq_attempt r \<and> nonempty_str (rq_command_id r) \<and> nonempty_str (rq_patch_commit_sha r)
     \<and> nonempty_str (rq_patch_receipt_id r) \<and> SHA256_RE (rq_data_manifest_sha256 r)
     \<and> 0 < rq_timeout_seconds r \<and> 0 < rq_memory_limit_mb r \<and> 0 \<le> rq_gpu_memory_limit_mb r
     \<and> valid_runtime_mapping (rq_runtime_settings r)"

record telemetry_sample =
  tl_timestamp :: int
  tl_run_id :: string
  tl_experiment_id :: string
  tl_attempt :: int
  tl_elapsed_ms :: int
  tl_process_alive :: bool
  tl_last_output_age_ms :: int
  tl_cpu_percent :: pyfloat
  tl_rss_mb :: int
  tl_gpu_utilization_percent :: "pyfloat option"
  tl_gpu_memory_mb :: "int option"
  tl_loss :: "pyfloat option"
  tl_gradient_norm :: "pyfloat option"
  tl_disk_free_mb :: int
  tl_recent_output_tail :: string

definition valid_telemetry_sample :: "telemetry_sample \<Rightarrow> bool" where
  "valid_telemetry_sample t \<longleftrightarrow> nonempty_str (tl_run_id t) \<and> nonempty_str (tl_experiment_id t)
     \<and> 1 \<le> tl_attempt t \<and> 0 \<le> tl_elapsed_ms t \<and> 0 \<le> tl_last_output_age_ms t
     \<and> is_float (tl_cpu_percent t) \<and> 0 \<le> tl_cpu_percent t \<and> 0 \<le> tl_rss_mb t
     \<and> (case tl_gpu_utilization_percent t of None \<Rightarrow> True
          | Some g \<Rightarrow> is_float g \<and> 0 \<le> g \<and> g \<le> 100)
     \<and> nonneg_opt (tl_gpu_memory_mb t)
     \<and> (case tl_loss t of None \<Rightarrow> True | Some l \<Rightarrow> is_float l)
     \<and> (case tl_gradient_norm t of None \<Rightarrow> True | Some l \<Rightarrow> is_float l)
     \<and> 0 \<le> tl_disk_free_mb t"

record monitor_directive =
  md_action :: monitor_action
  md_reason_code :: "string option"
  md_summary :: "string option"

definition valid_monitor_directive :: "monitor_directive \<Rightarrow> bool" where
  "valid_monitor_directive d \<longleftrightarrow>
     \<not> (md_action d = Monitor_TERMINATE \<and> \<not> truthy_str (md_reason_code d))"

record run_result =
  rr_run_id :: string
  rr_experiment_id :: string
  rr_attempt :: int
  rr_fidelity :: fidelity
  rr_patch_commit_sha :: string
  rr_outcome :: run_outcome
  rr_exit_code :: "int option"
  rr_error_class :: "string option"
  rr_error_fingerprint :: "string option"
  rr_error_summary :: "string option"
  rr_log_artifact :: artifact_ref
  rr_telemetry_artifact :: artifact_ref
  rr_checkpoint_artifact :: "artifact_ref option"
  rr_prediction_artifact :: "artifact_ref option"
  rr_resource_delta :: resource_delta

definition opt_ok :: "('a \<Rightarrow> bool) \<Rightarrow> 'a option \<Rightarrow> bool" where
  "opt_ok P v = (case v of None \<Rightarrow> True | Some x \<Rightarrow> P x)"

definition valid_run_result :: "run_result \<Rightarrow> bool" where
  "valid_run_result r \<longleftrightarrow> nonempty_str (rr_run_id r) \<and> nonempty_str (rr_experiment_id r)
     \<and> 1 \<le> rr_attempt r \<and> nonempty_str (rr_patch_commit_sha r)
     \<and> valid_artifact_ref (rr_log_artifact r) \<and> valid_artifact_ref (rr_telemetry_artifact r)
     \<and> opt_ok valid_artifact_ref (rr_checkpoint_artifact r)
     \<and> opt_ok valid_artifact_ref (rr_prediction_artifact r)
     \<and> valid_resource_delta (rr_resource_delta r)
     \<and> \<not> (rr_outcome r = Outcome_SUCCESS \<and> rr_prediction_artifact r = None)
     \<and> \<not> (rr_outcome r \<noteq> Outcome_SUCCESS \<and> \<not> truthy_str (rr_error_class r))"

section \<open>Failures outside a run\<close>

datatype failure_stage = Stage_coding | Stage_patch_gate | Stage_execution | Stage_output_gate
  | Stage_evaluation | Stage_recovery

record adapter_failure_result =
  af_run_id :: string
  af_experiment_id :: string
  af_attempt :: int
  af_failure_stage :: failure_stage
  af_outcome :: run_outcome
  af_error_class :: string
  af_error_fingerprint :: string
  af_error_summary :: string
  af_diagnostic_artifacts :: "artifact_ref list"
  af_resource_delta :: resource_delta

definition valid_adapter_failure_result :: "adapter_failure_result \<Rightarrow> bool" where
  "valid_adapter_failure_result r \<longleftrightarrow> nonempty_str (af_run_id r)
     \<and> nonempty_str (af_experiment_id r) \<and> 1 \<le> af_attempt r \<and> nonempty_str (af_error_class r)
     \<and> SHA256_RE (af_error_fingerprint r) \<and> nonempty_str (af_error_summary r)
     \<and> list_all valid_artifact_ref (af_diagnostic_artifacts r)
     \<and> valid_resource_delta (af_resource_delta r)
     \<and> af_outcome r \<notin> {Outcome_SUCCESS, Outcome_CANCELLED}"

record planning_failure_result =
  pf_run_id :: string
  pf_context_id :: string
  pf_error_class :: string
  pf_error_fingerprint :: string
  pf_error_summary :: string
  pf_diagnostic_artifacts :: "artifact_ref list"
  pf_resource_delta :: resource_delta

definition valid_planning_failure_result :: "planning_failure_result \<Rightarrow> bool" where
  "valid_planning_failure_result r \<longleftrightarrow> nonempty_str (pf_run_id r) \<and> nonempty_str (pf_context_id r)
     \<and> nonempty_str (pf_error_class r) \<and> SHA256_RE (pf_error_fingerprint r)
     \<and> nonempty_str (pf_error_summary r) \<and> list_all valid_artifact_ref (pf_diagnostic_artifacts r)
     \<and> valid_resource_delta (pf_resource_delta r)"

section \<open>Gate B\<close>

record output_check_result =
  oc_run_id :: string
  oc_experiment_id :: string
  oc_attempt :: int
  oc_prediction_artifact :: artifact_ref
  oc_ordered_row_identity_sha256 :: string
  oc_ordered_prediction_sha256 :: string
  oc_accepted :: bool
  oc_checks :: "(string, check_status) dict"
  oc_score_stats :: "(string, pyfloat) dict"
  oc_violations :: "violation list"
  oc_resource_delta :: resource_delta

definition float_dict_ok :: "(string, pyfloat) dict \<Rightarrow> bool" where
  "float_dict_ok d \<longleftrightarrow> dict_ok d \<and> list_all is_float (dvalues d)"

definition valid_output_check_result :: "output_check_result \<Rightarrow> bool" where
  "valid_output_check_result r \<longleftrightarrow> nonempty_str (oc_run_id r) \<and> nonempty_str (oc_experiment_id r)
     \<and> 1 \<le> oc_attempt r \<and> valid_artifact_ref (oc_prediction_artifact r)
     \<and> SHA256_RE (oc_ordered_row_identity_sha256 r) \<and> SHA256_RE (oc_ordered_prediction_sha256 r)
     \<and> dict_ok (oc_checks r) \<and> float_dict_ok (oc_score_stats r)
     \<and> list_all valid_violation (oc_violations r) \<and> valid_resource_delta (oc_resource_delta r)
     \<and> \<not> (oc_accepted r \<and> (list_ex (\<lambda>s. s = Check_FAIL) (dvalues (oc_checks r))
                            \<or> oc_violations r \<noteq> []))"

section \<open>Recovery\<close>

record recovery_decision =
  rn_run_id :: string
  rn_experiment_id :: string
  rn_failure_event_id :: string
  rn_repair_attempt :: int
  rn_action :: recovery_action
  rn_reason_code :: string
  rn_instructions :: string
  rn_same_error_count :: int
  rn_remaining_repair_budget :: int
  rn_runtime_adjustments :: "(string, pyval) dict"
  rn_lesson_candidate :: "lesson_candidate option"
  rn_resource_delta :: resource_delta

definition valid_recovery_decision :: "recovery_decision \<Rightarrow> bool" where
  "valid_recovery_decision d \<longleftrightarrow> nonempty_str (rn_run_id d) \<and> nonempty_str (rn_experiment_id d)
     \<and> nonempty_str (rn_failure_event_id d) \<and> 1 \<le> rn_repair_attempt d
     \<and> nonempty_str (rn_reason_code d) \<and> nonempty_str (rn_instructions d)
     \<and> 0 \<le> rn_same_error_count d \<and> 0 \<le> rn_remaining_repair_budget d
     \<and> valid_runtime_mapping (rn_runtime_adjustments d)
     \<and> opt_ok valid_lesson_candidate (rn_lesson_candidate d)
     \<and> valid_resource_delta (rn_resource_delta d)
     \<and> (rn_action d = Recovery_ADJUST_APPROVED_RUNTIME_SETTING) = (rn_runtime_adjustments d \<noteq> [])
     \<and> \<not> (rn_runtime_adjustments d \<noteq> [] \<and> length (rn_runtime_adjustments d) \<noteq> 1)"

end
