(* ===== verification/Schemas_Evaluation.thy ===== *)
theory Schemas_Evaluation
  imports Schemas_Lifecycle
begin

text \<open>
  Trust assessment, evaluation diagnostics, evaluation request and result, and the experiment
  decision of \<^verbatim>\<open>schemas.py\<close>, with the cross-field rules of their model validators.
\<close>

record trust_assessment =
  ta_verdict :: trust_verdict
  ta_stability :: stability
  ta_integrity :: integrity
  ta_flags :: "string list"
  ta_eta_applied :: "pyfloat option"
  ta_seed_mean :: "pyfloat option"
  ta_seed_stderr :: "pyfloat option"
  ta_seed_count :: int

definition nonneg_float :: "pyfloat \<Rightarrow> bool" where
  "nonneg_float x \<longleftrightarrow> is_float x \<and> 0 \<le> x"

definition valid_trust_assessment :: "trust_assessment \<Rightarrow> bool" where
  "valid_trust_assessment t \<longleftrightarrow> list_all nonempty_str (ta_flags t)
     \<and> opt_ok nonneg_float (ta_eta_applied t) \<and> opt_ok is_float (ta_seed_mean t)
     \<and> opt_ok nonneg_float (ta_seed_stderr t) \<and> 1 \<le> ta_seed_count t
     \<and> distinct (ta_flags t)
     \<and> \<not> (ta_integrity t = Integrity_COMPROMISED \<and> ta_verdict t \<noteq> Verdict_SUSPICIOUS)
     \<and> \<not> (ta_verdict t = Verdict_NO_OP \<and> ta_stability t \<noteq> Stability_NOT_APPLICABLE)
     \<and> ((ta_seed_mean t \<noteq> None) = (ta_seed_stderr t \<noteq> None))
     \<and> \<not> ((ta_seed_mean t \<noteq> None \<or> ta_seed_stderr t \<noteq> None) \<and> ta_seed_count t < 2)"

record prediction_change =
  ch_spearman_vs_parent :: pyfloat
  ch_changed_row_fraction :: pyfloat

definition valid_prediction_change :: "prediction_change \<Rightarrow> bool" where
  "valid_prediction_change c \<longleftrightarrow> is_float (ch_spearman_vs_parent c)
     \<and> - 1 \<le> ch_spearman_vs_parent c \<and> ch_spearman_vs_parent c \<le> 1
     \<and> is_float (ch_changed_row_fraction c) \<and> 0 \<le> ch_changed_row_fraction c
     \<and> ch_changed_row_fraction c \<le> 1"

text \<open>A metric change is a bare non-negative float in old ledgers, a record in new ones.\<close>

datatype change_value = Scalar_change pyfloat | Recorded_change prediction_change

record evaluation_diagnostics =
  eg_train_validation_gap :: "pyfloat option"
  eg_proxy_parent_delta :: "pyfloat option"
  eg_proxy_full_delta_gap :: "pyfloat option"
  eg_validation_arm_deltas :: "(string, pyfloat) dict"
  eg_validation_arm_gap :: "pyfloat option"
  eg_temporal_delta_slope :: "pyfloat option"
  eg_gain_concentration_top10pct :: "pyfloat option"
  eg_slice_deltas :: "(string, pyfloat) dict"
  eg_best_slice :: "string option"
  eg_worst_slice :: "string option"
  eg_failure_hypotheses :: "string list"
  eg_limitations :: "string list"

definition empty_diagnostics :: evaluation_diagnostics where
  "empty_diagnostics = \<lparr>eg_train_validation_gap = None, eg_proxy_parent_delta = None,
     eg_proxy_full_delta_gap = None, eg_validation_arm_deltas = [], eg_validation_arm_gap = None,
     eg_temporal_delta_slope = None, eg_gain_concentration_top10pct = None, eg_slice_deltas = [],
     eg_best_slice = None, eg_worst_slice = None, eg_failure_hypotheses = [], eg_limitations = []\<rparr>"

definition names_not_blank :: "(string, 'v) dict \<Rightarrow> bool" where
  "names_not_blank d \<longleftrightarrow> list_all (\<lambda>n. py_strip n \<noteq> []) (dkeys d)"

definition arm_gap_consistent :: "evaluation_diagnostics \<Rightarrow> bool" where
  "arm_gap_consistent g \<longleftrightarrow>
     (case (dget (eg_validation_arm_deltas g) ''val_a'', dget (eg_validation_arm_deltas g) ''val_b'',
            eg_validation_arm_gap g) of
        (Some a, Some b, Some gap) \<Rightarrow> \<bar>fsub \<bar>fsub a b\<bar> gap\<bar> \<le> fl (1 / 10 ^ 12)
      | _ \<Rightarrow> False)"

definition valid_evaluation_diagnostics :: "evaluation_diagnostics \<Rightarrow> bool" where
  "valid_evaluation_diagnostics g \<longleftrightarrow> opt_ok is_float (eg_train_validation_gap g)
     \<and> opt_ok is_float (eg_proxy_parent_delta g) \<and> opt_ok nonneg_float (eg_proxy_full_delta_gap g)
     \<and> float_dict_ok (eg_validation_arm_deltas g) \<and> opt_ok nonneg_float (eg_validation_arm_gap g)
     \<and> opt_ok is_float (eg_temporal_delta_slope g)
     \<and> opt_ok (\<lambda>c. nonneg_float c \<and> c \<le> 1) (eg_gain_concentration_top10pct g)
     \<and> float_dict_ok (eg_slice_deltas g)
     \<and> names_not_blank (eg_validation_arm_deltas g) \<and> names_not_blank (eg_slice_deltas g)
     \<and> list_all nonempty_str (eg_failure_hypotheses g) \<and> distinct (eg_failure_hypotheses g)
     \<and> list_all nonempty_str (eg_limitations g) \<and> distinct (eg_limitations g)
     \<and> (eg_proxy_parent_delta g = None) = (eg_proxy_full_delta_gap g = None)
     \<and> (eg_validation_arm_deltas g \<noteq> [] \<longrightarrow>
          set (dkeys (eg_validation_arm_deltas g)) = {''val_a'', ''val_b''})
     \<and> (eg_validation_arm_deltas g \<noteq> []) = (eg_validation_arm_gap g \<noteq> None)
     \<and> (eg_validation_arm_deltas g \<noteq> [] \<longrightarrow> arm_gap_consistent g)
     \<and> opt_ok (\<lambda>n. n \<in> set (dkeys (eg_slice_deltas g))) (eg_best_slice g)
     \<and> opt_ok (\<lambda>n. n \<in> set (dkeys (eg_slice_deltas g))) (eg_worst_slice g)"

section \<open>Evaluation request and result\<close>

record evaluation_request =
  eq_run_id :: string
  eq_experiment_id :: string
  eq_attempt :: int
  eq_output_checked_event_id :: string
  eq_prediction_artifact :: artifact_ref
  eq_population :: population
  eq_fidelity :: fidelity
  eq_seed :: int
  eq_contract_sha256 :: string
  eq_evaluator_sha256 :: string
  eq_baseline_summary :: "(string, pyfloat) dict"
  eq_parent_summary :: "(string, pyfloat) dict"
  eq_previous_best_summary :: "(string, pyfloat) dict"
  eq_public_query_index :: "int option"

definition valid_evaluation_request :: "evaluation_request \<Rightarrow> bool" where
  "valid_evaluation_request q \<longleftrightarrow> nonempty_str (eq_run_id q) \<and> nonempty_str (eq_experiment_id q)
     \<and> 1 \<le> eq_attempt q \<and> nonempty_str (eq_output_checked_event_id q)
     \<and> valid_artifact_ref (eq_prediction_artifact q)
     \<and> float_dict_ok (eq_baseline_summary q) \<and> float_dict_ok (eq_parent_summary q)
     \<and> float_dict_ok (eq_previous_best_summary q)
     \<and> opt_ok (\<lambda>k. 1 \<le> k) (eq_public_query_index q)
     \<and> \<not> (eq_population q = Population_PUBLIC_VALIDATION \<and> eq_public_query_index q = None)
     \<and> \<not> (eq_population q \<noteq> Population_PUBLIC_VALIDATION \<and> eq_public_query_index q \<noteq> None)"

record evaluation_result =
  ev_run_id :: string
  ev_experiment_id :: string
  ev_attempt :: int
  ev_population :: population
  ev_fidelity :: fidelity
  ev_seed :: int
  ev_public_query_index :: "int option"
  ev_evaluator_sha256 :: string
  ev_contract_sha256 :: string
  ev_metric_set :: metric_set
  ev_baseline_delta :: pyfloat
  ev_parent_delta :: "pyfloat option"
  ev_previous_best_delta :: "pyfloat option"
  ev_baseline_metric_deltas :: "(string, pyfloat) dict"
  ev_parent_metric_deltas :: "(string, pyfloat) dict"
  ev_previous_best_metric_deltas :: "(string, pyfloat) dict"
  ev_prediction_change :: change_value
  ev_diagnostic_metrics :: "(string, pyfloat) dict"
  ev_trust :: trust_assessment
  ev_seed_evidence_event_ids :: "string list"
  ev_diagnostics :: evaluation_diagnostics
  ev_metrics_artifact :: "artifact_ref option"
  ev_resource_delta :: resource_delta

definition metric_deltas_match :: "metric_set \<Rightarrow> (string, pyfloat) dict \<Rightarrow> bool" where
  "metric_deltas_match m d \<longleftrightarrow> d = [] \<or> set (dkeys d) = set (dkeys (ms_metrics m))"

text \<open>The route rules of \<^verbatim>\<open>EvaluationResult.validate_evaluation_route\<close>.\<close>

definition valid_evaluation_route :: "evaluation_result \<Rightarrow> bool" where
  "valid_evaluation_route r \<longleftrightarrow>
     metric_deltas_match (ev_metric_set r) (ev_baseline_metric_deltas r)
     \<and> metric_deltas_match (ev_metric_set r) (ev_parent_metric_deltas r)
     \<and> metric_deltas_match (ev_metric_set r) (ev_previous_best_metric_deltas r)
     \<and> (if ev_population r = Population_PUBLIC_VALIDATION
        then ev_fidelity r = Fidelity_FULL \<and> ev_public_query_index r \<noteq> None
        else ev_public_query_index r = None)
     \<and> \<not> (ev_population r = Population_INTERNAL_PROXY \<and> ev_fidelity r \<noteq> Fidelity_PROXY)
     \<and> \<not> (ev_population r = Population_UNBIASED_AUDIT \<and> ev_fidelity r \<noteq> Fidelity_FULL)
     \<and> \<not> (ev_population r = Population_HIDDEN_FINAL \<and> ev_fidelity r \<noteq> Fidelity_FINAL)
     \<and> (ev_experiment_id r \<noteq> ''baseline'' \<longrightarrow>
          ta_seed_count (ev_trust r) = int (length (ev_seed_evidence_event_ids r)) + 1
          \<and> (ta_stability (ev_trust r) \<in> {Stability_CONFIRMED, Stability_UNSTABLE} \<longrightarrow>
               \<not> (ta_seed_count (ev_trust r) < 2 \<or> ta_seed_mean (ev_trust r) = None
                  \<or> ta_seed_stderr (ev_trust r) = None)))"

definition valid_change_value :: "change_value \<Rightarrow> bool" where
  "valid_change_value c = (case c of Scalar_change x \<Rightarrow> nonneg_float x
     | Recorded_change p \<Rightarrow> valid_prediction_change p)"

definition valid_evaluation_result :: "evaluation_result \<Rightarrow> bool" where
  "valid_evaluation_result r \<longleftrightarrow> nonempty_str (ev_run_id r) \<and> nonempty_str (ev_experiment_id r)
     \<and> 1 \<le> ev_attempt r \<and> opt_ok (\<lambda>k. 1 \<le> k) (ev_public_query_index r)
     \<and> SHA256_RE (ev_evaluator_sha256 r) \<and> SHA256_RE (ev_contract_sha256 r)
     \<and> valid_metric_set (ev_metric_set r) \<and> is_float (ev_baseline_delta r)
     \<and> opt_ok is_float (ev_parent_delta r) \<and> opt_ok is_float (ev_previous_best_delta r)
     \<and> float_dict_ok (ev_baseline_metric_deltas r) \<and> float_dict_ok (ev_parent_metric_deltas r)
     \<and> float_dict_ok (ev_previous_best_metric_deltas r)
     \<and> names_not_blank (ev_baseline_metric_deltas r) \<and> names_not_blank (ev_parent_metric_deltas r)
     \<and> names_not_blank (ev_previous_best_metric_deltas r)
     \<and> valid_change_value (ev_prediction_change r)
     \<and> float_dict_ok (ev_diagnostic_metrics r) \<and> names_not_blank (ev_diagnostic_metrics r)
     \<and> valid_trust_assessment (ev_trust r)
     \<and> list_all nonempty_str (ev_seed_evidence_event_ids r)
     \<and> distinct (ev_seed_evidence_event_ids r)
     \<and> valid_evaluation_diagnostics (ev_diagnostics r)
     \<and> opt_ok valid_artifact_ref (ev_metrics_artifact r)
     \<and> valid_resource_delta (ev_resource_delta r) \<and> valid_evaluation_route r"

section \<open>Decision\<close>

record experiment_decision =
  ed_run_id :: string
  ed_experiment_id :: string
  ed_evaluation_event_id :: "string option"
  ed_decision :: decision_kind
  ed_reason_code :: string
  ed_fidelity_completed :: fidelity
  ed_parent_eligible :: bool
  ed_best_eligible :: bool
  ed_next_fidelity :: "fidelity option"
  ed_supporting_event_ids :: "string list"
  ed_lesson_candidate :: "lesson_candidate option"
  ed_resource_delta :: resource_delta

definition valid_experiment_decision :: "experiment_decision \<Rightarrow> bool" where
  "valid_experiment_decision d \<longleftrightarrow> nonempty_str (ed_run_id d) \<and> nonempty_str (ed_experiment_id d)
     \<and> nonempty_str (ed_reason_code d) \<and> list_all nonempty_str (ed_supporting_event_ids d)
     \<and> opt_ok valid_lesson_candidate (ed_lesson_candidate d)
     \<and> valid_resource_delta (ed_resource_delta d)
     \<and> (ed_decision d = Decision_PROMOTE) = (ed_next_fidelity d \<noteq> None)
     \<and> \<not> (ed_best_eligible d \<and> ed_fidelity_completed d \<noteq> Fidelity_FULL)"

text \<open>A trusted seed aggregate is present exactly when the schema lets the verdict be confirmed.\<close>

lemma confirmed_has_aggregate:
  assumes "valid_evaluation_result r" and "ev_experiment_id r \<noteq> ''baseline''"
    and "ta_stability (ev_trust r) = Stability_CONFIRMED"
  shows "2 \<le> ta_seed_count (ev_trust r) \<and> ev_seed_evidence_event_ids r \<noteq> []
    \<and> (\<exists>m. ta_seed_mean (ev_trust r) = Some m)"
  using assms by (auto simp: valid_evaluation_result_def valid_evaluation_route_def)

lemma hidden_final_fidelity:
  "valid_evaluation_result r \<Longrightarrow> ev_population r = Population_HIDDEN_FINAL
   \<Longrightarrow> ev_fidelity r = Fidelity_FINAL"
  by (auto simp: valid_evaluation_result_def valid_evaluation_route_def)

lemma public_fidelity:
  "valid_evaluation_result r \<Longrightarrow> ev_population r = Population_PUBLIC_VALIDATION
   \<Longrightarrow> ev_fidelity r = Fidelity_FULL"
  by (auto simp: valid_evaluation_result_def valid_evaluation_route_def split: if_splits)

end
