(* ===== verification/Schemas_Planner.thy ===== *)
theory Schemas_Planner
  imports Schemas_Evaluation
begin

text \<open>
  The context documents of \<^verbatim>\<open>schemas.py\<close> (planner, coder, recovery) with the summaries they
  contain.  The planner's data profile carries the SHA-256 of its own canonical JSON; the digest
  function \<open>dg\<close> that computes it from the other fields is an argument of the validity predicates
  that need it.
\<close>

section \<open>Data profile\<close>

record eda_numeric_summary =
  en_count :: int
  en_minimum :: pyfloat
  en_p25 :: pyfloat
  en_p50 :: pyfloat
  en_p75 :: pyfloat
  en_p90 :: pyfloat
  en_p95 :: pyfloat
  en_p99 :: pyfloat
  en_maximum :: pyfloat
  en_mean :: pyfloat

definition eda_ordered :: "eda_numeric_summary \<Rightarrow> pyfloat list" where
  "eda_ordered s = [en_minimum s, en_p25 s, en_p50 s, en_p75 s, en_p90 s, en_p95 s, en_p99 s,
     en_maximum s]"

definition valid_eda_numeric_summary :: "eda_numeric_summary \<Rightarrow> bool" where
  "valid_eda_numeric_summary s \<longleftrightarrow> 0 < en_count s \<and> list_all is_float (eda_ordered s)
     \<and> is_float (en_mean s)
     \<and> list_all (\<lambda>(l, r). l \<le> r) (zip (eda_ordered s) (tl (eda_ordered s)))"

definition unit_float :: "pyfloat \<Rightarrow> bool" where
  "unit_float x \<longleftrightarrow> is_float x \<and> 0 \<le> x \<and> x \<le> 1"

record eda_rate_slice =
  er_value :: string
  er_row_count :: int
  er_positive_count :: int
  er_positive_rate :: pyfloat

definition valid_eda_rate_slice :: "eda_rate_slice \<Rightarrow> bool" where
  "valid_eda_rate_slice s \<longleftrightarrow> nonempty_str (er_value s) \<and> 0 < er_row_count s
     \<and> 0 \<le> er_positive_count s \<and> unit_float (er_positive_rate s)
     \<and> \<not> er_row_count s < er_positive_count s"

record eda_overlap_summary =
  eo_score_distinct_count :: int
  eo_seen_in_train_count :: int
  eo_unseen_in_train_count :: int
  eo_seen_in_train_rate :: pyfloat

definition valid_eda_overlap_summary :: "eda_overlap_summary \<Rightarrow> bool" where
  "valid_eda_overlap_summary s \<longleftrightarrow> 0 \<le> eo_score_distinct_count s \<and> 0 \<le> eo_seen_in_train_count s
     \<and> 0 \<le> eo_unseen_in_train_count s \<and> unit_float (eo_seen_in_train_rate s)
     \<and> eo_seen_in_train_count s + eo_unseen_in_train_count s = eo_score_distinct_count s"

record planner_data_profile =
  dp_profile_sha256 :: string
  dp_tool_ids :: "string list"
  dp_train_file_sha256 :: string
  dp_score_file_sha256 :: string
  dp_train_columns :: "string list"
  dp_score_columns :: "string list"
  dp_train_rows :: int
  dp_score_rows :: int
  dp_train_date_min :: int
  dp_train_date_max :: int
  dp_score_date_min :: int
  dp_score_date_max :: int
  dp_train_positive_count :: int
  dp_train_positive_rate :: pyfloat
  dp_train_cardinalities :: "(string, int) dict"
  dp_score_cardinalities :: "(string, int) dict"
  dp_train_missing_counts :: "(string, int) dict"
  dp_score_missing_counts :: "(string, int) dict"
  dp_train_duration_ms :: eda_numeric_summary
  dp_score_duration_ms :: eda_numeric_summary
  dp_train_interactions_per_entity :: "(string, eda_numeric_summary) dict"
  dp_score_entity_overlap :: "(string, eda_overlap_summary) dict"
  dp_train_long_view_by_tab :: "eda_rate_slice list"
  dp_train_long_view_by_date :: "eda_rate_slice list"
  dp_score_user_list_size :: "eda_numeric_summary option"
  dp_score_single_row_user_fraction :: "pyfloat option"
  dp_score_repeat_exposure_fraction :: "pyfloat option"
  dp_score_within_user_duration_dispersion :: "pyfloat option"
  dp_train_discriminative_user_fraction :: "pyfloat option"
  dp_train_all_negative_user_fraction :: "pyfloat option"
  dp_train_all_positive_user_fraction :: "pyfloat option"

definition str_dict_ok :: "('v \<Rightarrow> bool) \<Rightarrow> (string, 'v) dict \<Rightarrow> bool" where
  "str_dict_ok P d \<longleftrightarrow> dict_ok d \<and> list_all nonempty_str (dkeys d) \<and> list_all P (dvalues d)"

definition unique_nonempty :: "string list \<Rightarrow> bool" where
  "unique_nonempty xs \<longleftrightarrow> list_all nonempty_str xs \<and> xs \<noteq> [] \<and> distinct xs"

definition valid_planner_data_profile ::
  "(planner_data_profile \<Rightarrow> string) \<Rightarrow> planner_data_profile \<Rightarrow> bool" where
  "valid_planner_data_profile dg p \<longleftrightarrow> SHA256_RE (dp_profile_sha256 p)
     \<and> SHA256_RE (dp_train_file_sha256 p) \<and> SHA256_RE (dp_score_file_sha256 p)
     \<and> unique_nonempty (dp_tool_ids p) \<and> unique_nonempty (dp_train_columns p)
     \<and> unique_nonempty (dp_score_columns p)
     \<and> 0 < dp_train_rows p \<and> 0 < dp_score_rows p \<and> 0 \<le> dp_train_positive_count p
     \<and> unit_float (dp_train_positive_rate p)
     \<and> str_dict_ok (\<lambda>_. True) (dp_train_cardinalities p)
     \<and> str_dict_ok (\<lambda>_. True) (dp_score_cardinalities p)
     \<and> str_dict_ok (\<lambda>_. True) (dp_train_missing_counts p)
     \<and> str_dict_ok (\<lambda>_. True) (dp_score_missing_counts p)
     \<and> valid_eda_numeric_summary (dp_train_duration_ms p)
     \<and> valid_eda_numeric_summary (dp_score_duration_ms p)
     \<and> str_dict_ok valid_eda_numeric_summary (dp_train_interactions_per_entity p)
     \<and> str_dict_ok valid_eda_overlap_summary (dp_score_entity_overlap p)
     \<and> list_all valid_eda_rate_slice (dp_train_long_view_by_tab p)
     \<and> list_all valid_eda_rate_slice (dp_train_long_view_by_date p)
     \<and> opt_ok valid_eda_numeric_summary (dp_score_user_list_size p)
     \<and> opt_ok unit_float (dp_score_single_row_user_fraction p)
     \<and> opt_ok unit_float (dp_score_repeat_exposure_fraction p)
     \<and> opt_ok nonneg_float (dp_score_within_user_duration_dispersion p)
     \<and> opt_ok unit_float (dp_train_discriminative_user_fraction p)
     \<and> opt_ok unit_float (dp_train_all_negative_user_fraction p)
     \<and> opt_ok unit_float (dp_train_all_positive_user_fraction p)
     \<and> dp_train_positive_count p \<le> dp_train_rows p
     \<and> dp_train_date_min p \<le> dp_train_date_max p \<and> dp_score_date_min p \<le> dp_score_date_max p
     \<and> dg p = dp_profile_sha256 p"

section \<open>Planner summaries\<close>

record planner_contract_summary =
  pn_resolved :: bool
  pn_allowed_families :: "string list"
  pn_allowed_data :: "string list"
  pn_research_capabilities :: "string list"
  pn_active_prohibitions :: "string list"
  pn_protected_paths :: "string list"
  pn_editable_paths :: "string list"
  pn_data_manifest_sha256 :: string
  pn_evaluator_sha256 :: string
  pn_epsilon :: pyfloat
  pn_prediction_change_no_op_threshold :: pyfloat

definition valid_planner_contract_summary :: "planner_contract_summary \<Rightarrow> bool" where
  "valid_planner_contract_summary c \<longleftrightarrow> list_all nonempty_str (pn_allowed_families c)
     \<and> list_all nonempty_str (pn_allowed_data c) \<and> list_all nonempty_str (pn_research_capabilities c)
     \<and> list_all nonempty_str (pn_active_prohibitions c)
     \<and> SHA256_RE (pn_data_manifest_sha256 c) \<and> SHA256_RE (pn_evaluator_sha256 c)
     \<and> nonneg_float (pn_epsilon c) \<and> unit_float (pn_prediction_change_no_op_threshold c)"

record planner_budget_summary =
  pb_remaining_experiments :: int
  pb_remaining_public_queries :: "int option"
  pb_remaining_llm_tokens :: "int option"
  pb_remaining_wall_time_seconds :: int
  pb_remaining_gpu_seconds :: "int option"

definition valid_planner_budget_summary :: "planner_budget_summary \<Rightarrow> bool" where
  "valid_planner_budget_summary b \<longleftrightarrow> 0 \<le> pb_remaining_experiments b
     \<and> nonneg_opt (pb_remaining_public_queries b) \<and> nonneg_opt (pb_remaining_llm_tokens b)
     \<and> 0 \<le> pb_remaining_wall_time_seconds b \<and> nonneg_opt (pb_remaining_gpu_seconds b)"

record planner_convergence_summary =
  pv_patience :: int
  pv_consecutive_non_improving_full_evaluations :: int
  pv_full_evaluations_completed :: int

definition valid_planner_convergence_summary :: "planner_convergence_summary \<Rightarrow> bool" where
  "valid_planner_convergence_summary c \<longleftrightarrow> 0 < pv_patience c
     \<and> 0 \<le> pv_consecutive_non_improving_full_evaluations c \<and> 0 \<le> pv_full_evaluations_completed c"

record planner_method_card_summary =
  pm_method_id :: string
  pm_family :: string
  pm_status :: string
  pm_cost_tier :: cost_tier
  pm_summary :: string
  pm_tags :: "string list"
  pm_mechanism :: string
  pm_prerequisites :: "string list"
  pm_allowed_data :: "string list"
  pm_expected_effect :: string
  pm_falsifier :: string
  pm_prohibition_conditions :: "string list"
  pm_implementation_targets :: "string list"
  pm_source_path :: string

definition valid_planner_method_card_summary :: "planner_method_card_summary \<Rightarrow> bool" where
  "valid_planner_method_card_summary c \<longleftrightarrow> nonempty_str (pm_method_id c) \<and> nonempty_str (pm_family c)
     \<and> nonempty_str (pm_status c) \<and> nonempty_str (pm_summary c) \<and> list_all nonempty_str (pm_tags c)
     \<and> nonempty_str (pm_mechanism c) \<and> list_all nonempty_str (pm_prerequisites c)
     \<and> list_all nonempty_str (pm_allowed_data c) \<and> nonempty_str (pm_expected_effect c)
     \<and> nonempty_str (pm_falsifier c) \<and> list_all nonempty_str (pm_prohibition_conditions c)
     \<and> list_all valid_path (pm_implementation_targets c) \<and> distinct (pm_implementation_targets c)
     \<and> nonempty_str (pm_source_path c)"

definition mandatory_rule_order :: "string list" where
  "mandatory_rule_order = [''output_rejected'', ''suspicious_or_compromised'', ''no_op'',
     ''unstable'', ''promotion_required'', ''non_public_or_incomplete'',
     ''pairwise_gauc_up_ndcg_down'', ''pairwise_gauc_down_ndcg_up'', ''pairwise_both_up'',
     ''meaningful_no_gain'', ''trusted_improvement'', ''trusted_regression'']"

record planner_playbook_summary =
  pp_source_path :: string
  pp_source_sha256 :: string
  pp_rule_order :: "string list"
  pp_family_order :: "string list"
  pp_method_order :: "(string, string list) dict"

definition valid_planner_playbook_summary :: "planner_playbook_summary \<Rightarrow> bool" where
  "valid_planner_playbook_summary p \<longleftrightarrow> nonempty_str (pp_source_path p)
     \<and> SHA256_RE (pp_source_sha256 p) \<and> list_all nonempty_str (pp_rule_order p)
     \<and> list_all nonempty_str (pp_family_order p)
     \<and> str_dict_ok (list_all nonempty_str) (pp_method_order p)
     \<and> distinct (pp_rule_order p) \<and> pp_rule_order p = mandatory_rule_order
     \<and> distinct (pp_family_order p)
     \<and> set (dkeys (pp_method_order p)) \<subseteq> set (pp_family_order p)
     \<and> list_all (\<lambda>ms. ms \<noteq> [] \<and> distinct ms) (dvalues (pp_method_order p))
     \<and> (case dget (pp_method_order p) ''objective'' of
          Some (m # _) \<Rightarrow> m = ''objective_pairwise_bpr'' | _ \<Rightarrow> False)"

record planner_experiment_summary =
  px_experiment_id :: string
  px_parent_experiment_id :: "string option"
  px_commit_sha :: string
  px_family :: "string option"
  px_hypothesis_summary :: string
  px_trust_verdict :: "trust_verdict option"
  px_stability :: "stability option"
  px_integrity :: "integrity option"
  px_trust_flags :: "string list"
  px_failure_hypotheses :: "string list"
  px_diagnostic_limitations :: "string list"
  px_diagnostic_best_slice :: "string option"
  px_diagnostic_worst_slice :: "string option"
  px_decision :: "decision_kind option"
  px_decision_reason_code :: "string option"
  px_highest_completed_fidelity :: "fidelity option"
  px_population :: "population option"
  px_output_accepted :: "bool option"
  px_output_checks :: "(string, check_status) dict"
  px_output_violations :: "violation list"
  px_primary_score :: "pyfloat option"
  px_metric_set :: "metric_set option"
  px_metric_deltas :: "(string, pyfloat) dict"
  px_baseline_delta :: "pyfloat option"
  px_parent_delta :: "pyfloat option"
  px_previous_best_delta :: "pyfloat option"
  px_prediction_change :: "pyfloat option"
  px_prediction_spearman_vs_parent :: "pyfloat option"
  px_diagnostic_metrics :: "(string, pyfloat) dict"
  px_child_count :: int
  px_actual_cost :: "cost_tier option"
  px_parent_eligible :: bool
  px_best_eligible :: bool
  px_status :: string
  px_duplicate_key :: string
  px_method_card_ids :: "string list"
  px_component_experiment_ids :: "string list"
  px_supporting_event_ids :: "string list"

definition signed_unit_float :: "pyfloat \<Rightarrow> bool" where
  "signed_unit_float x \<longleftrightarrow> is_float x \<and> - 1 \<le> x \<and> x \<le> 1"

definition valid_planner_experiment_summary :: "planner_experiment_summary \<Rightarrow> bool" where
  "valid_planner_experiment_summary x \<longleftrightarrow> nonempty_str (px_experiment_id x)
     \<and> nonempty_str (px_commit_sha x) \<and> list_all nonempty_str (px_trust_flags x)
     \<and> list_all nonempty_str (px_failure_hypotheses x)
     \<and> list_all nonempty_str (px_diagnostic_limitations x)
     \<and> opt_ok nonempty_str (px_decision_reason_code x) \<and> dict_ok (px_output_checks x)
     \<and> list_all valid_violation (px_output_violations x) \<and> opt_ok is_float (px_primary_score x)
     \<and> opt_ok valid_metric_set (px_metric_set x) \<and> float_dict_ok (px_metric_deltas x)
     \<and> opt_ok is_float (px_baseline_delta x) \<and> opt_ok is_float (px_parent_delta x)
     \<and> opt_ok is_float (px_previous_best_delta x) \<and> opt_ok nonneg_float (px_prediction_change x)
     \<and> opt_ok signed_unit_float (px_prediction_spearman_vs_parent x)
     \<and> str_dict_ok is_float (px_diagnostic_metrics x) \<and> 0 \<le> px_child_count x
     \<and> nonempty_str (px_status x) \<and> list_all nonempty_str (px_method_card_ids x)
     \<and> list_all nonempty_str (px_component_experiment_ids x)
     \<and> list_all nonempty_str (px_supporting_event_ids x)"

record planner_lesson_summary =
  pl_lesson_id :: string
  pl_origin :: lesson_origin
  pl_category :: lesson_category
  pl_tags :: "string list"
  pl_summary :: string
  pl_applicability :: string
  pl_avoid_when :: "string option"
  pl_confidence :: pyfloat
  pl_source_event_ids :: "string list"

definition valid_planner_lesson_summary :: "planner_lesson_summary \<Rightarrow> bool" where
  "valid_planner_lesson_summary l \<longleftrightarrow> nonempty_str (pl_lesson_id l) \<and> list_all nonempty_str (pl_tags l)
     \<and> nonempty_str (pl_summary l) \<and> nonempty_str (pl_applicability l)
     \<and> unit_float (pl_confidence l) \<and> list_all nonempty_str (pl_source_event_ids l)"

end
