(* ===== verification/Schemas_Context.thy ===== *)
theory Schemas_Context
  imports Schemas_Planner
begin

text \<open>
  \<^verbatim>\<open>ContextDocument\<close> and its three subclasses in \<^verbatim>\<open>schemas.py\<close>, their discriminated union
  \<^verbatim>\<open>ContextValue\<close>, and the recovery policy's input \<^verbatim>\<open>RecoveryPolicyContext\<close>.
\<close>

datatype context_role = Role_planner | Role_coder | Role_recovery

record context_document =
  cx_context_id :: string
  cx_run_id :: string
  cx_experiment_id :: "string option"
  cx_snapshot_event_id :: "string option"
  cx_source_event_ids :: "string list"
  cx_excluded_source_ids :: "(string, string) dict"
  cx_content :: string
  cx_estimated_tokens :: int
  cx_artifact :: artifact_ref

definition valid_context_document :: "'a context_document_scheme \<Rightarrow> bool" where
  "valid_context_document c \<longleftrightarrow> nonempty_str (cx_context_id c) \<and> nonempty_str (cx_run_id c)
     \<and> list_all nonempty_str (cx_source_event_ids c) \<and> dict_ok (cx_excluded_source_ids c)
     \<and> 0 \<le> cx_estimated_tokens c \<and> valid_artifact_ref (cx_artifact c)"

record planner_context = context_document +
  pcx_contract_sha256 :: string
  pcx_contract_summary :: planner_contract_summary
  pcx_baseline :: planner_experiment_summary
  pcx_current_best :: planner_experiment_summary
  pcx_eligible_frontier :: "planner_experiment_summary list"
  pcx_refinement_frontier_ids :: "string list"
  pcx_ensemble_candidate_ids :: "string list"
  pcx_family_history :: "planner_experiment_summary list"
  pcx_active_lessons :: "planner_lesson_summary list"
  pcx_method_cards :: "planner_method_card_summary list"
  pcx_playbook :: planner_playbook_summary
  pcx_target_interface_excerpts :: "(string, string) dict"
  pcx_data_profile :: "planner_data_profile option"
  pcx_remaining_budget :: planner_budget_summary
  pcx_convergence :: planner_convergence_summary

definition valid_planner_context ::
  "(planner_data_profile \<Rightarrow> string) \<Rightarrow> planner_context \<Rightarrow> bool" where
  "valid_planner_context dg c \<longleftrightarrow> valid_context_document c
     \<and> valid_planner_contract_summary (pcx_contract_summary c)
     \<and> valid_planner_experiment_summary (pcx_baseline c)
     \<and> valid_planner_experiment_summary (pcx_current_best c)
     \<and> list_all valid_planner_experiment_summary (pcx_eligible_frontier c)
     \<and> list_all valid_id (pcx_refinement_frontier_ids c) \<and> distinct (pcx_refinement_frontier_ids c)
     \<and> list_all valid_id (pcx_ensemble_candidate_ids c) \<and> distinct (pcx_ensemble_candidate_ids c)
     \<and> list_all valid_planner_experiment_summary (pcx_family_history c)
     \<and> list_all valid_planner_lesson_summary (pcx_active_lessons c)
     \<and> list_all valid_planner_method_card_summary (pcx_method_cards c)
     \<and> valid_planner_playbook_summary (pcx_playbook c)
     \<and> dict_ok (pcx_target_interface_excerpts c)
     \<and> list_all valid_path (dkeys (pcx_target_interface_excerpts c))
     \<and> list_all nonempty_str (dvalues (pcx_target_interface_excerpts c))
     \<and> opt_ok (valid_planner_data_profile dg) (pcx_data_profile c)
     \<and> valid_planner_budget_summary (pcx_remaining_budget c)
     \<and> valid_planner_convergence_summary (pcx_convergence c)"

record coder_prior_result_summary =
  cp_experiment_id :: string
  cp_family :: "string option"
  cp_highest_completed_fidelity :: "fidelity option"
  cp_population :: "population option"
  cp_decision :: "decision_kind option"
  cp_decision_reason_code :: "string option"
  cp_primary_score :: "pyfloat option"
  cp_metric_deltas :: "(string, pyfloat) dict"
  cp_parent_delta :: "pyfloat option"
  cp_prediction_change :: "pyfloat option"
  cp_prediction_spearman_vs_parent :: "pyfloat option"
  cp_diagnostic_metrics :: "(string, pyfloat) dict"
  cp_trust_verdict :: "trust_verdict option"
  cp_trust_flags :: "string list"
  cp_failure_hypotheses :: "string list"
  cp_source_event_ids :: "string list"

definition valid_coder_prior_result_summary :: "coder_prior_result_summary \<Rightarrow> bool" where
  "valid_coder_prior_result_summary s \<longleftrightarrow> nonempty_str (cp_experiment_id s)
     \<and> opt_ok nonempty_str (cp_decision_reason_code s) \<and> opt_ok is_float (cp_primary_score s)
     \<and> float_dict_ok (cp_metric_deltas s) \<and> opt_ok is_float (cp_parent_delta s)
     \<and> opt_ok unit_float (cp_prediction_change s)
     \<and> opt_ok signed_unit_float (cp_prediction_spearman_vs_parent s)
     \<and> str_dict_ok is_float (cp_diagnostic_metrics s) \<and> list_all nonempty_str (cp_trust_flags s)
     \<and> list_all nonempty_str (cp_failure_hypotheses s)
     \<and> list_all nonempty_str (cp_source_event_ids s) \<and> distinct (cp_source_event_ids s)"

record coder_context = context_document +
  cc_contract_sha256 :: string
  cc_experiment_spec :: experiment_spec
  cc_parent_commit_sha :: string
  cc_target_interface_excerpts :: "(string, string) dict"
  cc_editable_roots :: "string list"
  cc_protected_paths :: "string list"
  cc_allowed_command_ids :: "string list"
  cc_selected_method_cards :: "pyval list"
  cc_active_lessons :: "pyval list"
  cc_coding_invariants :: "string list"
  cc_prior_result_summaries :: "coder_prior_result_summary list"
  cc_component_patches :: "pyval list"
  cc_owner_retry_error_summary :: "string option"
  cc_owner_retry_instructions :: "string option"
  cc_step_limit :: int
  cc_token_limit :: "int option"
  cc_wall_time_limit_seconds :: int

definition is_pydict :: "pyval \<Rightarrow> bool" where
  "is_pydict v = (case v of PyDict _ \<Rightarrow> True | _ \<Rightarrow> False)"

definition valid_coder_context :: "coder_context \<Rightarrow> bool" where
  "valid_coder_context c \<longleftrightarrow> valid_context_document c \<and> valid_experiment_spec (cc_experiment_spec c)
     \<and> nonempty_str (cc_parent_commit_sha c) \<and> dict_ok (cc_target_interface_excerpts c)
     \<and> list_all nonempty_str (cc_allowed_command_ids c)
     \<and> list_all is_pydict (cc_selected_method_cards c) \<and> list_all is_pydict (cc_active_lessons c)
     \<and> list_all nonempty_str (cc_coding_invariants c)
     \<and> list_all valid_coder_prior_result_summary (cc_prior_result_summaries c)
     \<and> list_all is_pydict (cc_component_patches c)
     \<and> opt_ok nonempty_str (cc_owner_retry_error_summary c)
     \<and> opt_ok nonempty_str (cc_owner_retry_instructions c)
     \<and> 0 < cc_step_limit c \<and> opt_ok (\<lambda>k. 0 < k) (cc_token_limit c)
     \<and> 0 < cc_wall_time_limit_seconds c"

record recovery_context = context_document +
  rx_repair_attempt :: int
  rx_original_experiment_spec :: experiment_spec
  rx_current_patch_commit_sha :: string
  rx_accepted_patch_receipt_id :: "string option"
  rx_failure_class :: string
  rx_error_fingerprint :: string
  rx_error_summary :: string
  rx_relevant_trace_tail :: string
  rx_failed_checks :: "pyval list"
  rx_previous_repair_fingerprints :: "string list"
  rx_recovery_instructions :: string
  rx_remaining_repair_budget :: int
  rx_editable_roots :: "string list"
  rx_protected_paths :: "string list"

definition valid_recovery_context :: "recovery_context \<Rightarrow> bool" where
  "valid_recovery_context c \<longleftrightarrow> valid_context_document c \<and> 1 \<le> rx_repair_attempt c
     \<and> valid_experiment_spec (rx_original_experiment_spec c)
     \<and> nonempty_str (rx_current_patch_commit_sha c) \<and> nonempty_str (rx_failure_class c)
     \<and> nonempty_str (rx_error_fingerprint c) \<and> nonempty_str (rx_error_summary c)
     \<and> list_all is_pydict (rx_failed_checks c)
     \<and> list_all nonempty_str (rx_previous_repair_fingerprints c)
     \<and> nonempty_str (rx_recovery_instructions c) \<and> 0 \<le> rx_remaining_repair_budget c"

text \<open>The union is discriminated by \<^verbatim>\<open>role\<close>.\<close>

datatype context_value = Planner_context planner_context | Coder_context coder_context
  | Recovery_context recovery_context

fun context_role_of :: "context_value \<Rightarrow> context_role" where
  "context_role_of (Planner_context _) = Role_planner"
| "context_role_of (Coder_context _) = Role_coder"
| "context_role_of (Recovery_context _) = Role_recovery"

fun context_base :: "context_value \<Rightarrow> context_document" where
  "context_base (Planner_context c) = context_document.truncate c"
| "context_base (Coder_context c) = context_document.truncate c"
| "context_base (Recovery_context c) = context_document.truncate c"

fun role_name :: "context_role \<Rightarrow> string" where
  "role_name Role_planner = ''planner''"
| "role_name Role_coder = ''coder''"
| "role_name Role_recovery = ''recovery''"

fun valid_context_value :: "(planner_data_profile \<Rightarrow> string) \<Rightarrow> context_value \<Rightarrow> bool" where
  "valid_context_value dg (Planner_context c) = valid_planner_context dg c"
| "valid_context_value dg (Coder_context c) = valid_coder_context c"
| "valid_context_value dg (Recovery_context c) = valid_recovery_context c"

section \<open>Input of the recovery policy\<close>

record recovery_policy_context =
  rpc_run_id :: string
  rpc_experiment_id :: string
  rpc_original_experiment_spec :: experiment_spec
  rpc_current_patch_commit_sha :: string
  rpc_failure_event_id :: string
  rpc_failure_stage :: failure_stage
  rpc_attempt_history :: "(string, pyval) dict list"
  rpc_repair_attempts_used :: int
  rpc_max_repair_attempts :: int
  rpc_same_commit_retries_used :: int
  rpc_remaining_repair_budget :: int
  rpc_previous_error_fingerprints :: "string list"
  rpc_remaining_run_budget :: "(string, int) dict"
  rpc_allowed_runtime_adjustments :: "(string, pyval) dict"
  rpc_current_runtime_settings :: "(string, pyval) dict"
  rpc_contract_summary :: string

definition valid_recovery_policy_context :: "recovery_policy_context \<Rightarrow> bool" where
  "valid_recovery_policy_context c \<longleftrightarrow> nonempty_str (rpc_run_id c) \<and> nonempty_str (rpc_experiment_id c)
     \<and> valid_experiment_spec (rpc_original_experiment_spec c)
     \<and> nonempty_str (rpc_current_patch_commit_sha c) \<and> nonempty_str (rpc_failure_event_id c)
     \<and> list_all dict_ok (rpc_attempt_history c)
     \<and> 0 \<le> rpc_repair_attempts_used c
     \<and> 0 \<le> rpc_max_repair_attempts c \<and> rpc_max_repair_attempts c \<le> 2
     \<and> 0 \<le> rpc_same_commit_retries_used c \<and> rpc_same_commit_retries_used c \<le> 2
     \<and> 0 \<le> rpc_remaining_repair_budget c
     \<and> list_all nonempty_str (rpc_previous_error_fingerprints c)
     \<and> dict_ok (rpc_remaining_run_budget c) \<and> nonempty_str (rpc_contract_summary c)
     \<and> rpc_remaining_repair_budget c = rpc_max_repair_attempts c - rpc_repair_attempts_used c
     \<and> valid_runtime_mapping (rpc_allowed_runtime_adjustments c)
     \<and> valid_runtime_mapping (rpc_current_runtime_settings c)"

end
