(* ===== verification/Events.thy ===== *)
theory Events
  imports Schemas_Context "HOL-Library.Char_ord" "HOL-Library.List_Lexorder"
    "HOL-Library.Product_Lexorder"
begin

text \<open>
  The event payloads and the event envelope of \<^verbatim>\<open>schemas.py\<close>: the discriminated union
  \<^verbatim>\<open>EventPayload\<close> is a datatype with one constructor per payload model,
  \<^verbatim>\<open>Event.validate_envelope\<close> is part of \<open>valid_event\<close>, and \<^verbatim>\<open>payload_artifacts\<close> and
  \<^verbatim>\<open>payload_resource_deltas\<close> collect what is nested in a payload.
\<close>

datatype event_type = Type_RUN_STARTED | Type_CONTRACT_VERIFIED | Type_BASELINE_VERIFIED
  | Type_CONTEXT_CREATED | Type_PLANNER_RECOMMENDED | Type_PLANNING_FAILED
  | Type_EXPERIMENT_PROPOSED | Type_PATCH_CREATED | Type_PATCH_CHECKED | Type_EXECUTION_STARTED
  | Type_EXECUTION_FINISHED | Type_ADAPTER_FAILED | Type_RECOVERY_DECIDED | Type_OUTPUT_CHECKED
  | Type_EVALUATION_COMPLETED | Type_EXPERIMENT_DECIDED | Type_BEST_UPDATED | Type_LESSON_RECORDED
  | Type_LESSON_STATUS_CHANGED | Type_MANUAL_INTERVENTION | Type_RUN_STOPPED | Type_FINAL_SELECTED
  | Type_SUBMISSION_CHECKED

section \<open>Payload models\<close>

record run_started_payload =
  rs_config_sha256 :: string
  rs_contract_sha256 :: string
  rs_protected_paths_sha256 :: string
  rs_max_experiments :: int
  rs_parallel_directions :: int
  rs_synthesize_parallel_improvements :: bool
  rs_deepseek_timeout_seconds :: int
  rs_research_planning_max_attempts :: int
  rs_research_planning_retry_backoff_seconds :: pyfloat
  rs_wall_time_limit_seconds :: int
  rs_token_limit :: "int option"
  rs_gpu_seconds_limit :: "int option"
  rs_max_repairs_per_experiment :: int
  rs_max_confirmation_attempts :: int
  rs_seed_schedule :: "int list"
  rs_convergence_epsilon :: pyfloat
  rs_convergence_patience :: int

definition valid_run_started :: "run_started_payload \<Rightarrow> bool" where
  "valid_run_started p \<longleftrightarrow> SHA256_RE (rs_config_sha256 p) \<and> SHA256_RE (rs_contract_sha256 p)
     \<and> SHA256_RE (rs_protected_paths_sha256 p) \<and> 0 < rs_max_experiments p
     \<and> 0 < rs_parallel_directions p \<and> rs_parallel_directions p \<le> 7
     \<and> 0 < rs_deepseek_timeout_seconds p \<and> rs_deepseek_timeout_seconds p \<le> 600
     \<and> 0 < rs_research_planning_max_attempts p \<and> rs_research_planning_max_attempts p \<le> 3
     \<and> is_float (rs_research_planning_retry_backoff_seconds p)
     \<and> 0 \<le> rs_research_planning_retry_backoff_seconds p
     \<and> rs_research_planning_retry_backoff_seconds p \<le> 30
     \<and> 0 < rs_wall_time_limit_seconds p \<and> opt_ok (\<lambda>k. 0 < k) (rs_token_limit p)
     \<and> opt_ok (\<lambda>k. 0 < k) (rs_gpu_seconds_limit p) \<and> 0 \<le> rs_max_repairs_per_experiment p
     \<and> 0 \<le> rs_max_confirmation_attempts p \<and> nonneg_float (rs_convergence_epsilon p)
     \<and> 0 < rs_convergence_patience p"

record contract_verified_payload =
  cv_contract_sha256 :: string
  cv_protected_paths_sha256 :: string
  cv_metric_names :: "string list"
  cv_primary_metric_name :: string
  cv_command_ids :: "string list"
  cv_artifact_roots :: "string list"
  cv_evaluator_sha256 :: string

definition valid_contract_verified :: "contract_verified_payload \<Rightarrow> bool" where
  "valid_contract_verified p \<longleftrightarrow> SHA256_RE (cv_contract_sha256 p)
     \<and> SHA256_RE (cv_protected_paths_sha256 p) \<and> list_all nonempty_str (cv_metric_names p)
     \<and> nonempty_str (cv_primary_metric_name p) \<and> list_all nonempty_str (cv_command_ids p)
     \<and> list_all valid_path (cv_artifact_roots p) \<and> SHA256_RE (cv_evaluator_sha256 p)"

record baseline_verified_payload =
  bv_experiment_id :: string
  bv_commit_sha :: string
  bv_metric_set :: metric_set
  bv_evaluation :: evaluation_result

definition valid_baseline_verified :: "baseline_verified_payload \<Rightarrow> bool" where
  "valid_baseline_verified p \<longleftrightarrow> nonempty_str (bv_experiment_id p) \<and> nonempty_str (bv_commit_sha p)
     \<and> valid_metric_set (bv_metric_set p) \<and> valid_evaluation_result (bv_evaluation p)"

record best_updated_payload =
  bu_experiment_id :: string
  bu_commit_sha :: string
  bu_primary_metric_name :: string
  bu_primary_score :: pyfloat
  bu_decision_event_id :: string

definition valid_best_updated :: "best_updated_payload \<Rightarrow> bool" where
  "valid_best_updated p \<longleftrightarrow> nonempty_str (bu_experiment_id p) \<and> nonempty_str (bu_commit_sha p)
     \<and> nonempty_str (bu_primary_metric_name p) \<and> is_float (bu_primary_score p)
     \<and> nonempty_str (bu_decision_event_id p)"

record final_selected_payload =
  fs_experiment_id :: string
  fs_commit_sha :: string
  fs_reproduction_evaluation_event_id :: string

record submission_checked_payload =
  sc_accepted :: bool
  sc_submission_artifact :: artifact_ref
  sc_checks :: "check_result list"

definition valid_submission_checked :: "submission_checked_payload \<Rightarrow> bool" where
  "valid_submission_checked p \<longleftrightarrow> valid_artifact_ref (sc_submission_artifact p)
     \<and> list_all valid_check_result (sc_checks p)
     \<and> \<not> (sc_accepted p \<and> list_ex (\<lambda>c. ck_status c = Check_FAIL) (sc_checks p))"

text \<open>
  \<open>Lesson_recorded lesson_id candidate\<close>, \<open>Lesson_status_changed lesson_id status reason\<close>,
  \<open>Manual_intervention reason actor\<close>, \<open>Run_stopped reason_code reason\<close>; the other
  constructors carry the single nested model of their payload.
\<close>

datatype event_payload =
    Run_started run_started_payload
  | Contract_verified contract_verified_payload
  | Baseline_verified baseline_verified_payload
  | Context_created context_value
  | Planner_recommended planner_output
  | Planning_failed planning_failure_result
  | Experiment_proposed experiment_spec
  | Patch_created patch_candidate
  | Patch_checked patch_check_result
  | Execution_started run_request
  | Execution_finished run_result
  | Adapter_failed adapter_failure_result
  | Recovery_decided recovery_decision
  | Output_checked output_check_result
  | Evaluation_completed evaluation_result
  | Experiment_decided experiment_decision
  | Best_updated best_updated_payload
  | Lesson_recorded string lesson_candidate
  | Lesson_status_changed string lesson_status string
  | Manual_intervention string string
  | Run_stopped string string
  | Final_selected final_selected_payload
  | Submission_checked submission_checked_payload

fun payload_type :: "event_payload \<Rightarrow> event_type" where
  "payload_type (Run_started _) = Type_RUN_STARTED"
| "payload_type (Contract_verified _) = Type_CONTRACT_VERIFIED"
| "payload_type (Baseline_verified _) = Type_BASELINE_VERIFIED"
| "payload_type (Context_created _) = Type_CONTEXT_CREATED"
| "payload_type (Planner_recommended _) = Type_PLANNER_RECOMMENDED"
| "payload_type (Planning_failed _) = Type_PLANNING_FAILED"
| "payload_type (Experiment_proposed _) = Type_EXPERIMENT_PROPOSED"
| "payload_type (Patch_created _) = Type_PATCH_CREATED"
| "payload_type (Patch_checked _) = Type_PATCH_CHECKED"
| "payload_type (Execution_started _) = Type_EXECUTION_STARTED"
| "payload_type (Execution_finished _) = Type_EXECUTION_FINISHED"
| "payload_type (Adapter_failed _) = Type_ADAPTER_FAILED"
| "payload_type (Recovery_decided _) = Type_RECOVERY_DECIDED"
| "payload_type (Output_checked _) = Type_OUTPUT_CHECKED"
| "payload_type (Evaluation_completed _) = Type_EVALUATION_COMPLETED"
| "payload_type (Experiment_decided _) = Type_EXPERIMENT_DECIDED"
| "payload_type (Best_updated _) = Type_BEST_UPDATED"
| "payload_type (Lesson_recorded _ _) = Type_LESSON_RECORDED"
| "payload_type (Lesson_status_changed _ _ _) = Type_LESSON_STATUS_CHANGED"
| "payload_type (Manual_intervention _ _) = Type_MANUAL_INTERVENTION"
| "payload_type (Run_stopped _ _) = Type_RUN_STOPPED"
| "payload_type (Final_selected _) = Type_FINAL_SELECTED"
| "payload_type (Submission_checked _) = Type_SUBMISSION_CHECKED"

fun valid_payload :: "(planner_data_profile \<Rightarrow> string) \<Rightarrow> event_payload \<Rightarrow> bool" where
  "valid_payload dg (Run_started p) = valid_run_started p"
| "valid_payload dg (Contract_verified p) = valid_contract_verified p"
| "valid_payload dg (Baseline_verified p) = valid_baseline_verified p"
| "valid_payload dg (Context_created c) = valid_context_value dg c"
| "valid_payload dg (Planner_recommended out) =
     (valid_planner_output out \<and> po_action out \<noteq> Planner_PROPOSE)"
| "valid_payload dg (Planning_failed r) = valid_planning_failure_result r"
| "valid_payload dg (Experiment_proposed s) = valid_experiment_spec s"
| "valid_payload dg (Patch_created c) = valid_patch_candidate c"
| "valid_payload dg (Patch_checked r) = valid_patch_check_result r"
| "valid_payload dg (Execution_started r) = valid_run_request r"
| "valid_payload dg (Execution_finished r) = valid_run_result r"
| "valid_payload dg (Adapter_failed r) = valid_adapter_failure_result r"
| "valid_payload dg (Recovery_decided d) = valid_recovery_decision d"
| "valid_payload dg (Output_checked r) = valid_output_check_result r"
| "valid_payload dg (Evaluation_completed r) = valid_evaluation_result r"
| "valid_payload dg (Experiment_decided d) = valid_experiment_decision d"
| "valid_payload dg (Best_updated p) = valid_best_updated p"
| "valid_payload dg (Lesson_recorded i c) = (nonempty_str i \<and> valid_lesson_candidate c)"
| "valid_payload dg (Lesson_status_changed i s r) = (nonempty_str i \<and> nonempty_str r)"
| "valid_payload dg (Manual_intervention r a) = (nonempty_str r \<and> nonempty_str a)"
| "valid_payload dg (Run_stopped c r) = (nonempty_str c \<and> nonempty_str r)"
| "valid_payload dg (Final_selected p) =
     (nonempty_str (fs_experiment_id p) \<and> nonempty_str (fs_commit_sha p)
      \<and> nonempty_str (fs_reproduction_evaluation_event_id p))"
| "valid_payload dg (Submission_checked p) = valid_submission_checked p"

section \<open>What is nested in a payload\<close>

text \<open>
  The artifacts in field order, as the recursive \<^verbatim>\<open>visit\<close> of \<^verbatim>\<open>payload_artifacts\<close> meets
  them.  Only the listed fields hold artifacts or measurements; the summaries inside contexts and
  proposals hold neither.
\<close>

definition the_list :: "'a option \<Rightarrow> 'a list" where
  "the_list v = (case v of None \<Rightarrow> [] | Some x \<Rightarrow> [x])"

fun nested_artifacts :: "event_payload \<Rightarrow> artifact_ref list" where
  "nested_artifacts (Baseline_verified p) = the_list (ev_metrics_artifact (bv_evaluation p))"
| "nested_artifacts (Context_created c) = [cx_artifact (context_base c)]"
| "nested_artifacts (Planning_failed r) = pf_diagnostic_artifacts r"
| "nested_artifacts (Patch_created c) = [pc_diff_artifact c, pc_trajectory_artifact c]"
| "nested_artifacts (Patch_checked r) = the_list (pk_receipt_artifact r)"
| "nested_artifacts (Execution_finished r) = [rr_log_artifact r, rr_telemetry_artifact r]
     @ the_list (rr_checkpoint_artifact r) @ the_list (rr_prediction_artifact r)"
| "nested_artifacts (Adapter_failed r) = af_diagnostic_artifacts r"
| "nested_artifacts (Output_checked r) = [oc_prediction_artifact r]"
| "nested_artifacts (Evaluation_completed r) = the_list (ev_metrics_artifact r)"
| "nested_artifacts (Submission_checked p) = [sc_submission_artifact p]"
| "nested_artifacts _ = []"

fun payload_resource_deltas :: "event_payload \<Rightarrow> resource_delta list" where
  "payload_resource_deltas (Baseline_verified p) = [ev_resource_delta (bv_evaluation p)]"
| "payload_resource_deltas (Planner_recommended out) = [po_resource_delta out]"
| "payload_resource_deltas (Planning_failed r) = [pf_resource_delta r]"
| "payload_resource_deltas (Patch_created c) = [pc_resource_delta c]"
| "payload_resource_deltas (Patch_checked r) = [pk_resource_delta r]"
| "payload_resource_deltas (Execution_finished r) = [rr_resource_delta r]"
| "payload_resource_deltas (Adapter_failed r) = [af_resource_delta r]"
| "payload_resource_deltas (Recovery_decided d) = [rn_resource_delta d]"
| "payload_resource_deltas (Output_checked r) = [oc_resource_delta r]"
| "payload_resource_deltas (Evaluation_completed r) = [ev_resource_delta r]"
| "payload_resource_deltas (Experiment_decided d) = [ed_resource_delta d]"
| "payload_resource_deltas _ = []"

fun artifact_kind_value :: "artifact_kind \<Rightarrow> string" where
  "artifact_kind_value Artifact_DIFF = ''diff''"
| "artifact_kind_value Artifact_TRAJECTORY = ''trajectory''"
| "artifact_kind_value Artifact_CONTEXT = ''context''"
| "artifact_kind_value Artifact_LOG = ''log''"
| "artifact_kind_value Artifact_CHECKPOINT = ''checkpoint''"
| "artifact_kind_value Artifact_PREDICTIONS = ''predictions''"
| "artifact_kind_value Artifact_METRICS = ''metrics''"
| "artifact_kind_value Artifact_DELTA_VECTOR = ''delta_vector''"
| "artifact_kind_value Artifact_VERIFICATION_RECEIPT = ''verification_receipt''"
| "artifact_kind_value Artifact_SUBMISSION = ''submission''"
| "artifact_kind_value Artifact_REPORT = ''report''"
| "artifact_kind_value Artifact_OTHER = ''other''"

type_synonym artifact_key = "string \<times> string \<times> string \<times> string \<times> int \<times> string"

definition artifact_key :: "artifact_ref \<Rightarrow> artifact_key" where
  "artifact_key a = (art_artifact_id a, art_path a, artifact_kind_value (art_kind a),
     art_sha256 a, art_size_bytes a, (case art_content_type a of None \<Rightarrow> [] | Some t \<Rightarrow> t))"

text \<open>One pass over the found artifacts: content identities checked, unique references kept.\<close>

fun collect_artifacts ::
  "(string, string \<times> int) dict \<Rightarrow> (artifact_key, artifact_ref) dict \<Rightarrow> artifact_ref list
   \<Rightarrow> (artifact_key, artifact_ref) dict res" where
  "collect_artifacts ids unique [] = Inr unique"
| "collect_artifacts ids unique (a # as) =
     (let identity = (art_sha256 a, art_size_bytes a) in
      guarded (ValueError ''conflicting payload artifacts share artifact_id'')
        (case dget ids (art_artifact_id a) of None \<Rightarrow> True | Some previous \<Rightarrow> previous = identity)
        (collect_artifacts (dset (art_artifact_id a) identity ids) (dset (artifact_key a) a unique) as))"

definition payload_artifacts :: "event_payload \<Rightarrow> artifact_ref list res" where
  "payload_artifacts p = bind_res (collect_artifacts [] [] (nested_artifacts p))
     (\<lambda>unique. Inr (map snd (sort_key fst unique)))"

text \<open>
  \<^verbatim>\<open>payload.model_dump()\<close> read for an \<^verbatim>\<open>experiment_id\<close>: the one of the payload itself, or
  the one of a value nested directly in it.
\<close>

fun payload_experiment :: "event_payload \<Rightarrow> string list" where
  "payload_experiment (Baseline_verified p) = [bv_experiment_id p, ev_experiment_id (bv_evaluation p)]"
| "payload_experiment (Context_created c) = the_list (cx_experiment_id (context_base c))"
| "payload_experiment (Experiment_proposed s) = [rp_experiment_id s]"
| "payload_experiment (Patch_created c) = [pc_experiment_id c]"
| "payload_experiment (Patch_checked r) = [pk_experiment_id r]"
| "payload_experiment (Execution_started r) = [rq_experiment_id r]"
| "payload_experiment (Execution_finished r) = [rr_experiment_id r]"
| "payload_experiment (Adapter_failed r) = [af_experiment_id r]"
| "payload_experiment (Recovery_decided d) = [rn_experiment_id d]"
| "payload_experiment (Output_checked r) = [oc_experiment_id r]"
| "payload_experiment (Evaluation_completed r) = [ev_experiment_id r]"
| "payload_experiment (Experiment_decided d) = [ed_experiment_id d]"
| "payload_experiment (Best_updated p) = [bu_experiment_id p]"
| "payload_experiment (Final_selected p) = [fs_experiment_id p]"
| "payload_experiment _ = []"

definition mentions_experiment :: "string \<Rightarrow> event_payload \<Rightarrow> bool" where
  "mentions_experiment i p \<longleftrightarrow> i \<in> set (payload_experiment p)"

section \<open>The envelope\<close>

text \<open>\<^verbatim>\<open>timestamp\<close> is the instant in microseconds since the epoch, UTC.\<close>

record event =
  event_id :: string
  seq :: nat
  timestamp :: int
  run_id :: string
  event_type :: event_type
  idempotency_key :: string
  causation_event_id :: "string option"
  payload :: event_payload
  artifact_refs :: "artifact_ref list"
  resource_delta :: resource_delta
  prev_event_hash :: string
  event_hash :: string

definition canonical_decimal :: "string \<Rightarrow> bool" where
  "canonical_decimal s \<longleftrightarrow> s \<noteq> [] \<and> list_all is_digit s \<and> digits_of (number_of_digits s) = s"

definition valid_idempotency_key :: "string \<Rightarrow> string \<Rightarrow> bool" where
  "valid_idempotency_key rid key \<longleftrightarrow>
     (case split_on CHR '':'' key of
        [run, experiment, stage, attempt, digest] \<Rightarrow> run = rid \<and> ID_RE experiment \<and> ID_RE stage
          \<and> canonical_decimal attempt \<and> SHA256_RE digest
      | _ \<Rightarrow> False)"

definition valid_envelope :: "event \<Rightarrow> bool" where
  "valid_envelope e \<longleftrightarrow> event_id e = event_id_of (seq e)
     \<and> event_type e = payload_type (payload e)
     \<and> valid_idempotency_key (run_id e) (idempotency_key e)
     \<and> opt_ok (\<lambda>c. event_id_number c < seq e) (causation_event_id e)
     \<and> payload_artifacts (payload e) = Inr (artifact_refs e)
     \<and> list_all (\<lambda>d. d = resource_delta e) (payload_resource_deltas (payload e))"

definition valid_event :: "(planner_data_profile \<Rightarrow> string) \<Rightarrow> event \<Rightarrow> bool" where
  "valid_event dg e \<longleftrightarrow> EVENT_ID_RE (event_id e) \<and> 1 \<le> seq e \<and> nonempty_str (run_id e)
     \<and> nonempty_str (idempotency_key e) \<and> opt_ok EVENT_ID_RE (causation_event_id e)
     \<and> valid_payload dg (payload e) \<and> list_all valid_artifact_ref (artifact_refs e)
     \<and> valid_resource_delta (resource_delta e) \<and> SHA256_RE (prev_event_hash e)
     \<and> SHA256_RE (event_hash e) \<and> valid_envelope e"

section \<open>Facts about nested artifacts\<close>

lemma set_dset: "set (dset k v d) \<subseteq> insert (k, v) (set d)"
  by (induction d) auto

lemma keys_dset: "fst ` set (dset k v d) = insert k (fst ` set d)"
  using dom_map_of_conv_image_fst [of "dset k v d"] by (simp add: dom_map_of_conv_image_fst)

lemma collect_artifacts_set:
  assumes "collect_artifacts ids unique as = Inr result"
  shows "set result \<subseteq> set unique \<union> (\<lambda>a. (artifact_key a, a)) ` set as"
  using assms
proof (induction ids unique as rule: collect_artifacts.induct)
  case (2 ids unique a as)
  then have "set result \<subseteq> set (dset (artifact_key a) a unique) \<union> (\<lambda>a. (artifact_key a, a)) ` set as"
    by (simp add: Let_def raise_simps)
  with set_dset [of "artifact_key a" a unique] show ?case by auto
qed simp

lemma payload_artifacts_nested:
  assumes "payload_artifacts p = Inr as" shows "set as \<subseteq> set (nested_artifacts p)"
proof -
  from assms obtain unique where "collect_artifacts [] [] (nested_artifacts p) = Inr unique"
    and "as = map snd (sort_key fst unique)"
    by (auto simp: payload_artifacts_def raise_simps)
  with collect_artifacts_set [of "[]" "[]" "nested_artifacts p" unique] show ?thesis by auto
qed

lemma payload_artifacts_complete:
  assumes "collect_artifacts ids unique as = Inr result" and "dict_ok unique"
  shows "dict_ok result \<and> artifact_key ` set as \<union> fst ` set unique \<subseteq> fst ` set result"
  using assms
proof (induction ids unique as rule: collect_artifacts.induct)
  case (2 ids unique a as)
  then show ?case by (simp add: Let_def raise_simps keys_dset)
qed simp

end
