(* ===== verification/Accounting.thy ===== *)
theory Accounting
  imports Events
begin

text \<open>
  \<^verbatim>\<open>src/src/tacorank/accounting.py\<close>: the totals of the action-local resource measurements.  The
  lemmas show that the totals of a concatenation are the sums of the totals (peaks: the maxima),
  that no measurement label lets tokens escape the reported total, and that totals never decrease
  when measurements are appended.
\<close>

record resource_totals =
  rt_provider_input_tokens :: int
  rt_provider_output_tokens :: int
  rt_estimated_input_tokens :: int
  rt_estimated_output_tokens :: int
  rt_unmeasured_input_tokens :: int
  rt_unmeasured_output_tokens :: int
  rt_action_wall_time_ms :: int
  rt_cpu_time_ms :: int
  rt_gpu_weighted_time_ms :: int
  rt_manual_interventions :: int
  rt_peak_rss_mb :: int
  rt_peak_gpu_memory_mb :: int

definition provider_tokens :: "resource_totals \<Rightarrow> int" where
  "provider_tokens t = rt_provider_input_tokens t + rt_provider_output_tokens t"

definition estimated_tokens :: "resource_totals \<Rightarrow> int" where
  "estimated_tokens t = rt_estimated_input_tokens t + rt_estimated_output_tokens t"

definition unmeasured_tokens :: "resource_totals \<Rightarrow> int" where
  "unmeasured_tokens t = rt_unmeasured_input_tokens t + rt_unmeasured_output_tokens t"

definition total_reported_tokens :: "resource_totals \<Rightarrow> int" where
  "total_reported_tokens t = provider_tokens t + estimated_tokens t + unmeasured_tokens t"

definition by_measurement :: "token_measurement \<Rightarrow> resource_delta list \<Rightarrow> resource_delta list" where
  "by_measurement m deltas = filter (\<lambda>item. rd_token_measurement item = m) deltas"

definition sum_of :: "(resource_delta \<Rightarrow> int) \<Rightarrow> resource_delta list \<Rightarrow> int" where
  "sum_of f deltas = sum_list (map f deltas)"

text \<open>\<^verbatim>\<open>max((item.peak or 0 for item in deltas), default=0)\<close>\<close>

definition max_default :: "int list \<Rightarrow> int" where
  "max_default xs = (case xs of [] \<Rightarrow> 0 | y # ys \<Rightarrow> fold max ys y)"

definition or_zero :: "int option \<Rightarrow> int" where
  "or_zero v = (case v of None \<Rightarrow> 0 | Some k \<Rightarrow> k)"

definition aggregate_resources :: "resource_delta list \<Rightarrow> resource_totals" where
  "aggregate_resources deltas =
     \<lparr>rt_provider_input_tokens = sum_of rd_llm_input_tokens (by_measurement Measured_PROVIDER deltas),
      rt_provider_output_tokens = sum_of rd_llm_output_tokens (by_measurement Measured_PROVIDER deltas),
      rt_estimated_input_tokens = sum_of rd_llm_input_tokens (by_measurement Measured_ESTIMATED deltas),
      rt_estimated_output_tokens = sum_of rd_llm_output_tokens (by_measurement Measured_ESTIMATED deltas),
      rt_unmeasured_input_tokens = sum_of rd_llm_input_tokens (by_measurement Measured_NONE deltas),
      rt_unmeasured_output_tokens = sum_of rd_llm_output_tokens (by_measurement Measured_NONE deltas),
      rt_action_wall_time_ms = sum_of rd_wall_time_ms deltas,
      rt_cpu_time_ms = sum_of rd_cpu_time_ms deltas,
      rt_gpu_weighted_time_ms = sum_of (\<lambda>item. rd_gpu_time_ms item * rd_gpu_count item) deltas,
      rt_manual_interventions = sum_of rd_manual_interventions deltas,
      rt_peak_rss_mb = max_default (map (\<lambda>item. or_zero (rd_peak_rss_mb item)) deltas),
      rt_peak_gpu_memory_mb = max_default (map (\<lambda>item. or_zero (rd_peak_gpu_memory_mb item)) deltas)\<rparr>"

section \<open>Lemmas\<close>

lemma sum_of_simps [simp]: "sum_of f [] = 0" "sum_of f (x # xs) = f x + sum_of f xs"
  "sum_of f (xs @ ys) = sum_of f xs + sum_of f ys"
  by (simp_all add: sum_of_def)

lemma by_measurement_append [simp]:
  "by_measurement m (xs @ ys) = by_measurement m xs @ by_measurement m ys"
  by (simp add: by_measurement_def)

lemma sum_of_partition:
  "sum_of f (by_measurement Measured_PROVIDER deltas) + sum_of f (by_measurement Measured_ESTIMATED deltas)
   + sum_of f (by_measurement Measured_NONE deltas) = sum_of f deltas"
proof (induction deltas)
  case (Cons v vs)
  then show ?case by (cases "rd_token_measurement v") (simp_all add: by_measurement_def)
qed (simp add: by_measurement_def)

text \<open>The label says where a token count comes from, never whether it counts.\<close>

lemma total_reported_tokens_aggregate:
  "total_reported_tokens (aggregate_resources deltas)
   = sum_of (\<lambda>d. rd_llm_input_tokens d + rd_llm_output_tokens d) deltas"
proof -
  have split: "sum_of (\<lambda>d. f d + g d) xs = sum_of f xs + sum_of g xs" for f g xs
    by (induction xs) simp_all
  show ?thesis
    using sum_of_partition [of rd_llm_input_tokens deltas] sum_of_partition [of rd_llm_output_tokens deltas]
    by (simp add: total_reported_tokens_def provider_tokens_def estimated_tokens_def
        unmeasured_tokens_def aggregate_resources_def split)
qed

lemma sum_of_nonneg: "(\<And>d. d \<in> set ds \<Longrightarrow> 0 \<le> f d) \<Longrightarrow> 0 \<le> sum_of f ds"
  by (induction ds) (auto intro: add_nonneg_nonneg)

lemma total_reported_tokens_mono:
  assumes "list_all valid_resource_delta ys"
  shows "total_reported_tokens (aggregate_resources xs)
    \<le> total_reported_tokens (aggregate_resources (xs @ ys))"
proof -
  have "0 \<le> sum_of (\<lambda>d. rd_llm_input_tokens d + rd_llm_output_tokens d) ys"
    using assms by (intro sum_of_nonneg) (auto simp: list_all_iff valid_resource_delta_def)
  then show ?thesis by (simp add: total_reported_tokens_aggregate)
qed

lemma max_default_Max:
  assumes "list_all (\<lambda>k. 0 \<le> k) xs"
  shows "max_default xs = Max (insert 0 (set xs))"
proof (cases xs)
  case (Cons y ys)
  define M where "M = Max (insert y (set ys))"
  have "fold max ys y = M" unfolding M_def by (simp flip: Max.set_eq_fold)
  moreover have "Max (insert 0 (insert y (set ys))) = max 0 M" unfolding M_def by (rule Max_insert) simp_all
  moreover have "y \<le> M" by (simp add: M_def)
  ultimately show ?thesis using Cons assms by (simp add: max_default_def)
qed (simp add: max_default_def)

lemma peak_append:
  assumes "list_all (\<lambda>k. 0 \<le> k) xs" "list_all (\<lambda>k. 0 \<le> k) ys"
  shows "max_default (xs @ ys) = max (max_default xs) (max_default ys)"
proof -
  have "insert 0 (set (xs @ ys)) = insert 0 (set xs) \<union> insert 0 (set ys)" by auto
  then have "Max (insert 0 (set (xs @ ys))) = max (Max (insert 0 (set xs))) (Max (insert 0 (set ys)))"
    by (metis List.finite_set Max_Un finite.insertI insert_not_empty)
  with assms show ?thesis by (simp add: max_default_Max)
qed

end
