(* ===== verification/Run_State.thy ===== *)
theory Run_State
  imports Accounting
begin

text \<open>
  The derived state of \<^verbatim>\<open>src/src/tacorank/orchestrator/state.py\<close>: the run status, the status of
  an experiment, the experiment node, the view of a lesson and the run state, with the defaults of
  the dataclasses.
\<close>

datatype run_status = Run_INITIALIZING | Run_READY | Run_RUNNING | Run_STOPPED | Run_FINALIZING
  | Run_FINALIZED | Run_FAILED

datatype experiment_status = Exp_PROPOSED | Exp_PATCH_READY | Exp_READY_TO_RUN | Exp_RUNNING
  | Exp_OUTPUT_READY | Exp_OUTPUT_VERIFIED | Exp_EVALUATED | Exp_RECOVERING | Exp_NO_OP
  | Exp_ACCEPTED | Exp_REJECTED | Exp_PRUNED | Exp_INVALID

record experiment_node =
  node_experiment_id :: string
  node_parent_experiment_id :: "string option"
  node_hypothesis :: string
  node_family :: string
  node_base_commit_sha :: string
  node_latest_commit_sha :: "string option"
  node_attempt_count :: int
  node_repair_count :: int
  node_same_commit_retry_count :: int
  node_confirmation_count :: int
  node_highest_fidelity :: "fidelity option"
  node_status :: experiment_status
  node_metric_set :: "metric_set option"
  node_trust :: "trust_assessment option"
  node_best_eligible :: bool
  node_terminal_event_id :: "string option"
  node_duplicate_key :: string
  node_last_error_fingerprint :: "string option"
  node_evidence_event_ids :: "string list"

record lesson_view =
  lv_lesson_id :: string
  lv_status :: lesson_status
  lv_summary :: string
  lv_tags :: "string list"
  lv_source_event_id :: string

record run_state =
  st_run_id :: "string option"
  st_status :: run_status
  st_phase :: string
  st_active_experiment_id :: "string option"
  st_active_attempt :: "int option"
  st_active_fidelity :: "fidelity option"
  st_best_experiment_id :: "string option"
  st_best_commit_sha :: "string option"
  st_best_primary_score :: "pyfloat option"
  st_baseline_primary_score :: "pyfloat option"
  st_experiments_proposed :: int
  st_full_evaluations_completed :: int
  st_public_validation_queries :: int
  st_consecutive_non_improving :: int
  st_convergence_epsilon :: pyfloat
  st_convergence_patience :: int
  st_max_experiments :: int
  st_parallel_directions :: int
  st_synthesize_parallel_improvements :: bool
  st_wall_time_limit_seconds :: int
  st_token_limit :: "int option"
  st_gpu_seconds_limit :: "int option"
  st_max_repairs :: int
  st_max_confirmations :: int
  st_seed_schedule :: "int list"
  st_experiments :: "(string, experiment_node) dict"
  st_lessons :: "(string, lesson_view) dict"
  st_resource_totals :: resource_totals
  st_manual_intervention_count :: int
  st_started_at :: "int option"
  st_last_event_at :: "int option"
  st_elapsed_wall_time_seconds :: pyfloat
  st_last_event_id :: "string option"
  st_last_event_hash :: "string option"
  st_stop_reason_code :: "string option"
  st_final_experiment_id :: "string option"

text \<open>\<^verbatim>\<open>RunState()\<close>; the literal \<^verbatim>\<open>0.002\<close> is the binary64 value nearest to it.\<close>

definition initial_run_state :: run_state where
  "initial_run_state =
    \<lparr>st_run_id = None, st_status = Run_INITIALIZING, st_phase = ''not_started'',
     st_active_experiment_id = None, st_active_attempt = None, st_active_fidelity = None,
     st_best_experiment_id = None, st_best_commit_sha = None, st_best_primary_score = None,
     st_baseline_primary_score = None, st_experiments_proposed = 0,
     st_full_evaluations_completed = 0, st_public_validation_queries = 0,
     st_consecutive_non_improving = 0, st_convergence_epsilon = fl (2 / 1000),
     st_convergence_patience = 3, st_max_experiments = 0, st_parallel_directions = 1,
     st_synthesize_parallel_improvements = True, st_wall_time_limit_seconds = 0,
     st_token_limit = None, st_gpu_seconds_limit = None, st_max_repairs = 2,
     st_max_confirmations = 2, st_seed_schedule = [], st_experiments = [], st_lessons = [],
     st_resource_totals = aggregate_resources [], st_manual_intervention_count = 0,
     st_started_at = None, st_last_event_at = None, st_elapsed_wall_time_seconds = 0,
     st_last_event_id = None, st_last_event_hash = None, st_stop_reason_code = None,
     st_final_experiment_id = None\<rparr>"

text \<open>\<^verbatim>\<open>ExperimentNode(...)\<close> as the projection builds it from a specification.\<close>

definition new_node :: "experiment_spec \<Rightarrow> experiment_node" where
  "new_node spec =
    \<lparr>node_experiment_id = rp_experiment_id spec,
     node_parent_experiment_id = rp_parent_experiment_id spec,
     node_hypothesis = rp_hypothesis spec, node_family = rp_family spec,
     node_base_commit_sha = rp_parent_commit_sha spec, node_latest_commit_sha = None,
     node_attempt_count = 0, node_repair_count = 0, node_same_commit_retry_count = 0,
     node_confirmation_count = 0, node_highest_fidelity = None, node_status = Exp_PROPOSED,
     node_metric_set = None, node_trust = None, node_best_eligible = False,
     node_terminal_event_id = None, node_duplicate_key = rp_duplicate_key spec,
     node_last_error_fingerprint = None, node_evidence_event_ids = rp_evidence_event_ids spec\<rparr>"

definition remaining_experiments :: "run_state \<Rightarrow> int" where
  "remaining_experiments s = max 0 (st_max_experiments s - st_experiments_proposed s)"

definition current_experiment :: "run_state \<Rightarrow> experiment_node option" where
  "current_experiment s = (case st_active_experiment_id s of None \<Rightarrow> None
     | Some i \<Rightarrow> dget (st_experiments s) i)"

abbreviation node_of :: "run_state \<Rightarrow> string \<Rightarrow> experiment_node option" where
  "node_of s i \<equiv> dget (st_experiments s) i"

end
