(* ===== verification/Convergence.thy ===== *)
theory Convergence
  imports Run_State
begin

text \<open>
  The frozen stop rules of \<^verbatim>\<open>src/src/tacorank/orchestrator/convergence.py\<close>: which stop reasons
  allow finalization, the convergence pressure counted over the ledger, the runtime budgets and the
  order in which \<^verbatim>\<open>stop_decision\<close> tries them.  Of \<^verbatim>\<open>RunConfig\<close> (\<^verbatim>\<open>config.py\<close>) only the
  frozen limits that these rules read are modelled.
\<close>

record run_config =
  cfg_max_experiments :: int
  cfg_wall_time_limit_seconds :: int
  cfg_token_limit :: "int option"
  cfg_gpu_seconds_limit :: "int option"
  cfg_convergence_epsilon :: pyfloat
  cfg_convergence_patience :: int

record stop_decision_result =
  sd_stop :: bool
  sd_reason_code :: string
  sd_reason :: string

definition keep_going :: stop_decision_result where
  "keep_going = \<lparr>sd_stop = False, sd_reason_code = ''continue'',
     sd_reason = ''No deterministic stop condition matched.''\<rparr>"

definition stop_with :: "string \<Rightarrow> string \<Rightarrow> stop_decision_result" where
  "stop_with code reason = \<lparr>sd_stop = True, sd_reason_code = code, sd_reason = reason\<rparr>"

definition FINALIZABLE_STOP_REASON_CODES :: "string list" where
  "FINALIZABLE_STOP_REASON_CODES = [''experiment_budget'', ''wall_time_budget'', ''token_budget'',
     ''gpu_budget'', ''converged'', ''no_legal_proposal'']"

definition is_finalizable_stop_reason :: "string option \<Rightarrow> bool" where
  "is_finalizable_stop_reason code = (case code of None \<Rightarrow> False
     | Some c \<Rightarrow> c \<in> set FINALIZABLE_STOP_REASON_CODES)"

section \<open>Convergence pressure\<close>

text \<open>The local variables of the loop: the incumbent, the count and the evaluations by event.\<close>

record pressure =
  pr_incumbent :: "pyfloat option"
  pr_non_improving :: nat
  pr_evaluations :: "(string, evaluation_result) dict"

definition initial_pressure :: pressure where
  "initial_pressure = \<lparr>pr_incumbent = None, pr_non_improving = 0, pr_evaluations = []\<rparr>"

definition beats :: "pyfloat option \<Rightarrow> pyfloat \<Rightarrow> pyfloat \<Rightarrow> bool" where
  "beats incumbent epsilon score = (case incumbent of None \<Rightarrow> True
     | Some b \<Rightarrow> fadd b epsilon < score)"

definition trusted_public_full :: "evaluation_result \<Rightarrow> bool" where
  "trusted_public_full r \<longleftrightarrow> ev_fidelity r = Fidelity_FULL
     \<and> ev_population r = Population_PUBLIC_VALIDATION \<and> ta_verdict (ev_trust r) = Verdict_ACCEPTED"

definition decided_score :: "pressure \<Rightarrow> experiment_decision \<Rightarrow> pyfloat option" where
  "decided_score p d =
     (if ed_fidelity_completed d = Fidelity_FULL
      then (case ed_evaluation_event_id d of None \<Rightarrow> None
        | Some i \<Rightarrow> (case dget (pr_evaluations p) i of None \<Rightarrow> None
            | Some r \<Rightarrow> if trusted_public_full r then Some (ms_primary_score (ev_metric_set r)) else None))
      else None)"

definition pressure_decided :: "pyfloat \<Rightarrow> pressure \<Rightarrow> experiment_decision \<Rightarrow> pressure" where
  "pressure_decided epsilon p d =
     (if ed_decision d = Decision_PROMOTE \<or> ed_decision d = Decision_INVALID then p
      else case decided_score p d of
        Some score \<Rightarrow> if beats (pr_incumbent p) epsilon score
          then p\<lparr>pr_incumbent := Some score, pr_non_improving := 0\<rparr>
          else p\<lparr>pr_non_improving := Suc (pr_non_improving p)\<rparr>
      | None \<Rightarrow> p\<lparr>pr_non_improving := Suc (pr_non_improving p)\<rparr>)"

fun pressure_step :: "pyfloat \<Rightarrow> pressure \<Rightarrow> event \<Rightarrow> pressure" where
  "pressure_step epsilon p e =
     (case payload e of
        Baseline_verified b \<Rightarrow> p\<lparr>pr_incumbent := Some (ms_primary_score (bv_metric_set b))\<rparr>
      | Evaluation_completed r \<Rightarrow> p\<lparr>pr_evaluations := dset (event_id e) r (pr_evaluations p)\<rparr>
      | Experiment_decided d \<Rightarrow> pressure_decided epsilon p d
      | _ \<Rightarrow> p)"

definition convergence_pressure :: "event list \<Rightarrow> run_config \<Rightarrow> nat" where
  "convergence_pressure events config =
     pr_non_improving (foldl (pressure_step (cfg_convergence_epsilon config)) initial_pressure events)"

section \<open>Stop decision\<close>

text \<open>\<^verbatim>\<open>gpu_weighted_time_ms / 1000.0\<close>\<close>

definition gpu_seconds :: "run_state \<Rightarrow> pyfloat" where
  "gpu_seconds s = fdiv (fl (of_int (rt_gpu_weighted_time_ms (st_resource_totals s)))) 1000"

definition limit_reached :: "int option \<Rightarrow> rat \<Rightarrow> bool" where
  "limit_reached limit used = (case limit of None \<Rightarrow> False | Some k \<Rightarrow> of_int k \<le> used)"

definition runtime_budget_decision :: "run_state \<Rightarrow> run_config \<Rightarrow> stop_decision_result" where
  "runtime_budget_decision s config =
     (if of_int (cfg_wall_time_limit_seconds config) \<le> st_elapsed_wall_time_seconds s
      then stop_with ''wall_time_budget'' ''The frozen wall-clock budget is exhausted.''
      else if limit_reached (cfg_token_limit config)
        (of_int (total_reported_tokens (st_resource_totals s)))
      then stop_with ''token_budget'' ''The frozen LLM token budget is exhausted.''
      else if limit_reached (cfg_gpu_seconds_limit config) (gpu_seconds s)
      then stop_with ''gpu_budget'' ''The frozen GPU budget is exhausted.''
      else keep_going)"

definition stop_decision ::
  "run_state \<Rightarrow> event list \<Rightarrow> run_config \<Rightarrow> bool \<Rightarrow> bool \<Rightarrow> stop_decision_result" where
  "stop_decision s events config fatal_integrity no_legal_proposal =
     (if fatal_integrity
      then stop_with ''fatal_integrity'' ''A fatal integrity condition was recorded.''
      else if cfg_max_experiments config \<le> st_experiments_proposed s
      then stop_with ''experiment_budget'' ''The frozen experiment budget is exhausted.''
      else let runtime_stop = runtime_budget_decision s config in
        if sd_stop runtime_stop then runtime_stop
        else let pressure = convergence_pressure events config in
          if cfg_convergence_patience config \<le> int pressure
          then stop_with ''converged''
            (''No trusted terminal full-fidelity iteration improved the incumbent by ''
             @ ''more than epsilon for '' @ digits_of pressure @ '' consecutive iterations.'')
          else if no_legal_proposal
          then stop_with ''no_legal_proposal'' ''No legal non-duplicate proposal remains.''
          else keep_going)"

section \<open>Lemmas\<close>

lemma convergence_pressure_snoc:
  "foldl (pressure_step eps) initial_pressure (es @ [e])
   = pressure_step eps (foldl (pressure_step eps) initial_pressure es) e"
  by simp

text \<open>Only a terminal decision moves the count, and by at most one.\<close>

lemma pressure_step_le:
  "pr_non_improving (pressure_step eps p e) \<le> Suc (pr_non_improving p)"
  by (auto simp: pressure_decided_def Let_def split: event_payload.splits option.splits)

definition counts_as_iteration :: "event \<Rightarrow> bool" where
  "counts_as_iteration e = (case payload e of
     Experiment_decided d \<Rightarrow> ed_decision d \<noteq> Decision_PROMOTE \<and> ed_decision d \<noteq> Decision_INVALID
   | _ \<Rightarrow> False)"

lemma pressure_step_other:
  "\<not> counts_as_iteration e \<Longrightarrow> pr_non_improving (pressure_step eps p e) = pr_non_improving p"
  by (auto simp: counts_as_iteration_def pressure_decided_def split: event_payload.splits)

lemma pressure_bounded:
  "pr_non_improving (foldl (pressure_step eps) initial_pressure es)
   \<le> length (filter counts_as_iteration es)"
proof (induction es rule: rev_induct)
  case (snoc e es)
  then show ?case
    using pressure_step_le [of eps "foldl (pressure_step eps) initial_pressure es" e]
      pressure_step_other [of e eps "foldl (pressure_step eps) initial_pressure es"]
    by (simp del: pressure_step.simps)
qed (simp add: initial_pressure_def)

lemma runtime_stop_reason:
  "sd_stop (runtime_budget_decision s config) \<Longrightarrow>
   sd_reason_code (runtime_budget_decision s config)
     \<in> {''wall_time_budget'', ''token_budget'', ''gpu_budget''}"
  by (auto simp: runtime_budget_decision_def stop_with_def keep_going_def split: if_splits)

lemma stop_with_simps [simp]:
  "sd_stop (stop_with c r)" "sd_reason_code (stop_with c r) = c" "\<not> sd_stop keep_going"
  by (simp_all add: stop_with_def keep_going_def)

end
