(* ===== verification/Projection.thy ===== *)
theory Projection
  imports Convergence
begin

text \<open>
  \<^verbatim>\<open>src/src/tacorank/memory/projections.py\<close>: the reducer \<^verbatim>\<open>project\<close> that derives the run
  state from the events.  The branches of its \<^verbatim>\<open>if/elif\<close> chain are the functions
  \<open>on_...\<close>, one per event type; the local variables \<^verbatim>\<open>state\<close>, \<^verbatim>\<open>events_by_id\<close> and
  \<^verbatim>\<open>convergence_incumbent\<close> are the fields of the record \<open>projection\<close>.  The chain tests
  \<^verbatim>\<open>event.event_type\<close>, which \<^verbatim>\<open>Event.validate_envelope\<close> keeps equal to the payload's type,
  so the model matches on the payload.
\<close>

record projection =
  pj_state :: run_state
  pj_events_by_id :: "(string, event) dict"
  pj_incumbent :: "pyfloat option"

definition initial_projection :: projection where
  "initial_projection = \<lparr>pj_state = initial_run_state, pj_events_by_id = [], pj_incumbent = None\<rparr>"

text \<open>\<^verbatim>\<open>_node(state, experiment_id)\<close> followed by the rest of the branch.\<close>

definition with_node ::
  "run_state \<Rightarrow> string \<Rightarrow> (experiment_node \<Rightarrow> run_state res) \<Rightarrow> run_state res" where
  "with_node s i k = fetch (ValueError (''unknown experiment '' @ i)) (node_of s i) k"

definition put_node :: "string \<Rightarrow> experiment_node \<Rightarrow> run_state \<Rightarrow> run_state" where
  "put_node i n s = s\<lparr>st_experiments := dset i n (st_experiments s)\<rparr>"

definition clear_active :: "run_state \<Rightarrow> run_state" where
  "clear_active s = s\<lparr>st_active_experiment_id := None, st_active_attempt := None,
     st_active_fidelity := None\<rparr>"

section \<open>The branches of the reducer\<close>

definition note_event :: "event \<Rightarrow> run_state \<Rightarrow> run_state" where
  "note_event e s = s\<lparr>st_run_id := Some (run_id e), st_last_event_id := Some (event_id e),
     st_last_event_hash := Some (event_hash e), st_last_event_at := Some (timestamp e)\<rparr>"

definition on_run_started :: "event \<Rightarrow> run_started_payload \<Rightarrow> run_state \<Rightarrow> run_state" where
  "on_run_started e p s = s\<lparr>st_status := Run_INITIALIZING, st_phase := ''contract_verification'',
     st_started_at := Some (timestamp e), st_max_experiments := rs_max_experiments p,
     st_parallel_directions := rs_parallel_directions p,
     st_synthesize_parallel_improvements := rs_synthesize_parallel_improvements p,
     st_wall_time_limit_seconds := rs_wall_time_limit_seconds p,
     st_token_limit := rs_token_limit p, st_gpu_seconds_limit := rs_gpu_seconds_limit p,
     st_max_repairs := rs_max_repairs_per_experiment p,
     st_max_confirmations := rs_max_confirmation_attempts p,
     st_seed_schedule := rs_seed_schedule p, st_convergence_epsilon := rs_convergence_epsilon p,
     st_convergence_patience := rs_convergence_patience p\<rparr>"

definition on_baseline_verified :: "baseline_verified_payload \<Rightarrow> run_state \<Rightarrow> run_state" where
  "on_baseline_verified p s =
     (let s1 = s\<lparr>st_status := Run_READY, st_phase := ''planning'',
            st_baseline_primary_score := Some (ms_primary_score (bv_metric_set p))\<rparr>
      in if st_best_primary_score s1 = None
         then s1\<lparr>st_best_experiment_id := Some (bv_experiment_id p),
            st_best_commit_sha := Some (bv_commit_sha p),
            st_best_primary_score := Some (ms_primary_score (bv_metric_set p))\<rparr>
         else s1)"

definition on_context_created :: "context_value \<Rightarrow> run_state \<Rightarrow> run_state" where
  "on_context_created c s = s\<lparr>st_phase := role_name (context_role_of c) @ ''_context''\<rparr>"

definition on_experiment_proposed :: "experiment_spec \<Rightarrow> run_state \<Rightarrow> run_state" where
  "on_experiment_proposed spec s =
     (put_node (rp_experiment_id spec) (new_node spec) s)
       \<lparr>st_experiments_proposed := st_experiments_proposed s + 1,
        st_active_experiment_id := Some (rp_experiment_id spec), st_active_attempt := Some 1,
        st_status := Run_RUNNING, st_phase := ''coding''\<rparr>"

definition on_patch_created :: "patch_candidate \<Rightarrow> run_state \<Rightarrow> run_state res" where
  "on_patch_created c s = with_node s (pc_experiment_id c) (\<lambda>n. Inr
     ((put_node (pc_experiment_id c)
         (n\<lparr>node_latest_commit_sha := Some (pc_patch_commit_sha c),
            node_same_commit_retry_count := 0,
            node_attempt_count := max (node_attempt_count n) (pc_attempt c),
            node_status := Exp_PATCH_READY\<rparr>) s)
       \<lparr>st_active_attempt := Some (pc_attempt c), st_phase := ''patch_gate''\<rparr>))"

definition on_patch_checked :: "patch_check_result \<Rightarrow> run_state \<Rightarrow> run_state res" where
  "on_patch_checked r s = with_node s (pk_experiment_id r) (\<lambda>n. Inr
     ((put_node (pk_experiment_id r)
         (n\<lparr>node_status := if pk_accepted r then Exp_READY_TO_RUN else Exp_RECOVERING\<rparr>) s)
       \<lparr>st_phase := if pk_accepted r then ''execution'' else ''recovery''\<rparr>))"

definition on_execution_started :: "run_request \<Rightarrow> run_state \<Rightarrow> run_state res" where
  "on_execution_started r s = with_node s (rq_experiment_id r) (\<lambda>n. Inr
     ((put_node (rq_experiment_id r)
         (n\<lparr>node_status := Exp_RUNNING,
            node_attempt_count := max (node_attempt_count n) (rq_attempt r)\<rparr>) s)
       \<lparr>st_active_attempt := Some (rq_attempt r), st_active_fidelity := Some (rq_fidelity r),
        st_phase := ''running''\<rparr>))"

definition on_execution_finished :: "run_result \<Rightarrow> run_state \<Rightarrow> run_state res" where
  "on_execution_finished r s = with_node s (rr_experiment_id r) (\<lambda>n. Inr
     (if rr_outcome r = Outcome_SUCCESS
      then (put_node (rr_experiment_id r) (n\<lparr>node_status := Exp_OUTPUT_READY\<rparr>) s)
        \<lparr>st_phase := ''output_gate''\<rparr>
      else (put_node (rr_experiment_id r)
              (n\<lparr>node_status := Exp_RECOVERING,
                 node_last_error_fingerprint := rr_error_fingerprint r\<rparr>) s)
        \<lparr>st_phase := ''recovery''\<rparr>))"

definition on_adapter_failed :: "adapter_failure_result \<Rightarrow> run_state \<Rightarrow> run_state res" where
  "on_adapter_failed r s = with_node s (af_experiment_id r) (\<lambda>n. Inr
     ((put_node (af_experiment_id r)
         (n\<lparr>node_status := Exp_RECOVERING,
            node_last_error_fingerprint := Some (af_error_fingerprint r)\<rparr>) s)
       \<lparr>st_phase := ''recovery''\<rparr>))"

definition on_planning_failed :: "run_state \<Rightarrow> run_state" where
  "on_planning_failed s = (clear_active s)\<lparr>st_phase := ''planning_failure''\<rparr>"

text \<open>
  Where a retry of the same commit resumes: the stage of the failure that the decision cites.
  \<open>payload_failure_stage\<close> is \<^verbatim>\<open>getattr(payload.result, "failure_stage", None)\<close>; the literal
  stage \<^verbatim>\<open>"planner"\<close> of a planning failure selects the same branch as no stage.
\<close>

fun payload_failure_stage :: "event_payload \<Rightarrow> failure_stage option" where
  "payload_failure_stage (Adapter_failed r) = Some (af_failure_stage r)"
| "payload_failure_stage _ = None"

definition cause_is_evaluation :: "(string, event) dict \<Rightarrow> event \<Rightarrow> bool" where
  "cause_is_evaluation by_id failure =
     (case causation_event_id failure of None \<Rightarrow> False
      | Some i \<Rightarrow> (case dget by_id i of None \<Rightarrow> False
          | Some cause \<Rightarrow> payload_type (payload cause) = Type_EVALUATION_COMPLETED))"

definition retry_resumption ::
  "(string, event) dict \<Rightarrow> string \<Rightarrow> experiment_status \<times> string" where
  "retry_resumption by_id failure_event_id =
     (case dget by_id failure_event_id of
        None \<Rightarrow> (Exp_READY_TO_RUN, ''execution'')
      | Some failure \<Rightarrow>
         (case payload_failure_stage (payload failure) of
            Some Stage_coding \<Rightarrow> (Exp_PROPOSED, ''coding'')
          | Some Stage_patch_gate \<Rightarrow> (Exp_PATCH_READY, ''patch_gate'')
          | Some Stage_output_gate \<Rightarrow> (Exp_OUTPUT_READY, ''output_gate'')
          | Some Stage_evaluation \<Rightarrow>
              (if cause_is_evaluation by_id failure then (Exp_EVALUATED, ''decision'')
               else (Exp_OUTPUT_VERIFIED, ''evaluation''))
          | _ \<Rightarrow> (Exp_READY_TO_RUN, ''execution'')))"

definition consumes_repair :: "recovery_action \<Rightarrow> bool" where
  "consumes_repair a \<longleftrightarrow> a \<in> {Recovery_TRAE_REPAIR, Recovery_RESTART_FROM_TRUSTED_PARENT}"

definition count_recovery :: "recovery_decision \<Rightarrow> experiment_node \<Rightarrow> experiment_node" where
  "count_recovery d n =
     (let n1 = (if consumes_repair (rn_action d)
                then n\<lparr>node_repair_count := max (node_repair_count n) (rn_repair_attempt d)\<rparr> else n)
      in if rn_action d = Recovery_RETRY_SAME_COMMIT
         then n1\<lparr>node_same_commit_retry_count := node_same_commit_retry_count n1 + 1\<rparr> else n1)"

definition on_recovery_decided ::
  "(string, event) dict \<Rightarrow> event \<Rightarrow> recovery_decision \<Rightarrow> run_state \<Rightarrow> run_state res" where
  "on_recovery_decided by_id e d s = with_node s (rn_experiment_id d) (\<lambda>n0. Inr
     (let i = rn_experiment_id d; n = count_recovery d n0; a = rn_action d in
      if a = Recovery_ABANDON \<or> a = Recovery_ROLLBACK
      then (clear_active (put_node i (n\<lparr>node_status := Exp_INVALID,
              node_terminal_event_id := Some (event_id e)\<rparr>) s))\<lparr>st_phase := ''planning''\<rparr>
      else if a = Recovery_ADJUST_APPROVED_RUNTIME_SETTING
      then (put_node i (n\<lparr>node_status := Exp_READY_TO_RUN\<rparr>) s)\<lparr>st_phase := ''execution''\<rparr>
      else if a = Recovery_RETRY_SAME_COMMIT
      then (let (status, phase) = retry_resumption by_id (rn_failure_event_id d)
            in (put_node i (n\<lparr>node_status := status\<rparr>) s)\<lparr>st_phase := phase\<rparr>)
      else if a = Recovery_RETURN_TO_PLANNER
      then (put_node i (n\<lparr>node_status := Exp_NO_OP,
              node_terminal_event_id := Some (event_id e)\<rparr>) s)\<lparr>st_phase := ''planning''\<rparr>
      else (put_node i (n\<lparr>node_status := Exp_RECOVERING\<rparr>) s)\<lparr>st_phase := ''recovery''\<rparr>))"

definition on_output_checked :: "output_check_result \<Rightarrow> run_state \<Rightarrow> run_state res" where
  "on_output_checked r s = with_node s (oc_experiment_id r) (\<lambda>n. Inr
     ((put_node (oc_experiment_id r)
         (n\<lparr>node_status := if oc_accepted r then Exp_OUTPUT_VERIFIED else Exp_RECOVERING\<rparr>) s)
       \<lparr>st_phase := if oc_accepted r then ''evaluation'' else ''recovery''\<rparr>))"

definition on_evaluation_completed :: "evaluation_result \<Rightarrow> run_state \<Rightarrow> run_state res" where
  "on_evaluation_completed r s = with_node s (ev_experiment_id r) (\<lambda>n. Inr
     (let no_op = (ta_verdict (ev_trust r) = Verdict_NO_OP) in
      (put_node (ev_experiment_id r)
         (n\<lparr>node_status := if no_op then Exp_RECOVERING else Exp_EVALUATED,
            node_metric_set := Some (ev_metric_set r), node_trust := Some (ev_trust r),
            node_highest_fidelity := Some (ev_fidelity r)\<rparr>) s)
       \<lparr>st_phase := if no_op then ''recovery'' else ''decision'',
        st_public_validation_queries := st_public_validation_queries s
          + (if ev_population r = Population_PUBLIC_VALIDATION then 1 else 0),
        st_full_evaluations_completed := st_full_evaluations_completed s
          + (if ev_fidelity r = Fidelity_FULL then 1 else 0)\<rparr>))"

fun status_by_decision :: "decision_kind \<Rightarrow> experiment_status" where
  "status_by_decision Decision_ACCEPT = Exp_ACCEPTED"
| "status_by_decision Decision_REJECT = Exp_REJECTED"
| "status_by_decision Decision_PRUNE = Exp_PRUNED"
| "status_by_decision Decision_INVALID = Exp_INVALID"
| "status_by_decision Decision_PROMOTE = Exp_READY_TO_RUN"

text \<open>The score that a terminal full decision brings to the convergence counter, if any.\<close>

definition converged_score :: "experiment_decision \<Rightarrow> experiment_node \<Rightarrow> pyfloat option" where
  "converged_score d n =
     (if ed_fidelity_completed d = Fidelity_FULL
      then (case (node_metric_set n, node_trust n) of
              (Some m, Some t) \<Rightarrow> if ta_verdict t = Verdict_ACCEPTED then Some (ms_primary_score m) else None
            | _ \<Rightarrow> None)
      else None)"

definition count_convergence ::
  "pyfloat option \<Rightarrow> pyfloat option \<Rightarrow> run_state \<Rightarrow> run_state \<times> pyfloat option" where
  "count_convergence score incumbent s =
     (case score of None \<Rightarrow> (s, incumbent)
      | Some x \<Rightarrow>
          if beats incumbent (st_convergence_epsilon s) x
          then (s\<lparr>st_consecutive_non_improving := 0\<rparr>, Some x)
          else (s\<lparr>st_consecutive_non_improving := st_consecutive_non_improving s + 1\<rparr>, incumbent))"

definition decide_node :: "event \<Rightarrow> experiment_decision \<Rightarrow> experiment_node \<Rightarrow> experiment_node" where
  "decide_node e d n =
     (let n1 = n\<lparr>node_status := status_by_decision (ed_decision d),
                 node_best_eligible := ed_best_eligible d\<rparr>
      in if ed_decision d = Decision_PROMOTE
         then (if ed_next_fidelity d = Some Fidelity_FULL \<and> ed_fidelity_completed d = Fidelity_FULL
               then n1\<lparr>node_confirmation_count := node_confirmation_count n1 + 1\<rparr> else n1)
         else n1\<lparr>node_terminal_event_id := Some (event_id e)\<rparr>)"

definition on_experiment_decided ::
  "event \<Rightarrow> experiment_decision \<Rightarrow> pyfloat option \<Rightarrow> run_state \<Rightarrow> (run_state \<times> pyfloat option) res" where
  "on_experiment_decided e d incumbent s =
     fetch (ValueError (''unknown experiment '' @ ed_experiment_id d)) (node_of s (ed_experiment_id d))
       (\<lambda>n0. Inr
         (let n = decide_node e d n0; s1 = put_node (ed_experiment_id d) n s in
          if ed_decision d = Decision_PROMOTE
          then (s1\<lparr>st_active_fidelity := ed_next_fidelity d, st_phase := ''execution''\<rparr>, incumbent)
          else count_convergence (converged_score d n) incumbent
                 ((clear_active s1)\<lparr>st_phase := ''planning''\<rparr>)))"

definition on_best_updated :: "best_updated_payload \<Rightarrow> run_state \<Rightarrow> run_state" where
  "on_best_updated p s = s\<lparr>st_best_experiment_id := Some (bu_experiment_id p),
     st_best_commit_sha := Some (bu_commit_sha p),
     st_best_primary_score := Some (bu_primary_score p)\<rparr>"

definition on_lesson_recorded :: "event \<Rightarrow> string \<Rightarrow> lesson_candidate \<Rightarrow> run_state \<Rightarrow> run_state" where
  "on_lesson_recorded e i c s = s\<lparr>st_lessons := dset i
     \<lparr>lv_lesson_id = i, lv_status = Lesson_ACTIVE, lv_summary = lc_summary c, lv_tags = lc_tags c,
      lv_source_event_id = event_id e\<rparr> (st_lessons s)\<rparr>"

definition on_lesson_status_changed :: "string \<Rightarrow> lesson_status \<Rightarrow> run_state \<Rightarrow> run_state res" where
  "on_lesson_status_changed i status s = fetch (KeyError i) (dget (st_lessons s) i)
     (\<lambda>l. Inr (s\<lparr>st_lessons := dset i (l\<lparr>lv_status := status\<rparr>) (st_lessons s)\<rparr>))"

definition on_run_stopped :: "string \<Rightarrow> run_state \<Rightarrow> run_state" where
  "on_run_stopped code s =
     (let finalizable = is_finalizable_stop_reason (Some code) in
      (clear_active s)\<lparr>st_status := if finalizable then Run_STOPPED else Run_FAILED,
        st_phase := if finalizable then ''stopped'' else ''failed'', st_stop_reason_code := Some code\<rparr>)"

definition on_final_selected :: "final_selected_payload \<Rightarrow> run_state \<Rightarrow> run_state" where
  "on_final_selected p s = s\<lparr>st_status := Run_FINALIZING, st_phase := ''submission'',
     st_final_experiment_id := Some (fs_experiment_id p)\<rparr>"

definition on_submission_checked :: "submission_checked_payload \<Rightarrow> run_state \<Rightarrow> run_state" where
  "on_submission_checked p s = s\<lparr>st_status := if sc_accepted p then Run_FINALIZED else Run_FAILED,
     st_phase := if sc_accepted p then ''finalized'' else ''failed''\<rparr>"

section \<open>The reducer\<close>

definition lift_state :: "projection \<Rightarrow> run_state res \<Rightarrow> projection res" where
  "lift_state pj r = bind_res r (\<lambda>s. Inr (pj\<lparr>pj_state := s\<rparr>))"

fun on_event :: "projection \<Rightarrow> event \<Rightarrow> event_payload \<Rightarrow> projection res" where
  "on_event pj e (Run_started p) = lift_state pj (Inr (on_run_started e p (pj_state pj)))"
| "on_event pj e (Contract_verified p) = lift_state pj (Inr ((pj_state pj)\<lparr>st_phase := ''baseline''\<rparr>))"
| "on_event pj e (Baseline_verified p) =
     Inr (pj\<lparr>pj_state := on_baseline_verified p (pj_state pj),
             pj_incumbent := Some (ms_primary_score (bv_metric_set p))\<rparr>)"
| "on_event pj e (Context_created c) = lift_state pj (Inr (on_context_created c (pj_state pj)))"
| "on_event pj e (Planner_recommended _) = Inr pj"
| "on_event pj e (Planning_failed _) = lift_state pj (Inr (on_planning_failed (pj_state pj)))"
| "on_event pj e (Experiment_proposed p) = lift_state pj (Inr (on_experiment_proposed p (pj_state pj)))"
| "on_event pj e (Patch_created c) = lift_state pj (on_patch_created c (pj_state pj))"
| "on_event pj e (Patch_checked r) = lift_state pj (on_patch_checked r (pj_state pj))"
| "on_event pj e (Execution_started r) = lift_state pj (on_execution_started r (pj_state pj))"
| "on_event pj e (Execution_finished r) = lift_state pj (on_execution_finished r (pj_state pj))"
| "on_event pj e (Adapter_failed r) = lift_state pj (on_adapter_failed r (pj_state pj))"
| "on_event pj e (Recovery_decided d) =
     lift_state pj (on_recovery_decided (pj_events_by_id pj) e d (pj_state pj))"
| "on_event pj e (Output_checked r) = lift_state pj (on_output_checked r (pj_state pj))"
| "on_event pj e (Evaluation_completed r) = lift_state pj (on_evaluation_completed r (pj_state pj))"
| "on_event pj e (Experiment_decided d) =
     bind_res (on_experiment_decided e d (pj_incumbent pj) (pj_state pj))
       (\<lambda>(s, incumbent). Inr (pj\<lparr>pj_state := s, pj_incumbent := incumbent\<rparr>))"
| "on_event pj e (Best_updated p) = lift_state pj (Inr (on_best_updated p (pj_state pj)))"
| "on_event pj e (Lesson_recorded i c) = lift_state pj (Inr (on_lesson_recorded e i c (pj_state pj)))"
| "on_event pj e (Lesson_status_changed i st _) =
     lift_state pj (on_lesson_status_changed i st (pj_state pj))"
| "on_event pj e (Manual_intervention _ _) = lift_state pj
     (Inr ((pj_state pj)\<lparr>st_manual_intervention_count := st_manual_intervention_count (pj_state pj) + 1\<rparr>))"
| "on_event pj e (Run_stopped code _) = lift_state pj (Inr (on_run_stopped code (pj_state pj)))"
| "on_event pj e (Final_selected p) = lift_state pj (Inr (on_final_selected p (pj_state pj)))"
| "on_event pj e (Submission_checked p) = lift_state pj (Inr (on_submission_checked p (pj_state pj)))"

definition enter_event :: "event \<Rightarrow> projection \<Rightarrow> projection" where
  "enter_event e pj = pj\<lparr>pj_events_by_id := dset (event_id e) e (pj_events_by_id pj),
     pj_state := note_event e (pj_state pj)\<rparr>"

definition project_step :: "projection \<Rightarrow> event \<Rightarrow> projection res" where
  "project_step pj e = on_event (enter_event e pj) e (payload e)"

definition project_loop :: "event list \<Rightarrow> projection res" where
  "project_loop es = fold_res project_step initial_projection es"

text \<open>\<^verbatim>\<open>(last_event_at - started_at).total_seconds()\<close>, clamped at zero.\<close>

definition elapsed_seconds :: "run_state \<Rightarrow> pyfloat" where
  "elapsed_seconds s = (case (st_started_at s, st_last_event_at s) of
     (Some a, Some b) \<Rightarrow> max 0 (fl (of_int (b - a) / 1000000))
   | _ \<Rightarrow> st_elapsed_wall_time_seconds s)"

definition finish_projection :: "event list \<Rightarrow> run_state \<Rightarrow> run_state" where
  "finish_projection es s =
     (let s1 = s\<lparr>st_resource_totals := aggregate_resources (map resource_delta es)\<rparr>
      in s1\<lparr>st_elapsed_wall_time_seconds := elapsed_seconds s1\<rparr>)"

definition project :: "event list \<Rightarrow> run_state res" where
  "project es = bind_res (project_loop es) (\<lambda>pj. Inr (finish_projection es (pj_state pj)))"

end
