(* ===== verification/Transitions.thy ===== *)
theory Transitions
  imports Projection
begin

text \<open>
  \<^verbatim>\<open>src/src/tacorank/orchestrator/state_machine.py\<close>: \<^verbatim>\<open>validate_transition(events, payload)\<close>
  decides whether a payload may follow an event prefix.  The searches over the prefix come first,
  then one function \<open>check_...\<close> per branch of the \<^verbatim>\<open>if/elif\<close> chain on the event type, with the
  guards in the order and with the messages of the code, then \<open>validate_transition\<close> itself.
\<close>

definition req :: "bool \<Rightarrow> string \<Rightarrow> 'a res \<Rightarrow> 'a res" where
  "req c m k = guarded (TransitionError m) c k"

lemma req_Inr [raise_simps]: "req c m k = Inr x \<longleftrightarrow> c \<and> k = Inr x"
  by (simp add: req_def raise_simps)

lemma req_simps [simp]: "req True m k = k" "req False m k = Inl (TransitionError m)"
  by (simp_all add: req_def)

section \<open>Searches over the prefix\<close>

text \<open>Selecting the nested model of one event type.\<close>

fun as_contract :: "event_payload \<Rightarrow> contract_verified_payload option" where
  "as_contract (Contract_verified p) = Some p" | "as_contract _ = None"
fun as_baseline :: "event_payload \<Rightarrow> baseline_verified_payload option" where
  "as_baseline (Baseline_verified p) = Some p" | "as_baseline _ = None"
fun as_context :: "event_payload \<Rightarrow> context_value option" where
  "as_context (Context_created c) = Some c" | "as_context _ = None"
fun as_proposed :: "event_payload \<Rightarrow> experiment_spec option" where
  "as_proposed (Experiment_proposed p) = Some p" | "as_proposed _ = None"
fun as_patch :: "event_payload \<Rightarrow> patch_candidate option" where
  "as_patch (Patch_created c) = Some c" | "as_patch _ = None"
fun as_patch_check :: "event_payload \<Rightarrow> patch_check_result option" where
  "as_patch_check (Patch_checked r) = Some r" | "as_patch_check _ = None"
fun as_started :: "event_payload \<Rightarrow> run_request option" where
  "as_started (Execution_started r) = Some r" | "as_started _ = None"
fun as_finished :: "event_payload \<Rightarrow> run_result option" where
  "as_finished (Execution_finished r) = Some r" | "as_finished _ = None"
fun as_recovery :: "event_payload \<Rightarrow> recovery_decision option" where
  "as_recovery (Recovery_decided d) = Some d" | "as_recovery _ = None"
fun as_output :: "event_payload \<Rightarrow> output_check_result option" where
  "as_output (Output_checked r) = Some r" | "as_output _ = None"
fun as_evaluation :: "event_payload \<Rightarrow> evaluation_result option" where
  "as_evaluation (Evaluation_completed r) = Some r" | "as_evaluation _ = None"
fun as_decision :: "event_payload \<Rightarrow> experiment_decision option" where
  "as_decision (Experiment_decided d) = Some d" | "as_decision _ = None"

definition events_of :: "event list \<Rightarrow> event_type \<Rightarrow> event list" where
  "events_of es t = filter (\<lambda>e. payload_type (payload e) = t) es"

text \<open>The last event of a type with its nested model, and the last one that mentions an experiment.\<close>

definition pick :: "(event_payload \<Rightarrow> 'a option) \<Rightarrow> event option \<Rightarrow> (event \<times> 'a) option" where
  "pick sel oe = (case oe of None \<Rightarrow> None | Some e \<Rightarrow> map_option (\<lambda>x. (e, x)) (sel (payload e)))"

definition last_of :: "(event_payload \<Rightarrow> 'a option) \<Rightarrow> event list \<Rightarrow> (event \<times> 'a) option" where
  "last_of sel es = pick sel (last_such (\<lambda>e. sel (payload e) \<noteq> None) es)"

definition last_for_experiment ::
  "(event_payload \<Rightarrow> 'a option) \<Rightarrow> event list \<Rightarrow> string \<Rightarrow> (event \<times> 'a) option" where
  "last_for_experiment sel es i = pick sel
     (last_such (\<lambda>e. sel (payload e) \<noteq> None \<and> mentions_experiment i (payload e)) es)"

text \<open>\<^verbatim>\<open>next((e for e in events if e.event_id == i and e.event_type == ...), None)\<close>\<close>

definition event_with_id ::
  "(event_payload \<Rightarrow> 'a option) \<Rightarrow> event list \<Rightarrow> string \<Rightarrow> (event \<times> 'a) option" where
  "event_with_id sel es i = pick sel
     (first_such (\<lambda>e. event_id e = i \<and> sel (payload e) \<noteq> None) es)"

text \<open>\<^verbatim>\<open>events[: events.index(event)]\<close>\<close>

definition prefix_before :: "event list \<Rightarrow> event \<Rightarrow> event list" where
  "prefix_before es e = before (\<lambda>x. x = e) es"

definition same_duplicate_key :: "run_state \<Rightarrow> string \<Rightarrow> experiment_node list" where
  "same_duplicate_key s k = filter (\<lambda>n. node_duplicate_key n = k) (dvalues (st_experiments s))"

definition authorized_no_op_reimplementation ::
  "event list \<Rightarrow> run_state \<Rightarrow> experiment_spec \<Rightarrow> bool" where
  "authorized_no_op_reimplementation es s spec =
     (case same_duplicate_key s (rp_duplicate_key spec) of
        [n] \<Rightarrow> node_status n = Exp_NO_OP
          \<and> (case last_for_experiment as_recovery es (node_experiment_id n) of None \<Rightarrow> False
             | Some (_, d) \<Rightarrow> rn_action d = Recovery_RETURN_TO_PLANNER
                 \<and> rn_reason_code d \<in> {''NO_OP_RECOVERY_EXHAUSTED'', ''NO_OP_REPAIR_WORKER_EXHAUSTED''})
          \<and> (case last_for_experiment as_evaluation es (node_experiment_id n) of None \<Rightarrow> False
             | Some (_, r) \<Rightarrow> ta_verdict (ev_trust r) = Verdict_NO_OP)
          \<and> rp_parent_experiment_id spec = node_parent_experiment_id n
          \<and> rp_family spec = node_family n
      | _ \<Rightarrow> False)"

definition authorized_failed_attempt_reexploration :: "run_state \<Rightarrow> experiment_spec \<Rightarrow> bool" where
  "authorized_failed_attempt_reexploration s spec =
     (let prior = same_duplicate_key s (rp_duplicate_key spec) in
      if prior = [] \<or> 3 \<le> length prior then False
      else list_all (\<lambda>n. node_status n \<in> {Exp_INVALID, Exp_NO_OP}) prior)"

text \<open>Is the event a failure of the experiment that recovery may answer?\<close>

definition recoverable_failure :: "string \<Rightarrow> event \<Rightarrow> bool" where
  "recoverable_failure i e = (case payload e of
     Patch_checked r \<Rightarrow> pk_experiment_id r = i \<and> \<not> pk_accepted r
   | Execution_finished r \<Rightarrow> rr_experiment_id r = i \<and> rr_outcome r \<noteq> Outcome_SUCCESS
   | Adapter_failed r \<Rightarrow> af_experiment_id r = i
   | Output_checked r \<Rightarrow> oc_experiment_id r = i \<and> \<not> oc_accepted r
   | Evaluation_completed r \<Rightarrow> ev_experiment_id r = i \<and> ta_verdict (ev_trust r) = Verdict_NO_OP
   | _ \<Rightarrow> False)"

definition latest_recoverable_failure :: "event list \<Rightarrow> string \<Rightarrow> event option" where
  "latest_recoverable_failure es i = last_such (recoverable_failure i) es"

definition retrying_initial_coder :: "event list \<Rightarrow> string \<Rightarrow> bool" where
  "retrying_initial_coder es i =
     ((case last_for_experiment as_recovery es i of None \<Rightarrow> False
       | Some (_, d) \<Rightarrow> rn_action d = Recovery_RETRY_SAME_COMMIT)
      \<and> (case latest_recoverable_failure es i of None \<Rightarrow> False
         | Some f \<Rightarrow> payload_failure_stage (payload f) = Some Stage_coding))"

definition evaluation_request :: "event list \<Rightarrow> evaluation_result \<Rightarrow> run_request res" where
  "evaluation_request es r =
     fetch (TransitionError ''evaluation requires accepted output'')
       (last_for_experiment as_output es (ev_experiment_id r)) (\<lambda>(_, output).
     req (oc_accepted output) ''evaluation requires accepted output''
     (req (oc_attempt output = ev_attempt r) ''evaluation attempt does not match output''
     (fetch (TransitionError ''evaluation requires a successful execution'')
       (last_for_experiment as_finished es (ev_experiment_id r)) (\<lambda>(_, finished).
     req (rr_outcome finished = Outcome_SUCCESS) ''evaluation requires a successful execution''
     (fetch (TransitionError ''evaluation has no execution request'')
       (last_for_experiment as_started es (ev_experiment_id r)) (\<lambda>(_, request).
     req (rr_attempt finished = rq_attempt request \<and> rq_attempt request = ev_attempt r
          \<and> rr_fidelity finished = rq_fidelity request
          \<and> rr_patch_commit_sha finished = rq_patch_commit_sha request)
       ''evaluation source execution identity mismatch''
     (Inr request)))))))"

section \<open>Bootstrap and planning\<close>

definition check_contract_verified :: "event list \<Rightarrow> unit res" where
  "check_contract_verified es =
     req (case es of [e] \<Rightarrow> payload_type (payload e) = Type_RUN_STARTED | _ \<Rightarrow> False)
       ''contract.verified must immediately follow run.started'' (Inr ())"

definition check_baseline_verified :: "event list \<Rightarrow> baseline_verified_payload \<Rightarrow> unit res" where
  "check_baseline_verified es p =
     fetch (TransitionError ''baseline requires a verified contract'') (last_of as_contract es)
       (\<lambda>(_, contract).
     req (events_of es Type_BASELINE_VERIFIED = []) ''baseline may be verified only once''
     (req (ev_contract_sha256 (bv_evaluation p) = cv_contract_sha256 contract
           \<and> ev_evaluator_sha256 (bv_evaluation p) = cv_evaluator_sha256 contract)
       ''baseline evaluation hashes do not match the frozen contract''
     (Inr ())))"

definition check_context_created :: "event list \<Rightarrow> run_state \<Rightarrow> unit res" where
  "check_context_created es s =
     req (events_of es Type_BASELINE_VERIFIED \<noteq> []) ''context cannot be created before baseline parity''
     (req (st_status s \<notin> {Run_STOPPED, Run_FINALIZING}) ''run is stopped'' (Inr ()))"

definition check_planner_recommended :: "event list \<Rightarrow> unit res" where
  "check_planner_recommended es =
     fetch (TransitionError ''planner recommendation requires context'') (last_of as_context es)
       (\<lambda>(_, c). req (context_role_of c = Role_planner) ''latest context must be planner'' (Inr ()))"

definition check_planning_failed ::
  "event list \<Rightarrow> run_state \<Rightarrow> planning_failure_result \<Rightarrow> unit res" where
  "check_planning_failed es s r =
     req (st_status s \<in> {Run_READY, Run_RUNNING} \<and> st_phase s = ''planner_context'')
       ''planning failure requires an active planner checkpoint''
     (fetch (TransitionError ''planning failure requires context'') (last_of as_context es)
       (\<lambda>(context_event, c).
     req (context_role_of c = Role_planner \<and> cx_context_id (context_base c) = pf_context_id r)
       ''planning failure context mismatch''
     (req (event_id (last es) = event_id context_event)
       ''planning failure must immediately follow its planner context''
     (req (st_active_experiment_id s = None)
       ''planning failure cannot be attached to an active experiment''
     (Inr ())))))"

definition parent_is_baseline :: "string option \<Rightarrow> bool" where
  "parent_is_baseline parent \<longleftrightarrow> parent = None \<or> parent = Some ''baseline''"

definition expected_parent_commit :: "event list \<Rightarrow> run_state \<Rightarrow> string option \<Rightarrow> string res" where
  "expected_parent_commit es s parent =
     (if parent_is_baseline parent
      then fetch IndexError (last_of as_baseline es) (\<lambda>(_, b). Inr (bv_commit_sha b))
      else (case parent of None \<Rightarrow> Inl (KeyError [])
        | Some i \<Rightarrow> fetch (KeyError i) (node_of s i) (\<lambda>n.
            fetch (TransitionError ''selected parent experiment has no patch commit'')
              (node_latest_commit_sha n) Inr)))"

definition check_experiment_proposed ::
  "event list \<Rightarrow> run_state \<Rightarrow> experiment_spec \<Rightarrow> unit res" where
  "check_experiment_proposed es s spec =
     req (st_status s \<in> {Run_READY, Run_RUNNING}) ''run is not accepting proposals''
     (req (node_of s (rp_experiment_id spec) = None) ''duplicate experiment_id''
     (req (same_duplicate_key s (rp_duplicate_key spec) = []
           \<or> authorized_no_op_reimplementation es s spec
           \<or> authorized_failed_attempt_reexploration s spec)
       ''duplicate experiment proposal''
     (req (truthy_str (rp_parent_experiment_id spec) \<longrightarrow>
             (case rp_parent_experiment_id spec of None \<Rightarrow> False
              | Some i \<Rightarrow> node_of s i \<noteq> None \<or> i = ''baseline''))
       ''unknown parent experiment''
     (bind_res (expected_parent_commit es s (rp_parent_experiment_id spec)) (\<lambda>expected.
      req (rp_parent_commit_sha spec = expected)
        ''parent_commit_sha does not match the selected parent''
     (fetch (TransitionError ''proposal requires planner context'') (last_of as_context es) (\<lambda>(_, c).
      req (context_role_of c = Role_planner \<and> cx_context_id (context_base c) = rp_context_id spec)
        ''proposal context mismatch''
     (Inr ()))))))))"

section \<open>Coding and Gate A\<close>

definition check_patch_created :: "event list \<Rightarrow> run_state \<Rightarrow> patch_candidate \<Rightarrow> unit res" where
  "check_patch_created es s c =
     fetch (TransitionError ''patch has unknown experiment'') (node_of s (pc_experiment_id c)) (\<lambda>n.
     req (node_status n \<in> {Exp_PROPOSED, Exp_RECOVERING}
          \<or> (node_status n = Exp_READY_TO_RUN \<and> retrying_initial_coder es (pc_experiment_id c)))
       ''patch is not legal in the current experiment state''
     (req (case last_for_experiment as_proposed es (pc_experiment_id c) of None \<Rightarrow> False
           | Some (proposed, _) \<Rightarrow> event_id proposed = pc_experiment_spec_event_id c)
       ''patch references the wrong experiment proposal''
     (req (list_ex (\<lambda>e. case payload e of
             Context_created x \<Rightarrow> cx_context_id (context_base x) = pc_context_id c
               \<and> context_role_of x \<in> {Role_coder, Role_recovery}
           | _ \<Rightarrow> False) es)
       ''patch context does not exist''
     (Inr ()))))"

definition node_is :: "run_state \<Rightarrow> string \<Rightarrow> experiment_status \<Rightarrow> bool" where
  "node_is s i status = (case node_of s i of None \<Rightarrow> False | Some n \<Rightarrow> node_status n = status)"

definition check_patch_checked :: "event list \<Rightarrow> run_state \<Rightarrow> patch_check_result \<Rightarrow> unit res" where
  "check_patch_checked es s r =
     req (node_is s (pk_experiment_id r) Exp_PATCH_READY) ''no patch is ready''
     (fetch (TransitionError ''patch check requires patch.created'')
       (last_for_experiment as_patch es (pk_experiment_id r)) (\<lambda>(_, patch).
     req (pc_patch_commit_sha patch = pk_patch_commit_sha r \<and> pc_diff_sha256 patch = pk_diff_sha256 r)
       ''patch check identity mismatch''
     (Inr ())))"

section \<open>Execution\<close>

definition clean_reproduction_at :: "event list \<Rightarrow> run_request \<Rightarrow> event \<Rightarrow> bool res" where
  "clean_reproduction_at es request e = (case payload e of
     Evaluation_completed r \<Rightarrow>
       (if ev_experiment_id r = rq_experiment_id request
           \<and> ev_population r = Population_PUBLIC_VALIDATION \<and> ev_fidelity r = Fidelity_FULL
           \<and> ta_verdict (ev_trust r) = Verdict_ACCEPTED \<and> ta_integrity (ev_trust r) = Integrity_CLEAN
        then bind_res (evaluation_request (prefix_before es e) r)
               (\<lambda>q. Inr (rq_command_id q = ''clean_reproduce''))
        else Inr False)
   | _ \<Rightarrow> Inr False)"

definition accepted_output :: "string \<Rightarrow> event_payload \<Rightarrow> output_check_result option" where
  "accepted_output i p = (case as_output p of None \<Rightarrow> None
     | Some r \<Rightarrow> if oc_experiment_id r = i \<and> oc_accepted r then Some r else None)"

definition request_of_attempt :: "string \<Rightarrow> int \<Rightarrow> event_payload \<Rightarrow> run_request option" where
  "request_of_attempt i attempt p = (case as_started p of None \<Rightarrow> None
     | Some q \<Rightarrow> if rq_experiment_id q = i \<and> rq_attempt q = attempt then Some q else None)"

definition check_submission_evidence :: "event list \<Rightarrow> run_request \<Rightarrow> unit res" where
  "check_submission_evidence es request =
     fetch (TransitionError ''submission check requires accepted final output'')
       (last_of (accepted_output (rq_experiment_id request)) es) (\<lambda>(_, output).
     req (case last_of (request_of_attempt (rq_experiment_id request) (oc_attempt output)) es of
            None \<Rightarrow> False | Some (_, q) \<Rightarrow> rq_command_id q = ''candidate_final_infer'')
       ''submission check requires accepted final-inference output''
     (Inr ()))"

definition check_post_stop_execution :: "event list \<Rightarrow> run_state \<Rightarrow> run_request \<Rightarrow> unit res" where
  "check_post_stop_execution es s request =
     req (node_of s (rq_experiment_id request) \<noteq> None
          \<and> st_best_experiment_id s = Some (rq_experiment_id request)
          \<and> st_best_commit_sha s = Some (rq_patch_commit_sha request)
          \<and> rq_fidelity request = Fidelity_FULL
          \<and> rq_command_id request \<in> {''clean_reproduce'', ''candidate_final_infer'', ''submission_check''})
       ''post-stop execution must target the selected sealed commit''
     (bind_res
       (if rq_command_id request = ''candidate_final_infer''
        then bind_res (any_res (clean_reproduction_at es request) es)
          (\<lambda>found. req found ''final inference requires trusted clean reproduction'' (Inr ()))
        else Inr ())
       (\<lambda>_. if rq_command_id request = ''submission_check''
            then check_submission_evidence es request else Inr ()))"

definition check_receipt :: "event list \<Rightarrow> run_request \<Rightarrow> unit res" where
  "check_receipt es request =
     fetch (TransitionError ''execution requires Gate A receipt'')
       (last_for_experiment as_patch_check es (rq_experiment_id request)) (\<lambda>(_, check).
     req (pk_accepted check) ''execution requires Gate A receipt''
     (req (pk_receipt_id check = Some (rq_patch_receipt_id request)
           \<and> pk_patch_commit_sha check = rq_patch_commit_sha request)
       ''execution request does not match receipt''
     (Inr ())))"

definition check_execution_started :: "event list \<Rightarrow> run_state \<Rightarrow> run_request \<Rightarrow> unit res" where
  "check_execution_started es s request =
     bind_res
       (if st_status s = Run_STOPPED then check_post_stop_execution es s request
        else req (node_is s (rq_experiment_id request) Exp_READY_TO_RUN) ''patch is not runnable'' (Inr ()))
       (\<lambda>_. check_receipt es request)"

definition check_execution_finished :: "event list \<Rightarrow> run_state \<Rightarrow> run_result \<Rightarrow> unit res" where
  "check_execution_finished es s r =
     req (node_is s (rr_experiment_id r) Exp_RUNNING) ''no execution is running''
     (fetch (TransitionError ''execution result has no request'')
       (last_for_experiment as_started es (rr_experiment_id r)) (\<lambda>(_, request).
     req (rq_attempt request = rr_attempt r \<and> rq_fidelity request = rr_fidelity r
          \<and> rq_patch_commit_sha request = rr_patch_commit_sha r)
       ''execution result identity mismatch''
     (Inr ())))"

section \<open>Failures and recovery\<close>

fun expected_states :: "failure_stage \<Rightarrow> experiment_status list" where
  "expected_states Stage_coding = [Exp_PROPOSED, Exp_RECOVERING]"
| "expected_states Stage_patch_gate = [Exp_PATCH_READY]"
| "expected_states Stage_execution = [Exp_RUNNING]"
| "expected_states Stage_output_gate = [Exp_OUTPUT_READY]"
| "expected_states Stage_evaluation = [Exp_OUTPUT_VERIFIED, Exp_EVALUATED]"
| "expected_states Stage_recovery = [Exp_RECOVERING]"

definition failable_states :: "experiment_status list" where
  "failable_states = [Exp_PROPOSED, Exp_PATCH_READY, Exp_READY_TO_RUN, Exp_RUNNING,
     Exp_OUTPUT_READY, Exp_OUTPUT_VERIFIED, Exp_EVALUATED, Exp_RECOVERING]"

definition check_adapter_failed ::
  "event list \<Rightarrow> run_state \<Rightarrow> adapter_failure_result \<Rightarrow> unit res" where
  "check_adapter_failed es s r =
     fetch (TransitionError ''adapter failure has unknown experiment'')
       (node_of s (af_experiment_id r)) (\<lambda>n.
     req (node_status n \<in> set failable_states)
       ''adapter failure is not legal in the current experiment state''
     (let stage = af_failure_stage r;
          allowed = (if stage = Stage_coding \<and> retrying_initial_coder es (af_experiment_id r)
                     then expected_states stage @ [Exp_READY_TO_RUN] else expected_states stage)
      in req (node_status n \<in> set allowed) ''adapter failure stage does not match experiment state''
     (Inr ())))"

definition MAX_SAME_COMMIT_RETRIES :: int where
  "MAX_SAME_COMMIT_RETRIES = 2"

definition check_recovery_decided ::
  "event list \<Rightarrow> run_state \<Rightarrow> recovery_decision \<Rightarrow> unit res" where
  "check_recovery_decided es s d =
     req (node_is s (rn_experiment_id d) Exp_RECOVERING) ''nothing is recoverable''
     (fetch (TransitionError ''nothing is recoverable'') (node_of s (rn_experiment_id d)) (\<lambda>n.
     req (rn_repair_attempt d
          = min (max 1 (node_repair_count n + 1)) (max 1 (st_max_repairs s)))
       ''repair attempt is inconsistent; no next available budget slot''
     (req (case latest_recoverable_failure es (rn_experiment_id d) of None \<Rightarrow> False
           | Some failure \<Rightarrow> rn_failure_event_id d = event_id failure)
       ''recovery decision must reference the latest failure''
     (req (rn_remaining_repair_budget d
           = st_max_repairs s - node_repair_count n - (if consumes_repair (rn_action d) then 1 else 0))
       ''remaining repair budget is inconsistent''
     (req (rn_action d = Recovery_RETRY_SAME_COMMIT \<longrightarrow>
             node_same_commit_retry_count n < MAX_SAME_COMMIT_RETRIES)
       ''same-commit retries have already been used''
     (Inr ()))))))"

section \<open>Gate B and evaluation\<close>

definition check_output_checked :: "event list \<Rightarrow> run_state \<Rightarrow> output_check_result \<Rightarrow> unit res" where
  "check_output_checked es s r =
     req (node_is s (oc_experiment_id r) Exp_OUTPUT_READY) ''no output is ready''
     (fetch (TransitionError ''Gate B requires a successful execution'')
       (last_for_experiment as_finished es (oc_experiment_id r)) (\<lambda>(_, finished).
     req (rr_outcome finished = Outcome_SUCCESS) ''Gate B requires a successful execution''
     (fetch AttributeError (rr_prediction_artifact finished) (\<lambda>prediction.
     req (art_artifact_id prediction = art_artifact_id (oc_prediction_artifact r))
       ''Gate B checked a different prediction''
     (req (rr_attempt finished = oc_attempt r) ''Gate B attempt does not match execution''
     (Inr ()))))))"

definition expected_population :: "run_request \<Rightarrow> population" where
  "expected_population request = (if rq_fidelity request = Fidelity_PROXY
     then Population_INTERNAL_PROXY else Population_PUBLIC_VALIDATION)"

definition check_evaluation_route ::
  "run_state \<Rightarrow> run_request \<Rightarrow> evaluation_result \<Rightarrow> unit res \<Rightarrow> unit res" where
  "check_evaluation_route s request r k =
     (if ev_population r = Population_HIDDEN_FINAL
      then req (st_status s = Run_STOPPED) ''hidden-final is available only after stop''
          (req (ev_fidelity r = Fidelity_FULL) ''hidden-final requires full fidelity'' k)
      else req (st_status s = Run_STOPPED \<longrightarrow> rq_command_id request = ''clean_reproduce''
                  \<and> ev_population r = Population_PUBLIC_VALIDATION \<and> ev_fidelity r = Fidelity_FULL)
             ''post-stop evaluation is restricted to clean public reproduction''
          (req (rq_fidelity request \<noteq> Fidelity_SMOKE) ''smoke output cannot be evaluated''
          (req (ev_population r = expected_population request)
             ''evaluation population does not match requested fidelity'' k)))"

definition expected_query_index :: "run_state \<Rightarrow> evaluation_result \<Rightarrow> int option" where
  "expected_query_index s r = (if ev_population r = Population_PUBLIC_VALIDATION
     then Some (st_public_validation_queries s + 1) else None)"

definition check_seed_evidence ::
  "event list \<Rightarrow> run_request \<Rightarrow> evaluation_result \<Rightarrow> int list \<Rightarrow> string \<Rightarrow> int list res" where
  "check_seed_evidence es request r seeds i =
     fetch (TransitionError ''evaluation cites unknown seed evidence'')
       (event_with_id as_evaluation es i) (\<lambda>(seed_event, seed_result).
     bind_res (evaluation_request (prefix_before es seed_event) seed_result) (\<lambda>seed_request.
     req (ev_experiment_id seed_result = ev_experiment_id r
          \<and> ev_population seed_result = ev_population r
          \<and> ev_fidelity seed_result = ev_fidelity r
          \<and> ev_evaluator_sha256 seed_result = ev_evaluator_sha256 r
          \<and> ev_contract_sha256 seed_result = ev_contract_sha256 r
          \<and> ev_attempt seed_result < ev_attempt r
          \<and> rq_patch_commit_sha seed_request = rq_patch_commit_sha request)
       ''evaluation seed evidence is incompatible''
     (Inr (seeds @ [ev_seed seed_result]))))"

definition check_evaluation_completed ::
  "event list \<Rightarrow> run_state \<Rightarrow> evaluation_result \<Rightarrow> unit res" where
  "check_evaluation_completed es s r =
     req (ev_experiment_id r \<noteq> ''baseline'')
       ''baseline evaluation is recorded only inside baseline.verified''
     (req (if ev_population r = Population_HIDDEN_FINAL
           then st_best_experiment_id s = Some (ev_experiment_id r)
             \<and> (node_is s (ev_experiment_id r) Exp_ACCEPTED
                \<or> node_is s (ev_experiment_id r) Exp_OUTPUT_VERIFIED)
           else node_is s (ev_experiment_id r) Exp_OUTPUT_VERIFIED)
       (if ev_population r = Population_HIDDEN_FINAL
        then ''hidden-final evaluation requires the selected development best''
        else ''evaluation requires Gate B'')
     (bind_res (evaluation_request es r) (\<lambda>request.
     req (ev_attempt r = rq_attempt request \<and> ev_fidelity r = rq_fidelity request
          \<and> ev_seed r = rq_seed request)
       ''evaluation result does not match its execution request''
     (fetch IndexError (last_of as_contract es) (\<lambda>(_, contract).
     req (ev_contract_sha256 r = cv_contract_sha256 contract
          \<and> ev_evaluator_sha256 r = cv_evaluator_sha256 contract)
       ''evaluation hashes do not match the frozen contract''
     (check_evaluation_route s request r
     (req (ev_public_query_index r = expected_query_index s r)
       ''evaluation public query index is not the next frozen index''
     (bind_res (fold_res (check_seed_evidence es request r) [] (ev_seed_evidence_event_ids r))
       (\<lambda>seeds. req (distinct (ev_seed r # seeds))
          ''evaluation seed evidence must use distinct seeds''
     (Inr ()))))))))))"

section \<open>Decisions, best candidate, lessons\<close>

definition check_best_eligibility :: "experiment_decision \<Rightarrow> evaluation_result \<Rightarrow> unit res" where
  "check_best_eligibility d r =
     (if ed_best_eligible d
      then req (ev_fidelity r = Fidelity_FULL \<and> ev_population r = Population_PUBLIC_VALIDATION
                \<and> ta_verdict (ev_trust r) = Verdict_ACCEPTED)
             ''best eligibility requires trusted public full evaluation''
          (req (ta_stability (ev_trust r) = Stability_CONFIRMED
                \<and> ta_integrity (ev_trust r) = Integrity_CLEAN)
             ''best eligibility requires confirmed clean evaluation''
          (req (ed_decision d = Decision_ACCEPT)
             ''only an accepted experiment can be best eligible'' (Inr ())))
      else Inr ())"

definition check_decision_evidence ::
  "event list \<Rightarrow> experiment_node \<Rightarrow> experiment_decision \<Rightarrow> unit res" where
  "check_decision_evidence es n d =
     (if ed_fidelity_completed d = Fidelity_SMOKE
      then req (node_status n = Exp_OUTPUT_VERIFIED) ''smoke decision requires Gate B''
          (req (ed_evaluation_event_id d = None) ''smoke decision cannot cite evaluation'' (Inr ()))
      else req (node_status n = Exp_EVALUATED) ''decision requires evaluation''
          (fetch (TransitionError ''decision cites the wrong evaluation'')
            (last_for_experiment as_evaluation es (ed_experiment_id d)) (\<lambda>(evaluation, r).
           req (ed_evaluation_event_id d = Some (event_id evaluation))
             ''decision cites the wrong evaluation''
          (req (ed_fidelity_completed d = ev_fidelity r)
             ''decision fidelity does not match evaluation''
          (check_best_eligibility d r)))))"

definition check_promotion :: "run_state \<Rightarrow> experiment_node \<Rightarrow> experiment_decision \<Rightarrow> unit res" where
  "check_promotion s n d =
     (if ed_decision d = Decision_PROMOTE
      then fetch (TransitionError ''promotion requires next fidelity'') (ed_next_fidelity d) (\<lambda>next.
        if ed_fidelity_completed d = Fidelity_FULL
        then req (next = Fidelity_FULL) ''full can only promote to confirmation''
            (req (node_confirmation_count n < st_max_confirmations s)
               ''confirmation budget exceeded'' (Inr ()))
        else fetch (KeyError ''next_fidelity'') (fidelity_rank next) (\<lambda>i.
             fetch (KeyError ''fidelity_completed'') (fidelity_rank (ed_fidelity_completed d)) (\<lambda>j.
             req (j < i) ''promotion must move to a higher fidelity'' (Inr ()))))
      else Inr ())"

definition check_experiment_decided ::
  "event list \<Rightarrow> run_state \<Rightarrow> experiment_decision \<Rightarrow> unit res" where
  "check_experiment_decided es s d =
     fetch (TransitionError ''decision has unknown experiment'') (node_of s (ed_experiment_id d)) (\<lambda>n.
     bind_res (check_decision_evidence es n d) (\<lambda>_. check_promotion s n d))"

definition check_best_updated :: "event list \<Rightarrow> run_state \<Rightarrow> best_updated_payload \<Rightarrow> unit res" where
  "check_best_updated es s p =
     fetch (TransitionError ''experiment is not an accepted best-eligible candidate'')
       (node_of s (bu_experiment_id p)) (\<lambda>n.
     req (node_status n = Exp_ACCEPTED \<and> node_best_eligible n)
       ''experiment is not an accepted best-eligible candidate''
     (fetch (TransitionError ''invalid decision reference'')
       (event_with_id as_decision es (bu_decision_event_id p)) (\<lambda>(e, d).
     req (Some (event_id e) = node_terminal_event_id n \<and> ed_experiment_id d = bu_experiment_id p
          \<and> ed_decision d = Decision_ACCEPT \<and> ed_best_eligible d)
       ''invalid decision reference''
     (req (Some (bu_commit_sha p) = node_latest_commit_sha n)
       ''best commit does not match the accepted patch''
     (req (case node_metric_set n of None \<Rightarrow> False
           | Some m \<Rightarrow> ms_primary_metric_name m = bu_primary_metric_name p
               \<and> ms_primary_score m = bu_primary_score p)
       ''best score does not match evaluation''
     (req (case st_best_primary_score s of None \<Rightarrow> True | Some b \<Rightarrow> b < bu_primary_score p)
       ''best update must strictly improve the incumbent''
     (Inr ())))))))"

definition lesson_evidence_eligible :: "evaluation_result \<Rightarrow> bool" where
  "lesson_evidence_eligible r \<longleftrightarrow> ev_population r \<noteq> Population_HIDDEN_FINAL
     \<and> ev_fidelity r \<noteq> Fidelity_FINAL
     \<and> ta_verdict (ev_trust r) \<notin> {Verdict_NO_OP, Verdict_INCONCLUSIVE}
     \<and> (ta_verdict (ev_trust r) \<noteq> Verdict_NEGATIVE
        \<or> (ev_fidelity r = Fidelity_FULL \<and> ev_population r = Population_PUBLIC_VALIDATION))
     \<and> (ta_verdict (ev_trust r) \<noteq> Verdict_ACCEPTED
        \<or> ta_stability (ev_trust r) = Stability_CONFIRMED)"

definition expected_lesson_category :: "evaluation_result \<Rightarrow> lesson_category" where
  "expected_lesson_category r = (if ta_verdict (ev_trust r) = Verdict_SUSPICIOUS
     then Category_INTEGRITY_WARNING else Category_RESEARCH_RESULT)"

text \<open>The last evaluation among the cited events.\<close>

definition cited_evaluation :: "string list \<Rightarrow> event list \<Rightarrow> (event \<times> evaluation_result) option" where
  "cited_evaluation ids es = pick as_evaluation
     (last_such (\<lambda>e. event_id e \<in> set ids \<and> as_evaluation (payload e) \<noteq> None) es)"

definition check_research_lesson :: "event list \<Rightarrow> lesson_candidate \<Rightarrow> unit res" where
  "check_research_lesson es c =
     fetch (TransitionError ''research lesson requires evaluation evidence'')
       (cited_evaluation (lc_source_event_ids c) es) (\<lambda>(_, r).
     req (lesson_evidence_eligible r) ''research lesson is not supported by eligible evidence''
     (req (lc_category c = expected_lesson_category r)
       ''research lesson category does not match evaluation trust''
     (req (set (ev_seed_evidence_event_ids r) \<subseteq> set (lc_source_event_ids c))
       ''research lesson omits seed evidence''
     (req (lc_source_commit_shas c \<noteq> []) ''research lesson requires candidate commit evidence''
     (Inr ())))))"

definition check_lesson_recorded ::
  "event list \<Rightarrow> run_state \<Rightarrow> string \<Rightarrow> lesson_candidate \<Rightarrow> unit res" where
  "check_lesson_recorded es s i c =
     req (dget (st_lessons s) i = None) ''duplicate lesson_id''
     (req (set (lc_source_event_ids c) \<subseteq> event_id ` set es) ''lesson cites unknown evidence''
     (if lc_origin c = Origin_RESEARCH then check_research_lesson es c else Inr ()))"

section \<open>Stop and finalization\<close>

definition check_run_stopped :: "event list \<Rightarrow> run_state \<Rightarrow> unit res" where
  "check_run_stopped es s =
     req (events_of es Type_BASELINE_VERIFIED \<noteq> []) ''cannot stop before baseline''
     (req (st_status s \<notin> {Run_STOPPED, Run_FINALIZING}) ''run already stopped'' (Inr ()))"

text \<open>The reproduction that a final selection cites: a completed evaluation or the baseline's own.\<close>

fun reproduction_result :: "event_payload \<Rightarrow> evaluation_result option" where
  "reproduction_result (Evaluation_completed r) = Some r"
| "reproduction_result (Baseline_verified b) = Some (bv_evaluation b)"
| "reproduction_result _ = None"

definition check_reproduction_source ::
  "event list \<Rightarrow> final_selected_payload \<Rightarrow> event \<Rightarrow> evaluation_result \<Rightarrow> unit res" where
  "check_reproduction_source es p e r =
     (case as_baseline (payload e) of
        Some b \<Rightarrow> req (fs_experiment_id p = ''baseline'' \<and> bv_commit_sha b = fs_commit_sha p)
          ''baseline finalization does not match frozen parity evidence'' (Inr ())
      | None \<Rightarrow> bind_res (evaluation_request (prefix_before es e) r) (\<lambda>request.
          req (rq_patch_commit_sha request = fs_commit_sha p \<and> rq_command_id request = ''clean_reproduce'')
            ''final reproduction did not cleanly evaluate the selected commit'' (Inr ())))"

definition check_final_selected :: "event list \<Rightarrow> run_state \<Rightarrow> final_selected_payload \<Rightarrow> unit res" where
  "check_final_selected es s p =
     req (st_status s = Run_STOPPED) ''final selection requires stopped run''
     (req (st_best_experiment_id s = Some (fs_experiment_id p)) ''must select latest verified best''
     (req (st_best_commit_sha s = Some (fs_commit_sha p)) ''final commit must match verified best''
     (fetch (TransitionError ''final selection cites unknown reproduction evidence'')
       (event_with_id reproduction_result es (fs_reproduction_evaluation_event_id p)) (\<lambda>(e, r).
     req (ev_experiment_id r = fs_experiment_id p \<and> ev_fidelity r = Fidelity_FULL
          \<and> ev_population r = Population_PUBLIC_VALIDATION
          \<and> ta_verdict (ev_trust r) = Verdict_ACCEPTED \<and> ta_integrity (ev_trust r) = Integrity_CLEAN
          \<and> Some (ms_primary_score (ev_metric_set r)) = st_best_primary_score s)
       ''final reproduction is not trusted evidence for the verified best''
     (check_reproduction_source es p e r)))))"

section \<open>The validator\<close>

definition allowed_after_stop :: "event_type list" where
  "allowed_after_stop = [Type_EXECUTION_STARTED, Type_EXECUTION_FINISHED, Type_OUTPUT_CHECKED,
     Type_EVALUATION_COMPLETED, Type_FINAL_SELECTED]"

fun check_payload :: "event list \<Rightarrow> run_state \<Rightarrow> event_payload \<Rightarrow> unit res" where
  "check_payload es s (Run_started _) = Inr ()"
| "check_payload es s (Contract_verified _) = check_contract_verified es"
| "check_payload es s (Baseline_verified p) = check_baseline_verified es p"
| "check_payload es s (Context_created _) = check_context_created es s"
| "check_payload es s (Planner_recommended _) = check_planner_recommended es"
| "check_payload es s (Planning_failed r) = check_planning_failed es s r"
| "check_payload es s (Experiment_proposed p) = check_experiment_proposed es s p"
| "check_payload es s (Patch_created c) = check_patch_created es s c"
| "check_payload es s (Patch_checked r) = check_patch_checked es s r"
| "check_payload es s (Execution_started r) = check_execution_started es s r"
| "check_payload es s (Execution_finished r) = check_execution_finished es s r"
| "check_payload es s (Adapter_failed r) = check_adapter_failed es s r"
| "check_payload es s (Recovery_decided d) = check_recovery_decided es s d"
| "check_payload es s (Output_checked r) = check_output_checked es s r"
| "check_payload es s (Evaluation_completed r) = check_evaluation_completed es s r"
| "check_payload es s (Experiment_decided d) = check_experiment_decided es s d"
| "check_payload es s (Best_updated p) = check_best_updated es s p"
| "check_payload es s (Lesson_recorded i c) = check_lesson_recorded es s i c"
| "check_payload es s (Lesson_status_changed i _ _) =
     req (dget (st_lessons s) i \<noteq> None) ''unknown lesson_id'' (Inr ())"
| "check_payload es s (Manual_intervention _ _) = Inr ()"
| "check_payload es s (Run_stopped _ _) = check_run_stopped es s"
| "check_payload es s (Final_selected p) = check_final_selected es s p"
| "check_payload es s (Submission_checked _) =
     req (st_status s = Run_FINALIZING) ''submission check requires final selection'' (Inr ())"

definition validate_transition :: "event list \<Rightarrow> event_payload \<Rightarrow> unit res" where
  "validate_transition es p =
     (if es = []
      then req (payload_type p = Type_RUN_STARTED) ''the first event must be run.started'' (Inr ())
      else req (payload_type p \<noteq> Type_RUN_STARTED) ''run.started may occur only once''
     (bind_res (project es) (\<lambda>s.
      req (st_status s \<notin> {Run_FINALIZED, Run_FAILED}) ''no events may follow a finalized run''
     (req (st_status s = Run_STOPPED \<longrightarrow> payload_type p \<in> set allowed_after_stop)
       ''only sealed finalization evidence may follow run.stopped''
     (req (st_status s = Run_FINALIZING \<longrightarrow> payload_type p = Type_SUBMISSION_CHECKED)
       ''only submission checking may follow final selection''
     (check_payload es s p))))))"

end
