(* ===== verification/Lifecycle.thy ===== *)
theory Lifecycle
  imports Transitions
begin

text \<open>
  The ledgers that the event store admits: every event is well formed, numbered in order and
  accepted by \<^const>\<open>validate_transition\<close> on the prefix before it.  \<open>ledger_step\<close> is what one
  accepted event gives to a proof; the locale \<open>projected_invariant\<close> states once how an invariant
  of the projection is established over a whole ledger, and its interpretations are the invariants
  of the lifecycle.
\<close>

section \<open>Legal ledgers\<close>

definition accepts :: "(planner_data_profile \<Rightarrow> string) \<Rightarrow> event list \<Rightarrow> event \<Rightarrow> bool" where
  "accepts dg es e \<longleftrightarrow> valid_event dg e \<and> seq e = Suc (length es)
     \<and> (case es of [] \<Rightarrow> True | e0 # _ \<Rightarrow> run_id e = run_id e0)
     \<and> idempotency_key e \<notin> idempotency_key ` set es
     \<and> (case causation_event_id e of None \<Rightarrow> True | Some c \<Rightarrow> c \<in> event_id ` set es)
     \<and> validate_transition es (payload e) = Inr ()"

inductive legal_ledger :: "(planner_data_profile \<Rightarrow> string) \<Rightarrow> event list \<Rightarrow> bool"
  for dg where
  legal_Nil: "legal_ledger dg []"
| legal_snoc: "legal_ledger dg es \<Longrightarrow> accepts dg es e \<Longrightarrow> legal_ledger dg (es @ [e])"

lemma legal_snocD:
  assumes "legal_ledger dg (es @ [e])"
  shows "legal_ledger dg es \<and> accepts dg es e"
  using assms by (cases rule: legal_ledger.cases) auto

lemma legal_prefix: "legal_ledger dg (es @ fs) \<Longrightarrow> legal_ledger dg es"
proof (induction fs rule: rev_induct)
  case (snoc f fs)
  then show ?case using legal_snocD [of dg "es @ fs" f] by simp
qed simp

lemma legal_split: "legal_ledger dg (pre @ e # post) \<Longrightarrow> legal_ledger dg pre \<and> accepts dg pre e"
  using legal_prefix [of dg "pre @ [e]" post] legal_snocD [of dg pre e] by simp

text \<open>The executable check of a whole ledger, for concrete ones.\<close>

fun ledger_from :: "(planner_data_profile \<Rightarrow> string) \<Rightarrow> event list \<Rightarrow> event list \<Rightarrow> bool" where
  "ledger_from dg done [] = True"
| "ledger_from dg done (e # es) = (accepts dg done e \<and> ledger_from dg (done @ [e]) es)"

lemma ledger_from_legal:
  "legal_ledger dg done \<Longrightarrow> ledger_from dg done es \<Longrightarrow> legal_ledger dg (done @ es)"
proof (induction es arbitrary: "done")
  case (Cons e es)
  from Cons.prems have "legal_ledger dg (done @ [e])" by (auto intro: legal_snoc)
  with Cons.IH [of "done @ [e]"] Cons.prems(2) show ?case by simp
qed simp

lemma legal_ledger_code: "legal_ledger dg es \<longleftrightarrow> ledger_from dg [] es"
proof
  assume "ledger_from dg [] es" then show "legal_ledger dg es"
    using ledger_from_legal [of dg "[]" es] by (simp add: legal_Nil)
next
  have app: "ledger_from dg xs (ys @ zs) = (ledger_from dg xs ys \<and> ledger_from dg (xs @ ys) zs)"
    for xs ys zs by (induction ys arbitrary: xs) auto
  assume "legal_ledger dg es" then show "ledger_from dg [] es"
    by induction (simp_all add: app)
qed

text \<open>Event identifiers are the positions in the ledger, so they are distinct.\<close>

lemma legal_event_ids: "legal_ledger dg es \<Longrightarrow> map event_id es = map event_id_of [1..<Suc (length es)]"
  by (induction rule: legal_ledger.induct) (simp_all add: accepts_def valid_event_def valid_envelope_def)

lemma legal_distinct_ids: "legal_ledger dg es \<Longrightarrow> distinct (map event_id es)"
  by (simp add: legal_event_ids distinct_map inj_on_def)

section \<open>One accepted event\<close>

lemma project_Inr:
  "project es = Inr s \<longleftrightarrow> (\<exists>pj. project_loop es = Inr pj \<and> s = finish_projection es (pj_state pj))"
  by (auto simp: project_def raise_simps)

lemma finish_projection_simps [simp]:
  "st_status (finish_projection es s) = st_status s"
  "st_phase (finish_projection es s) = st_phase s"
  "st_experiments (finish_projection es s) = st_experiments s"
  "st_lessons (finish_projection es s) = st_lessons s"
  "st_active_experiment_id (finish_projection es s) = st_active_experiment_id s"
  "st_best_experiment_id (finish_projection es s) = st_best_experiment_id s"
  "st_best_commit_sha (finish_projection es s) = st_best_commit_sha s"
  "st_best_primary_score (finish_projection es s) = st_best_primary_score s"
  "st_max_repairs (finish_projection es s) = st_max_repairs s"
  "st_max_confirmations (finish_projection es s) = st_max_confirmations s"
  "st_public_validation_queries (finish_projection es s) = st_public_validation_queries s"
  "st_full_evaluations_completed (finish_projection es s) = st_full_evaluations_completed s"
  "st_experiments_proposed (finish_projection es s) = st_experiments_proposed s"
  "st_run_id (finish_projection es s) = st_run_id s"
  "st_final_experiment_id (finish_projection es s) = st_final_experiment_id s"
  by (simp_all add: finish_projection_def Let_def)

lemma project_loop_snoc: "project_loop (es @ [e]) = bind_res (project_loop es) (\<lambda>pj. project_step pj e)"
  by (simp add: project_loop_def fold_res_snoc)

lemma project_loop_Nil [simp]: "project_loop [] = Inr initial_projection"
  by (simp add: project_loop_def)

text \<open>The searches of the validator when one event is appended.\<close>

lemma last_for_experiment_snoc:
  "last_for_experiment sel (es @ [e]) i =
     (if sel (payload e) \<noteq> None \<and> mentions_experiment i (payload e)
      then map_option (\<lambda>x. (e, x)) (sel (payload e)) else last_for_experiment sel es i)"
  by (simp add: last_for_experiment_def pick_def)

lemma last_for_experimentD:
  assumes "last_for_experiment sel es i = Some (e, x)"
  shows "e \<in> set es \<and> sel (payload e) = Some x \<and> mentions_experiment i (payload e)"
  using assms last_such_SomeD
  by (fastforce simp: last_for_experiment_def pick_def split: option.splits)

lemma last_ofD:
  assumes "last_of sel es = Some (e, x)"
  shows "e \<in> set es \<and> sel (payload e) = Some x"
  using assms last_such_SomeD by (fastforce simp: last_of_def pick_def split: option.splits)

lemma event_with_idD:
  assumes "event_with_id sel es i = Some (e, x)"
  shows "e \<in> set es \<and> event_id e = i \<and> sel (payload e) = Some x"
  using assms first_such_SomeD by (fastforce simp: event_with_id_def pick_def split: option.splits)

lemma last_of_ex: "e \<in> set es \<Longrightarrow> sel (payload e) = Some x \<Longrightarrow> \<exists>y. last_of sel es = Some y"
  using last_such_ex [of e es "\<lambda>e. sel (payload e) \<noteq> None"] last_such_SomeD
  by (fastforce simp: last_of_def pick_def)

lemma events_of_nonempty: "events_of es t \<noteq> [] \<longleftrightarrow> (\<exists>e \<in> set es. payload_type (payload e) = t)"
  by (auto simp: events_of_def filter_empty_conv)

text \<open>The selectors pick the payloads of one constructor.\<close>

lemma as_payload_simps [simp]:
  "as_contract p = Some c \<longleftrightarrow> p = Contract_verified c"
  "as_baseline p = Some b \<longleftrightarrow> p = Baseline_verified b"
  "as_context p = Some x \<longleftrightarrow> p = Context_created x"
  "as_proposed p = Some sp \<longleftrightarrow> p = Experiment_proposed sp"
  "as_patch p = Some pc \<longleftrightarrow> p = Patch_created pc"
  "as_patch_check p = Some pk \<longleftrightarrow> p = Patch_checked pk"
  "as_started p = Some q \<longleftrightarrow> p = Execution_started q"
  "as_finished p = Some f \<longleftrightarrow> p = Execution_finished f"
  "as_recovery p = Some rd \<longleftrightarrow> p = Recovery_decided rd"
  "as_output p = Some out \<longleftrightarrow> p = Output_checked out"
  "as_evaluation p = Some ev \<longleftrightarrow> p = Evaluation_completed ev"
  "as_decision p = Some d \<longleftrightarrow> p = Experiment_decided d"
  by (cases p; auto)+

lemma validate_first: "validate_transition [] p = Inr () \<longleftrightarrow> payload_type p = Type_RUN_STARTED"
  by (simp add: validate_transition_def raise_simps)

lemma payload_type_started: "payload_type p = Type_RUN_STARTED \<longleftrightarrow> (\<exists>r. p = Run_started r)"
  by (cases p) auto

lemma validate_next:
  assumes "es \<noteq> []"
  shows "validate_transition es p = Inr () \<longleftrightarrow> payload_type p \<noteq> Type_RUN_STARTED
    \<and> (\<exists>pj. project_loop es = Inr pj \<and> st_status (pj_state pj) \<notin> {Run_FINALIZED, Run_FAILED}
       \<and> (st_status (pj_state pj) = Run_STOPPED \<longrightarrow> payload_type p \<in> set allowed_after_stop)
       \<and> (st_status (pj_state pj) = Run_FINALIZING \<longrightarrow> payload_type p = Type_SUBMISSION_CHECKED)
       \<and> check_payload es (finish_projection es (pj_state pj)) p = Inr ())"
  using assms by (auto simp: validate_transition_def raise_simps project_Inr)

lemmas step_defs = project_step_def enter_event_def note_event_def lift_state_def raise_simps
  on_run_started_def on_baseline_verified_def on_context_created_def on_experiment_proposed_def
  on_patch_created_def on_patch_checked_def on_execution_started_def on_execution_finished_def
  on_adapter_failed_def on_planning_failed_def on_recovery_decided_def on_output_checked_def
  on_evaluation_completed_def on_experiment_decided_def on_best_updated_def on_lesson_recorded_def
  on_lesson_status_changed_def on_run_stopped_def on_final_selected_def on_submission_checked_def
  with_node_def put_node_def clear_active_def Let_def

lemmas check_defs = check_contract_verified_def check_baseline_verified_def check_context_created_def
  check_planner_recommended_def check_planning_failed_def check_experiment_proposed_def
  check_patch_created_def check_patch_checked_def check_execution_started_def
  check_execution_finished_def check_adapter_failed_def check_recovery_decided_def
  check_output_checked_def check_evaluation_completed_def check_experiment_decided_def
  check_best_updated_def check_lesson_recorded_def check_run_stopped_def check_final_selected_def

section \<open>The projection of a legal ledger\<close>

text \<open>A payload that the validator accepts is one the reducer can enter.\<close>

lemma node_is_iff: "node_is s i st \<longleftrightarrow> (\<exists>n. node_of s i = Some n \<and> node_status n = st)"
  by (auto simp: node_is_def split: option.splits)

lemma step_returns:
  assumes "check_payload es (finish_projection es (pj_state pj)) (payload e) = Inr ()"
  shows "\<exists>pj'. project_step pj e = Inr pj'"
proof (cases "payload e")
  case (Execution_started r)
  with assms show ?thesis
    by (auto simp: step_defs check_execution_started_def check_post_stop_execution_def node_is_iff
        split: if_splits)
next
  case (Recovery_decided d)
  with assms show ?thesis by (auto simp: step_defs check_recovery_decided_def node_is_iff)
next
  case (Evaluation_completed r)
  with assms show ?thesis
    by (auto simp: step_defs check_evaluation_completed_def node_is_iff split: if_splits)
next
  case (Lesson_status_changed i st r)
  with assms show ?thesis by (auto simp: step_defs)
next
  case (Experiment_decided d)
  with assms obtain n where "node_of (pj_state pj) (ed_experiment_id d) = Some n"
    by (auto simp: check_experiment_decided_def raise_simps)
  with Experiment_decided show ?thesis
    by (cases "ed_decision d = Decision_PROMOTE") (auto simp: step_defs split: prod.split)
qed (use assms in \<open>auto simp: step_defs check_patch_created_def check_patch_checked_def
      check_execution_finished_def check_adapter_failed_def check_output_checked_def
      node_is_iff\<close>)

lemma legal_project_loop: "legal_ledger dg es \<Longrightarrow> \<exists>pj. project_loop es = Inr pj"
proof (induction rule: legal_ledger.induct)
  case (legal_snoc es e)
  then obtain pj where pj: "project_loop es = Inr pj" by blast
  have valid: "validate_transition es (payload e) = Inr ()"
    using legal_snoc.hyps by (simp add: accepts_def)
  have "\<exists>pj'. project_step pj e = Inr pj'"
  proof (cases "es = []")
    case True
    with valid show ?thesis by (auto simp: validate_first payload_type_started step_defs)
  next
    case False
    with valid pj show ?thesis by (auto simp: validate_next intro: step_returns)
  qed
  with pj show ?case by (simp add: project_loop_snoc)
qed simp

section \<open>Invariants of the projection\<close>

text \<open>
  An invariant holds of the state of every legal ledger when the start event establishes it and
  every accepted later event keeps it.  The second law hands over everything the validator and the
  payload's schema guarantee about the event.
\<close>

locale projected_invariant =
  fixes inv :: "event list \<Rightarrow> projection \<Rightarrow> bool"
  assumes start: "\<And>e p pj. payload e = Run_started p \<Longrightarrow> valid_run_started p
      \<Longrightarrow> project_step initial_projection e = Inr pj \<Longrightarrow> inv [e] pj"
    and step: "\<And>dg es pj e pj'. legal_ledger dg es \<Longrightarrow> es \<noteq> [] \<Longrightarrow> project_loop es = Inr pj
      \<Longrightarrow> inv es pj \<Longrightarrow> valid_event dg e \<Longrightarrow> payload_type (payload e) \<noteq> Type_RUN_STARTED
      \<Longrightarrow> st_status (pj_state pj) \<notin> {Run_FINALIZED, Run_FAILED}
      \<Longrightarrow> (st_status (pj_state pj) = Run_STOPPED \<longrightarrow> payload_type (payload e) \<in> set allowed_after_stop)
      \<Longrightarrow> (st_status (pj_state pj) = Run_FINALIZING \<longrightarrow> payload_type (payload e) = Type_SUBMISSION_CHECKED)
      \<Longrightarrow> check_payload es (finish_projection es (pj_state pj)) (payload e) = Inr ()
      \<Longrightarrow> project_step pj e = Inr pj' \<Longrightarrow> inv (es @ [e]) pj'"
begin

lemma holds:
  assumes "legal_ledger dg es" and "es \<noteq> []" and "project_loop es = Inr pj"
  shows "inv es pj"
  using assms
proof (induction arbitrary: pj rule: legal_ledger.induct)
  case (legal_snoc es e)
  then obtain pj0 where pj0: "project_loop es = Inr pj0" and pj: "project_step pj0 e = Inr pj"
    by (auto simp: project_loop_snoc raise_simps)
  have ok: "valid_event dg e" "validate_transition es (payload e) = Inr ()"
    using legal_snoc.hyps by (simp_all add: accepts_def)
  show ?case
  proof (cases "es = []")
    case True
    with ok pj0 pj obtain p where "payload e = Run_started p" "project_step initial_projection e = Inr pj"
      by (auto simp: validate_first payload_type_started)
    with ok have "inv [e] pj" by (intro start) (auto simp: valid_event_def)
    with True show ?thesis by simp
  next
    case False
    with ok pj0 legal_snoc.IH [OF False pj0] legal_snoc.hyps(1) pj show ?thesis
      by (intro step) (auto simp: validate_next)
  qed
qed simp

end

end
