(* ===== verification/Node_Steps.thy ===== *)
theory Node_Steps
  imports Lifecycle
begin

text \<open>
  What one accepted event does to one experiment node and to the counters of the run state.
  \<open>subject\<close> is the experiment an event is about, \<open>node_after\<close> its node after the event; the
  abstract lifecycle \<open>may_move\<close> says between which statuses an experiment moves, and
  \<open>step_may_move\<close> that the validator and the reducer together implement it.
\<close>

section \<open>The node an event changes\<close>

fun subject :: "event_payload \<Rightarrow> string option" where
  "subject (Experiment_proposed s) = Some (rp_experiment_id s)"
| "subject (Patch_created c) = Some (pc_experiment_id c)"
| "subject (Patch_checked r) = Some (pk_experiment_id r)"
| "subject (Execution_started r) = Some (rq_experiment_id r)"
| "subject (Execution_finished r) = Some (rr_experiment_id r)"
| "subject (Adapter_failed r) = Some (af_experiment_id r)"
| "subject (Recovery_decided d) = Some (rn_experiment_id d)"
| "subject (Output_checked r) = Some (oc_experiment_id r)"
| "subject (Evaluation_completed r) = Some (ev_experiment_id r)"
| "subject (Experiment_decided d) = Some (ed_experiment_id d)"
| "subject _ = None"

definition recovered_status ::
  "(string, event) dict \<Rightarrow> recovery_decision \<Rightarrow> experiment_status" where
  "recovered_status by_id d = (case rn_action d of
       Recovery_ABANDON \<Rightarrow> Exp_INVALID | Recovery_ROLLBACK \<Rightarrow> Exp_INVALID
     | Recovery_ADJUST_APPROVED_RUNTIME_SETTING \<Rightarrow> Exp_READY_TO_RUN
     | Recovery_RETRY_SAME_COMMIT \<Rightarrow> fst (retry_resumption by_id (rn_failure_event_id d))
     | Recovery_RETURN_TO_PLANNER \<Rightarrow> Exp_NO_OP
     | _ \<Rightarrow> Exp_RECOVERING)"

text \<open>The status an event leaves its subject in.\<close>

fun status_after :: "(string, event) dict \<Rightarrow> event_payload \<Rightarrow> experiment_status \<Rightarrow> experiment_status" where
  "status_after by_id (Experiment_proposed _) _ = Exp_PROPOSED"
| "status_after by_id (Patch_created _) _ = Exp_PATCH_READY"
| "status_after by_id (Patch_checked r) _ = (if pk_accepted r then Exp_READY_TO_RUN else Exp_RECOVERING)"
| "status_after by_id (Execution_started _) _ = Exp_RUNNING"
| "status_after by_id (Execution_finished r) _ =
     (if rr_outcome r = Outcome_SUCCESS then Exp_OUTPUT_READY else Exp_RECOVERING)"
| "status_after by_id (Adapter_failed _) _ = Exp_RECOVERING"
| "status_after by_id (Recovery_decided d) _ = recovered_status by_id d"
| "status_after by_id (Output_checked r) _ =
     (if oc_accepted r then Exp_OUTPUT_VERIFIED else Exp_RECOVERING)"
| "status_after by_id (Evaluation_completed r) _ =
     (if ta_verdict (ev_trust r) = Verdict_NO_OP then Exp_RECOVERING else Exp_EVALUATED)"
| "status_after by_id (Experiment_decided d) _ = status_by_decision (ed_decision d)"
| "status_after by_id _ st = st"

text \<open>The other fields the proofs follow.\<close>

fun repairs_after :: "event_payload \<Rightarrow> int \<Rightarrow> int" where
  "repairs_after (Recovery_decided d) k = (if consumes_repair (rn_action d) then max k (rn_repair_attempt d) else k)"
| "repairs_after _ k = k"

fun retries_after :: "event_payload \<Rightarrow> int \<Rightarrow> int" where
  "retries_after (Recovery_decided d) k = (if rn_action d = Recovery_RETRY_SAME_COMMIT then k + 1 else k)"
| "retries_after (Patch_created _) k = 0"
| "retries_after _ k = k"

definition promotes_full :: "experiment_decision \<Rightarrow> bool" where
  "promotes_full d \<longleftrightarrow> ed_decision d = Decision_PROMOTE \<and> ed_next_fidelity d = Some Fidelity_FULL
     \<and> ed_fidelity_completed d = Fidelity_FULL"

fun confirmations_after :: "event_payload \<Rightarrow> int \<Rightarrow> int" where
  "confirmations_after (Experiment_decided d) k = (if promotes_full d then k + 1 else k)"
| "confirmations_after _ k = k"

fun eligible_after :: "event_payload \<Rightarrow> bool \<Rightarrow> bool" where
  "eligible_after (Experiment_decided d) b = ed_best_eligible d"
| "eligible_after _ b = b"

fun metrics_after :: "event_payload \<Rightarrow> metric_set option \<Rightarrow> metric_set option" where
  "metrics_after (Evaluation_completed r) m = Some (ev_metric_set r)"
| "metrics_after _ m = m"

fun commit_after :: "event_payload \<Rightarrow> string option \<Rightarrow> string option" where
  "commit_after (Patch_created c) m = Some (pc_patch_commit_sha c)"
| "commit_after _ m = m"

text \<open>A decision touches one node and the counters of activity and convergence only.\<close>

definition same_progress :: "run_state \<Rightarrow> run_state \<Rightarrow> bool" where
  "same_progress s t \<longleftrightarrow> st_status t = st_status s \<and> st_lessons t = st_lessons s
     \<and> st_best_experiment_id t = st_best_experiment_id s \<and> st_best_commit_sha t = st_best_commit_sha s
     \<and> st_best_primary_score t = st_best_primary_score s \<and> st_max_repairs t = st_max_repairs s
     \<and> st_max_confirmations t = st_max_confirmations s
     \<and> st_experiments_proposed t = st_experiments_proposed s
     \<and> st_public_validation_queries t = st_public_validation_queries s
     \<and> st_full_evaluations_completed t = st_full_evaluations_completed s
     \<and> st_final_experiment_id t = st_final_experiment_id s
     \<and> st_convergence_epsilon t = st_convergence_epsilon s"

lemma count_convergence_frame:
  assumes "count_convergence x y s = (t, z)"
  shows "st_experiments t = st_experiments s \<and> same_progress s t"
  using assms by (auto simp: count_convergence_def same_progress_def split: option.splits if_splits)

lemma decided_frame:
  assumes "on_experiment_decided e d inc s = Inr (t, inc')"
  shows "\<exists>n. node_of s (ed_experiment_id d) = Some n
    \<and> st_experiments t = dset (ed_experiment_id d) (decide_node e d n) (st_experiments s)
    \<and> same_progress s t"
proof (cases "node_of s (ed_experiment_id d)")
  case (Some n)
  show ?thesis
  proof (cases "ed_decision d = Decision_PROMOTE")
    case True
    with assms Some show ?thesis
      by (auto simp: on_experiment_decided_def put_node_def same_progress_def Let_def)
  next
    case False
    with assms Some have "count_convergence (converged_score d (decide_node e d n)) inc
        ((clear_active (put_node (ed_experiment_id d) (decide_node e d n) s))\<lparr>st_phase := ''planning''\<rparr>)
      = (t, inc')"
      by (simp add: on_experiment_decided_def Let_def)
    from count_convergence_frame [OF this] Some show ?thesis
      by (auto simp: put_node_def clear_active_def same_progress_def)
  qed
qed (use assms in \<open>simp add: on_experiment_decided_def\<close>)

lemma project_step_decided:
  assumes "project_step pj e = Inr pj'" and "payload e = Experiment_decided d"
  obtains n where "node_of (pj_state pj) (ed_experiment_id d) = Some n"
    and "st_experiments (pj_state pj') = dset (ed_experiment_id d) (decide_node e d n) (st_experiments (pj_state pj))"
    and "same_progress (pj_state pj) (pj_state pj')"
proof -
  from assms obtain t inc' where dec: "on_experiment_decided e d (pj_incumbent pj) (note_event e (pj_state pj)) = Inr (t, inc')"
    and t: "pj_state pj' = t"
    by (auto simp: project_step_def enter_event_def raise_simps)
  from decided_frame [OF dec] t that show ?thesis
    by (auto simp: note_event_def same_progress_def)
qed

section \<open>The effect of one event\<close>

text \<open>Nodes other than the subject's are untouched.\<close>

lemmas plain_step_defs = project_step_def enter_event_def note_event_def lift_state_def raise_simps
  on_run_started_def on_baseline_verified_def on_context_created_def on_experiment_proposed_def
  on_patch_created_def on_patch_checked_def on_execution_started_def on_execution_finished_def
  on_adapter_failed_def on_planning_failed_def on_recovery_decided_def on_output_checked_def
  on_evaluation_completed_def on_best_updated_def on_lesson_recorded_def
  on_lesson_status_changed_def on_run_stopped_def on_final_selected_def on_submission_checked_def
  with_node_def put_node_def clear_active_def Let_def

lemma step_frame:
  assumes "project_step pj e = Inr pj'" and "subject (payload e) \<noteq> Some j"
  shows "node_of (pj_state pj') j = node_of (pj_state pj) j"
proof (cases "payload e")
  case (Experiment_decided d)
  from assms(1) this obtain n where
    "st_experiments (pj_state pj') = dset (ed_experiment_id d) (decide_node e d n) (st_experiments (pj_state pj))"
    by (rule project_step_decided)
  with assms(2) Experiment_decided show ?thesis by simp
qed (use assms in \<open>auto simp: plain_step_defs split: if_splits prod.splits\<close>)

definition node_follows ::
  "(string, event) dict \<Rightarrow> event_payload \<Rightarrow> experiment_node \<Rightarrow> experiment_node \<Rightarrow> bool" where
  "node_follows by_id p n n' \<longleftrightarrow> node_experiment_id n' = node_experiment_id n
     \<and> node_duplicate_key n' = node_duplicate_key n \<and> node_family n' = node_family n
     \<and> node_parent_experiment_id n' = node_parent_experiment_id n
     \<and> node_status n' = status_after by_id p (node_status n)
     \<and> node_repair_count n' = repairs_after p (node_repair_count n)
     \<and> node_same_commit_retry_count n' = retries_after p (node_same_commit_retry_count n)
     \<and> node_confirmation_count n' = confirmations_after p (node_confirmation_count n)
     \<and> node_best_eligible n' = eligible_after p (node_best_eligible n)
     \<and> node_metric_set n' = metrics_after p (node_metric_set n)
     \<and> node_latest_commit_sha n' = commit_after p (node_latest_commit_sha n)"

lemma step_subject:
  assumes "project_step pj e = Inr pj'" and "subject (payload e) = Some i"
    and "payload_type (payload e) \<noteq> Type_EXPERIMENT_PROPOSED"
  obtains n n' where "node_of (pj_state pj) i = Some n" and "node_of (pj_state pj') i = Some n'"
    and "st_experiments (pj_state pj') = dset i n' (st_experiments (pj_state pj))"
    and "node_follows (dset (event_id e) e (pj_events_by_id pj)) (payload e) n n'"
proof -
  let ?n' = "the (node_of (pj_state pj') i)"
  have "\<exists>n. node_of (pj_state pj) i = Some n
    \<and> st_experiments (pj_state pj') = dset i ?n' (st_experiments (pj_state pj))
    \<and> node_follows (dset (event_id e) e (pj_events_by_id pj)) (payload e) n ?n'"
  proof (cases "payload e")
    case (Experiment_decided d)
    from assms(1) this obtain n where "node_of (pj_state pj) (ed_experiment_id d) = Some n"
      and "st_experiments (pj_state pj') = dset (ed_experiment_id d) (decide_node e d n) (st_experiments (pj_state pj))"
      by (rule project_step_decided)
    with assms(2) Experiment_decided show ?thesis
      by (auto simp: node_follows_def decide_node_def promotes_full_def Let_def)
  next
    case (Recovery_decided d)
    with assms show ?thesis
      by (cases "retry_resumption (dset (event_id e) e (pj_events_by_id pj)) (rn_failure_event_id d)";
          cases "rn_action d")
        (auto simp: plain_step_defs node_follows_def recovered_status_def count_recovery_def
          consumes_repair_def split: prod.splits)
  next
    case (Patch_created c)
    with assms show ?thesis by (auto simp: plain_step_defs node_follows_def split: if_splits)
  next
    case (Patch_checked r)
    with assms show ?thesis by (auto simp: plain_step_defs node_follows_def split: if_splits)
  next
    case (Execution_started r)
    with assms show ?thesis by (auto simp: plain_step_defs node_follows_def split: if_splits)
  next
    case (Execution_finished r)
    with assms show ?thesis
      by (cases "rr_outcome r = Outcome_SUCCESS") (auto simp: plain_step_defs node_follows_def split: if_splits)
  next
    case (Adapter_failed r)
    with assms show ?thesis by (auto simp: plain_step_defs node_follows_def split: if_splits)
  next
    case (Output_checked r)
    with assms show ?thesis by (auto simp: plain_step_defs node_follows_def split: if_splits)
  next
    case (Evaluation_completed r)
    with assms show ?thesis by (auto simp: plain_step_defs node_follows_def split: if_splits)
  qed (use assms in simp_all)
  then obtain n where n: "node_of (pj_state pj) i = Some n"
    and table: "st_experiments (pj_state pj') = dset i ?n' (st_experiments (pj_state pj))"
    and follows: "node_follows (dset (event_id e) e (pj_events_by_id pj)) (payload e) n ?n'" by blast
  from table have "node_of (pj_state pj') i = Some ?n'" by (metis dget_dset fun_upd_same)
  with n table follows show ?thesis by (intro that)
qed

lemma step_no_subject:
  assumes "project_step pj e = Inr pj'" and "subject (payload e) = None"
  shows "st_experiments (pj_state pj') = st_experiments (pj_state pj)"
  using assms by (cases "payload e") (auto simp: plain_step_defs)

lemma step_proposed:
  assumes "project_step pj e = Inr pj'" and "payload e = Experiment_proposed spec"
  shows "st_experiments (pj_state pj') = dset (rp_experiment_id spec) (new_node spec) (st_experiments (pj_state pj))"
    and "st_experiments_proposed (pj_state pj') = st_experiments_proposed (pj_state pj) + 1"
  using assms by (auto simp: plain_step_defs)

text \<open>The node of an experiment after an event, in the four cases the invariants distinguish.\<close>

lemma step_node_cases:
  assumes "project_step pj e = Inr pj'" and "node_of (pj_state pj') j = Some n'"
  obtains (frame) "node_of (pj_state pj) j = Some n'" and "subject (payload e) \<noteq> Some j"
  | (proposed) spec where "payload e = Experiment_proposed spec" and "j = rp_experiment_id spec"
      and "n' = new_node spec"
  | (changed) n where "subject (payload e) = Some j" and "node_of (pj_state pj) j = Some n"
      and "payload_type (payload e) \<noteq> Type_EXPERIMENT_PROPOSED"
      and "node_follows (dset (event_id e) e (pj_events_by_id pj)) (payload e) n n'"
proof -
  consider "subject (payload e) \<noteq> Some j" | spec where "payload e = Experiment_proposed spec"
      "subject (payload e) = Some j"
    | "subject (payload e) = Some j" "payload_type (payload e) \<noteq> Type_EXPERIMENT_PROPOSED"
    by (cases "payload e") auto
  then show thesis
  proof cases
    case 1
    with step_frame [OF assms(1) 1] assms(2) frame show thesis by simp
  next
    case 2
    with step_proposed [OF assms(1)] assms(2) proposed show thesis by simp
  next
    case 3
    with step_subject [OF assms(1) 3] assms(2) changed show thesis by (metis option.inject)
  qed
qed

section \<open>The run state's counters\<close>

fun run_status_after :: "event_payload \<Rightarrow> run_status \<Rightarrow> run_status" where
  "run_status_after (Run_started _) _ = Run_INITIALIZING"
| "run_status_after (Baseline_verified _) _ = Run_READY"
| "run_status_after (Experiment_proposed _) _ = Run_RUNNING"
| "run_status_after (Run_stopped code _) _ =
     (if is_finalizable_stop_reason (Some code) then Run_STOPPED else Run_FAILED)"
| "run_status_after (Final_selected _) _ = Run_FINALIZING"
| "run_status_after (Submission_checked p) _ = (if sc_accepted p then Run_FINALIZED else Run_FAILED)"
| "run_status_after _ st = st"

lemma step_run_status:
  assumes "project_step pj e = Inr pj'"
  shows "st_status (pj_state pj') = run_status_after (payload e) (st_status (pj_state pj))"
proof (cases "payload e")
  case (Experiment_decided d)
  from assms this show ?thesis
    by (rule project_step_decided) (simp add: same_progress_def Experiment_decided)
qed (use assms in \<open>auto simp: plain_step_defs split: if_splits prod.splits\<close>)

lemma step_limits:
  assumes "project_step pj e = Inr pj'" and "payload_type (payload e) \<noteq> Type_RUN_STARTED"
  shows "st_max_repairs (pj_state pj') = st_max_repairs (pj_state pj)
    \<and> st_max_confirmations (pj_state pj') = st_max_confirmations (pj_state pj)
    \<and> st_convergence_epsilon (pj_state pj') = st_convergence_epsilon (pj_state pj)"
proof (cases "payload e")
  case (Experiment_decided d)
  from assms(1) this show ?thesis by (rule project_step_decided) (simp add: same_progress_def)
qed (use assms in \<open>auto simp: plain_step_defs split: if_splits prod.splits\<close>)

fun best_after :: "event_payload \<Rightarrow> (string option \<times> string option \<times> pyfloat option)
    \<Rightarrow> (string option \<times> string option \<times> pyfloat option)" where
  "best_after (Best_updated p) b = (Some (bu_experiment_id p), Some (bu_commit_sha p), Some (bu_primary_score p))"
| "best_after (Baseline_verified p) (i, c, x) =
     (if x = None then (Some (bv_experiment_id p), Some (bv_commit_sha p), Some (ms_primary_score (bv_metric_set p)))
      else (i, c, x))"
| "best_after _ b = b"

definition best_of :: "run_state \<Rightarrow> string option \<times> string option \<times> pyfloat option" where
  "best_of s = (st_best_experiment_id s, st_best_commit_sha s, st_best_primary_score s)"

lemma step_best:
  assumes "project_step pj e = Inr pj'"
  shows "best_of (pj_state pj') = best_after (payload e) (best_of (pj_state pj))"
proof (cases "payload e")
  case (Experiment_decided d)
  from assms this show ?thesis
    by (rule project_step_decided) (simp add: same_progress_def best_of_def Experiment_decided)
qed (use assms in \<open>auto simp: plain_step_defs best_of_def split: if_splits prod.splits\<close>)

definition is_public :: "event \<Rightarrow> bool" where
  "is_public e = (case payload e of
     Evaluation_completed r \<Rightarrow> ev_population r = Population_PUBLIC_VALIDATION | _ \<Rightarrow> False)"

lemma step_queries:
  assumes "project_step pj e = Inr pj'"
  shows "st_public_validation_queries (pj_state pj')
    = st_public_validation_queries (pj_state pj) + (if is_public e then 1 else 0)"
proof (cases "payload e")
  case (Experiment_decided d)
  from assms this show ?thesis
    by (rule project_step_decided) (simp add: same_progress_def is_public_def Experiment_decided)
qed (use assms in \<open>auto simp: plain_step_defs is_public_def split: if_splits prod.splits\<close>)

end
