(* ===== verification/Experiment_Lifecycle.thy ===== *)
theory Experiment_Lifecycle
  imports Node_Steps
begin

text \<open>
  The lifecycle of one experiment as an abstract transition relation on its status, and the proof
  that the validator and the reducer implement it: while the run is not stopped every accepted
  event either leaves an experiment alone or moves it along \<open>may_move\<close>; the terminal statuses have
  no successor, so a terminal experiment is never reopened.
\<close>

section \<open>The abstract lifecycle\<close>

inductive may_move :: "experiment_status \<Rightarrow> experiment_status \<Rightarrow> bool" where
  patched: "s \<in> {Exp_PROPOSED, Exp_RECOVERING, Exp_READY_TO_RUN} \<Longrightarrow> may_move s Exp_PATCH_READY"
| gate_a: "t \<in> {Exp_READY_TO_RUN, Exp_RECOVERING} \<Longrightarrow> may_move Exp_PATCH_READY t"
| started: "may_move Exp_READY_TO_RUN Exp_RUNNING"
| finished: "t \<in> {Exp_OUTPUT_READY, Exp_RECOVERING} \<Longrightarrow> may_move Exp_RUNNING t"
| gate_b: "t \<in> {Exp_OUTPUT_VERIFIED, Exp_RECOVERING} \<Longrightarrow> may_move Exp_OUTPUT_READY t"
| evaluated: "t \<in> {Exp_EVALUATED, Exp_RECOVERING} \<Longrightarrow> may_move Exp_OUTPUT_VERIFIED t"
| failed: "s \<in> {Exp_PROPOSED, Exp_READY_TO_RUN, Exp_EVALUATED, Exp_RECOVERING} \<Longrightarrow> may_move s Exp_RECOVERING"
| retried: "t \<in> {Exp_PROPOSED, Exp_PATCH_READY, Exp_READY_TO_RUN, Exp_OUTPUT_READY,
     Exp_OUTPUT_VERIFIED, Exp_EVALUATED} \<Longrightarrow> may_move Exp_RECOVERING t"
| given_up: "t \<in> {Exp_INVALID, Exp_NO_OP} \<Longrightarrow> may_move Exp_RECOVERING t"
| decided: "s \<in> {Exp_OUTPUT_VERIFIED, Exp_EVALUATED} \<Longrightarrow>
     t \<in> {Exp_READY_TO_RUN, Exp_ACCEPTED, Exp_REJECTED, Exp_PRUNED, Exp_INVALID} \<Longrightarrow> may_move s t"

definition terminal :: "experiment_status \<Rightarrow> bool" where
  "terminal s \<longleftrightarrow> s \<in> {Exp_ACCEPTED, Exp_REJECTED, Exp_PRUNED, Exp_INVALID, Exp_NO_OP}"

inductive_simps may_move_terminal [simp]:
  "may_move Exp_ACCEPTED t" "may_move Exp_REJECTED t" "may_move Exp_PRUNED t"
  "may_move Exp_INVALID t" "may_move Exp_NO_OP t"

lemma terminal_final: "terminal s \<Longrightarrow> \<not> may_move s t"
  by (auto simp: terminal_def)

section \<open>From which statuses an event is accepted\<close>

fun sources :: "event_payload \<Rightarrow> experiment_status set" where
  "sources (Patch_created _) = {Exp_PROPOSED, Exp_RECOVERING, Exp_READY_TO_RUN}"
| "sources (Patch_checked _) = {Exp_PATCH_READY}"
| "sources (Execution_started _) = {Exp_READY_TO_RUN}"
| "sources (Execution_finished _) = {Exp_RUNNING}"
| "sources (Adapter_failed r) = set (expected_states (af_failure_stage r))
     \<union> (if af_failure_stage r = Stage_coding then {Exp_READY_TO_RUN} else {})"
| "sources (Recovery_decided _) = {Exp_RECOVERING}"
| "sources (Output_checked _) = {Exp_OUTPUT_READY}"
| "sources (Evaluation_completed _) = {Exp_OUTPUT_VERIFIED}"
| "sources (Experiment_decided d) =
     (if ed_fidelity_completed d = Fidelity_SMOKE then {Exp_OUTPUT_VERIFIED} else {Exp_EVALUATED})"
| "sources _ = {}"

lemma accepted_source:
  assumes "check_payload es (finish_projection es s) p = Inr ()" and "st_status s \<noteq> Run_STOPPED"
    and "subject p = Some i" and "node_of s i = Some n"
    and "payload_type p \<noteq> Type_EXPERIMENT_PROPOSED"
  shows "node_status n \<in> sources p"
proof (cases p)
  case (Evaluation_completed r)
  with assms show ?thesis
    by (auto simp: check_evaluation_completed_def check_evaluation_route_def node_is_iff raise_simps
        split: if_splits)
next
  case (Adapter_failed r)
  with assms show ?thesis
    by (auto simp: check_adapter_failed_def raise_simps Let_def split: if_splits)
next
  case (Experiment_decided d)
  with assms show ?thesis
    by (auto simp: check_experiment_decided_def check_decision_evidence_def raise_simps split: if_splits)
qed (use assms in \<open>auto simp: check_patch_created_def check_patch_checked_def
      check_execution_started_def check_execution_finished_def check_recovery_decided_def
      check_output_checked_def node_is_iff raise_simps\<close>)

text \<open>After the stop only the best candidate may be executed again, from whatever status it has.\<close>

lemma stopped_execution:
  assumes "check_payload es (finish_projection es s) (Execution_started r) = Inr ()"
    and "st_status s = Run_STOPPED"
  shows "st_best_experiment_id s = Some (rq_experiment_id r) \<and> rq_fidelity r = Fidelity_FULL
    \<and> st_best_commit_sha s = Some (rq_patch_commit_sha r)
    \<and> rq_command_id r \<in> {''clean_reproduce'', ''candidate_final_infer'', ''submission_check''}"
  using assms
  by (auto simp: check_execution_started_def check_post_stop_execution_def raise_simps split: if_splits)

lemma retry_resumption_status:
  "fst (retry_resumption by_id i) \<in> {Exp_PROPOSED, Exp_PATCH_READY, Exp_READY_TO_RUN, Exp_OUTPUT_READY,
     Exp_OUTPUT_VERIFIED, Exp_EVALUATED}"
  by (auto simp: retry_resumption_def split: option.splits failure_stage.splits)

lemma recovered_move: "may_move Exp_RECOVERING (recovered_status by_id d)"
  using retry_resumption_status [of by_id "rn_failure_event_id d"]
  by (cases "rn_action d") (auto simp: recovered_status_def intro: may_move.intros)

lemma decided_move:
  "s \<in> {Exp_OUTPUT_VERIFIED, Exp_EVALUATED} \<Longrightarrow> may_move s (status_by_decision k)"
  by (cases k) (auto intro: may_move.intros)

lemma failure_move:
  "s \<in> sources (Adapter_failed r) \<Longrightarrow> may_move s Exp_RECOVERING"
  by (cases "af_failure_stage r") (auto intro: may_move.intros)

lemma source_move:
  assumes "s \<in> sources p" shows "may_move s (status_after by_id p s)"
proof (cases p)
  case (Adapter_failed r)
  with assms failure_move [of s r] show ?thesis by simp
next
  case (Recovery_decided d)
  with assms recovered_move show ?thesis by simp
next
  case (Experiment_decided d)
  with assms decided_move [of s "ed_decision d"] show ?thesis by (auto split: if_splits)
qed (use assms in \<open>auto intro: may_move.intros\<close>)

lemma step_may_move:
  assumes "check_payload es (finish_projection es (pj_state pj)) (payload e) = Inr ()"
    and "project_step pj e = Inr pj'" and "st_status (pj_state pj) \<noteq> Run_STOPPED"
    and "node_of (pj_state pj) i = Some n" and "node_of (pj_state pj') i = Some n'"
  shows "n' = n \<and> subject (payload e) \<noteq> Some i \<or> may_move (node_status n) (node_status n')"
  using assms(2,5)
proof (cases rule: step_node_cases)
  case frame
  with assms(4) show ?thesis by simp
next
  case (proposed spec)
  with assms show ?thesis by (auto simp: check_experiment_proposed_def raise_simps)
next
  case (changed m)
  with assms accepted_source [OF assms(1,3) changed(1,2)] source_move [of "node_status n" "payload e"]
  show ?thesis by (auto simp: node_follows_def)
qed

text \<open>A node once created stays.\<close>

lemma step_keeps_nodes:
  assumes "project_step pj e = Inr pj'" and "node_of (pj_state pj) i = Some n"
  shows "\<exists>n'. node_of (pj_state pj') i = Some n'"
proof (cases "subject (payload e) = Some i")
  case True
  show ?thesis
  proof (cases "payload_type (payload e) = Type_EXPERIMENT_PROPOSED")
    case True
    with \<open>subject (payload e) = Some i\<close> obtain spec where "payload e = Experiment_proposed spec"
      and "rp_experiment_id spec = i" by (cases "payload e") auto
    with step_proposed [OF assms(1)] show ?thesis by simp
  next
    case False
    from assms(1) True False show ?thesis by (rule step_subject) blast
  qed
next
  case False
  with step_frame [OF assms(1) False] assms(2) show ?thesis by simp
qed

section \<open>The lifecycle over a legal ledger\<close>

lemma legal_step:
  assumes "legal_ledger dg (es @ [e])" and "es \<noteq> []" and "project_loop es = Inr pj"
  obtains pj' where "project_loop (es @ [e]) = Inr pj'" and "project_step pj e = Inr pj'"
    and "check_payload es (finish_projection es (pj_state pj)) (payload e) = Inr ()"
    and "st_status (pj_state pj) \<notin> {Run_FINALIZED, Run_FAILED}"
    and "st_status (pj_state pj) = Run_STOPPED \<Longrightarrow> payload_type (payload e) \<in> set allowed_after_stop"
    and "st_status (pj_state pj) = Run_FINALIZING \<Longrightarrow> payload_type (payload e) = Type_SUBMISSION_CHECKED"
    and "payload_type (payload e) \<noteq> Type_RUN_STARTED" and "valid_event dg e"
proof -
  from legal_snocD [OF assms(1)] have acc: "accepts dg es e" by simp
  from legal_project_loop [OF assms(1)] obtain pj' where "project_loop (es @ [e]) = Inr pj'" by blast
  moreover from this assms(3) have "project_step pj e = Inr pj'" by (simp add: project_loop_snoc)
  moreover have "validate_transition es (payload e) = Inr ()" "valid_event dg e"
    using acc by (simp_all add: accepts_def)
  ultimately show ?thesis using that assms(2,3) by (auto simp: validate_next)
qed

end
