(* ===== verification/Sample_Run.thy ===== *)
theory Sample_Run
  imports Experiment_Lifecycle
begin

text \<open>
  A concrete ledger of a whole run, event by event: bootstrap, one experiment with a first
  evaluation and a confirmation on a second seed, the update of the best candidate, the stop, the
  clean reproduction, the final selection and the submission check.  It is the input at which the
  properties of the lifecycle are applied.
\<close>

definition sample_artifact :: "artifact_kind \<Rightarrow> artifact_ref" where
  "sample_artifact k = \<lparr>art_artifact_id = artifact_kind_value k, art_kind = k, art_path = ''a'',
     art_sha256 = ZERO_SHA256, art_size_bytes = 1, art_content_type = None\<rparr>"

definition sample_start :: run_started_payload where
  "sample_start = \<lparr>rs_config_sha256 = ZERO_SHA256, rs_contract_sha256 = ZERO_SHA256,
     rs_protected_paths_sha256 = ZERO_SHA256, rs_max_experiments = 4, rs_parallel_directions = 1,
     rs_synthesize_parallel_improvements = True, rs_deepseek_timeout_seconds = 60,
     rs_research_planning_max_attempts = 2, rs_research_planning_retry_backoff_seconds = 0,
     rs_wall_time_limit_seconds = 3600, rs_token_limit = None, rs_gpu_seconds_limit = None,
     rs_max_repairs_per_experiment = 2, rs_max_confirmation_attempts = 2, rs_seed_schedule = [1, 2],
     rs_convergence_epsilon = 0, rs_convergence_patience = 3\<rparr>"

definition sample_contract :: contract_verified_payload where
  "sample_contract = \<lparr>cv_contract_sha256 = ZERO_SHA256, cv_protected_paths_sha256 = ZERO_SHA256,
     cv_metric_names = [''auc''], cv_primary_metric_name = ''auc'', cv_command_ids = [''train''],
     cv_artifact_roots = [''a''], cv_evaluator_sha256 = ZERO_SHA256\<rparr>"

definition sample_metrics :: "pyfloat \<Rightarrow> metric_set" where
  "sample_metrics x = \<lparr>ms_metrics = [(''auc'', x)], ms_primary_metric_name = ''auc'',
     ms_primary_score = x\<rparr>"

definition sample_trust :: "stability \<Rightarrow> int \<Rightarrow> trust_assessment" where
  "sample_trust st k = \<lparr>ta_verdict = Verdict_ACCEPTED, ta_stability = st,
     ta_integrity = Integrity_CLEAN, ta_flags = [], ta_eta_applied = None,
     ta_seed_mean = (if k < 2 then None else Some 1), ta_seed_stderr = (if k < 2 then None else Some 0),
     ta_seed_count = k\<rparr>"

definition sample_evaluation ::
  "string \<Rightarrow> int \<Rightarrow> int \<Rightarrow> pyfloat \<Rightarrow> trust_assessment \<Rightarrow> string list \<Rightarrow> evaluation_result" where
  "sample_evaluation i attempt query x trust seeds = \<lparr>ev_run_id = ''r'', ev_experiment_id = i,
     ev_attempt = attempt, ev_population = Population_PUBLIC_VALIDATION, ev_fidelity = Fidelity_FULL,
     ev_seed = attempt, ev_public_query_index = Some query, ev_evaluator_sha256 = ZERO_SHA256,
     ev_contract_sha256 = ZERO_SHA256, ev_metric_set = sample_metrics x, ev_baseline_delta = 0,
     ev_parent_delta = None, ev_previous_best_delta = None, ev_baseline_metric_deltas = [],
     ev_parent_metric_deltas = [], ev_previous_best_metric_deltas = [],
     ev_prediction_change = Scalar_change 0, ev_diagnostic_metrics = [], ev_trust = trust,
     ev_seed_evidence_event_ids = seeds, ev_diagnostics = empty_diagnostics,
     ev_metrics_artifact = None, ev_resource_delta = zero_delta\<rparr>"

definition sample_baseline :: baseline_verified_payload where
  "sample_baseline = \<lparr>bv_experiment_id = ''baseline'', bv_commit_sha = ''c0'',
     bv_metric_set = sample_metrics 0,
     bv_evaluation = sample_evaluation ''baseline'' 1 1 0 (sample_trust Stability_SINGLE_SEED 1) []\<rparr>"

definition sample_document :: "string \<Rightarrow> context_document" where
  "sample_document i = \<lparr>cx_context_id = i, cx_run_id = ''r'', cx_experiment_id = None,
     cx_snapshot_event_id = None, cx_source_event_ids = [], cx_excluded_source_ids = [],
     cx_content = [], cx_estimated_tokens = 0, cx_artifact = sample_artifact Artifact_CONTEXT\<rparr>"

definition sample_summary :: planner_experiment_summary where
  "sample_summary = \<lparr>px_experiment_id = ''baseline'', px_parent_experiment_id = None,
     px_commit_sha = ''c0'', px_family = None, px_hypothesis_summary = ''h'', px_trust_verdict = None,
     px_stability = None, px_integrity = None, px_trust_flags = [], px_failure_hypotheses = [],
     px_diagnostic_limitations = [], px_diagnostic_best_slice = None,
     px_diagnostic_worst_slice = None, px_decision = None, px_decision_reason_code = None,
     px_highest_completed_fidelity = None, px_population = None, px_output_accepted = None,
     px_output_checks = [], px_output_violations = [], px_primary_score = None, px_metric_set = None,
     px_metric_deltas = [], px_baseline_delta = None, px_parent_delta = None,
     px_previous_best_delta = None, px_prediction_change = None,
     px_prediction_spearman_vs_parent = None, px_diagnostic_metrics = [], px_child_count = 0,
     px_actual_cost = None, px_parent_eligible = True, px_best_eligible = True,
     px_status = ''baseline'', px_duplicate_key = ''b'', px_method_card_ids = [],
     px_component_experiment_ids = [], px_supporting_event_ids = []\<rparr>"

definition sample_planner_context :: planner_context where
  "sample_planner_context = context_document.extend (sample_document ''p1'')
    \<lparr>pcx_contract_sha256 = ZERO_SHA256,
     pcx_contract_summary = \<lparr>pn_resolved = True, pn_allowed_families = [], pn_allowed_data = [],
       pn_research_capabilities = [], pn_active_prohibitions = [], pn_protected_paths = [],
       pn_editable_paths = [], pn_data_manifest_sha256 = ZERO_SHA256,
       pn_evaluator_sha256 = ZERO_SHA256, pn_epsilon = 0, pn_prediction_change_no_op_threshold = 0\<rparr>,
     pcx_baseline = sample_summary, pcx_current_best = sample_summary, pcx_eligible_frontier = [],
     pcx_refinement_frontier_ids = [], pcx_ensemble_candidate_ids = [], pcx_family_history = [],
     pcx_active_lessons = [], pcx_method_cards = [],
     pcx_playbook = \<lparr>pp_source_path = ''a'', pp_source_sha256 = ZERO_SHA256,
       pp_rule_order = mandatory_rule_order, pp_family_order = [''objective''],
       pp_method_order = [(''objective'', [''objective_pairwise_bpr''])]\<rparr>,
     pcx_target_interface_excerpts = [], pcx_data_profile = None,
     pcx_remaining_budget = \<lparr>pb_remaining_experiments = 4, pb_remaining_public_queries = None,
       pb_remaining_llm_tokens = None, pb_remaining_wall_time_seconds = 3600,
       pb_remaining_gpu_seconds = None\<rparr>,
     pcx_convergence = \<lparr>pv_patience = 3, pv_consecutive_non_improving_full_evaluations = 0,
       pv_full_evaluations_completed = 0\<rparr>\<rparr>"

definition sample_spec :: "string \<Rightarrow> string \<Rightarrow> experiment_spec" where
  "sample_spec i key = \<lparr>rp_run_id = ''r'', rp_experiment_id = i, rp_parent_experiment_id = None,
     rp_parent_commit_sha = ''c0'', rp_context_id = ''p1'', rp_hypothesis = ''h'',
     rp_family = ''model'', rp_change_summary = ''s'', rp_expected_mechanism = ''m'',
     rp_success_criteria = ''s'', rp_falsification_condition = ''f'',
     rp_estimated_cost = \<lparr>ce_llm_tokens_upper_bound = 0, ce_wall_time_seconds_upper_bound = 0,
       ce_gpu_seconds_upper_bound = 0, ce_cost_tier = Cost_LOW\<rparr>,
     rp_method_card_ids = [], rp_component_experiment_ids = [], rp_evidence_event_ids = [],
     rp_literature_evidence = [], rp_duplicate_key = key, es_target_stage = ''model'',
     es_target_files = [''a''], es_fidelity_plan = [Fidelity_FULL]\<rparr>"

definition sample_coder_context :: coder_context where
  "sample_coder_context = context_document.extend (sample_document ''k1'')
    \<lparr>cc_contract_sha256 = ZERO_SHA256, cc_experiment_spec = sample_spec ''x1'' ''d1'',
     cc_parent_commit_sha = ''c0'', cc_target_interface_excerpts = [], cc_editable_roots = [],
     cc_protected_paths = [], cc_allowed_command_ids = [], cc_selected_method_cards = [],
     cc_active_lessons = [], cc_coding_invariants = [], cc_prior_result_summaries = [],
     cc_component_patches = [], cc_owner_retry_error_summary = None,
     cc_owner_retry_instructions = None, cc_step_limit = 1, cc_token_limit = None,
     cc_wall_time_limit_seconds = 60\<rparr>"

definition sample_patch :: "int \<Rightarrow> string \<Rightarrow> patch_candidate" where
  "sample_patch attempt commit = \<lparr>pc_run_id = ''r'', pc_experiment_id = ''x1'', pc_attempt = attempt,
     pc_experiment_spec_event_id = event_id_of 5, pc_context_id = ''k1'', pc_base_commit_sha = ''c0'',
     pc_patch_commit_sha = commit, pc_diff_sha256 = ZERO_SHA256, pc_changed_files = [''a''],
     pc_diff_artifact = sample_artifact Artifact_DIFF,
     pc_trajectory_artifact = sample_artifact Artifact_TRAJECTORY, pc_trae_version = ''1'',
     pc_model_id = ''m'', pc_steps_used = 1, pc_resource_delta = zero_delta\<rparr>"

definition sample_check :: "int \<Rightarrow> string \<Rightarrow> patch_check_result" where
  "sample_check attempt commit = \<lparr>pk_run_id = ''r'', pk_experiment_id = ''x1'', pk_attempt = attempt,
     pk_patch_commit_sha = commit, pk_diff_sha256 = ZERO_SHA256, pk_accepted = True,
     pk_receipt_id = Some ''g1'',
     pk_receipt_artifact = Some (sample_artifact Artifact_VERIFICATION_RECEIPT), pk_checks = [],
     pk_violations = [], pk_resource_delta = zero_delta\<rparr>"

definition sample_request :: "int \<Rightarrow> string \<Rightarrow> string \<Rightarrow> run_request" where
  "sample_request attempt command commit = \<lparr>rq_run_id = ''r'', rq_experiment_id = ''x1'',
     rq_attempt = attempt, rq_fidelity = Fidelity_FULL, rq_command_id = command,
     rq_patch_commit_sha = commit, rq_patch_receipt_id = ''g1'', rq_seed = attempt,
     rq_data_manifest_sha256 = ZERO_SHA256, rq_timeout_seconds = 60, rq_memory_limit_mb = 1,
     rq_gpu_memory_limit_mb = 0, rq_network_enabled = False, rq_runtime_settings = []\<rparr>"

definition sample_result :: "int \<Rightarrow> string \<Rightarrow> run_result" where
  "sample_result attempt commit = \<lparr>rr_run_id = ''r'', rr_experiment_id = ''x1'',
     rr_attempt = attempt, rr_fidelity = Fidelity_FULL, rr_patch_commit_sha = commit,
     rr_outcome = Outcome_SUCCESS, rr_exit_code = Some 0, rr_error_class = None,
     rr_error_fingerprint = None, rr_error_summary = None,
     rr_log_artifact = sample_artifact Artifact_LOG,
     rr_telemetry_artifact = sample_artifact Artifact_OTHER, rr_checkpoint_artifact = None,
     rr_prediction_artifact = Some (sample_artifact Artifact_PREDICTIONS),
     rr_resource_delta = zero_delta\<rparr>"

definition sample_output :: "int \<Rightarrow> output_check_result" where
  "sample_output attempt = \<lparr>oc_run_id = ''r'', oc_experiment_id = ''x1'', oc_attempt = attempt,
     oc_prediction_artifact = sample_artifact Artifact_PREDICTIONS,
     oc_ordered_row_identity_sha256 = ZERO_SHA256, oc_ordered_prediction_sha256 = ZERO_SHA256,
     oc_accepted = True, oc_checks = [], oc_score_stats = [], oc_violations = [],
     oc_resource_delta = zero_delta\<rparr>"

definition sample_decision ::
  "string \<Rightarrow> decision_kind \<Rightarrow> fidelity option \<Rightarrow> bool \<Rightarrow> experiment_decision" where
  "sample_decision evaluation k next best = \<lparr>ed_run_id = ''r'', ed_experiment_id = ''x1'',
     ed_evaluation_event_id = Some evaluation, ed_decision = k, ed_reason_code = ''R'',
     ed_fidelity_completed = Fidelity_FULL, ed_parent_eligible = True, ed_best_eligible = best,
     ed_next_fidelity = next, ed_supporting_event_ids = [], ed_lesson_candidate = None,
     ed_resource_delta = zero_delta\<rparr>"

definition sample_event :: "nat \<Rightarrow> event_payload \<Rightarrow> event" where
  "sample_event k p = \<lparr>event_id = event_id_of k, seq = k, timestamp = 1000000 * int k,
     run_id = ''r'', event_type = payload_type p,
     idempotency_key = ''r:x:s:'' @ digits_of k @ '':'' @ ZERO_SHA256, causation_event_id = None,
     payload = p, artifact_refs = (case payload_artifacts p of Inl _ \<Rightarrow> [] | Inr as \<Rightarrow> as),
     resource_delta = zero_delta, prev_event_hash = ZERO_SHA256, event_hash = ZERO_SHA256\<rparr>"

definition sample_payloads :: "event_payload list" where
  "sample_payloads = [
     Run_started sample_start,
     Contract_verified sample_contract,
     Baseline_verified sample_baseline,
     Context_created (Planner_context sample_planner_context),
     Experiment_proposed (sample_spec ''x1'' ''d1''),
     Context_created (Coder_context sample_coder_context),
     Patch_created (sample_patch 1 ''c1''),
     Patch_checked (sample_check 1 ''c1''),
     Execution_started (sample_request 1 ''candidate_train'' ''c1''),
     Execution_finished (sample_result 1 ''c1''),
     Output_checked (sample_output 1),
     Evaluation_completed (sample_evaluation ''x1'' 1 1 1 (sample_trust Stability_SINGLE_SEED 1) []),
     Experiment_decided (sample_decision (event_id_of 12) Decision_PROMOTE (Some Fidelity_FULL) False),
     Execution_started (sample_request 2 ''candidate_train'' ''c1''),
     Execution_finished (sample_result 2 ''c1''),
     Output_checked (sample_output 2),
     Evaluation_completed
       (sample_evaluation ''x1'' 2 2 1 (sample_trust Stability_CONFIRMED 2) [event_id_of 12]),
     Experiment_decided (sample_decision (event_id_of 17) Decision_ACCEPT None True),
     Best_updated \<lparr>bu_experiment_id = ''x1'', bu_commit_sha = ''c1'', bu_primary_metric_name = ''auc'',
       bu_primary_score = 1, bu_decision_event_id = event_id_of 18\<rparr>,
     Run_stopped ''converged'' ''done'',
     Execution_started (sample_request 3 ''clean_reproduce'' ''c1''),
     Execution_finished (sample_result 3 ''c1''),
     Output_checked (sample_output 3),
     Evaluation_completed (sample_evaluation ''x1'' 3 3 1 (sample_trust Stability_SINGLE_SEED 1) []),
     Final_selected \<lparr>fs_experiment_id = ''x1'', fs_commit_sha = ''c1'',
       fs_reproduction_evaluation_event_id = event_id_of 24\<rparr>,
     Submission_checked \<lparr>sc_accepted = True,
       sc_submission_artifact = sample_artifact Artifact_SUBMISSION, sc_checks = []\<rparr>]"

fun number_events :: "nat \<Rightarrow> event_payload list \<Rightarrow> event list" where
  "number_events k [] = []"
| "number_events k (p # ps) = sample_event k p # number_events (Suc k) ps"

definition sample_run :: "event list" where
  "sample_run = number_events 1 sample_payloads"

section \<open>Evaluating a ledger of numbered events\<close>

text \<open>
  The events of a sample ledger carry their position, so only the validator and the reducer have to
  be evaluated.  \<open>payloads_legal\<close> does it in one pass, carrying the projection along.
\<close>

fun payloads_legal :: "nat \<Rightarrow> event list \<Rightarrow> projection \<Rightarrow> event_payload list \<Rightarrow> bool" where
  "payloads_legal k done pj [] = True"
| "payloads_legal k done pj (p # ps) =
     (st_status (pj_state pj) \<notin> {Run_FINALIZED, Run_FAILED}
      \<and> (done = []) = (payload_type p = Type_RUN_STARTED)
      \<and> (st_status (pj_state pj) = Run_STOPPED \<longrightarrow> payload_type p \<in> set allowed_after_stop)
      \<and> (st_status (pj_state pj) = Run_FINALIZING \<longrightarrow> payload_type p = Type_SUBMISSION_CHECKED)
      \<and> (case check_payload done (finish_projection done (pj_state pj)) p of Inl _ \<Rightarrow> False
         | Inr _ \<Rightarrow> (case project_step pj (sample_event k p) of Inl _ \<Rightarrow> False
            | Inr pj' \<Rightarrow> payloads_legal (k + 1) (done @ [sample_event k p]) pj' ps)))"

lemma sample_event_simps [simp]:
  "event_id (sample_event k p) = event_id_of k" "seq (sample_event k p) = k"
  "payload (sample_event k p) = p" "run_id (sample_event k p) = ''r''"
  "causation_event_id (sample_event k p) = None" "resource_delta (sample_event k p) = zero_delta"
  "timestamp (sample_event k p) = 1000000 * int k" "event_hash (sample_event k p) = ZERO_SHA256"
  by (simp_all add: sample_event_def)

lemma sample_event_neq [simp]: "k \<noteq> j \<Longrightarrow> sample_event k p \<noteq> sample_event j q"
  by (metis sample_event_simps(2))

lemma digits_of_inject: "digits_of m = digits_of n \<longleftrightarrow> m = n"
  by (metis number_of_digits_of)

lemma sample_key_inject:
  "idempotency_key (sample_event k p) = idempotency_key (sample_event j q) \<longleftrightarrow> k = j"
  by (simp add: sample_event_def digits_of_inject)

lemma number_events_append:
  "number_events k (ps @ qs) = number_events k ps @ number_events (k + length ps) qs"
  by (induction ps arbitrary: k) simp_all

lemma length_number_events [simp]: "length (number_events k ps) = length ps"
  by (induction ps arbitrary: k) simp_all

lemma number_events_set:
  "e \<in> set (number_events k ps) \<Longrightarrow> \<exists>j p. e = sample_event j p \<and> k \<le> j \<and> j < k + length ps"
  by (induction ps arbitrary: k) (auto simp: Suc_le_eq, fastforce+)

lemma payloads_legal_ledger:
  assumes "payloads_legal (Suc (length qs)) (number_events 1 qs) pj ps" and "legal_ledger dg (number_events 1 qs)"
    and "project_loop (number_events 1 qs) = Inr pj"
    and "list_all (valid_event dg) (number_events (Suc (length qs)) ps)"
  shows "legal_ledger dg (number_events 1 (qs @ ps))"
  using assms
proof (induction ps arbitrary: qs pj)
  case (Cons p ps)
  let ?es = "number_events 1 qs" and ?e = "sample_event (Suc (length qs)) p"
  from Cons.prems(1) obtain u pj' where ok: "check_payload ?es (finish_projection ?es (pj_state pj)) p = Inr u"
    and step: "project_step pj ?e = Inr pj'"
    and rest: "payloads_legal (Suc (length (qs @ [p]))) (number_events 1 (qs @ [p])) pj' ps"
    by (auto simp: number_events_append split: sum.splits)
  have "validate_transition ?es p = Inr ()"
  proof (cases "qs = []")
    case True
    with Cons.prems(1) show ?thesis by (simp add: validate_first)
  next
    case False
    then have "?es \<noteq> []" by (cases qs) simp_all
    with Cons.prems(1,3) ok show ?thesis by (auto simp: validate_next)
  qed
  moreover have "idempotency_key ?e \<notin> idempotency_key ` set ?es"
    by (auto dest!: number_events_set simp: sample_key_inject)
  moreover have "case ?es of [] \<Rightarrow> True | e0 # _ \<Rightarrow> run_id ?e = run_id e0" by (cases qs) simp_all
  ultimately have "accepts dg ?es ?e" using Cons.prems(4) by (simp add: accepts_def)
  with Cons.prems(2) have legal: "legal_ledger dg (number_events 1 (qs @ [p]))"
    by (simp add: number_events_append legal_snoc)
  moreover have "project_loop (number_events 1 (qs @ [p])) = Inr pj'"
    using Cons.prems(3) step by (simp add: number_events_append project_loop_snoc)
  ultimately have "legal_ledger dg (number_events 1 ((qs @ [p]) @ ps))"
    using Cons.prems(4) rest by (intro Cons.IH [of "qs @ [p]" pj']) simp_all
  then show ?case by simp
qed simp

lemma payloads_legal_start:
  assumes "payloads_legal 1 [] initial_projection ps"
    and "list_all (valid_event dg) (number_events 1 ps)"
  shows "legal_ledger dg (number_events 1 ps)"
  using payloads_legal_ledger [of "[]" initial_projection ps dg] assms by (simp add: legal_Nil)

text \<open>
  Rules that evaluate the scrutinee of a binding before its continuation, and the definitions that
  a run of the reducer and of the validator unfolds.
\<close>

lemma bind_res_weak: "r = r' \<Longrightarrow> bind_res r k = bind_res r' k" by simp
lemma fetch_weak: "v = v' \<Longrightarrow> fetch e v k = fetch e v' k" by simp
lemma guarded_weak: "c = c' \<Longrightarrow> guarded e c k = guarded e c' k" by simp
lemma req_weak: "c = c' \<Longrightarrow> req c m k = req c' m k" by simp

lemmas weak_congs = bind_res_weak fetch_weak guarded_weak req_weak

lemmas step_eval = project_step_def enter_event_def note_event_def lift_state_def
  on_run_started_def on_baseline_verified_def on_context_created_def on_experiment_proposed_def
  on_patch_created_def on_patch_checked_def on_execution_started_def on_execution_finished_def
  on_adapter_failed_def on_planning_failed_def on_recovery_decided_def on_output_checked_def
  on_evaluation_completed_def on_best_updated_def on_lesson_recorded_def on_experiment_decided_def
  on_lesson_status_changed_def on_run_stopped_def on_final_selected_def on_submission_checked_def
  with_node_def put_node_def clear_active_def Let_def initial_projection_def initial_run_state_def
  new_node_def decide_node_def converged_score_def count_convergence_def beats_def
  is_finalizable_stop_reason_def FINALIZABLE_STOP_REASON_CODES_def count_recovery_def
  consumes_repair_def retry_resumption_def

lemmas check_eval = check_defs evaluation_request_def last_for_experiment_def last_of_def
  event_with_id_def pick_def mentions_experiment_def node_is_def same_duplicate_key_def
  parent_is_baseline_def expected_parent_commit_def check_post_stop_execution_def check_receipt_def
  check_evaluation_route_def expected_population_def expected_query_index_def check_seed_evidence_def
  check_decision_evidence_def check_best_eligibility_def check_promotion_def
  check_reproduction_source_def prefix_before_def events_of_def last_such_def first_such_def
  truthy_str_def dvalues_def allowed_after_stop_def latest_recoverable_failure_def
  recoverable_failure_def failable_states_def MAX_SAME_COMMIT_RETRIES_def

lemmas sample_defs = sample_start_def sample_contract_def sample_metrics_def sample_trust_def
  sample_evaluation_def sample_baseline_def sample_document_def sample_planner_context_def
  sample_coder_context_def sample_spec_def sample_patch_def sample_check_def sample_request_def
  sample_result_def sample_output_def sample_decision_def context_document.defs
  planner_context.defs coder_context.defs

lemma sample_run_accepted: "payloads_legal 1 [] initial_projection sample_payloads"
  by (simp add: sample_payloads_def step_eval check_eval sample_defs cong: weak_congs)

text \<open>A sample event is well formed when its payload is.\<close>

lemma digits_all: "list_all is_digit (digits_of n)" "digits_of n \<noteq> []"
proof (induction n rule: digits_of.induct)
  case (1 n)
  have digit: "is_digit (char_of (48 + k))" if "k < 10" for k :: nat
    using that by (simp add: is_digit_def of_char_of)
  { case 1 then show ?case using "1.IH"(1) digit [of "n mod 10"] digit [of n]
      by (subst digits_of.simps) simp }
  { case 2 then show ?case by (subst digits_of.simps) simp }
qed

lemma EVENT_ID_RE_event_id_of: "EVENT_ID_RE (event_id_of n)"
  using digits_all [of n]
  by (auto simp: EVENT_ID_RE_def event_id_of_def list_all_iff is_digit_def)

lemma sample_key_split:
  "split_on CHR '':'' (''r:x:s:'' @ digits_of k @ '':'' @ ZERO_SHA256)
   = [''r'', ''x'', ''s'', digits_of k, ZERO_SHA256]"
proof -
  have "CHR '':'' \<notin> set (digits_of k)"
    using digits_all(1) [of k] by (auto simp: list_all_iff is_digit_def)
  then have "split_on CHR '':'' (join_with '':'' [''r'', ''x'', ''s'', digits_of k, ZERO_SHA256])
      = [''r'', ''x'', ''s'', digits_of k, ZERO_SHA256]"
    by (intro split_join) (auto simp: ZERO_SHA256_def)
  then show ?thesis by simp
qed

lemma collect_artifacts_distinct:
  assumes "distinct (map art_artifact_id as)" and "\<forall>a \<in> set as. dget ids (art_artifact_id a) = None"
  shows "\<exists>u. collect_artifacts ids unique as = Inr u"
  using assms
proof (induction as arbitrary: ids unique)
  case (Cons a as)
  from Cons.prems have "collect_artifacts ids unique (a # as)
    = collect_artifacts (dset (art_artifact_id a) (art_sha256 a, art_size_bytes a) ids)
        (dset (artifact_key a) a unique) as"
    by (simp add: Let_def)
  moreover have "\<exists>u. collect_artifacts (dset (art_artifact_id a) (art_sha256 a, art_size_bytes a) ids)
        (dset (artifact_key a) a unique) as = Inr u"
    using Cons.prems by (intro Cons.IH) (auto, metis image_eqI)
  ultimately show ?case by simp
qed simp

definition sample_ok :: "(planner_data_profile \<Rightarrow> string) \<Rightarrow> event_payload \<Rightarrow> bool" where
  "sample_ok dg p \<longleftrightarrow> valid_payload dg p \<and> distinct (map art_artifact_id (nested_artifacts p))
     \<and> list_all valid_artifact_ref (nested_artifacts p)
     \<and> list_all (\<lambda>d. d = zero_delta) (payload_resource_deltas p)"

lemma sample_event_valid:
  assumes "sample_ok dg p" and "1 \<le> k"
  shows "valid_event dg (sample_event k p)"
proof -
  from assms obtain u where "collect_artifacts [] [] (nested_artifacts p) = Inr u"
    using collect_artifacts_distinct [of "nested_artifacts p" "[]" "[]"] by (auto simp: sample_ok_def)
  then obtain as where as: "payload_artifacts p = Inr as" by (simp add: payload_artifacts_def)
  with assms payload_artifacts_nested [OF as] have "list_all valid_artifact_ref as"
    by (auto simp: sample_ok_def list_all_iff)
  moreover have "nonempty_str (idempotency_key (sample_event k p))"
    by (simp add: sample_event_def nonempty_str_def py_strip_def ZERO_SHA256_def py_isspace_def
        numeral_eq_Suc)
  moreover have "valid_idempotency_key ''r'' (idempotency_key (sample_event k p))"
    using sample_key_split [of k] digits_all [of k] ZERO_SHA256_ok
    by (simp add: sample_event_def valid_idempotency_key_def ID_RE_def is_alnum_def canonical_decimal_def)
  moreover have "nonempty_str ''r''" by (simp add: nonempty_str_def py_strip_def py_isspace_def)
  ultimately show ?thesis using assms as EVENT_ID_RE_event_id_of [of k] ZERO_SHA256_ok
    by (simp add: valid_event_def valid_envelope_def sample_ok_def opt_ok_def) (simp add: sample_event_def)
qed

lemma numbered_valid:
  "list_all (sample_ok dg) ps \<Longrightarrow> 1 \<le> k \<Longrightarrow> list_all (valid_event dg) (number_events k ps)"
  by (induction ps arbitrary: k) (simp_all add: sample_event_valid)

lemmas string_eval = nonempty_str_def py_strip_def py_isspace_def valid_id_def ID_RE_def id_char_def
  is_alnum_def is_digit_def valid_path_def normalize_relative_path_def pure_str_def pure_parts_def
  is_absolute_def

lemmas valid_eval = valid_run_started_def valid_contract_verified_def valid_baseline_verified_def
  valid_metric_set_def valid_evaluation_result_def valid_evaluation_route_def
  valid_trust_assessment_def valid_evaluation_diagnostics_def empty_diagnostics_def
  metric_deltas_match_def names_not_blank_def valid_change_value_def float_dict_ok_def
  nonneg_float_def opt_ok_def dict_ok_def dkeys_def dvalues_def valid_artifact_ref_def
  sample_artifact_def valid_planner_context_def valid_context_document_def
  valid_planner_contract_summary_def unit_float_def valid_planner_experiment_summary_def
  sample_summary_def str_dict_ok_def valid_planner_playbook_summary_def mandatory_rule_order_def
  valid_planner_budget_summary_def nonneg_opt_def valid_planner_convergence_summary_def
  valid_experiment_spec_def valid_research_proposal_def valid_cost_estimate_def
  valid_fidelity_plan_def valid_coder_context_def valid_patch_candidate_def
  valid_patch_check_result_def truthy_str_def valid_run_request_def valid_runtime_mapping_def
  valid_run_result_def valid_output_check_result_def valid_experiment_decision_def
  valid_best_updated_def valid_submission_checked_def the_list_def

lemma event_id_of_nonempty: "nonempty_str (event_id_of k)"
proof -
  have "\<not> py_isspace c" if "c \<in> set (digits_of k)" for c
    using that digits_all(1) [of k] by (auto simp: list_all_iff is_digit_def py_isspace_def)
  moreover obtain ds d where "digits_of k = ds @ [d]"
    using digits_all(2) [of k] by (metis rev_exhaust)
  ultimately show ?thesis
    by (simp add: nonempty_str_def py_strip_def event_id_of_def) (simp add: py_isspace_def)
qed

lemma sample_payloads_ok: "list_all (sample_ok dg) sample_payloads"
  by (simp add: sample_payloads_def sample_ok_def sample_defs valid_eval string_eval ZERO_SHA256_ok
      event_id_of_nonempty [unfolded nonempty_str_def py_strip_def])

lemma sample_run_legal: "legal_ledger dg sample_run"
  unfolding sample_run_def using sample_run_accepted numbered_valid [OF sample_payloads_ok]
  by (intro payloads_legal_start) simp_all

end
