(* ===== verification/Lifecycle_Invariants.thy ===== *)
theory Lifecycle_Invariants
  imports Sample_Run
begin

text \<open>
  The invariants of the projected state over legal ledgers, each an interpretation of
  \<open>projected_invariant\<close>: the table of experiments, the recovery and confirmation budgets,
  the bound on repeated proposals, the numbering of public queries, the evidence behind accepted
  and best candidates, and the order of the run's phases.
\<close>

section \<open>The table of experiments\<close>

definition table_ok :: "event list \<Rightarrow> projection \<Rightarrow> bool" where
  "table_ok es pj \<longleftrightarrow> dict_ok (st_experiments (pj_state pj))
     \<and> int (length (st_experiments (pj_state pj))) = st_experiments_proposed (pj_state pj)
     \<and> (\<forall>i n. node_of (pj_state pj) i = Some n \<longrightarrow> node_experiment_id n = i)"

lemma step_experiments_proposed:
  assumes "project_step pj e = Inr pj'"
  shows "st_experiments_proposed (pj_state pj') = st_experiments_proposed (pj_state pj)
    + (if payload_type (payload e) = Type_EXPERIMENT_PROPOSED then 1 else 0)"
proof (cases "payload e")
  case (Experiment_decided d)
  from assms this show ?thesis
    by (rule project_step_decided) (simp add: same_progress_def Experiment_decided)
qed (use assms in \<open>auto simp: plain_step_defs split: if_splits prod.splits\<close>)

lemma start_table: "project_step initial_projection e = Inr pj \<Longrightarrow> payload e = Run_started p \<Longrightarrow>
   st_experiments (pj_state pj) = [] \<and> st_experiments_proposed (pj_state pj) = 0
   \<and> st_max_repairs (pj_state pj) = rs_max_repairs_per_experiment p
   \<and> st_max_confirmations (pj_state pj) = rs_max_confirmation_attempts p
   \<and> st_public_validation_queries (pj_state pj) = 0 \<and> st_status (pj_state pj) = Run_INITIALIZING
   \<and> best_of (pj_state pj) = (None, None, None) \<and> st_lessons (pj_state pj) = []"
  by (auto simp: plain_step_defs initial_projection_def initial_run_state_def best_of_def)

lemma length_dset_old: "dget d k = Some v \<Longrightarrow> length (dset k w d) = length d"
  by (induction d) (auto split: if_splits)

lemma length_dset_new: "dget d k = None \<Longrightarrow> length (dset k w d) = Suc (length d)"
  by (simp add: dset_new)

interpretation table: projected_invariant table_ok
proof
  fix e p pj
  assume "payload e = Run_started p" "project_step initial_projection e = Inr pj"
  then show "table_ok [e] pj" by (auto simp: table_ok_def dest!: start_table)
next
  fix dg es pj e pj'
  assume ok: "table_ok es pj" and step: "project_step pj e = Inr pj'"
    and check: "check_payload es (finish_projection es (pj_state pj)) (payload e) = Inr ()"
  show "table_ok (es @ [e]) pj'"
  proof (cases "payload_type (payload e) = Type_EXPERIMENT_PROPOSED")
    case True
    then obtain spec where p: "payload e = Experiment_proposed spec" by (cases "payload e") auto
    with check have "node_of (pj_state pj) (rp_experiment_id spec) = None"
      by (auto simp: check_experiment_proposed_def raise_simps)
    with ok step_proposed [OF step p] show ?thesis
      by (auto simp: table_ok_def length_dset_new new_node_def)
  next
    case False
    show ?thesis
    proof (cases "subject (payload e)")
      case None
      with ok False step_no_subject [OF step None] step_experiments_proposed [OF step]
      show ?thesis by (simp add: table_ok_def)
    next
      case (Some i)
      from step Some False obtain n n' where "node_of (pj_state pj) i = Some n"
        and "st_experiments (pj_state pj') = dset i n' (st_experiments (pj_state pj))"
        and "node_follows (dset (event_id e) e (pj_events_by_id pj)) (payload e) n n'"
        by (rule step_subject)
      with ok False step_experiments_proposed [OF step] show ?thesis
        by (auto simp: table_ok_def length_dset_old node_follows_def)
    qed
  qed
qed

section \<open>Budgets of one experiment\<close>

definition within_budget :: "run_state \<Rightarrow> experiment_node \<Rightarrow> bool" where
  "within_budget s n \<longleftrightarrow> 0 \<le> node_repair_count n \<and> node_repair_count n \<le> st_max_repairs s
     \<and> 0 \<le> node_same_commit_retry_count n \<and> node_same_commit_retry_count n \<le> MAX_SAME_COMMIT_RETRIES
     \<and> 0 \<le> node_confirmation_count n \<and> node_confirmation_count n \<le> st_max_confirmations s"

definition budgets_ok :: "event list \<Rightarrow> projection \<Rightarrow> bool" where
  "budgets_ok es pj \<longleftrightarrow> 0 \<le> st_max_repairs (pj_state pj) \<and> 0 \<le> st_max_confirmations (pj_state pj)
     \<and> (\<forall>i n. node_of (pj_state pj) i = Some n \<longrightarrow> within_budget (pj_state pj) n)"

text \<open>A repair is charged only while one is left: the schema requires a non-negative remainder.\<close>

lemma repairs_within:
  assumes "check_payload es (finish_projection es s) p = Inr ()" and "valid_payload dg p"
    and "subject p = Some i" and "node_of s i = Some n" and "within_budget s n"
  shows "0 \<le> repairs_after p (node_repair_count n) \<and> repairs_after p (node_repair_count n) \<le> st_max_repairs s"
  using assms
  by (cases p) (auto simp: check_recovery_decided_def raise_simps valid_recovery_decision_def
      within_budget_def)

lemma retries_within:
  assumes "check_payload es (finish_projection es s) p = Inr ()"
    and "subject p = Some i" and "node_of s i = Some n" and "within_budget s n"
  shows "0 \<le> retries_after p (node_same_commit_retry_count n)
    \<and> retries_after p (node_same_commit_retry_count n) \<le> MAX_SAME_COMMIT_RETRIES"
  using assms
  by (cases p) (auto simp: check_recovery_decided_def raise_simps within_budget_def
      MAX_SAME_COMMIT_RETRIES_def)

lemma confirmations_within:
  assumes "check_payload es (finish_projection es s) p = Inr ()"
    and "subject p = Some i" and "node_of s i = Some n" and "within_budget s n"
  shows "0 \<le> confirmations_after p (node_confirmation_count n)
    \<and> confirmations_after p (node_confirmation_count n) \<le> st_max_confirmations s"
  using assms
  by (cases p) (auto simp: check_experiment_decided_def check_promotion_def promotes_full_def
      raise_simps within_budget_def)

interpretation budgets: projected_invariant budgets_ok
proof
  fix e p pj
  assume "payload e = Run_started p" "valid_run_started p" "project_step initial_projection e = Inr pj"
  then show "budgets_ok [e] pj"
    by (auto simp: budgets_ok_def valid_run_started_def dest!: start_table)
next
  fix dg es pj e pj'
  assume ok: "budgets_ok es pj" and step: "project_step pj e = Inr pj'" and valid: "valid_event dg e"
    and check: "check_payload es (finish_projection es (pj_state pj)) (payload e) = Inr ()"
    and "payload_type (payload e) \<noteq> Type_RUN_STARTED"
  then have limits: "st_max_repairs (pj_state pj') = st_max_repairs (pj_state pj)"
    "st_max_confirmations (pj_state pj') = st_max_confirmations (pj_state pj)"
    using step_limits by blast+
  have payload: "valid_payload dg (payload e)" using valid by (simp add: valid_event_def)
  have "within_budget (pj_state pj') n'" if n': "node_of (pj_state pj') i = Some n'" for i n'
    using step n'
  proof (cases rule: step_node_cases)
    case frame
    with ok limits show ?thesis by (auto simp: budgets_ok_def within_budget_def)
  next
    case (proposed spec)
    with ok limits show ?thesis
      by (auto simp: budgets_ok_def within_budget_def new_node_def MAX_SAME_COMMIT_RETRIES_def)
  next
    case (changed n)
    with ok have n: "within_budget (pj_state pj) n" by (auto simp: budgets_ok_def)
    with repairs_within [OF check payload changed(1,2) n] retries_within [OF check changed(1,2) n]
      confirmations_within [OF check changed(1,2) n] changed(4) limits
    show ?thesis by (auto simp: within_budget_def node_follows_def)
  qed
  with ok limits show "budgets_ok (es @ [e]) pj'" by (auto simp: budgets_ok_def)
qed

section \<open>Repeated proposals\<close>

definition repeats_ok :: "event list \<Rightarrow> projection \<Rightarrow> bool" where
  "repeats_ok es pj \<longleftrightarrow> (\<forall>k. length (same_duplicate_key (pj_state pj) k) \<le> 3)"

lemma allowed_repeat:
  assumes "check_experiment_proposed es s spec = Inr ()"
  shows "length (same_duplicate_key s (rp_duplicate_key spec)) < 3"
proof -
  have "length (same_duplicate_key s (rp_duplicate_key spec)) = 1"
    if "authorized_no_op_reimplementation es s spec"
    using that by (simp add: authorized_no_op_reimplementation_def split: list.splits)
  moreover have "length (same_duplicate_key s (rp_duplicate_key spec)) < 3"
    if "authorized_failed_attempt_reexploration s spec"
    using that by (simp add: authorized_failed_attempt_reexploration_def Let_def split: if_splits)
  ultimately show ?thesis using assms by (force simp: check_experiment_proposed_def raise_simps)
qed

lemma same_duplicate_key_finish [simp]:
  "same_duplicate_key (finish_projection es s) k = same_duplicate_key s k"
  by (simp add: same_duplicate_key_def)

interpretation repeats: projected_invariant repeats_ok
proof
  fix e p pj
  assume "payload e = Run_started p" "project_step initial_projection e = Inr pj"
  then show "repeats_ok [e] pj"
    by (auto simp: repeats_ok_def same_duplicate_key_def dvalues_def dest!: start_table)
next
  fix dg es pj e pj'
  assume ok: "repeats_ok es pj" and step: "project_step pj e = Inr pj'"
    and check: "check_payload es (finish_projection es (pj_state pj)) (payload e) = Inr ()"
  show "repeats_ok (es @ [e]) pj'"
  proof (cases "payload_type (payload e) = Type_EXPERIMENT_PROPOSED")
    case True
    then obtain spec where p: "payload e = Experiment_proposed spec" by (cases "payload e") auto
    with check have "node_of (pj_state pj) (rp_experiment_id spec) = None"
      and "length (same_duplicate_key (pj_state pj) (rp_duplicate_key spec)) < 3"
      using allowed_repeat [of es "finish_projection es (pj_state pj)" spec]
      by (auto simp: check_experiment_proposed_def raise_simps)
    with ok step_proposed [OF step p] show ?thesis
      by (auto simp: repeats_ok_def same_duplicate_key_def filter_dset_new new_node_def)
  next
    case False
    show ?thesis
    proof (cases "subject (payload e)")
      case None
      with ok step_no_subject [OF step None] show ?thesis
        by (simp add: repeats_ok_def same_duplicate_key_def)
    next
      case (Some i)
      from step Some False obtain n n' where "node_of (pj_state pj) i = Some n"
        and "st_experiments (pj_state pj') = dset i n' (st_experiments (pj_state pj))"
        and "node_follows (dset (event_id e) e (pj_events_by_id pj)) (payload e) n n'"
        by (rule step_subject)
      with ok show ?thesis
        by (auto simp: repeats_ok_def same_duplicate_key_def filter_dset_same node_follows_def)
    qed
  qed
qed

end
