(* ===== verification/Evidence_Invariants.thy ===== *)
theory Evidence_Invariants
  imports Lifecycle_Invariants
begin

text \<open>
  The evidence behind the run's results: bootstrap before any experiment, the numbering of public
  queries, the evaluation behind an accepted and best-eligible node, the evaluation behind the best
  candidate, and the strictly increasing best score.
\<close>

section \<open>Bootstrap\<close>

definition has_baseline :: "event list \<Rightarrow> bool" where
  "has_baseline es \<longleftrightarrow> (\<exists>e \<in> set es. payload_type (payload e) = Type_BASELINE_VERIFIED)"

definition bootstrap_ok :: "event list \<Rightarrow> projection \<Rightarrow> bool" where
  "bootstrap_ok es pj \<longleftrightarrow> (\<not> has_baseline es \<longrightarrow> st_status (pj_state pj) = Run_INITIALIZING
     \<and> st_experiments (pj_state pj) = [] \<and> best_of (pj_state pj) = (None, None, None))"

lemma best_only_changes:
  assumes "\<And>p. payload e \<noteq> Best_updated p" and "\<And>b. payload e \<noteq> Baseline_verified b"
  shows "best_after (payload e) b = b"
  using assms by (cases "payload e") auto

interpretation bootstrap: projected_invariant bootstrap_ok
proof
  fix e p pj
  assume "payload e = Run_started p" "project_step initial_projection e = Inr pj"
  then show "bootstrap_ok [e] pj" by (auto simp: bootstrap_ok_def dest!: start_table)
next
  fix dg es pj e pj'
  assume ok: "bootstrap_ok es pj" and step: "project_step pj e = Inr pj'"
    and first: "payload_type (payload e) \<noteq> Type_RUN_STARTED"
    and check: "check_payload es (finish_projection es (pj_state pj)) (payload e) = Inr ()"
  show "bootstrap_ok (es @ [e]) pj'"
  proof (cases "has_baseline (es @ [e])")
    case False
    then have none: "\<not> has_baseline es" "payload_type (payload e) \<noteq> Type_BASELINE_VERIFIED"
      by (auto simp: has_baseline_def)
    with ok have s: "st_status (pj_state pj) = Run_INITIALIZING" "st_experiments (pj_state pj) = []"
      "best_of (pj_state pj) = (None, None, None)" by (auto simp: bootstrap_ok_def)
    have no_prop: "payload_type (payload e) \<noteq> Type_EXPERIMENT_PROPOSED"
      using check s(1) by (cases "payload e") (auto simp: check_experiment_proposed_def raise_simps)
    have "subject (payload e) = None"
    proof (rule ccontr)
      assume "subject (payload e) \<noteq> None"
      then obtain i where "subject (payload e) = Some i" by blast
      from step this no_prop show False by (rule step_subject) (simp add: s(2))
    qed
    with step s(2) have ex: "st_experiments (pj_state pj') = []" by (simp add: step_no_subject)
    have no_best: "payload e \<noteq> Best_updated p" for p
      using check s(2) by (auto simp: check_best_updated_def raise_simps)
    have "best_after (payload e) (best_of (pj_state pj)) = best_of (pj_state pj)"
      using no_best none(2) by (intro best_only_changes) auto
    with step_best [OF step] s(3) have best: "best_of (pj_state pj') = (None, None, None)" by simp
    have "run_status_after (payload e) Run_INITIALIZING = Run_INITIALIZING"
      using check s(1) none no_prop first
      by (cases "payload e")
        (auto simp: check_run_stopped_def check_final_selected_def raise_simps events_of_nonempty
          has_baseline_def)
    with step_run_status [OF step] s(1) ex best show ?thesis by (simp add: bootstrap_ok_def)
  qed (simp add: bootstrap_ok_def)
qed

section \<open>Public queries\<close>

definition queries_ok :: "event list \<Rightarrow> projection \<Rightarrow> bool" where
  "queries_ok es pj \<longleftrightarrow> st_public_validation_queries (pj_state pj) = int (length (filter is_public es))"

interpretation queries: projected_invariant queries_ok
proof
  fix e p pj
  assume "payload e = Run_started p" "project_step initial_projection e = Inr pj"
  then show "queries_ok [e] pj" by (auto simp: queries_ok_def is_public_def dest!: start_table)
next
  fix dg es pj e pj'
  assume "queries_ok es pj" and "project_step pj e = Inr pj'"
  then show "queries_ok (es @ [e]) pj'" by (simp add: queries_ok_def step_queries)
qed

section \<open>The evaluation behind a node\<close>

text \<open>What the validator demands of an evaluation before its experiment may become the best.\<close>

definition confirmed_clean :: "evaluation_result \<Rightarrow> bool" where
  "confirmed_clean r \<longleftrightarrow> ev_fidelity r = Fidelity_FULL \<and> ev_population r = Population_PUBLIC_VALIDATION
     \<and> ta_verdict (ev_trust r) = Verdict_ACCEPTED \<and> ta_stability (ev_trust r) = Stability_CONFIRMED
     \<and> ta_integrity (ev_trust r) = Integrity_CLEAN"

definition node_backed :: "event list \<Rightarrow> string \<Rightarrow> experiment_node \<Rightarrow> bool" where
  "node_backed es i n \<longleftrightarrow>
     (\<forall>m. node_metric_set n = Some m \<longrightarrow>
        (\<exists>e r. last_for_experiment as_evaluation es i = Some (e, r) \<and> ev_metric_set r = m))
     \<and> (node_status n = Exp_ACCEPTED \<and> node_best_eligible n \<longrightarrow>
        (\<exists>e r. last_for_experiment as_evaluation es i = Some (e, r) \<and> confirmed_clean r))"

definition evidence_ok :: "event list \<Rightarrow> projection \<Rightarrow> bool" where
  "evidence_ok es pj \<longleftrightarrow> (\<forall>i n. node_of (pj_state pj) i = Some n \<longrightarrow> node_backed es i n)"

lemma evaluation_frame:
  "subject (payload e) \<noteq> Some i \<Longrightarrow>
   last_for_experiment as_evaluation (es @ [e]) i = last_for_experiment as_evaluation es i"
  by (cases "payload e") (auto simp: last_for_experiment_snoc mentions_experiment_def)

lemma evaluation_other:
  "payload_type (payload e) \<noteq> Type_EVALUATION_COMPLETED \<Longrightarrow>
   last_for_experiment as_evaluation (es @ [e]) i = last_for_experiment as_evaluation es i"
  by (cases "payload e") (auto simp: last_for_experiment_snoc)

lemma eligible_decision:
  assumes "check_experiment_decided es s d = Inr ()" and "valid_experiment_decision d"
    and "ed_best_eligible d"
  shows "\<exists>e r. last_for_experiment as_evaluation es (ed_experiment_id d) = Some (e, r) \<and> confirmed_clean r"
  using assms
  by (auto simp: check_experiment_decided_def check_decision_evidence_def check_best_eligibility_def
      valid_experiment_decision_def confirmed_clean_def raise_simps split: if_splits)

interpretation evidence: projected_invariant evidence_ok
proof
  fix e p pj
  assume "payload e = Run_started p" "project_step initial_projection e = Inr pj"
  then show "evidence_ok [e] pj" by (auto simp: evidence_ok_def dest!: start_table)
next
  fix dg es pj e pj'
  assume ok: "evidence_ok es pj" and step: "project_step pj e = Inr pj'" and valid: "valid_event dg e"
    and check: "check_payload es (finish_projection es (pj_state pj)) (payload e) = Inr ()"
  show "evidence_ok (es @ [e]) pj'" unfolding evidence_ok_def
  proof (intro allI impI)
    fix i n' assume "node_of (pj_state pj') i = Some n'"
    with step show "node_backed (es @ [e]) i n'"
    proof (cases rule: step_node_cases)
      case frame
      with ok show ?thesis by (simp add: evidence_ok_def node_backed_def evaluation_frame)
    next
      case (proposed spec)
      then show ?thesis by (simp add: node_backed_def new_node_def)
    next
      case (changed n)
      with ok have n: "node_backed es i n" by (simp add: evidence_ok_def)
      show ?thesis
      proof (cases "payload e")
        case (Evaluation_completed r)
        with changed show ?thesis
          by (auto simp: node_backed_def node_follows_def last_for_experiment_snoc mentions_experiment_def
              split: if_splits)
      next
        case (Experiment_decided d)
        with check valid have "ed_best_eligible d \<Longrightarrow>
          \<exists>e r. last_for_experiment as_evaluation es (ed_experiment_id d) = Some (e, r) \<and> confirmed_clean r"
          by (intro eligible_decision) (auto simp: valid_event_def)
        with changed n Experiment_decided show ?thesis
          by (auto simp: node_backed_def node_follows_def evaluation_other)
      next
        case (Recovery_decided d)
        with changed n retry_resumption_status [of "dset (event_id e) e (pj_events_by_id pj)"
            "rn_failure_event_id d"] show ?thesis
          by (cases "rn_action d")
            (auto simp: node_backed_def node_follows_def evaluation_other recovered_status_def)
      qed (use changed n in \<open>auto simp: node_backed_def node_follows_def evaluation_other split: if_splits\<close>)
    qed
  qed
qed

section \<open>The evidence behind the best candidate\<close>

definition best_backed :: "event list \<Rightarrow> string \<Rightarrow> pyfloat \<Rightarrow> bool" where
  "best_backed es i x \<longleftrightarrow>
     (\<exists>e \<in> set es. \<exists>b. payload e = Baseline_verified b \<and> bv_experiment_id b = i
        \<and> ms_primary_score (bv_metric_set b) = x)
     \<or> (\<exists>e \<in> set es. \<exists>r. payload e = Evaluation_completed r \<and> ev_experiment_id r = i
        \<and> ms_primary_score (ev_metric_set r) = x \<and> confirmed_clean r)"

definition best_ok :: "event list \<Rightarrow> projection \<Rightarrow> bool" where
  "best_ok es pj \<longleftrightarrow> (case best_of (pj_state pj) of
       (Some i, Some c, Some x) \<Rightarrow> best_backed es i x | (None, None, None) \<Rightarrow> True | _ \<Rightarrow> False)"

lemma best_backed_snoc: "best_backed es i x \<Longrightarrow> best_backed (es @ [e]) i x"
  by (auto simp: best_backed_def)

interpretation best: projected_invariant best_ok
proof
  fix e p pj
  assume "payload e = Run_started p" "project_step initial_projection e = Inr pj"
  then show "best_ok [e] pj" by (auto simp: best_ok_def dest!: start_table)
next
  fix dg es pj e pj'
  assume ok: "best_ok es pj" and step: "project_step pj e = Inr pj'" and legal: "legal_ledger dg es"
    and es: "es \<noteq> []" "project_loop es = Inr pj"
    and check: "check_payload es (finish_projection es (pj_state pj)) (payload e) = Inr ()"
  have kept: "best_ok (es @ [e]) pj'" if "best_of (pj_state pj') = best_of (pj_state pj)"
    using ok that by (auto simp: best_ok_def best_backed_snoc split: prod.splits option.splits)
  show "best_ok (es @ [e]) pj'"
  proof (cases "payload e")
    case (Best_updated p)
    with check obtain n m where n: "node_of (pj_state pj) (bu_experiment_id p) = Some n"
      and acc: "node_status n = Exp_ACCEPTED" "node_best_eligible n"
      and m: "node_metric_set n = Some m" "ms_primary_score m = bu_primary_score p"
      by (auto simp: check_best_updated_def raise_simps split: option.splits)
    from evidence.holds [OF legal es] n have "node_backed es (bu_experiment_id p) n"
      by (simp add: evidence_ok_def)
    with acc m obtain f r where "last_for_experiment as_evaluation es (bu_experiment_id p) = Some (f, r)"
      and "ev_metric_set r = m" "confirmed_clean r" by (auto simp: node_backed_def)
    with m last_for_experimentD [of as_evaluation es "bu_experiment_id p" f r]
    have "best_backed es (bu_experiment_id p) (bu_primary_score p)"
      by (auto simp: best_backed_def mentions_experiment_def)
    with step_best [OF step] Best_updated show ?thesis
      by (simp add: best_ok_def best_backed_snoc)
  next
    case (Baseline_verified b)
    show ?thesis
    proof (cases "st_best_primary_score (pj_state pj)")
      case None
      with step_best [OF step] Baseline_verified show ?thesis
        by (auto simp: best_ok_def best_backed_def best_of_def)
    next
      case (Some x)
      with step_best [OF step] Baseline_verified have "best_of (pj_state pj') = best_of (pj_state pj)"
        by (auto simp: best_of_def)
      then show ?thesis by (rule kept)
    qed
  qed (rule kept, use step_best [OF step] in simp)+
qed

section \<open>The best score\<close>

definition best_scores :: "event list \<Rightarrow> pyfloat list" where
  "best_scores es = concat (map (\<lambda>e. case payload e of
       Baseline_verified b \<Rightarrow> [ms_primary_score (bv_metric_set b)]
     | Best_updated p \<Rightarrow> [bu_primary_score p] | _ \<Rightarrow> []) es)"

lemma best_scores_snoc: "best_scores (es @ [e]) = best_scores es @ (case payload e of
       Baseline_verified b \<Rightarrow> [ms_primary_score (bv_metric_set b)]
     | Best_updated p \<Rightarrow> [bu_primary_score p] | _ \<Rightarrow> [])"
  by (simp add: best_scores_def)

definition scores_ok :: "event list \<Rightarrow> projection \<Rightarrow> bool" where
  "scores_ok es pj \<longleftrightarrow> sorted_wrt (<) (best_scores es)
     \<and> st_best_primary_score (pj_state pj) = (if best_scores es = [] then None else Some (last (best_scores es)))"

lemma sorted_wrt_snoc:
  "sorted_wrt (<) (xs @ [y :: 'a :: order]) \<longleftrightarrow> sorted_wrt (<) xs \<and> (xs = [] \<or> last xs < y)"
proof (cases xs rule: rev_cases)
  case (snoc ys z)
  then show ?thesis by (auto simp: sorted_wrt_append intro: less_trans)
qed simp

lemma no_baseline_no_scores:
  assumes "legal_ledger dg es" and "\<not> has_baseline es" shows "best_scores es = []"
proof -
  have "payload e \<noteq> Best_updated p" if "e \<in> set es" for e p
  proof
    assume p: "payload e = Best_updated p"
    from that obtain pre post where es: "es = pre @ e # post" by (meson split_list)
    with assms(1) legal_split [of dg pre e post] have legal: "legal_ledger dg pre" "accepts dg pre e"
      by simp_all
    with p have "pre \<noteq> []" by (auto simp: accepts_def validate_first)
    moreover from this legal p obtain pj where pj: "project_loop pre = Inr pj"
      and "check_payload pre (finish_projection pre (pj_state pj)) (payload e) = Inr ()"
      by (auto simp: accepts_def validate_next)
    ultimately have "st_experiments (pj_state pj) \<noteq> []"
      using p by (auto simp: check_best_updated_def raise_simps)
    moreover have "bootstrap_ok pre pj" using bootstrap.holds [OF legal(1) \<open>pre \<noteq> []\<close> pj] .
    ultimately show False using assms(2) es by (auto simp: bootstrap_ok_def has_baseline_def)
  qed
  with assms(2) show ?thesis
    by (auto simp: best_scores_def has_baseline_def concat_eq_Nil_conv split: event_payload.splits)
qed

interpretation scores: projected_invariant scores_ok
proof
  fix e p pj
  assume "payload e = Run_started p" "project_step initial_projection e = Inr pj"
  then show "scores_ok [e] pj"
    by (auto simp: scores_ok_def best_scores_def best_of_def dest!: start_table)
next
  fix dg es pj e pj'
  assume ok: "scores_ok es pj" and step: "project_step pj e = Inr pj'" and legal: "legal_ledger dg es"
    and check: "check_payload es (finish_projection es (pj_state pj)) (payload e) = Inr ()"
  have score: "st_best_primary_score (pj_state pj') = snd (snd (best_of (pj_state pj')))"
    by (simp add: best_of_def)
  have kept: "scores_ok (es @ [e]) pj'"
    if "best_of (pj_state pj') = best_of (pj_state pj)" and "best_scores (es @ [e]) = best_scores es"
    using ok that by (simp add: scores_ok_def best_of_def)
  show "scores_ok (es @ [e]) pj'"
  proof (cases "payload e")
    case (Best_updated p)
    then have scores': "best_scores (es @ [e]) = best_scores es @ [bu_primary_score p]"
      by (simp add: best_scores_def)
    have new: "st_best_primary_score (pj_state pj') = Some (bu_primary_score p)"
      using step_best [OF step] Best_updated score by simp
    have "best_scores es = [] \<or> last (best_scores es) < bu_primary_score p"
      using ok check Best_updated
      by (cases "best_scores es = []") (auto simp: scores_ok_def check_best_updated_def raise_simps)
    moreover have "sorted_wrt (<) (best_scores es)" using ok by (simp add: scores_ok_def)
    ultimately show ?thesis unfolding scores_ok_def scores' new sorted_wrt_snoc by simp
  next
    case (Baseline_verified b)
    with check have "\<not> has_baseline es"
      by (auto simp: check_baseline_verified_def raise_simps events_of_def filter_empty_conv has_baseline_def)
    then have none: "best_scores es = []" by (rule no_baseline_no_scores [OF legal])
    with ok have "st_best_primary_score (pj_state pj) = None" by (simp add: scores_ok_def)
    then have "st_best_primary_score (pj_state pj') = Some (ms_primary_score (bv_metric_set b))"
      using step_best [OF step] Baseline_verified by (simp add: best_of_def)
    moreover have "best_scores (es @ [e]) = [ms_primary_score (bv_metric_set b)]"
      using none Baseline_verified by (simp add: best_scores_snoc)
    ultimately show ?thesis by (simp add: scores_ok_def)
  qed (rule kept; use step_best [OF step] in \<open>simp add: best_scores_snoc\<close>)+
qed

end
