(* ===== verification/Lifecycle_Properties.thy ===== *)
theory Lifecycle_Properties
  imports Evidence_Invariants
begin

text \<open>
  The properties of the event lifecycle, stated over whole legal ledgers: what the event store can
  contain at all, given that every append passed the validator.
\<close>

section \<open>Facts shared by the properties\<close>

lemma legal_event:
  assumes "legal_ledger dg (pre @ e # post)" and "payload_type (payload e) \<noteq> Type_RUN_STARTED"
  obtains pj where "legal_ledger dg pre" and "pre \<noteq> []" and "project_loop pre = Inr pj"
    and "check_payload pre (finish_projection pre (pj_state pj)) (payload e) = Inr ()"
    and "valid_event dg e"
proof -
  from legal_split [OF assms(1)] have legal: "legal_ledger dg pre" and acc: "accepts dg pre e" by simp_all
  from acc assms(2) have "pre \<noteq> []" by (auto simp: accepts_def validate_first)
  with acc legal show ?thesis using that by (auto simp: accepts_def validate_next)
qed

lemma legal_check:
  assumes "legal_ledger dg (pre @ e # post)" and "payload e = p" and "payload_type p \<noteq> Type_RUN_STARTED"
  shows "\<exists>pj. project_loop pre = Inr pj \<and> check_payload pre (finish_projection pre (pj_state pj)) p = Inr ()"
  using legal_event [OF assms(1)] assms(2,3) by metis

lemma legal_member:
  assumes "legal_ledger dg es" and "e \<in> set es"
  obtains pre post where "es = pre @ e # post" and "legal_ledger dg pre" and "accepts dg pre e"
    and "valid_event dg e"
proof -
  from assms(2) obtain pre post where "es = pre @ e # post" by (meson split_list)
  moreover from this assms(1) legal_split [of dg pre e post] have "legal_ledger dg pre" "accepts dg pre e"
    by simp_all
  ultimately show ?thesis using that by (simp add: accepts_def)
qed

lemma project_state:
  assumes "project es = Inr s"
  obtains pj where "project_loop es = Inr pj" and "s = finish_projection es (pj_state pj)"
  using assms by (auto simp: project_Inr)

lemma node_not_empty: "project [] = Inr s \<Longrightarrow> node_of s i = None"
  by (auto simp: project_Inr initial_projection_def initial_run_state_def)

text \<open>An accepted evaluation rests on a chain of accepted events for the same candidate.\<close>

lemma evaluation_requestD:
  assumes "evaluation_request es r = Inr request"
  obtains out fin where "Output_checked out \<in> payload ` set es" and "oc_experiment_id out = ev_experiment_id r"
    and "oc_accepted out" and "oc_attempt out = ev_attempt r"
    and "Execution_finished fin \<in> payload ` set es" and "rr_experiment_id fin = ev_experiment_id r"
    and "rr_outcome fin = Outcome_SUCCESS" and "rr_patch_commit_sha fin = rq_patch_commit_sha request"
    and "Execution_started request \<in> payload ` set es" and "rq_experiment_id request = ev_experiment_id r"
    and "rq_attempt request = ev_attempt r"
proof -
  from assms obtain oe out fe fin se where
    "last_for_experiment as_output es (ev_experiment_id r) = Some (oe, out)"
    "last_for_experiment as_finished es (ev_experiment_id r) = Some (fe, fin)"
    "last_for_experiment as_started es (ev_experiment_id r) = Some (se, request)"
    and "oc_accepted out" "oc_attempt out = ev_attempt r" "rr_outcome fin = Outcome_SUCCESS"
    "rr_patch_commit_sha fin = rq_patch_commit_sha request" "rq_attempt request = ev_attempt r"
    by (auto simp: evaluation_request_def raise_simps)
  moreover from this(1-3) have "Output_checked out \<in> payload ` set es" "oc_experiment_id out = ev_experiment_id r"
    "Execution_finished fin \<in> payload ` set es" "rr_experiment_id fin = ev_experiment_id r"
    "Execution_started request \<in> payload ` set es" "rq_experiment_id request = ev_experiment_id r"
    by (auto dest!: last_for_experimentD simp: mentions_experiment_def rev_image_eqI)
  ultimately show ?thesis using that by blast
qed

text \<open>A request in a legal ledger carries the receipt of an accepted Gate A check of its commit.\<close>

lemma request_has_receipt:
  assumes "legal_ledger dg es" and "Execution_started q \<in> payload ` set es"
  shows "\<exists>chk. Patch_checked chk \<in> payload ` set es \<and> pk_experiment_id chk = rq_experiment_id q
    \<and> pk_accepted chk \<and> pk_receipt_id chk = Some (rq_patch_receipt_id q)
    \<and> pk_patch_commit_sha chk = rq_patch_commit_sha q"
proof -
  from assms(2) obtain e where e: "e \<in> set es" "payload e = Execution_started q" by auto
  from assms(1) e(1) obtain pre post where es: "es = pre @ e # post" by (meson split_list)
  with assms(1) have "legal_ledger dg (pre @ e # post)" by simp
  from legal_check [OF this e(2)] obtain s where "check_execution_started pre s q = Inr ()" by auto
  then obtain ce chk where "last_for_experiment as_patch_check pre (rq_experiment_id q) = Some (ce, chk)"
    and "pk_accepted chk" "pk_receipt_id chk = Some (rq_patch_receipt_id q)"
    "pk_patch_commit_sha chk = rq_patch_commit_sha q"
    by (auto simp: check_execution_started_def check_receipt_def raise_simps)
  moreover from this(1) have "Patch_checked chk \<in> payload ` set pre" "pk_experiment_id chk = rq_experiment_id q"
    by (auto dest!: last_for_experimentD simp: mentions_experiment_def rev_image_eqI)
  ultimately show ?thesis using es by auto
qed

section \<open>Before and after the stop\<close>

definition has_stopped :: "event list \<Rightarrow> bool" where
  "has_stopped es \<longleftrightarrow> (\<exists>e \<in> set es. payload_type (payload e) = Type_RUN_STOPPED)"

definition stop_phase_ok :: "event list \<Rightarrow> projection \<Rightarrow> bool" where
  "stop_phase_ok es pj \<longleftrightarrow> (if has_stopped es
     then st_status (pj_state pj) \<in> {Run_STOPPED, Run_FINALIZING, Run_FINALIZED, Run_FAILED}
     else st_status (pj_state pj) \<in> {Run_INITIALIZING, Run_READY, Run_RUNNING})"

interpretation stop_phase: projected_invariant stop_phase_ok
proof
  fix e p pj
  assume "payload e = Run_started p" "project_step initial_projection e = Inr pj"
  then show "stop_phase_ok [e] pj" by (auto simp: stop_phase_ok_def has_stopped_def dest!: start_table)
next
  fix dg es pj e pj'
  assume "stop_phase_ok es pj" and "project_step pj e = Inr pj'"
    and "payload_type (payload e) \<noteq> Type_RUN_STARTED"
    and "st_status (pj_state pj) \<notin> {Run_FINALIZED, Run_FAILED}"
    and "st_status (pj_state pj) = Run_STOPPED \<longrightarrow> payload_type (payload e) \<in> set allowed_after_stop"
    and "st_status (pj_state pj) = Run_FINALIZING \<longrightarrow> payload_type (payload e) = Type_SUBMISSION_CHECKED"
    and "check_payload es (finish_projection es (pj_state pj)) (payload e) = Inr ()"
  then show "stop_phase_ok (es @ [e]) pj'"
    using step_run_status [of pj e pj']
    by (cases "payload e")
      (auto simp: stop_phase_ok_def has_stopped_def allowed_after_stop_def check_final_selected_def
        raise_simps split: if_splits)
qed

section \<open>The lifecycle of the experiments\<close>

text \<open>
  C13: The reducer never raises on a ledger the validator let through: every legal ledger has a
  projected state.
\<close>

theorem project_total:
  assumes "legal_ledger dg es" shows "\<exists>s. project es = Inr s"
  using legal_project_loop [OF assms] by (auto simp: project_def)

definition sample_dg :: "planner_data_profile \<Rightarrow> string" where
  "sample_dg _ = ZERO_SHA256"

theorem project_total_witness:
  "legal_ledger sample_dg sample_run \<and> (\<exists>s. project sample_run = Inr s)"
  using project_total [OF sample_run_legal [of sample_dg]] sample_run_legal [of sample_dg] by simp

text \<open>
  C5: While the run is not stopped, an accepted event leaves an experiment as it was or moves its
  status along the abstract lifecycle \<open>may_move\<close>; in particular no accepted event removes an
  experiment, skips a gate or reopens a terminal experiment.
\<close>

theorem experiment_moves:
  assumes "legal_ledger dg (es @ [e])" and "project es = Inr s" and "project (es @ [e]) = Inr s'"
    and "st_status s \<noteq> Run_STOPPED" and "node_of s i = Some n"
  shows "\<exists>n'. node_of s' i = Some n' \<and> (n' = n \<or> may_move (node_status n) (node_status n'))"
proof -
  from assms(2) obtain pj where pj: "project_loop es = Inr pj" and s: "s = finish_projection es (pj_state pj)"
    by (rule project_state)
  have "es \<noteq> []" using node_not_empty assms(2,5) by auto
  from legal_step [OF assms(1) this pj] obtain pj' where "project_loop (es @ [e]) = Inr pj'"
    and step: "project_step pj e = Inr pj'"
    and check: "check_payload es (finish_projection es (pj_state pj)) (payload e) = Inr ()" by metis
  with assms(3) have s': "s' = finish_projection (es @ [e]) (pj_state pj')" by (simp add: project_def)
  from step_keeps_nodes [OF step] assms(5) s obtain n' where n': "node_of (pj_state pj') i = Some n'"
    by fastforce
  with step_may_move [OF check step _ _ n', of n] assms(4,5) s s' show ?thesis by auto
qed

lemma sample_prefix_legal: "legal_ledger dg (number_events 1 (take k sample_payloads))"
proof -
  have "sample_run = number_events 1 (take k sample_payloads)
      @ number_events (1 + length (take k sample_payloads)) (drop k sample_payloads)"
    unfolding sample_run_def by (metis append_take_drop_id number_events_append)
  with sample_run_legal [of dg] show ?thesis by (metis legal_prefix)
qed

lemma sample_at_8:
  "\<exists>s n. project (number_events 1 (take 8 sample_payloads)) = Inr s \<and> st_status s = Run_RUNNING
    \<and> node_of s ''x1'' = Some n \<and> node_status n = Exp_READY_TO_RUN"
  by (simp add: sample_payloads_def project_def project_loop_def step_eval sample_defs cong: weak_congs)

lemma sample_at_18:
  "\<exists>s n. project (number_events 1 (take 18 sample_payloads)) = Inr s \<and> st_status s = Run_RUNNING
    \<and> node_of s ''x1'' = Some n \<and> node_status n = Exp_ACCEPTED"
  by (simp add: sample_payloads_def project_def project_loop_def step_eval sample_defs cong: weak_congs)

lemma sample_take_Suc:
  "k < 26 \<Longrightarrow> number_events 1 (take (Suc k) sample_payloads)
   = number_events 1 (take k sample_payloads) @ [sample_event (Suc k) (sample_payloads ! k)]"
  by (subst take_Suc_conv_app_nth) (simp_all add: number_events_append sample_payloads_def)

theorem experiment_moves_witness:
  "\<exists>s s' n'. project (number_events 1 (take 8 sample_payloads)) = Inr s
    \<and> project (number_events 1 (take 9 sample_payloads)) = Inr s'
    \<and> node_of s' ''x1'' = Some n' \<and> (node_status n' = Exp_READY_TO_RUN \<or> may_move Exp_READY_TO_RUN (node_status n'))"
proof -
  let ?es = "number_events 1 (take 8 sample_payloads)"
  from sample_at_8 obtain s n where s: "project ?es = Inr s" "st_status s = Run_RUNNING"
    "node_of s ''x1'' = Some n" "node_status n = Exp_READY_TO_RUN" by blast
  have es': "number_events 1 (take 9 sample_payloads) = ?es @ [sample_event 9 (sample_payloads ! 8)]"
    using sample_take_Suc [of 8] by simp
  with sample_prefix_legal [of sample_dg 9] have legal: "legal_ledger sample_dg (?es @ [sample_event 9 (sample_payloads ! 8)])"
    by simp
  from project_total [OF legal] obtain s' where "project (?es @ [sample_event 9 (sample_payloads ! 8)]) = Inr s'" by blast
  with experiment_moves [OF legal s(1) this _ s(3)] s es' show ?thesis by auto
qed

text \<open>
  C9: A terminal experiment (accepted, rejected, pruned, invalid or closed as a no-op) is never
  changed again as long as the run is not stopped, whatever events follow.
\<close>

theorem terminal_experiments_stay:
  assumes "legal_ledger dg (es @ fs)" and "\<not> has_stopped (es @ fs)"
    and "project es = Inr s" and "node_of s i = Some n" and "terminal (node_status n)"
    and "project (es @ fs) = Inr s'"
  shows "node_of s' i = Some n"
  using assms(1,2,6)
proof (induction fs arbitrary: s' rule: rev_induct)
  case Nil
  with assms(3,4) show ?case by simp
next
  case (snoc f fs)
  from snoc.prems(1) have legal: "legal_ledger dg ((es @ fs) @ [f])" by simp
  with legal_snocD obtain t where t: "project (es @ fs) = Inr t" using project_total by blast
  from snoc.prems(2) have live: "\<not> has_stopped (es @ fs)" by (simp add: has_stopped_def)
  with snoc.IH [OF _ _ t] legal legal_snocD have node: "node_of t i = Some n" by blast
  from assms(3,4) have "es @ fs \<noteq> []" using node_not_empty by auto
  moreover obtain pj where pj: "project_loop (es @ fs) = Inr pj" "t = finish_projection (es @ fs) (pj_state pj)"
    using t by (rule project_state)
  ultimately have "stop_phase_ok (es @ fs) pj"
    using stop_phase.holds legal legal_snocD by blast
  with live pj have "st_status t \<noteq> Run_STOPPED" by (auto simp: stop_phase_ok_def)
  moreover have "project ((es @ fs) @ [f]) = Inr s'" using snoc.prems(3) by simp
  ultimately have "\<exists>n'. node_of s' i = Some n' \<and> (n' = n \<or> may_move (node_status n) (node_status n'))"
    using experiment_moves [OF legal t _ _ node] by blast
  with assms(5) terminal_final show ?case by blast
qed

theorem terminal_experiments_stay_witness:
  "\<exists>s s' n. project (number_events 1 (take 18 sample_payloads)) = Inr s
    \<and> project (number_events 1 (take 19 sample_payloads)) = Inr s'
    \<and> node_of s ''x1'' = Some n \<and> terminal (node_status n) \<and> node_of s' ''x1'' = Some n"
proof -
  let ?es = "number_events 1 (take 18 sample_payloads)" and ?f = "sample_event 19 (sample_payloads ! 18)"
  from sample_at_18 obtain s n where s: "project ?es = Inr s" "node_of s ''x1'' = Some n"
    "terminal (node_status n)" by (auto simp: terminal_def)
  have es': "number_events 1 (take 19 sample_payloads) = ?es @ [?f]"
    using sample_take_Suc [of 18] by simp
  with sample_prefix_legal [of sample_dg 19] have legal: "legal_ledger sample_dg (?es @ [?f])" by simp
  moreover from project_total [OF legal] obtain s' where "project (?es @ [?f]) = Inr s'" by blast
  moreover have "\<not> has_stopped (?es @ [?f])" by (simp add: has_stopped_def sample_payloads_def)
  ultimately show ?thesis using terminal_experiments_stay [OF legal _ s] s es' by auto
qed

section \<open>The budgets of an experiment\<close>

text \<open>
  The events that a budget counts: decisions for a repair or a clean restart, decisions to retry the same
  commit since the last new patch, and promotions from a full evaluation to another one.
\<close>

definition repair_decision :: "string \<Rightarrow> event_payload \<Rightarrow> bool" where
  "repair_decision i p \<longleftrightarrow> (case p of Recovery_decided d \<Rightarrow> rn_experiment_id d = i
     \<and> (rn_action d = Recovery_TRAE_REPAIR \<or> rn_action d = Recovery_RESTART_FROM_TRUSTED_PARENT) | _ \<Rightarrow> False)"

definition retry_decision :: "string \<Rightarrow> event_payload \<Rightarrow> bool" where
  "retry_decision i p \<longleftrightarrow> (case p of Recovery_decided d \<Rightarrow> rn_experiment_id d = i
     \<and> rn_action d = Recovery_RETRY_SAME_COMMIT | _ \<Rightarrow> False)"

definition confirmation_decision :: "string \<Rightarrow> event_payload \<Rightarrow> bool" where
  "confirmation_decision i p \<longleftrightarrow> (case p of Experiment_decided d \<Rightarrow> ed_experiment_id d = i
     \<and> ed_decision d = Decision_PROMOTE \<and> ed_fidelity_completed d = Fidelity_FULL
     \<and> ed_next_fidelity d = Some Fidelity_FULL | _ \<Rightarrow> False)"

definition new_patch :: "string \<Rightarrow> event_payload \<Rightarrow> bool" where
  "new_patch i p \<longleftrightarrow> (case p of Patch_created c \<Rightarrow> pc_experiment_id c = i | _ \<Rightarrow> False)"

definition repairs_in :: "event list \<Rightarrow> string \<Rightarrow> int" where
  "repairs_in es i = int (length (filter (\<lambda>e. repair_decision i (payload e)) es))"

definition confirmations_in :: "event list \<Rightarrow> string \<Rightarrow> int" where
  "confirmations_in es i = int (length (filter (\<lambda>e. confirmation_decision i (payload e)) es))"

definition retries_in :: "event list \<Rightarrow> string \<Rightarrow> int" where
  "retries_in es i = int (length (filter (\<lambda>e. retry_decision i (payload e))
     (takeWhile (\<lambda>e. \<not> new_patch i (payload e)) (rev es))))"

lemmas budget_events = repair_decision_def retry_decision_def confirmation_decision_def new_patch_def

lemma charges_frame:
  assumes "subject (payload e) \<noteq> Some i \<or> payload_type (payload e) = Type_EXPERIMENT_PROPOSED"
  shows "repairs_in (es @ [e]) i = repairs_in es i" "retries_in (es @ [e]) i = retries_in es i"
    "confirmations_in (es @ [e]) i = confirmations_in es i"
  using assms by (cases "payload e"; simp add: repairs_in_def retries_in_def confirmations_in_def budget_events)+

lemma charges_snoc:
  assumes "subject (payload e) = Some i"
  shows "repairs_in (es @ [e]) i = repairs_in es i + (if repair_decision i (payload e) then 1 else 0)"
    "retries_in (es @ [e]) i = retries_after (payload e) (retries_in es i)"
    "confirmations_in (es @ [e]) i = confirmations_after (payload e) (confirmations_in es i)"
  using assms
  by (cases "payload e"; simp add: repairs_in_def retries_in_def confirmations_in_def budget_events promotes_full_def)+

definition charges_ok :: "event list \<Rightarrow> projection \<Rightarrow> bool" where
  "charges_ok es pj \<longleftrightarrow> (\<exists>p. payload (hd es) = Run_started p
       \<and> st_max_repairs (pj_state pj) = rs_max_repairs_per_experiment p
       \<and> st_max_confirmations (pj_state pj) = rs_max_confirmation_attempts p)
     \<and> (\<forall>i. (repairs_in es i, retries_in es i, confirmations_in es i) =
         (case node_of (pj_state pj) i of None \<Rightarrow> (0, 0, 0)
          | Some n \<Rightarrow> (node_repair_count n, node_same_commit_retry_count n, node_confirmation_count n)))"

text \<open>The schema keeps the remainder non-negative, so a repair is numbered one above those before it.\<close>

lemma repair_charged:
  assumes "check_payload es (finish_projection es s) p = Inr ()" and "valid_payload dg p"
    and "subject p = Some i" and "node_of s i = Some n" and "within_budget s n"
  shows "repairs_after p (node_repair_count n) = node_repair_count n + (if repair_decision i p then 1 else 0)"
  using assms
  by (cases p) (auto simp: check_recovery_decided_def raise_simps valid_recovery_decision_def
      within_budget_def repair_decision_def consumes_repair_def)

interpretation charges: projected_invariant charges_ok
proof
  fix e p pj
  assume p: "payload e = Run_started p" and start: "project_step initial_projection e = Inr pj"
  have "node_of (pj_state pj) i = None" for i using start_table [OF start p] by simp
  with start_table [OF start p] p show "charges_ok [e] pj"
    by (simp add: charges_ok_def repairs_in_def retries_in_def confirmations_in_def budget_events)
next
  fix dg es pj e pj'
  assume legal: "legal_ledger dg es" "es \<noteq> []" "project_loop es = Inr pj" and ok: "charges_ok es pj"
    and step: "project_step pj e = Inr pj'" and valid: "valid_event dg e"
    and first: "payload_type (payload e) \<noteq> Type_RUN_STARTED"
    and check: "check_payload es (finish_projection es (pj_state pj)) (payload e) = Inr ()"
  have payload: "valid_payload dg (payload e)" using valid by (simp add: valid_event_def)
  have "(repairs_in (es @ [e]) i, retries_in (es @ [e]) i, confirmations_in (es @ [e]) i) =
      (case node_of (pj_state pj') i of None \<Rightarrow> (0, 0, 0)
       | Some n \<Rightarrow> (node_repair_count n, node_same_commit_retry_count n, node_confirmation_count n))" for i
  proof (cases "node_of (pj_state pj') i")
    case None
    then have old: "node_of (pj_state pj) i = None" using step_keeps_nodes [OF step] by fastforce
    have "subject (payload e) \<noteq> Some i \<or> payload_type (payload e) = Type_EXPERIMENT_PROPOSED"
      using step_subject [OF step] None by fastforce
    with ok old None show ?thesis by (simp add: charges_frame charges_ok_def)
  next
    case (Some n')
    from step Some show ?thesis
    proof (cases rule: step_node_cases)
      case frame
      with ok Some show ?thesis by (simp add: charges_frame charges_ok_def)
    next
      case (proposed spec)
      with check have "node_of (pj_state pj) i = None"
        by (auto simp: check_experiment_proposed_def raise_simps)
      with ok Some proposed show ?thesis by (simp add: charges_frame charges_ok_def new_node_def)
    next
      case (changed n)
      have n: "within_budget (pj_state pj) n"
        using budgets.holds [OF legal] changed(2) by (simp add: budgets_ok_def)
      have counts: "repairs_in es i = node_repair_count n" "retries_in es i = node_same_commit_retry_count n"
        "confirmations_in es i = node_confirmation_count n"
        using ok changed(2) by (auto simp: charges_ok_def split: option.splits)
      from changed(4) repair_charged [OF check payload changed(1,2) n] Some show ?thesis
        by (simp add: charges_snoc [OF changed(1)] counts node_follows_def)
    qed
  qed
  with ok step_limits [OF step first] legal(2) show "charges_ok (es @ [e]) pj'"
    by (auto simp: charges_ok_def)
qed

text \<open>
  C4: No experiment ever exceeds the budgets that the first event of the ledger freezes: at most so many
  recorded decisions for a repair or a clean restart, at most two recorded retries of the same commit since
  its last patch, at most so many recorded promotions for a confirmation.  The counters of the projected
  state are exactly these numbers of events.
\<close>

theorem experiment_budgets:
  assumes "legal_ledger dg es" and "es \<noteq> []" and "project es = Inr s"
  shows "(\<exists>p. payload (hd es) = Run_started p
      \<and> repairs_in es i \<le> rs_max_repairs_per_experiment p \<and> retries_in es i \<le> 2
      \<and> confirmations_in es i \<le> rs_max_confirmation_attempts p)
    \<and> (\<forall>n. node_of s i = Some n \<longrightarrow> node_repair_count n = repairs_in es i
      \<and> node_same_commit_retry_count n = retries_in es i \<and> node_confirmation_count n = confirmations_in es i)"
proof -
  obtain pj where pj: "project_loop es = Inr pj" and s: "s = finish_projection es (pj_state pj)"
    using assms(3) by (rule project_state)
  from charges.holds [OF assms(1,2) pj] budgets.holds [OF assms(1,2) pj] show ?thesis
    unfolding s by (cases "node_of (pj_state pj) i")
      (auto simp: charges_ok_def budgets_ok_def within_budget_def MAX_SAME_COMMIT_RETRIES_def
        split: option.splits dest!: spec [of _ i])
qed

theorem experiment_budgets_witness:
  "\<exists>s n p. project (number_events 1 (take 18 sample_payloads)) = Inr s \<and> node_of s ''x1'' = Some n
    \<and> payload (hd (number_events 1 (take 18 sample_payloads))) = Run_started p
    \<and> node_confirmation_count n = confirmations_in (number_events 1 (take 18 sample_payloads)) ''x1''
    \<and> confirmations_in (number_events 1 (take 18 sample_payloads)) ''x1'' \<le> rs_max_confirmation_attempts p"
proof -
  have "number_events 1 (take 18 sample_payloads) \<noteq> []" by (simp add: sample_payloads_def)
  then show ?thesis using sample_at_18 experiment_budgets [OF sample_prefix_legal [of sample_dg 18]] by blast
qed

text \<open>
  C10: The experiment table holds each identifier once, under its own key, one node per proposal
  event, and no duplicate key is shared by more than three experiments.
\<close>

theorem proposals_bounded:
  assumes "legal_ledger dg es" and "es \<noteq> []" and "project es = Inr s"
  shows "dict_ok (st_experiments s) \<and> int (length (st_experiments s)) = st_experiments_proposed s
    \<and> (\<forall>i n. node_of s i = Some n \<longrightarrow> node_experiment_id n = i)
    \<and> (\<forall>k. length (same_duplicate_key s k) \<le> 3)"
proof -
  from assms(3) obtain pj where pj: "project_loop es = Inr pj" "s = finish_projection es (pj_state pj)"
    by (rule project_state)
  with table.holds [OF assms(1,2) pj(1)] repeats.holds [OF assms(1,2) pj(1)] show ?thesis
    by (simp add: table_ok_def repeats_ok_def)
qed

theorem proposals_bounded_witness:
  "\<exists>s. project sample_run = Inr s \<and> (\<forall>k. length (same_duplicate_key s k) \<le> 3)"
proof -
  have "sample_run \<noteq> []" by (simp add: sample_run_def sample_payloads_def)
  moreover obtain s where "project sample_run = Inr s"
    using project_total [OF sample_run_legal [of sample_dg]] by blast
  ultimately show ?thesis using proposals_bounded [OF sample_run_legal [of sample_dg]] by blast
qed

end
