(* ===== verification/Evidence_Properties.thy ===== *)
theory Evidence_Properties
  imports Lifecycle_Properties
begin

text \<open>
  The properties about evidence: what an accepted evaluation, the best candidate, the stop and the
  final selection of a legal ledger rest on.
\<close>

section \<open>Public queries and evaluations\<close>

definition public_query_indices :: "event list \<Rightarrow> int option list" where
  "public_query_indices es = concat (map (\<lambda>e. case payload e of
     Evaluation_completed r \<Rightarrow>
       (if ev_population r = Population_PUBLIC_VALIDATION then [ev_public_query_index r] else [])
   | _ \<Rightarrow> []) es)"

lemma public_query_indices_snoc:
  "public_query_indices (es @ [e]) = public_query_indices es @ public_query_indices [e]"
  by (simp add: public_query_indices_def)

lemma public_query_indices_single:
  "public_query_indices [e] = (case payload e of
     Evaluation_completed r \<Rightarrow>
       (if ev_population r = Population_PUBLIC_VALIDATION then [ev_public_query_index r] else [])
   | _ \<Rightarrow> [])"
  by (simp add: public_query_indices_def)

lemma length_public: "length (public_query_indices es) = length (filter is_public es)"
  by (induction es) (auto simp: public_query_indices_def is_public_def split: event_payload.splits)

text \<open>
  C40: The public validation queries of a run are numbered 1, 2, 3, ... in the order of the ledger,
  without gaps or repetitions, so the index of the last one is the number of queries that were spent.
\<close>

theorem public_queries_numbered:
  assumes "legal_ledger dg es"
  shows "public_query_indices es
    = map (\<lambda>k. Some (int k)) [1..<Suc (length (filter is_public es))]"
  using assms
proof (induction rule: legal_ledger.induct)
  case legal_Nil
  then show ?case by (simp add: public_query_indices_def)
next
  case (legal_snoc es e)
  then have legal: "legal_ledger dg (es @ [e])" by (intro legal_ledger.legal_snoc)
  show ?case
  proof (cases "is_public e")
    case True
    then obtain r where r: "payload e = Evaluation_completed r" "ev_population r = Population_PUBLIC_VALIDATION"
      by (auto simp: is_public_def split: event_payload.splits)
    with legal_check [of dg es e "[]" "Evaluation_completed r"] legal obtain pj where
      pj: "project_loop es = Inr pj"
      and check: "check_evaluation_completed es (finish_projection es (pj_state pj)) r = Inr ()" by auto
    from pj check have "es \<noteq> []"
      by (auto simp: check_evaluation_completed_def raise_simps node_is_iff initial_projection_def
          initial_run_state_def split: if_splits)
    from queries.holds [OF legal_snoc.hyps(1) this pj]
    have "st_public_validation_queries (pj_state pj) = int (length (filter is_public es))"
      by (simp add: queries_ok_def)
    with check r(2) have "ev_public_query_index r = Some (int (length (filter is_public es)) + 1)"
      by (auto simp: check_evaluation_completed_def check_evaluation_route_def expected_query_index_def
          raise_simps)
    with r legal_snoc.IH True show ?thesis
      by (simp add: public_query_indices_snoc public_query_indices_single)
  next
    case False
    then have "public_query_indices [e] = []"
      by (auto simp: public_query_indices_single is_public_def split: event_payload.splits)
    with False legal_snoc.IH show ?thesis by (simp add: public_query_indices_snoc)
  qed
qed

theorem public_queries_numbered_witness:
  "public_query_indices sample_run
   = map (\<lambda>k. Some (int k)) [1..<Suc (length (filter is_public sample_run))]"
  by (rule public_queries_numbered [OF sample_run_legal [of sample_dg]])

text \<open>
  C3: Every evaluation in a legal ledger rests on the whole gate chain before it: an accepted Gate A
  check of the executed commit, whose receipt the request carries; an execution of that commit that
  succeeded; an accepted Gate B check of the same attempt.  The evaluation has the attempt, the
  fidelity and the seed of that request.
\<close>

theorem evaluation_gate_chain:
  assumes "legal_ledger dg (pre @ e # post)" and "payload e = Evaluation_completed r"
  shows "\<exists>q out fin chk. {Execution_started q, Output_checked out, Execution_finished fin, Patch_checked chk}
      \<subseteq> payload ` set pre
    \<and> rq_experiment_id q = ev_experiment_id r \<and> rq_attempt q = ev_attempt r
    \<and> rq_fidelity q = ev_fidelity r \<and> rq_seed q = ev_seed r
    \<and> rr_experiment_id fin = ev_experiment_id r \<and> rr_outcome fin = Outcome_SUCCESS
    \<and> rr_patch_commit_sha fin = rq_patch_commit_sha q
    \<and> oc_experiment_id out = ev_experiment_id r \<and> oc_accepted out \<and> oc_attempt out = ev_attempt r
    \<and> pk_experiment_id chk = ev_experiment_id r \<and> pk_accepted chk
    \<and> pk_receipt_id chk = Some (rq_patch_receipt_id q) \<and> pk_patch_commit_sha chk = rq_patch_commit_sha q"
proof -
  from legal_check [OF assms(1,2)] obtain s where "check_evaluation_completed pre s r = Inr ()" by auto
  then obtain q where q: "evaluation_request pre r = Inr q" "rq_fidelity q = ev_fidelity r" "rq_seed q = ev_seed r"
    by (auto simp: check_evaluation_completed_def raise_simps)
  from q(1) obtain out fin where ev: "Output_checked out \<in> payload ` set pre" "oc_experiment_id out = ev_experiment_id r"
    "oc_accepted out" "oc_attempt out = ev_attempt r" "Execution_finished fin \<in> payload ` set pre"
    "rr_experiment_id fin = ev_experiment_id r" "rr_outcome fin = Outcome_SUCCESS"
    "rr_patch_commit_sha fin = rq_patch_commit_sha q" "Execution_started q \<in> payload ` set pre"
    "rq_experiment_id q = ev_experiment_id r" "rq_attempt q = ev_attempt r"
    by (rule evaluation_requestD)
  from legal_split [OF assms(1)] have "legal_ledger dg pre" by simp
  from request_has_receipt [OF this ev(9)] obtain chk where "Patch_checked chk \<in> payload ` set pre"
    "pk_experiment_id chk = rq_experiment_id q" "pk_accepted chk"
    "pk_receipt_id chk = Some (rq_patch_receipt_id q)" "pk_patch_commit_sha chk = rq_patch_commit_sha q"
    by blast
  with q ev show ?thesis by (intro exI [of _ q] exI [of _ out] exI [of _ fin] exI [of _ chk]) simp
qed

lemma sample_run_at:
  assumes "k < 26"
  shows "sample_run = number_events 1 (take k sample_payloads) @ sample_event (Suc k) (sample_payloads ! k)
    # number_events (Suc (Suc k)) (drop (Suc k) sample_payloads)"
proof -
  have "length sample_payloads = 26" by (simp add: sample_payloads_def)
  with assms have "sample_payloads = take k sample_payloads @ sample_payloads ! k # drop (Suc k) sample_payloads"
    by (simp add: id_take_nth_drop)
  then have "sample_run = number_events 1 (take k sample_payloads @ sample_payloads ! k # drop (Suc k) sample_payloads)"
    unfolding sample_run_def by simp
  with assms \<open>length sample_payloads = 26\<close> show ?thesis
    by (simp only: number_events_append) simp
qed

lemma sample_legal_at:
  "k < 26 \<Longrightarrow> legal_ledger dg (number_events 1 (take k sample_payloads)
    @ sample_event (Suc k) (sample_payloads ! k) # number_events (Suc (Suc k)) (drop (Suc k) sample_payloads))"
  using sample_run_legal [of dg] sample_run_at [of k] by simp

theorem evaluation_gate_chain_witness:
  "\<exists>q. Execution_started q \<in> payload ` set (number_events 1 (take 16 sample_payloads))
    \<and> rq_attempt q = 2 \<and> rq_seed q = 2"
  using evaluation_gate_chain [OF sample_legal_at [of 16 sample_dg]
      , of "sample_evaluation ''x1'' 2 2 1 (sample_trust Stability_CONFIRMED 2) [event_id_of 12]"]
  by (simp add: sample_payloads_def) (auto simp: sample_evaluation_def)

section \<open>Seeds\<close>

text \<open>What one cited seed evaluation must be, and what the loop over the citations collects.\<close>

definition seed_evidence ::
  "event list \<Rightarrow> run_request \<Rightarrow> evaluation_result \<Rightarrow> string \<Rightarrow> evaluation_result \<Rightarrow> bool" where
  "seed_evidence es q r i r' \<longleftrightarrow> (\<exists>e \<in> set es. event_id e = i \<and> payload e = Evaluation_completed r'
      \<and> (\<exists>q'. evaluation_request (prefix_before es e) r' = Inr q' \<and> rq_patch_commit_sha q' = rq_patch_commit_sha q))
     \<and> ev_experiment_id r' = ev_experiment_id r \<and> ev_population r' = ev_population r
     \<and> ev_fidelity r' = ev_fidelity r \<and> ev_evaluator_sha256 r' = ev_evaluator_sha256 r
     \<and> ev_contract_sha256 r' = ev_contract_sha256 r \<and> ev_attempt r' < ev_attempt r"

lemma check_seed_evidenceD:
  assumes "check_seed_evidence es q r seeds i = Inr seeds'"
  shows "\<exists>r'. seed_evidence es q r i r' \<and> seeds' = seeds @ [ev_seed r']"
  using assms
  unfolding seed_evidence_def
  by (auto simp: check_seed_evidence_def raise_simps dest!: event_with_idD) blast

lemma collected_seeds:
  assumes "fold_res (check_seed_evidence es q r) seeds ids = Inr seeds'"
  shows "\<exists>rs. seeds' = seeds @ map ev_seed rs \<and> list_all2 (seed_evidence es q r) ids rs"
  using assms
proof (induction ids arbitrary: seeds)
  case (Cons i ids)
  then obtain mid where mid: "check_seed_evidence es q r seeds i = Inr mid"
    and rest: "fold_res (check_seed_evidence es q r) mid ids = Inr seeds'" by (auto simp: raise_simps)
  from Cons.IH [OF rest] obtain rs where rs: "seeds' = mid @ map ev_seed rs"
    "list_all2 (seed_evidence es q r) ids rs" by blast
  from check_seed_evidenceD [OF mid] obtain r' where "seed_evidence es q r i r'" "mid = seeds @ [ev_seed r']"
    by blast
  with rs show ?case by (intro exI [of _ "r' # rs"]) simp
qed simp

text \<open>
  C7: The seed evidence of every accepted evaluation is genuine: each cited identifier is an earlier
  evaluation of the ledger of the same experiment, population, fidelity, evaluator and contract,
  made on the same commit in an earlier attempt; the cited seeds and the evaluation's own are
  pairwise distinct, and the reported seed count is their number.  A confirmed evaluation therefore
  rests on at least two different seeds.
\<close>

theorem seed_evidence_genuine:
  assumes "legal_ledger dg (pre @ e # post)" and "payload e = Evaluation_completed r"
  shows "\<exists>q rs. evaluation_request pre r = Inr q
    \<and> list_all2 (seed_evidence pre q r) (ev_seed_evidence_event_ids r) rs
    \<and> distinct (ev_seed r # map ev_seed rs)
    \<and> ta_seed_count (ev_trust r) = int (length (ev_seed r # map ev_seed rs))
    \<and> (ta_stability (ev_trust r) = Stability_CONFIRMED \<longrightarrow> 2 \<le> length (ev_seed r # map ev_seed rs))"
proof -
  from legal_check [OF assms] obtain s where check: "check_evaluation_completed pre s r = Inr ()" by auto
  then obtain q seeds where q: "evaluation_request pre r = Inr q"
    and seeds: "fold_res (check_seed_evidence pre q r) [] (ev_seed_evidence_event_ids r) = Inr seeds"
    and dist: "distinct (ev_seed r # seeds)"
    by (auto simp: check_evaluation_completed_def check_evaluation_route_def raise_simps split: if_splits)
  from collected_seeds [OF seeds] obtain rs where rs: "seeds = map ev_seed rs"
    "list_all2 (seed_evidence pre q r) (ev_seed_evidence_event_ids r) rs" by auto
  have valid: "valid_evaluation_result r"
    using legal_split [OF assms(1)] assms(2) by (auto simp: accepts_def valid_event_def)
  from check have nb: "ev_experiment_id r \<noteq> ''baseline''"
    by (auto simp: check_evaluation_completed_def raise_simps)
  with valid rs(2) have count: "ta_seed_count (ev_trust r) = int (length (ev_seed r # map ev_seed rs))"
    by (auto simp: valid_evaluation_result_def valid_evaluation_route_def dest: list_all2_lengthD)
  have "2 \<le> ta_seed_count (ev_trust r)" if "ta_stability (ev_trust r) = Stability_CONFIRMED"
    using confirmed_has_aggregate [OF valid nb that] by simp
  with q rs dist count show ?thesis by (intro exI [of _ q] exI [of _ rs]) auto
qed

theorem seed_evidence_genuine_witness:
  "\<exists>q rs. list_all2 (seed_evidence (number_events 1 (take 16 sample_payloads)) q
      (sample_evaluation ''x1'' 2 2 1 (sample_trust Stability_CONFIRMED 2) [event_id_of 12])) [event_id_of 12] rs
    \<and> distinct (2 # map ev_seed rs)"
  using seed_evidence_genuine [OF sample_legal_at [of 16 sample_dg]
      , of "sample_evaluation ''x1'' 2 2 1 (sample_trust Stability_CONFIRMED 2) [event_id_of 12]"]
  by (simp add: sample_payloads_def) (auto simp: sample_evaluation_def)

section \<open>The best candidate\<close>

text \<open>
  C1: The best candidate of a legal ledger is never a bare claim: its score is the baseline's, or
  the score of an evaluation in the ledger of that very experiment that is full-fidelity, on the
  public validation population, accepted, confirmed and clean.
\<close>

theorem best_candidate_backed:
  assumes "legal_ledger dg es" and "project es = Inr s" and "st_best_experiment_id s = Some i"
  shows "\<exists>x. st_best_primary_score s = Some x
    \<and> ((\<exists>e \<in> set es. \<exists>b. payload e = Baseline_verified b \<and> bv_experiment_id b = i
          \<and> ms_primary_score (bv_metric_set b) = x)
       \<or> (\<exists>e \<in> set es. \<exists>r. payload e = Evaluation_completed r \<and> ev_experiment_id r = i
          \<and> ms_primary_score (ev_metric_set r) = x \<and> ev_fidelity r = Fidelity_FULL
          \<and> ev_population r = Population_PUBLIC_VALIDATION \<and> ta_verdict (ev_trust r) = Verdict_ACCEPTED
          \<and> ta_stability (ev_trust r) = Stability_CONFIRMED \<and> ta_integrity (ev_trust r) = Integrity_CLEAN))"
proof -
  from assms(2) obtain pj where pj: "project_loop es = Inr pj" "s = finish_projection es (pj_state pj)"
    by (rule project_state)
  have "es \<noteq> []"
    using assms(2,3) by (auto simp: project_Inr initial_projection_def initial_run_state_def)
  from best.holds [OF assms(1) this pj(1)] pj(2) assms(3) show ?thesis
    by (auto simp: best_ok_def best_of_def best_backed_def confirmed_clean_def split: option.splits)
qed

lemma sample_final:
  "\<exists>s. project sample_run = Inr s \<and> st_best_experiment_id s = Some ''x1'' \<and> st_status s = Run_FINALIZED
    \<and> st_best_primary_score s = Some 1"
  by (simp add: sample_run_def sample_payloads_def project_def project_loop_def step_eval sample_defs
      cong: weak_congs)

theorem best_candidate_backed_witness:
  "\<exists>s x. project sample_run = Inr s \<and> st_best_primary_score s = Some x
    \<and> ((\<exists>e \<in> set sample_run. \<exists>b. payload e = Baseline_verified b \<and> bv_experiment_id b = ''x1'')
       \<or> (\<exists>e \<in> set sample_run. \<exists>r. payload e = Evaluation_completed r \<and> ev_experiment_id r = ''x1''
          \<and> ms_primary_score (ev_metric_set r) = x))"
proof -
  from sample_final obtain s where s: "project sample_run = Inr s" "st_best_experiment_id s = Some ''x1''"
    by blast
  from best_candidate_backed [OF sample_run_legal [of sample_dg] s] s(1) show ?thesis by blast
qed

text \<open>
  C8: The best score only ever improves: the baseline's score followed by those of the best updates
  is strictly increasing, and the projected best score is the last of them.
\<close>

theorem best_scores_increase:
  assumes "legal_ledger dg es" and "es \<noteq> []" and "project es = Inr s"
  shows "sorted_wrt (<) (best_scores es)
    \<and> st_best_primary_score s = (if best_scores es = [] then None else Some (last (best_scores es)))"
proof -
  from assms(3) obtain pj where pj: "project_loop es = Inr pj" "s = finish_projection es (pj_state pj)"
    by (rule project_state)
  with scores.holds [OF assms(1,2) pj(1)] show ?thesis by (simp add: scores_ok_def)
qed

theorem best_scores_increase_witness:
  "best_scores sample_run = [0, 1] \<and> sorted_wrt (<) (best_scores sample_run)"
proof -
  have "best_scores sample_run = [0, 1]"
    by (simp add: sample_run_def sample_payloads_def best_scores_def sample_baseline_def sample_metrics_def)
  moreover have "sample_run \<noteq> []" by (simp add: sample_run_def sample_payloads_def)
  ultimately show ?thesis
    using best_scores_increase [OF sample_run_legal [of sample_dg]] sample_final by blast
qed

section \<open>Stop and final selection\<close>

definition finalization_evidence :: "event_type list" where
  "finalization_evidence = [Type_EXECUTION_STARTED, Type_EXECUTION_FINISHED, Type_OUTPUT_CHECKED,
     Type_EVALUATION_COMPLETED]"

text \<open>The run status after the events that may follow the stop.\<close>

fun tail_status :: "bool \<Rightarrow> event_type list \<Rightarrow> run_status \<Rightarrow> bool" where
  "tail_status fin [] st = (st = (if fin then Run_STOPPED else Run_FAILED))"
| "tail_status fin [a] st = (a = Type_FINAL_SELECTED \<and> st = Run_FINALIZING)"
| "tail_status fin [a, b] st = (a = Type_FINAL_SELECTED \<and> b = Type_SUBMISSION_CHECKED
     \<and> st \<in> {Run_FINALIZED, Run_FAILED})"
| "tail_status fin _ st = False"

definition stopped_tail :: "bool \<Rightarrow> event list \<Rightarrow> run_status \<Rightarrow> bool" where
  "stopped_tail fin post st \<longleftrightarrow> (fin \<or> post = []) \<and> (\<exists>evid tail. post = evid @ tail
     \<and> list_all (\<lambda>f. payload_type (payload f) \<in> set finalization_evidence) evid
     \<and> tail_status fin (map (\<lambda>f. payload_type (payload f)) tail) st)"

lemma tail_status_types: "tail_status fin ts st \<Longrightarrow>
   ts \<in> {[], [Type_FINAL_SELECTED], [Type_FINAL_SELECTED, Type_SUBMISSION_CHECKED]}"
  by (cases "(fin, ts, st)" rule: tail_status.cases) auto

lemma stopped_tail_step:
  assumes tail: "stopped_tail fin post st" and live: "st \<notin> {Run_FINALIZED, Run_FAILED}"
    and stopped: "st = Run_STOPPED \<longrightarrow> payload_type (payload f) \<in> set allowed_after_stop"
    and final: "st = Run_FINALIZING \<longrightarrow> payload_type (payload f) = Type_SUBMISSION_CHECKED"
  shows "stopped_tail fin (post @ [f]) (run_status_after (payload f) st)"
proof -
  from tail obtain evid tail where split: "post = evid @ tail"
    "list_all (\<lambda>f. payload_type (payload f) \<in> set finalization_evidence) evid"
    and shape: "tail_status fin (map (\<lambda>f. payload_type (payload f)) tail) st" and fin: "fin \<or> post = []"
    by (auto simp: stopped_tail_def)
  from shape live consider "tail = []" "st = Run_STOPPED" fin
    | g where "tail = [g]" "st = Run_FINALIZING" "payload_type (payload g) = Type_FINAL_SELECTED"
    using tail_status_types [OF shape] by (auto split: if_splits)
  then show ?thesis
  proof cases
    case 1
    show ?thesis
    proof (cases "payload_type (payload f) = Type_FINAL_SELECTED")
      case True
      then have "run_status_after (payload f) st = Run_FINALIZING" by (cases "payload f") auto
      with True 1 split show ?thesis
        unfolding stopped_tail_def by (intro conjI exI [of _ evid] exI [of _ "[f]"]) simp_all
    next
      case False
      with stopped 1 have ev: "payload_type (payload f) \<in> set finalization_evidence"
        by (auto simp: allowed_after_stop_def finalization_evidence_def)
      then have "run_status_after (payload f) st = st"
        by (cases "payload f") (auto simp: finalization_evidence_def)
      with ev 1 split show ?thesis
        unfolding stopped_tail_def by (intro conjI exI [of _ "evid @ [f]"] exI [of _ "[]"]) simp_all
    qed
  next
    case 2
    with final have sub: "payload_type (payload f) = Type_SUBMISSION_CHECKED" by simp
    then have "run_status_after (payload f) st \<in> {Run_FINALIZED, Run_FAILED}"
      by (cases "payload f") auto
    with sub 2 split fin show ?thesis
      unfolding stopped_tail_def by (intro conjI exI [of _ evid] exI [of _ "[g, f]"]) auto
  qed
qed

lemma after_stop_status:
  assumes "legal_ledger dg (pre @ e # post)" and "payload e = Run_stopped code reason"
    and "project_loop (pre @ e # post) = Inr pj"
  shows "stopped_tail (is_finalizable_stop_reason (Some code)) post (st_status (pj_state pj))"
  using assms(1,3)
proof (induction post arbitrary: pj rule: rev_induct)
  case Nil
  then obtain pj0 where "project_step pj0 e = Inr pj" by (auto simp: project_loop_snoc raise_simps)
  with step_run_status [of pj0 e pj] assms(2) show ?case by (simp add: stopped_tail_def)
next
  case (snoc f post)
  let ?es = "pre @ e # post"
  from snoc.prems(1) have legal: "legal_ledger dg (?es @ [f])" by simp
  then obtain pj0 where pj0: "project_loop ?es = Inr pj0"
    using legal_snocD legal_project_loop by blast
  have ne: "?es \<noteq> []" by simp
  have whole: "project_loop (?es @ [f]) = Inr pj" using snoc.prems(2) by simp
  have tail: "stopped_tail (is_finalizable_stop_reason (Some code)) post (st_status (pj_state pj0))"
    using snoc.IH [OF _ pj0] legal_snocD [OF legal] by simp
  show ?case
  proof (rule legal_step [OF legal ne pj0])
    fix pj' assume pj': "project_loop (?es @ [f]) = Inr pj'" "project_step pj0 f = Inr pj'"
      and "st_status (pj_state pj0) \<notin> {Run_FINALIZED, Run_FAILED}"
      and "st_status (pj_state pj0) = Run_STOPPED \<Longrightarrow> payload_type (payload f) \<in> set allowed_after_stop"
      and "st_status (pj_state pj0) = Run_FINALIZING \<Longrightarrow> payload_type (payload f) = Type_SUBMISSION_CHECKED"
    then have "stopped_tail (is_finalizable_stop_reason (Some code)) (post @ [f])
        (run_status_after (payload f) (st_status (pj_state pj0)))"
      using stopped_tail_step [OF tail] by blast
    with step_run_status [OF pj'(2)] pj'(1) whole show ?thesis by simp
  qed
qed

text \<open>
  C6: After the stop the ledger can only hold sealed finalization evidence (executions, their
  results, output checks, evaluations), then at most one final selection, then at most one submission
  check, and nothing after it; a stop for a reason that is not finalizable ends the ledger.
\<close>

theorem stop_is_final:
  assumes "legal_ledger dg (pre @ e # post)" and "payload e = Run_stopped code reason"
  shows "\<exists>evid tail. post = evid @ tail
    \<and> list_all (\<lambda>f. payload_type (payload f) \<in> set finalization_evidence) evid
    \<and> map (payload_type \<circ> payload) tail
        \<in> {[], [Type_FINAL_SELECTED], [Type_FINAL_SELECTED, Type_SUBMISSION_CHECKED]}
    \<and> (\<not> is_finalizable_stop_reason (Some code) \<longrightarrow> post = [])"
proof -
  from legal_project_loop [OF assms(1)] obtain pj where "project_loop (pre @ e # post) = Inr pj" by blast
  from after_stop_status [OF assms this] obtain evid tail where post: "post = evid @ tail"
    "list_all (\<lambda>f. payload_type (payload f) \<in> set finalization_evidence) evid"
    "is_finalizable_stop_reason (Some code) \<or> post = []"
    and "tail_status (is_finalizable_stop_reason (Some code))
      (map (\<lambda>f. payload_type (payload f)) tail) (st_status (pj_state pj))"
    by (auto simp: stopped_tail_def)
  from this(4) tail_status_types have "map (\<lambda>f. payload_type (payload f)) tail
      \<in> {[], [Type_FINAL_SELECTED], [Type_FINAL_SELECTED, Type_SUBMISSION_CHECKED]}" by blast
  with post(3) have "map (payload_type \<circ> payload) tail
      \<in> {[], [Type_FINAL_SELECTED], [Type_FINAL_SELECTED, Type_SUBMISSION_CHECKED]}
    \<and> (\<not> is_finalizable_stop_reason (Some code) \<longrightarrow> post = [])" by (auto simp: comp_def)
  with post(1,2) show ?thesis by (metis (no_types, lifting))
qed

theorem stop_is_final_witness:
  "\<exists>evid tail. number_events 21 (drop 20 sample_payloads) = evid @ tail
    \<and> list_all (\<lambda>f. payload_type (payload f) \<in> set finalization_evidence) evid"
proof -
  have "payload (sample_event (Suc 19) (sample_payloads ! 19)) = Run_stopped ''converged'' ''done''"
    by (simp add: sample_payloads_def)
  from stop_is_final [OF sample_legal_at [of 19 sample_dg] this] show ?thesis by auto
qed

text \<open>
  C2: A final selection names the current best experiment and commit, and rests either on the frozen
  baseline evaluation of that commit or on a clean reproduction: a request with the command
  \<^verbatim>\<open>clean_reproduce\<close> for exactly the selected commit, which has an accepted Gate A check, whose
  evaluation is accepted, clean, full-fidelity and public and reproduces the best score.
\<close>

theorem final_selection_reproduced:
  assumes "legal_ledger dg (pre @ e # post)" and "payload e = Final_selected p"
  shows "\<exists>s. project pre = Inr s \<and> st_status s = Run_STOPPED
    \<and> st_best_experiment_id s = Some (fs_experiment_id p) \<and> st_best_commit_sha s = Some (fs_commit_sha p)
    \<and> ((\<exists>b. Baseline_verified b \<in> payload ` set pre \<and> fs_experiment_id p = ''baseline''
          \<and> bv_commit_sha b = fs_commit_sha p
          \<and> Some (ms_primary_score (ev_metric_set (bv_evaluation b))) = st_best_primary_score s)
       \<or> (\<exists>r q chk. {Evaluation_completed r, Execution_started q, Patch_checked chk} \<subseteq> payload ` set pre
          \<and> ev_experiment_id r = fs_experiment_id p
          \<and> rq_command_id q = ''clean_reproduce'' \<and> rq_patch_commit_sha q = fs_commit_sha p
          \<and> rq_attempt q = ev_attempt r \<and> pk_accepted chk \<and> pk_patch_commit_sha chk = fs_commit_sha p
          \<and> ev_fidelity r = Fidelity_FULL \<and> ev_population r = Population_PUBLIC_VALIDATION
          \<and> ta_verdict (ev_trust r) = Verdict_ACCEPTED \<and> ta_integrity (ev_trust r) = Integrity_CLEAN
          \<and> Some (ms_primary_score (ev_metric_set r)) = st_best_primary_score s))"
proof -
  from legal_split [OF assms(1)] have legal: "legal_ledger dg pre" by simp
  from legal_check [OF assms] obtain pj where pj: "project_loop pre = Inr pj"
    and check: "check_final_selected pre (finish_projection pre (pj_state pj)) p = Inr ()" by auto
  let ?s = "finish_projection pre (pj_state pj)"
  have s: "project pre = Inr ?s" using pj by (simp add: project_def)
  from check obtain f r where
    base: "st_status ?s = Run_STOPPED" "st_best_experiment_id ?s = Some (fs_experiment_id p)"
      "st_best_commit_sha ?s = Some (fs_commit_sha p)"
    and f: "event_with_id reproduction_result pre (fs_reproduction_evaluation_event_id p) = Some (f, r)"
    and r: "ev_experiment_id r = fs_experiment_id p" "ev_fidelity r = Fidelity_FULL"
      "ev_population r = Population_PUBLIC_VALIDATION" "ta_verdict (ev_trust r) = Verdict_ACCEPTED"
      "ta_integrity (ev_trust r) = Integrity_CLEAN"
      "Some (ms_primary_score (ev_metric_set r)) = st_best_primary_score ?s"
    and src: "check_reproduction_source pre p f r = Inr ()"
    by (auto simp: check_final_selected_def raise_simps)
  from event_with_idD [OF f] have mem: "f \<in> set pre" "reproduction_result (payload f) = Some r" by simp_all
  show ?thesis
  proof (cases "as_baseline (payload f)")
    case (Some b)
    with src have "fs_experiment_id p = ''baseline''" "bv_commit_sha b = fs_commit_sha p"
      by (simp_all add: check_reproduction_source_def raise_simps)
    moreover from Some have "payload f = Baseline_verified b" by simp
    moreover from this mem have "Baseline_verified b \<in> payload ` set pre" "r = bv_evaluation b"
      by (auto simp: rev_image_eqI)
    ultimately show ?thesis using s base r(6) by blast
  next
    case None
    with mem(2) have pf: "payload f = Evaluation_completed r" by (cases "payload f") auto
    from None src obtain q where q: "evaluation_request (prefix_before pre f) r = Inr q"
      "rq_patch_commit_sha q = fs_commit_sha p" "rq_command_id q = ''clean_reproduce''"
      by (auto simp: check_reproduction_source_def raise_simps)
    from q(1) obtain out fin where "Execution_started q \<in> payload ` set (prefix_before pre f)"
      "rq_attempt q = ev_attempt r" by (rule evaluation_requestD)
    with set_before [of "\<lambda>x. x = f" pre] have st: "Execution_started q \<in> payload ` set pre" "rq_attempt q = ev_attempt r"
      by (auto simp: prefix_before_def)
    from request_has_receipt [OF legal st(1)] q(2) obtain chk where "Patch_checked chk \<in> payload ` set pre"
      "pk_accepted chk" "pk_patch_commit_sha chk = fs_commit_sha p" by auto
    moreover have "Evaluation_completed r \<in> payload ` set pre" using mem(1) pf by (metis image_eqI)
    ultimately show ?thesis using s base r q(2,3) st
      by (intro exI [of _ ?s] conjI disjI2 exI [of _ r] exI [of _ q] exI [of _ chk]) simp_all
  qed
qed

theorem final_selection_reproduced_witness:
  "\<exists>s. project (number_events 1 (take 24 sample_payloads)) = Inr s \<and> st_best_experiment_id s = Some ''x1''
    \<and> st_best_commit_sha s = Some ''c1''"
  using final_selection_reproduced [OF sample_legal_at [of 24 sample_dg]
      , of "\<lparr>fs_experiment_id = ''x1'', fs_commit_sha = ''c1'',
       fs_reproduction_evaluation_event_id = event_id_of 24\<rparr>"]
  by (simp add: sample_payloads_def) blast

section \<open>Evaluation routes\<close>

text \<open>
  C12: Only two evaluation routes exist in a legal ledger: proxy fidelity on the internal proxy
  population and full fidelity on the public validation population.  In particular no hidden-final
  evaluation can ever be recorded: the validator demands full fidelity for it and the schema final
  fidelity, although the validator has a branch that means to admit one after the stop.
\<close>

theorem evaluation_routes:
  assumes "legal_ledger dg es" and "Evaluation_completed r \<in> payload ` set es"
  shows "(ev_population r, ev_fidelity r) \<in> {(Population_INTERNAL_PROXY, Fidelity_PROXY),
     (Population_PUBLIC_VALIDATION, Fidelity_FULL)}"
proof -
  from assms(2) obtain e where e: "e \<in> set es" "payload e = Evaluation_completed r" by auto
  from assms(1) e(1) obtain pre post where es: "es = pre @ e # post" "valid_event dg e"
    by (rule legal_member)
  with e(2) have valid: "valid_evaluation_result r" by (simp add: valid_event_def)
  from assms(1) es(1) have "legal_ledger dg (pre @ e # post)" by simp
  from legal_check [OF this e(2)] obtain s where "check_evaluation_completed pre s r = Inr ()" by auto
  then obtain q where "ev_population r \<noteq> Population_HIDDEN_FINAL \<or> ev_fidelity r = Fidelity_FULL"
    "ev_population r \<noteq> Population_HIDDEN_FINAL \<Longrightarrow> ev_population r = expected_population q"
    by (auto simp: check_evaluation_completed_def check_evaluation_route_def raise_simps split: if_splits)
  with valid show ?thesis
    by (cases "ev_population r")
      (auto simp: valid_evaluation_result_def valid_evaluation_route_def expected_population_def
        split: if_splits)
qed

theorem evaluation_routes_witness:
  "\<exists>r. Evaluation_completed r \<in> payload ` set sample_run
    \<and> (ev_population r, ev_fidelity r) \<in> {(Population_INTERNAL_PROXY, Fidelity_PROXY),
       (Population_PUBLIC_VALIDATION, Fidelity_FULL)}"
proof -
  let ?r = "sample_evaluation ''x1'' 1 1 1 (sample_trust Stability_SINGLE_SEED 1) []"
  have "Evaluation_completed ?r \<in> payload ` set sample_run"
    by (simp add: sample_run_def sample_payloads_def)
  with evaluation_routes [OF sample_run_legal [of sample_dg] this] show ?thesis by blast
qed

end
