(* ===== verification/Py_Text.thy ===== *)
theory Py_Text
  imports Floats Identifiers "HOL-Library.Char_ord" "HOL-Library.List_Lexorder"
begin

text \<open>
  The string operations of Python that the components use, on characters with code points below
  256: case mapping, containment, splitting at white space, stripping, \<^verbatim>\<open>sorted(set(...))\<close>,
  the decimal notation of integers and \<^verbatim>\<open>"%.6g" % x\<close>.
\<close>

section \<open>Case\<close>

definition lower_char :: "char \<Rightarrow> char" where
  "lower_char c = (let k = of_char c :: nat in
     if 65 \<le> k \<and> k \<le> 90 \<or> 192 \<le> k \<and> k \<le> 222 \<and> k \<noteq> 215 then char_of (k + 32) else c)"

text \<open>
  \<^verbatim>\<open>upper\<close> maps the sharp s to two letters; the two characters whose capital lies above 255
  (the micro sign and y with diaeresis) are left alone.
\<close>

definition upper_char :: "char \<Rightarrow> string" where
  "upper_char c = (let k = of_char c :: nat in
     if 97 \<le> k \<and> k \<le> 122 \<or> 224 \<le> k \<and> k \<le> 254 \<and> k \<noteq> 247 then [char_of (k - 32)]
     else if k = 223 then ''SS'' else [c])"

definition py_lower :: "string \<Rightarrow> string" where
  "py_lower s = map lower_char s"

definition py_upper :: "string \<Rightarrow> string" where
  "py_upper s = concat (map upper_char s)"

section \<open>Containment and splitting\<close>

definition py_startswith :: "string \<Rightarrow> string \<Rightarrow> bool" where
  "py_startswith t s \<longleftrightarrow> take (length t) s = t"

definition py_endswith :: "string \<Rightarrow> string \<Rightarrow> bool" where
  "py_endswith t s \<longleftrightarrow> py_startswith (rev t) (rev s)"

text \<open>\<^verbatim>\<open>t in s\<close>\<close>

fun str_in :: "string \<Rightarrow> string \<Rightarrow> bool" where
  "str_in t [] \<longleftrightarrow> t = []"
| "str_in t (c # s) \<longleftrightarrow> py_startswith t (c # s) \<or> str_in t s"

text \<open>\<^verbatim>\<open>s.split()\<close>: the maximal runs of characters that are not white space.\<close>

definition close_word :: "string \<Rightarrow> string list" where
  "close_word acc = (if acc = [] then [] else [rev acc])"

fun words_from :: "string \<Rightarrow> string \<Rightarrow> string list" where
  "words_from acc [] = close_word acc"
| "words_from acc (c # s) =
     (if py_isspace c then close_word acc @ words_from [] s else words_from (c # acc) s)"

definition split_words :: "string \<Rightarrow> string list" where
  "split_words s = words_from [] s"

definition py_lstrip :: "string \<Rightarrow> string" where
  "py_lstrip s = dropWhile py_isspace s"

definition py_rstrip :: "string \<Rightarrow> string" where
  "py_rstrip s = rev (dropWhile py_isspace (rev s))"

text \<open>\<^verbatim>\<open>s.strip(chars)\<close> and \<^verbatim>\<open>s.replace(a, b)\<close> for characters.\<close>

definition strip_chars :: "string \<Rightarrow> string \<Rightarrow> string" where
  "strip_chars cs s = rev (dropWhile (\<lambda>c. c \<in> set cs) (rev (dropWhile (\<lambda>c. c \<in> set cs) s)))"

definition replace_char :: "char \<Rightarrow> string \<Rightarrow> string \<Rightarrow> string" where
  "replace_char a b s = concat (map (\<lambda>c. if c = a then b else [c]) s)"

text \<open>\<^verbatim>\<open>s.splitlines()\<close> for text whose lines end in a line feed.\<close>

definition split_lines :: "string \<Rightarrow> string list" where
  "split_lines s = (let ps = split_on CHR 0x0A s in if last ps = [] then butlast ps else ps)"

text \<open>\<^verbatim>\<open>sorted(set(xs))\<close>\<close>

definition sorted_set :: "'a :: linorder list \<Rightarrow> 'a list" where
  "sorted_set xs = sort (remdups xs)"

lemma set_sorted_set [simp]: "set (sorted_set xs) = set xs"
  by (simp add: sorted_set_def)

lemma distinct_sorted_set [simp]: "distinct (sorted_set xs)"
  by (simp add: sorted_set_def)

lemma sorted_sorted_set [simp]: "sorted (sorted_set xs)"
  by (simp add: sorted_set_def)

lemma sorted_set_cong: "set xs = set ys \<Longrightarrow> sorted_set xs = sorted_set ys"
  by (rule sorted_distinct_set_unique) simp_all

section \<open>White space\<close>

text \<open>What \<open>split_words\<close> returns: words that are not empty and hold no white space.\<close>

lemma words_from_ok:
  "\<forall>c \<in> set acc. \<not> py_isspace c \<Longrightarrow> w \<in> set (words_from acc s)
   \<Longrightarrow> w \<noteq> [] \<and> (\<forall>c \<in> set w. \<not> py_isspace c)"
proof (induction acc s rule: words_from.induct)
  case (1 acc)
  then show ?case by (cases "acc = []") (auto simp: close_word_def)
next
  case (2 acc c s)
  show ?case
  proof (cases "py_isspace c")
    case True
    with 2(4) have "w \<in> set (close_word acc) \<or> w \<in> set (words_from [] s)" by simp
    moreover have "w \<in> set (close_word acc) \<Longrightarrow> ?thesis"
      using 2(3) by (cases "acc = []") (auto simp: close_word_def)
    moreover have "w \<in> set (words_from [] s) \<Longrightarrow> ?thesis" using 2(1) [OF True] by simp
    ultimately show ?thesis by blast
  next
    case False
    show ?thesis by (rule 2(2) [OF False]) (use 2(3,4) False in auto)
  qed
qed

lemma split_words_ok: "w \<in> set (split_words s) \<Longrightarrow> w \<noteq> [] \<and> (\<forall>c \<in> set w. \<not> py_isspace c)"
  using words_from_ok [of "[]"] by (simp add: split_words_def)

lemma py_isspace_space [simp]: "py_isspace CHR '' ''"
  by (simp add: py_isspace_def)

lemma nonempty_strI:
  assumes "s \<noteq> []" and "\<not> py_isspace (hd s)" and "\<not> py_isspace (last s)"
  shows "nonempty_str s"
proof -
  from assms(1,2) have "dropWhile py_isspace s = s" by (cases s) auto
  moreover from assms(1,3) have "dropWhile py_isspace (rev s) = rev s"
    by (cases s rule: rev_cases) auto
  ultimately show ?thesis using assms(1) by (simp add: nonempty_str_def py_strip_def)
qed

text \<open>Stripping is idempotent and keeps a character that is not white space.\<close>

lemma strip_last:
  assumes "rev (dropWhile p (rev s)) \<noteq> []"
  shows "\<not> p (last (rev (dropWhile p (rev s))))"
proof -
  from assms have "dropWhile p (rev s) \<noteq> []" by simp
  then have "\<not> p (hd (dropWhile p (rev s)))" by (rule hd_dropWhile)
  then show ?thesis by (simp add: last_rev)
qed

lemma strip_suffix: "\<exists>t. s = rev (dropWhile p (rev s)) @ t"
  by (metis rev_append rev_rev_ident takeWhile_dropWhile_id)

lemma py_strip_ends:
  assumes "py_strip s \<noteq> []"
  shows "\<not> py_isspace (hd (py_strip s)) \<and> \<not> py_isspace (last (py_strip s))"
proof -
  let ?t = "dropWhile py_isspace s"
  obtain u where u: "?t = py_strip s @ u" using strip_suffix py_strip_def by metis
  with assms have "?t \<noteq> []" and "hd ?t = hd (py_strip s)" by auto
  then have "\<not> py_isspace (hd (py_strip s))" by (metis hd_dropWhile)
  moreover have "\<not> py_isspace (last (py_strip s))"
    using assms unfolding py_strip_def by (rule strip_last)
  ultimately show ?thesis ..
qed

lemma py_strip_id [simp]: "nonempty_str s \<Longrightarrow> py_strip s = s"
  by (simp add: nonempty_str_def)

lemma nonempty_py_strip [simp]: "nonempty_str (py_strip s) \<longleftrightarrow> py_strip s \<noteq> []"
  using nonempty_strI [of "py_strip s"] py_strip_ends [of s] by (auto simp: nonempty_str_def)

lemma py_strip_empty: "py_strip s = [] \<longleftrightarrow> (\<forall>c \<in> set s. py_isspace c)"
proof
  assume "py_strip s = []"
  then have all: "\<forall>c \<in> set (dropWhile py_isspace s). py_isspace c"
    by (simp add: py_strip_def dropWhile_eq_Nil_conv del: set_rev) (simp only: set_rev)
  have "dropWhile py_isspace s = []"
  proof (rule ccontr)
    assume ne: "dropWhile py_isspace s \<noteq> []"
    then have "\<not> py_isspace (hd (dropWhile py_isspace s))" by (rule hd_dropWhile)
    with all ne show False by (metis hd_in_set)
  qed
  then show "\<forall>c \<in> set s. py_isspace c" by (simp only: dropWhile_eq_Nil_conv)
next
  assume "\<forall>c \<in> set s. py_isspace c"
  then have "dropWhile py_isspace s = []" using dropWhile_eq_Nil_conv by blast
  then show "py_strip s = []" unfolding py_strip_def by (simp only: rev.simps dropWhile.simps)
qed

lemma py_strip_idem [simp]: "py_strip (py_strip s) = py_strip s"
proof (cases "py_strip s = []")
  case True
  have "py_strip [] = []" by (simp add: py_strip_def)
  with True show ?thesis by simp
next
  case False
  then have "nonempty_str (py_strip s)" by simp
  then show ?thesis by (rule py_strip_id)
qed

section \<open>Numbers as text\<close>

definition int_str :: "int \<Rightarrow> string" where
  "int_str k = (if k < 0 then ''-'' @ digits_of (nat (- k)) else digits_of (nat k))"

text \<open>The decimal exponent of a positive fraction: \<open>10 ^ e \<le> a / b < 10 ^ (e + 1)\<close>.\<close>

definition digit_count :: "nat \<Rightarrow> nat" where
  "digit_count n = length (digits_of n)"

definition scaled :: "rat \<Rightarrow> int \<Rightarrow> rat" where
  "scaled x e = (if 0 \<le> e then x * 10 ^ nat e else x / 10 ^ nat (- e))"

definition decimal_exponent :: "rat \<Rightarrow> int" where
  "decimal_exponent x = (let (a, b) = quotient_of x;
       e = int (digit_count (nat a)) - int (digit_count (nat b))
     in if scaled 1 e \<le> x then e else e - 1)"

text \<open>\<open>digits\<close> significant digits of a positive number, rounded to even, with their exponent.\<close>

definition significant :: "nat \<Rightarrow> rat \<Rightarrow> nat \<times> int" where
  "significant digits x = (let e = decimal_exponent x;
       m = nat (round_even (scaled x (int digits - 1 - e)))
     in if m = 10 ^ digits then (10 ^ (digits - 1), e + 1) else (m, e))"

definition strip_zeros :: "string \<Rightarrow> string" where
  "strip_zeros s = rev (dropWhile (\<lambda>c. c = CHR ''0'') (rev s))"

definition with_point :: "string \<Rightarrow> string \<Rightarrow> string" where
  "with_point whole part = (let f = strip_zeros part in if f = [] then whole else whole @ ''.'' @ f)"

definition exponent_str :: "int \<Rightarrow> string" where
  "exponent_str e = (if e < 0 then ''e-'' else ''e+'')
     @ (let d = digits_of (nat \<bar>e\<bar>) in if length d = 1 then ''0'' @ d else d)"

text \<open>\<^verbatim>\<open>"%.6g" % x\<close>; negative zero is not a value of \<^typ>\<open>pyfloat\<close>.\<close>

definition format_g6 :: "pyfloat \<Rightarrow> string" where
  "format_g6 x = (if x = 0 then ''0'' else
     (let (m, e) = significant 6 \<bar>x\<bar>; d = digits_of m in
      (if x < 0 then ''-'' else []) @
      (if e < -4 \<or> 6 \<le> e then with_point (take 1 d) (drop 1 d) @ exponent_str e
       else if 0 \<le> e then with_point (take (nat e + 1) d) (drop (nat e + 1) d)
       else with_point ''0'' (replicate (nat (- e) - 1) CHR ''0'' @ d))))"

lemma digits_of_nonempty [simp]: "digits_of n \<noteq> []"
  by (subst digits_of.simps) simp

lemma is_digit_char_of: "k < (10::nat) \<Longrightarrow> is_digit (char_of (48 + k))"
  by (simp add: is_digit_def of_char_of)

lemma digits_of_digits: "c \<in> set (digits_of n) \<Longrightarrow> is_digit c"
proof (induction n rule: digits_of.induct)
  case (1 n)
  then show ?case
    by (subst (asm) (2) digits_of.simps) (auto simp: is_digit_char_of split: if_splits)
qed

end
