(* ===== verification/Regex.thy ===== *)
theory Regex
  imports Py_Text
begin

text \<open>
  The fragment of Python's \<^verbatim>\<open>re\<close> that the modelled code uses, with its backtracking
  semantics: a match attempt returns the end states in the order in which the engine tries them,
  so the first one is the match.  A state holds the character before the position (for
  \<^verbatim>\<open>\b\<close> and \<^verbatim>\<open>^\<close>), the rest of the subject and the captured groups.
\<close>

datatype re =
    Eps
  | Chars "char \<Rightarrow> bool"
  | Seq re re
  | Alt re re
  | Many re
  | Lazy re
  | Group nat re
  | Word_edge
  | Line_start
  | Line_end
  | Text_end
  | Ahead re
  | Not_ahead re
  | Not_behind "char \<Rightarrow> bool"
  | Text_start

record re_state =
  re_prev :: "char option"
  re_rest :: string
  re_groups :: "(nat \<times> string) list"

section \<open>Character classes\<close>

text \<open>\<^verbatim>\<open>\w\<close>: the letters, digits and other numerals of Latin-1, and the underscore.\<close>

definition is_word_char :: "char \<Rightarrow> bool" where
  "is_word_char c \<longleftrightarrow> is_alnum c \<or> c = CHR ''_'' \<or> (let k = of_char c :: nat in
     k \<in> set [170, 178, 179, 181, 185, 186, 188, 189, 190] \<or> 192 \<le> k \<and> k \<noteq> 215 \<and> k \<noteq> 247)"

definition one_of :: "string \<Rightarrow> re" where
  "one_of cs = Chars (\<lambda>c. c \<in> set cs)"

definition none_of :: "string \<Rightarrow> re" where
  "none_of cs = Chars (\<lambda>c. c \<notin> set cs)"

definition char_range :: "char \<Rightarrow> char \<Rightarrow> char \<Rightarrow> bool" where
  "char_range a b c \<longleftrightarrow> (of_char a :: nat) \<le> of_char c \<and> (of_char c :: nat) \<le> of_char b"

abbreviation is_letter :: "char \<Rightarrow> bool" where
  "is_letter c \<equiv> char_range CHR ''a'' CHR ''z'' (lower_char c)"

text \<open>A literal, a literal without regard to case, and the counted forms.\<close>

fun lit :: "string \<Rightarrow> re" where
  "lit [] = Eps"
| "lit (c # s) = Seq (Chars (\<lambda>d. d = c)) (lit s)"

fun lit_nocase :: "string \<Rightarrow> re" where
  "lit_nocase [] = Eps"
| "lit_nocase (c # s) = Seq (Chars (\<lambda>d. lower_char d = lower_char c)) (lit_nocase s)"

definition opt :: "re \<Rightarrow> re" where
  "opt r = Alt r Eps"

definition some_of :: "re \<Rightarrow> re" where
  "some_of r = Seq r (Many r)"

fun times :: "nat \<Rightarrow> re \<Rightarrow> re" where
  "times 0 r = Eps"
| "times (Suc n) r = Seq r (times n r)"

fun up_to :: "nat \<Rightarrow> re \<Rightarrow> re" where
  "up_to 0 r = Eps"
| "up_to (Suc n) r = Alt (Seq r (up_to n r)) Eps"

fun seq :: "re list \<Rightarrow> re" where
  "seq [] = Eps"
| "seq [r] = r"
| "seq (r # rs) = Seq r (seq rs)"

fun alts :: "re list \<Rightarrow> re" where
  "alts [] = Chars (\<lambda>c. False)"
| "alts [r] = r"
| "alts (r # rs) = Alt r (alts rs)"

section \<open>Matching\<close>

definition at_word_edge :: "re_state \<Rightarrow> bool" where
  "at_word_edge st \<longleftrightarrow>
     (case re_prev st of None \<Rightarrow> False | Some c \<Rightarrow> is_word_char c)
     \<noteq> (case re_rest st of [] \<Rightarrow> False | c # _ \<Rightarrow> is_word_char c)"

definition capture :: "nat \<Rightarrow> re_state \<Rightarrow> re_state \<Rightarrow> re_state" where
  "capture k st st' = st'\<lparr>re_groups := (k, take (length (re_rest st) - length (re_rest st'))
     (re_rest st)) # re_groups st'\<rparr>"

function re_match :: "re \<Rightarrow> re_state \<Rightarrow> re_state list" where
  "re_match Eps st = [st]"
| "re_match (Chars p) st = (case re_rest st of [] \<Rightarrow> []
     | c # s \<Rightarrow> if p c then [st\<lparr>re_prev := Some c, re_rest := s\<rparr>] else [])"
| "re_match (Seq a b) st = concat (map (re_match b) (re_match a st))"
| "re_match (Alt a b) st = re_match a st @ re_match b st"
| "re_match (Many r) st = concat (map (re_match (Many r))
     (filter (\<lambda>st'. length (re_rest st') < length (re_rest st)) (re_match r st))) @ [st]"
| "re_match (Lazy r) st = st # concat (map (re_match (Lazy r))
     (filter (\<lambda>st'. length (re_rest st') < length (re_rest st)) (re_match r st)))"
| "re_match (Group k r) st = map (capture k st) (re_match r st)"
| "re_match Word_edge st = (if at_word_edge st then [st] else [])"
| "re_match Line_start st = (if re_prev st = None \<or> re_prev st = Some CHR 0x0A then [st] else [])"
| "re_match Line_end st = (if re_rest st = [] \<or> hd (re_rest st) = CHR 0x0A then [st] else [])"
| "re_match Text_end st = (if re_rest st = [] then [st] else [])"
| "re_match (Ahead r) st = (if re_match r st \<noteq> [] then [st] else [])"
| "re_match (Not_ahead r) st = (if re_match r st = [] then [st] else [])"
| "re_match (Not_behind p) st = (case re_prev st of None \<Rightarrow> [st]
     | Some c \<Rightarrow> if p c then [] else [st])"
| "re_match Text_start st = (if re_prev st = None then [st] else [])"
  by pat_completeness auto
termination
  by (relation "measures [\<lambda>(r, st). size r, \<lambda>(r, st). length (re_rest st)]") auto

declare re_match.simps(5,6) [simp del]

text \<open>\<^verbatim>\<open>pattern.match\<close> at a position, \<^verbatim>\<open>search\<close> and \<^verbatim>\<open>fullmatch\<close>.\<close>

definition match_at :: "re \<Rightarrow> char option \<Rightarrow> string \<Rightarrow> re_state option" where
  "match_at r prev s = (case re_match r \<lparr>re_prev = prev, re_rest = s, re_groups = []\<rparr> of
     [] \<Rightarrow> None | st # _ \<Rightarrow> Some st)"

fun search_from :: "re \<Rightarrow> char option \<Rightarrow> string \<Rightarrow> re_state option" where
  "search_from r prev s = (case match_at r prev s of Some st \<Rightarrow> Some st
     | None \<Rightarrow> (case s of [] \<Rightarrow> None | c # t \<Rightarrow> search_from r (Some c) t))"

declare search_from.simps [simp del]

definition re_search :: "re \<Rightarrow> string \<Rightarrow> re_state option" where
  "re_search r s = search_from r None s"

definition re_found :: "re \<Rightarrow> string \<Rightarrow> bool" where
  "re_found r s \<longleftrightarrow> re_search r s \<noteq> None"

definition re_fullmatch :: "re \<Rightarrow> string \<Rightarrow> re_state option" where
  "re_fullmatch r s = match_at (Seq r Text_end) None s"

definition group :: "nat \<Rightarrow> re_state \<Rightarrow> string" where
  "group k st = (case dget (re_groups st) k of None \<Rightarrow> [] | Some s \<Rightarrow> s)"

text \<open>
  \<^verbatim>\<open>pattern.sub(f, s)\<close> for a pattern that matches no empty string: each match is replaced and
  the search goes on behind it.
\<close>

function sub_from :: "re \<Rightarrow> (re_state \<Rightarrow> string) \<Rightarrow> char option \<Rightarrow> string \<Rightarrow> string" where
  "sub_from r f prev [] = []"
| "sub_from r f prev (c # s) = (case match_at r prev (c # s) of
      Some st \<Rightarrow> if length (re_rest st) < length (c # s)
                 then f st @ sub_from r f (re_prev st) (re_rest st)
                 else c # sub_from r f (Some c) s
    | None \<Rightarrow> c # sub_from r f (Some c) s)"
  by pat_completeness auto
termination by (relation "measure (\<lambda>(r, f, prev, s). length s)") auto

definition re_sub :: "re \<Rightarrow> (re_state \<Rightarrow> string) \<Rightarrow> string \<Rightarrow> string" where
  "re_sub r f s = sub_from r f None s"

text \<open>All matches, as \<^verbatim>\<open>finditer\<close> yields them, for a pattern that matches no empty string.\<close>

function matches_from :: "re \<Rightarrow> char option \<Rightarrow> string \<Rightarrow> re_state list" where
  "matches_from r prev [] = []"
| "matches_from r prev (c # s) = (case match_at r prev (c # s) of
      Some st \<Rightarrow> if length (re_rest st) < length (c # s)
                 then st # matches_from r (re_prev st) (re_rest st)
                 else matches_from r (Some c) s
    | None \<Rightarrow> matches_from r (Some c) s)"
  by pat_completeness auto
termination by (relation "measure (\<lambda>(r, prev, s). length s)") auto

definition re_finditer :: "re \<Rightarrow> string \<Rightarrow> re_state list" where
  "re_finditer r s = matches_from r None s"

section \<open>Facts\<close>

text \<open>A match consumes a prefix of the subject.\<close>

lemma re_match_suffix: "st' \<in> set (re_match r st) \<Longrightarrow> \<exists>u. re_rest st = u @ re_rest st'"
proof (induction r st arbitrary: st' rule: re_match.induct)
  case (2 p st)
  then show ?case by (cases "re_rest st") (auto split: if_splits)
next
  case (3 a b st)
  from 3(3) obtain m where m: "m \<in> set (re_match a st)" "st' \<in> set (re_match b m)" by auto
  from 3(1) [OF m(1)] 3(2) [OF m] show ?case by (metis append.assoc)
next
  case (5 r st)
  from 5(3) have "st' = st \<or> (\<exists>m \<in> set (re_match r st).
      length (re_rest m) < length (re_rest st) \<and> st' \<in> set (re_match (Many r) m))"
    by (simp add: re_match.simps(5) [of r st]) blast
  then consider "st' = st" | m where "m \<in> set (re_match r st)"
      "length (re_rest m) < length (re_rest st)" "st' \<in> set (re_match (Many r) m)"
    by blast
  then show ?case
  proof cases
    case 2
    from 2 have "\<exists>u. re_rest m = u @ re_rest st'" by (intro 5(2)) simp_all
    with 5(1) [OF 2(1)] show ?thesis by (metis append.assoc)
  qed simp
next
  case (6 r st)
  from 6(3) have "st' = st \<or> (\<exists>m \<in> set (re_match r st).
      length (re_rest m) < length (re_rest st) \<and> st' \<in> set (re_match (Lazy r) m))"
    by (simp add: re_match.simps(6) [of r st]) blast
  then consider "st' = st" | m where "m \<in> set (re_match r st)"
      "length (re_rest m) < length (re_rest st)" "st' \<in> set (re_match (Lazy r) m)"
    by blast
  then show ?case
  proof cases
    case 2
    from 2 have "\<exists>u. re_rest m = u @ re_rest st'" by (intro 6(2)) simp_all
    with 6(1) [OF 2(1)] show ?thesis by (metis append.assoc)
  qed simp
next
  case (14 p st)
  then show ?case by (cases "re_prev st") (auto split: if_splits)
qed (auto simp: capture_def split: if_splits)

end
