(* ===== verification/Json.thy ===== *)
theory Json
  imports Schemas Py_Text
begin

text \<open>
  \<^verbatim>\<open>json.dumps(value, sort_keys=True, separators=(",", ":"))\<close> on the values of
  \<^typ>\<open>pyval\<close>, with and without \<^verbatim>\<open>ensure_ascii\<close>, and \<^verbatim>\<open>repr\<close> of the scalar values:
  the text over which the components compute their digests.
\<close>

section \<open>Floating point numbers\<close>

text \<open>
  \<^verbatim>\<open>repr(x)\<close>: the shortest decimal that reads back as \<open>x\<close>, the one nearest to \<open>x\<close> among
  those of that length.
\<close>

definition decimal_candidates :: "nat \<Rightarrow> rat \<Rightarrow> (nat \<times> int) list" where
  "decimal_candidates n x = (let e = decimal_exponent x; k = int n - 1 - e;
       m = nat \<lfloor>scaled x k\<rfloor>;
       ms = filter (\<lambda>m. fl (scaled (of_nat m) (- k)) = x) [m, m + 1];
       near = (\<lambda>m. \<bar>scaled (of_nat m) (- k) - x\<bar>)
     in map (\<lambda>m. if m = 10 ^ n then (10 ^ (n - 1), e + 1) else (m, e)) (sort_key near ms))"

definition shortest_decimal :: "rat \<Rightarrow> nat \<times> int" where
  "shortest_decimal x = (case concat (map (\<lambda>n. decimal_candidates n x) [1..<18]) of
     [] \<Rightarrow> significant 17 x | c # _ \<Rightarrow> c)"

definition float_repr :: "pyfloat \<Rightarrow> string" where
  "float_repr x = (if x = 0 then ''0.0'' else
     (let (m, e) = shortest_decimal \<bar>x\<bar>; d = digits_of m in
      (if x < 0 then ''-'' else []) @
      (if e < -4 \<or> 16 \<le> e
       then with_point (take 1 d) (drop 1 d) @ exponent_str e
       else if e < 0 then ''0.'' @ replicate (nat (- e) - 1) CHR ''0'' @ strip_zeros d
       else if length d \<le> nat e + 1 then d @ replicate (nat e + 1 - length d) CHR ''0'' @ ''.0''
       else (let f = strip_zeros (drop (nat e + 1) d)
             in take (nat e + 1) d @ ''.'' @ (if f = [] then ''0'' else f)))))"

section \<open>Strings\<close>

definition hex_digit :: "nat \<Rightarrow> char" where
  "hex_digit k = (if k < 10 then char_of (48 + k) else char_of (87 + k))"

definition hex2 :: "char \<Rightarrow> string" where
  "hex2 c = (let k = of_char c :: nat in [hex_digit (k div 16), hex_digit (k mod 16)])"

definition json_char :: "bool \<Rightarrow> char \<Rightarrow> string" where
  "json_char ascii c = (let k = of_char c :: nat in
     if k = 34 then [CHR 0x5C, CHR 0x22] else if k = 92 then [CHR 0x5C, CHR 0x5C]
     else if k = 10 then [CHR 0x5C, CHR ''n''] else if k = 13 then [CHR 0x5C, CHR ''r'']
     else if k = 9 then [CHR 0x5C, CHR ''t''] else if k = 12 then [CHR 0x5C, CHR ''f'']
     else if k = 8 then [CHR 0x5C, CHR ''b'']
     else if k < 32 \<or> ascii \<and> 127 < k then CHR 0x5C # ''u00'' @ hex2 c else [c])"

definition json_str :: "bool \<Rightarrow> string \<Rightarrow> string" where
  "json_str ascii s = CHR 0x22 # concat (map (json_char ascii) s) @ [CHR 0x22]"

section \<open>Values\<close>

definition comma_join :: "string list \<Rightarrow> string" where
  "comma_join xs = join_with '','' xs"

fun json_dumps :: "bool \<Rightarrow> pyval \<Rightarrow> string" where
  "json_dumps ascii PyNone = ''null''"
| "json_dumps ascii (PyBool b) = (if b then ''true'' else ''false'')"
| "json_dumps ascii (PyInt k) = int_str k"
| "json_dumps ascii (PyFloat x) = float_repr x"
| "json_dumps ascii (PyStr s) = json_str ascii s"
| "json_dumps ascii (PyList xs) = ''['' @ comma_join (map (json_dumps ascii) xs) @ '']''"
| "json_dumps ascii (PyDict d) = ''{'' @ comma_join (map (\<lambda>(k, t). json_str ascii k @ '':'' @ t)
     (sort_key fst (map (\<lambda>(k, v). (k, json_dumps ascii v)) d))) @ ''}''"

section \<open>Representations of scalars\<close>

definition repr_char :: "char \<Rightarrow> char \<Rightarrow> string" where
  "repr_char q c = (let k = of_char c :: nat in
     if c = q \<or> k = 92 then [CHR 0x5C, c]
     else if k = 10 then [CHR 0x5C, CHR ''n''] else if k = 13 then [CHR 0x5C, CHR ''r'']
     else if k = 9 then [CHR 0x5C, CHR ''t'']
     else if k < 32 \<or> 127 \<le> k \<and> k \<le> 160 \<or> k = 173 then CHR 0x5C # ''x'' @ hex2 c else [c])"

definition str_repr :: "string \<Rightarrow> string" where
  "str_repr s = (let q = (if CHR 0x27 \<in> set s \<and> CHR 0x22 \<notin> set s then CHR 0x22 else CHR 0x27)
     in q # concat (map (repr_char q) s) @ [q])"

fun scalar_repr :: "pyval \<Rightarrow> string" where
  "scalar_repr PyNone = ''None''"
| "scalar_repr (PyBool b) = (if b then ''True'' else ''False'')"
| "scalar_repr (PyInt k) = int_str k"
| "scalar_repr (PyFloat x) = float_repr x"
| "scalar_repr (PyStr s) = str_repr s"
| "scalar_repr v = json_dumps False v"

section \<open>Equality\<close>

text \<open>
  \<^verbatim>\<open>a == b\<close> where \<open>a\<close> is a scalar: booleans and numbers compare by their numeric value.
\<close>

fun numeric_value :: "pyval \<Rightarrow> rat option" where
  "numeric_value (PyBool b) = Some (of_bool b)"
| "numeric_value (PyInt k) = Some (of_int k)"
| "numeric_value (PyFloat x) = Some x"
| "numeric_value v = None"

definition scalar_eq :: "pyval \<Rightarrow> pyval \<Rightarrow> bool" where
  "scalar_eq a b = (case (numeric_value a, numeric_value b) of
     (Some x, Some y) \<Rightarrow> x = y | (None, None) \<Rightarrow> a = b | _ \<Rightarrow> False)"

lemma scalar_eq_refl [simp]: "scalar_eq a a"
  by (simp add: scalar_eq_def split: option.splits)

end
