(* ===== verification/Fingerprints.thy ===== *)
theory Fingerprints
  imports Schemas_Evaluation Regex Json
begin

text \<open>
  \<^verbatim>\<open>src/src/tacorank/recovery/fingerprints.py\<close>: the removal of volatile details from a text
  and the digest that identifies a failure.  The digest function is \<^verbatim>\<open>hashlib.sha256\<close>,
  an argument \<open>dg\<close> of the definitions.  The five kinds of result that recovery can be asked about
  are the constructors of \<open>failed_value\<close>; the accessors below it read one attribute of a result,
  with what \<^verbatim>\<open>getattr\<close> returns when the model has no such field.
\<close>

section \<open>The patterns\<close>

abbreviation space :: re where "space \<equiv> Chars py_isspace"
abbreviation digit :: re where "digit \<equiv> Chars is_digit"

definition is_hex :: "char \<Rightarrow> bool" where
  "is_hex c \<longleftrightarrow> is_lower_hex (lower_char c)"

definition ADDRESS_RE :: re where
  "ADDRESS_RE = Seq (lit ''0x'') (some_of (Chars is_hex))"

definition LINE_NUMBER_RE :: re where
  "LINE_NUMBER_RE = Seq (Group 1 (Seq (lit_nocase ''line'') (some_of space))) (some_of digit)"

definition TIMESTAMP_RE :: re where
  "TIMESTAMP_RE = seq [Word_edge, times 4 digit, lit ''-'', times 2 digit, lit ''-'', times 2 digit,
     one_of ''T '', times 2 digit, lit '':'', times 2 digit, lit '':'', times 2 digit,
     opt (Seq (lit ''.'') (some_of digit)),
     opt (Alt (lit ''Z'') (seq [one_of ''+-'', times 2 digit, opt (lit '':''), times 2 digit])),
     Word_edge]"

definition slash :: re where
  "slash = one_of [CHR ''/'', CHR 0x5C]"

definition path_char :: re where
  "path_char = Chars (\<lambda>c. \<not> py_isspace c \<and> c \<noteq> CHR '':'' \<and> c \<noteq> CHR 0x27 \<and> c \<noteq> CHR 0x22)"

definition TEMP_PATH_RE :: re where
  "TEMP_PATH_RE = seq [
     Alt (seq [Chars is_letter, lit '':'', lit [CHR 0x5C]]) (lit ''/''),
     opt (Seq (Many path_char) slash), Alt (lit_nocase ''tmp'') (lit_nocase ''temp''), slash,
     some_of path_char]"

definition PY_FRAME_RE :: re where
  "PY_FRAME_RE = (let quote = one_of [CHR 0x22, CHR 0x27] in seq [
     lit ''File'', some_of space, quote,
     Group 1 (some_of (none_of [CHR 0x22, CHR 0x27])), quote, lit '','', some_of space, lit ''line'',
     some_of space, some_of digit, lit '','', some_of space, lit ''in'', some_of space,
     Group 2 (some_of (Chars (\<lambda>c. \<not> py_isspace c)))])"

definition EXCEPTION_RE :: re where
  "EXCEPTION_RE = seq [Line_start,
     Group 1 (seq [Chars (\<lambda>c. is_letter c \<or> c = CHR ''_''),
       Many (Chars (\<lambda>c. is_word_char c \<or> c = CHR ''.'')), Alt (lit ''Error'') (lit ''Exception'')]),
     Many space, lit '':'']"

definition VOLATILE_FIELD_RE :: re where
  "VOLATILE_FIELD_RE = (let id_suffix = Seq (opt (one_of ''_ -'')) (lit_nocase ''id'') in seq [
     Word_edge,
     Group 1 (alts [lit_nocase ''pid'', Seq (lit_nocase ''worker'') (opt id_suffix),
       lit_nocase ''port'', lit_nocase ''attempt'', Seq (lit_nocase ''request'') id_suffix,
       lit_nocase ''token'', lit_nocase ''password'',
       seq [lit_nocase ''api'', opt (one_of ''_ -''), lit_nocase ''key''], lit_nocase ''bearer'']),
     Many space, one_of ''=:'', Many space,
     some_of (Chars (\<lambda>c. \<not> py_isspace c \<and> c \<noteq> CHR '','' \<and> c \<noteq> CHR '';''))])"

section \<open>Normalization\<close>

definition normalize_text :: "string \<Rightarrow> string" where
  "normalize_text text =
     (let t1 = re_sub TIMESTAMP_RE (\<lambda>_. ''<timestamp>'') text;
          t2 = re_sub ADDRESS_RE (\<lambda>_. ''<address>'') t1;
          t3 = re_sub TEMP_PATH_RE (\<lambda>_. ''<temp-path>'') t2;
          t4 = re_sub LINE_NUMBER_RE (\<lambda>m. group 1 m @ ''<line>'') t3;
          t5 = re_sub VOLATILE_FIELD_RE (\<lambda>m. group 1 m @ ''=<volatile>'') t4
      in join_with '' '' (split_words t5))"

definition frames :: "string \<Rightarrow> string list \<Rightarrow> string list" where
  "frames text candidate_markers =
     (let markers = map py_lower candidate_markers;
          path = (\<lambda>m. replace_char CHR 0x5C ''/'' (group 1 m));
          wanted = (\<lambda>m. markers = [] \<or> list_ex (\<lambda>k. str_in k (py_lower (path m))) markers)
      in take 3 (map (\<lambda>m. last (split_on CHR ''/'' (path m)) @ '':'' @ group 2 m)
           (filter wanted (re_finditer PY_FRAME_RE text))))"

definition CANDIDATE_MARKERS :: "string list" where
  "CANDIDATE_MARKERS = [''solution/'', ''candidate'', ''src/'']"

definition opt_str :: "string option \<Rightarrow> pyval" where
  "opt_str v = (case v of None \<Rightarrow> PyNone | Some s \<Rightarrow> PyStr s)"

definition failure_payload :: "string \<Rightarrow> string \<Rightarrow> string list \<Rightarrow> pyval" where
  "failure_payload error_class text codes = PyDict
     [(''error_class'', PyStr (py_lower (if error_class = [] then ''unknown'' else error_class))),
      (''exception_type'', opt_str (map_option (group 1) (re_search EXCEPTION_RE text))),
      (''candidate_frames'', PyList (map PyStr (frames text CANDIDATE_MARKERS))),
      (''violation_codes'', PyList (map PyStr (sorted_set
         (map (\<lambda>c. py_upper (py_strip c)) (filter (\<lambda>c. c \<noteq> []) codes))))),
      (''summary'', PyStr (take 300 (normalize_text text)))]"

definition fingerprint_failure ::
  "(string \<Rightarrow> string) \<Rightarrow> string \<Rightarrow> string \<Rightarrow> string list \<Rightarrow> string" where
  "fingerprint_failure dg error_class evidence codes =
     dg (json_dumps True (failure_payload error_class evidence codes))"

section \<open>The results recovery is asked about\<close>

datatype failed_value = Failed_run run_result | Failed_adapter adapter_failure_result
  | Failed_patch patch_check_result | Failed_output output_check_result
  | Failed_evaluation evaluation_result

fun outcome_value :: "run_outcome \<Rightarrow> string" where
  "outcome_value Outcome_SUCCESS = ''success''"
| "outcome_value Outcome_CODE_ERROR = ''code_error''"
| "outcome_value Outcome_INTERFACE_ERROR = ''interface_error''"
| "outcome_value Outcome_CONTRACT_ERROR = ''contract_error''"
| "outcome_value Outcome_NUMERICAL_ERROR = ''numerical_error''"
| "outcome_value Outcome_OOM = ''oom''"
| "outcome_value Outcome_TIMEOUT = ''timeout''"
| "outcome_value Outcome_HANG = ''hang''"
| "outcome_value Outcome_INFRASTRUCTURE_ERROR = ''infrastructure_error''"
| "outcome_value Outcome_CANCELLED = ''cancelled''"

fun stage_value :: "failure_stage \<Rightarrow> string" where
  "stage_value Stage_coding = ''coding''"
| "stage_value Stage_patch_gate = ''patch_gate''"
| "stage_value Stage_execution = ''execution''"
| "stage_value Stage_output_gate = ''output_gate''"
| "stage_value Stage_evaluation = ''evaluation''"
| "stage_value Stage_recovery = ''recovery''"

fun fv_stage :: "failed_value \<Rightarrow> string" where
  "fv_stage (Failed_adapter r) = stage_value (af_failure_stage r)"
| "fv_stage _ = []"

fun fv_outcome :: "failed_value \<Rightarrow> run_outcome option" where
  "fv_outcome (Failed_run r) = Some (rr_outcome r)"
| "fv_outcome (Failed_adapter r) = Some (af_outcome r)"
| "fv_outcome _ = None"

fun fv_error_class :: "failed_value \<Rightarrow> string option" where
  "fv_error_class (Failed_run r) = rr_error_class r"
| "fv_error_class (Failed_adapter r) = Some (af_error_class r)"
| "fv_error_class _ = None"

fun fv_error_summary :: "failed_value \<Rightarrow> string option" where
  "fv_error_summary (Failed_run r) = rr_error_summary r"
| "fv_error_summary (Failed_adapter r) = Some (af_error_summary r)"
| "fv_error_summary _ = None"

fun fv_violations :: "failed_value \<Rightarrow> violation list" where
  "fv_violations (Failed_patch r) = pk_violations r"
| "fv_violations (Failed_output r) = oc_violations r"
| "fv_violations _ = []"

fun fv_failed_checks :: "failed_value \<Rightarrow> string list" where
  "fv_failed_checks (Failed_patch r) =
     map ck_name (filter (\<lambda>c. ck_status c = Check_FAIL) (pk_checks r))"
| "fv_failed_checks (Failed_output r) =
     map fst (filter (\<lambda>(name, status). status = Check_FAIL) (oc_checks r))"
| "fv_failed_checks _ = []"

definition or_else :: "string option \<Rightarrow> string \<Rightarrow> string" where
  "or_else s d = (if truthy_str s then the s else d)"

text \<open>\<^verbatim>\<open>error_class or outcome or "gate_failure"\<close>, and the value of the outcome's enumeration.\<close>

definition fingerprint_error_class :: "failed_value \<Rightarrow> string" where
  "fingerprint_error_class v = or_else (fv_error_class v)
     (case fv_outcome v of None \<Rightarrow> ''gate_failure'' | Some x \<Rightarrow> outcome_value x)"

definition fingerprint_result :: "(string \<Rightarrow> string) \<Rightarrow> failed_value \<Rightarrow> string" where
  "fingerprint_result dg v = fingerprint_failure dg (fingerprint_error_class v)
     (or_else (fv_error_summary v) (join_with '' '' (map vi_message (fv_violations v))))
     (map vi_code (fv_violations v) @ fv_failed_checks v)"

end
