(* ===== verification/Violation_Codes.thy ===== *)
theory Violation_Codes
  imports Py_Text
begin

text \<open>
  The machine-readable violation codes of \<^verbatim>\<open>src/src/tacorank/safety/path_policy.py\<close> and the two
  sets of integrity codes that the gates and the recovery classifier share.
\<close>

datatype violation_code = V_PROTECTED_PATH_MODIFIED | V_PATH_TRAVERSAL | V_SYMLINK_ESCAPE
  | V_SUBMODULE_ESCAPE | V_DIFF_PARSE_FAILURE | V_DIFF_MISMATCH | V_UNAPPROVED_TARGET_FILE
  | V_CONTRACT_HASH_MISMATCH | V_INTERFACE_MISMATCH | V_HIDDEN_LABEL_ACCESS
  | V_FUTURE_INFORMATION_LEAKAGE | V_UNAPPROVED_COMMAND | V_UNAPPROVED_NETWORK
  | V_SECRET_DETECTED | V_DEPENDENCY_CHANGE | V_SYNTAX_IMPORT_FAILURE | V_SMOKE_FAILURE
  | V_OUTPUT_HEADER_MISMATCH | V_OUTPUT_TYPE_MISMATCH | V_OUTPUT_ROW_COUNT_MISMATCH
  | V_OUTPUT_ROW_ID_MISMATCH | V_OUTPUT_IDENTITY_MISMATCH | V_OUTPUT_NONFINITE_SCORE
  | V_OUTPUT_DEGENERATE_SCORES | V_OUTPUT_ARTIFACT_MISMATCH | V_OUTPUT_PRODUCER_MISMATCH
  | V_OUTPUT_PROTECTED_DATA

fun code_value :: "violation_code \<Rightarrow> string" where
  "code_value V_PROTECTED_PATH_MODIFIED = ''PROTECTED_PATH_MODIFIED''"
| "code_value V_PATH_TRAVERSAL = ''PATH_TRAVERSAL''"
| "code_value V_SYMLINK_ESCAPE = ''SYMLINK_ESCAPE''"
| "code_value V_SUBMODULE_ESCAPE = ''SUBMODULE_ESCAPE''"
| "code_value V_DIFF_PARSE_FAILURE = ''DIFF_PARSE_FAILURE''"
| "code_value V_DIFF_MISMATCH = ''DIFF_MISMATCH''"
| "code_value V_UNAPPROVED_TARGET_FILE = ''UNAPPROVED_TARGET_FILE''"
| "code_value V_CONTRACT_HASH_MISMATCH = ''CONTRACT_HASH_MISMATCH''"
| "code_value V_INTERFACE_MISMATCH = ''INTERFACE_MISMATCH''"
| "code_value V_HIDDEN_LABEL_ACCESS = ''HIDDEN_LABEL_ACCESS''"
| "code_value V_FUTURE_INFORMATION_LEAKAGE = ''FUTURE_INFORMATION_LEAKAGE''"
| "code_value V_UNAPPROVED_COMMAND = ''UNAPPROVED_COMMAND''"
| "code_value V_UNAPPROVED_NETWORK = ''UNAPPROVED_NETWORK''"
| "code_value V_SECRET_DETECTED = ''SECRET_DETECTED''"
| "code_value V_DEPENDENCY_CHANGE = ''DEPENDENCY_CHANGE''"
| "code_value V_SYNTAX_IMPORT_FAILURE = ''SYNTAX_IMPORT_FAILURE''"
| "code_value V_SMOKE_FAILURE = ''SMOKE_FAILURE''"
| "code_value V_OUTPUT_HEADER_MISMATCH = ''OUTPUT_HEADER_MISMATCH''"
| "code_value V_OUTPUT_TYPE_MISMATCH = ''OUTPUT_TYPE_MISMATCH''"
| "code_value V_OUTPUT_ROW_COUNT_MISMATCH = ''OUTPUT_ROW_COUNT_MISMATCH''"
| "code_value V_OUTPUT_ROW_ID_MISMATCH = ''OUTPUT_ROW_ID_MISMATCH''"
| "code_value V_OUTPUT_IDENTITY_MISMATCH = ''OUTPUT_IDENTITY_MISMATCH''"
| "code_value V_OUTPUT_NONFINITE_SCORE = ''OUTPUT_NONFINITE_SCORE''"
| "code_value V_OUTPUT_DEGENERATE_SCORES = ''OUTPUT_DEGENERATE_SCORES''"
| "code_value V_OUTPUT_ARTIFACT_MISMATCH = ''OUTPUT_ARTIFACT_MISMATCH''"
| "code_value V_OUTPUT_PRODUCER_MISMATCH = ''OUTPUT_PRODUCER_MISMATCH''"
| "code_value V_OUTPUT_PROTECTED_DATA = ''OUTPUT_PROTECTED_DATA''"

definition CANDIDATE_SCOPED_INTEGRITY_CODES :: "string list" where
  "CANDIDATE_SCOPED_INTEGRITY_CODES = map code_value
     [V_PROTECTED_PATH_MODIFIED, V_PATH_TRAVERSAL, V_SYMLINK_ESCAPE, V_SUBMODULE_ESCAPE,
      V_HIDDEN_LABEL_ACCESS, V_FUTURE_INFORMATION_LEAKAGE, V_UNAPPROVED_NETWORK,
      V_OUTPUT_PROTECTED_DATA]
   @ [''FORBIDDEN_INPUT_DETECTED'', ''NETWORK_ACCESS'', ''TARGET_LABEL_ACCESS'',
      ''UNAUTHORIZED_NETWORK_ACCESS'']"

definition DELIBERATE_INTEGRITY_CODES :: "string list" where
  "DELIBERATE_INTEGRITY_CODES = map code_value
     [V_PROTECTED_PATH_MODIFIED, V_PATH_TRAVERSAL, V_SYMLINK_ESCAPE, V_SUBMODULE_ESCAPE,
      V_HIDDEN_LABEL_ACCESS, V_FUTURE_INFORMATION_LEAKAGE, V_UNAPPROVED_NETWORK,
      V_SECRET_DETECTED, V_OUTPUT_PROTECTED_DATA]
   @ [''FORBIDDEN_INPUT_DETECTED'', ''NETWORK_ACCESS'', ''TARGET_LABEL_ACCESS'',
      ''UNAUTHORIZED_NETWORK_ACCESS'']"

text \<open>Every candidate-scoped code is a deliberate one; only the secret finding is left out.\<close>

lemma candidate_codes_deliberate:
  "set DELIBERATE_INTEGRITY_CODES = insert ''SECRET_DETECTED'' (set CANDIDATE_SCOPED_INTEGRITY_CODES)"
  by (auto simp: DELIBERATE_INTEGRITY_CODES_def CANDIDATE_SCOPED_INTEGRITY_CODES_def)

end
