(* ===== verification/Recovery_Classifier.thy ===== *)
theory Recovery_Classifier
  imports Fingerprints Violation_Codes
begin

text \<open>
  \<^verbatim>\<open>src/src/tacorank/recovery/classifier.py\<close>: \<^verbatim>\<open>classify_failure(result)\<close>.  The function of
  the source assigns its local variables in several passes; each pass is one definition on the
  record \<open>assessment\<close> of these variables, and \<open>classify_failure\<close> composes them in order.
\<close>

section \<open>Code sets\<close>

definition TRANSIENT_CODING_ERROR_CODES :: "string list" where
  "TRANSIENT_CODING_ERROR_CODES = [''TRAE_LAUNCH_FAILED'', ''TRAE_TIMEOUT'',
     ''TRAE_DOCKER_UNAVAILABLE'', ''TRAE_PROVIDER_TIMEOUT'', ''TRAE_PROVIDER_UNAVAILABLE'']"

definition VERIFIER_PROTOCOL_ERROR_CODES :: "string list" where
  "VERIFIER_PROTOCOL_ERROR_CODES = [''SOLUTION_VERIFIER_MALFORMED'']"

definition TRANSIENT_PROVIDER_ERROR_CODES :: "string list" where
  "TRANSIENT_PROVIDER_ERROR_CODES = [''TRAE_PROVIDER_TIMEOUT'', ''TRAE_PROVIDER_UNAVAILABLE'',
     ''PROVIDER_TIMEOUT'', ''PROVIDER_UNAVAILABLE'', ''EVALUATOR_PROVIDER_TIMEOUT'',
     ''EVALUATOR_PROVIDER_UNAVAILABLE'']"

definition CORRECTABLE_CODING_AGENT_ERROR_CODES :: "string list" where
  "CORRECTABLE_CODING_AGENT_ERROR_CODES = [''NO_PATCH'', ''SOLUTION_REVISION_NO_CHANGE'',
     ''TRAE_PROCESS_FAILED'', ''TRAE_REPORTED_FAILURE'', ''TRAJECTORY_ENCODING'',
     ''TRAJECTORY_MALFORMED'', ''TRAJECTORY_MISSING'']"

definition CONTROL_PLANE_INVARIANT_CODES :: "string list" where
  "CONTROL_PLANE_INVARIANT_CODES = [''CONTRACT_HASH_MISMATCH'', ''DIFF_MISMATCH'',
     ''OUTPUT_ARTIFACT_MISMATCH'', ''OUTPUT_IDENTITY_MISMATCH'', ''OUTPUT_PRODUCER_MISMATCH'',
     ''PATCH_RECEIPT_MISMATCH'', ''EXECUTION_SEAL_MISMATCH'']"

definition DISK_QUOTA_ERROR_CODES :: "string list" where
  "DISK_QUOTA_ERROR_CODES = [''DISK_QUOTA_EXHAUSTED'', ''DISK_SPACE_EXHAUSTED'', ''DISK_LOW'',
     ''OBSERVED_DISK_FREE_FLOOR'', ''OUTPUT_QUOTA_EXCEEDED'', ''ENOSPC'']"

definition EVIDENCE_LIMIT :: nat where
  "EVIDENCE_LIMIT = 800"

record failure_classification =
  fc_failure_class :: string
  fc_reason_code :: string
  fc_fingerprint :: string
  fc_evidence :: string
  fc_deliberate_integrity_violation :: bool
  fc_made_progress :: bool
  fc_transient_coding_failure :: bool
  fc_disk_quota_failure :: bool
  fc_owner :: string
  fc_owner_retryable :: bool
  fc_trae_repairable :: bool
  fc_control_plane_failure :: bool
  fc_candidate_integrity_violation :: bool

section \<open>Evidence\<close>

definition violation_text :: "failed_value \<Rightarrow> string" where
  "violation_text v = join_with '' '' (map (\<lambda>x. vi_code x @ '' '' @ vi_message x) (fv_violations v))"

definition violation_codes :: "failed_value \<Rightarrow> string list" where
  "violation_codes v = map (\<lambda>x. py_upper (py_strip (vi_code x)))
     (filter (\<lambda>x. vi_code x \<noteq> []) (fv_violations v))"

definition bounded_evidence :: "string \<Rightarrow> string" where
  "bounded_evidence value =
     (let normalized = normalize_text value; separator = '' ... '';
          tail = EVIDENCE_LIMIT - 300 - length separator
      in if length normalized \<le> EVIDENCE_LIMIT then normalized
         else take 300 normalized @ separator @ drop (length normalized - tail) normalized)"

text \<open>
  \<^verbatim>\<open>PredictionChange\<close> has no field \<^verbatim>\<open>within_user_rank_change\<close>, the first of the three names the
  code asks for; a bare number has none of them.
\<close>

fun prediction_change_parts :: "change_value \<Rightarrow> string list" where
  "prediction_change_parts (Scalar_change x) = []"
| "prediction_change_parts (Recorded_change c) =
     [''changed_row_fraction='' @ format_g6 (ch_changed_row_fraction c),
      ''spearman_vs_parent='' @ format_g6 (ch_spearman_vs_parent c)]"

definition prediction_change_evidence :: "change_value \<Rightarrow> string" where
  "prediction_change_evidence change = (case prediction_change_parts change of [] \<Rightarrow> []
     | parts \<Rightarrow> ''measured distance from parent: '' @ join_with '', '' parts
         @ ''; only within-user ordering is scored, so the residual must reorder ''
         @ ''items inside a user's list, not merely shift every score'')"

definition any_in :: "string list \<Rightarrow> string \<Rightarrow> bool" where
  "any_in tokens text \<longleftrightarrow> list_ex (\<lambda>t. str_in t text) tokens"

definition DELIBERATE_MARKERS :: "string list" where
  "DELIBERATE_MARKERS = [''hidden label'', ''target label'', ''secret'', ''credential'', ''exfiltrat'',
     ''unauthorized network'', ''unapproved network'']"

definition DISK_MARKERS :: "string list" where
  "DISK_MARKERS = [''no space left'', ''disk quota'', ''storage is full'', ''disk free floor'', ''enospc'']"

section \<open>The local variables\<close>

record assessment =
  as_class :: string
  as_reason :: string
  as_owner :: string
  as_retryable :: bool
  as_repairable :: bool
  as_control_plane :: bool

fun stage_owner :: "failed_value \<Rightarrow> string" where
  "stage_owner (Failed_adapter r) = (case af_failure_stage r of
     Stage_coding \<Rightarrow> ''coding_worker'' | Stage_patch_gate \<Rightarrow> ''patch_gate''
   | Stage_execution \<Rightarrow> ''execution_runner'' | Stage_output_gate \<Rightarrow> ''output_gate''
   | Stage_evaluation \<Rightarrow> ''evaluator'' | Stage_recovery \<Rightarrow> ''recovery_control_plane'')"
| "stage_owner _ = ''coding_worker''"

text \<open>\<^verbatim>\<open>str(getattr(result, "error_class", "")).strip().upper()\<close>; \<^verbatim>\<open>None\<close> prints as its name.\<close>

fun error_code_of :: "failed_value \<Rightarrow> string" where
  "error_code_of (Failed_run r) = (case rr_error_class r of None \<Rightarrow> ''NONE''
     | Some c \<Rightarrow> py_upper (py_strip c))"
| "error_code_of (Failed_adapter r) = py_upper (py_strip (af_error_class r))"
| "error_code_of _ = []"

definition DEFECT_CLASSES :: "string list" where
  "DEFECT_CLASSES = [''code_error'', ''interface_error'', ''contract_error'', ''numerical_error'']"

fun outcome_reason :: "run_outcome \<Rightarrow> string" where
  "outcome_reason Outcome_CODE_ERROR = ''CODE_ERROR''"
| "outcome_reason Outcome_INTERFACE_ERROR = ''INTERFACE_ERROR''"
| "outcome_reason Outcome_CONTRACT_ERROR = ''CONTRACT_ERROR''"
| "outcome_reason Outcome_NUMERICAL_ERROR = ''NUMERICAL_ERROR''"
| "outcome_reason Outcome_OOM = ''OUT_OF_MEMORY''"
| "outcome_reason Outcome_TIMEOUT = ''EXECUTION_TIMEOUT''"
| "outcome_reason Outcome_HANG = ''EXECUTION_HANG''"
| "outcome_reason Outcome_INFRASTRUCTURE_ERROR = ''INFRASTRUCTURE_ERROR''"
| "outcome_reason _ = ''CODE_ERROR''"

text \<open>The branch on a trust assessment.\<close>

definition assess_evaluation :: "evaluation_result \<Rightarrow> (assessment \<times> string) res" where
  "assess_evaluation r =
     guarded (ValueError ''only an evaluation verdict of no_op is a recovery input'')
       (ta_verdict (ev_trust r) = Verdict_NO_OP)
     (Inr (\<lparr>as_class = ''no_op'', as_reason = ''NO_OP_WIRING'', as_owner = ''coding_worker'',
            as_retryable = False, as_repairable = True, as_control_plane = False\<rparr>,
        py_strip (join_with '' ''
          [let flags = join_with '' '' (ta_flags (ev_trust r))
           in if flags = [] then ''verified prediction no-op'' else flags,
           prediction_change_evidence (ev_prediction_change r)])))"

text \<open>The branch on an outcome, for a run result and for an adapter failure.\<close>

definition none_str :: "string option \<Rightarrow> string" where
  "none_str s = (case s of None \<Rightarrow> ''None'' | Some t \<Rightarrow> t)"

definition assess_outcome :: "failed_value \<Rightarrow> run_outcome \<Rightarrow> (assessment \<times> string) res" where
  "assess_outcome v x =
     guarded (ValueError (outcome_value x @ '' execution is not a recovery input''))
       (x \<noteq> Outcome_SUCCESS \<and> x \<noteq> Outcome_CANCELLED)
     (let stage = fv_stage v; coding = (stage = ''coding'');
          failure_class = (if coding then ''code_error'' else outcome_value x) in
      Inr (\<lparr>as_class = failure_class,
            as_reason = if coding then ''CODING_WORKER_FAILURE'' else outcome_reason x,
            as_owner = if stage = [] then ''execution_runner'' else stage_owner v,
            as_retryable = False,
            as_repairable = stage = [] \<and> failure_class \<in> set DEFECT_CLASSES,
            as_control_plane = stage = ''recovery''\<rparr>,
        or_else (fv_error_summary v) (none_str (fv_error_class v))))"

text \<open>The branch on a gate result.\<close>

definition assess_gate :: "failed_value \<Rightarrow> bool \<Rightarrow> (assessment \<times> string) res" where
  "assess_gate v accepted =
     guarded (ValueError ''accepted gate/output result is not a recovery input'') (\<not> accepted)
     (let combined = py_strip (join_with '' '' (fv_failed_checks v @ [violation_text v]));
          integrity = any_in [''hidden'', ''secret'', ''credential'', ''network'', ''target label'']
                        (py_lower combined);
          output = (case v of Failed_output _ \<Rightarrow> True | _ \<Rightarrow> False) in
      Inr (\<lparr>as_class = if integrity then ''contract_error''
              else if output then ''output_contract'' else ''contract_error'',
            as_reason = if integrity then ''INTEGRITY_VIOLATION''
              else if output then ''OUTPUT_CONTRACT_ERROR'' else ''PATCH_CONTRACT_ERROR'',
            as_owner = ''coding_worker'', as_retryable = False, as_repairable = True,
            as_control_plane = False\<rparr>, combined))"

fun assess :: "failed_value \<Rightarrow> (assessment \<times> string) res" where
  "assess (Failed_evaluation r) = assess_evaluation r"
| "assess (Failed_run r) = assess_outcome (Failed_run r) (rr_outcome r)"
| "assess (Failed_adapter r) = assess_outcome (Failed_adapter r) (af_outcome r)"
| "assess (Failed_patch r) = assess_gate (Failed_patch r) (pk_accepted r)"
| "assess (Failed_output r) = assess_gate (Failed_output r) (oc_accepted r)"

section \<open>Flags of the evidence\<close>

definition integrity_codes :: "failed_value \<Rightarrow> string list" where
  "integrity_codes v = violation_codes v @ (if error_code_of v = [] then [] else [error_code_of v])"

definition candidate_integrity :: "failed_value \<Rightarrow> bool" where
  "candidate_integrity v \<longleftrightarrow>
     list_ex (\<lambda>c. c \<in> set CANDIDATE_SCOPED_INTEGRITY_CODES) (integrity_codes v)"

definition deliberate_integrity :: "failed_value \<Rightarrow> string \<Rightarrow> bool" where
  "deliberate_integrity v lower_evidence \<longleftrightarrow>
     list_ex (\<lambda>c. c \<in> set DELIBERATE_INTEGRITY_CODES) (integrity_codes v)
     \<or> any_in DELIBERATE_MARKERS lower_evidence"

definition transient_coding :: "failed_value \<Rightarrow> bool" where
  "transient_coding v \<longleftrightarrow> fv_stage v = ''coding''
     \<and> error_code_of v \<in> set TRANSIENT_CODING_ERROR_CODES"

definition disk_quota :: "failed_value \<Rightarrow> string \<Rightarrow> bool" where
  "disk_quota v lower_evidence \<longleftrightarrow> error_code_of v \<in> set DISK_QUOTA_ERROR_CODES
     \<or> any_in DISK_MARKERS lower_evidence"

definition invariant_failure :: "failed_value \<Rightarrow> bool" where
  "invariant_failure v \<longleftrightarrow>
     list_ex (\<lambda>c. c \<in> set CONTROL_PLANE_INVARIANT_CODES) (violation_codes v)"

section \<open>The passes\<close>

definition verifier_exhausted :: "assessment \<Rightarrow> assessment" where
  "verifier_exhausted a = a\<lparr>as_owner := ''solution_verifier'', as_retryable := False,
     as_class := ''infrastructure_error'', as_reason := ''SOLUTION_VERIFIER_RETRY_EXHAUSTED''\<rparr>"

definition assign_retry :: "failed_value \<Rightarrow> string \<Rightarrow> assessment \<Rightarrow> assessment" where
  "assign_retry v lower_evidence a =
     (if error_code_of v \<in> set VERIFIER_PROTOCOL_ERROR_CODES
      then (verifier_exhausted a)\<lparr>as_repairable := False\<rparr>
      else if error_code_of v \<in> set TRANSIENT_PROVIDER_ERROR_CODES
      then (if str_in ''solution verifier'' lower_evidence then verifier_exhausted a
            else a\<lparr>as_retryable := True\<rparr>)\<lparr>as_repairable := False\<rparr>
      else if transient_coding v
              \<or> fv_stage v = ''coding''
                \<and> error_code_of v \<in> set CORRECTABLE_CODING_AGENT_ERROR_CODES
      then a\<lparr>as_retryable := True, as_repairable := False\<rparr>
      else a)"

definition mark_disk :: "failed_value \<Rightarrow> bool \<Rightarrow> assessment \<Rightarrow> assessment" where
  "mark_disk v disk a = (if disk \<and> fv_stage v \<noteq> ''coding''
     then a\<lparr>as_class := ''infrastructure_error'', as_reason := ''DISK_QUOTA_EXHAUSTED''\<rparr> else a)"

definition mark_invariant :: "failed_value \<Rightarrow> assessment \<Rightarrow> assessment" where
  "mark_invariant v a = (if invariant_failure v
     then a\<lparr>as_owner := ''recovery_control_plane'', as_retryable := False, as_repairable := False,
            as_control_plane := True\<rparr> else a)"

definition assign_owner :: "failed_value \<Rightarrow> bool \<Rightarrow> bool \<Rightarrow> assessment \<Rightarrow> assessment" where
  "assign_owner v deliberate disk a =
     (if deliberate \<and> \<not> candidate_integrity v
      then a\<lparr>as_owner := ''operator'', as_retryable := False, as_repairable := False\<rparr>
      else if candidate_integrity v
      then a\<lparr>as_owner := ''coding_worker'', as_retryable := False, as_repairable := False\<rparr>
      else if disk
      then a\<lparr>as_owner := ''operator'', as_retryable := False, as_repairable := False\<rparr>
      else if as_class a \<in> {''infrastructure_error'', ''hang'', ''timeout''} \<and> fv_stage v = ''execution''
      then a\<lparr>as_owner := ''execution_runner'', as_retryable := True\<rparr>
      else if fv_stage v \<noteq> [] \<and> fv_stage v \<noteq> ''coding'' \<and> as_class a \<in> set DEFECT_CLASSES
      then a\<lparr>as_repairable := False\<rparr>
      else a)"

definition mark_control_plane :: "failed_value \<Rightarrow> assessment \<Rightarrow> assessment" where
  "mark_control_plane v a =
     (if fv_stage v \<in> {''patch_gate'', ''output_gate'', ''evaluation''} \<and> \<not> as_retryable a
      then a\<lparr>as_control_plane := True, as_repairable := False\<rparr> else a)"

definition classify_failure ::
  "(string \<Rightarrow> string) \<Rightarrow> failed_value \<Rightarrow> failure_classification res" where
  "classify_failure dg v = bind_res (assess v) (\<lambda>(a0, evidence). Inr
     (let lower_evidence = py_lower evidence;
          deliberate = deliberate_integrity v lower_evidence;
          disk = disk_quota v lower_evidence;
          a = mark_control_plane v (assign_owner v deliberate disk (mark_invariant v
                (mark_disk v disk (assign_retry v lower_evidence a0))))
      in \<lparr>fc_failure_class = as_class a, fc_reason_code = as_reason a,
          fc_fingerprint = fingerprint_result dg v, fc_evidence = bounded_evidence evidence,
          fc_deliberate_integrity_violation = deliberate,
          fc_made_progress = any_in [''progress'', ''checkpoint'', ''epoch'', ''step ''] lower_evidence,
          fc_transient_coding_failure = transient_coding v, fc_disk_quota_failure = disk,
          fc_owner = as_owner a, fc_owner_retryable = as_retryable a,
          fc_trae_repairable = as_repairable a, fc_control_plane_failure = as_control_plane a,
          fc_candidate_integrity_violation = candidate_integrity v\<rparr>))"

section \<open>Facts\<close>

lemma bounded_evidence_length: "length (bounded_evidence s) \<le> EVIDENCE_LIMIT"
  by (simp add: bounded_evidence_def EVIDENCE_LIMIT_def Let_def)

text \<open>
  The results that the classifier takes.  The validator's \<^verbatim>\<open>_latest_recoverable_failure\<close> also
  admits a cancelled run, which the classifier refuses.
\<close>

fun recoverable_value :: "failed_value \<Rightarrow> bool" where
  "recoverable_value (Failed_run r) = (rr_outcome r \<notin> {Outcome_SUCCESS, Outcome_CANCELLED})"
| "recoverable_value (Failed_adapter r) = (af_outcome r \<notin> {Outcome_SUCCESS, Outcome_CANCELLED})"
| "recoverable_value (Failed_patch r) = (\<not> pk_accepted r)"
| "recoverable_value (Failed_output r) = (\<not> oc_accepted r)"
| "recoverable_value (Failed_evaluation r) = (ta_verdict (ev_trust r) = Verdict_NO_OP)"

lemma assess_returns: "(\<exists>x. assess v = Inr x) \<longleftrightarrow> recoverable_value v"
  by (cases v) (auto simp: assess_evaluation_def assess_outcome_def assess_gate_def raise_simps Let_def)

lemma classify_returns: "(\<exists>c. classify_failure dg v = Inr c) \<longleftrightarrow> recoverable_value v"
proof -
  have "(\<exists>c. classify_failure dg v = Inr c) \<longleftrightarrow> (\<exists>x. assess v = Inr x)"
    by (auto simp: classify_failure_def raise_simps)
  then show ?thesis by (simp only: assess_returns)
qed

lemma classify_fields:
  assumes "classify_failure dg v = Inr c"
  shows "fc_fingerprint c = fingerprint_result dg v \<and> length (fc_evidence c) \<le> EVIDENCE_LIMIT
     \<and> fc_candidate_integrity_violation c = candidate_integrity v"
  using assms by (auto simp: classify_failure_def raise_simps Let_def bounded_evidence_length)

lemmas pass_defs = assign_retry_def verifier_exhausted_def mark_disk_def mark_invariant_def
  assign_owner_def mark_control_plane_def

text \<open>
  A failure of a candidate's integrity, of the control plane or of storage is never offered to
  the coding worker as an edit of the same candidate, and what an owner may retry is not repaired.
\<close>

lemma classify_not_repairable:
  assumes "classify_failure dg v = Inr c" and "fc_trae_repairable c"
  shows "\<not> fc_deliberate_integrity_violation c \<and> \<not> fc_candidate_integrity_violation c
     \<and> \<not> fc_disk_quota_failure c \<and> \<not> fc_control_plane_failure c \<and> fv_stage v = []"
proof -
  from assms(1) obtain a0 evidence where a0: "assess v = Inr (a0, evidence)"
    by (auto simp: classify_failure_def raise_simps)
  let ?l = "py_lower evidence"
  let ?a1 = "assign_retry v ?l a0"
  let ?a2 = "mark_disk v (disk_quota v ?l) ?a1"
  let ?a3 = "mark_invariant v ?a2"
  let ?a4 = "assign_owner v (deliberate_integrity v ?l) (disk_quota v ?l) ?a3"
  let ?a5 = "mark_control_plane v ?a4"
  from assms(1) a0 have c: "fc_trae_repairable c = as_repairable ?a5"
      "fc_deliberate_integrity_violation c = deliberate_integrity v ?l"
      "fc_candidate_integrity_violation c = candidate_integrity v"
      "fc_disk_quota_failure c = disk_quota v ?l" "fc_control_plane_failure c = as_control_plane ?a5"
    by (auto simp: classify_failure_def Let_def)
  from assms(2) c(1) have r5: "as_repairable ?a5" by simp
  then have r4: "as_repairable ?a4 \<and> as_control_plane ?a5 = as_control_plane ?a4"
    by (auto simp: mark_control_plane_def split: if_splits)
  then have r3: "\<not> candidate_integrity v \<and> \<not> deliberate_integrity v ?l \<and> \<not> disk_quota v ?l
      \<and> as_repairable ?a3 \<and> as_control_plane ?a4 = as_control_plane ?a3"
    by (auto simp: assign_owner_def split: if_splits)
  then have r2: "as_repairable ?a2 \<and> as_control_plane ?a3 = as_control_plane ?a2"
    by (auto simp: mark_invariant_def split: if_splits)
  then have r1: "as_repairable ?a1 \<and> as_control_plane ?a2 = as_control_plane ?a1"
    by (auto simp: mark_disk_def split: if_splits)
  then have "as_repairable a0 \<and> as_control_plane ?a1 = as_control_plane a0"
    by (auto simp: assign_retry_def split: if_splits)
  moreover have "as_repairable a0 \<Longrightarrow> fv_stage v = [] \<and> \<not> as_control_plane a0"
    using a0 by (cases v)
      (auto simp: assess_evaluation_def assess_outcome_def assess_gate_def raise_simps Let_def)
  ultimately show ?thesis using c r1 r2 r3 r4 by auto
qed

lemma candidate_is_deliberate: "candidate_integrity v \<Longrightarrow> deliberate_integrity v e"
  by (auto simp: candidate_integrity_def deliberate_integrity_def candidate_codes_deliberate list_ex_iff)

lemma classify_deliberate:
  assumes "classify_failure sha v = Inr f" and "c \<in> set (violation_codes v)"
    and "c \<in> set DELIBERATE_INTEGRITY_CODES"
  shows "fc_deliberate_integrity_violation f"
proof -
  have "deliberate_integrity v l" for l
    using assms(2,3) by (auto simp: deliberate_integrity_def integrity_codes_def list_ex_iff)
  with assms(1) show ?thesis by (auto simp: classify_failure_def raise_simps Let_def)
qed

lemma assign_owner_control [simp]: "as_control_plane (assign_owner v a b x) = as_control_plane x"
  by (simp add: assign_owner_def)

lemma classify_invariant:
  assumes "classify_failure sha v = Inr f" and "invariant_failure v"
  shows "fc_control_plane_failure f"
  using assms by (auto simp: classify_failure_def raise_simps Let_def mark_control_plane_def mark_invariant_def)

end
