(* ===== verification/Runtime_Adjustments.thy ===== *)
theory Runtime_Adjustments
  imports Schemas_Context Json
begin

text \<open>
  \<^verbatim>\<open>src/src/tacorank/recovery/runtime_adjustments.py\<close>: the choice of one named, allow-listed
  runtime setting.  The context's \<^verbatim>\<open>allowed_runtime_adjustments\<close> is always a mapping
  (\<^typ>\<open>recovery_policy_context\<close>), so the branches for other containers are not reached.
\<close>

definition APPROVED_ADJUSTMENTS :: "string list" where
  "APPROVED_ADJUSTMENTS = [''batch_size'', ''num_workers'', ''mixed_precision'', ''timeout_profile'']"

record runtime_adjustment =
  ra_name :: string
  ra_value :: pyval

definition adjustment_instruction :: "runtime_adjustment \<Rightarrow> string" where
  "adjustment_instruction a = ''Apply approved runtime adjustment '' @ ra_name a @ ''=''
     @ scalar_repr (ra_value a) @ ''; do not alter command text.''"

fun next_value :: "pyval \<Rightarrow> pyval" where
  "next_value (PyDict d) = (case dget d ''next_value'' of Some v \<Rightarrow> v
     | None \<Rightarrow> (case dget d ''value'' of Some v \<Rightarrow> v | None \<Rightarrow> PyNone))"
| "next_value (PyList xs) = (case xs of [] \<Rightarrow> PyNone | x # _ \<Rightarrow> x)"
| "next_value v = v"

definition valid_value :: "string \<Rightarrow> pyval \<Rightarrow> bool" where
  "valid_value name v =
     (if v = PyNone then False
      else if name = ''batch_size'' then (case v of PyInt k \<Rightarrow> 0 < k | _ \<Rightarrow> False)
      else if name = ''num_workers'' then (case v of PyInt k \<Rightarrow> 0 \<le> k | _ \<Rightarrow> False)
      else if name = ''mixed_precision'' then (case v of PyBool _ \<Rightarrow> True | _ \<Rightarrow> False)
      else if name = ''timeout_profile'' then (case v of PyStr s \<Rightarrow> py_strip s \<noteq> [] | _ \<Rightarrow> False)
      else False)"

definition adjustment_preference :: "string \<Rightarrow> string list" where
  "adjustment_preference failure_class =
     (if failure_class = ''oom'' then [''batch_size'', ''num_workers'', ''mixed_precision'']
      else if failure_class = ''numerical_error'' then [''mixed_precision'']
      else if failure_class = ''timeout'' then [''timeout_profile'']
      else [])"

definition get_value :: "(string, pyval) dict \<Rightarrow> string \<Rightarrow> pyval" where
  "get_value d k = (case dget d k of None \<Rightarrow> PyNone | Some v \<Rightarrow> v)"

text \<open>
  \<^verbatim>\<open>item.get("action") == ... and item.get("runtime_adjustments", {}).get(name) == value\<close>;
  a value that is not a mapping has no \<^verbatim>\<open>get\<close>.
\<close>

definition already_adjusted :: "string \<Rightarrow> pyval \<Rightarrow> (string, pyval) dict \<Rightarrow> bool res" where
  "already_adjusted name v item =
     (if get_value item ''action'' \<noteq> PyStr ''adjust_approved_runtime_setting'' then Inr False
      else (case dget item ''runtime_adjustments'' of None \<Rightarrow> Inr (scalar_eq v PyNone)
        | Some (PyDict d) \<Rightarrow> Inr (scalar_eq v (get_value d name))
        | Some _ \<Rightarrow> Inl AttributeError))"

fun select_from :: "string list \<Rightarrow> recovery_policy_context \<Rightarrow> runtime_adjustment option res" where
  "select_from [] c = Inr None"
| "select_from (name # names) c =
     (case dget (rpc_allowed_runtime_adjustments c) name of
        None \<Rightarrow> select_from names c
      | Some raw \<Rightarrow>
          let v = next_value raw in
          if name \<notin> set APPROVED_ADJUSTMENTS \<or> \<not> valid_value name v
             \<or> scalar_eq v (get_value (rpc_current_runtime_settings c) name)
          then select_from names c
          else bind_res (any_res (already_adjusted name v) (rpc_attempt_history c))
            (\<lambda>tried. if tried then select_from names c
                     else Inr (Some \<lparr>ra_name = name, ra_value = v\<rparr>)))"

definition select_runtime_adjustment ::
  "string \<Rightarrow> recovery_policy_context \<Rightarrow> runtime_adjustment option res" where
  "select_runtime_adjustment failure_class c = select_from (adjustment_preference failure_class) c"

section \<open>Facts\<close>

lemma valid_value_runtime: "valid_value name v \<Longrightarrow> runtime_value_ok name v \<and> runtime_next_value v = v"
  by (cases v) (auto simp: valid_value_def runtime_value_ok_def split: if_splits)

lemma select_from_ok:
  assumes "select_from names c = Inr (Some a)"
  shows "ra_name a \<in> set names \<and> ra_name a \<in> set APPROVED_ADJUSTMENTS
    \<and> valid_value (ra_name a) (ra_value a)
    \<and> (\<exists>raw. dget (rpc_allowed_runtime_adjustments c) (ra_name a) = Some raw \<and> ra_value a = next_value raw)
    \<and> \<not> scalar_eq (ra_value a) (get_value (rpc_current_runtime_settings c) (ra_name a))
    \<and> any_res (already_adjusted (ra_name a) (ra_value a)) (rpc_attempt_history c) = Inr False"
  using assms
proof (induction names)
  case (Cons name names)
  show ?case
  proof (cases "dget (rpc_allowed_runtime_adjustments c) name")
    case None
    with Cons show ?thesis by simp
  next
    case (Some raw)
    show ?thesis
    proof (cases "select_from names c = Inr (Some a)")
      case True
      with Cons.IH show ?thesis by auto
    next
      case False
      with Cons.prems Some show ?thesis
        by (auto simp: Let_def raise_simps split: if_splits)
    qed
  qed
qed simp

lemma select_ok:
  assumes "select_runtime_adjustment k c = Inr (Some a)"
  shows "valid_runtime_mapping [(ra_name a, ra_value a)]
    \<and> (\<exists>raw. dget (rpc_allowed_runtime_adjustments c) (ra_name a) = Some raw \<and> ra_value a = next_value raw)
    \<and> \<not> scalar_eq (ra_value a) (get_value (rpc_current_runtime_settings c) (ra_name a))
    \<and> any_res (already_adjusted (ra_name a) (ra_value a)) (rpc_attempt_history c) = Inr False"
  using select_from_ok [OF assms [unfolded select_runtime_adjustment_def]]
    valid_value_runtime [of "ra_name a" "ra_value a"]
  by (simp add: valid_runtime_mapping_def dict_ok_def dkeys_def RUNTIME_ADJUSTMENT_KEYS_def
      APPROVED_ADJUSTMENTS_def)

text \<open>A history of mappings, or without the key, never makes the selection raise.\<close>

definition history_ok :: "(string, pyval) dict list \<Rightarrow> bool" where
  "history_ok h \<longleftrightarrow> (\<forall>item \<in> set h. case dget item ''runtime_adjustments'' of
     None \<Rightarrow> True | Some v \<Rightarrow> (\<exists>d. v = PyDict d))"

lemma any_res_returns:
  assumes "\<And>x. x \<in> set xs \<Longrightarrow> \<exists>b. f x = Inr b"
  shows "\<exists>b. any_res f xs = Inr b"
  using assms
proof (induction xs)
  case (Cons x xs)
  have "\<exists>b. f x = Inr b" by (rule Cons.prems) simp
  then obtain b where b: "f x = Inr b" ..
  have "\<exists>b. any_res f xs = Inr b" by (rule Cons.IH) (rule Cons.prems, simp)
  then obtain b' where "any_res f xs = Inr b'" ..
  with b have "any_res f (x # xs) = Inr (b \<or> b')" by simp
  then show ?case ..
next
  case Nil
  have "any_res f [] = Inr False" by simp
  then show ?case ..
qed

lemma already_adjusted_returns:
  assumes "history_ok h" and "item \<in> set h"
  shows "\<exists>b. already_adjusted name v item = Inr b"
  using assms by (auto simp: history_ok_def already_adjusted_def split: option.splits pyval.splits)

lemma select_from_returns: "history_ok (rpc_attempt_history c) \<Longrightarrow> \<exists>x. select_from names c = Inr x"
proof (induction names)
  case (Cons name names)
  then obtain x where x: "select_from names c = Inr x" by auto
  show ?case
  proof (cases "dget (rpc_allowed_runtime_adjustments c) name")
    case None
    with x show ?thesis by simp
  next
    case (Some raw)
    from already_adjusted_returns [OF Cons.prems] obtain b where
      "any_res (already_adjusted name (next_value raw)) (rpc_attempt_history c) = Inr b"
      using any_res_returns by metis
    then show ?thesis using x Some by (cases b) (auto simp: Let_def)
  qed
qed simp

lemma select_returns:
  "history_ok (rpc_attempt_history c) \<Longrightarrow> \<exists>x. select_runtime_adjustment k c = Inr x"
  unfolding select_runtime_adjustment_def by (rule select_from_returns)

end
