(* ===== verification/Recovery_Policy.thy ===== *)
theory Recovery_Policy
  imports Recovery_Classifier Runtime_Adjustments
begin

text \<open>
  \<^verbatim>\<open>src/src/tacorank/recovery/policy.py\<close> with the texts it builds (\<^verbatim>\<open>self_debug.py\<close>,
  \<^verbatim>\<open>operational_reflection.py\<close>): which of the seven recovery actions answers a failure.  The
  branches of \<^verbatim>\<open>_route\<close> that belong together are one definition each; a branch that does not
  apply passes on to the next one, its last argument.
\<close>

definition MAX_REPAIR_ATTEMPTS :: int where
  "MAX_REPAIR_ATTEMPTS = 2"

definition SAME_COMMIT_RETRIES :: int where
  "SAME_COMMIT_RETRIES = 2"

section \<open>Instructions for a repair\<close>

definition spec_summary :: "experiment_spec \<Rightarrow> string" where
  "spec_summary s = rp_hypothesis s @ (if rp_expected_mechanism s = [] then []
     else ''; expected mechanism: '' @ rp_expected_mechanism s)"

definition debug_targets :: "experiment_spec \<Rightarrow> string" where
  "debug_targets s = (let t = join_with '', '' (es_target_files s)
     in if t = [] then ''only the candidate files implicated by the failure'' else t)"

definition debug_check :: "string \<Rightarrow> string" where
  "debug_check failure_class =
     (if failure_class = ''output_contract'' then ''the existing Gate B output-contract checks''
      else if failure_class = ''no_op''
      then ''the existing wiring smoke test and a non-identical prediction check''
      else if failure_class = ''contract_error'' then ''Gate A''
      else ''the previously failing smoke or execution check'')"

definition debug_previous :: "recovery_policy_context \<Rightarrow> string" where
  "debug_previous c = (if rpc_attempt_history c = [] then []
     else '' Previous failed outcomes: '' @ int_str (int (length (rpc_attempt_history c))) @ ''.'')"

definition no_op_instructions ::
  "failure_classification \<Rightarrow> recovery_policy_context \<Rightarrow> int \<Rightarrow> int \<Rightarrow> string" where
  "no_op_instructions f c repair_attempt remaining_budget =
     ''The original hypothesis remains: '' @ spec_summary (rpc_original_experiment_spec c)
     @ ''. Do not change that hypothesis or its expected mechanism. The accepted candidate is commit ''
     @ rpc_current_patch_commit_sha c
     @ '', and verified evaluation found unchanged predictions (''
     @ (if fc_evidence f = [] then ''NO_PREDICTION_CHANGE'' else fc_evidence f)
     @ ''). Treat this as a bounded implementation/wiring check, not proof that the research ''
     @ ''hypothesis is false.'' @ debug_previous c @ '' Inspect only ''
     @ debug_targets (rpc_original_experiment_spec c)
     @ '', starting with the current diff and the path from the intended mechanism to the emitted ''
     @ ''score. Do not survey setup files, packaging, documentation, or unrelated modules. Before ''
     @ ''editing, emit `DIAGNOSIS:`, `REPAIR_PLAN:`, and `VERIFICATION:` lines. Make the smallest ''
     @ ''justified edit, then call task_done. You cannot execute code: your tools are the editor and ''
     @ ''task_done, and TacoRank runs '' @ debug_check (fc_failure_class f)
     @ '' for you after you finish. State under `VERIFICATION:` what that run should show; do not ''
     @ ''keep editing in search of confirmation you have no way to obtain, and do not spend the step ''
     @ ''budget without calling task_done, which discards the attempt entirely. Preserve the supplied ''
     @ ''contract and protected paths. This is repair attempt '' @ int_str repair_attempt @ '' of ''
     @ int_str (rpc_max_repair_attempts c) @ ''; '' @ int_str remaining_budget
     @ '' repair attempt(s) remain after this decision.''"

definition build_self_debug_instructions ::
  "failure_classification \<Rightarrow> recovery_policy_context \<Rightarrow> int \<Rightarrow> int \<Rightarrow> string" where
  "build_self_debug_instructions f c repair_attempt remaining_budget =
     (if fc_failure_class f = ''no_op'' then no_op_instructions f c repair_attempt remaining_budget
      else ''The original hypothesis remains: '' @ spec_summary (rpc_original_experiment_spec c)
        @ ''. Do not change that hypothesis or its expected mechanism. The exact accepted patch is commit ''
        @ rpc_current_patch_commit_sha c @ ''. Failure class '' @ fc_failure_class f
        @ '' has fingerprint '' @ fc_fingerprint f @ ''; evidence: ''
        @ (if fc_evidence f = [] then ''no additional safe trace text'' else fc_evidence f) @ ''.''
        @ debug_previous c
        @ '' First explain the fault briefly. Before invoking any edit tool, emit `DIAGNOSIS:`, ''
        @ ''`REPAIR_PLAN:`, and `VERIFICATION:` lines in the trajectory, then patch ''
        @ debug_targets (rpc_original_experiment_spec c)
        @ ''. Preserve the supplied contract and protected paths; do not edit protected evaluators, ''
        @ ''data loaders, contracts, or command configuration, then call task_done. You cannot execute ''
        @ ''code: your tools are the editor and task_done, and TacoRank runs ''
        @ debug_check (fc_failure_class f)
        @ '' for you after you finish, so make the smallest edit that should make it pass and stop. ''
        @ ''Spending the step budget without calling task_done discards the attempt entirely. ''
        @ ''This is repair attempt '' @ int_str repair_attempt @ '' of ''
        @ int_str (rpc_max_repair_attempts c) @ ''; '' @ int_str remaining_budget
        @ '' repair attempt(s) remain after this decision.'')"

section \<open>Operational lessons\<close>

definition operational_lesson ::
  "lesson_category \<Rightarrow> string list \<Rightarrow> string \<Rightarrow> string \<Rightarrow> string \<Rightarrow> rat \<Rightarrow> string \<Rightarrow> string
   \<Rightarrow> lesson_candidate" where
  "operational_lesson category tags summary applicability avoid_when confidence event commit =
    \<lparr>lc_origin = Origin_OPERATIONAL, lc_category = category, lc_tags = tags, lc_summary = summary,
     lc_applicability = applicability, lc_avoid_when = Some avoid_when,
     lc_confidence = fl confidence, lc_source_event_ids = (if event = [] then [] else [event]),
     lc_source_commit_shas = (if commit = [] then [] else [commit]),
     lc_measured_under_frame_experiment_id = None\<rparr>"

definition build_operational_lesson ::
  "failure_classification \<Rightarrow> recovery_policy_context \<Rightarrow> bool \<Rightarrow> string \<Rightarrow> lesson_candidate option" where
  "build_operational_lesson f c exhausted failure_event_id =
     (if \<not> exhausted \<and> \<not> fc_deliberate_integrity_violation f then None
      else
        let failure = fc_failure_class f;
            repeated = fc_fingerprint f \<in> set (rpc_previous_error_fingerprints c);
            lesson = (\<lambda>category tags summary applicability avoid_when confidence. Some
              (operational_lesson category tags summary applicability avoid_when confidence
                failure_event_id (rpc_current_patch_commit_sha c)))
        in if fc_disk_quota_failure f
           then lesson Category_RESOURCE_CONSTRAINT [''storage'', ''quota'']
             ''The execution exhausted its reviewed output quota or available storage.''
             ''The current runtime, artifact filesystem, and output quota.''
             ''Do not retry until storage is reclaimed or a fresh runtime with sufficient quota is selected.''
             (98 / 100)
           else if failure = ''oom'' \<and> repeated
           then lesson Category_RESOURCE_CONSTRAINT [''memory'', ''oom'']
             ''The configured execution profile exhausted memory on two attempts.''
             ''The current data, patch, and resource profile.''
             ''Avoid the same or larger memory footprint without an approved lower-memory setting.''
             (95 / 100)
           else if failure = ''no_op'' \<and> repeated
           then lesson Category_IMPLEMENTATION_CONSTRAINT [''wiring'', ''no_op'']
             ''The accepted change produced unchanged predictions after focused wiring recovery.''
             ''This implementation path and configuration-consumption boundary.''
             ''Do not treat the underlying research hypothesis as falsified until wiring is verified.''
             (9 / 10)
           else if failure = ''hang'' \<and> repeated
           then lesson Category_PROCESS_RULE [''hang'', ''heartbeat'']
             ''The same execution profile repeatedly stopped making observable progress.''
             ''The current command and heartbeat profile.''
             ''Do not reuse this profile until its progress signal or process behavior is corrected.''
             (9 / 10)
           else if fc_deliberate_integrity_violation f
           then lesson Category_INTEGRITY_WARNING [''contract'', ''protected_boundary'']
             ''Execution attempted access forbidden by the protected contract.''
             ''All candidate patches under the frozen competition contract.''
             ''Never access hidden labels, secrets, credentials, or protected evaluator behavior.''
             (99 / 100)
           else None)"

section \<open>Routing\<close>

record route =
  ro_action :: recovery_action
  ro_reason :: string
  ro_instructions :: string
  ro_adjustments :: "(string, pyval) dict"

definition plain_route :: "recovery_action \<Rightarrow> string \<Rightarrow> string \<Rightarrow> route" where
  "plain_route a reason instructions =
     \<lparr>ro_action = a, ro_reason = reason, ro_instructions = instructions, ro_adjustments = []\<rparr>"

abbreviation abandon :: "string \<Rightarrow> string \<Rightarrow> route" where
  "abandon \<equiv> plain_route Recovery_ABANDON"

definition debug_instructions ::
  "failure_classification \<Rightarrow> recovery_policy_context \<Rightarrow> int \<Rightarrow> string" where
  "debug_instructions f c remaining =
     build_self_debug_instructions f c (rpc_repair_attempts_used c + 1) (remaining - 1)"

definition route_candidate_integrity ::
  "failure_classification \<Rightarrow> recovery_policy_context \<Rightarrow> int \<Rightarrow> int \<Rightarrow> route" where
  "route_candidate_integrity f c same_count remaining =
     (if 2 \<le> same_count \<or> remaining \<le> 0
      then abandon ''CANDIDATE_INTEGRITY_RETRY_EXHAUSTED''
        (''Abandon only this experiment: the clean coding restart was exhausted. Preserve the ''
         @ ''violation evidence and return control to planning; do not weaken a safety gate.'')
      else plain_route Recovery_RESTART_FROM_TRUSTED_PARENT ''CANDIDATE_INTEGRITY_CLEAN_RESTART''
        (debug_instructions f c remaining @ CHR 0x0A #
         ''Discard the rejected candidate completely and restart from the declared trusted parent ''
         @ ''commit. Treat the cited integrity finding as a hard constraint. Do not edit, bypass, or ''
         @ ''weaken Gate A, Gate B, protected paths, data policy, network policy, or contract checks.''))"

definition exhausted_dimension :: "recovery_policy_context \<Rightarrow> string option" where
  "exhausted_dimension c =
     map_option fst (first_such (\<lambda>(dimension, v). v \<le> 0) (rpc_remaining_run_budget c))"

text \<open>The guards that end recovery of the experiment whatever the failure.\<close>

definition route_blocked ::
  "failure_classification \<Rightarrow> recovery_policy_context \<Rightarrow> int \<Rightarrow> int \<Rightarrow> route res \<Rightarrow> route res" where
  "route_blocked f c same_count remaining k =
     (if fc_candidate_integrity_violation f
      then Inr (route_candidate_integrity f c same_count remaining)
      else if fc_deliberate_integrity_violation f
      then Inr (abandon ''INTEGRITY_VIOLATION''
             ''Abandon: the failure crosses a protected integrity boundary.'')
      else if fc_disk_quota_failure f
      then Inr (abandon ''DISK_QUOTA_EXHAUSTED''
             (''Abandon: storage or the reviewed output quota is exhausted; free space or use a ''
              @ ''new runtime.''))
      else (case exhausted_dimension c of
        Some d \<Rightarrow> Inr (abandon (''RUN_'' @ py_upper d @ ''_BUDGET_EXHAUSTED'')
             (''Abandon: the frozen '' @ d @ '' run budget is exhausted.''))
      | None \<Rightarrow>
         if fc_control_plane_failure f
         then Inr (abandon ''CONTROL_PLANE_INVARIANT_FAILURE''
             (''Stop experiment recovery: the failure belongs to '' @ fc_owner f
              @ '' and may indicate inconsistent safety or orchestration evidence. Preserve ''
              @ ''the artifacts for operator review; do not ask Trae to edit candidate code.''))
         else if fc_owner f = ''solution_verifier'' \<and> \<not> fc_owner_retryable f
         then Inr (abandon ''SOLUTION_VERIFIER_RETRY_EXHAUSTED''
             (''Abandon this experiment: the solution verifier exhausted its ''
              @ ''own bounded protocol/provider retries. Preserve the candidate ''
              @ ''trajectory and verifier diagnostics; do not rerun Trae or ask ''
              @ ''it to change code without a valid verifier finding.''))
         else k))"

definition no_op_repair_in_progress :: "recovery_policy_context \<Rightarrow> bool" where
  "no_op_repair_in_progress c \<longleftrightarrow>
     list_ex (\<lambda>item. get_value item ''action'' = PyStr ''trae_repair''
       \<and> get_value item ''reason_code'' = PyStr ''REPAIRABLE_NO_OP_WIRING'') (rpc_attempt_history c)"

definition route_no_op ::
  "failure_classification \<Rightarrow> recovery_policy_context \<Rightarrow> int \<Rightarrow> int \<Rightarrow> route res \<Rightarrow> route res" where
  "route_no_op f c same_count remaining k =
     (if fc_failure_class f = ''no_op''
      then if 2 \<le> same_count \<or> remaining \<le> 0
        then Inr (plain_route Recovery_RETURN_TO_PLANNER ''NO_OP_RECOVERY_EXHAUSTED''
          (''The bounded no-op repair did not change predictions; return ''
           @ ''the recorded evidence to the research planner.''))
        else Inr (plain_route Recovery_TRAE_REPAIR ''REPAIRABLE_NO_OP_WIRING''
          (debug_instructions f c remaining))
      else if rpc_failure_stage c = Stage_coding \<and> no_op_repair_in_progress c
      then Inr (plain_route Recovery_RETURN_TO_PLANNER ''NO_OP_REPAIR_WORKER_EXHAUSTED''
          (''The bounded no-op repair worker did not produce a valid ''
           @ ''replacement patch; preserve both records and return the ''
           @ ''unchanged-prediction evidence to the research planner.''))
      else k)"

definition evidence_or_reason :: "failure_classification \<Rightarrow> string" where
  "evidence_or_reason f = (if fc_evidence f = [] then fc_reason_code f else fc_evidence f)"

definition route_owner_retry ::
  "failure_classification \<Rightarrow> recovery_policy_context \<Rightarrow> int \<Rightarrow> route res \<Rightarrow> route res" where
  "route_owner_retry f c same_count k =
     (if \<not> fc_owner_retryable f then k
      else if 2 \<le> same_count \<or> 1 \<le> rpc_same_commit_retries_used c
      then Inr (abandon (py_upper (fc_owner f) @ ''_RETRY_EXHAUSTED'')
        (''Abandon: the one bounded retry of '' @ fc_owner f @ '' is exhausted; preserve ''
         @ ''the candidate and failure evidence without asking Trae to change code.''))
      else Inr (plain_route Recovery_RETRY_SAME_COMMIT (''TRANSIENT_'' @ py_upper (fc_owner f) @ ''_RETRY'')
        (if fc_owner f = ''coding_worker''
         then ''Retry the same coding assignment once. Give Trae this exact diagnostic: ''
           @ evidence_or_reason f
           @ ''. Ask it to state DIAGNOSIS, REPAIR_PLAN, and VERIFICATION, then produce the ''
           @ ''smallest valid candidate patch without changing the accepted hypothesis or ''
           @ ''protected contract.''
         else ''Retry only the '' @ fc_owner f @ '' stage once against the same immutable inputs. ''
           @ ''The owner must correct or reissue its response using this diagnostic: ''
           @ evidence_or_reason f @ ''. Preserve the candidate; do not ask Trae to edit code unless ''
           @ ''a later valid result identifies a candidate defect.'')))"

definition same_commit_retry :: "recovery_policy_context \<Rightarrow> route" where
  "same_commit_retry c =
     (if rpc_same_commit_retries_used c < SAME_COMMIT_RETRIES
      then plain_route Recovery_RETRY_SAME_COMMIT ''TRANSIENT_SAME_COMMIT_RETRY''
        ''Retry the exact sealed commit once with identical settings.''
      else abandon ''SAME_COMMIT_RETRY_EXHAUSTED''
        ''Abandon: the bounded same-commit retries are exhausted.'')"

definition route_transient ::
  "failure_classification \<Rightarrow> recovery_policy_context \<Rightarrow> int \<Rightarrow> route res \<Rightarrow> route res" where
  "route_transient f c same_count k =
     (if fc_failure_class f = ''infrastructure_error'' \<or> fc_failure_class f = ''hang''
      then Inr (same_commit_retry c)
      else if 2 \<le> same_count
      then Inr (abandon ''REPEATED_ERROR_FINGERPRINT''
        ''Abandon: the same locally normalized failure occurred twice.'')
      else if rpc_failure_stage c = Stage_coding
      then Inr (abandon ''CODING_WORKER_FAILURE''
        ''Abandon: the coding worker did not produce a valid patch candidate.'')
      else k)"

definition route_adjustment ::
  "failure_classification \<Rightarrow> recovery_policy_context \<Rightarrow> route res \<Rightarrow> route res" where
  "route_adjustment f c k = bind_res (select_runtime_adjustment (fc_failure_class f) c) (\<lambda>adjustment.
     case adjustment of
       Some a \<Rightarrow>
         if fc_failure_class f = ''oom'' \<or> fc_failure_class f = ''numerical_error''
            \<or> fc_failure_class f = ''timeout''
         then Inr \<lparr>ro_action = Recovery_ADJUST_APPROVED_RUNTIME_SETTING,
                ro_reason = ''APPROVED_'' @ py_upper (ra_name a) @ ''_ADJUSTMENT'',
                ro_instructions = adjustment_instruction a,
                ro_adjustments = [(ra_name a, ra_value a)]\<rparr>
         else k
     | None \<Rightarrow> k)"

definition route_repair ::
  "failure_classification \<Rightarrow> recovery_policy_context \<Rightarrow> int \<Rightarrow> route res" where
  "route_repair f c remaining =
     (if fc_failure_class f = ''oom''
      then Inr (plain_route Recovery_ROLLBACK ''OOM_NO_APPROVED_ADJUSTMENT''
        ''Rollback: no legal lower-memory setting is available.'')
      else if fc_failure_class f = ''timeout'' \<and> fc_made_progress f then Inr (same_commit_retry c)
      else if fc_failure_class f = ''timeout''
      then Inr (abandon ''TIMEOUT_WITHOUT_PROGRESS''
        ''Abandon: timeout evidence does not show reliable progress.'')
      else if remaining \<le> 0
      then Inr (abandon ''REPAIR_BUDGET_EXHAUSTED'' ''Abandon: the code-repair budget has been consumed.'')
      else if \<not> fc_trae_repairable f
      then Inr (abandon ''OWNER_REPAIR_UNAVAILABLE''
        (''Abandon: the failure belongs to '' @ fc_owner f @ '' and contains no validated ''
         @ ''candidate-code defect for Trae to repair.''))
      else Inr (plain_route Recovery_TRAE_REPAIR (''REPAIRABLE_'' @ fc_reason_code f)
        (debug_instructions f c remaining)))"

definition route_of ::
  "failure_classification \<Rightarrow> recovery_policy_context \<Rightarrow> int \<Rightarrow> int \<Rightarrow> route res" where
  "route_of f c same_count remaining =
     route_blocked f c same_count remaining
       (route_no_op f c same_count remaining
         (route_owner_retry f c same_count
           (route_transient f c same_count
             (route_adjustment f c (route_repair f c remaining)))))"

section \<open>The decision\<close>

text \<open>\<^verbatim>\<open>RecoveryDecision(...)\<close>: strings are stripped and the model's validators run.\<close>

definition strip_lesson :: "lesson_candidate \<Rightarrow> lesson_candidate" where
  "strip_lesson l = l\<lparr>lc_source_event_ids := map py_strip (lc_source_event_ids l),
     lc_source_commit_shas := map py_strip (lc_source_commit_shas l)\<rparr>"

definition make_recovery_decision :: "recovery_decision \<Rightarrow> recovery_decision res" where
  "make_recovery_decision d0 =
     (let d = d0\<lparr>rn_run_id := py_strip (rn_run_id d0),
        rn_experiment_id := py_strip (rn_experiment_id d0),
        rn_failure_event_id := py_strip (rn_failure_event_id d0),
        rn_reason_code := py_strip (rn_reason_code d0),
        rn_instructions := py_strip (rn_instructions d0),
        rn_lesson_candidate := map_option strip_lesson (rn_lesson_candidate d0)\<rparr>
      in guarded (ValidationError ''RecoveryDecision'') (valid_recovery_decision d) (Inr d))"

definition same_error_count :: "recovery_policy_context \<Rightarrow> string \<Rightarrow> int" where
  "same_error_count c fp = int (count_list (rpc_previous_error_fingerprints c) fp) + 1"

definition decided_action :: "recovery_action \<Rightarrow> bool" where
  "decided_action a \<longleftrightarrow> a = Recovery_TRAE_REPAIR \<or> a = Recovery_RESTART_FROM_TRUSTED_PARENT"

definition decide ::
  "(string \<Rightarrow> string) \<Rightarrow> string \<Rightarrow> failed_value \<Rightarrow> recovery_policy_context \<Rightarrow> recovery_decision res" where
  "decide dg failure_event_id v c =
     guarded (ValueError ''failure_event_id is required'') (failure_event_id \<noteq> [])
     (guarded (ValueError ''recovery context cites a different failure event'')
       (rpc_failure_event_id c = failure_event_id)
     (bind_res (classify_failure dg v) (\<lambda>f.
      let maximum = min MAX_REPAIR_ATTEMPTS (rpc_max_repair_attempts c);
          used = rpc_repair_attempts_used c;
          remaining_before = rpc_remaining_repair_budget c;
          same_count = same_error_count c (fc_fingerprint f)
      in bind_res (route_of f c same_count remaining_before) (\<lambda>r.
      make_recovery_decision
        \<lparr>rn_run_id = rpc_run_id c, rn_experiment_id = rpc_experiment_id c,
         rn_failure_event_id = failure_event_id,
         rn_repair_attempt = min (max 1 (used + 1)) (max 1 maximum),
         rn_action = ro_action r, rn_reason_code = ro_reason r,
         rn_instructions = ro_instructions r, rn_same_error_count = same_count,
         rn_remaining_repair_budget =
           remaining_before - (if decided_action (ro_action r) then 1 else 0),
         rn_runtime_adjustments = ro_adjustments r,
         rn_lesson_candidate = build_operational_lesson f c (ro_action r = Recovery_ABANDON)
           failure_event_id,
         rn_resource_delta = zero_delta\<rparr>))))"

end
