(* ===== verification/Recovery_Routing.thy ===== *)
theory Recovery_Routing
  imports Recovery_Policy Convergence Transitions
begin

text \<open>
  How \<^verbatim>\<open>src/src/tacorank/orchestrator/router.py\<close> asks the recovery policy: the evidence it
  collects from the ledger (\<^verbatim>\<open>_previous_failure_fingerprints\<close>, \<^verbatim>\<open>_attempt_history\<close>,
  \<^verbatim>\<open>_current_runtime_settings\<close>, \<^verbatim>\<open>_remaining_run_budget\<close>), the policy context that
  \<^verbatim>\<open>_recover\<close> builds from it, the stage it infers for an escaped adapter exception, and the check
  of a decided runtime adjustment against the frozen configuration.
\<close>

section \<open>Evidence from the ledger\<close>

text \<open>\<^verbatim>\<open>getattr(event.payload, "result", None)\<close> with an experiment.\<close>

fun payload_result :: "event_payload \<Rightarrow> failed_value option" where
  "payload_result (Patch_checked r) = Some (Failed_patch r)"
| "payload_result (Execution_finished r) = Some (Failed_run r)"
| "payload_result (Adapter_failed r) = Some (Failed_adapter r)"
| "payload_result (Output_checked r) = Some (Failed_output r)"
| "payload_result (Evaluation_completed r) = Some (Failed_evaluation r)"
| "payload_result _ = None"

fun fv_experiment_id :: "failed_value \<Rightarrow> string" where
  "fv_experiment_id (Failed_run r) = rr_experiment_id r"
| "fv_experiment_id (Failed_adapter r) = af_experiment_id r"
| "fv_experiment_id (Failed_patch r) = pk_experiment_id r"
| "fv_experiment_id (Failed_output r) = oc_experiment_id r"
| "fv_experiment_id (Failed_evaluation r) = ev_experiment_id r"

fun fv_verdict_no_op :: "failed_value \<Rightarrow> bool" where
  "fv_verdict_no_op (Failed_evaluation r) \<longleftrightarrow> ta_verdict (ev_trust r) = Verdict_NO_OP"
| "fv_verdict_no_op _ \<longleftrightarrow> False"

fun fv_accepted :: "failed_value \<Rightarrow> bool option" where
  "fv_accepted (Failed_patch r) = Some (pk_accepted r)"
| "fv_accepted (Failed_output r) = Some (oc_accepted r)"
| "fv_accepted _ = None"

text \<open>Is the event evidence of an earlier failure of the experiment?\<close>

definition prior_failure :: "string \<Rightarrow> event \<Rightarrow> failed_value option" where
  "prior_failure i e = (case payload_result (payload e) of None \<Rightarrow> None
     | Some v \<Rightarrow>
        if fv_experiment_id v \<noteq> i then None
        else if fv_outcome v \<in> {Some Outcome_SUCCESS, Some Outcome_CANCELLED} then None
        else if fv_outcome v = None \<and> fv_accepted v \<noteq> Some False \<and> \<not> fv_verdict_no_op v then None
        else Some v)"

abbreviation events_before :: "event list \<Rightarrow> string \<Rightarrow> event list" where
  "events_before es i \<equiv> before (\<lambda>e. event_id e = i) es"

definition previous_failure_fingerprints ::
  "(string \<Rightarrow> string) \<Rightarrow> event list \<Rightarrow> string \<Rightarrow> string \<Rightarrow> string list" where
  "previous_failure_fingerprints sha es i before_id =
     map (fingerprint_result sha) (List.map_filter (prior_failure i) (events_before es before_id))"

fun action_value :: "recovery_action \<Rightarrow> string" where
  "action_value Recovery_TRAE_REPAIR = ''trae_repair''"
| "action_value Recovery_RESTART_FROM_TRUSTED_PARENT = ''restart_from_trusted_parent''"
| "action_value Recovery_RETRY_SAME_COMMIT = ''retry_same_commit''"
| "action_value Recovery_ADJUST_APPROVED_RUNTIME_SETTING = ''adjust_approved_runtime_setting''"
| "action_value Recovery_RETURN_TO_PLANNER = ''return_to_planner''"
| "action_value Recovery_ROLLBACK = ''rollback''"
| "action_value Recovery_ABANDON = ''abandon''"

definition history_item :: "recovery_decision \<Rightarrow> (string, pyval) dict" where
  "history_item d =
     [(''failure_event_id'', PyStr (rn_failure_event_id d)),
      (''action'', PyStr (action_value (rn_action d))),
      (''reason_code'', PyStr (rn_reason_code d)),
      (''repair_attempt'', PyInt (rn_repair_attempt d)),
      (''remaining_repair_budget'', PyInt (rn_remaining_repair_budget d))]"

definition decision_for :: "string \<Rightarrow> event \<Rightarrow> recovery_decision option" where
  "decision_for i e = (case as_recovery (payload e) of None \<Rightarrow> None
     | Some d \<Rightarrow> if rn_experiment_id d = i then Some d else None)"

definition attempt_history :: "event list \<Rightarrow> string \<Rightarrow> string \<Rightarrow> (string, pyval) dict list" where
  "attempt_history es i before_id =
     map history_item (List.map_filter (decision_for i) (events_before es before_id))"

definition request_for :: "string \<Rightarrow> event \<Rightarrow> run_request option" where
  "request_for i e = (case as_started (payload e) of None \<Rightarrow> None
     | Some r \<Rightarrow> if rq_experiment_id r = i then Some r else None)"

definition current_runtime_settings :: "event list \<Rightarrow> string \<Rightarrow> string \<Rightarrow> (string, pyval) dict" where
  "current_runtime_settings es i before_id =
     (case List.map_filter (request_for i) (events_before es before_id) of [] \<Rightarrow> []
      | rs \<Rightarrow> rq_runtime_settings (last rs))"

definition experiment_spec_of :: "event list \<Rightarrow> string \<Rightarrow> experiment_spec res" where
  "experiment_spec_of es i = fetch (Raised ''OrchestrationError'' ''recovery experiment specification is missing'')
     (first_such (\<lambda>s. rp_experiment_id s = i) (List.map_filter (\<lambda>e. as_proposed (payload e)) es)) Inr"

definition remaining_run_budget :: "run_config \<Rightarrow> run_state \<Rightarrow> (string, int) dict" where
  "remaining_run_budget cfg s =
     [(''experiments'', remaining_experiments s),
      (''wall_time_seconds'',
        max 0 (st_wall_time_limit_seconds s - \<lfloor>st_elapsed_wall_time_seconds s\<rfloor>))]
     @ (case cfg_token_limit cfg of None \<Rightarrow> []
        | Some k \<Rightarrow> [(''token'', max 0 (k - provider_tokens (st_resource_totals s)
             - estimated_tokens (st_resource_totals s)))])
     @ (case cfg_gpu_seconds_limit cfg of None \<Rightarrow> []
        | Some k \<Rightarrow> [(''gpu_seconds'', max 0 (k
             - \<lfloor>fdiv (of_int (rt_gpu_weighted_time_ms (st_resource_totals s))) 1000\<rfloor>))])"

section \<open>The policy context\<close>

fun failure_stage_of :: "failed_value \<Rightarrow> failure_stage" where
  "failure_stage_of (Failed_adapter r) = af_failure_stage r"
| "failure_stage_of _ = Stage_execution"

text \<open>\<^verbatim>\<open>node.latest_commit_sha or node.base_commit_sha\<close>\<close>

definition current_commit :: "experiment_node \<Rightarrow> string" where
  "current_commit n = or_else (node_latest_commit_sha n) (node_base_commit_sha n)"

definition raw_policy_context ::
  "(string \<Rightarrow> string) \<Rightarrow> run_config \<Rightarrow> (string, pyval) dict \<Rightarrow> string \<Rightarrow> string \<Rightarrow> event list \<Rightarrow> run_state
   \<Rightarrow> experiment_node \<Rightarrow> experiment_spec \<Rightarrow> string \<Rightarrow> string \<Rightarrow> failed_value \<Rightarrow> recovery_policy_context" where
  "raw_policy_context sha cfg allowed contract_summary config_run es s n spec i failure_id v =
     \<lparr>rpc_run_id = config_run, rpc_experiment_id = i, rpc_original_experiment_spec = spec,
      rpc_current_patch_commit_sha = current_commit n, rpc_failure_event_id = failure_id,
      rpc_failure_stage = failure_stage_of v,
      rpc_attempt_history = attempt_history es i failure_id,
      rpc_repair_attempts_used = node_repair_count n,
      rpc_max_repair_attempts = st_max_repairs s,
      rpc_same_commit_retries_used = node_same_commit_retry_count n,
      rpc_remaining_repair_budget = max 0 (st_max_repairs s - node_repair_count n),
      rpc_previous_error_fingerprints = previous_failure_fingerprints sha es i failure_id,
      rpc_remaining_run_budget = remaining_run_budget cfg s,
      rpc_allowed_runtime_adjustments = allowed,
      rpc_current_runtime_settings = current_runtime_settings es i failure_id,
      rpc_contract_summary = contract_summary\<rparr>"

definition policy_context ::
  "(string \<Rightarrow> string) \<Rightarrow> run_config \<Rightarrow> (string, pyval) dict \<Rightarrow> string \<Rightarrow> string \<Rightarrow> event list \<Rightarrow> run_state
   \<Rightarrow> string \<Rightarrow> string \<Rightarrow> failed_value \<Rightarrow> recovery_policy_context res" where
  "policy_context sha cfg allowed contract_summary config_run es s i failure_id v =
     fetch (KeyError i) (node_of s i) (\<lambda>n.
     bind_res (experiment_spec_of es i) (\<lambda>spec.
     let c = raw_policy_context sha cfg allowed contract_summary config_run es s n spec i failure_id v
     in guarded (ValidationError ''RecoveryPolicyContext'') (valid_recovery_policy_context c) (Inr c)))"

lemma policy_contextD:
  assumes "policy_context sha cfg allowed summary own es s i k v = Inr c" and "node_of s i = Some n"
  shows "valid_recovery_policy_context c" "rpc_failure_event_id c = k" "rpc_experiment_id c = i"
    "rpc_repair_attempts_used c = node_repair_count n" "rpc_max_repair_attempts c = st_max_repairs s"
    "rpc_same_commit_retries_used c = node_same_commit_retry_count n"
    "rpc_attempt_history c = attempt_history es i k"
    "rpc_previous_error_fingerprints c = previous_failure_fingerprints sha es i k"
proof -
  from assms obtain spec where
    "c = raw_policy_context sha cfg allowed summary own es s n spec i k v \<and> valid_recovery_policy_context c"
    by (auto simp: policy_context_def raise_simps Let_def)
  then show "valid_recovery_policy_context c" "rpc_failure_event_id c = k" "rpc_experiment_id c = i"
    "rpc_repair_attempts_used c = node_repair_count n" "rpc_max_repair_attempts c = st_max_repairs s"
    "rpc_same_commit_retries_used c = node_same_commit_retry_count n"
    "rpc_attempt_history c = attempt_history es i k"
    "rpc_previous_error_fingerprints c = previous_failure_fingerprints sha es i k"
    by (blast, simp_all add: raw_policy_context_def)
qed

section \<open>Adapter failures\<close>

text \<open>The boundary whose adapter was running, from the latest event of the experiment.\<close>

definition adapter_boundary :: "string \<Rightarrow> event \<Rightarrow> failure_stage option" where
  "adapter_boundary i e = (case payload e of
     Recovery_decided d \<Rightarrow> if rn_experiment_id d = i then Some Stage_coding else None
   | Patch_created c \<Rightarrow> if pc_experiment_id c = i then Some Stage_patch_gate else None
   | Execution_started r \<Rightarrow> if rq_experiment_id r = i then Some Stage_execution else None
   | Execution_finished r \<Rightarrow> if rr_experiment_id r = i then Some Stage_output_gate else None
   | Output_checked r \<Rightarrow> if oc_experiment_id r = i then Some Stage_evaluation else None
   | Evaluation_completed r \<Rightarrow> if ev_experiment_id r = i then Some Stage_evaluation else None
   | Context_created c \<Rightarrow> if context_role_of c \<in> {Role_coder, Role_recovery}
         \<and> cx_experiment_id (context_base c) = Some i
       then Some (if context_role_of c = Role_recovery then Stage_recovery else Stage_coding) else None
   | _ \<Rightarrow> None)"

definition adapter_failure_stage :: "event list \<Rightarrow> string \<Rightarrow> failure_stage" where
  "adapter_failure_stage es i = (case List.map_filter (adapter_boundary i) (rev es) of
     [] \<Rightarrow> Stage_recovery | stage # _ \<Rightarrow> stage)"

fun stage_outcome :: "failure_stage \<Rightarrow> run_outcome" where
  "stage_outcome Stage_coding = Outcome_CODE_ERROR"
| "stage_outcome Stage_patch_gate = Outcome_CODE_ERROR"
| "stage_outcome Stage_execution = Outcome_INFRASTRUCTURE_ERROR"
| "stage_outcome Stage_output_gate = Outcome_INTERFACE_ERROR"
| "stage_outcome Stage_evaluation = Outcome_INFRASTRUCTURE_ERROR"
| "stage_outcome Stage_recovery = Outcome_INFRASTRUCTURE_ERROR"

section \<open>The frozen adjustments\<close>

definition validate_adjustment ::
  "(string, pyval) dict \<Rightarrow> string list \<Rightarrow> unit \<Rightarrow> string \<times> pyval \<Rightarrow> unit res" where
  "validate_adjustment configured profiles u item = (case item of (name, v) \<Rightarrow>
     fetch (Raised ''OrchestrationError'' ''runtime adjustment is not frozen'') (dget configured name)
       (\<lambda>raw.
     guarded (Raised ''OrchestrationError'' ''runtime adjustment value is not frozen'')
       (scalar_eq v (next_value raw))
     (guarded (Raised ''OrchestrationError'' ''timeout profile is not frozen'')
       (name = ''timeout_profile'' \<longrightarrow> (\<exists>p \<in> set profiles. v = PyStr p))
     (Inr ()))))"

definition validate_runtime_adjustments ::
  "(string, pyval) dict \<Rightarrow> string list \<Rightarrow> (string, pyval) dict \<Rightarrow> unit res" where
  "validate_runtime_adjustments configured profiles adjustments =
     fold_res (validate_adjustment configured profiles) () adjustments"

section \<open>Facts\<close>

lemma prior_failure_recoverable:
  "prior_failure i e = Some v \<longleftrightarrow> payload_result (payload e) = Some v \<and> fv_experiment_id v = i
     \<and> recoverable_value v"
proof (cases "payload_result (payload e)")
  case (Some u)
  have "prior_failure i e = (if fv_experiment_id u = i \<and> recoverable_value u then Some u else None)"
    using Some by (cases u) (simp_all add: prior_failure_def)
  with Some show ?thesis by auto
qed (simp add: prior_failure_def)

text \<open>The validator's failures are the policy's, except that a cancelled run is not one of them.\<close>

lemma recoverable_failure_value:
  assumes "recoverable_failure i e"
  shows "\<exists>v. payload_result (payload e) = Some v \<and> fv_experiment_id v = i"
  using assms by (cases "payload e") (auto simp: recoverable_failure_def)

text \<open>
  The history the router hands to the policy never has the key \<^verbatim>\<open>runtime_adjustments\<close>, so the
  policy's search for an adjustment that was tried before finds none.
\<close>

lemma attempt_history_items: "item \<in> set (attempt_history es i k) \<Longrightarrow> \<exists>d. item = history_item d"
  by (auto simp: attempt_history_def)

lemma attempt_history_ok: "history_ok (attempt_history es i k)"
  by (auto simp: history_ok_def history_item_def dest!: attempt_history_items)

lemma attempt_history_dicts: "list_all dict_ok (attempt_history es i k)"
  by (auto simp: list_all_iff dict_ok_def dkeys_def history_item_def dest!: attempt_history_items)

lemma attempt_history_never_vetoes:
  "any_res (already_adjusted name v) (attempt_history es i k) = Inr (v = PyNone \<and>
     (\<exists>d \<in> set (List.map_filter (decision_for i) (events_before es k)).
        rn_action d = Recovery_ADJUST_APPROVED_RUNTIME_SETTING))"
proof -
  have none: "scalar_eq v PyNone \<longleftrightarrow> v = PyNone"
    by (cases v) (auto simp: scalar_eq_def)
  have act: "action_value a = ''adjust_approved_runtime_setting''
      \<longleftrightarrow> a = Recovery_ADJUST_APPROVED_RUNTIME_SETTING" for a
    by (cases a) auto
  have item: "already_adjusted name v (history_item d)
      = Inr (rn_action d = Recovery_ADJUST_APPROVED_RUNTIME_SETTING \<and> v = PyNone)" for d
    by (simp add: already_adjusted_def history_item_def get_value_def none act)
  have "any_res (already_adjusted name v) (map history_item ds)
      = Inr (v = PyNone \<and> (\<exists>d \<in> set ds. rn_action d = Recovery_ADJUST_APPROVED_RUNTIME_SETTING))" for ds
    by (induction ds) (auto simp: item)
  then show ?thesis by (simp add: attempt_history_def)
qed

end
