(* ===== verification/Recovery_Facts.thy ===== *)
theory Recovery_Facts
  imports Recovery_Policy
begin

text \<open>
  What the routing of the recovery policy guarantees about each action, and that the decision it
  builds satisfies the constraints of its model.
\<close>

section \<open>Texts that survive stripping\<close>

definition visible :: "string \<Rightarrow> bool" where
  "visible s \<longleftrightarrow> (\<exists>c \<in> set s. \<not> py_isspace c)"

lemma visible_Cons [simp]: "\<not> py_isspace c \<Longrightarrow> visible (c # s)"
  by (simp add: visible_def)

lemma visible_append [simp]: "visible (s @ t) \<longleftrightarrow> visible s \<or> visible t"
  by (auto simp: visible_def)

lemma visible_strip: "visible s \<longleftrightarrow> py_strip s \<noteq> []"
  by (auto simp: visible_def py_strip_empty)

lemma nonempty_visible: "nonempty_str s \<Longrightarrow> visible s"
  by (metis nonempty_str_def visible_strip)

lemma letters_visible [simp]:
  "\<not> py_isspace CHR ''A''" "\<not> py_isspace CHR ''C''" "\<not> py_isspace CHR ''I''" "\<not> py_isspace CHR ''D''"
  "\<not> py_isspace CHR ''N''" "\<not> py_isspace CHR ''O''" "\<not> py_isspace CHR ''R''" "\<not> py_isspace CHR ''S''"
  "\<not> py_isspace CHR ''T''" "\<not> py_isspace CHR ''_''"
  by (simp_all add: py_isspace_def)

lemma instructions_visible [simp]: "visible (build_self_debug_instructions f c k m)"
  by (simp add: build_self_debug_instructions_def no_op_instructions_def)

lemma adjustment_instruction_visible [simp]: "visible (adjustment_instruction a)"
  by (simp add: adjustment_instruction_def)

section \<open>Every route\<close>

text \<open>What the constraints of the decision need from a route.\<close>

definition route_ok :: "recovery_policy_context \<Rightarrow> int \<Rightarrow> route \<Rightarrow> bool" where
  "route_ok c remaining r \<longleftrightarrow> visible (ro_reason r) \<and> visible (ro_instructions r)
     \<and> valid_runtime_mapping (ro_adjustments r) \<and> length (ro_adjustments r) \<le> 1
     \<and> (ro_action r = Recovery_ADJUST_APPROVED_RUNTIME_SETTING) = (ro_adjustments r \<noteq> [])
     \<and> (decided_action (ro_action r) \<longrightarrow> 0 < remaining)
     \<and> (ro_action r = Recovery_RETRY_SAME_COMMIT \<longrightarrow>
          rpc_same_commit_retries_used c < SAME_COMMIT_RETRIES)"

lemma plain_route_ok:
  "route_ok c remaining (plain_route a reason text) \<longleftrightarrow> visible reason \<and> visible text
     \<and> a \<noteq> Recovery_ADJUST_APPROVED_RUNTIME_SETTING \<and> (decided_action a \<longrightarrow> 0 < remaining)
     \<and> (a = Recovery_RETRY_SAME_COMMIT \<longrightarrow> rpc_same_commit_retries_used c < SAME_COMMIT_RETRIES)"
  by (simp add: route_ok_def plain_route_def valid_runtime_mapping_def dkeys_def)

lemma same_commit_retry_ok: "route_ok c remaining (same_commit_retry c)"
  by (simp add: same_commit_retry_def plain_route_ok decided_action_def)

lemma route_blocked_ok:
  assumes "route_blocked f c same_count remaining k = Inr r" and "k = Inr r \<Longrightarrow> route_ok c remaining r"
  shows "route_ok c remaining r"
  using assms
  by (auto simp: route_blocked_def route_candidate_integrity_def plain_route_ok decided_action_def
      debug_instructions_def split: if_splits option.splits)

lemma route_no_op_ok:
  assumes "route_no_op f c same_count remaining k = Inr r" and "k = Inr r \<Longrightarrow> route_ok c remaining r"
  shows "route_ok c remaining r"
  using assms
  by (auto simp: route_no_op_def plain_route_ok decided_action_def debug_instructions_def split: if_splits)

lemma route_owner_retry_ok:
  assumes "route_owner_retry f c same_count k = Inr r" and "k = Inr r \<Longrightarrow> route_ok c remaining r"
  shows "route_ok c remaining r"
  using assms
  by (auto simp: route_owner_retry_def plain_route_ok decided_action_def SAME_COMMIT_RETRIES_def
      split: if_splits)

lemma route_transient_ok:
  assumes "route_transient f c same_count k = Inr r" and "k = Inr r \<Longrightarrow> route_ok c remaining r"
  shows "route_ok c remaining r"
  using assms same_commit_retry_ok [of c remaining]
  by (auto simp: route_transient_def plain_route_ok decided_action_def split: if_splits)

lemma route_adjustment_ok:
  assumes "route_adjustment f c k = Inr r" and "k = Inr r \<Longrightarrow> route_ok c remaining r"
  shows "route_ok c remaining r"
proof -
  from assms(1) obtain x where x: "select_runtime_adjustment (fc_failure_class f) c = Inr x"
    by (auto simp: route_adjustment_def raise_simps)
  show ?thesis
  proof (cases "k = Inr r")
    case False
    with assms(1) x obtain a where a: "x = Some a" "r = \<lparr>ro_action = Recovery_ADJUST_APPROVED_RUNTIME_SETTING,
        ro_reason = ''APPROVED_'' @ py_upper (ra_name a) @ ''_ADJUSTMENT'',
        ro_instructions = adjustment_instruction a, ro_adjustments = [(ra_name a, ra_value a)]\<rparr>"
      by (auto simp: route_adjustment_def split: option.splits if_splits)
    with select_ok x show ?thesis by (simp add: route_ok_def decided_action_def)
  qed (rule assms(2))
qed

lemma route_repair_ok:
  assumes "route_repair f c remaining = Inr r"
  shows "route_ok c remaining r"
  using assms same_commit_retry_ok [of c remaining]
  by (auto simp: route_repair_def plain_route_ok decided_action_def debug_instructions_def split: if_splits)

lemma route_of_ok:
  assumes "route_of f c same_count remaining = Inr r"
  shows "route_ok c remaining r"
  using assms unfolding route_of_def
  by (blast intro: route_blocked_ok route_no_op_ok route_owner_retry_ok route_transient_ok
      route_adjustment_ok route_repair_ok)

text \<open>Routing raises only if the search through the history does.\<close>

lemma route_of_returns:
  assumes "history_ok (rpc_attempt_history c)"
  shows "\<exists>r. route_of f c same_count remaining = Inr r"
proof -
  have "\<exists>r. route_repair f c remaining = Inr r"
    by (simp add: route_repair_def)
  then obtain r0 where r0: "route_repair f c remaining = Inr r0" ..
  obtain x where "select_runtime_adjustment (fc_failure_class f) c = Inr x"
    using select_returns [OF assms] by blast
  then have "\<exists>r. route_adjustment f c (Inr r0) = Inr r"
    by (simp add: route_adjustment_def split: option.split)
  then obtain r1 where r1: "route_adjustment f c (Inr r0) = Inr r1" ..
  have "\<exists>r. route_transient f c same_count (Inr r1) = Inr r"
    by (simp add: route_transient_def)
  then obtain r2 where r2: "route_transient f c same_count (Inr r1) = Inr r2" ..
  have "\<exists>r. route_owner_retry f c same_count (Inr r2) = Inr r"
    by (simp add: route_owner_retry_def)
  then obtain r3 where r3: "route_owner_retry f c same_count (Inr r2) = Inr r3" ..
  have "\<exists>r. route_no_op f c same_count remaining (Inr r3) = Inr r"
    by (simp add: route_no_op_def)
  then obtain r4 where r4: "route_no_op f c same_count remaining (Inr r3) = Inr r4" ..
  have "\<exists>r. route_blocked f c same_count remaining (Inr r4) = Inr r"
    by (simp add: route_blocked_def split: option.splits)
  then show ?thesis by (simp only: route_of_def r0 r1 r2 r3 r4)
qed

section \<open>Repairs\<close>

text \<open>An edit of the candidate answers a first occurrence of a defect the worker owns.\<close>

lemma route_blocked_repair:
  assumes "route_blocked f c same_count remaining k = Inr r" and "ro_action r = Recovery_TRAE_REPAIR"
  shows "k = Inr r \<and> \<not> fc_candidate_integrity_violation f \<and> \<not> fc_deliberate_integrity_violation f
     \<and> \<not> fc_disk_quota_failure f \<and> \<not> fc_control_plane_failure f \<and> exhausted_dimension c = None"
  using assms
  by (auto simp: route_blocked_def route_candidate_integrity_def plain_route_def
      split: if_splits option.splits)

lemma same_commit_retry_action: "ro_action (same_commit_retry c) \<noteq> Recovery_TRAE_REPAIR"
  by (simp add: same_commit_retry_def plain_route_def)

lemma route_rest_repair:
  assumes "route_owner_retry f c same_count (route_transient f c same_count
      (route_adjustment f c (route_repair f c remaining))) = Inr r"
    and "ro_action r = Recovery_TRAE_REPAIR"
  shows "same_count < 2 \<and> 0 < remaining \<and> fc_trae_repairable f"
proof -
  have "route_transient f c same_count (route_adjustment f c (route_repair f c remaining)) = Inr r"
    using assms by (auto simp: route_owner_retry_def plain_route_def split: if_splits)
  then have same: "same_count < 2" and adjust: "route_adjustment f c (route_repair f c remaining) = Inr r"
    using assms(2) same_commit_retry_action by (auto simp: route_transient_def plain_route_def split: if_splits)
  from adjust have "route_repair f c remaining = Inr r"
    using assms(2) by (auto simp: route_adjustment_def raise_simps split: option.splits if_splits)
  then show ?thesis
    using assms(2) same same_commit_retry_action
    by (auto simp: route_repair_def plain_route_def split: if_splits)
qed

lemma route_of_repair:
  assumes "route_of f c same_count remaining = Inr r" and "ro_action r = Recovery_TRAE_REPAIR"
  shows "same_count < 2 \<and> 0 < remaining \<and> (fc_failure_class f = ''no_op'' \<or> fc_trae_repairable f)
     \<and> \<not> fc_candidate_integrity_violation f \<and> \<not> fc_deliberate_integrity_violation f
     \<and> \<not> fc_disk_quota_failure f \<and> \<not> fc_control_plane_failure f \<and> exhausted_dimension c = None"
proof -
  from assms have blocked: "route_no_op f c same_count remaining
      (route_owner_retry f c same_count (route_transient f c same_count
        (route_adjustment f c (route_repair f c remaining)))) = Inr r"
      "\<not> fc_candidate_integrity_violation f \<and> \<not> fc_deliberate_integrity_violation f
     \<and> \<not> fc_disk_quota_failure f \<and> \<not> fc_control_plane_failure f \<and> exhausted_dimension c = None"
    unfolding route_of_def by (blast dest: route_blocked_repair)+
  show ?thesis
  proof (cases "fc_failure_class f = ''no_op''")
    case True
    with blocked assms(2) show ?thesis
      by (auto simp: route_no_op_def plain_route_def split: if_splits)
  next
    case False
    with blocked(1) assms(2) have "route_owner_retry f c same_count (route_transient f c same_count
        (route_adjustment f c (route_repair f c remaining))) = Inr r"
      by (auto simp: route_no_op_def plain_route_def split: if_splits)
    with route_rest_repair assms(2) blocked(2) show ?thesis by blast
  qed
qed

section \<open>Integrity violations\<close>

lemma route_of_candidate:
  "fc_candidate_integrity_violation f
   \<Longrightarrow> route_of f c same_count remaining = Inr (route_candidate_integrity f c same_count remaining)"
  by (simp add: route_of_def route_blocked_def)

lemma route_of_deliberate:
  "fc_deliberate_integrity_violation f \<Longrightarrow> \<not> fc_candidate_integrity_violation f
   \<Longrightarrow> route_of f c same_count remaining = Inr (abandon ''INTEGRITY_VIOLATION''
         ''Abandon: the failure crosses a protected integrity boundary.'')"
  by (simp add: route_of_def route_blocked_def)

text \<open>The clean restart is granted for candidate-scoped findings only.\<close>

lemma not_restart:
  "ro_action (same_commit_retry c) \<noteq> Recovery_RESTART_FROM_TRUSTED_PARENT"
  by (simp add: same_commit_retry_def plain_route_def)

lemma route_of_restart:
  assumes "route_of f c same_count remaining = Inr r"
    and "ro_action r = Recovery_RESTART_FROM_TRUSTED_PARENT"
  shows "fc_candidate_integrity_violation f \<and> same_count < 2 \<and> 0 < remaining"
proof (cases "fc_candidate_integrity_violation f")
  case True
  with assms show ?thesis
    by (auto simp: route_of_candidate route_candidate_integrity_def plain_route_def split: if_splits)
next
  case False
  from assms have "route_owner_retry f c same_count (route_transient f c same_count
        (route_adjustment f c (route_repair f c remaining))) = Inr r"
    using False
    by (auto simp: route_of_def route_blocked_def route_no_op_def plain_route_def
        split: if_splits option.splits)
  then have "route_adjustment f c (route_repair f c remaining) = Inr r"
    using assms(2) not_restart
    by (auto simp: route_owner_retry_def route_transient_def plain_route_def split: if_splits)
  then show ?thesis
    using assms(2) not_restart
    by (auto simp: route_adjustment_def route_repair_def plain_route_def raise_simps
        split: option.splits if_splits)
qed

section \<open>Adjustments\<close>

lemma route_of_adjust:
  assumes "route_of f c same_count remaining = Inr r"
    and "ro_action r = Recovery_ADJUST_APPROVED_RUNTIME_SETTING"
  shows "\<exists>a. select_runtime_adjustment (fc_failure_class f) c = Inr (Some a)
    \<and> ro_adjustments r = [(ra_name a, ra_value a)]"
proof -
  have other: "ro_action (same_commit_retry c) \<noteq> Recovery_ADJUST_APPROVED_RUNTIME_SETTING"
    by (simp add: same_commit_retry_def plain_route_def)
  from assms have "route_owner_retry f c same_count (route_transient f c same_count
        (route_adjustment f c (route_repair f c remaining))) = Inr r"
    by (auto simp: route_of_def route_blocked_def route_candidate_integrity_def route_no_op_def
        plain_route_def split: if_splits option.splits)
  then have adjust: "route_adjustment f c (route_repair f c remaining) = Inr r"
    using assms(2) other
    by (auto simp: route_owner_retry_def route_transient_def plain_route_def split: if_splits)
  moreover have "route_repair f c remaining \<noteq> Inr r"
    using assms(2) other by (auto simp: route_repair_def plain_route_def split: if_splits)
  ultimately show ?thesis
    by (auto simp: route_adjustment_def raise_simps split: option.splits if_splits)
qed

section \<open>The lesson\<close>

lemma operational_lesson_valid:
  assumes "0 \<le> x" and "x \<le> 1" and "list_all nonempty_str tags"
    and "nonempty_str summary" and "nonempty_str applicability"
    and "visible event" and "visible commit"
  shows "valid_lesson_candidate (strip_lesson
    (operational_lesson category tags summary applicability avoid_when x event commit))"
  using assms fl_unit [of x]
  by (auto simp: valid_lesson_candidate_def strip_lesson_def operational_lesson_def visible_strip)

lemma lesson_valid:
  assumes "visible event" and "visible (rpc_current_patch_commit_sha c)"
  shows "opt_ok valid_lesson_candidate
    (map_option strip_lesson (build_operational_lesson f c exhausted event))"
  using assms
  by (simp add: build_operational_lesson_def Let_def opt_ok_def operational_lesson_valid
      nonempty_strI py_isspace_def)

end
