(* ===== verification/Recovery_Properties.thy ===== *)
theory Recovery_Properties
  imports Recovery_Routing Recovery_Facts Lifecycle_Properties
begin

text \<open>
  The properties of recovery: the policy answers every recoverable failure except a
  cancelled run, its answer is one
  the transition validator admits, an edit of the candidate is granted at most once per failure
  and never for an integrity violation, and an adjustment is one frozen setting that is new.
\<close>

section \<open>The decision and its route\<close>

lemma decideD:
  assumes "decide sha k v c = Inr d"
  obtains f r where "classify_failure sha v = Inr f" and "k = rpc_failure_event_id c"
    and "route_of f c (same_error_count c (fc_fingerprint f)) (rpc_remaining_repair_budget c) = Inr r"
    and "rn_action d = ro_action r" and "rn_runtime_adjustments d = ro_adjustments r"
    and "rn_same_error_count d = same_error_count c (fc_fingerprint f)"
    and "rn_remaining_repair_budget d = rpc_remaining_repair_budget c
      - (if decided_action (ro_action r) then 1 else 0)"
    and "rn_repair_attempt d = min (max 1 (rpc_repair_attempts_used c + 1))
      (max 1 (min MAX_REPAIR_ATTEMPTS (rpc_max_repair_attempts c)))"
    and "rn_experiment_id d = py_strip (rpc_experiment_id c)"
    and "rn_failure_event_id d = py_strip k" and "rn_reason_code d = py_strip (ro_reason r)"
    and "valid_recovery_decision d"
proof -
  from assms obtain f r where "classify_failure sha v = Inr f" and "k = rpc_failure_event_id c"
    and "route_of f c (same_error_count c (fc_fingerprint f)) (rpc_remaining_repair_budget c) = Inr r"
    by (auto simp: decide_def raise_simps Let_def)
  with assms show thesis
    by (intro that [of f r]) (auto simp: decide_def make_recovery_decision_def raise_simps Let_def)
qed

lemma same_error_count_first:
  "same_error_count c fp < 2 \<longleftrightarrow> fp \<notin> set (rpc_previous_error_fingerprints c)"
proof -
  have "count_list (rpc_previous_error_fingerprints c) fp = 0
      \<longleftrightarrow> fp \<notin> set (rpc_previous_error_fingerprints c)"
    by (rule count_list_0_iff)
  then show ?thesis by (simp add: same_error_count_def)
qed

lemma same_error_count_nonneg: "0 \<le> same_error_count c fp"
  by (simp add: same_error_count_def)

section \<open>The policy always answers\<close>

lemma decide_returns:
  assumes c: "valid_recovery_policy_context c" and "history_ok (rpc_attempt_history c)"
    and "recoverable_value v" and k: "k = rpc_failure_event_id c"
  shows "\<exists>d. decide sha k v c = Inr d"
proof -
  obtain f where f: "classify_failure sha v = Inr f" using classify_returns assms(3) by blast
  let ?same = "same_error_count c (fc_fingerprint f)" and ?rem = "rpc_remaining_repair_budget c"
  obtain r where r: "route_of f c ?same ?rem = Inr r" using route_of_returns assms(2) by blast
  then have ok: "route_ok c ?rem r" by (rule route_of_ok)
  have ids: "nonempty_str (rpc_run_id c)" "nonempty_str (rpc_experiment_id c)"
    "nonempty_str (rpc_failure_event_id c)" "nonempty_str (rpc_current_patch_commit_sha c)"
    "0 \<le> ?rem" using c by (simp_all add: valid_recovery_policy_context_def)
  then have lesson: "opt_ok valid_lesson_candidate (map_option strip_lesson
      (build_operational_lesson f c (ro_action r = Recovery_ABANDON) k))"
    using k by (intro lesson_valid) (simp_all add: nonempty_visible)
  have "k \<noteq> []" using ids(3) k by (simp add: nonempty_str_def)
  moreover have "ro_adjustments r = [] \<or> length (ro_adjustments r) = Suc 0"
    using ok by (cases "ro_adjustments r") (simp_all add: route_ok_def)
  moreover have "decided_action (ro_action r) \<longrightarrow> 1 \<le> ?rem" "visible (ro_reason r)"
    "visible (ro_instructions r)" "valid_runtime_mapping (ro_adjustments r)"
    "(ro_action r = Recovery_ADJUST_APPROVED_RUNTIME_SETTING) = (ro_adjustments r \<noteq> [])"
    using ok by (auto simp: route_ok_def)
  ultimately show ?thesis using f r k ids lesson
    by (simp add: decide_def make_recovery_decision_def Let_def raise_simps valid_recovery_decision_def
        visible_strip same_error_count_nonneg split del: if_split) (simp split: if_split)
qed

text \<open>The result of the latest recoverable failure is one the classifier takes, or a cancelled run.\<close>

fun cancelled_run :: "failed_value \<Rightarrow> bool" where
  "cancelled_run (Failed_run r) \<longleftrightarrow> rr_outcome r = Outcome_CANCELLED"
| "cancelled_run _ \<longleftrightarrow> False"

lemma latest_failure_value:
  assumes "legal_ledger dg es" and "latest_recoverable_failure es i = Some e"
  shows "\<exists>v. payload_result (payload e) = Some v \<and> (recoverable_value v \<longleftrightarrow> \<not> cancelled_run v)"
proof -
  from assms(2) last_such_SomeD have e: "e \<in> set es" "recoverable_failure i e"
    by (fastforce simp: latest_recoverable_failure_def)+
  have "valid_event dg e" using legal_member [OF assms(1) e(1)] by blast
  with e(2) show ?thesis
    by (cases "payload e") (auto simp: recoverable_failure_def valid_event_def valid_adapter_failure_result_def)
qed

lemma cancelled_refused: "cancelled_run v \<Longrightarrow> \<exists>x. decide sha k v c = Inl x"
proof -
  assume "cancelled_run v"
  then have "\<not> recoverable_value v" by (cases v) auto
  then obtain x where "classify_failure sha v = Inl x" using classify_returns by (cases "classify_failure sha v") blast+
  then show ?thesis by (simp add: decide_def guarded_def)
qed

lemma recovery_decision_admitted:
  assumes legal: "legal_ledger dg (es @ [ce])" and ce: "payload ce = Context_created x"
    and s: "project es = Inr s" and node: "node_of s i = Some n" "node_status n = Exp_RECOVERING"
    and running: "\<not> has_stopped es" and failure: "latest_recoverable_failure es i = Some e"
    and decision: "rn_experiment_id d = i" "rn_failure_event_id d = event_id e"
      "rn_remaining_repair_budget d = st_max_repairs s - node_repair_count n - (if consumes_repair (rn_action d) then 1 else 0)"
      "rn_repair_attempt d = min (max 1 (node_repair_count n + 1)) (max 1 (st_max_repairs s))"
      "rn_action d = Recovery_RETRY_SAME_COMMIT \<Longrightarrow> node_same_commit_retry_count n < MAX_SAME_COMMIT_RETRIES"
      "valid_recovery_decision d"
  shows "validate_transition (es @ [ce]) (Recovery_decided d) = Inr ()"
proof -
  from s obtain pj where pj: "project_loop es = Inr pj" "s = finish_projection es (pj_state pj)"
    by (rule project_state)
  have "es \<noteq> []" using node_not_empty s node(1) by auto
  from legal_step [OF legal this pj(1)] obtain pj' where pj': "project_loop (es @ [ce]) = Inr pj'"
    and step: "project_step pj ce = Inr pj'" by metis
  have same: "st_experiments (pj_state pj') = st_experiments (pj_state pj)"
      "st_max_repairs (pj_state pj') = st_max_repairs (pj_state pj)"
    using step_no_subject [OF step] step_limits [OF step] by (simp_all add: ce)
  have "stop_phase_ok (es @ [ce]) pj'" by (rule stop_phase.holds [OF legal _ pj']) simp
  then have status: "st_status (pj_state pj') \<in> {Run_INITIALIZING, Run_READY, Run_RUNNING}"
    using running by (simp add: stop_phase_ok_def has_stopped_def ce)
  have latest: "latest_recoverable_failure (es @ [ce]) i = Some e"
    using failure by (simp add: latest_recoverable_failure_def recoverable_failure_def ce)
  have "check_recovery_decided (es @ [ce]) (finish_projection (es @ [ce]) (pj_state pj')) d = Inr ()"
    using node pj(2) same latest decision
    by (simp add: check_recovery_decided_def raise_simps node_is_def)
  then show ?thesis
    using pj' status by (auto simp: validate_next)
qed

text \<open>
  C14: The recovery policy answers every failure the validator calls recoverable, except a cancelled run.
  Take a legal ledger that ends with the recovery context of an experiment that is recovering while the
  run is not stopped, its latest recoverable failure, and the policy context the router builds for it.  If
  the failure is not a cancelled run, the policy returns a decision, the decision satisfies its schema,
  and the transition validator admits it as the next event; for a cancelled run, which the validator
  admits as a failure to recover from, the policy raises.
\<close>

theorem recovery_decision_accepted:
  assumes legal: "legal_ledger dg (es @ [ce])" and ce: "payload ce = Context_created x"
    and s: "project es = Inr s" and node: "node_of s i = Some n" "node_status n = Exp_RECOVERING"
    and running: "\<not> has_stopped es"
    and failure: "latest_recoverable_failure es i = Some e" "payload_result (payload e) = Some v"
    and c: "policy_context sha cfg allowed summary own (es @ [ce]) s i (event_id e) v = Inr c"
  shows "if cancelled_run v then \<exists>x. decide sha (event_id e) v c = Inl x
    else \<exists>d. decide sha (event_id e) v c = Inr d \<and> valid_recovery_decision d
      \<and> validate_transition (es @ [ce]) (Recovery_decided d) = Inr ()"
proof (cases "cancelled_run v")
  case True
  then show ?thesis using cancelled_refused by simp
next
  case False
  then have recoverable: "recoverable_value v"
    using latest_failure_value [OF legal_prefix [OF legal] failure(1)] failure(2) by auto
  note ctx = policy_contextD(1) [OF c node(1)] and c' = policy_contextD(2-) [OF c node(1)]
  have remaining: "rpc_remaining_repair_budget c = st_max_repairs s - node_repair_count n"
    "st_max_repairs s \<le> 2" and ids: "nonempty_str i" "nonempty_str (event_id e)"
    using ctx c' by (auto simp: valid_recovery_policy_context_def)
  have "history_ok (rpc_attempt_history c)" by (simp only: c' attempt_history_ok)
  from decide_returns [OF ctx this recoverable c'(1) [symmetric]]
  obtain d where d: "decide sha (event_id e) v c = Inr d" ..
  from d obtain f r where fr: "route_of f c (same_error_count c (fc_fingerprint f))
      (rpc_remaining_repair_budget c) = Inr r" "rn_action d = ro_action r"
    and fields: "rn_remaining_repair_budget d = rpc_remaining_repair_budget c
      - (if decided_action (ro_action r) then 1 else 0)"
      "rn_repair_attempt d = min (max 1 (rpc_repair_attempts_used c + 1))
      (max 1 (min MAX_REPAIR_ATTEMPTS (rpc_max_repair_attempts c)))"
      "valid_recovery_decision d"
    and subjects: "rn_experiment_id d = py_strip (rpc_experiment_id c)"
      "rn_failure_event_id d = py_strip (event_id e)"
    by (elim decideD) blast
  have named: "rn_experiment_id d = i" "rn_failure_event_id d = event_id e"
    using subjects ids c'(2) by simp_all
  have retry: "rn_action d = Recovery_RETRY_SAME_COMMIT
      \<Longrightarrow> node_same_commit_retry_count n < MAX_SAME_COMMIT_RETRIES"
    using route_of_ok [OF fr(1)] fr(2) c'
    by (simp add: route_ok_def SAME_COMMIT_RETRIES_def MAX_SAME_COMMIT_RETRIES_def)
  have "rn_repair_attempt d = min (max 1 (node_repair_count n + 1)) (max 1 (st_max_repairs s))"
    "rn_remaining_repair_budget d = st_max_repairs s - node_repair_count n - (if consumes_repair (rn_action d) then 1 else 0)"
    using fields remaining c' fr(2) by (simp_all add: MAX_REPAIR_ATTEMPTS_def consumes_repair_def decided_action_def)
  from recovery_decision_admitted [OF legal ce s node running failure(1) named this(2,1) retry]
  have "validate_transition (es @ [ce]) (Recovery_decided d) = Inr ()" using fields(3) by blast
  with d fields(3) False show ?thesis by auto
qed

section \<open>A ledger with a failure\<close>

definition sample_sha :: "string \<Rightarrow> string" where
  "sample_sha _ = ZERO_SHA256"

definition sample_rejection :: "string \<Rightarrow> patch_check_result" where
  "sample_rejection code = (sample_check 1 ''c1'')\<lparr>pk_accepted := False, pk_receipt_id := None,
     pk_receipt_artifact := None,
     pk_violations := [\<lparr>vi_code = code, vi_message = ''m'', vi_path = None\<rparr>]\<rparr>"

definition sample_recovery_context :: recovery_context where
  "sample_recovery_context = context_document.extend (sample_document ''k2'')
    \<lparr>rx_repair_attempt = 1, rx_original_experiment_spec = sample_spec ''x1'' ''d1'',
     rx_current_patch_commit_sha = ''c1'', rx_accepted_patch_receipt_id = None,
     rx_failure_class = ''f'', rx_error_fingerprint = ''f'', rx_error_summary = ''s'',
     rx_relevant_trace_tail = [], rx_failed_checks = [], rx_previous_repair_fingerprints = [],
     rx_recovery_instructions = ''i'', rx_remaining_repair_budget = 2, rx_editable_roots = [],
     rx_protected_paths = []\<rparr>"

definition failed_payloads :: "event_payload list" where
  "failed_payloads = take 7 sample_payloads @
     [Patch_checked (sample_rejection ''INTERFACE_MISMATCH''),
      Context_created (Recovery_context sample_recovery_context)]"

lemma failed_payloads_ok: "list_all (sample_ok dg) failed_payloads"
proof -
  have "list_all (sample_ok dg) (take 7 sample_payloads)"
    using sample_payloads_ok [of dg] by (metis append_take_drop_id list_all_append)
  moreover have "sample_ok dg (Patch_checked (sample_rejection ''INTERFACE_MISMATCH''))"
    by (simp add: sample_rejection_def sample_ok_def sample_defs valid_eval string_eval
        valid_violation_def)
  moreover have "sample_ok dg (Context_created (Recovery_context sample_recovery_context))"
    by (simp add: sample_recovery_context_def sample_ok_def sample_defs valid_eval string_eval
        valid_recovery_context_def recovery_context.defs ZERO_SHA256_ok)
  ultimately show ?thesis by (simp add: failed_payloads_def)
qed

lemma failed_run_accepted: "payloads_legal 1 [] initial_projection failed_payloads"
  by (simp add: failed_payloads_def sample_payloads_def sample_rejection_def sample_recovery_context_def
      recovery_context.defs step_eval check_eval sample_defs cong: weak_congs)

lemma failed_run_legal: "legal_ledger dg (number_events 1 failed_payloads)"
  using failed_run_accepted numbered_valid [OF failed_payloads_ok] by (intro payloads_legal_start) simp_all

lemma failed_at_8:
  "\<exists>s n. project (number_events 1 (take 8 failed_payloads)) = Inr s \<and> node_of s ''x1'' = Some n
    \<and> node_status n = Exp_RECOVERING \<and> node_repair_count n = 0 \<and> node_same_commit_retry_count n = 0
    \<and> current_commit n = ''c1'' \<and> st_max_repairs s = 2"
  by (simp add: failed_payloads_def sample_payloads_def sample_rejection_def project_def project_loop_def
      step_eval sample_defs current_commit_def or_else_def truthy_str_def cong: weak_congs)

lemma fl_7: "fl 7 = 7"
  using is_float_pow2_mult [of 7 0] by (simp add: is_float_def)

lemma sample_state_at_8:
  "\<exists>s n. project (number_events 1 (take 8 failed_payloads)) = Inr s \<and> node_of s ''x1'' = Some n
    \<and> node_repair_count n = 0 \<and> node_same_commit_retry_count n = 0
    \<and> current_commit n = ''c1'' \<and> st_max_repairs s = 2 \<and> 0 < remaining_experiments s
    \<and> \<lfloor>st_elapsed_wall_time_seconds s\<rfloor> < st_wall_time_limit_seconds s"
  by (simp add: failed_payloads_def sample_payloads_def sample_rejection_def project_def project_loop_def
      step_eval sample_defs current_commit_def or_else_def truthy_str_def finish_projection_def
      elapsed_seconds_def remaining_experiments_def fl_7 cong: weak_congs)

definition sample_config :: run_config where
  "sample_config = \<lparr>cfg_max_experiments = 4, cfg_wall_time_limit_seconds = 3600,
     cfg_token_limit = None, cfg_gpu_seconds_limit = None, cfg_convergence_epsilon = 0,
     cfg_convergence_patience = 3\<rparr>"

lemma failed_policy_context:
  assumes "node_of s ''x1'' = Some n" and "node_repair_count n = 0" and "node_same_commit_retry_count n = 0"
    and "current_commit n = ''c1''" and "st_max_repairs s = 2" and "valid_runtime_mapping allowed"
  shows "\<exists>c. policy_context sha sample_config allowed ''s'' ''r'' (number_events 1 failed_payloads) s ''x1''
    (event_id_of 8) v = Inr c \<and> rpc_previous_error_fingerprints c = []
    \<and> rpc_allowed_runtime_adjustments c = allowed \<and> rpc_current_runtime_settings c = []
    \<and> rpc_attempt_history c = [] \<and> rpc_remaining_run_budget c = remaining_run_budget sample_config s"
proof -
  let ?es = "number_events 1 failed_payloads"
  have spec: "experiment_spec_of ?es ''x1'' = Inr (sample_spec ''x1'' ''d1'')"
    by (simp add: experiment_spec_of_def failed_payloads_def sample_payloads_def map_filter_def
        first_such_def sample_spec_def)
  have history: "attempt_history ?es ''x1'' (event_id_of 8) = []"
    by (simp add: attempt_history_def failed_payloads_def sample_payloads_def map_filter_def decision_for_def)
  have previous: "previous_failure_fingerprints sha ?es ''x1'' (event_id_of 8) = []"
    by (simp add: previous_failure_fingerprints_def failed_payloads_def sample_payloads_def map_filter_def
        prior_failure_def sample_defs)
  have settings: "current_runtime_settings ?es ''x1'' (event_id_of 8) = []"
    by (simp add: current_runtime_settings_def failed_payloads_def sample_payloads_def map_filter_def
        request_for_def)
  have spec_ok: "valid_experiment_spec (sample_spec ''x1'' ''d1'')"
    by (simp add: sample_defs valid_eval string_eval)
  have texts: "nonempty_str ''x1''" "nonempty_str ''r''" "nonempty_str ''s''" "nonempty_str ''c1''"
    by (simp_all add: string_eval)
  have no_settings: "valid_runtime_mapping []" by (simp add: valid_runtime_mapping_def dkeys_def)
  have "valid_recovery_policy_context (raw_policy_context sha sample_config allowed ''s'' ''r'' ?es s n
      (sample_spec ''x1'' ''d1'') ''x1'' (event_id_of 8) v)"
    using assms spec_ok texts no_settings
    by (simp add: valid_recovery_policy_context_def raw_policy_context_def history previous settings
        event_id_of_nonempty remaining_run_budget_def sample_config_def dict_ok_def dkeys_def
        del: One_nat_def)
  with assms(1) spec show ?thesis
    by (simp add: policy_context_def Let_def history previous settings raw_policy_context_def del: One_nat_def)
qed

theorem recovery_decision_accepted_witness:
  "\<exists>s c d. policy_context sample_sha sample_config [] ''s'' ''r'' (number_events 1 failed_payloads) s ''x1''
      (event_id_of 8) (Failed_patch (sample_rejection ''INTERFACE_MISMATCH'')) = Inr c
    \<and> decide sample_sha (event_id_of 8) (Failed_patch (sample_rejection ''INTERFACE_MISMATCH'')) c = Inr d
    \<and> validate_transition (number_events 1 failed_payloads) (Recovery_decided d) = Inr ()"
proof -
  let ?es = "number_events 1 (take 8 failed_payloads)"
  let ?ce = "sample_event 9 (Context_created (Recovery_context sample_recovery_context))"
  let ?e = "sample_event 8 (Patch_checked (sample_rejection ''INTERFACE_MISMATCH''))"
  let ?v = "Failed_patch (sample_rejection ''INTERFACE_MISMATCH'')"
  have split: "number_events 1 failed_payloads = ?es @ [?ce]"
    by (simp add: failed_payloads_def sample_payloads_def numeral_eq_Suc)
  have legal: "legal_ledger sample_dg (?es @ [?ce])" using failed_run_legal split by simp
  from failed_at_8 obtain s n where s: "project ?es = Inr s" "node_of s ''x1'' = Some n"
    "node_status n = Exp_RECOVERING" and n: "node_repair_count n = 0" "node_same_commit_retry_count n = 0"
    "current_commit n = ''c1''" "st_max_repairs s = 2" by blast
  have running: "\<not> has_stopped ?es"
    by (simp add: has_stopped_def failed_payloads_def sample_payloads_def)
  have latest: "latest_recoverable_failure ?es ''x1'' = Some ?e"
    by (simp add: latest_recoverable_failure_def failed_payloads_def sample_payloads_def last_such_def
        recoverable_failure_def sample_rejection_def sample_check_def numeral_eq_Suc)
  have "valid_runtime_mapping []" by (simp add: valid_runtime_mapping_def dkeys_def)
  from failed_policy_context [OF s(2) n this] obtain c where
    c: "policy_context sample_sha sample_config [] ''s'' ''r'' (?es @ [?ce]) s ''x1'' (event_id ?e) ?v = Inr c"
    by (simp only: split [symmetric] sample_event_simps) blast
  have "payload ?ce = Context_created (Recovery_context sample_recovery_context)"
    and "payload_result (payload ?e) = Some ?v"
    by simp_all
  from recovery_decision_accepted [OF legal this(1) s running latest this(2) c]
  have "\<exists>d. decide sample_sha (event_id ?e) ?v c = Inr d \<and> valid_recovery_decision d
      \<and> validate_transition (?es @ [?ce]) (Recovery_decided d) = Inr ()"
    by (simp only: cancelled_run.simps if_False)
  then show ?thesis using c by (simp only: split [symmetric] sample_event_simps) blast
qed

text \<open>The policy context of the sample failure, for any result and allow-list.\<close>

lemma sample_context:
  assumes "valid_runtime_mapping allowed"
  obtains s n c where "project (number_events 1 (take 8 failed_payloads)) = Inr s"
    and "node_of s ''x1'' = Some n" and "policy_context sample_sha sample_config allowed ''s'' ''r''
      (number_events 1 failed_payloads) s ''x1'' (event_id_of 8) v = Inr c"
    and "rpc_previous_error_fingerprints c = []" and "rpc_allowed_runtime_adjustments c = allowed"
    and "rpc_current_runtime_settings c = []" and "rpc_attempt_history c = []"
    and "rpc_failure_event_id c = event_id_of 8" and "valid_recovery_policy_context c"
    and "rpc_remaining_repair_budget c = 2" and "exhausted_dimension c = None"
    and "rpc_failure_stage c = failure_stage_of v"
proof -
  from sample_state_at_8 obtain s n where s: "project (number_events 1 (take 8 failed_payloads)) = Inr s"
    "node_of s ''x1'' = Some n" and n: "node_repair_count n = 0" "node_same_commit_retry_count n = 0"
    "current_commit n = ''c1''" "st_max_repairs s = 2" and b: "0 < remaining_experiments s"
    "\<lfloor>st_elapsed_wall_time_seconds s\<rfloor> < st_wall_time_limit_seconds s" by blast
  from failed_policy_context [OF s(2) n assms] obtain c where c: "policy_context sample_sha sample_config
      allowed ''s'' ''r'' (number_events 1 failed_payloads) s ''x1'' (event_id_of 8) v = Inr c"
    "rpc_previous_error_fingerprints c = []" "rpc_allowed_runtime_adjustments c = allowed"
    "rpc_current_runtime_settings c = []" "rpc_attempt_history c = []"
    "rpc_remaining_run_budget c = remaining_run_budget sample_config s" by blast
  note d = policy_contextD [OF c(1) s(2)]
  have "rpc_remaining_repair_budget c = 2" using d n by (simp add: valid_recovery_policy_context_def)
  moreover have "exhausted_dimension c = None"
    using b by (simp add: exhausted_dimension_def c(6) remaining_run_budget_def sample_config_def
        first_such_def)
  moreover have "rpc_failure_stage c = failure_stage_of v"
    using c(1) by (auto simp: policy_context_def raise_simps Let_def raw_policy_context_def)
  ultimately show thesis using that [OF s c(1-5) d(2,1)] by simp
qed

text \<open>A modified protected path is answered by a clean restart the first time.\<close>

abbreviation sample_violation :: failed_value where
  "sample_violation \<equiv> Failed_patch (sample_rejection ''PROTECTED_PATH_MODIFIED'')"

lemma sample_candidate_integrity: "candidate_integrity sample_violation"
  by (simp add: candidate_integrity_def integrity_codes_def violation_codes_def sample_rejection_def
      CANDIDATE_SCOPED_INTEGRITY_CODES_def py_upper_def upper_char_def py_strip_def py_isspace_def)

lemma sample_restart:
  assumes "valid_recovery_policy_context c" and "rpc_failure_event_id c = k"
    and "rpc_attempt_history c = []" and "rpc_previous_error_fingerprints c = []"
    and "rpc_remaining_repair_budget c = 2"
  shows "\<exists>d. decide sha k sample_violation c = Inr d \<and> rn_action d = Recovery_RESTART_FROM_TRUSTED_PARENT"
proof -
  have "history_ok (rpc_attempt_history c)" by (simp add: assms(3) history_ok_def)
  moreover have "recoverable_value sample_violation" by (simp add: sample_rejection_def)
  ultimately obtain d where d: "decide sha k sample_violation c = Inr d"
    using decide_returns [OF assms(1)] assms(2) by metis
  then obtain f r where f: "classify_failure sha sample_violation = Inr f"
    and r: "route_of f c (same_error_count c (fc_fingerprint f)) (rpc_remaining_repair_budget c) = Inr r"
      "rn_action d = ro_action r" by (elim decideD) blast
  have "fc_candidate_integrity_violation f" using classify_fields [OF f] sample_candidate_integrity by simp
  with r assms(4,5) d show ?thesis
    by (auto simp: route_of_candidate route_candidate_integrity_def same_error_count_def plain_route_def)
qed

section \<open>Repairs, integrity and adjustments\<close>

text \<open>
  C15: A repair of the candidate, or a clean restart, is granted only for the first occurrence of a
  failure: no earlier failure of the experiment in the ledger has the same fingerprint, whatever
  fingerprint its adapter claimed; a repair was left in the budget and one is charged.
\<close>

theorem repairs_answer_first_failures:
  assumes "policy_context sha cfg allowed summary own es s i (event_id e) v = Inr c"
    and "node_of s i = Some n" and "decide sha (event_id e) v c = Inr d"
    and "rn_action d = Recovery_TRAE_REPAIR \<or> rn_action d = Recovery_RESTART_FROM_TRUSTED_PARENT"
  shows "(\<forall>e' w. e' \<in> set (events_before es (event_id e)) \<and> prior_failure i e' = Some w
        \<longrightarrow> fingerprint_result sha w \<noteq> fingerprint_result sha v)
    \<and> rn_same_error_count d = 1 \<and> node_repair_count n < st_max_repairs s
    \<and> rn_remaining_repair_budget d = st_max_repairs s - node_repair_count n - 1"
proof -
  from assms(3) obtain f r where f: "classify_failure sha v = Inr f"
    and r: "route_of f c (same_error_count c (fc_fingerprint f)) (rpc_remaining_repair_budget c) = Inr r"
      "rn_action d = ro_action r" "rn_same_error_count d = same_error_count c (fc_fingerprint f)"
      "rn_remaining_repair_budget d = rpc_remaining_repair_budget c
        - (if decided_action (ro_action r) then 1 else 0)"
    by (elim decideD) blast
  have charged: "decided_action (ro_action r)" using assms(4) r(2) by (auto simp: decided_action_def)
  have first: "same_error_count c (fc_fingerprint f) < 2" "0 < rpc_remaining_repair_budget c"
    using assms(4) r(2) route_of_repair [OF r(1)] route_of_restart [OF r(1)] by auto
  have fp: "fc_fingerprint f = fingerprint_result sha v" using classify_fields [OF f] by blast
  have left: "rpc_remaining_repair_budget c = st_max_repairs s - node_repair_count n"
    using policy_contextD(1,4,5) [OF assms(1,2)] by (simp add: valid_recovery_policy_context_def)
  have none: "fingerprint_result sha v \<notin> set (previous_failure_fingerprints sha es i (event_id e))"
    using first(1) policy_contextD(8) [OF assms(1,2)] fp by (simp add: same_error_count_first)
  then have "\<forall>e' w. e' \<in> set (events_before es (event_id e)) \<and> prior_failure i e' = Some w
        \<longrightarrow> fingerprint_result sha w \<noteq> fingerprint_result sha v"
    by (force simp: previous_failure_fingerprints_def map_filter_def)
  moreover have "rn_same_error_count d = 1"
    using first(1) r(3) by (simp add: same_error_count_def)
  ultimately show ?thesis using first(2) left r(4) charged by simp
qed

theorem repairs_answer_first_failures_witness:
  "\<exists>s n c d. policy_context sample_sha sample_config [] ''s'' ''r'' (number_events 1 failed_payloads) s
      ''x1'' (event_id_of 8) sample_violation = Inr c \<and> node_of s ''x1'' = Some n
    \<and> decide sample_sha (event_id_of 8) sample_violation c = Inr d \<and> node_repair_count n < st_max_repairs s
    \<and> rn_same_error_count d = 1"
proof -
  let ?e = "sample_event 8 (Patch_checked (sample_rejection ''INTERFACE_MISMATCH''))"
  have "valid_runtime_mapping []" by (simp add: valid_runtime_mapping_def dkeys_def)
  then obtain s n c where s: "node_of s ''x1'' = Some n" "policy_context sample_sha sample_config [] ''s''
      ''r'' (number_events 1 failed_payloads) s ''x1'' (event_id_of 8) sample_violation = Inr c"
    and c: "rpc_previous_error_fingerprints c = []" "rpc_attempt_history c = []"
      "rpc_failure_event_id c = event_id_of 8" "valid_recovery_policy_context c"
      "rpc_remaining_repair_budget c = 2"
    by (rule sample_context [of "[]" sample_violation]) blast
  from sample_restart [OF c(4,3,2,1,5)] obtain d where d: "decide sample_sha (event_id_of 8) sample_violation c = Inr d"
    "rn_action d = Recovery_RESTART_FROM_TRUSTED_PARENT" by blast
  with repairs_answer_first_failures [where e = ?e, unfolded sample_event_simps, OF s(2,1) d(1)] s
  show ?thesis by blast
qed

text \<open>
  C16: Integrity findings are never handed to the coding worker as an edit of the rejected
  candidate.  A candidate-scoped finding is answered by a clean restart or by abandoning the
  experiment; a leaked secret by abandoning with the reason that stops the run; a finding that
  questions the gates' own evidence never by a repair; and a clean restart answers nothing else.
\<close>

theorem integrity_never_edited:
  assumes "decide sha k v c = Inr d"
  shows "(candidate_integrity v \<longrightarrow>
      rn_action d \<in> {Recovery_RESTART_FROM_TRUSTED_PARENT, Recovery_ABANDON})
    \<and> (''SECRET_DETECTED'' \<in> set (violation_codes v) \<and> \<not> candidate_integrity v \<longrightarrow>
      rn_action d = Recovery_ABANDON \<and> rn_reason_code d = ''INTEGRITY_VIOLATION'')
    \<and> (rn_action d = Recovery_TRAE_REPAIR \<longrightarrow> \<not> invariant_failure v
      \<and> set (violation_codes v) \<inter> set DELIBERATE_INTEGRITY_CODES = {})
    \<and> (rn_action d = Recovery_RESTART_FROM_TRUSTED_PARENT \<longrightarrow> candidate_integrity v)"
proof -
  from assms obtain f r where f: "classify_failure sha v = Inr f"
    and r: "route_of f c (same_error_count c (fc_fingerprint f)) (rpc_remaining_repair_budget c) = Inr r"
      "rn_action d = ro_action r" "rn_reason_code d = py_strip (ro_reason r)"
    by (elim decideD) blast
  have cand: "fc_candidate_integrity_violation f = candidate_integrity v"
    using classify_fields [OF f] by blast
  have "candidate_integrity v \<Longrightarrow> rn_action d \<in> {Recovery_RESTART_FROM_TRUSTED_PARENT, Recovery_ABANDON}"
    using r cand by (auto simp: route_of_candidate route_candidate_integrity_def plain_route_def
        split: if_splits)
  moreover have "rn_action d = Recovery_ABANDON \<and> rn_reason_code d = ''INTEGRITY_VIOLATION''"
    if "''SECRET_DETECTED'' \<in> set (violation_codes v)" "\<not> candidate_integrity v"
  proof -
    have "fc_deliberate_integrity_violation f"
      using classify_deliberate [OF f that(1)] by (simp add: candidate_codes_deliberate)
    with r cand that(2) have "r = abandon ''INTEGRITY_VIOLATION''
         ''Abandon: the failure crosses a protected integrity boundary.''"
      by (simp add: route_of_deliberate)
    with r show ?thesis by (simp add: plain_route_def py_strip_def py_isspace_def)
  qed
  moreover have "\<not> invariant_failure v \<and> set (violation_codes v) \<inter> set DELIBERATE_INTEGRITY_CODES = {}"
    if "rn_action d = Recovery_TRAE_REPAIR"
    using route_of_repair [OF r(1)] that r(2) classify_invariant [OF f] classify_deliberate [OF f] by auto
  moreover have "rn_action d = Recovery_RESTART_FROM_TRUSTED_PARENT \<Longrightarrow> candidate_integrity v"
    using route_of_restart [OF r(1)] r(2) cand by simp
  ultimately show ?thesis by blast
qed

theorem integrity_never_edited_witness:
  "\<exists>c d. decide sample_sha (event_id_of 8) sample_violation c = Inr d
    \<and> rn_action d \<in> {Recovery_RESTART_FROM_TRUSTED_PARENT, Recovery_ABANDON}"
proof -
  have "valid_runtime_mapping []" by (simp add: valid_runtime_mapping_def dkeys_def)
  then obtain c where c: "rpc_previous_error_fingerprints c = []" "rpc_attempt_history c = []"
      "rpc_failure_event_id c = event_id_of 8" "valid_recovery_policy_context c"
      "rpc_remaining_repair_budget c = 2"
    by (rule sample_context [of "[]" sample_violation]) blast
  from sample_restart [OF c(4,3,2,1,5)] obtain d where
    d: "decide sample_sha (event_id_of 8) sample_violation c = Inr d" by blast
  with integrity_never_edited [OF d] sample_candidate_integrity show ?thesis by blast
qed

text \<open>
  C17: A runtime adjustment is one setting of the frozen allow-list with the frozen next value,
  different from the setting the experiment ran with; the router's own check of it can fail only
  for a timeout profile that the configuration does not define.
\<close>

theorem adjustments_are_frozen:
  assumes "decide sha k v c = Inr d" and "rn_action d = Recovery_ADJUST_APPROVED_RUNTIME_SETTING"
  shows "\<exists>name raw. rn_runtime_adjustments d = [(name, next_value raw)]
    \<and> dget (rpc_allowed_runtime_adjustments c) name = Some raw
    \<and> \<not> scalar_eq (next_value raw) (get_value (rpc_current_runtime_settings c) name)
    \<and> (validate_runtime_adjustments (rpc_allowed_runtime_adjustments c) profiles (rn_runtime_adjustments d)
         = Inr () \<longleftrightarrow> (name = ''timeout_profile'' \<longrightarrow> (\<exists>p \<in> set profiles. next_value raw = PyStr p)))"
proof -
  from assms(1) obtain f r where r: "route_of f c (same_error_count c (fc_fingerprint f))
      (rpc_remaining_repair_budget c) = Inr r" "rn_action d = ro_action r"
      "rn_runtime_adjustments d = ro_adjustments r"
    by (elim decideD) blast
  from route_of_adjust [OF r(1)] r(2) assms(2) obtain a where
    a: "select_runtime_adjustment (fc_failure_class f) c = Inr (Some a)"
      "ro_adjustments r = [(ra_name a, ra_value a)]" by auto
  from select_ok [OF a(1)] obtain raw where raw:
    "dget (rpc_allowed_runtime_adjustments c) (ra_name a) = Some raw" "ra_value a = next_value raw"
    "\<not> scalar_eq (ra_value a) (get_value (rpc_current_runtime_settings c) (ra_name a))" by blast
  with a r(3) show ?thesis
    by (intro exI [of _ "ra_name a"] exI [of _ raw])
      (auto simp: validate_runtime_adjustments_def validate_adjustment_def raise_simps)
qed

definition sample_oom :: failed_value where
  "sample_oom = Failed_run ((sample_result 1 ''c1'')\<lparr>rr_outcome := Outcome_OOM,
     rr_error_class := Some ''oom'', rr_error_summary := Some ''oom'', rr_prediction_artifact := None\<rparr>)"

lemmas sample_text_eval = py_lower_def py_upper_def lower_char_def upper_char_def py_startswith_def
  any_in_def py_strip_def py_isspace_def

lemma sample_oom_class:
  "\<exists>f. classify_failure sha sample_oom = Inr f \<and> fc_failure_class f = ''oom''
    \<and> \<not> fc_candidate_integrity_violation f \<and> \<not> fc_deliberate_integrity_violation f
    \<and> \<not> fc_disk_quota_failure f \<and> \<not> fc_control_plane_failure f \<and> fc_owner f = ''execution_runner''
    \<and> \<not> fc_owner_retryable f"
  by (simp add: sample_oom_def classify_failure_def assess_outcome_def Let_def or_else_def truthy_str_def
      deliberate_integrity_def integrity_codes_def violation_codes_def CANDIDATE_SCOPED_INTEGRITY_CODES_def
      DELIBERATE_INTEGRITY_CODES_def DELIBERATE_MARKERS_def disk_quota_def DISK_QUOTA_ERROR_CODES_def
      DISK_MARKERS_def candidate_integrity_def transient_coding_def pass_defs invariant_failure_def
      VERIFIER_PROTOCOL_ERROR_CODES_def TRANSIENT_PROVIDER_ERROR_CODES_def DEFECT_CLASSES_def
      sample_text_eval)

theorem adjustments_are_frozen_witness:
  "\<exists>c d. decide sample_sha (event_id_of 8) sample_oom c = Inr d
    \<and> rpc_allowed_runtime_adjustments c = [(''batch_size'', PyInt 8)]
    \<and> (\<exists>name. rn_runtime_adjustments d = [(name, PyInt 8)])"
proof -
  let ?allowed = "[(''batch_size'', PyInt 8)]"
  have ok: "valid_runtime_mapping ?allowed"
    by (simp add: valid_runtime_mapping_def dict_ok_def dkeys_def RUNTIME_ADJUSTMENT_KEYS_def
        runtime_value_ok_def)
  obtain c where c: "rpc_allowed_runtime_adjustments c = ?allowed" "rpc_previous_error_fingerprints c = []"
    "rpc_attempt_history c = []" "rpc_failure_event_id c = event_id_of 8"
    "valid_recovery_policy_context c" "rpc_current_runtime_settings c = []"
    "exhausted_dimension c = None" "rpc_failure_stage c = Stage_execution"
    by (rule sample_context [OF ok, of sample_oom]) (simp add: sample_oom_def)
  have "history_ok (rpc_attempt_history c)" by (simp add: c(3) history_ok_def)
  moreover have "recoverable_value sample_oom" by (simp add: sample_oom_def)
  ultimately obtain d where d: "decide sample_sha (event_id_of 8) sample_oom c = Inr d"
    using decide_returns [OF c(5)] c(4) by metis
  then obtain f r where f: "classify_failure sample_sha sample_oom = Inr f"
    and r: "route_of f c (same_error_count c (fc_fingerprint f)) (rpc_remaining_repair_budget c) = Inr r"
      "rn_action d = ro_action r" by (elim decideD) blast
  have flags: "fc_failure_class f = ''oom''" "\<not> fc_candidate_integrity_violation f"
    "\<not> fc_deliberate_integrity_violation f" "\<not> fc_disk_quota_failure f" "\<not> fc_control_plane_failure f"
    "fc_owner f = ''execution_runner''" "\<not> fc_owner_retryable f"
    using f sample_oom_class [of sample_sha] by auto
  have "select_runtime_adjustment ''oom'' c = Inr (Some \<lparr>ra_name = ''batch_size'', ra_value = PyInt 8\<rparr>)"
    by (simp add: select_runtime_adjustment_def adjustment_preference_def c(1,3,6) valid_value_def
        APPROVED_ADJUSTMENTS_def get_value_def scalar_eq_def)
  with r flags c have "rn_action d = Recovery_ADJUST_APPROVED_RUNTIME_SETTING"
    by (auto simp: route_of_def route_blocked_def route_no_op_def route_owner_retry_def
        route_transient_def route_adjustment_def same_error_count_def)
  from adjustments_are_frozen [OF d this, of "[]"] c(1) d show ?thesis
    by (auto split: if_splits)
qed

end
