(* ===== verification/Event_Store.thy ===== *)
theory Event_Store
  imports Lifecycle Json Projection
begin

text \<open>
  The append-only ledger file: \<^verbatim>\<open>src/src/tacorank/memory/event_store.py\<close> and
  \<^verbatim>\<open>canonical_json.py\<close>.  A file is absent or a list of bytes; the store's operations are
  functions on it, and one call under the lock is one step.  What the store uses of other code are
  the fields of \<open>event_store\<close>: \<^verbatim>\<open>hashlib.sha256\<close>, \<^verbatim>\<open>json.loads\<close> of the decoded bytes,
  \<^verbatim>\<open>Event.model_validate\<close>, \<^verbatim>\<open>model_dump\<close> of payloads, artifacts and resource
  deltas, and \<^verbatim>\<open>isoformat\<close> of a time; \<open>verify_artifact\<close> is \<^verbatim>\<open>ArtifactStore.verify\<close> and
  \<open>check_transition\<close> the callback that the deployment sets to \<^const>\<open>validate_transition\<close>.
\<close>

section \<open>Canonical JSON\<close>

definition utf8_char :: "char \<Rightarrow> string" where
  "utf8_char c = (let k = of_char c :: nat in
     if k < 128 then [c] else [char_of (192 + k div 64), char_of (128 + k mod 64)])"

definition utf8 :: "string \<Rightarrow> string" where
  "utf8 s = concat (map utf8_char s)"

definition canonical_dumps :: "pyval \<Rightarrow> string" where
  "canonical_dumps v = json_dumps False v"

definition canonical_bytes :: "pyval \<Rightarrow> string" where
  "canonical_bytes v = utf8 (canonical_dumps v)"

definition canonical_sha256 :: "(string \<Rightarrow> string) \<Rightarrow> pyval \<Rightarrow> string" where
  "canonical_sha256 sha v = sha (canonical_bytes v)"

fun event_hash_input :: "pyval \<Rightarrow> pyval" where
  "event_hash_input (PyDict d) = PyDict (filter (\<lambda>(k, v). k \<noteq> ''event_hash'') d)"
| "event_hash_input v = v"

fun dict_item :: "pyval \<Rightarrow> string \<Rightarrow> pyval" where
  "dict_item (PyDict d) k = (case dget d k of None \<Rightarrow> PyNone | Some v \<Rightarrow> v)"
| "dict_item v k = PyNone"

section \<open>The store\<close>

definition GENESIS_HASH :: string where
  "GENESIS_HASH = replicate 64 CHR ''0''"

record event_store =
  sha256 :: "string \<Rightarrow> string"
  json_loads :: "string \<Rightarrow> pyval option"
  event_validate :: "pyval \<Rightarrow> event option"
  payload_dump :: "event_payload \<Rightarrow> pyval"
  artifact_dump :: "artifact_ref \<Rightarrow> pyval"
  delta_dump :: "resource_delta \<Rightarrow> pyval"
  iso_time :: "int \<Rightarrow> string"
  verify_artifact :: "(artifact_ref \<Rightarrow> unit res) option"
  check_transition :: "(event list \<Rightarrow> event_payload \<Rightarrow> unit res) option"

type_synonym ledger_file = "string option"

abbreviation newline :: char where "newline \<equiv> CHR 0x0A"

text \<open>The part of the file up to its last newline.\<close>

definition complete_part :: "string \<Rightarrow> string" where
  "complete_part data = rev (dropWhile (\<lambda>c. c \<noteq> newline) (rev data))"

definition ends_complete :: "string \<Rightarrow> bool" where
  "ends_complete data \<longleftrightarrow> data = [] \<or> last data = newline"

definition repair_tail :: "ledger_file \<Rightarrow> ledger_file" where
  "repair_tail file = (case file of None \<Rightarrow> None
     | Some data \<Rightarrow> Some (if ends_complete data then data else complete_part data))"

definition key_digest :: "string \<Rightarrow> string" where
  "key_digest key = last (split_on CHR '':'' key)"

text \<open>One line of the ledger after the events before it.\<close>

definition bad_line :: exc where
  "bad_line = LedgerCorruptionError ''invalid complete ledger line''"

definition previous_hash :: "event list \<Rightarrow> string" where
  "previous_hash es = (if es = [] then GENESIS_HASH else event_hash (last es))"

definition known_cause :: "event list \<Rightarrow> string option \<Rightarrow> bool" where
  "known_cause es cause \<longleftrightarrow> (truthy_str cause \<longrightarrow> (\<exists>e \<in> set es. cause = Some (event_id e)))"

definition read_line :: "event_store \<Rightarrow> event list \<Rightarrow> string \<Rightarrow> event list res" where
  "read_line st es raw =
     fetch bad_line (json_loads st raw) (\<lambda>decoded.
     fetch bad_line (event_validate st decoded) (\<lambda>e.
     guarded bad_line
       (key_digest (idempotency_key e) = canonical_sha256 (sha256 st) (dict_item decoded ''payload''))
     (guarded (LedgerCorruptionError ''ledger line is not canonical JSON'') (raw = canonical_bytes decoded)
     (guarded (LedgerCorruptionError ''non-contiguous sequence'') (seq e = length es + 1)
     (guarded (LedgerCorruptionError ''prev_event_hash mismatch'') (prev_event_hash e = previous_hash es)
     (guarded (LedgerCorruptionError ''event_hash mismatch'')
       (event_hash e = canonical_sha256 (sha256 st) (event_hash_input decoded))
     (guarded (LedgerCorruptionError ''a ledger may contain only one run_id'')
       (es = [] \<or> run_id e = run_id (hd es))
     (guarded (LedgerCorruptionError ''duplicate idempotency key in ledger'')
       (idempotency_key e \<notin> idempotency_key ` set es)
     (guarded (LedgerCorruptionError ''unknown causation event'') (known_cause es (causation_event_id e))
     (guarded (LedgerCorruptionError ''illegal transition'')
       (case check_transition st of None \<Rightarrow> True | Some check \<Rightarrow> returns (check es (payload e)))
     (Inr (es @ [e]))))))))))))"

definition file_lines :: "string \<Rightarrow> string list" where
  "file_lines data = (if data = [] then [] else split_on newline (butlast data))"

definition read_locked :: "event_store \<Rightarrow> ledger_file \<Rightarrow> event list res" where
  "read_locked st file = (case file of None \<Rightarrow> Inr []
     | Some data \<Rightarrow>
        guarded (LedgerCorruptionError ''ledger has an incomplete trailing fragment'') (ends_complete data)
          (fold_res (read_line st) [] (file_lines data)))"

text \<open>\<^verbatim>\<open>read_events(repair_tail=...)\<close>: the events, and the file it leaves behind.\<close>

definition read_events :: "event_store \<Rightarrow> bool \<Rightarrow> ledger_file \<Rightarrow> ledger_file \<times> event list res" where
  "read_events st repair file =
     (let file' = (if repair then repair_tail file else file) in (file', read_locked st file'))"

definition get_by_idempotency_key :: "event_store \<Rightarrow> ledger_file \<Rightarrow> string \<Rightarrow> event option res" where
  "get_by_idempotency_key st file key = bind_res (read_locked st file)
     (\<lambda>es. Inr (first_such (\<lambda>e. idempotency_key e = key) es))"

section \<open>Appending\<close>

record append_request =
  ar_run_id :: string
  ar_payload :: event_payload
  ar_key :: string
  ar_cause :: "string option"
  ar_delta :: "resource_delta option"
  ar_time :: int

text \<open>
  What a call ends with; a duplicate key raises an exception that carries the existing event.
\<close>

datatype append_outcome = Appended event | Duplicate event | Refused exc

fun collect_run_ids :: "pyval \<Rightarrow> string list" where
  "collect_run_ids (PyDict d) = concat (map (\<lambda>(k, v).
     (case v of PyStr s \<Rightarrow> if k = ''run_id'' then [s] else [] | _ \<Rightarrow> collect_run_ids v)) d)"
| "collect_run_ids (PyList xs) = concat (map collect_run_ids xs)"
| "collect_run_ids v = []"

fun event_type_value :: "event_type \<Rightarrow> string" where
  "event_type_value Type_RUN_STARTED = ''run.started''"
| "event_type_value Type_CONTRACT_VERIFIED = ''contract.verified''"
| "event_type_value Type_BASELINE_VERIFIED = ''baseline.verified''"
| "event_type_value Type_CONTEXT_CREATED = ''context.created''"
| "event_type_value Type_PLANNER_RECOMMENDED = ''planner.recommended''"
| "event_type_value Type_PLANNING_FAILED = ''planning.failed''"
| "event_type_value Type_EXPERIMENT_PROPOSED = ''experiment.proposed''"
| "event_type_value Type_PATCH_CREATED = ''patch.created''"
| "event_type_value Type_PATCH_CHECKED = ''patch.checked''"
| "event_type_value Type_EXECUTION_STARTED = ''execution.started''"
| "event_type_value Type_EXECUTION_FINISHED = ''execution.finished''"
| "event_type_value Type_ADAPTER_FAILED = ''adapter.failed''"
| "event_type_value Type_RECOVERY_DECIDED = ''recovery.decided''"
| "event_type_value Type_OUTPUT_CHECKED = ''output.checked''"
| "event_type_value Type_EVALUATION_COMPLETED = ''evaluation.completed''"
| "event_type_value Type_EXPERIMENT_DECIDED = ''experiment.decided''"
| "event_type_value Type_BEST_UPDATED = ''best.updated''"
| "event_type_value Type_LESSON_RECORDED = ''lesson.recorded''"
| "event_type_value Type_LESSON_STATUS_CHANGED = ''lesson.status_changed''"
| "event_type_value Type_MANUAL_INTERVENTION = ''manual.intervention''"
| "event_type_value Type_RUN_STOPPED = ''run.stopped''"
| "event_type_value Type_FINAL_SELECTED = ''final.selected''"
| "event_type_value Type_SUBMISSION_CHECKED = ''submission.checked''"

text \<open>The envelope before and after its own hash is added.\<close>

definition dumped_envelope ::
  "event_store \<Rightarrow> event list \<Rightarrow> append_request \<Rightarrow> artifact_ref list \<Rightarrow> (string, pyval) dict" where
  "dumped_envelope st es a artifacts =
     (let number = length es + 1 in
      [(''schema_version'', PyStr ''1.0''), (''event_id'', PyStr (event_id_of number)),
       (''seq'', PyInt (int number)), (''timestamp'', PyStr (iso_time st (ar_time a))),
       (''run_id'', PyStr (ar_run_id a)),
       (''event_type'', PyStr (event_type_value (payload_type (ar_payload a)))),
       (''idempotency_key'', PyStr (ar_key a)), (''causation_event_id'', (case ar_cause a of None \<Rightarrow> PyNone | Some c \<Rightarrow> PyStr c)),
       (''payload'', payload_dump st (ar_payload a)),
       (''artifact_refs'', PyList (map (artifact_dump st) artifacts)),
       (''resource_delta'', delta_dump st (case ar_delta a of None \<Rightarrow> zero_delta | Some d \<Rightarrow> d)),
       (''prev_event_hash'', PyStr (previous_hash es))])"

definition sealed_envelope ::
  "event_store \<Rightarrow> event list \<Rightarrow> append_request \<Rightarrow> artifact_ref list \<Rightarrow> pyval" where
  "sealed_envelope st es a artifacts =
     (let dumped = dumped_envelope st es a artifacts
      in PyDict (dumped @ [(''event_hash'', PyStr (canonical_sha256 (sha256 st) (PyDict dumped)))]))"

text \<open>\<^verbatim>\<open>Event.model_dump(mode="json", exclude_none=False)\<close>: the fields in their order.\<close>

definition event_dump :: "event_store \<Rightarrow> event \<Rightarrow> pyval" where
  "event_dump st e = PyDict
     [(''schema_version'', PyStr ''1.0''), (''event_id'', PyStr (event_id e)),
      (''seq'', PyInt (int (seq e))), (''timestamp'', PyStr (iso_time st (timestamp e))),
      (''run_id'', PyStr (run_id e)), (''event_type'', PyStr (event_type_value (event_type e))),
      (''idempotency_key'', PyStr (idempotency_key e)),
      (''causation_event_id'', (case causation_event_id e of None \<Rightarrow> PyNone | Some c \<Rightarrow> PyStr c)),
      (''payload'', payload_dump st (payload e)),
      (''artifact_refs'', PyList (map (artifact_dump st) (artifact_refs e))),
      (''resource_delta'', delta_dump st (resource_delta e)),
      (''prev_event_hash'', PyStr (prev_event_hash e)), (''event_hash'', PyStr (event_hash e))]"

definition verify_all :: "event_store \<Rightarrow> artifact_ref list \<Rightarrow> unit res" where
  "verify_all st artifacts = (case verify_artifact st of None \<Rightarrow> Inr ()
     | Some verify \<Rightarrow> fold_res (\<lambda>u r. verify r) () artifacts)"

text \<open>The checks of \<^verbatim>\<open>append\<close> on the events it read, up to the validated event.\<close>

definition build_event :: "event_store \<Rightarrow> event list \<Rightarrow> append_request \<Rightarrow> event res" where
  "build_event st es a =
     guarded (LedgerError ''run_id does not match the existing ledger'')
       (es = [] \<or> run_id (hd es) = ar_run_id a)
     (guarded (LedgerError ''causation_event_id does not exist'') (known_cause es (ar_cause a))
     (guarded (LedgerError ''payload run_id does not match event envelope'')
       (list_all (\<lambda>i. i = ar_run_id a) (collect_run_ids (payload_dump st (ar_payload a))))
     (bind_res (case check_transition st of None \<Rightarrow> Inr () | Some check \<Rightarrow> check es (ar_payload a)) (\<lambda>u.
      bind_res (payload_artifacts (ar_payload a)) (\<lambda>artifacts.
      bind_res (verify_all st artifacts) (\<lambda>u.
      fetch (ValidationError ''Event'') (event_validate st (sealed_envelope st es a artifacts)) Inr))))))"

definition event_line :: "event_store \<Rightarrow> event \<Rightarrow> string" where
  "event_line st e = canonical_bytes (event_dump st e) @ [newline]"

definition file_data :: "ledger_file \<Rightarrow> string" where
  "file_data file = (case file of None \<Rightarrow> [] | Some data \<Rightarrow> data)"

definition append ::
  "event_store \<Rightarrow> ledger_file \<Rightarrow> append_request \<Rightarrow> ledger_file \<times> append_outcome" where
  "append st file a =
     (if key_digest (ar_key a) \<noteq> canonical_sha256 (sha256 st) (payload_dump st (ar_payload a))
      then (file, Refused (LedgerError ''idempotency key input hash does not match payload''))
      else let file' = repair_tail file in
        case read_locked st file' of
          Inl x \<Rightarrow> (file', Refused x)
        | Inr es \<Rightarrow> (case first_such (\<lambda>e. idempotency_key e = ar_key a) es of
            Some e \<Rightarrow> (file', Duplicate e)
          | None \<Rightarrow> (case build_event st es a of
              Inl x \<Rightarrow> (file', Refused x)
            | Inr e \<Rightarrow> (Some (file_data file' @ event_line st e), Appended e))))"

text \<open>
  How the router writes to the ledger: \<^verbatim>\<open>Harness._key\<close>, \<^verbatim>\<open>Harness._append\<close> and
  \<^verbatim>\<open>Harness.events\<close> of \<^verbatim>\<open>src/src/tacorank/orchestrator/router.py\<close>.  Rebuilding the
  Markdown views of the run directory is output and is not part of the model.
\<close>

record appending =
  ap_stage :: string
  ap_experiment_id :: string
  ap_attempt :: nat
  ap_cause :: "string option"
  ap_delta :: "resource_delta option"

definition harness_key :: "(string \<Rightarrow> string) \<Rightarrow> string \<Rightarrow> string \<Rightarrow> string \<Rightarrow> nat \<Rightarrow> pyval \<Rightarrow> string" where
  "harness_key sha run experiment stage attempt v =
     run @ '':'' @ experiment @ '':'' @ stage @ '':'' @ digits_of attempt @ '':'' @ canonical_sha256 sha v"

definition harness_request ::
  "event_store \<Rightarrow> string \<Rightarrow> event_payload \<Rightarrow> appending \<Rightarrow> int \<Rightarrow> append_request" where
  "harness_request st run p c now = \<lparr>ar_run_id = run, ar_payload = p,
     ar_key = harness_key (sha256 st) run (ap_experiment_id c) (ap_stage c) (ap_attempt c) (payload_dump st p),
     ar_cause = ap_cause c, ar_delta = ap_delta c, ar_time = now\<rparr>"

definition harness_append ::
  "event_store \<Rightarrow> string \<Rightarrow> ledger_file \<Rightarrow> event_payload \<Rightarrow> appending \<Rightarrow> int \<Rightarrow> ledger_file \<times> event res" where
  "harness_append st run disk p c now =
     (let (disk', outcome) = append st disk (harness_request st run p c now);
          finish = (\<lambda>e. bind_res (read_locked st disk') (\<lambda>es. Inr e))
      in (disk', case outcome of Appended e \<Rightarrow> finish e | Duplicate e \<Rightarrow> finish e | Refused x \<Rightarrow> Inl x))"

text \<open>Reading the ledger repairs an incomplete tail, so the file is part of the result.\<close>

definition harness_events :: "event_store \<Rightarrow> ledger_file \<Rightarrow> ledger_file \<times> event list res" where
  "harness_events st disk = read_events st True disk"

end
