(* ===== verification/Ledger_File.thy ===== *)
theory Ledger_File
  imports Event_Store
begin

text \<open>
  Facts about the canonical text of a value and about the bytes of the ledger file: the text of a
  value does not depend on the order of its keys and holds no newline, and the lines of a file grow
  by one when a line is written behind a complete file.
\<close>

section \<open>Key order\<close>

text \<open>What reading canonical text gives back: the same value with its keys in sorted order.\<close>

fun key_sorted :: "pyval \<Rightarrow> pyval" where
  "key_sorted (PyList xs) = PyList (map key_sorted xs)"
| "key_sorted (PyDict d) = PyDict (sort_key fst (map (\<lambda>(k, v). (k, key_sorted v)) d))"
| "key_sorted v = v"

lemma insort_map_fst:
  assumes "\<And>p. fst (g p) = fst p"
  shows "insort_key fst (g x) (map g ys) = map g (insort_key fst x ys)"
  by (induction ys) (simp_all add: assms)

lemma sort_key_map_fst:
  assumes "\<And>p. fst (g p) = fst p"
  shows "sort_key fst (map g d) = map g (sort_key fst d)"
  by (induction d) (simp_all add: insort_map_fst [OF assms])

lemma sort_key_twice [simp]: "sort_key f (sort_key f xs) = sort_key f xs"
  by (rule sort_key_id_if_sorted) simp

lemma json_dumps_key_sorted [simp]: "json_dumps ascii (key_sorted v) = json_dumps ascii v"
proof (induction v rule: key_sorted.induct)
  case (1 xs)
  then have "map (json_dumps ascii \<circ> key_sorted) xs = map (json_dumps ascii) xs" by simp
  then show ?case by (simp del: map_eq_conv)
next
  case (2 d)
  let ?dump = "\<lambda>(k, v). (k, json_dumps ascii v)" and ?sort = "\<lambda>(k, v). (k, key_sorted v)"
  have inner: "map ?dump (map ?sort d) = map ?dump d" using 2 by (auto simp: comp_def)
  have "sort_key fst (map ?dump (sort_key fst (map ?sort d)))
      = sort_key fst (sort_key fst (map ?dump (map ?sort d)))"
    by (subst sort_key_map_fst) (auto simp: split_beta)
  also have "\<dots> = sort_key fst (map ?dump d)" by (simp only: inner sort_key_twice)
  finally show ?case by simp
qed simp_all

lemma filter_sort_key: "filter P (sort_key f xs) = sort_key f (filter P xs)"
  by (rule filter_sort)

lemma hash_input_key_sorted [simp]:
  "json_dumps ascii (event_hash_input (key_sorted (PyDict d)))
    = json_dumps ascii (event_hash_input (PyDict d))"
proof -
  let ?P = "\<lambda>(k, v). k \<noteq> ''event_hash''" and ?sort = "\<lambda>(k, v). (k, key_sorted v)"
  have "filter ?P (sort_key fst (map ?sort d)) = sort_key fst (map ?sort (filter ?P d))"
    by (simp add: filter_sort_key filter_map comp_def case_prod_beta')
  then have "event_hash_input (key_sorted (PyDict d)) = key_sorted (event_hash_input (PyDict d))"
    by simp
  then show ?thesis by (metis json_dumps_key_sorted)
qed

lemma map_of_insort: "map_of (insort_key fst p d) k = (if fst p = k then Some (snd p) else map_of d k)"
  by (induction d) auto

lemma map_of_sort_key [simp]: "map_of (sort_key fst d) = map_of d"
  by (rule ext) (induction d, auto simp: map_of_insort)

lemma dict_item_key_sorted: "dict_item (key_sorted (PyDict d)) k = key_sorted (dict_item (PyDict d) k)"
  by (auto simp: map_of_map split: option.splits)

section \<open>No line breaks\<close>

definition one_line :: "string \<Rightarrow> bool" where
  "one_line s \<longleftrightarrow> newline \<notin> set s"

lemma one_line_simps [simp]:
  "one_line []" "one_line (c # s) \<longleftrightarrow> c \<noteq> newline \<and> one_line s"
  "one_line (s @ t) \<longleftrightarrow> one_line s \<and> one_line t" "one_line (concat ss) \<longleftrightarrow> (\<forall>s \<in> set ss. one_line s)"
  by (auto simp: one_line_def)

lemma one_line_sub: "set s \<subseteq> set t \<Longrightarrow> one_line t \<Longrightarrow> one_line s"
  by (auto simp: one_line_def)

lemma one_line_digits [simp]: "one_line (digits_of n)"
  using digits_of_digits [of newline n] by (auto simp: one_line_def is_digit_def)

lemma one_line_pieces [simp]:
  "one_line s \<Longrightarrow> one_line (take n s)" "one_line s \<Longrightarrow> one_line (drop n s)"
  "one_line s \<Longrightarrow> one_line (strip_zeros s)" "c \<noteq> newline \<Longrightarrow> one_line (replicate n c)"
  by (auto simp: one_line_def strip_zeros_def dest: in_set_takeD in_set_dropD set_dropWhileD)

lemma one_line_numbers [simp]:
  "one_line w \<Longrightarrow> one_line p \<Longrightarrow> one_line (with_point w p)" "one_line (exponent_str e)"
  "one_line (int_str k)" "one_line (float_repr x)"
  by (simp_all add: with_point_def exponent_str_def int_str_def float_repr_def Let_def split_beta)

lemma one_line_join: "one_line d \<Longrightarrow> \<forall>s \<in> set ss. one_line s \<Longrightarrow> one_line (join_with d ss)"
  by (induction d ss rule: join_with.induct) auto

lemma one_line_char: "one_line (json_char ascii c)"
proof -
  have "hex_digit k \<noteq> newline" if "k < 16" for k
  proof -
    have "of_char (hex_digit k) \<noteq> (10 :: nat)" using that by (simp add: hex_digit_def of_char_of)
    then show ?thesis by auto
  qed
  then have "one_line (hex2 c)" by (simp add: hex2_def Let_def less_mult_imp_div_less)
  then show ?thesis by (auto simp: json_char_def Let_def)
qed

lemma one_line_str [simp]: "one_line (json_str ascii s)"
  by (simp add: json_str_def one_line_char)

lemma one_line_dumps: "one_line (json_dumps ascii v)"
proof (induction v rule: key_sorted.induct)
  case (2 d)
  then have "one_line (json_dumps ascii v)" if "(k, v) \<in> set d" for k v using that by fastforce
  then show ?case by (auto simp: comma_join_def intro!: one_line_join)
qed (auto simp: comma_join_def intro!: one_line_join)

lemma one_line_utf8: "one_line s \<Longrightarrow> one_line (utf8 s)"
proof -
  have no: "char_of m \<noteq> newline" if "m mod 256 \<noteq> 10" for m :: nat
  proof -
    have "of_char (char_of m :: char) \<noteq> (of_char newline :: nat)" using that by (simp add: of_char_of)
    then show ?thesis by metis
  qed
  have "one_line (utf8_char c)" if "c \<noteq> newline" for c
  proof -
    have small: "a mod (256 :: nat) \<noteq> 10" if "a < 256" "128 \<le> a" for a using that by simp
    have "(of_char c :: nat) < 256" by simp
    then have "of_char c div 64 < (4 :: nat)" by (simp add: div_less_iff_less_mult)
    then have "(192 + of_char c div 64 :: nat) mod 256 \<noteq> 10" by (intro small) simp_all
    moreover have "of_char c mod 64 < (64 :: nat)" by (rule mod_less_divisor) simp
    then have "(128 + of_char c mod 64 :: nat) mod 256 \<noteq> 10" by (intro small) simp_all
    ultimately have newlines: "char_of (192 + of_char c div 64 :: nat) \<noteq> newline"
        "char_of (128 + of_char c mod 64 :: nat) \<noteq> newline" using no by blast+
    from newlines show ?thesis using that
      by (cases "of_char c < (128 :: nat)") (simp_all only: utf8_char_def Let_def if_True if_False one_line_simps simp_thms)
  qed
  then show "one_line s \<Longrightarrow> one_line (utf8 s)" unfolding utf8_def by (induction s) simp_all
qed

lemma one_line_canonical [simp]: "one_line (canonical_bytes v)"
  by (simp add: canonical_bytes_def canonical_dumps_def one_line_utf8 one_line_dumps)

section \<open>Complete files and their lines\<close>

lemma ends_complete_written [simp]: "ends_complete (data @ line @ [newline])"
  by (simp add: ends_complete_def)

lemma complete_part_fragment:
  assumes "ends_complete data" and "one_line fragment"
  shows "complete_part (data @ fragment) = data"
proof -
  have "dropWhile (\<lambda>c. c \<noteq> newline) (rev fragment @ ys) = dropWhile (\<lambda>c. c \<noteq> newline) ys" for ys
    using assms(2) by (intro dropWhile_append2) (auto simp: one_line_def)
  moreover have "dropWhile (\<lambda>c. c \<noteq> newline) (rev data) = rev data"
    using assms(1) by (cases data rule: rev_cases) (auto simp: ends_complete_def)
  ultimately have "dropWhile (\<lambda>c. c \<noteq> newline) (rev fragment @ rev data) = rev data" by simp
  then show ?thesis by (simp add: complete_part_def)
qed

lemma complete_part_complete: "ends_complete (complete_part data)"
proof (cases "dropWhile (\<lambda>c. c \<noteq> newline) (rev data)")
  case (Cons c cs)
  then have "c = newline"
    using hd_dropWhile [of "\<lambda>c. c \<noteq> newline" "rev data"] by simp
  with Cons show ?thesis by (simp add: complete_part_def ends_complete_def)
qed (simp add: complete_part_def ends_complete_def)

lemma repair_tail_complete: "ends_complete (file_data (repair_tail disk))"
  using complete_part_complete by (cases disk) (simp_all add: repair_tail_def file_data_def ends_complete_def)

lemma repair_tail_twice [simp]: "repair_tail (repair_tail disk) = repair_tail disk"
  using repair_tail_complete [of disk] by (cases disk) (auto simp: repair_tail_def file_data_def)

lemma split_on_append: "d \<notin> set q \<Longrightarrow> split_on d (p @ d # q) = split_on d p @ [q]"
proof (induction p)
  case Nil
  then show ?case by (induction q) auto
next
  case (Cons c p)
  then show ?case by (cases "split_on d p") auto
qed

lemma file_lines_written:
  assumes "ends_complete data" and "one_line line"
  shows "file_lines (data @ line @ [newline]) = file_lines data @ [line]"
proof (cases data rule: rev_cases)
  case Nil
  have "split_on newline line = [line]" using assms(2) unfolding one_line_def by (induction line) auto
  then show ?thesis using Nil by (simp add: file_lines_def butlast_append)
next
  case (snoc ys y)
  then have "y = newline" using assms(1) by (simp add: ends_complete_def)
  then show ?thesis using snoc assms(2)
    by (simp add: file_lines_def butlast_append split_on_append one_line_def)
qed

lemma read_locked_written:
  assumes "ends_complete (file_data disk)" and "one_line line"
    and "read_locked st disk = Inr es"
  shows "read_locked st (Some (file_data disk @ line @ [newline])) = read_line st es line"
proof -
  have "fold_res (read_line st) [] (file_lines (file_data disk)) = Inr es"
    using assms(1,3) by (cases disk) (auto simp: read_locked_def file_data_def file_lines_def raise_simps)
  then show ?thesis using file_lines_written [OF assms(1,2)]
    by (simp add: read_locked_def fold_res_snoc)
qed

lemma read_locked_empty [simp]: "read_locked st None = Inr []" "read_locked st (Some []) = Inr []"
  by (simp_all add: read_locked_def file_lines_def ends_complete_def)

end
