(* ===== verification/Store_Properties.thy ===== *)
theory Store_Properties
  imports Ledger_File Sample_Run
begin

text \<open>
  What the event store promises: an appended event is read back behind the events that were there,
  an append interrupted at any byte leaves the earlier events, repeating an append changes nothing,
  and what a store with the transition validator reads is a legal ledger.  The interface
  \<open>event_log\<close> states the laws that the router relies on; its interpretation is the file.
\<close>

section \<open>The event an append seals\<close>

definition sealed_event :: "event_store \<Rightarrow> event list \<Rightarrow> append_request \<Rightarrow> artifact_ref list \<Rightarrow> event" where
  "sealed_event st es a artifacts = \<lparr>event_id = event_id_of (length es + 1), seq = length es + 1,
     timestamp = ar_time a, run_id = ar_run_id a, event_type = payload_type (ar_payload a),
     idempotency_key = ar_key a, causation_event_id = ar_cause a, payload = ar_payload a,
     artifact_refs = artifacts,
     resource_delta = (case ar_delta a of None \<Rightarrow> zero_delta | Some d \<Rightarrow> d),
     prev_event_hash = previous_hash es,
     event_hash = canonical_sha256 (sha256 st) (PyDict (dumped_envelope st es a artifacts))\<rparr>"

lemma sealed_envelope_event:
  "sealed_envelope st es a artifacts = event_dump st (sealed_event st es a artifacts)"
  by (simp add: sealed_envelope_def event_dump_def sealed_event_def dumped_envelope_def Let_def)

lemma sealed_event_fields [simp]:
  "seq (sealed_event st es a artifacts) = length es + 1"
  "run_id (sealed_event st es a artifacts) = ar_run_id a"
  "idempotency_key (sealed_event st es a artifacts) = ar_key a"
  "causation_event_id (sealed_event st es a artifacts) = ar_cause a"
  "payload (sealed_event st es a artifacts) = ar_payload a"
  "prev_event_hash (sealed_event st es a artifacts) = previous_hash es"
  "event_hash (sealed_event st es a artifacts)
    = canonical_sha256 (sha256 st) (PyDict (dumped_envelope st es a artifacts))"
  by (simp_all add: sealed_event_def)

lemma sealed_hash_input:
  "event_hash_input (event_dump st (sealed_event st es a artifacts)) = PyDict (dumped_envelope st es a artifacts)"
  by (simp add: event_dump_def sealed_event_def dumped_envelope_def Let_def)

text \<open>
  What the store relies on: the canonical text of an event decodes to its fields with sorted keys,
  and validating the dumped event, in either key order, gives the event.  \<open>faithful\<close> is this for
  the event that a request seals behind \<open>es\<close>.
\<close>

definition codec_reads :: "event_store \<Rightarrow> event \<Rightarrow> bool" where
  "codec_reads st e \<longleftrightarrow>
     json_loads st (canonical_bytes (event_dump st e)) = Some (key_sorted (event_dump st e))
     \<and> event_validate st (event_dump st e) = Some e
     \<and> event_validate st (key_sorted (event_dump st e)) = Some e"

definition faithful :: "event_store \<Rightarrow> event list \<Rightarrow> append_request \<Rightarrow> bool" where
  "faithful st es a \<longleftrightarrow> (\<forall>artifacts. payload_artifacts (ar_payload a) = Inr artifacts
     \<longrightarrow> codec_reads st (sealed_event st es a artifacts))"

section \<open>One append\<close>

lemma canonical_key_sorted [simp]: "canonical_bytes (key_sorted v) = canonical_bytes v"
  by (simp add: canonical_bytes_def canonical_dumps_def)

lemma canonical_sha_key_sorted [simp]: "canonical_sha256 sha (key_sorted v) = canonical_sha256 sha v"
  by (simp add: canonical_sha256_def)

lemma canonical_sha_hash_input:
  "canonical_sha256 sha (event_hash_input (key_sorted (event_dump st e)))
    = canonical_sha256 sha (event_hash_input (event_dump st e))"
  unfolding event_dump_def canonical_sha256_def canonical_bytes_def canonical_dumps_def
  by (simp only: hash_input_key_sorted)

lemma dumped_payload: "dict_item (key_sorted (event_dump st e)) ''payload'' = key_sorted (payload_dump st (payload e))"
  by (simp only: event_dump_def dict_item_key_sorted) simp

lemma read_line_codec:
  assumes "codec_reads st e"
  shows "read_line st es (canonical_bytes (event_dump st e)) = Inr (es @ [e]) \<longleftrightarrow>
    key_digest (idempotency_key e) = canonical_sha256 (sha256 st) (payload_dump st (payload e))
    \<and> seq e = length es + 1 \<and> prev_event_hash e = previous_hash es
    \<and> event_hash e = canonical_sha256 (sha256 st) (event_hash_input (event_dump st e))
    \<and> (es = [] \<or> run_id e = run_id (hd es)) \<and> idempotency_key e \<notin> idempotency_key ` set es
    \<and> known_cause es (causation_event_id e)
    \<and> (case check_transition st of None \<Rightarrow> True | Some check \<Rightarrow> returns (check es (payload e)))"
  using assms unfolding read_line_def codec_reads_def
  by (simp add: raise_simps dumped_payload canonical_sha_hash_input)

lemma build_event_sealed:
  assumes "build_event st es a = Inr e" and "faithful st es a"
  obtains artifacts where "e = sealed_event st es a artifacts" and "codec_reads st e"
    and "es = [] \<or> run_id (hd es) = ar_run_id a" and "known_cause es (ar_cause a)"
    and "case check_transition st of None \<Rightarrow> True | Some check \<Rightarrow> returns (check es (ar_payload a))"
proof -
  from assms(1) obtain artifacts where artifacts: "payload_artifacts (ar_payload a) = Inr artifacts"
    and valid: "event_validate st (sealed_envelope st es a artifacts) = Some e"
    and rest: "es = [] \<or> run_id (hd es) = ar_run_id a" "known_cause es (ar_cause a)"
      "(case check_transition st of None \<Rightarrow> Inr () | Some check \<Rightarrow> check es (ar_payload a)) = Inr ()"
    by (auto simp: build_event_def raise_simps)
  have codec: "codec_reads st (sealed_event st es a artifacts)"
    using assms(2) artifacts by (simp add: faithful_def)
  then have "e = sealed_event st es a artifacts"
    using valid by (simp add: sealed_envelope_event codec_reads_def)
  with that codec rest show thesis by (fastforce split: option.splits)
qed

lemma append_cases:
  assumes "append st disk a = (disk', outcome)" and "read_locked st (repair_tail disk) = Inr es"
  obtains (appended) e where "outcome = Appended e" and "build_event st es a = Inr e"
      and "ar_key a \<notin> idempotency_key ` set es"
      and "key_digest (ar_key a) = canonical_sha256 (sha256 st) (payload_dump st (ar_payload a))"
      and "disk' = Some (file_data (repair_tail disk) @ event_line st e)"
  | (duplicate) e where "outcome = Duplicate e" and "e \<in> set es" and "idempotency_key e = ar_key a"
      and "disk' = repair_tail disk"
  | (refused) x where "outcome = Refused x" and "disk' \<in> {disk, repair_tail disk}"
proof (cases outcome)
  case (Appended e)
  with assms show thesis
    by (intro appended) (auto simp: append_def Let_def first_such_None split: if_splits option.splits sum.splits)
next
  case (Duplicate e)
  with assms show thesis
    by (intro duplicate) (auto simp: append_def Let_def dest: first_such_SomeD split: if_splits option.splits sum.splits)
next
  case (Refused x)
  with assms show thesis
    by (intro refused) (auto simp: append_def Let_def split: if_splits option.splits sum.splits)
qed

lemma repair_tail_written [simp]: "repair_tail (Some (data @ event_line st e)) = Some (data @ event_line st e)"
  by (simp add: repair_tail_def event_line_def)

lemma read_after_append:
  assumes "append st disk a = (disk', Appended e)" and "read_locked st (repair_tail disk) = Inr es"
    and "faithful st es a"
  shows "read_locked st disk' = Inr (es @ [e])" and "idempotency_key e = ar_key a"
    and "repair_tail disk' = disk'"
proof -
  from assms(1,2) have built: "build_event st es a = Inr e" and new: "ar_key a \<notin> idempotency_key ` set es"
    and digest: "key_digest (ar_key a) = canonical_sha256 (sha256 st) (payload_dump st (ar_payload a))"
    and disk': "disk' = Some (file_data (repair_tail disk) @ event_line st e)"
    by (auto elim: append_cases)
  from build_event_sealed [OF built assms(3)] obtain artifacts
    where e: "e = sealed_event st es a artifacts" and codec: "codec_reads st e"
      and rest: "es = [] \<or> run_id (hd es) = ar_run_id a" "known_cause es (ar_cause a)"
        "case check_transition st of None \<Rightarrow> True | Some check \<Rightarrow> returns (check es (ar_payload a))" .
  have "read_line st es (canonical_bytes (event_dump st e)) = Inr (es @ [e])"
    unfolding read_line_codec [OF codec] using new digest rest
    by (auto simp: e sealed_hash_input split: option.splits)
  then show "read_locked st disk' = Inr (es @ [e])"
    using read_locked_written [OF repair_tail_complete _ assms(2)] by (simp add: disk' event_line_def)
  show "idempotency_key e = ar_key a" by (simp add: e)
  show "repair_tail disk' = disk'" by (simp add: disk')
qed

lemma read_after_crash:
  assumes "read_locked st (repair_tail disk) = Inr es" and "n < length (event_line st e)"
  shows "read_locked st (repair_tail (Some (file_data (repair_tail disk) @ take n (event_line st e)))) = Inr es"
proof -
  have line: "one_line (take n (event_line st e))"
    using assms(2) by (simp add: event_line_def)
  have "repair_tail (Some (file_data (repair_tail disk) @ take n (event_line st e)))
      = Some (file_data (repair_tail disk))"
    using complete_part_fragment [OF repair_tail_complete line, of disk] repair_tail_complete [of disk] line
    by (cases "take n (event_line st e)" rule: rev_cases)
      (auto simp: repair_tail_def ends_complete_def)
  moreover have "read_locked st (Some (file_data (repair_tail disk))) = Inr es"
    using assms(1) by (cases "repair_tail disk") (simp_all add: file_data_def)
  ultimately show ?thesis by simp
qed

section \<open>The interface of the log\<close>

text \<open>
  What a client of the ledger may rely on: an accepted append adds one event at the end of what is
  read, repeating it finds that event again, a duplicate or a refusal changes nothing of what is
  read.  \<open>trusts\<close> are the requests for which the codec is faithful.
\<close>

definition same_action :: "append_request \<Rightarrow> append_request \<Rightarrow> bool" where
  "same_action a b \<longleftrightarrow> ar_key b = ar_key a \<and> ar_payload b = ar_payload a"

locale event_log =
  fixes view :: "'f \<Rightarrow> event list res"
    and put :: "'f \<Rightarrow> append_request \<Rightarrow> 'f \<times> append_outcome"
    and trusts :: "event list \<Rightarrow> append_request \<Rightarrow> bool"
  assumes put_appended: "put f a = (g, Appended e) \<Longrightarrow> view f = Inr es \<Longrightarrow> trusts es a
      \<Longrightarrow> view g = Inr (es @ [e]) \<and> (\<forall>b. same_action a b \<longrightarrow> put g b = (g, Duplicate e))"
    and put_duplicate: "put f a = (g, Duplicate e) \<Longrightarrow> view f = Inr es
      \<Longrightarrow> view g = Inr es \<and> e \<in> set es \<and> (\<forall>b. same_action a b \<longrightarrow> put g b = (g, Duplicate e))"
    and put_refused: "put f a = (g, Refused x) \<Longrightarrow> view f = Inr es \<Longrightarrow> view g = Inr es"
begin

lemma put_grows:
  assumes "put f a = (g, outcome)" and "view f = Inr es" and "trusts es a"
  shows "\<exists>fs. view g = Inr (es @ fs)"
proof (cases outcome)
  case (Appended e)
  with assms put_appended [of f a g e es] show ?thesis by blast
next
  case (Duplicate e)
  with assms put_duplicate [of f a g e es] have "view g = Inr (es @ [])" by simp
  then show ?thesis ..
next
  case (Refused x)
  with assms put_refused [of f a g x es] have "view g = Inr (es @ [])" by simp
  then show ?thesis ..
qed

lemma put_recorded:
  assumes "put f a = (g, outcome)" and "outcome = Appended e \<or> outcome = Duplicate e"
    and "view f = Inr es" and "trusts es a"
  shows "\<exists>fs. view g = Inr fs \<and> e \<in> set fs \<and> (\<forall>b. same_action a b \<longrightarrow> put g b = (g, Duplicate e))"
  using assms(2)
proof
  assume "outcome = Appended e"
  with assms put_appended [of f a g e es] show ?thesis by simp
next
  assume "outcome = Duplicate e"
  with assms put_duplicate [of f a g e es] show ?thesis by simp
qed

end

definition repaired_view :: "event_store \<Rightarrow> ledger_file \<Rightarrow> event list res" where
  "repaired_view st disk = snd (read_events st True disk)"

lemma repaired_view_read: "repaired_view st disk = read_locked st (repair_tail disk)"
  by (simp add: repaired_view_def read_events_def Let_def)

definition keys_distinct :: "event list \<Rightarrow> bool" where
  "keys_distinct es \<longleftrightarrow> distinct (map idempotency_key es)"

lemma read_line_keys: "read_line st es raw = Inr es' \<Longrightarrow> keys_distinct es \<Longrightarrow> keys_distinct es'"
  by (auto simp: read_line_def raise_simps keys_distinct_def)

lemma read_locked_keys: "read_locked st disk = Inr es \<Longrightarrow> keys_distinct es"
proof -
  have "fold_res (read_line st) es lines = Inr es' \<Longrightarrow> keys_distinct es \<Longrightarrow> keys_distinct es'"
    for lines es es'
    by (induction lines arbitrary: es) (auto simp: raise_simps dest: read_line_keys)
  then show "read_locked st disk = Inr es \<Longrightarrow> keys_distinct es"
    by (auto simp: read_locked_def raise_simps keys_distinct_def split: option.splits)
qed

lemma find_key:
  assumes "keys_distinct es" and "e \<in> set es"
  shows "first_such (\<lambda>x. idempotency_key x = idempotency_key e) es = Some e"
  using assms by (induction es) (auto simp: first_such_def keys_distinct_def image_iff)

lemma append_again:
  assumes "read_locked st disk = Inr es" and "repair_tail disk = disk" and "e \<in> set es"
    and "idempotency_key e = ar_key a"
    and "key_digest (ar_key a) = canonical_sha256 (sha256 st) (payload_dump st (ar_payload a))"
  shows "append st disk a = (disk, Duplicate e)"
  using find_key [OF read_locked_keys [OF assms(1)] assms(3)] assms
  by (simp add: append_def Let_def)

lemma outcome_digest:
  assumes "append st disk a = (disk', outcome)" and "\<forall>x. outcome \<noteq> Refused x"
  shows "key_digest (ar_key a) = canonical_sha256 (sha256 st) (payload_dump st (ar_payload a))"
  using assms by (auto simp: append_def split: if_splits)

interpretation store: event_log "repaired_view st" "append st" "faithful st" for st
proof
  fix f a g e es
  assume put: "append st f a = (g, Appended e)" and view: "repaired_view st f = Inr es"
    and "faithful st es a"
  then have after: "read_locked st g = Inr (es @ [e])" "idempotency_key e = ar_key a" "repair_tail g = g"
    using read_after_append by (metis repaired_view_read)+
  moreover have "append st g b = (g, Duplicate e)" if "same_action a b" for b
    using append_again [OF after(1,3)] outcome_digest [OF put] after(2) that by (simp add: same_action_def)
  ultimately show "repaired_view st g = Inr (es @ [e])
      \<and> (\<forall>b. same_action a b \<longrightarrow> append st g b = (g, Duplicate e))"
    by (simp add: repaired_view_read)
next
  fix f a g e es
  assume put: "append st f a = (g, Duplicate e)" and view: "repaired_view st f = Inr es"
  then have g: "g = repair_tail f" "e \<in> set es" "idempotency_key e = ar_key a"
    by (auto elim!: append_cases simp: repaired_view_read)
  moreover have "append st g b = (g, Duplicate e)" if "same_action a b" for b
    using append_again [of st g es e b] outcome_digest [OF put] g view that
    by (simp add: repaired_view_read same_action_def)
  ultimately show "repaired_view st g = Inr es \<and> e \<in> set es
      \<and> (\<forall>b. same_action a b \<longrightarrow> append st g b = (g, Duplicate e))"
    using view by (simp add: repaired_view_read)
next
  fix f a g x es
  assume "append st f a = (g, Refused x)" and "repaired_view st f = Inr es"
  then show "repaired_view st g = Inr es"
    by (auto elim!: append_cases simp: repaired_view_read)
qed

section \<open>Histories of the file\<close>

text \<open>
  A file after any number of appends, each of which may be cut off after any byte of its line.
\<close>

inductive ledger_reach :: "event_store \<Rightarrow> ledger_file \<Rightarrow> ledger_file \<Rightarrow> bool" for st d where
  reach_start: "ledger_reach st d d"
| reach_append: "ledger_reach st d d1 \<Longrightarrow> append st d1 a = (d2, outcome)
    \<Longrightarrow> repaired_view st d1 = Inr es \<Longrightarrow> faithful st es a \<Longrightarrow> ledger_reach st d d2"
| reach_crash: "ledger_reach st d d1 \<Longrightarrow> append st d1 a = (d2, Appended e)
    \<Longrightarrow> n < length (event_line st e)
    \<Longrightarrow> ledger_reach st d (Some (file_data (repair_tail d1) @ take n (event_line st e)))"

lemma reach_grows:
  assumes "ledger_reach st d d'" and "repaired_view st d = Inr es"
  shows "\<exists>fs. repaired_view st d' = Inr (es @ fs)"
  using assms
proof induction
  case reach_start
  then show ?case by (intro exI [of _ "[]"]) simp
next
  case (reach_append d1 a d2 outcome ds)
  then obtain fs where "repaired_view st d1 = Inr (es @ fs)" by blast
  with store.put_grows [OF reach_append.hyps(2,3,4)] reach_append.hyps(3) show ?case by fastforce
next
  case (reach_crash d1 a d2 e n)
  then obtain fs where "repaired_view st d1 = Inr (es @ fs)" by blast
  then have "repaired_view st (Some (file_data (repair_tail d1) @ take n (event_line st e)))
      = Inr (es @ fs)"
    using read_after_crash [OF _ reach_crash.hyps(3)] by (simp only: repaired_view_read)
  then show ?case by blast
qed

section \<open>The hash chain\<close>

definition hash_text :: "pyval \<Rightarrow> string" where
  "hash_text d = canonical_bytes (event_hash_input d)"

definition hash_texts :: "event_store \<Rightarrow> string list \<Rightarrow> string set" where
  "hash_texts st lines = {hash_text d | raw d. raw \<in> set lines \<and> json_loads st raw = Some d}"

text \<open>The text that is hashed determines the event, up to the hash itself.\<close>

definition text_determines :: "event_store \<Rightarrow> bool" where
  "text_determines st \<longleftrightarrow> (\<forall>raw raw' d d' e e'. json_loads st raw = Some d \<longrightarrow> json_loads st raw' = Some d'
     \<longrightarrow> event_validate st d = Some e \<longrightarrow> event_validate st d' = Some e' \<longrightarrow> hash_text d = hash_text d'
     \<longrightarrow> e' = e\<lparr>event_hash := event_hash e'\<rparr>)"

lemma read_lineD:
  assumes "read_line st es raw = Inr es'"
  obtains d e where "es' = es @ [e]" and "json_loads st raw = Some d" and "event_validate st d = Some e"
    and "seq e = length es + 1" and "prev_event_hash e = previous_hash es"
    and "event_hash e = sha256 st (hash_text d)"
  using assms by (auto simp: read_line_def raise_simps hash_text_def canonical_sha256_def)

lemma fold_read_snocE:
  assumes "fold_res (read_line st) [] lines = Inr es" and "es \<noteq> []"
  obtains lines' raw es' e d where "lines = lines' @ [raw]" and "es = es' @ [e]"
    and "fold_res (read_line st) [] lines' = Inr es'" and "json_loads st raw = Some d"
    and "event_validate st d = Some e" and "seq e = length es' + 1"
    and "prev_event_hash e = previous_hash es'" and "event_hash e = sha256 st (hash_text d)"
proof (cases lines rule: rev_cases)
  case (snoc lines' raw)
  with assms obtain es' where "fold_res (read_line st) [] lines' = Inr es'" "read_line st es' raw = Inr es"
    by (auto simp: fold_res_snoc raise_simps)
  with snoc that show thesis by (elim read_lineD) blast
qed (use assms in simp)

lemma chain_determines:
  assumes "fold_res (read_line st) [] xs = Inr es" and "fold_res (read_line st) [] ys = Inr fs"
    and "es \<noteq> []" and "fs \<noteq> []" and "event_hash (last es) = event_hash (last fs)"
    and "inj_on (sha256 st) (hash_texts st xs \<union> hash_texts st ys)" and det: "text_determines st"
  shows "es = fs"
  using assms(1-6)
proof (induction "length es" arbitrary: xs es ys fs)
  case (Suc n)
  obtain xs' x es' e d where x: "xs = xs' @ [x]" "es = es' @ [e]" "fold_res (read_line st) [] xs' = Inr es'"
      "json_loads st x = Some d" "event_validate st d = Some e" "seq e = length es' + 1"
      "prev_event_hash e = previous_hash es'" "event_hash e = sha256 st (hash_text d)"
    using fold_read_snocE [OF Suc.prems(1,3)] by metis
  obtain ys' y fs' f c where y: "ys = ys' @ [y]" "fs = fs' @ [f]" "fold_res (read_line st) [] ys' = Inr fs'"
      "json_loads st y = Some c" "event_validate st c = Some f" "seq f = length fs' + 1"
      "prev_event_hash f = previous_hash fs'" "event_hash f = sha256 st (hash_text c)"
    using fold_read_snocE [OF Suc.prems(2,4)] by metis
  have same_hash: "event_hash e = event_hash f" using Suc.prems(5) by (simp add: x y)
  have "hash_text d \<in> hash_texts st xs" "hash_text c \<in> hash_texts st ys"
    using x(1,4) y(1,4) by (auto simp: hash_texts_def)
  with same_hash Suc.prems(6) have "hash_text d = hash_text c"
    by (simp add: x(8) y(8) inj_on_def)
  with det x(4,5) y(4,5) have "f = e\<lparr>event_hash := event_hash f\<rparr>" unfolding text_determines_def by blast
  then have e: "f = e" using same_hash by (metis event.surjective event.update_convs(12))
  have lengths: "length es' = length fs'" using x(6) y(6) e by simp
  have "es' = fs'"
  proof (cases "es' = []")
    case False
    then have "fs' \<noteq> []" using lengths by auto
    moreover have "event_hash (last es') = event_hash (last fs')"
      using x(7) y(7) e False calculation by (simp add: previous_hash_def)
    moreover have "inj_on (sha256 st) (hash_texts st xs' \<union> hash_texts st ys')"
      using Suc.prems(6) by (rule inj_on_subset) (auto simp: hash_texts_def x(1) y(1))
    ultimately show ?thesis using Suc.hyps x(2,3) y(3) False by (intro Suc.hyps(1)) auto
  qed (use lengths in simp)
  with e x(2) y(2) show ?case by simp
qed simp

end
