(* ===== verification/Ledger_Properties.thy ===== *)
theory Ledger_Properties
  imports Store_Properties Event_Store
begin

text \<open>
  The properties of the ledger file, each applied at the file that holds the first event of the
  sample run.
\<close>

section \<open>A file with one event\<close>

definition bare_store :: event_store where
  "bare_store = \<lparr>sha256 = (\<lambda>_. ZERO_SHA256), json_loads = (\<lambda>_. None), event_validate = (\<lambda>_. None),
     payload_dump = (\<lambda>_. PyDict []), artifact_dump = (\<lambda>_. PyNone), delta_dump = (\<lambda>_. PyNone),
     iso_time = (\<lambda>_. ''t''), verify_artifact = None, check_transition = Some validate_transition\<rparr>"

definition first_append :: appending where
  "first_append = \<lparr>ap_stage = ''started'', ap_experiment_id = ''run'', ap_attempt = 0,
     ap_cause = None, ap_delta = None\<rparr>"

definition first_request :: append_request where
  "first_request = harness_request bare_store ''r'' (Run_started sample_start) first_append 0"

definition first_event :: event where
  "first_event = sealed_event bare_store [] first_request []"

text \<open>The codec of a store that has only this event to read.\<close>

definition sample_store :: event_store where
  "sample_store = bare_store\<lparr>json_loads := \<lambda>_. Some (key_sorted (event_dump bare_store first_event)),
     event_validate := \<lambda>_. Some first_event\<rparr>"

lemma sample_store_simps [simp]:
  "sha256 sample_store = (\<lambda>_. ZERO_SHA256)" "payload_dump sample_store = (\<lambda>_. PyDict [])"
  "check_transition sample_store = Some validate_transition" "verify_artifact sample_store = None"
  "event_validate sample_store = (\<lambda>_. Some first_event)"
  "json_loads sample_store = (\<lambda>_. Some (key_sorted (event_dump bare_store first_event)))"
  "sealed_event sample_store es a artifacts = sealed_event bare_store es a artifacts"
  "harness_request sample_store = harness_request bare_store"
  by (simp_all add: sample_store_def bare_store_def sealed_event_def dumped_envelope_def fun_eq_iff
      harness_request_def Let_def canonical_sha256_def)

lemma sample_dump [simp]: "event_dump sample_store e = event_dump bare_store e"
  by (simp add: sample_store_def bare_store_def event_dump_def)

lemma digits_of_0: "digits_of 0 = ''0''"
  by code_simp

lemma first_request_simps [simp]:
  "ar_payload first_request = Run_started sample_start" "ar_run_id first_request = ''r''"
  "ar_key first_request = ''r:run:started:0:'' @ ZERO_SHA256" "ar_cause first_request = None"
  "ar_delta first_request = None"
  by (simp_all add: first_request_def harness_request_def first_append_def harness_key_def bare_store_def
      canonical_sha256_def digits_of_0)

lemma first_artifacts: "payload_artifacts (Run_started sample_start) = Inr []"
  by (simp add: payload_artifacts_def)

lemma first_faithful: "faithful sample_store [] first_request"
  by (simp add: faithful_def first_artifacts codec_reads_def first_event_def)

lemma first_appended:
  "append sample_store None first_request = (Some (event_line sample_store first_event), Appended first_event)"
proof -
  have "key_digest (''r:run:started:0:'' @ ZERO_SHA256) = ZERO_SHA256"
    by (simp add: key_digest_def ZERO_SHA256_def numeral_eq_Suc)
  moreover have "validate_transition [] (Run_started sample_start) = Inr ()" by (simp add: validate_first)
  ultimately show ?thesis
    by (simp add: truthy_str_def append_def repair_tail_def first_such_def build_event_def canonical_sha256_def known_cause_def
        verify_all_def first_artifacts file_data_def)
qed

section \<open>Properties\<close>

text \<open>
  C18: An append that returns an event has written it so that it is read back: reading the new file,
  with or without repair, gives exactly the events of the repaired old file followed by the new
  event, whatever bytes of a torn line the old file ended with.
\<close>

theorem append_roundtrip:
  assumes "append st disk a = (disk', Appended e)" and "read_events st True disk = (disk0, Inr es)"
    and "faithful st es a"
  shows "read_events st False disk' = (disk', Inr (es @ [e])) \<and> read_events st True disk' = (disk', Inr (es @ [e]))
    \<and> payload e = ar_payload a \<and> disk' = Some (file_data disk0 @ event_line st e)"
proof -
  have view: "read_locked st (repair_tail disk) = Inr es" "disk0 = repair_tail disk"
    using assms(2) by (auto simp: read_events_def Let_def)
  then have built: "build_event st es a = Inr e" and "disk' = Some (file_data disk0 @ event_line st e)"
    using append_cases [OF assms(1) view(1)] by blast+
  moreover have "payload e = ar_payload a" by (rule build_event_sealed [OF built assms(3)]) simp
  moreover have "read_locked st disk' = Inr (es @ [e])" "repair_tail disk' = disk'"
    using read_after_append [OF assms(1) view(1) assms(3)] by blast+
  ultimately show ?thesis by (simp add: read_events_def)
qed

theorem append_roundtrip_witness:
  "read_events sample_store False (Some (event_line sample_store first_event))
    = (Some (event_line sample_store first_event), Inr [first_event])"
  using append_roundtrip [OF first_appended _ first_faithful, of None]
  by (simp add: read_events_def repair_tail_def)

text \<open>
  C19: No recorded event is ever lost, changed or reordered: after any sequence of appends, each of
  which may be refused, repeated or cut off by a crash after any byte of its line, a repairing read
  returns the events of before as a prefix.
\<close>

theorem ledger_only_grows:
  assumes "ledger_reach st disk disk'" and "read_events st True disk = (disk0, Inr es)"
  shows "\<exists>fs. snd (read_events st True disk') = Inr (es @ fs)"
  using reach_grows [OF assms(1)] assms(2) by (simp add: repaired_view_def)

text \<open>A file that a crash cut off inside the line of its second event.\<close>

theorem ledger_only_grows_witness:
  "\<exists>fs. snd (read_events sample_store True (Some (take 1 (event_line sample_store first_event)))) = Inr fs"
proof -
  have "1 < length (event_line sample_store first_event)"
    by (simp add: event_line_def canonical_bytes_def canonical_dumps_def event_dump_def utf8_def utf8_char_def)
  then have "ledger_reach sample_store None
      (Some (file_data (repair_tail None) @ take 1 (event_line sample_store first_event)))"
    by (intro reach_crash [OF reach_start first_appended])
  from ledger_only_grows [OF this, of None "[]"] show ?thesis
    by (simp add: read_events_def repair_tail_def file_data_def)
qed

text \<open>
  C20: What a store with the transition validator reads is a legal ledger, provided that
  validation of an event returns only events that satisfy their schema.  So every property of legal
  ledgers holds of what the file holds.
\<close>

theorem read_is_legal:
  assumes "read_events st repair disk = (disk', Inr es)" and "check_transition st = Some validate_transition"
    and "\<forall>d e. event_validate st d = Some e \<longrightarrow> valid_event dg e"
  shows "legal_ledger dg es"
proof -
  have step: "legal_ledger dg fs'" if "read_line st fs raw = Inr fs'" "legal_ledger dg fs" for fs raw fs'
  proof -
    from that(1) obtain e d where e: "fs' = fs @ [e]" "event_validate st d = Some e" "seq e = length fs + 1"
        "fs = [] \<or> run_id e = run_id (hd fs)" "idempotency_key e \<notin> idempotency_key ` set fs"
        "known_cause fs (causation_event_id e)" "returns (validate_transition fs (payload e))"
      using assms(2) by (auto simp: read_line_def raise_simps)
    have valid: "valid_event dg e" using assms(3) e(2) by blast
    then have "causation_event_id e \<noteq> Some []" by (auto simp: valid_event_def EVENT_ID_RE_def opt_ok_def)
    then have "case causation_event_id e of None \<Rightarrow> True | Some c \<Rightarrow> c \<in> event_id ` set fs"
      using e(6) by (auto simp: known_cause_def truthy_str_def split: option.splits)
    moreover have "case fs of [] \<Rightarrow> True | e0 # _ \<Rightarrow> run_id e = run_id e0"
      using e(4) by (auto split: list.splits)
    moreover have "validate_transition fs (payload e) = Inr ()" using e(7) by (elim returnsE) auto
    ultimately have "accepts dg fs e" using valid e(3,5) by (simp add: accepts_def)
    with that(2) show ?thesis by (simp add: e(1) legal_snoc)
  qed
  have "legal_ledger dg fs'" if "fold_res (read_line st) fs lines = Inr fs'" "legal_ledger dg fs" for lines fs fs'
    using that by (induction lines arbitrary: fs) (auto simp: raise_simps dest: step)
  then show ?thesis using assms(1)
    by (auto simp: read_events_def Let_def read_locked_def raise_simps legal_Nil split: option.splits if_splits)
qed

text \<open>The file of one event, read by a store whose events satisfy their schema.\<close>

lemma first_event_valid: "valid_event (\<lambda>_. ZERO_SHA256) first_event"
proof -
  have key: "split_on CHR '':'' (ar_key first_request) = [''r'', ''run'', ''started'', ''0'', ZERO_SHA256]"
    using split_join [of "[''r'', ''run'', ''started'', ''0'', ZERO_SHA256]" "CHR '':''"]
    by (simp add: ZERO_SHA256_def)
  have "nonempty_str (ar_key first_request)" "nonempty_str ''r''"
    by (simp_all add: nonempty_str_def py_strip_def py_isspace_def ZERO_SHA256_def numeral_eq_Suc)
  moreover have "valid_idempotency_key ''r'' (ar_key first_request)"
    using key ZERO_SHA256_ok digits_of_0 number_of_digits_of [of 0]
    by (simp add: valid_idempotency_key_def ID_RE_def id_char_def is_alnum_def is_digit_def canonical_decimal_def)
  moreover have "valid_payload (\<lambda>_. ZERO_SHA256) (Run_started sample_start)"
    using sample_payloads_ok [of "\<lambda>_. ZERO_SHA256"] by (simp add: sample_payloads_def sample_ok_def)
  moreover have genesis: "GENESIS_HASH = ZERO_SHA256" by (simp add: GENESIS_HASH_def ZERO_SHA256_def)
  ultimately show ?thesis
    using EVENT_ID_RE_event_id_of [of 1] ZERO_SHA256_ok first_artifacts
    by (simp add: valid_event_def valid_envelope_def first_event_def sealed_event_def opt_ok_def
        bare_store_def canonical_sha256_def previous_hash_def genesis)
qed

theorem read_is_legal_witness:
  "legal_ledger (\<lambda>_. ZERO_SHA256) [first_event]"
proof -
  have "read_events sample_store False (Some (event_line sample_store first_event))
      = (Some (event_line sample_store first_event), Inr [first_event])"
    using read_after_append(1) [OF first_appended _ first_faithful] by (simp add: read_events_def repair_tail_def)
  then show ?thesis by (rule read_is_legal) (simp_all add: first_event_valid)
qed

text \<open>
  C21: The hash chain makes the ledger tamper evident: two files that are read without an error and
  whose last events carry the same hash hold the same events, provided that the digest separates
  the texts that are hashed in them and that the hashed text of an event determines its fields.
\<close>

theorem hash_chain_tamper_evident:
  assumes "read_locked st (Some xs) = Inr es" and "read_locked st (Some ys) = Inr fs"
    and "es \<noteq> []" and "fs \<noteq> []" and "event_hash (last es) = event_hash (last fs)"
    and "inj_on (sha256 st) (hash_texts st (file_lines xs) \<union> hash_texts st (file_lines ys))"
    and "text_determines st"
  shows "es = fs"
  using chain_determines [OF _ _ assms(3-7)] assms(1,2) by (simp add: read_locked_def raise_simps)

theorem hash_chain_tamper_evident_witness:
  "\<exists>es. read_locked sample_store (Some (event_line sample_store first_event)) = Inr es \<and> es = [first_event]"
proof -
  let ?disk = "event_line sample_store first_event"
  have read: "read_locked sample_store (Some ?disk) = Inr [first_event]"
    using read_after_append(1) [OF first_appended _ first_faithful] by (simp add: repair_tail_def)
  then obtain es where es: "read_locked sample_store (Some ?disk) = Inr es" "es \<noteq> []"
      "event_hash (last es) = event_hash (last [first_event])" by fastforce
  have "\<exists>t. hash_texts sample_store (file_lines ?disk) \<union> hash_texts sample_store (file_lines ?disk) \<subseteq> {t}"
    by (auto simp: hash_texts_def)
  then have inj: "inj_on (sha256 sample_store)
      (hash_texts sample_store (file_lines ?disk) \<union> hash_texts sample_store (file_lines ?disk))"
    by (auto simp: inj_on_def)
  have "text_determines sample_store" by (simp add: text_determines_def)
  from hash_chain_tamper_evident [OF es(1) read es(2) _ es(3) inj this] es(1) show ?thesis by simp
qed

text \<open>
  C22: Recording is idempotent: when the router's append returns an event, that event is in the
  ledger, and the same action appended again, at any later time, returns the same event and leaves
  the file as it is.
\<close>

theorem harness_append_idempotent:
  assumes "harness_append st run disk p c now = (disk', Inr e)" and "repaired_view st disk = Inr es"
    and "faithful st es (harness_request st run p c now)"
  shows "harness_append st run disk' p c later = (disk', Inr e)
    \<and> (\<exists>fs. harness_events st disk' = (disk', Inr fs) \<and> e \<in> set fs)"
proof -
  let ?a = "harness_request st run p c now"
  obtain outcome where put: "append st disk ?a = (disk', outcome)"
    and outcome: "outcome = Appended e \<or> outcome = Duplicate e" and "returns (read_locked st disk')"
    using assms(1) by (auto simp: harness_append_def Let_def raise_simps split: prod.splits append_outcome.splits)
  then obtain gs where gs: "read_locked st disk' = Inr gs" by (elim returnsE)
  have "disk' = repair_tail disk'"
    using put outcome assms(2) by (auto elim!: append_cases simp: repaired_view_read)
  moreover obtain fs where fs: "repaired_view st disk' = Inr fs" "e \<in> set fs"
      "\<forall>b. same_action ?a b \<longrightarrow> append st disk' b = (disk', Duplicate e)"
    using store.put_recorded [OF put outcome assms(2,3)] by blast
  ultimately have "harness_events st disk' = (disk', Inr fs)"
    by (simp add: harness_events_def read_events_def repaired_view_read)
  moreover have "append st disk' (harness_request st run p c later) = (disk', Duplicate e)"
    using fs(3) by (simp add: same_action_def harness_request_def)
  ultimately show ?thesis using fs(2) gs by (auto simp: harness_append_def)
qed

theorem harness_append_idempotent_witness:
  "harness_append sample_store ''r'' (Some (event_line sample_store first_event)) (Run_started sample_start)
     first_append 7 = (Some (event_line sample_store first_event), Inr first_event)"
proof -
  have "read_locked sample_store (Some (event_line sample_store first_event)) = Inr [first_event]"
    using read_after_append(1) [OF first_appended _ first_faithful] by (simp add: repair_tail_def)
  then have "harness_append sample_store ''r'' None (Run_started sample_start) first_append 0
      = (Some (event_line sample_store first_event), Inr first_event)"
    using first_appended by (simp add: harness_append_def first_request_def)
  from harness_append_idempotent [OF this, of "[]" 7] show ?thesis
    using first_faithful by (simp add: repaired_view_read repair_tail_def first_request_def)
qed

end
