(* ===== verification/Finalization.thy ===== *)
theory Finalization
  imports Transitions
begin

text \<open>
  The evidence that the finalization of a stopped run rests on:
  \<^verbatim>\<open>src/src/tacorank/orchestrator/finalize.py\<close>.
\<close>

record candidate_finalization_plan =
  fp_experiment_id :: string
  fp_commit_sha :: string
  fp_patch_receipt_id :: string
  fp_seed :: int
  fp_best_primary_score :: "pyfloat option"
  fp_next_attempt :: int

definition selected_receipt :: "event list \<Rightarrow> string \<Rightarrow> string \<Rightarrow> patch_check_result option" where
  "selected_receipt es i sha = map_option snd (pick as_patch_check
     (last_such (\<lambda>e. case as_patch_check (payload e) of None \<Rightarrow> False
        | Some r \<Rightarrow> pk_experiment_id r = i \<and> pk_patch_commit_sha r = sha \<and> pk_accepted r) es))"

definition selected_evaluation :: "event list \<Rightarrow> string \<Rightarrow> pyfloat option \<Rightarrow> evaluation_result option" where
  "selected_evaluation es i best = map_option snd (pick as_evaluation
     (last_such (\<lambda>e. case as_evaluation (payload e) of None \<Rightarrow> False
        | Some r \<Rightarrow> ev_experiment_id r = i \<and> ev_fidelity r = Fidelity_FULL
            \<and> ev_population r = Population_PUBLIC_VALIDATION
            \<and> ta_verdict (ev_trust r) = Verdict_ACCEPTED
            \<and> Some (ms_primary_score (ev_metric_set r)) = best) es))"

definition started_attempts :: "event list \<Rightarrow> string \<Rightarrow> int list" where
  "started_attempts es i = concat (map (\<lambda>e. case as_started (payload e) of None \<Rightarrow> []
     | Some r \<Rightarrow> if rq_experiment_id r = i then [rq_attempt r] else []) es)"

definition plan_candidate_finalization ::
  "event list \<Rightarrow> run_state \<Rightarrow> candidate_finalization_plan res" where
  "plan_candidate_finalization es s =
     guarded (FinalizationError ''finalization requires a stopped run'') (st_status s = Run_STOPPED)
     (guarded (FinalizationError ''stopped run has no verified best'')
       (truthy_str (st_best_experiment_id s) \<and> truthy_str (st_best_commit_sha s))
     (guarded (FinalizationError ''baseline finalization uses protected baseline evidence'')
       (st_best_experiment_id s \<noteq> Some ''baseline'')
     (let i = the (st_best_experiment_id s); sha = the (st_best_commit_sha s) in
      fetch (FinalizationError ''selected candidate has no exact accepted Gate A receipt'')
        (selected_receipt es i sha) (\<lambda>receipt.
      fetch (FinalizationError ''selected candidate has no exact accepted Gate A receipt'')
        (pk_receipt_id receipt) (\<lambda>receipt_id.
      fetch (FinalizationError ''selected candidate has no trusted best-score evaluation'')
        (selected_evaluation es i (st_best_primary_score s)) (\<lambda>evaluation.
      Inr \<lparr>fp_experiment_id = i, fp_commit_sha = sha, fp_patch_receipt_id = receipt_id,
        fp_seed = ev_seed evaluation, fp_best_primary_score = st_best_primary_score s,
        fp_next_attempt = (case started_attempts es i of [] \<Rightarrow> 0 | a # as \<Rightarrow> fold max as a) + 1\<rparr>))))))"

definition baseline_reproduction_event_id :: "event list \<Rightarrow> run_state \<Rightarrow> string res" where
  "baseline_reproduction_event_id es s =
     guarded (FinalizationError ''baseline reproduction evidence is not selected'')
       (st_status s = Run_STOPPED \<and> st_best_experiment_id s = Some ''baseline'')
     (fetch (FinalizationError ''official baseline parity evidence is missing'')
       (pick as_baseline (first_such (\<lambda>e. as_baseline (payload e) \<noteq> None) es)) (\<lambda>(e, b).
      let result = bv_evaluation b in
      guarded (FinalizationError ''official baseline parity evidence is not trusted'')
        (ev_fidelity result = Fidelity_FULL \<and> ev_population result = Population_PUBLIC_VALIDATION
         \<and> ta_verdict (ev_trust result) = Verdict_ACCEPTED
         \<and> Some (ms_primary_score (ev_metric_set result)) = st_best_primary_score s)
      (Inr (event_id e))))"

end
