(* ===== verification/Finalization_Properties.thy ===== *)
theory Finalization_Properties
  imports Finalization Evidence_Properties
begin

text \<open>What the finalization of a stopped run can rest on.\<close>

lemma started_attempts_bound:
  "a \<in> set (started_attempts es i) \<Longrightarrow>
    a < (case started_attempts es i of [] \<Rightarrow> 0 | b # bs \<Rightarrow> fold max bs b) + 1"
proof -
  have bound: "b \<le> fold max bs b \<and> (\<forall>x \<in> set bs. x \<le> fold max bs b)" for b :: int and bs
  proof (induction bs arbitrary: b)
    case (Cons c bs)
    have "b \<le> max c b" "c \<le> max c b" by simp_all
    with Cons.IH [of "max c b"] show ?case by (auto intro: order.trans)
  qed simp
  then show "a \<in> set (started_attempts es i) \<Longrightarrow> ?thesis"
    using bound by (cases "started_attempts es i") (auto simp: less_add_one intro: zle_add1_eq_le [THEN iffD2])
qed

lemma best_candidate_backed_by:
  assumes "legal_ledger dg es" and "project es = Inr s" and "st_best_experiment_id s = Some i"
  obtains x where "st_best_primary_score s = Some x" and
      "(\<exists>e \<in> set es. \<exists>b. payload e = Baseline_verified b \<and> bv_experiment_id b = i)
       \<or> (\<exists>e \<in> set es. \<exists>r. payload e = Evaluation_completed r \<and> ev_experiment_id r = i
          \<and> ms_primary_score (ev_metric_set r) = x \<and> ev_fidelity r = Fidelity_FULL
          \<and> ev_population r = Population_PUBLIC_VALIDATION \<and> ta_verdict (ev_trust r) = Verdict_ACCEPTED)"
proof -
  from assms(2) obtain pj where pj: "project_loop es = Inr pj" "s = finish_projection es (pj_state pj)"
    by (rule project_state)
  have "es \<noteq> []"
    using assms(2,3) by (auto simp: project_Inr initial_projection_def initial_run_state_def)
  from best.holds [OF assms(1) this pj(1)] pj(2) assms(3) that show thesis
    by (fastforce simp: best_ok_def best_of_def best_backed_def confirmed_clean_def split: option.splits)
qed

lemma best_evaluation_selected:
  assumes legal: "legal_ledger dg es" and s: "project es = Inr s" and best: "st_best_experiment_id s = Some i" "i \<notin> {[], ''baseline''}"
    and candidate: "\<forall>b. Baseline_verified b \<in> payload ` set es \<longrightarrow> bv_experiment_id b \<noteq> i"
  obtains r where "selected_evaluation es i (st_best_primary_score s) = Some r"
    "Evaluation_completed r \<in> payload ` set es" "ev_experiment_id r = i"
    "st_best_primary_score s = Some (ms_primary_score (ev_metric_set r))"
    "ev_fidelity r = Fidelity_FULL" "ev_population r = Population_PUBLIC_VALIDATION"
    "ta_verdict (ev_trust r) = Verdict_ACCEPTED"
proof -
  let ?sel = "\<lambda>e. case as_evaluation (payload e) of None \<Rightarrow> False
    | Some r \<Rightarrow> ev_experiment_id r = i \<and> ev_fidelity r = Fidelity_FULL
        \<and> ev_population r = Population_PUBLIC_VALIDATION \<and> ta_verdict (ev_trust r) = Verdict_ACCEPTED
        \<and> Some (ms_primary_score (ev_metric_set r)) = st_best_primary_score s"
  obtain x where x: "st_best_primary_score s = Some x" and backed:
      "(\<exists>e \<in> set es. \<exists>b. payload e = Baseline_verified b \<and> bv_experiment_id b = i)
       \<or> (\<exists>e \<in> set es. \<exists>r. payload e = Evaluation_completed r \<and> ev_experiment_id r = i
          \<and> ms_primary_score (ev_metric_set r) = x \<and> ev_fidelity r = Fidelity_FULL
          \<and> ev_population r = Population_PUBLIC_VALIDATION \<and> ta_verdict (ev_trust r) = Verdict_ACCEPTED)"
    using best_candidate_backed_by [OF legal s best(1)] by blast
  have "\<not> (\<exists>e \<in> set es. \<exists>b. payload e = Baseline_verified b \<and> bv_experiment_id b = i)"
    using candidate by force
  then obtain e r where "e \<in> set es" "payload e = Evaluation_completed r" "?sel e" using backed x by auto
  then obtain e' where e': "last_such ?sel es = Some e'" using last_such_ex [of e es ?sel] by blast
  with last_such_SomeD [OF e'] obtain r' where r': "payload e' = Evaluation_completed r'" "e' \<in> set es"
      "ev_experiment_id r' = i" "st_best_primary_score s = Some (ms_primary_score (ev_metric_set r'))"
      "ev_fidelity r' = Fidelity_FULL" "ev_population r' = Population_PUBLIC_VALIDATION"
      "ta_verdict (ev_trust r') = Verdict_ACCEPTED"
    by (auto split: option.splits)
  have evaluation: "selected_evaluation es i (st_best_primary_score s) = Some r'"
    unfolding selected_evaluation_def e' pick_def using r'(1) by simp
  have "Evaluation_completed r' \<in> payload ` set es" using r'(1,2) by (metis image_eqI)
  from that [OF evaluation this r'(3-7)] show ?thesis .
qed

lemma accepted_receipt_selected:
  assumes "selected_receipt es i c = Some k"
  shows "Patch_checked k \<in> payload ` set es" and "pk_experiment_id k = i"
    and "pk_patch_commit_sha k = c" and "pk_accepted k"
proof -
  have "\<exists>e \<in> set es. payload e = Patch_checked k \<and> pk_experiment_id k = i
      \<and> pk_patch_commit_sha k = c \<and> pk_accepted k"
    using assms last_such_SomeD
    by (fastforce simp: selected_receipt_def pick_def split: option.splits)
  then show "Patch_checked k \<in> payload ` set es" and "pk_experiment_id k = i"
    and "pk_patch_commit_sha k = c" and "pk_accepted k"
    by (metis image_eqI)+
qed

text \<open>
  C23: The finalization plan of a stopped run with a candidate as its best: it is refused only for
  want of the Gate A receipt, never for want of an evaluation; and a plan that is returned names the
  best experiment and commit, a receipt of an accepted Gate A check of that commit, the seed of a
  full evaluation of the experiment on the public validation population that was accepted as trusted and
  has the best score of the run, and an attempt number above those of all started executions.
\<close>

theorem finalization_plan_sound:
  assumes legal: "legal_ledger dg es" and s: "project es = Inr s" and stopped: "st_status s = Run_STOPPED"
    and best: "st_best_experiment_id s = Some i" "i \<notin> {[], ''baseline''}"
      "st_best_commit_sha s = Some c" "c \<noteq> []"
    and candidate: "\<forall>b. Baseline_verified b \<in> payload ` set es \<longrightarrow> bv_experiment_id b \<noteq> i"
  shows "case plan_candidate_finalization es s of
      Inl x \<Rightarrow> x = FinalizationError ''selected candidate has no exact accepted Gate A receipt''
    | Inr p \<Rightarrow> fp_experiment_id p = i \<and> fp_commit_sha p = c
        \<and> (\<forall>a \<in> set (started_attempts es i). a < fp_next_attempt p)
        \<and> (\<exists>k. Patch_checked k \<in> payload ` set es \<and> pk_experiment_id k = i \<and> pk_accepted k
             \<and> pk_patch_commit_sha k = c \<and> pk_receipt_id k = Some (fp_patch_receipt_id p))
        \<and> (\<exists>r. Evaluation_completed r \<in> payload ` set es \<and> ev_experiment_id r = i
             \<and> ev_seed r = fp_seed p \<and> ev_fidelity r = Fidelity_FULL
             \<and> ev_population r = Population_PUBLIC_VALIDATION \<and> ta_verdict (ev_trust r) = Verdict_ACCEPTED
             \<and> fp_best_primary_score p = Some (ms_primary_score (ev_metric_set r)))
        \<and> fp_best_primary_score p = st_best_primary_score s"
proof -
  obtain r where r: "selected_evaluation es i (st_best_primary_score s) = Some r"
      "Evaluation_completed r \<in> payload ` set es" "ev_experiment_id r = i"
      "st_best_primary_score s = Some (ms_primary_score (ev_metric_set r))"
      "ev_fidelity r = Fidelity_FULL" "ev_population r = Population_PUBLIC_VALIDATION"
      "ta_verdict (ev_trust r) = Verdict_ACCEPTED"
    by (rule best_evaluation_selected [OF legal s best(1,2) candidate])
  show ?thesis
  proof (cases "selected_receipt es i c")
    case None
    then show ?thesis using stopped best by (simp add: plan_candidate_finalization_def truthy_str_def)
  next
    case (Some k)
    show ?thesis
    proof (cases "pk_receipt_id k")
      case None
      then show ?thesis using Some stopped best by (simp add: plan_candidate_finalization_def truthy_str_def)
    next
      case (Some rid)
      note k_in = accepted_receipt_selected [OF \<open>selected_receipt es i c = Some k\<close>]
      have plan: "plan_candidate_finalization es s = Inr \<lparr>fp_experiment_id = i, fp_commit_sha = c,
          fp_patch_receipt_id = rid, fp_seed = ev_seed r, fp_best_primary_score = st_best_primary_score s,
          fp_next_attempt = (case started_attempts es i of [] \<Rightarrow> 0 | a # as \<Rightarrow> fold max as a) + 1\<rparr>"
        using \<open>selected_receipt es i c = Some k\<close> Some stopped best r(1)
        by (simp add: plan_candidate_finalization_def truthy_str_def)
      show ?thesis unfolding plan using k_in r(2-) Some started_attempts_bound by auto
    qed
  qed
qed

definition stopped_run :: "event list" where
  "stopped_run = number_events 1 (take 20 sample_payloads)"

lemma stopped_run_legal: "legal_ledger dg stopped_run"
  using legal_prefix [of dg stopped_run] sample_legal_at [of 20 dg] by (simp add: stopped_run_def)

lemma stopped_run_state:
  "\<exists>s. project stopped_run = Inr s \<and> st_status s = Run_STOPPED \<and> st_best_experiment_id s = Some ''x1''
    \<and> st_best_commit_sha s = Some ''c1''"
  by (simp add: stopped_run_def sample_payloads_def project_def project_loop_def step_eval sample_defs
      cong: weak_congs)

theorem finalization_plan_sound_witness:
  "\<exists>s. project stopped_run = Inr s \<and> (case plan_candidate_finalization stopped_run s of
      Inl x \<Rightarrow> x = FinalizationError ''selected candidate has no exact accepted Gate A receipt''
    | Inr p \<Rightarrow> fp_experiment_id p = ''x1'' \<and> 2 < fp_next_attempt p
        \<and> (\<exists>r. Evaluation_completed r \<in> payload ` set stopped_run \<and> ev_seed r = fp_seed p
             \<and> ta_verdict (ev_trust r) = Verdict_ACCEPTED))"
proof -
  from stopped_run_state obtain s where s: "project stopped_run = Inr s" "st_status s = Run_STOPPED"
    "st_best_experiment_id s = Some ''x1''" "st_best_commit_sha s = Some ''c1''" by blast
  have "\<forall>b. Baseline_verified b \<in> payload ` set stopped_run \<longrightarrow> bv_experiment_id b \<noteq> ''x1''"
    by (simp add: stopped_run_def sample_payloads_def sample_baseline_def)
  note plan = finalization_plan_sound [OF stopped_run_legal [of sample_dg] s(1-3) _ s(4) _ this]
  have "2 \<in> set (started_attempts stopped_run ''x1'')"
    by (simp add: stopped_run_def sample_payloads_def started_attempts_def sample_request_def)
  with plan s(1) show ?thesis by (auto split: sum.splits)
qed

end
