(* ===== verification/Py_Numbers.thy ===== *)
theory Py_Numbers
  imports Floats Py_Text
begin

text \<open>
  Numeric library functions the evaluation uses, as CPython 3.12 computes them: \<^verbatim>\<open>sum\<close> of
  floats with Neumaier's compensation, \<^verbatim>\<open>math.sqrt\<close> correctly rounded,
  \<^verbatim>\<open>statistics.mean\<close> and \<^verbatim>\<open>stdev\<close> exact before one rounding, fixed-point formatting;
  grouping by key and the runs of equal elements of a sorted list.
\<close>

section \<open>Square roots\<close>

fun isqrt :: "nat \<Rightarrow> nat" where
  "isqrt n = (if n = 0 then 0 else let r = 2 * isqrt (n div 4) in if (r + 1) * (r + 1) \<le> n then r + 1 else r)"

declare isqrt.simps [simp del]

lemma isqrt_bounds: "isqrt n * isqrt n \<le> n \<and> n < (isqrt n + 1) * (isqrt n + 1)"
proof (induction n rule: isqrt.induct)
  case (1 n)
  show ?case
  proof (cases "n = 0")
    case False
    define s where "s = isqrt (n div 4)"
    have s: "s * s \<le> n div 4" "n div 4 < (s + 1) * (s + 1)" using 1 False by (simp_all add: s_def)
    have n: "n = 4 * (n div 4) + n mod 4" "n mod 4 < 4" by simp_all
    have "(2 * s) * (2 * s) \<le> n" "n < (2 * s + 1 + 1) * (2 * s + 1 + 1)"
      using s n by (simp_all add: algebra_simps)
    moreover have "isqrt n = (if (2 * s + 1) * (2 * s + 1) \<le> n then 2 * s + 1 else 2 * s)"
      using False by (simp add: isqrt.simps [of n] s_def Let_def)
    ultimately show ?thesis by simp
  qed (simp add: isqrt.simps)
qed

text \<open>
  The root of an exact fraction: some sixty bits with a sticky last bit, then one rounding.
\<close>

definition fsqrt :: "rat \<Rightarrow> pyfloat" where
  "fsqrt x = (if x \<le> 0 then 0 else
     let k = 60 - rat_log2 x div 2; y = x * pow2 (2 * k); a = isqrt (nat \<lfloor>y\<rfloor>);
         sticky = (if of_nat (a * a) = y \<or> odd a then a else a + 1)
     in fl (of_nat sticky * pow2 (- k)))"

lemma fsqrt_nonneg [simp]: "0 \<le> fsqrt x"
  by (simp add: fsqrt_def Let_def fl_nonneg less_imp_le)

lemma is_float_fsqrt [simp]: "is_float (fsqrt x)"
  by (simp add: fsqrt_def Let_def)

section \<open>Sums\<close>

fun neumaier :: "pyfloat \<Rightarrow> pyfloat \<Rightarrow> pyfloat list \<Rightarrow> pyfloat" where
  "neumaier s c [] = (if c \<noteq> 0 then fadd s c else s)"
| "neumaier s c (x # xs) = (let t = fadd s x in
     neumaier t (fadd c (if \<bar>x\<bar> \<le> \<bar>s\<bar> then fadd (fsub s t) x else fadd (fsub x t) s)) xs)"

definition py_sum :: "pyfloat list \<Rightarrow> pyfloat" where
  "py_sum xs = neumaier 0 0 xs"

definition of_len :: "nat \<Rightarrow> pyfloat" where
  "of_len n = fl (of_nat n)"

definition float_of_int :: "int \<Rightarrow> pyfloat" where
  "float_of_int k = fl (of_int k)"

text \<open>\<^verbatim>\<open>statistics.mean\<close> and \<^verbatim>\<open>statistics.stdev\<close>\<close>

definition exact_mean :: "pyfloat list \<Rightarrow> rat" where
  "exact_mean xs = sum_list xs / of_nat (length xs)"

definition stat_mean :: "pyfloat list \<Rightarrow> pyfloat" where
  "stat_mean xs = fl (exact_mean xs)"

definition stat_stdev :: "pyfloat list \<Rightarrow> pyfloat" where
  "stat_stdev xs = fsqrt (sum_list (map (\<lambda>x. (x - exact_mean xs) * (x - exact_mean xs)) xs)
     / of_nat (length xs - 1))"

lemma is_float_stat_mean [simp]: "is_float (stat_mean xs)"
  by (simp add: stat_mean_def)

lemma is_float_arith [simp]: "is_float (fadd a b)" "is_float (fsub a b)" "is_float (fmul a b)" "is_float (fdiv a b)"
  by (simp_all add: fadd_def fsub_def fmul_def fdiv_def)

lemma is_float_neumaier: "is_float s \<Longrightarrow> is_float (neumaier s c xs)"
  by (induction s c xs rule: neumaier.induct) (simp_all add: Let_def)

lemma is_float_py_sum [simp]: "is_float (py_sum xs)"
  by (simp add: py_sum_def is_float_neumaier)

lemma is_float_of_len [simp]: "is_float (of_len n)"
  by (simp add: of_len_def)

lemma of_len_exact: "n < 2 ^ 53 \<Longrightarrow> of_len n = of_nat n"
  using is_float_pow2_mult [of "int n" 0] by (cases "n = 0") (simp_all add: of_len_def fl_id)

section \<open>Fixed-point formatting\<close>

text \<open>\<^verbatim>\<open>"%.nf" % x\<close> and \<^verbatim>\<open>"%+.nf" % x\<close>\<close>

definition format_fixed :: "nat \<Rightarrow> pyfloat \<Rightarrow> string" where
  "format_fixed n x = (let d = digits_of (nat (round_even (\<bar>x\<bar> * 10 ^ n)));
       e = replicate (n + 1 - length d) CHR ''0'' @ d; k = length e - n
     in (if x < 0 then ''-'' else []) @ take k e @ (if n = 0 then [] else ''.'' @ drop k e))"

definition format_signed :: "nat \<Rightarrow> pyfloat \<Rightarrow> string" where
  "format_signed n x = (if x < 0 then format_fixed n x else ''+'' @ format_fixed n x)"

section \<open>Grouping and ranks\<close>

text \<open>\<^verbatim>\<open>groups.setdefault(k, []).append(v)\<close> over a sequence of pairs.\<close>

definition add_to_group :: "('k, 'v list) dict \<Rightarrow> 'k \<times> 'v \<Rightarrow> ('k, 'v list) dict" where
  "add_to_group d p = dset (fst p)
     ((case dget d (fst p) of None \<Rightarrow> [] | Some vs \<Rightarrow> vs) @ [snd p]) d"

definition group_pairs :: "('k \<times> 'v) list \<Rightarrow> ('k, 'v list) dict" where
  "group_pairs ps = foldl add_to_group [] ps"

text \<open>The runs of equal keys of a sorted list, and the rank range of each run.\<close>

function tie_runs :: "('a \<Rightarrow> 'b) \<Rightarrow> 'a list \<Rightarrow> 'a list list" where
  "tie_runs f [] = []"
| "tie_runs f (x # xs) = (x # takeWhile (\<lambda>y. f y = f x) xs) # tie_runs f (dropWhile (\<lambda>y. f y = f x) xs)"
  by pat_completeness auto

termination tie_runs
  by (relation "measure (\<lambda>(f, xs). length xs)") (auto intro: le_imp_less_Suc length_dropWhile_le)

fun rank_runs :: "nat \<Rightarrow> 'a list list \<Rightarrow> ('a \<times> nat \<times> nat) list" where
  "rank_runs i [] = []"
| "rank_runs i (r # rs) = map (\<lambda>x. (x, i, i + length r - 1)) r @ rank_runs (i + length r) rs"

text \<open>\<^verbatim>\<open>(index + end) / 2.0\<close> for every element, by its place in the sorted order.\<close>

definition tie_ranks :: "('a \<Rightarrow> 'b) \<Rightarrow> 'a list \<Rightarrow> ('a \<times> pyfloat) list" where
  "tie_ranks f xs = map (\<lambda>(x, i, j). (x, fdiv (of_len (i + j)) 2)) (rank_runs 0 (tie_runs f xs))"

end
