(* ===== verification/Evaluation_Domain.thy ===== *)
theory Evaluation_Domain
  imports Schemas_Evaluation Py_Numbers
begin

text \<open>
  The values of the evaluation layer, \<^verbatim>\<open>evaluation/types.py\<close> and
  \<^verbatim>\<open>evaluation/comparisons.py\<close>, and the decisions of \<^verbatim>\<open>evaluation/decisions.py\<close>.  Its \<^verbatim>\<open>MetricSet\<close> and \<^verbatim>\<open>TrustAssessment\<close> have
  the fields of the shared records and use them; the shared model strips its strings
  when it is built, which \<open>canonical_result\<close> writes out.
\<close>

section \<open>Metric sets\<close>

text \<open>\<^verbatim>\<open>MetricSet.__post_init__\<close>; the values of the model are finite.\<close>

definition make_metric_set :: "(string, pyfloat) dict \<Rightarrow> string \<Rightarrow> pyfloat \<Rightarrow> metric_set res" where
  "make_metric_set metrics primary score =
     guarded (ValueError ''primary_metric_name must not be empty'') (primary \<noteq> [])
     (guarded (ValueError ''metrics must not be empty'') (metrics \<noteq> [])
     (guarded (ValueError ''metric names must not be empty'') (list_all (\<lambda>n. n \<noteq> []) (dkeys metrics))
     (Inr \<lparr>ms_metrics = metrics, ms_primary_metric_name = primary, ms_primary_score = score\<rparr>)))"

definition strip_keys :: "(string, 'v) dict \<Rightarrow> (string, 'v) dict" where
  "strip_keys d = foldl (\<lambda>acc (k, v). dset (py_strip k) v acc) [] d"

definition canonical_metric_set :: "metric_set \<Rightarrow> metric_set res" where
  "canonical_metric_set m =
     (let c = \<lparr>ms_metrics = strip_keys (ms_metrics m),
        ms_primary_metric_name = py_strip (ms_primary_metric_name m),
        ms_primary_score = ms_primary_score m\<rparr>
      in guarded (ValidationError ''MetricSet'') (valid_metric_set c) (Inr c))"

record metric_delta =
  dl_primary :: pyfloat
  dl_metrics :: "(string, pyfloat) dict"

definition compare_metric_sets :: "metric_set \<Rightarrow> metric_set \<Rightarrow> metric_delta res" where
  "compare_metric_sets candidate reference =
     guarded (ValueError ''primary metric names do not match'')
       (ms_primary_metric_name candidate = ms_primary_metric_name reference)
     (guarded (ValueError ''metric sets do not contain the same names'')
       (set (dkeys (ms_metrics candidate)) = set (dkeys (ms_metrics reference)))
     (Inr \<lparr>dl_primary = fsub (ms_primary_score candidate) (ms_primary_score reference),
        dl_metrics = map (\<lambda>(n, v). (n, fsub v (case dget (ms_metrics reference) n of
          None \<Rightarrow> 0 | Some w \<Rightarrow> w))) (ms_metrics candidate)\<rparr>))"

definition normalized_headroom :: "pyfloat \<Rightarrow> pyfloat \<Rightarrow> pyfloat \<Rightarrow> pyfloat res" where
  "normalized_headroom score baseline upper =
     guarded (ValueError ''ceiling must be greater than baseline'') (baseline < upper)
     (Inr (fdiv (fsub score baseline) (fsub upper baseline)))"

section \<open>Evaluation results and decisions\<close>

record prediction_evidence =
  pe_spearman_vs_parent :: "pyfloat option"
  pe_changed_row_fraction :: "pyfloat option"
  pe_identical_score_fraction :: "pyfloat option"
  pe_unique_score_fraction :: pyfloat
  pe_within_user_rank_change :: "pyfloat option"

record seed_aggregate =
  sg_scores :: "pyfloat list"
  sg_mean :: pyfloat
  sg_standard_deviation :: pyfloat
  sg_standard_error :: pyfloat
  sg_eta :: pyfloat

definition seed_count :: "seed_aggregate \<Rightarrow> int" where
  "seed_count a = int (length (sg_scores a))"

record evaluation_outcome =
  eo_run_id :: string
  eo_experiment_id :: string
  eo_attempt :: int
  eo_population :: population
  eo_fidelity :: fidelity
  eo_seed :: int
  eo_public_query_index :: "int option"
  eo_evaluator_sha256 :: string
  eo_contract_sha256 :: string
  eo_data_manifest_sha256 :: string
  eo_metric_set :: metric_set
  eo_baseline_delta :: metric_delta
  eo_parent_delta :: metric_delta
  eo_previous_best_delta :: metric_delta
  eo_prediction_change :: prediction_evidence
  eo_trust :: trust_assessment
  eo_diagnostic_metrics :: "(string, pyfloat) dict"
  eo_diagnostics :: evaluation_diagnostics
  eo_seed_evidence_event_ids :: "string list"

definition canonical_trust :: "trust_assessment \<Rightarrow> trust_assessment" where
  "canonical_trust t = t\<lparr>ta_flags := map py_strip (ta_flags t)\<rparr>"

definition canonical_result :: "evaluation_outcome \<Rightarrow> evaluation_result res" where
  "canonical_result o' =
     fetch (ValueError ''canonical evaluation requires parent prediction evidence'')
       (pe_spearman_vs_parent (eo_prediction_change o')) (\<lambda>rho.
     fetch (ValueError ''canonical evaluation requires parent prediction evidence'')
       (pe_changed_row_fraction (eo_prediction_change o')) (\<lambda>changed.
     bind_res (canonical_metric_set (eo_metric_set o')) (\<lambda>metrics.
     let r = \<lparr>ev_run_id = py_strip (eo_run_id o'), ev_experiment_id = py_strip (eo_experiment_id o'),
       ev_attempt = eo_attempt o', ev_population = eo_population o', ev_fidelity = eo_fidelity o',
       ev_seed = eo_seed o', ev_public_query_index = eo_public_query_index o',
       ev_evaluator_sha256 = py_strip (eo_evaluator_sha256 o'),
       ev_contract_sha256 = py_strip (eo_contract_sha256 o'), ev_metric_set = metrics,
       ev_baseline_delta = dl_primary (eo_baseline_delta o'),
       ev_parent_delta = Some (dl_primary (eo_parent_delta o')),
       ev_previous_best_delta = Some (dl_primary (eo_previous_best_delta o')),
       ev_baseline_metric_deltas = strip_keys (dl_metrics (eo_baseline_delta o')),
       ev_parent_metric_deltas = strip_keys (dl_metrics (eo_parent_delta o')),
       ev_previous_best_metric_deltas = strip_keys (dl_metrics (eo_previous_best_delta o')),
       ev_prediction_change = Recorded_change
         \<lparr>ch_spearman_vs_parent = rho, ch_changed_row_fraction = changed\<rparr>,
       ev_diagnostic_metrics = strip_keys (eo_diagnostic_metrics o'),
       ev_trust = canonical_trust (eo_trust o'),
       ev_seed_evidence_event_ids = map py_strip (eo_seed_evidence_event_ids o'),
       ev_diagnostics = eo_diagnostics o', ev_metrics_artifact = None, ev_resource_delta = zero_delta\<rparr>
     in guarded (ValidationError ''EvaluationResult'') (valid_evaluation_result r) (Inr r))))"

record decision_outcome =
  do_run_id :: string
  do_experiment_id :: string
  do_evaluation_event_id :: "string option"
  do_decision :: decision_kind
  do_reason_code :: string
  do_fidelity_completed :: fidelity
  do_parent_eligible :: bool
  do_best_eligible :: bool
  do_next_fidelity :: "fidelity option"
  do_supporting_event_ids :: "string list"
  do_seed_evidence_event_ids :: "string list"

text \<open>\<^verbatim>\<open>tuple(dict.fromkeys(xs))\<close>: the first occurrences in order.\<close>

fun unique_in_order :: "'a list \<Rightarrow> 'a list" where
  "unique_in_order [] = []"
| "unique_in_order (x # xs) = x # unique_in_order (filter (\<lambda>y. y \<noteq> x) xs)"

definition canonical_decision :: "decision_outcome \<Rightarrow> experiment_decision res" where
  "canonical_decision d =
     (let c = \<lparr>ed_run_id = py_strip (do_run_id d), ed_experiment_id = py_strip (do_experiment_id d),
        ed_evaluation_event_id = map_option py_strip (do_evaluation_event_id d),
        ed_decision = do_decision d, ed_reason_code = py_strip (do_reason_code d),
        ed_fidelity_completed = do_fidelity_completed d, ed_parent_eligible = do_parent_eligible d,
        ed_best_eligible = do_best_eligible d, ed_next_fidelity = do_next_fidelity d,
        ed_supporting_event_ids = map py_strip
          (unique_in_order (do_supporting_event_ids d @ do_seed_evidence_event_ids d)),
        ed_lesson_candidate = None, ed_resource_delta = zero_delta\<rparr>
      in guarded (ValidationError ''ExperimentDecision'') (valid_experiment_decision c) (Inr c))"

text \<open>
  The experiment decision for an evaluation: \<^verbatim>\<open>src/src/tacorank/evaluation/decisions.py\<close>.
\<close>

record decision_context =
  dc_evaluation_event_id :: string
  dc_supporting_event_ids :: "string list"
  dc_seed_evidence_event_ids :: "string list"
  dc_confirmations_remaining :: int

definition make_decision ::
  "evaluation_outcome \<Rightarrow> decision_context \<Rightarrow> decision_kind \<Rightarrow> string \<Rightarrow> bool \<Rightarrow> bool \<Rightarrow> fidelity option
   \<Rightarrow> decision_outcome" where
  "make_decision r c action reason parent_eligible best_eligible next_fidelity =
     \<lparr>do_run_id = eo_run_id r, do_experiment_id = eo_experiment_id r,
      do_evaluation_event_id = Some (dc_evaluation_event_id c), do_decision = action, do_reason_code = reason,
      do_fidelity_completed = eo_fidelity r, do_parent_eligible = parent_eligible,
      do_best_eligible = best_eligible, do_next_fidelity = next_fidelity,
      do_supporting_event_ids = dc_supporting_event_ids c,
      do_seed_evidence_event_ids = dc_seed_evidence_event_ids c\<rparr>"

definition decide_proxy :: "evaluation_outcome \<Rightarrow> decision_context \<Rightarrow> decision_outcome" where
  "decide_proxy r c =
     (let t = eo_trust r; clean = (ta_integrity t = Integrity_CLEAN);
          negative = (ta_verdict t = Verdict_NEGATIVE) in
      if ta_verdict t = Verdict_ACCEPTED \<and> clean
      then make_decision r c Decision_PROMOTE ''PROXY_PASSED'' False False (Some Fidelity_FULL)
      else if ta_verdict t = Verdict_INCONCLUSIVE \<and> clean \<and> ''WITHIN_NOISE'' \<in> set (ta_flags t)
      then (if dl_primary (eo_parent_delta r) \<le> 0
            then make_decision r c Decision_PRUNE ''PROXY_NON_POSITIVE_WITHIN_NOISE'' False False None
            else make_decision r c Decision_PROMOTE ''PROXY_WITHIN_NOISE'' False False (Some Fidelity_FULL))
      else make_decision r c (if negative then Decision_PRUNE else Decision_INVALID)
        (if negative then ''PROXY_FAILED'' else ''INTEGRITY_UNVERIFIED'') False False None)"

text \<open>The incumbent's score as the evaluation recorded it, and the applied noise threshold.\<close>

definition current_best :: "evaluation_outcome \<Rightarrow> pyfloat" where
  "current_best r = fsub (ms_primary_score (eo_metric_set r)) (dl_primary (eo_previous_best_delta r))"

definition applied_eta :: "evaluation_outcome \<Rightarrow> pyfloat" where
  "applied_eta r = (case ta_eta_applied (eo_trust r) of None \<Rightarrow> 0 | Some e \<Rightarrow> e)"

definition improves_best :: "evaluation_outcome \<Rightarrow> bool" where
  "improves_best r \<longleftrightarrow> applied_eta r < fsub (case ta_seed_mean (eo_trust r) of Some m \<Rightarrow> m
     | None \<Rightarrow> ms_primary_score (eo_metric_set r)) (current_best r)"

definition exploratory_parent :: "evaluation_outcome \<Rightarrow> bool" where
  "exploratory_parent r \<longleftrightarrow> ta_verdict (eo_trust r) = Verdict_INCONCLUSIVE
     \<and> ta_stability (eo_trust r) = Stability_CONFIRMED \<and> ta_integrity (eo_trust r) = Integrity_CLEAN
     \<and> ''WITHIN_NOISE'' \<in> set (ta_flags (eo_trust r))
     \<and> (case ta_seed_mean (eo_trust r) of None \<Rightarrow> False
        | Some m \<Rightarrow> 0 < fsub m (fsub (ms_primary_score (eo_metric_set r)) (dl_primary (eo_parent_delta r)))
            \<and> fsub (current_best r) (applied_eta r) \<le> m)"

fun rejection_reason :: "trust_verdict \<Rightarrow> stability \<Rightarrow> string" where
  "rejection_reason Verdict_INCONCLUSIVE st =
     (if st = Stability_UNSTABLE then ''SEED_VARIANCE_HIGH'' else ''WITHIN_NOISE'')"
| "rejection_reason Verdict_NEGATIVE st = ''CLEAR_REGRESSION''"
| "rejection_reason Verdict_REDUNDANT st = ''SIGNAL_ALREADY_CAPTURED''"
| "rejection_reason _ st = ''INTEGRITY_UNVERIFIED''"

definition decide_full :: "evaluation_outcome \<Rightarrow> decision_context \<Rightarrow> decision_outcome" where
  "decide_full r c =
     (let t = eo_trust r; accepted = (ta_verdict t = Verdict_ACCEPTED) in
      if accepted \<and> ta_stability t = Stability_SINGLE_SEED
      then (if dc_confirmations_remaining c \<le> 0
            then make_decision r c Decision_REJECT ''CONFIRMATION_BUDGET_EXHAUSTED'' False False None
            else make_decision r c Decision_PROMOTE ''CONFIRMATION_REQUIRED'' False False (Some Fidelity_FULL))
      else if accepted \<and> ta_stability t = Stability_CONFIRMED \<and> ta_integrity t = Integrity_CLEAN
      then make_decision r c Decision_ACCEPT
        (if improves_best r then ''TRUSTED_IMPROVEMENT'' else ''TRUSTED_PARENT_ONLY'')
        True (improves_best r) None
      else if exploratory_parent r
      then make_decision r c Decision_ACCEPT ''EXPLORATORY_PARENT_WITHIN_TOLERANCE'' True False None
      else make_decision r c (if ta_verdict t = Verdict_SUSPICIOUS then Decision_INVALID else Decision_REJECT)
        (rejection_reason (ta_verdict t) (ta_stability t)) False False None)"

definition decide_evaluation :: "evaluation_outcome \<Rightarrow> decision_context \<Rightarrow> decision_outcome res" where
  "decide_evaluation r c =
     guarded (ValueError ''decision seed evidence does not match evaluation'')
       (dc_seed_evidence_event_ids c = eo_seed_evidence_event_ids r)
     (guarded (ValueError ''hidden-final results do not produce experiment decisions'')
       (eo_population r \<noteq> Population_HIDDEN_FINAL \<and> eo_fidelity r \<noteq> Fidelity_FINAL)
     (guarded (ValueError ''unbiased-audit results support trust but do not produce decisions'')
       (eo_population r \<noteq> Population_UNBIASED_AUDIT)
     (guarded (NoOpRecoveryRequired ''no-op requires implementation recovery'')
       (ta_verdict (eo_trust r) \<noteq> Verdict_NO_OP)
     (if eo_fidelity r = Fidelity_PROXY \<or> eo_population r = Population_INTERNAL_PROXY
      then Inr (decide_proxy r c)
      else guarded (ValueError ''full experiment decisions require public validation'')
        (eo_population r = Population_PUBLIC_VALIDATION \<and> eo_fidelity r = Fidelity_FULL)
        (Inr (decide_full r c))))))"

end
