(* ===== verification/No_Op.thy ===== *)
theory No_Op
  imports Evaluation_Domain
begin

text \<open>
  Prediction change and silent no-ops: \<^verbatim>\<open>src/src/tacorank/evaluation/no_op.py\<close>.
\<close>

record no_op_config =
  nc_score_tolerance :: pyfloat
  nc_spearman_threshold :: pyfloat
  nc_changed_row_fraction_max :: pyfloat
  nc_primary_delta_tolerance :: pyfloat
  nc_within_user_rank_change_min :: pyfloat

definition default_no_op_config :: no_op_config where
  "default_no_op_config = \<lparr>nc_score_tolerance = fl (1 / 10 ^ 12), nc_spearman_threshold = fl (9999 / 10000),
     nc_changed_row_fraction_max = fl (1 / 1000), nc_primary_delta_tolerance = fl (16 / 10000),
     nc_within_user_rank_change_min = fl (2 / 1000)\<rparr>"

section \<open>Rank correlation\<close>

text \<open>\<^verbatim>\<open>sorted(enumerate(values), key=lambda item: item[1])\<close> and the ranks of its runs.\<close>

definition indexed_sorted :: "pyfloat list \<Rightarrow> (nat \<times> pyfloat) list" where
  "indexed_sorted values = sort_key snd (enumerate 0 values)"

definition ranks_by_index :: "pyfloat list \<Rightarrow> (pyfloat \<Rightarrow> pyfloat) \<Rightarrow> pyfloat list" where
  "ranks_by_index values f =
     (let table = map (\<lambda>((i, _), r). (i, f r)) (tie_ranks snd (indexed_sorted values))
      in map (\<lambda>i. case dget table i of None \<Rightarrow> 0 | Some r \<Rightarrow> r) [0..<length values])"

definition average_ranks :: "pyfloat list \<Rightarrow> pyfloat list" where
  "average_ranks values = ranks_by_index values (\<lambda>r. fadd r 1)"

definition float_mean :: "pyfloat list \<Rightarrow> pyfloat" where
  "float_mean xs = fdiv (py_sum xs) (of_len (length xs))"

definition centred :: "pyfloat list \<Rightarrow> pyfloat list" where
  "centred xs = map (\<lambda>x. fsub x (float_mean xs)) xs"

text \<open>\<^verbatim>\<open>(value - mean) ** 2\<close> is one rounded product.\<close>

definition squares_norm :: "pyfloat list \<Rightarrow> pyfloat" where
  "squares_norm xs = fsqrt (py_sum (map (\<lambda>d. fmul d d) (centred xs)))"

text \<open>
  The quotient of the centred product sum by the two norms, as \<^verbatim>\<open>spearman\<close> takes it of ranks
  and \<^verbatim>\<open>delta_correlation\<close> of delta vectors.
\<close>

definition correlation_of :: "pyfloat list \<Rightarrow> pyfloat list \<Rightarrow> pyfloat option" where
  "correlation_of xs ys =
     (let numerator = py_sum (map (\<lambda>(a, b). fmul a b) (zip (centred xs) (centred ys)))
      in if squares_norm xs = 0 \<or> squares_norm ys = 0 then None
         else Some (fdiv numerator (fmul (squares_norm xs) (squares_norm ys))))"

definition spearman :: "pyfloat list \<Rightarrow> pyfloat list \<Rightarrow> pyfloat res" where
  "spearman left right =
     guarded (ValueError ''Spearman inputs must have equal lengths'') (length left = length right)
     (guarded (ValueError ''Spearman inputs must not be empty'') (left \<noteq> [])
     (Inr (case correlation_of (average_ranks left) (average_ranks right) of
        None \<Rightarrow> if left = right then 1 else 0 | Some r \<Rightarrow> r)))"

section \<open>Pairs within a user\<close>

definition sign_of :: "pyfloat \<Rightarrow> pyfloat \<Rightarrow> int" where
  "sign_of v tolerance = (if tolerance < v then 1 else if v < - tolerance then - 1 else 0)"

text \<open>All pairs of a list, the earlier element first.\<close>

fun ordered_pairs :: "'a list \<Rightarrow> ('a \<times> 'a) list" where
  "ordered_pairs [] = []"
| "ordered_pairs (x # xs) = map (\<lambda>y. (x, y)) xs @ ordered_pairs xs"

text \<open>The orders of parent and candidate for one pair of rows (parent score, score).\<close>

definition pair_orders :: "pyfloat \<Rightarrow> (pyfloat \<times> pyfloat) \<times> (pyfloat \<times> pyfloat) \<Rightarrow> int \<times> int" where
  "pair_orders tolerance p = (case p of ((parent, score), (parent', score')) \<Rightarrow>
     (sign_of (fsub parent parent') tolerance, sign_of (fsub score score') tolerance))"

definition compared_pairs ::
  "pyfloat list \<Rightarrow> pyfloat list \<Rightarrow> 'u list \<Rightarrow> pyfloat \<Rightarrow> (int \<times> int) list" where
  "compared_pairs scores parent users tolerance =
     filter (\<lambda>o'. o' \<noteq> (0, 0)) (map (pair_orders tolerance)
       (concat (map ordered_pairs (dvalues (group_pairs (zip users (zip parent scores)))))))"

definition within_user_rank_change ::
  "pyfloat list \<Rightarrow> pyfloat list \<Rightarrow> 'u list \<Rightarrow> pyfloat \<Rightarrow> pyfloat option res" where
  "within_user_rank_change scores parent users tolerance =
     guarded (ValueError ''scores, parent scores, and user ids must align'')
       (length scores = length parent \<and> length parent = length users)
     (let pairs = compared_pairs scores parent users tolerance;
          changed = length (filter (\<lambda>(p, c). p \<noteq> c) pairs)
      in Inr (if pairs = [] then None else Some (fdiv (of_len changed) (of_len (length pairs)))))"

section \<open>Change of the predictions\<close>

definition count_fraction :: "bool list \<Rightarrow> pyfloat" where
  "count_fraction bs = fdiv (of_len (length (filter (\<lambda>b. b) bs))) (of_len (length bs))"

definition unique_fraction :: "'a list \<Rightarrow> pyfloat" where
  "unique_fraction xs = fdiv (of_len (length (remdups xs))) (of_len (length xs))"

definition analyze_prediction_change ::
  "pyfloat list \<Rightarrow> pyfloat list option \<Rightarrow> pyfloat \<Rightarrow> 'u list option \<Rightarrow> prediction_evidence res" where
  "analyze_prediction_change scores parent_scores tolerance users =
     guarded (ValueError ''predictions must not be empty'') (scores \<noteq> [])
     (case parent_scores of
        None \<Rightarrow> Inr \<lparr>pe_spearman_vs_parent = None, pe_changed_row_fraction = None,
          pe_identical_score_fraction = None, pe_unique_score_fraction = unique_fraction scores,
          pe_within_user_rank_change = None\<rparr>
      | Some parent \<Rightarrow>
          guarded (ValueError ''predictions must not be empty'') (parent \<noteq> [])
          (guarded (ValueError ''candidate and parent predictions must align'') (length scores = length parent)
          (bind_res (spearman scores parent) (\<lambda>rho.
           bind_res (case users of None \<Rightarrow> Inr None
              | Some us \<Rightarrow> within_user_rank_change scores parent us tolerance) (\<lambda>rank_change.
           Inr \<lparr>pe_spearman_vs_parent = Some rho,
             pe_changed_row_fraction = Some (count_fraction
               (map (\<lambda>(a, b). tolerance < \<bar>fsub a b\<bar>) (zip scores parent))),
             pe_identical_score_fraction = Some (count_fraction (map (\<lambda>(a, b). a = b) (zip scores parent))),
             pe_unique_score_fraction = unique_fraction scores,
             pe_within_user_rank_change = rank_change\<rparr>)))))"

definition is_no_op :: "prediction_evidence \<Rightarrow> pyfloat \<Rightarrow> no_op_config \<Rightarrow> bool" where
  "is_no_op change parent_delta cfg =
     (case (pe_spearman_vs_parent change, pe_changed_row_fraction change) of
        (Some rho, Some changed) \<Rightarrow>
          \<not> nc_primary_delta_tolerance cfg < \<bar>parent_delta\<bar>
          \<and> (case pe_within_user_rank_change change of
               Some w \<Rightarrow> w \<le> nc_within_user_rank_change_min cfg
             | None \<Rightarrow> nc_spearman_threshold cfg \<le> rho \<or> changed \<le> nc_changed_row_fraction_max cfg)
      | _ \<Rightarrow> False)"

end
