(* ===== verification/Trust.thy ===== *)
theory Trust
  imports Evaluation_Domain No_Op
begin

text \<open>
  Seed aggregation and the release gate, \<^verbatim>\<open>src/src/tacorank/evaluation/stability.py\<close>, and the
  trust verdict, \<^verbatim>\<open>evaluation/trust.py\<close>.
\<close>

definition aggregate_seeds :: "pyfloat list \<Rightarrow> pyfloat \<Rightarrow> seed_aggregate res" where
  "aggregate_seeds scores eta_floor =
     guarded (ValueError ''seed scores must be a non-empty finite sequence'') (scores \<noteq> [])
     (let deviation = (if length scores = 1 then 0 else stat_stdev scores);
          error = (if length scores = 1 then 0 else fdiv deviation (fsqrt (of_nat (length scores))))
      in Inr \<lparr>sg_scores = scores, sg_mean = stat_mean scores, sg_standard_deviation = deviation,
           sg_standard_error = error, sg_eta = max (fmul 2 error) eta_floor\<rparr>)"

section \<open>The ladder\<close>

record ladder =
  ld_precision :: pyfloat
  ld_eta_floor :: pyfloat
  ld_quantize :: bool
  ld_best_true :: "pyfloat option"
  ld_best_reported :: "pyfloat option"
  ld_queries :: int

record ladder_result =
  lr_accepted :: bool
  lr_reported_score :: pyfloat
  lr_candidate_mean :: pyfloat
  lr_standard_error :: pyfloat
  lr_eta :: pyfloat
  lr_delta_vs_best :: "pyfloat option"
  lr_query_index :: int

definition new_ladder :: "int \<Rightarrow> pyfloat \<Rightarrow> bool \<Rightarrow> ladder res" where
  "new_ladder rows eta_floor quantize =
     guarded (ValueError ''validation_rows must be positive'') (0 < rows)
     (Inr \<lparr>ld_precision = fdiv 1 (fsqrt (of_int rows)), ld_eta_floor = eta_floor, ld_quantize = quantize,
        ld_best_true = None, ld_best_reported = None, ld_queries = 0\<rparr>)"

definition ladder_submit :: "ladder \<Rightarrow> pyfloat list \<Rightarrow> ladder \<times> ladder_result res" where
  "ladder_submit l scores = (case aggregate_seeds scores (ld_eta_floor l) of
     Inl x \<Rightarrow> (l, Inl x)
   | Inr a \<Rightarrow>
       (let accepted = (case ld_best_true l of None \<Rightarrow> True
              | Some previous \<Rightarrow> fadd previous (sg_eta a) < sg_mean a);
            reported = (if ld_quantize l
              then fmul (float_of_int (round_even (fdiv (sg_mean a) (ld_precision l)))) (ld_precision l)
              else sg_mean a);
            l' = l\<lparr>ld_queries := ld_queries l + 1,
              ld_best_true := (if accepted then Some (sg_mean a) else ld_best_true l),
              ld_best_reported := (if accepted then Some reported else ld_best_reported l)\<rparr>
        in (l', fetch (Raised ''AssertionError'' []) (ld_best_reported l') (\<lambda>score.
             Inr \<lparr>lr_accepted = accepted, lr_reported_score = score, lr_candidate_mean = sg_mean a,
               lr_standard_error = sg_standard_error a, lr_eta = sg_eta a,
               lr_delta_vs_best = map_option (\<lambda>p. fsub (sg_mean a) p) (ld_best_true l),
               lr_query_index = ld_queries l'\<rparr>))))"

definition seed_independence_passes ::
  "pyfloat list \<Rightarrow> pyfloat \<Rightarrow> pyfloat \<Rightarrow> pyfloat \<Rightarrow> bool res" where
  "seed_independence_passes observed expected_std tolerance_factor minimum_std =
     bind_res (aggregate_seeds observed (fl (16 / 10000))) (\<lambda>a.
     guarded (Raised ''ZeroDivisionError'' []) (tolerance_factor \<noteq> 0)
     (Inr (max minimum_std (fdiv expected_std tolerance_factor) \<le> sg_standard_deviation a
        \<and> sg_standard_deviation a \<le> fmul expected_std tolerance_factor)))"

lemma aggregate_returns: "scores \<noteq> [] \<Longrightarrow> \<exists>a. aggregate_seeds scores eta = Inr a"
  by (simp add: aggregate_seeds_def Let_def)

lemma aggregateD:
  assumes "aggregate_seeds scores eta = Inr a"
  shows "sg_scores a = scores" and "scores \<noteq> []" and "eta \<le> sg_eta a" and "0 \<le> sg_standard_error a"
    and "is_float (sg_mean a)" and "is_float (sg_standard_error a)"
    and "is_float eta \<Longrightarrow> is_float (sg_eta a)" and "0 \<le> sg_eta a"
proof -
  have nonneg: "0 \<le> fdiv (stat_stdev scores) (fsqrt (of_nat (length scores)))"
    by (simp add: fdiv_def fl_nonneg stat_stdev_def)
  then have "0 \<le> fmul 2 (fdiv (stat_stdev scores) (fsqrt (of_nat (length scores))))"
    by (simp add: fmul_def fl_nonneg)
  then show "sg_scores a = scores" "scores \<noteq> []" "eta \<le> sg_eta a" "0 \<le> sg_standard_error a"
    "is_float (sg_mean a)" "is_float (sg_standard_error a)" "is_float eta \<Longrightarrow> is_float (sg_eta a)"
    "0 \<le> sg_eta a"
    using assms nonneg by (auto simp: aggregate_seeds_def Let_def raise_simps max_def fmul_def)
qed

text \<open>
  The trust adjudication, rule by rule: \<^verbatim>\<open>src/src/tacorank/evaluation/trust.py\<close>.
\<close>

record trust_config =
  tc_eta_floor :: pyfloat
  tc_required_seed_count :: int
  tc_baseline_seed_std :: pyfloat
  tc_unstable_std_multiplier :: pyfloat
  tc_too_good_delta :: pyfloat
  tc_minimum_unique_score_fraction :: pyfloat
  tc_redundancy_correlation :: pyfloat
  tc_gain_concentration_threshold :: pyfloat
  tc_drift_slope_threshold :: pyfloat
  tc_validation_arm_gap_threshold :: pyfloat
  tc_proxy_improvement_threshold :: pyfloat
  tc_require_non_decreasing_metrics :: bool
  tc_no_op :: no_op_config

definition default_trust_config :: trust_config where
  "default_trust_config = \<lparr>tc_eta_floor = fl (16 / 10000), tc_required_seed_count = 2,
     tc_baseline_seed_std = fl (8 / 10000), tc_unstable_std_multiplier = 3, tc_too_good_delta = fl (5 / 100),
     tc_minimum_unique_score_fraction = fl (1 / 100), tc_redundancy_correlation = fl (7 / 10),
     tc_gain_concentration_threshold = fl (7 / 10), tc_drift_slope_threshold = fl (2 / 1000),
     tc_validation_arm_gap_threshold = fl (6 / 1000), tc_proxy_improvement_threshold = fl (16 / 10000),
     tc_require_non_decreasing_metrics = False, tc_no_op = default_no_op_config\<rparr>"

record trust_evidence =
  te_population :: population
  te_fidelity :: fidelity
  te_parent_primary :: pyfloat
  te_parent_delta :: pyfloat
  te_metric_deltas :: "(string, pyfloat) dict"
  te_prediction_change :: prediction_evidence
  te_seed_scores :: "pyfloat list"
  te_output_gate_evidence :: bool
  te_evaluator_hash_matches :: bool
  te_contract_hash_matches :: bool
  te_forbidden_inputs :: "string list"
  te_alignment_suspect :: bool
  te_internal_proxy_delta :: "pyfloat option"
  te_unbiased_audit_delta :: "pyfloat option"
  te_val_a_delta :: "pyfloat option"
  te_val_b_delta :: "pyfloat option"
  te_delta_correlation :: "pyfloat option"
  te_delta_correlation_experiment_id :: "string option"
  te_score_unique_fraction :: "pyfloat option"
  te_gain_concentration_top10pct :: "pyfloat option"
  te_drift_primary_slope :: "pyfloat option"

definition make_assessment ::
  "trust_verdict \<Rightarrow> stability \<Rightarrow> integrity \<Rightarrow> string list \<Rightarrow> seed_aggregate \<Rightarrow> trust_assessment" where
  "make_assessment verdict stab integ flags a =
     \<lparr>ta_verdict = verdict, ta_stability = stab, ta_integrity = integ, ta_flags = flags,
      ta_eta_applied = Some (sg_eta a),
      ta_seed_mean = (if 2 \<le> seed_count a then Some (sg_mean a) else None),
      ta_seed_stderr = (if 2 \<le> seed_count a then Some (sg_standard_error a) else None),
      ta_seed_count = seed_count a\<rparr>"

definition flag_if :: "bool \<Rightarrow> string \<Rightarrow> string list" where
  "flag_if c f = (if c then [f] else [])"

definition both_arms :: "trust_evidence \<Rightarrow> (pyfloat \<Rightarrow> pyfloat \<Rightarrow> bool) \<Rightarrow> bool" where
  "both_arms ev P = (case (te_val_a_delta ev, te_val_b_delta ev) of (Some a, Some b) \<Rightarrow> P a b | _ \<Rightarrow> False)"

definition metric_direction_conflict :: "trust_evidence \<Rightarrow> bool" where
  "metric_direction_conflict ev \<longleftrightarrow> list_ex (\<lambda>d. d < 0) (dvalues (te_metric_deltas ev))
     \<and> list_ex (\<lambda>d. 0 < d) (dvalues (te_metric_deltas ev))"

definition directional_flags :: "trust_evidence \<Rightarrow> trust_config \<Rightarrow> string list" where
  "directional_flags ev cfg =
     flag_if (case te_internal_proxy_delta ev of None \<Rightarrow> False | Some d \<Rightarrow> fmul (te_parent_delta ev) d < 0)
       ''PROXY_FULL_DIRECTION_CONFLICT''
     @ flag_if (metric_direction_conflict ev) ''METRIC_DIRECTION_CONFLICT''
     @ flag_if (metric_direction_conflict ev \<and> tc_require_non_decreasing_metrics cfg)
         ''CONTRACT_DIRECTION_POLICY_FAILED''
     @ flag_if (case te_gain_concentration_top10pct ev of None \<Rightarrow> False
         | Some g \<Rightarrow> tc_gain_concentration_threshold cfg < g) ''FRAGILE_CONCENTRATED_GAIN''
     @ flag_if (case te_drift_primary_slope ev of None \<Rightarrow> False
         | Some s \<Rightarrow> tc_drift_slope_threshold cfg < \<bar>s\<bar>) ''DRIFT_DETECTED''
     @ flag_if (both_arms ev (\<lambda>a b. fmul a b \<le> 0)) ''VALIDATION_ARM_SIGN_CONFLICT''
     @ flag_if (both_arms ev (\<lambda>a b. tc_validation_arm_gap_threshold cfg < \<bar>fsub a b\<bar>)) ''VALIDATION_ARM_GAP''"

definition hard_flags :: "trust_evidence \<Rightarrow> string list" where
  "hard_flags ev =
     flag_if (\<not> te_evaluator_hash_matches ev) ''EVALUATOR_HASH_MISMATCH''
     @ flag_if (\<not> te_contract_hash_matches ev) ''CONTRACT_HASH_MISMATCH''
     @ flag_if (\<not> te_output_gate_evidence ev) ''OUTPUT_GATE_EVIDENCE_MISSING''
     @ map (\<lambda>n. ''FORBIDDEN_INPUT_DETECTED:'' @ n) (te_forbidden_inputs ev)"

definition redundancy_flag :: "pyfloat \<Rightarrow> string option \<Rightarrow> string" where
  "redundancy_flag correlation i = ''DELTA_VECTOR_REDUNDANT:'' @ format_fixed 4 correlation
     @ (if truthy_str i then '':'' @ the i else [])"

text \<open>The verdict on the proxy route and the one on the seeds of the full route.\<close>

definition proxy_assessment ::
  "trust_evidence \<Rightarrow> trust_config \<Rightarrow> string list \<Rightarrow> seed_aggregate \<Rightarrow> trust_assessment" where
  "proxy_assessment ev cfg flags a =
     (let tolerance = tc_proxy_improvement_threshold cfg in
      if tolerance < te_parent_delta ev
      then make_assessment Verdict_ACCEPTED Stability_NOT_APPLICABLE Integrity_CLEAN flags a
      else if te_parent_delta ev < - tolerance
      then make_assessment Verdict_NEGATIVE Stability_NOT_APPLICABLE Integrity_CLEAN flags a
      else make_assessment Verdict_INCONCLUSIVE Stability_NOT_APPLICABLE Integrity_CLEAN
        (''WITHIN_NOISE'' # flags) a)"

definition seed_assessment ::
  "trust_evidence \<Rightarrow> trust_config \<Rightarrow> string list \<Rightarrow> seed_aggregate \<Rightarrow> trust_assessment" where
  "seed_assessment ev cfg flags a =
     (let deterministic_pair = (2 \<le> seed_count a \<and> sg_standard_deviation a = 0);
          delta = fsub (sg_mean a) (te_parent_primary ev) in
      if seed_count a < tc_required_seed_count cfg \<and> \<not> deterministic_pair
      then make_assessment Verdict_ACCEPTED Stability_SINGLE_SEED Integrity_CLEAN flags a
      else if fmul (tc_unstable_std_multiplier cfg) (tc_baseline_seed_std cfg) < sg_standard_deviation a
      then make_assessment Verdict_INCONCLUSIVE Stability_UNSTABLE Integrity_CLEAN (''SEED_INSTABILITY'' # flags) a
      else if \<bar>delta\<bar> \<le> sg_eta a
      then (if max (fmul 2 (sg_standard_error a)) (fl (1 / 10 ^ 12)) < delta
            then make_assessment Verdict_ACCEPTED Stability_CONFIRMED Integrity_CLEAN
              (''CONFIRMED_POSITIVE_BELOW_LADDER'' # flags) a
            else make_assessment Verdict_INCONCLUSIVE Stability_CONFIRMED Integrity_CLEAN
              (''WITHIN_NOISE'' # flags) a)
      else if delta < - sg_eta a
      then make_assessment Verdict_NEGATIVE Stability_CONFIRMED Integrity_CLEAN flags a
      else make_assessment Verdict_ACCEPTED Stability_CONFIRMED Integrity_CLEAN flags a)"

definition measured_unique_fraction :: "trust_evidence \<Rightarrow> pyfloat" where
  "measured_unique_fraction ev = (case te_score_unique_fraction ev of Some f \<Rightarrow> f
     | None \<Rightarrow> pe_unique_score_fraction (te_prediction_change ev))"

definition assess_aggregate :: "trust_evidence \<Rightarrow> trust_config \<Rightarrow> seed_aggregate \<Rightarrow> trust_assessment" where
  "assess_aggregate ev cfg a =
     (let flags = directional_flags ev cfg;
          suspicious = (\<lambda>integ fs. make_assessment Verdict_SUSPICIOUS Stability_NOT_APPLICABLE integ fs a) in
      if hard_flags ev \<noteq> [] then suspicious Integrity_COMPROMISED (hard_flags ev)
      else if te_alignment_suspect ev then suspicious Integrity_INCONCLUSIVE [''PREDICTION_ALIGNMENT_SUSPECT'']
      else if is_no_op (te_prediction_change ev) (te_parent_delta ev) (tc_no_op cfg)
      then make_assessment Verdict_NO_OP Stability_NOT_APPLICABLE Integrity_CLEAN [''NO_PREDICTION_CHANGE''] a
      else if measured_unique_fraction ev < tc_minimum_unique_score_fraction cfg
      then suspicious Integrity_COMPROMISED [''DEGENERATE_SCORES'']
      else if tc_too_good_delta cfg < te_parent_delta ev
      then suspicious Integrity_INCONCLUSIVE [''TOO_GOOD_TO_BE_TRUE'']
      else if 0 < te_parent_delta ev \<and> (case te_unbiased_audit_delta ev of None \<Rightarrow> False | Some d \<Rightarrow> d \<le> 0)
      then suspicious Integrity_INCONCLUSIVE [''UNBIASED_AUDIT_SIGN_CONFLICT'']
      else if (case te_delta_correlation ev of None \<Rightarrow> False | Some c \<Rightarrow> tc_redundancy_correlation cfg < c)
      then make_assessment Verdict_REDUNDANT Stability_NOT_APPLICABLE Integrity_CLEAN
        [redundancy_flag (the (te_delta_correlation ev)) (te_delta_correlation_experiment_id ev)] a
      else if ''CONTRACT_DIRECTION_POLICY_FAILED'' \<in> set flags
      then make_assessment Verdict_INCONCLUSIVE Stability_NOT_APPLICABLE Integrity_CLEAN flags a
      else if te_population ev = Population_INTERNAL_PROXY \<or> te_fidelity ev = Fidelity_PROXY
      then proxy_assessment ev cfg flags a
      else seed_assessment ev cfg flags a)"

definition assess_trust :: "trust_evidence \<Rightarrow> trust_config \<Rightarrow> trust_assessment res" where
  "assess_trust ev cfg = bind_res (aggregate_seeds (te_seed_scores ev) (tc_eta_floor cfg))
     (\<lambda>a. Inr (assess_aggregate ev cfg a))"

end
