(* ===== verification/Evaluation_Properties.thy ===== *)
theory Evaluation_Properties
  imports Trust Evaluation_Domain Lifecycle_Properties
begin

text \<open>
  Properties of the evaluation layer: the trust assessment satisfies the shared schema, an accepting
  verdict is earned, and the decision that the policy takes on a recorded evaluation is one that
  the transition validator admits.
\<close>

section \<open>Trust\<close>

lemma flag_visible [simp]:
  "nonempty_str ''EVALUATOR_HASH_MISMATCH''"
  "nonempty_str ''CONTRACT_HASH_MISMATCH''"
  "nonempty_str ''OUTPUT_GATE_EVIDENCE_MISSING''"
  "nonempty_str ''PREDICTION_ALIGNMENT_SUSPECT''"
  "nonempty_str ''NO_PREDICTION_CHANGE''"
  "nonempty_str ''DEGENERATE_SCORES''"
  "nonempty_str ''TOO_GOOD_TO_BE_TRUE''"
  "nonempty_str ''UNBIASED_AUDIT_SIGN_CONFLICT''"
  "nonempty_str ''WITHIN_NOISE''"
  "nonempty_str ''SEED_INSTABILITY''"
  "nonempty_str ''CONFIRMED_POSITIVE_BELOW_LADDER''"
  "nonempty_str ''PROXY_FULL_DIRECTION_CONFLICT''"
  "nonempty_str ''METRIC_DIRECTION_CONFLICT''"
  "nonempty_str ''CONTRACT_DIRECTION_POLICY_FAILED''"
  "nonempty_str ''FRAGILE_CONCENTRATED_GAIN''"
  "nonempty_str ''DRIFT_DETECTED''"
  "nonempty_str ''VALIDATION_ARM_SIGN_CONFLICT''"
  "nonempty_str ''VALIDATION_ARM_GAP''"
  by code_simp+

lemma forbidden_flag: "nonempty_str n \<Longrightarrow> nonempty_str (''FORBIDDEN_INPUT_DETECTED:'' @ n)"
  using py_strip_ends [of n]
  by (intro nonempty_strI) (auto simp: nonempty_str_def py_isspace_def)

lemma strip_flags: "list_all nonempty_str fs \<Longrightarrow> map py_strip fs = fs"
  by (induction fs) simp_all

lemma directional_flags_ok:
  "list_all nonempty_str (directional_flags ev cfg) \<and> distinct (directional_flags ev cfg)"
  by (simp add: directional_flags_def flag_if_def)

lemma directional_flags_noise:
  "f \<in> {''WITHIN_NOISE'', ''SEED_INSTABILITY'', ''CONFIRMED_POSITIVE_BELOW_LADDER''}
    \<Longrightarrow> f \<notin> set (directional_flags ev cfg)"
  by (auto simp: directional_flags_def flag_if_def split: if_splits)

lemma hard_flags_ok:
  assumes "list_all nonempty_str (te_forbidden_inputs ev)" and "distinct (te_forbidden_inputs ev)"
  shows "list_all nonempty_str (hard_flags ev) \<and> distinct (hard_flags ev)"
proof -
  have "distinct (map (\<lambda>n. ''FORBIDDEN_INPUT_DETECTED:'' @ n) (te_forbidden_inputs ev))"
    using assms(2) by (simp add: distinct_map inj_on_def)
  moreover have "list_all nonempty_str (map (\<lambda>n. ''FORBIDDEN_INPUT_DETECTED:'' @ n) (te_forbidden_inputs ev))"
    using assms(1) forbidden_flag by (auto simp: list_all_iff)
  ultimately show ?thesis by (auto simp: hard_flags_def flag_if_def)
qed

text \<open>An assessment built from an aggregate satisfies the schema when its flags and its verdict do.\<close>

definition good_flags :: "string list \<Rightarrow> bool" where
  "good_flags fs \<longleftrightarrow> list_all nonempty_str (map py_strip fs) \<and> distinct (map py_strip fs)"

lemma good_flagsI: "list_all nonempty_str fs \<Longrightarrow> distinct fs \<Longrightarrow> good_flags fs"
  by (simp add: good_flags_def strip_flags)

lemma good_flags_single [simp]: "py_strip f \<noteq> [] \<Longrightarrow> good_flags [f]"
  by (simp add: good_flags_def)

lemma good_directional [simp]: "good_flags (directional_flags ev cfg)"
  using directional_flags_ok [of ev cfg] by (simp add: good_flagsI)

lemma good_with_directional [simp]:
  "good_flags (''WITHIN_NOISE'' # directional_flags ev cfg)"
  "good_flags (''SEED_INSTABILITY'' # directional_flags ev cfg)"
  "good_flags (''CONFIRMED_POSITIVE_BELOW_LADDER'' # directional_flags ev cfg)"
  using directional_flags_ok [of ev cfg] directional_flags_noise [of _ ev cfg] by (simp_all add: good_flagsI)

lemma make_assessment_valid:
  assumes "aggregate_seeds scores eta = Inr a" and "is_float eta" and "good_flags flags"
    and "integ = Integrity_COMPROMISED \<longrightarrow> verdict = Verdict_SUSPICIOUS"
    and "verdict = Verdict_NO_OP \<longrightarrow> stab = Stability_NOT_APPLICABLE"
  shows "valid_trust_assessment (canonical_trust (make_assessment verdict stab integ flags a))"
  using assms aggregateD [OF assms(1)]
  by (auto simp: valid_trust_assessment_def canonical_trust_def make_assessment_def opt_ok_def
      nonneg_float_def seed_count_def Suc_le_eq good_flags_def)

lemma redundancy_flag_ok [simp]: "py_strip (redundancy_flag c i) \<noteq> []"
  unfolding py_strip_empty by (simp add: redundancy_flag_def py_isspace_def)

text \<open>
  The trust assessment of any evidence with at least one seed score satisfies the shared schema
  once its strings are stripped: its flags are distinct and visible, compromised integrity
  is only reported with a suspicious verdict, a no-op has no stability, and the seed aggregate is
  present exactly from two seeds on.
\<close>

theorem trust_assessment_valid:
  assumes "te_seed_scores ev \<noteq> []" and "is_float (tc_eta_floor cfg)"
    and "list_all nonempty_str (te_forbidden_inputs ev)" and "distinct (te_forbidden_inputs ev)"
  shows "\<exists>t. assess_trust ev cfg = Inr t \<and> valid_trust_assessment (canonical_trust t)"
proof -
  obtain a where a: "aggregate_seeds (te_seed_scores ev) (tc_eta_floor cfg) = Inr a"
    using aggregate_returns [OF assms(1)] by blast
  note valid [simp] = make_assessment_valid [OF a assms(2)]
  have hard [simp]: "good_flags (hard_flags ev)" using hard_flags_ok [OF assms(3,4)] by (simp add: good_flagsI)
  have [simp]: "valid_trust_assessment (canonical_trust (seed_assessment ev cfg (directional_flags ev cfg) a))"
    "valid_trust_assessment (canonical_trust (proxy_assessment ev cfg (directional_flags ev cfg) a))"
    by (simp_all add: seed_assessment_def proxy_assessment_def Let_def)
  have "valid_trust_assessment (canonical_trust (assess_aggregate ev cfg a))"
    by (simp add: assess_aggregate_def Let_def)
  with a show ?thesis by (simp add: assess_trust_def)
qed

definition sample_evidence :: trust_evidence where
  "sample_evidence = \<lparr>te_population = Population_PUBLIC_VALIDATION, te_fidelity = Fidelity_FULL,
     te_parent_primary = 0, te_parent_delta = 1 / 64, te_metric_deltas = [(''auc'', 1 / 64)],
     te_prediction_change = \<lparr>pe_spearman_vs_parent = Some (1 / 2), pe_changed_row_fraction = Some 1,
       pe_identical_score_fraction = Some 0, pe_unique_score_fraction = 1, pe_within_user_rank_change = None\<rparr>,
     te_seed_scores = [1, 1], te_output_gate_evidence = True, te_evaluator_hash_matches = True,
     te_contract_hash_matches = True, te_forbidden_inputs = [], te_alignment_suspect = False,
     te_internal_proxy_delta = None, te_unbiased_audit_delta = None, te_val_a_delta = None,
     te_val_b_delta = None, te_delta_correlation = None, te_delta_correlation_experiment_id = None,
     te_score_unique_fraction = None, te_gain_concentration_top10pct = None, te_drift_primary_slope = None\<rparr>"

theorem trust_assessment_valid_witness:
  "\<exists>t. assess_trust (sample_evidence\<lparr>te_forbidden_inputs := [''label'']\<rparr>) default_trust_config = Inr t
    \<and> valid_trust_assessment (canonical_trust t)"
proof -
  have "nonempty_str ''label''" by code_simp
  then show ?thesis
    by (intro trust_assessment_valid) (simp_all add: sample_evidence_def default_trust_config_def)
qed

text \<open>
  C26: An accepting verdict is earned: only evidence whose evaluator, contract and Gate B identities
  match, with no forbidden input and no suspected misalignment, that is no no-op, has enough distinct
  scores, does not gain implausibly much, is not contradicted by the unbiased audit and
  not redundant with an earlier candidate is accepted; and a confirmed acceptance has a seed mean
  strictly above the parent's score.
\<close>

theorem accepted_trust_earned:
  assumes "assess_trust ev cfg = Inr t" and "ta_verdict t = Verdict_ACCEPTED"
  shows "hard_flags ev = [] \<and> \<not> te_alignment_suspect ev
    \<and> \<not> is_no_op (te_prediction_change ev) (te_parent_delta ev) (tc_no_op cfg)
    \<and> tc_minimum_unique_score_fraction cfg \<le> measured_unique_fraction ev
    \<and> te_parent_delta ev \<le> tc_too_good_delta cfg
    \<and> (\<forall>d. te_unbiased_audit_delta ev = Some d \<and> 0 < te_parent_delta ev \<longrightarrow> 0 < d)
    \<and> (\<forall>c. te_delta_correlation ev = Some c \<longrightarrow> c \<le> tc_redundancy_correlation cfg)
    \<and> (ta_stability t = Stability_CONFIRMED \<longrightarrow>
         min 2 (tc_required_seed_count cfg) \<le> int (length (te_seed_scores ev)))
    \<and> (ta_stability t = Stability_CONFIRMED \<longrightarrow> te_parent_primary ev < stat_mean (te_seed_scores ev))"
proof -
  from assms(1) obtain a where a: "aggregate_seeds (te_seed_scores ev) (tc_eta_floor cfg) = Inr a"
    and t: "t = assess_aggregate ev cfg a" by (auto simp: assess_trust_def raise_simps)
  have agg: "sg_scores a = te_seed_scores ev" "0 \<le> sg_eta a" "0 \<le> sg_standard_error a"
    using aggregateD [OF a] by simp_all
  have mean: "sg_mean a = stat_mean (te_seed_scores ev)"
    using a by (auto simp: aggregate_seeds_def Let_def raise_simps)
  let ?flags = "directional_flags ev cfg"
  have verdicts [simp]: "ta_verdict (make_assessment v st i fs a) = v" "ta_stability (make_assessment v st i fs a) = st"
    for v st i fs by (simp_all add: make_assessment_def)
  have proxy: "ta_stability (proxy_assessment ev cfg ?flags a) \<noteq> Stability_CONFIRMED"
    by (simp add: proxy_assessment_def Let_def)
  have seed: "ta_verdict (seed_assessment ev cfg ?flags a) = Verdict_ACCEPTED \<Longrightarrow>
      ta_stability (seed_assessment ev cfg ?flags a) = Stability_CONFIRMED \<Longrightarrow>
      min 2 (tc_required_seed_count cfg) \<le> seed_count a \<and> 0 < fsub (sg_mean a) (te_parent_primary ev)"
    using agg fl_nonneg [of "1 / 10 ^ 12"] by (auto simp: seed_assessment_def Let_def abs_le_iff not_less split: if_splits)
  show ?thesis
    using assms(2) proxy seed mean fsub_posD [of "sg_mean a" "te_parent_primary ev"] agg(1)
    unfolding t assess_aggregate_def Let_def
    by (auto simp: seed_count_def not_less split: if_splits option.splits)
qed

theorem accepted_trust_earned_witness:
  "\<exists>t. assess_trust sample_evidence default_trust_config = Inr t \<and> ta_verdict t = Verdict_ACCEPTED
    \<and> te_parent_primary sample_evidence < stat_mean (te_seed_scores sample_evidence)"
proof -
  have eta: "0 \<le> fl (16 / 10000)" "fl (16 / 10000) \<le> 1 / 512" and "fl (1 / 100) \<le> 1 / 64"
    "1 / 32 \<le> fl (5 / 100)"
    using fl_nonneg [of "16 / 10000"] fl_le_pow2 [of "16 / 10000" "- 9"] fl_le_pow2 [of "1 / 100" "- 6"]
      fl_ge_pow2 [of "- 5" "5 / 100"] by (simp_all add: pow2_def)
  moreover have one: "fl 1 = 1" by (simp add: fl_id)
  then have "aggregate_seeds [1, 1] (fl (16 / 10000)) = Inr \<lparr>sg_scores = [1, 1], sg_mean = 1,
      sg_standard_deviation = 0, sg_standard_error = 0, sg_eta = fl (16 / 10000)\<rparr>"
    using eta by (simp add: aggregate_seeds_def stat_mean_def stat_stdev_def exact_mean_def fsqrt_def fdiv_def
        fmul_def max_def)
  ultimately obtain t where t: "assess_trust sample_evidence default_trust_config = Inr t"
    "ta_verdict t = Verdict_ACCEPTED" "ta_stability t = Stability_CONFIRMED"
    using fl_nonneg [of "3 * fl (8 / 10000)"] fl_nonneg [of "8 / 10000"]
    by (simp add: assess_trust_def sample_evidence_def default_trust_config_def assess_aggregate_def hard_flags_def
        flag_if_def is_no_op_def default_no_op_config_def measured_unique_fraction_def directional_flags_def
        metric_direction_conflict_def both_arms_def seed_assessment_def seed_count_def fmul_def fsub_def dvalues_def
        make_assessment_def one Let_def)
  with accepted_trust_earned [OF t(1,2)] show ?thesis by blast
qed

section \<open>Decisions\<close>

lemma decision_reason_visible [simp]:
  "nonempty_str ''PROXY_PASSED''" "nonempty_str ''PROXY_NON_POSITIVE_WITHIN_NOISE''"
  "nonempty_str ''PROXY_WITHIN_NOISE''" "nonempty_str ''PROXY_FAILED''" "nonempty_str ''INTEGRITY_UNVERIFIED''"
  "nonempty_str ''CONFIRMATION_BUDGET_EXHAUSTED''" "nonempty_str ''CONFIRMATION_REQUIRED''"
  "nonempty_str ''TRUSTED_IMPROVEMENT''" "nonempty_str ''TRUSTED_PARENT_ONLY''"
  "nonempty_str ''EXPLORATORY_PARENT_WITHIN_TOLERANCE''" "nonempty_str ''SEED_VARIANCE_HIGH''"
  "nonempty_str ''CLEAR_REGRESSION''" "nonempty_str ''SIGNAL_ALREADY_CAPTURED''"
  by code_simp+

lemma rejection_reason_visible [simp]: "nonempty_str (rejection_reason v st)"
  by (cases "(v, st)" rule: rejection_reason.cases) simp_all

lemma unique_in_order_set: "set (unique_in_order xs) = set xs"
  by (induction xs rule: unique_in_order.induct) auto

text \<open>What every decision of the policy looks like.\<close>

definition decision_shape :: "evaluation_outcome \<Rightarrow> decision_context \<Rightarrow> decision_outcome \<Rightarrow> bool" where
  "decision_shape r c d \<longleftrightarrow>
     (\<exists>action reason parent best next. d = make_decision r c action reason parent best next
        \<and> nonempty_str reason \<and> (action = Decision_PROMOTE) = (next \<noteq> None)
        \<and> (next \<noteq> None \<longrightarrow> next = Some Fidelity_FULL
             \<and> (eo_fidelity r = Fidelity_FULL \<longrightarrow> 0 < dc_confirmations_remaining c))
        \<and> (best \<longrightarrow> action = Decision_ACCEPT \<and> eo_fidelity r = Fidelity_FULL
             \<and> eo_population r = Population_PUBLIC_VALIDATION \<and> ta_verdict (eo_trust r) = Verdict_ACCEPTED
             \<and> ta_stability (eo_trust r) = Stability_CONFIRMED \<and> ta_integrity (eo_trust r) = Integrity_CLEAN)
        \<and> (parent \<longrightarrow> action = Decision_ACCEPT))"

lemma decision_shapeI:
  assumes "nonempty_str reason" and "(action = Decision_PROMOTE) = (next \<noteq> None)"
    and "next \<noteq> None \<longrightarrow> next = Some Fidelity_FULL
      \<and> (eo_fidelity r = Fidelity_FULL \<longrightarrow> 0 < dc_confirmations_remaining c)"
    and "best \<longrightarrow> action = Decision_ACCEPT \<and> eo_fidelity r = Fidelity_FULL
      \<and> eo_population r = Population_PUBLIC_VALIDATION \<and> ta_verdict (eo_trust r) = Verdict_ACCEPTED
      \<and> ta_stability (eo_trust r) = Stability_CONFIRMED \<and> ta_integrity (eo_trust r) = Integrity_CLEAN"
    and "parent \<longrightarrow> action = Decision_ACCEPT"
  shows "decision_shape r c (make_decision r c action reason parent best next)"
  using assms unfolding decision_shape_def by blast

lemma decide_proxy_shape: "eo_fidelity r = Fidelity_PROXY \<Longrightarrow> decision_shape r c (decide_proxy r c)"
  by (simp add: decide_proxy_def Let_def decision_shapeI)

lemma decide_full_shape:
  assumes "eo_fidelity r = Fidelity_FULL" and "eo_population r = Population_PUBLIC_VALIDATION"
  shows "decision_shape r c (decide_full r c)"
  using assms by (simp add: decide_full_def Let_def decision_shapeI)

lemma canonical_resultD:
  assumes "canonical_result res = Inr r"
  shows "valid_evaluation_result r" and "ev_run_id r = py_strip (eo_run_id res)"
    and "ev_experiment_id r = py_strip (eo_experiment_id res)" and "ev_population r = eo_population res"
    and "ev_fidelity r = eo_fidelity res" and "ev_trust r = canonical_trust (eo_trust res)"
    and "ev_seed_evidence_event_ids r = map py_strip (eo_seed_evidence_event_ids res)"
  using assms by (auto simp: canonical_result_def raise_simps Let_def)

lemma decide_evaluation_shape:
  assumes "decide_evaluation res c = Inr d" and "canonical_result res = Inr r"
  shows "decision_shape res c d" and "dc_seed_evidence_event_ids c = eo_seed_evidence_event_ids res"
    and "eo_fidelity res \<in> {Fidelity_PROXY, Fidelity_FULL}"
proof -
  have "valid_evaluation_route r" using canonical_resultD(1) [OF assms(2)]
    by (simp add: valid_evaluation_result_def)
  then have "eo_population res = Population_INTERNAL_PROXY \<longrightarrow> eo_fidelity res = Fidelity_PROXY"
    by (auto simp: valid_evaluation_route_def canonical_resultD [OF assms(2)])
  then show "decision_shape res c d" "dc_seed_evidence_event_ids c = eo_seed_evidence_event_ids res"
    "eo_fidelity res \<in> {Fidelity_PROXY, Fidelity_FULL}"
    using assms(1) decide_proxy_shape [of res c] decide_full_shape [of res c]
    by (auto simp: decide_evaluation_def raise_simps split: if_splits)
qed

text \<open>
  C25: The decision taken on a recorded evaluation can always be recorded.  Take an experiment whose
  status is evaluated and whose latest evaluation in the ledger has the route and the trust of the
  result that is decided.  When the policy returns a decision for it that cites that evaluation, and
  confirmations remain only while the validator's confirmation budget has room, then the decision
  has a canonical form and the transition validator's checks on it all pass.
\<close>

theorem evaluation_decision_accepted:
  assumes d: "decide_evaluation res c = Inr d" and r: "canonical_result res = Inr r"
    and node: "node_of s (ev_experiment_id r) = Some n" "node_status n = Exp_EVALUATED"
    and recorded: "last_for_experiment as_evaluation es (ev_experiment_id r) = Some (e, r')"
      "ev_fidelity r' = ev_fidelity r" "ev_population r' = ev_population r" "ev_trust r' = ev_trust r"
    and cites: "py_strip (dc_evaluation_event_id c) = event_id e"
    and budget: "0 < dc_confirmations_remaining c \<Longrightarrow> node_confirmation_count n < st_max_confirmations s"
    and supporting: "list_all (\<lambda>i. py_strip i \<noteq> []) (dc_supporting_event_ids c)"
  shows "\<exists>cd. canonical_decision d = Inr cd \<and> check_experiment_decided es s cd = Inr ()"
proof -
  note shape = decide_evaluation_shape [OF d r] and fields = canonical_resultD [OF r]
  from shape(1) obtain action reason parent best nxt where
    dd: "d = make_decision res c action reason parent best nxt" and reason: "nonempty_str reason"
    and promote: "(action = Decision_PROMOTE) = (nxt \<noteq> None)"
    and full: "nxt \<noteq> None \<longrightarrow> nxt = Some Fidelity_FULL
      \<and> (eo_fidelity res = Fidelity_FULL \<longrightarrow> 0 < dc_confirmations_remaining c)"
    and best: "best \<longrightarrow> action = Decision_ACCEPT \<and> eo_fidelity res = Fidelity_FULL
      \<and> eo_population res = Population_PUBLIC_VALIDATION \<and> ta_verdict (eo_trust res) = Verdict_ACCEPTED
      \<and> ta_stability (eo_trust res) = Stability_CONFIRMED \<and> ta_integrity (eo_trust res) = Integrity_CLEAN"
    unfolding decision_shape_def by blast
  have ids: "nonempty_str (py_strip (eo_run_id res))" "nonempty_str (py_strip (eo_experiment_id res))"
    "list_all nonempty_str (map py_strip (eo_seed_evidence_event_ids res))"
    using fields by (simp_all add: valid_evaluation_result_def)
  have "list_all nonempty_str (map py_strip (unique_in_order (do_supporting_event_ids d @ do_seed_evidence_event_ids d)))"
    using ids(3) supporting shape(2) by (auto simp: list_all_iff unique_in_order_set dd make_decision_def)
  then obtain cd where cd: "canonical_decision d = Inr cd"
    using ids(1,2) reason promote best
    by (auto simp: canonical_decision_def valid_experiment_decision_def dd make_decision_def opt_ok_def)
  have cdf: "ed_experiment_id cd = ev_experiment_id r" "ed_evaluation_event_id cd = Some (event_id e)"
    "ed_fidelity_completed cd = ev_fidelity r" "ed_best_eligible cd = best" "ed_decision cd = action"
    "ed_next_fidelity cd = nxt"
    using cd fields cites by (auto simp: canonical_decision_def Let_def raise_simps dd make_decision_def)
  have "check_best_eligibility cd r' = Inr ()"
    using best recorded fields by (simp add: check_best_eligibility_def cdf canonical_trust_def)
  then have evidence: "check_decision_evidence es n cd = Inr ()"
    using node(2) recorded shape(3) fields(5)
    by (auto simp: check_decision_evidence_def cdf)
  have "check_promotion s n cd = Inr ()"
    using promote full budget shape(3) fields(5) by (auto simp: check_promotion_def cdf)
  with cd evidence node(1) show ?thesis by (simp add: check_experiment_decided_def cdf)
qed

definition sample_outcome :: evaluation_outcome where
  "sample_outcome = \<lparr>eo_run_id = ''r'', eo_experiment_id = ''x1'', eo_attempt = 2,
     eo_population = Population_PUBLIC_VALIDATION, eo_fidelity = Fidelity_FULL, eo_seed = 2,
     eo_public_query_index = Some 2, eo_evaluator_sha256 = ZERO_SHA256, eo_contract_sha256 = ZERO_SHA256,
     eo_data_manifest_sha256 = ZERO_SHA256, eo_metric_set = sample_metrics 1,
     eo_baseline_delta = \<lparr>dl_primary = 1, dl_metrics = [(''auc'', 1)]\<rparr>,
     eo_parent_delta = \<lparr>dl_primary = 1, dl_metrics = [(''auc'', 1)]\<rparr>,
     eo_previous_best_delta = \<lparr>dl_primary = 1, dl_metrics = [(''auc'', 1)]\<rparr>,
     eo_prediction_change = te_prediction_change sample_evidence,
     eo_trust = sample_trust Stability_CONFIRMED 2, eo_diagnostic_metrics = [],
     eo_diagnostics = empty_diagnostics, eo_seed_evidence_event_ids = [event_id_of 12]\<rparr>"

definition sample_decision_context :: decision_context where
  "sample_decision_context = \<lparr>dc_evaluation_event_id = event_id_of 17,
     dc_supporting_event_ids = [event_id_of 16, event_id_of 17],
     dc_seed_evidence_event_ids = [event_id_of 12], dc_confirmations_remaining = 0\<rparr>"

definition evaluated_run :: "event list" where
  "evaluated_run = number_events 1 (take 17 sample_payloads)"

lemma sample_outcome_canonical:
  "\<exists>r. canonical_result sample_outcome = Inr r \<and> ev_experiment_id r = ''x1''
    \<and> ev_fidelity r = Fidelity_FULL \<and> ev_population r = Population_PUBLIC_VALIDATION
    \<and> ev_trust r = sample_trust Stability_CONFIRMED 2"
proof -
  have half: "is_float (1 / 2)" using is_float_pow2_mult [of 1 "- 1"] by (simp add: pow2_def)
  have strip: "py_strip ''r'' = ''r''" "py_strip ''x1'' = ''x1''" "py_strip ''auc'' = ''auc''"
    "py_strip ZERO_SHA256 = ZERO_SHA256" "nonempty_str ''r''" "nonempty_str ''x1''" "nonempty_str ''auc''"
    "nonempty_str (event_id_of 12)"
    using event_id_of_nonempty by (code_simp | simp)+
  show ?thesis
    by (simp add: sample_outcome_def canonical_result_def sample_evidence_def canonical_metric_set_def
        sample_metrics_def strip_keys_def canonical_trust_def sample_trust_def strip valid_eval
        valid_prediction_change_def half ZERO_SHA256_ok)
qed

theorem evaluation_decision_accepted_witness:
  "\<exists>d cd s. decide_evaluation sample_outcome sample_decision_context = Inr d
    \<and> project evaluated_run = Inr s
    \<and> canonical_decision d = Inr cd \<and> check_experiment_decided evaluated_run s cd = Inr ()"
proof -
  obtain s n where s: "project evaluated_run = Inr s" "node_of s ''x1'' = Some n" "node_status n = Exp_EVALUATED"
    by (simp add: evaluated_run_def sample_payloads_def project_def project_loop_def step_eval sample_defs
        cong: weak_congs)
  obtain r where r: "canonical_result sample_outcome = Inr r" "ev_experiment_id r = ''x1''"
    "ev_fidelity r = Fidelity_FULL" "ev_population r = Population_PUBLIC_VALIDATION"
    "ev_trust r = sample_trust Stability_CONFIRMED 2" using sample_outcome_canonical by blast
  obtain d where d: "decide_evaluation sample_outcome sample_decision_context = Inr d"
    by (simp add: decide_evaluation_def sample_outcome_def sample_decision_context_def sample_trust_def)
  obtain e r' where last: "last_for_experiment as_evaluation evaluated_run ''x1'' = Some (e, r')"
    "ev_fidelity r' = Fidelity_FULL" "ev_population r' = Population_PUBLIC_VALIDATION"
    "ev_trust r' = sample_trust Stability_CONFIRMED 2" "event_id e = event_id_of 17"
    by (simp add: evaluated_run_def sample_payloads_def last_for_experiment_def pick_def last_such_def
        mentions_experiment_def sample_evaluation_def)
  have "py_strip (event_id_of k) = event_id_of k" for k using event_id_of_nonempty by simp
  then have "\<exists>cd. canonical_decision d = Inr cd \<and> check_experiment_decided evaluated_run s cd = Inr ()"
    using s r(2-5) last event_id_of_nonempty
      evaluation_decision_accepted [OF d r(1), of s n evaluated_run e r']
    by (auto simp: sample_decision_context_def nonempty_str_def)
  with d s(1) show ?thesis by blast
qed

end
