(* ===== verification/Artifacts.thy ===== *)
theory Artifacts
  imports Schemas Py_Text
begin

text \<open>
  The artifact store: \<^verbatim>\<open>src/src/tacorank/artifacts.py\<close>.  The file system below the
  repository root is the bytes of its regular files, its directories and its symbolic links, by
  normalized relative path; the root itself is resolved.  A path none of whose components is a
  link cannot leave the root, so the last check of \<^verbatim>\<open>_resolve\<close> never fires.
\<close>

record file_system =
  fs_bytes :: "(string, string) dict"
  fs_dirs :: "string list"
  fs_links :: "string list"

record artifact_store =
  as_roots :: "string list"
  as_digest :: "string \<Rightarrow> string"

abbreviation artifact_error :: "string \<Rightarrow> exc" where
  "artifact_error m \<equiv> Raised ''ArtifactError'' m"

definition make_artifact_store :: "(string \<Rightarrow> string) \<Rightarrow> string list \<Rightarrow> artifact_store res" where
  "make_artifact_store digest roots = bind_res
     (fold_res (\<lambda>done root. bind_res (normalize_relative_path root) (\<lambda>r. Inr (done @ [r]))) [] roots)
     (\<lambda>normal. Inr \<lparr>as_roots = normal, as_digest = digest\<rparr>)"

text \<open>The candidate and its parents below the root.\<close>

definition path_chain :: "string \<Rightarrow> string list" where
  "path_chain v = map (\<lambda>k. join_with ''/'' (take k (pure_parts v))) [1..<Suc (length (pure_parts v))]"

definition below_root :: "string list \<Rightarrow> string \<Rightarrow> bool" where
  "below_root roots v \<longleftrightarrow> list_ex (\<lambda>root. v = root \<or> py_startswith (root @ ''/'') v) roots"

definition resolve_artifact :: "artifact_store \<Rightarrow> file_system \<Rightarrow> string \<Rightarrow> bool \<Rightarrow> string res" where
  "resolve_artifact st fs v require_exists =
     bind_res (normalize_relative_path v) (\<lambda>normalized.
     guarded (artifact_error ''artifact path is outside approved roots'') (below_root (as_roots st) normalized)
     (guarded (artifact_error ''artifact paths may not contain symlinks'')
       (\<not> list_ex (\<lambda>p. p \<in> set (fs_links fs)) (path_chain normalized))
     (guarded (artifact_error ''artifact bytes are missing'')
       (require_exists \<longrightarrow> dget (fs_bytes fs) normalized \<noteq> None)
     (Inr normalized))))"

definition verify_ref :: "artifact_store \<Rightarrow> file_system \<Rightarrow> artifact_ref \<Rightarrow> unit res" where
  "verify_ref st fs ref =
     bind_res (resolve_artifact st fs (art_path ref) True) (\<lambda>path.
     fetch (artifact_error ''artifact bytes are missing'') (dget (fs_bytes fs) path) (\<lambda>data.
     guarded (artifact_error ''artifact size mismatch'') (int (length data) = art_size_bytes ref)
     (guarded (artifact_error ''artifact hash mismatch'') (as_digest st data = art_sha256 ref)
     (Inr ()))))"

text \<open>
  \<^verbatim>\<open>mkdir(parents=True, exist_ok=True)\<close> of the parent: a regular file among the parents is
  an error.
\<close>

definition make_parents :: "file_system \<Rightarrow> string \<Rightarrow> file_system res" where
  "make_parents fs path =
     (let parents = butlast (path_chain path) in
      guarded (Raised ''NotADirectoryError'' []) (\<not> list_ex (\<lambda>p. dget (fs_bytes fs) p \<noteq> None) (butlast parents))
      (guarded (Raised ''FileExistsError'' []) (parents \<noteq> [] \<longrightarrow> dget (fs_bytes fs) (last parents) = None)
      (Inr (fs\<lparr>fs_dirs := fs_dirs fs @ filter (\<lambda>p. p \<notin> set (fs_dirs fs)) parents\<rparr>))))"

record artifact_request =
  aq_artifact_id :: string
  aq_kind :: artifact_kind
  aq_relative_path :: string
  aq_content :: string
  aq_content_type :: "string option"

definition artifact_ref_of :: "artifact_store \<Rightarrow> artifact_request \<Rightarrow> artifact_ref" where
  "artifact_ref_of st q = \<lparr>art_artifact_id = py_strip (aq_artifact_id q), art_kind = aq_kind q,
     art_path = py_strip (aq_relative_path q), art_sha256 = as_digest st (aq_content q),
     art_size_bytes = int (length (aq_content q)), art_content_type = map_option py_strip (aq_content_type q)\<rparr>"

definition write_artifact ::
  "artifact_store \<Rightarrow> file_system \<Rightarrow> artifact_request \<Rightarrow> file_system \<times> artifact_ref res" where
  "write_artifact st fs q =
     (case bind_res (resolve_artifact st fs (aq_relative_path q) False) (\<lambda>path.
             bind_res (make_parents fs path) (\<lambda>fs'. Inr (path, fs'))) of
        Inl x \<Rightarrow> (fs, Inl x)
      | Inr (path, fs') \<Rightarrow>
          if path_chain path = [] \<or> path \<in> set (fs_dirs fs') then (fs', Inl (Raised ''IsADirectoryError'' path)) else
          (case dget (fs_bytes fs') path of
             Some existing \<Rightarrow> (fs', guarded
               (artifact_error ''immutable artifact already exists with different bytes'')
               (existing = aq_content q)
               (guarded (ValidationError ''ArtifactRef'') (valid_artifact_ref (artifact_ref_of st q))
                 (Inr (artifact_ref_of st q))))
           | None \<Rightarrow> (fs'\<lparr>fs_bytes := dset path (aq_content q) (fs_bytes fs')\<rparr>,
               guarded (ValidationError ''ArtifactRef'') (valid_artifact_ref (artifact_ref_of st q))
                 (Inr (artifact_ref_of st q)))))"

section \<open>Writing and verifying\<close>

lemma resolveD:
  assumes "resolve_artifact st fs v b = Inr path"
  shows "path = v" and "normalize_relative_path v = Inr v"
    and "resolve_artifact st fs' v False = Inr v \<longleftrightarrow> (\<forall>p \<in> set (path_chain v). p \<notin> set (fs_links fs'))"
proof -
  obtain n where n: "normalize_relative_path v = Inr n" and rest: "below_root (as_roots st) n" "n = path"
    using assms by (auto simp: resolve_artifact_def raise_simps)
  have "n = v" by (rule normalize_relative_path_id [OF n])
  with n rest show "path = v" "normalize_relative_path v = Inr v"
    "resolve_artifact st fs' v False = Inr v \<longleftrightarrow> (\<forall>p \<in> set (path_chain v). p \<notin> set (fs_links fs'))"
    by (auto simp: resolve_artifact_def raise_simps list_ex_iff)
qed

lemma resolve_existing:
  "resolve_artifact st fs v True = Inr path \<longleftrightarrow>
     resolve_artifact st fs v False = Inr path \<and> dget (fs_bytes fs) path \<noteq> None"
  by (auto simp: resolve_artifact_def raise_simps)

lemma make_parents_keeps:
  "make_parents fs path = Inr fs' \<Longrightarrow> fs_bytes fs' = fs_bytes fs \<and> fs_links fs' = fs_links fs"
  by (auto simp: make_parents_def Let_def raise_simps)

lemma write_keeps:
  assumes "write_artifact st fs q = (fs', outcome)"
  shows "fs_links fs' = fs_links fs"
    and "dget (fs_bytes fs) p = Some data \<Longrightarrow> dget (fs_bytes fs') p = Some data"
  using assms make_parents_keeps
  by (fastforce simp: write_artifact_def bind_res_def split: sum.splits if_splits option.splits prod.splits)+

lemma verify_ref_iff:
  "verify_ref st fs ref = Inr () \<longleftrightarrow>
     resolve_artifact st fs (art_path ref) False = Inr (art_path ref)
     \<and> (\<exists>data. dget (fs_bytes fs) (art_path ref) = Some data
          \<and> int (length data) = art_size_bytes ref \<and> as_digest st data = art_sha256 ref)"
  using resolveD(1) by (fastforce simp: verify_ref_def raise_simps resolve_existing)

fun write_all :: "artifact_store \<Rightarrow> file_system \<Rightarrow> artifact_request list \<Rightarrow> file_system" where
  "write_all st fs [] = fs"
| "write_all st fs (q # qs) = write_all st (fst (write_artifact st fs q)) qs"

lemma verify_kept:
  assumes "verify_ref st fs ref = Inr ()" and "write_artifact st fs q = (fs', outcome)"
  shows "verify_ref st fs' ref = Inr ()"
  using assms write_keeps [OF assms(2)] by (fastforce simp: verify_ref_iff resolve_artifact_def raise_simps)

lemma verify_all_kept: "verify_ref st fs ref = Inr () \<Longrightarrow> verify_ref st (write_all st fs qs) ref = Inr ()"
  by (induction qs arbitrary: fs) (auto intro: verify_kept [OF _ surjective_pairing])

lemma write_resolved:
  assumes "write_artifact st fs q = (fs', Inr ref)"
  shows "ref = artifact_ref_of st q" and "dget (fs_bytes fs') (aq_relative_path q) = Some (aq_content q)"
    and "resolve_artifact st fs' (aq_relative_path q) False = Inr (aq_relative_path q)"
proof -
  obtain path fs1 where path: "resolve_artifact st fs (aq_relative_path q) False = Inr path"
    and fs1: "make_parents fs path = Inr fs1" and ref: "ref = artifact_ref_of st q"
    and bytes: "dget (fs_bytes fs') path = Some (aq_content q)"
    using assms by (auto simp: write_artifact_def raise_simps bind_res_def split: sum.splits if_splits option.splits)
  note p = resolveD [OF path]
  have "resolve_artifact st fs (aq_relative_path q) False = Inr (aq_relative_path q)" using path p(1) by simp
  then have "resolve_artifact st fs' (aq_relative_path q) False = Inr (aq_relative_path q)"
    using write_keeps(1) [OF assms] p(3) by simp
  with ref bytes p(1) show "ref = artifact_ref_of st q"
    "dget (fs_bytes fs') (aq_relative_path q) = Some (aq_content q)"
    "resolve_artifact st fs' (aq_relative_path q) False = Inr (aq_relative_path q)" by simp_all
qed

text \<open>
  C24: A written artifact stays what its reference says: the reference that a write returns verifies
  at once and after any further writes, whatever their outcome, provided that its path has no space
  at its ends (the reference strips them, the file name keeps them).
\<close>

theorem artifact_immutable:
  assumes "write_artifact st fs q = (fs', Inr ref)" and "py_strip (aq_relative_path q) = aq_relative_path q"
  shows "verify_ref st (write_all st fs' later) ref = Inr ()"
proof -
  have "verify_ref st fs' ref = Inr ()"
    using write_resolved [OF assms(1)] assms(2) by (simp add: verify_ref_iff artifact_ref_of_def)
  then show ?thesis by (rule verify_all_kept)
qed

definition sample_artifact_request :: "string \<Rightarrow> artifact_request" where
  "sample_artifact_request content = \<lparr>aq_artifact_id = ''a1'', aq_kind = Artifact_LOG,
     aq_relative_path = ''runs/a'', aq_content = content, aq_content_type = None\<rparr>"

text \<open>A second write of other bytes to the same path is refused and changes nothing.\<close>

theorem artifact_immutable_witness:
  "\<exists>fs ref st. write_artifact st \<lparr>fs_bytes = [], fs_dirs = [], fs_links = []\<rparr> (sample_artifact_request ''x'') = (fs, Inr ref)
    \<and> verify_ref st (write_all st fs [sample_artifact_request ''y'']) ref = Inr ()"
proof -
  let ?st = "\<lparr>as_roots = [''runs''], as_digest = (\<lambda>_. ZERO_SHA256)\<rparr>"
  let ?w = "write_artifact ?st \<lparr>fs_bytes = [], fs_dirs = [], fs_links = []\<rparr> (sample_artifact_request ''x'')"
  have "returns (snd ?w)" by code_simp
  then obtain fs ref where w: "?w = (fs, Inr ref)" by (metis returnsE surjective_pairing)
  have "py_strip ''runs/a'' = ''runs/a''" by code_simp
  then have "verify_ref ?st (write_all ?st fs [sample_artifact_request ''y'']) ref = Inr ()"
    by (intro artifact_immutable [OF w]) (simp add: sample_artifact_request_def)
  with w show ?thesis by blast
qed

end
