(* ===== verification/Retrieval.thy ===== *)
theory Retrieval
  imports Transitions Py_Text
begin

text \<open>
  Selections from the ledger: \<^verbatim>\<open>src/src/tacorank/memory/retrieval.py\<close> and
  \<^verbatim>\<open>memory/replay.py\<close>.  A list slice \<^verbatim>\<open>xs[:limit]\<close> with a negative limit drops from the
  end, as in Python.
\<close>

section \<open>Retrieval\<close>

definition slice_to :: "int \<Rightarrow> 'a list \<Rightarrow> 'a list" where
  "slice_to k xs = (if 0 \<le> k then take (nat k) xs else take (length xs - nat (- k)) xs)"

text \<open>\<^verbatim>\<open>xs[-limit:]\<close>; a limit of zero is the whole list.\<close>

definition slice_last :: "int \<Rightarrow> 'a list \<Rightarrow> 'a list" where
  "slice_last k xs = (if 0 < k then drop (length xs - nat k) xs else drop (nat (- k)) xs)"

text \<open>\<^verbatim>\<open>sort(key=lambda event: (-event.seq, event.event_id))\<close>\<close>

definition newest_first :: "event list \<Rightarrow> event list" where
  "newest_first es = sort_key (\<lambda>e. - int (seq e)) (sort_key event_id es)"

definition hidden_final_evaluation :: "event \<Rightarrow> bool" where
  "hidden_final_evaluation e \<longleftrightarrow> (case as_evaluation (payload e) of None \<Rightarrow> False
     | Some r \<Rightarrow> ev_population r = Population_HIDDEN_FINAL)"

definition visible_development_events :: "event list \<Rightarrow> event list" where
  "visible_development_events es = filter (\<lambda>e. \<not> hidden_final_evaluation e) es"

text \<open>The loop of \<^verbatim>\<open>active_lessons\<close>: what was recorded and the latest status of each lesson.\<close>

fun note_lesson ::
  "(string, event) dict \<times> (string, lesson_status) dict \<Rightarrow> event
   \<Rightarrow> (string, event) dict \<times> (string, lesson_status) dict" where
  "note_lesson (recorded, statuses) e = (case payload e of
     Lesson_recorded i c \<Rightarrow> (dset i e recorded, dset i Lesson_ACTIVE statuses)
   | Lesson_status_changed i s r \<Rightarrow> (recorded, dset i s statuses)
   | _ \<Rightarrow> (recorded, statuses))"

definition lesson_tags :: "event \<Rightarrow> string list" where
  "lesson_tags e = (case payload e of Lesson_recorded i c \<Rightarrow> map py_lower (lc_tags c) | _ \<Rightarrow> [])"

definition active_lessons :: "event list \<Rightarrow> string list \<Rightarrow> int \<Rightarrow> event list" where
  "active_lessons es tags limit =
     (let wanted = map py_lower tags; (recorded, statuses) = foldl note_lesson ([], []) es;
          candidates = map snd (filter (\<lambda>(i, e). dget statuses i = Some Lesson_ACTIVE
            \<and> (wanted = [] \<or> list_ex (\<lambda>t. t \<in> set wanted) (lesson_tags e))) recorded)
      in slice_to limit (newest_first candidates))"

definition note_family :: "(string, string) dict \<Rightarrow> event \<Rightarrow> (string, string) dict" where
  "note_family d e = (case payload e of
     Experiment_proposed s \<Rightarrow> dset (rp_experiment_id s) (rp_family s) d | _ \<Rightarrow> d)"

definition recent_experiment_feedback :: "event list \<Rightarrow> string option \<Rightarrow> int \<Rightarrow> event list" where
  "recent_experiment_feedback es family limit =
     (let families = foldl note_family [] es;
          selected = filter (\<lambda>e. case as_evaluation (payload e) of None \<Rightarrow> False
            | Some r \<Rightarrow> ev_population r \<noteq> Population_HIDDEN_FINAL
                \<and> (family = None \<or> dget families (ev_experiment_id r) = family)) es
      in slice_to limit (newest_first selected))"

definition verified_experiment_history :: "event list \<Rightarrow> string option \<Rightarrow> int \<Rightarrow> event list" where
  "verified_experiment_history es family limit =
     slice_to limit (filter (\<lambda>e. case as_evaluation (payload e) of None \<Rightarrow> False
        | Some r \<Rightarrow> ta_verdict (ev_trust r) = Verdict_ACCEPTED)
       (recent_experiment_feedback es family (int (length es))))"

definition experiment_events :: "event list \<Rightarrow> string \<Rightarrow> event list" where
  "experiment_events es i = filter (\<lambda>e. mentions_experiment i (payload e)) es"

definition failure_chain :: "event list \<Rightarrow> string \<Rightarrow> int \<Rightarrow> event list" where
  "failure_chain es i limit = slice_last limit
     (filter (\<lambda>e. event_type e \<in> {Type_PATCH_CHECKED, Type_EXECUTION_FINISHED, Type_ADAPTER_FAILED,
        Type_OUTPUT_CHECKED, Type_EVALUATION_COMPLETED, Type_RECOVERY_DECIDED}) (experiment_events es i))"

section \<open>Replay\<close>

text \<open>\<open>verify\<close> is \<^verbatim>\<open>artifact_store.verify\<close>; an artifact identity is verified once.\<close>

definition check_prefix :: "event list \<Rightarrow> event \<Rightarrow> event list res" where
  "check_prefix prefix e = bind_res (validate_transition prefix (payload e)) (\<lambda>u. Inr (prefix @ [e]))"

definition artifact_identity :: "artifact_ref \<Rightarrow> string \<times> string \<times> string \<times> int" where
  "artifact_identity a = (art_artifact_id a, art_path a, art_sha256 a, art_size_bytes a)"

definition verify_once ::
  "(artifact_ref \<Rightarrow> unit res) \<Rightarrow> (string \<times> string \<times> string \<times> int) list \<Rightarrow> artifact_ref
   \<Rightarrow> (string \<times> string \<times> string \<times> int) list res" where
  "verify_once verify seen a = (if artifact_identity a \<in> set seen then Inr seen
     else bind_res (verify a) (\<lambda>u. Inr (artifact_identity a # seen)))"

definition replay :: "event list \<Rightarrow> (artifact_ref \<Rightarrow> unit res) option \<Rightarrow> bool \<Rightarrow> run_state res" where
  "replay es store validate =
     bind_res (if validate then fold_res check_prefix [] es else Inr []) (\<lambda>prefix.
     bind_res (case store of None \<Rightarrow> Inr []
        | Some verify \<Rightarrow> fold_res (verify_once verify) [] (concat (map artifact_refs es))) (\<lambda>seen.
     project es))"

end
