(* ===== verification/Metrics.thy ===== *)
theory Metrics
  imports No_Op
begin

text \<open>
  Independent metrics and the validation of the official evaluator's output:
  \<^verbatim>\<open>src/src/tacorank/evaluation/metrics.py\<close>.  \<open>log2\<close> is the C library's
  \<^verbatim>\<open>math.log2\<close> and \<open>float_text\<close> the reading of a string by \<^verbatim>\<open>float(...)\<close>.
\<close>

section \<open>Labels\<close>

fun binary_label :: "pyval \<Rightarrow> int option" where
  "binary_label (PyInt k) = (if k = 0 \<or> k = 1 then Some k else None)"
| "binary_label (PyFloat x) = (if x = 0 then Some 0 else if x = 1 then Some 1 else None)"
| "binary_label v = None"

definition normalize_binary_labels :: "pyval list \<Rightarrow> int list res" where
  "normalize_binary_labels labels = fold_res (\<lambda>acc v.
     fetch (ValueError ''labels must be exact numeric binary values'') (binary_label v)
       (\<lambda>k. Inr (acc @ [k]))) [] labels"

section \<open>AUC and nDCG\<close>

text \<open>Pairs in the order of \<^verbatim>\<open>sorted(zip(scores, labels))\<close>.\<close>

definition score_pairs :: "int list \<Rightarrow> pyfloat list \<Rightarrow> (pyfloat \<times> int) list" where
  "score_pairs labels scores = sort_key fst (sort_key snd (zip scores labels))"

definition auc_of :: "int list \<Rightarrow> pyfloat list \<Rightarrow> pyfloat" where
  "auc_of labels scores =
     (let pairs = score_pairs labels scores;
          positives = sum_list (map snd pairs); negatives = int (length pairs) - positives in
      if positives = 0 \<or> negatives = 0 then fdiv 1 2
      else let rank_sum = py_sum (map (\<lambda>(p, r). fadd r 1)
             (filter (\<lambda>(p, r). snd p = 1) (tie_ranks fst pairs)))
        in fdiv (fsub rank_sum (fdiv (float_of_int (positives * (positives + 1))) 2))
             (float_of_int (positives * negatives)))"

definition auc :: "pyval list \<Rightarrow> pyfloat list \<Rightarrow> pyfloat res" where
  "auc labels scores =
     guarded (ValueError ''labels and scores must have the same length'') (length labels = length scores)
     (bind_res (normalize_binary_labels labels) (\<lambda>ls. Inr (auc_of ls scores)))"

definition gain_sum :: "(nat \<Rightarrow> pyfloat) \<Rightarrow> int list \<Rightarrow> pyfloat" where
  "gain_sum log2 ls = py_sum (map (\<lambda>(i, l). fdiv (float_of_int (2 ^ nat l - 1)) (log2 (i + 2))) (enumerate 0 ls))"

definition ndcg_of :: "(nat \<Rightarrow> pyfloat) \<Rightarrow> int list \<Rightarrow> nat \<Rightarrow> pyfloat" where
  "ndcg_of log2 ls k =
     (let dcg = gain_sum log2 (take k ls); idcg = gain_sum log2 (take k (rev (sort ls)))
      in if idcg = 0 then 0 else fdiv dcg idcg)"

definition ndcg_at_k :: "(nat \<Rightarrow> pyfloat) \<Rightarrow> pyval list \<Rightarrow> int \<Rightarrow> pyfloat res" where
  "ndcg_at_k log2 labels k =
     guarded (ValueError ''k must be positive'') (0 < k)
     (bind_res (normalize_binary_labels labels) (\<lambda>ls. Inr (ndcg_of log2 ls (nat k))))"

section \<open>The independent evaluation\<close>

text \<open>The rows of every user, best score first; ties keep the order of the input.\<close>

definition user_rows :: "string list \<Rightarrow> int list \<Rightarrow> pyfloat list \<Rightarrow> (string, (pyfloat \<times> int) list) dict" where
  "user_rows users ls scores = map (\<lambda>(u, rows). (u, sort_key (\<lambda>row. - fst row) rows))
     (group_pairs (zip users (zip scores ls)))"

definition row_labels :: "(pyfloat \<times> int) list \<Rightarrow> int list" where
  "row_labels rows = map snd rows"

definition mixed_labels :: "(pyfloat \<times> int) list \<Rightarrow> bool" where
  "mixed_labels rows \<longleftrightarrow> 0 < sum_list (row_labels rows) \<and> sum_list (row_labels rows) < int (length rows)"

definition check_equal_nonempty :: "nat list \<Rightarrow> unit res" where
  "check_equal_nonempty lengths =
     guarded (ValueError ''inputs must have equal lengths'') (length (remdups lengths) = 1)
     (guarded (ValueError ''evaluation inputs must not be empty'') (hd lengths \<noteq> 0) (Inr ()))"

record independent_metrics =
  im_gauc :: pyfloat
  im_ndcg :: pyfloat
  im_primary :: pyfloat
  im_users :: nat
  im_rows :: nat

definition add_user_auc :: "pyfloat \<times> int \<Rightarrow> (pyfloat \<times> int) list \<Rightarrow> pyfloat \<times> int" where
  "add_user_auc acc rows = (if mixed_labels rows
     then (fadd (fst acc) (fmul (float_of_int (sum_list (row_labels rows)))
             (auc_of (row_labels rows) (map fst rows))),
           snd acc + sum_list (row_labels rows))
     else acc)"

definition evaluate_independent ::
  "(nat \<Rightarrow> pyfloat) \<Rightarrow> string list \<Rightarrow> pyval list \<Rightarrow> pyfloat list \<Rightarrow> int \<Rightarrow> independent_metrics res" where
  "evaluate_independent log2 users labels scores k =
     bind_res (check_equal_nonempty [length users, length labels, length scores]) (\<lambda>u.
     bind_res (normalize_binary_labels labels) (\<lambda>ls.
     guarded (ValueError ''k must be positive'') (0 < k)
     (let grouped = dvalues (user_rows users ls scores);
          (weighted, weight) = foldl add_user_auc (0, 0) grouped;
          ndcgs = map (\<lambda>rows. ndcg_of log2 (row_labels rows) (nat k)) grouped;
          gauc = (if weight \<noteq> 0 then fdiv weighted (float_of_int weight) else fdiv 1 2);
          ndcg = float_mean ndcgs
      in Inr \<lparr>im_gauc = gauc, im_ndcg = ndcg, im_primary = fdiv (fadd gauc ndcg) 2,
           im_users = length grouped, im_rows = length labels\<rparr>)))"

text \<open>Per user the AUC, which is not a number for a user with one class, nDCG and the diagnostic.\<close>

definition per_user_contributions ::
  "(nat \<Rightarrow> pyfloat) \<Rightarrow> string list \<Rightarrow> pyval list \<Rightarrow> pyfloat list \<Rightarrow> int
   \<Rightarrow> (string, pyfloat option \<times> pyfloat \<times> pyfloat) dict res" where
  "per_user_contributions log2 users labels scores k =
     bind_res (check_equal_nonempty [length users, length labels, length scores]) (\<lambda>u.
     bind_res (normalize_binary_labels labels) (\<lambda>ls.
     guarded (ValueError ''k must be positive'') (0 < k)
     (Inr (map (\<lambda>(user, rows).
        (let ndcg = ndcg_of log2 (row_labels rows) (nat k) in
         (user, if mixed_labels rows
           then (let a = auc_of (row_labels rows) (map fst rows) in (Some a, ndcg, fdiv (fadd a ndcg) 2))
           else (None, ndcg, ndcg)))) (user_rows users ls scores)))))"

section \<open>The official evaluator's output\<close>

fun finite_metric :: "(string \<Rightarrow> pyfloat option) \<Rightarrow> pyval \<Rightarrow> pyfloat res" where
  "finite_metric float_text (PyFloat x) = Inr x"
| "finite_metric float_text (PyInt k) = Inr (float_of_int k)"
| "finite_metric float_text (PyBool b) = Inr (of_bool b)"
| "finite_metric float_text (PyStr s) = fetch (ValueError ''metric is not numeric'') (float_text s) Inr"
| "finite_metric float_text v = Inl (ValueError ''metric is not numeric'')"

record metric_contract =
  mc_required_metrics :: "string list"
  mc_primary_metric_name :: string
  mc_primary_weights :: "(string, pyfloat) dict"
  mc_tolerance :: pyfloat
  mc_allow_extra :: "string list"
  mc_metric_ranges :: "(string, pyfloat \<times> pyfloat) dict"

definition in_range :: "(string, pyfloat \<times> pyfloat) dict \<Rightarrow> string \<times> pyfloat \<Rightarrow> bool" where
  "in_range ranges m = (case dget ranges (fst m) of None \<Rightarrow> True
     | Some (lower, upper) \<Rightarrow> \<not> (snd m < lower \<or> upper < snd m))"

definition read_metrics ::
  "(string \<Rightarrow> pyfloat option) \<Rightarrow> (string, pyval) dict \<Rightarrow> string list \<Rightarrow> (string, pyfloat) dict res" where
  "read_metrics float_text raw names = fold_res (\<lambda>acc n.
     fetch (KeyError n) (dget raw n) (\<lambda>v. bind_res (finite_metric float_text v)
       (\<lambda>x. Inr (dset n x acc)))) [] names"

definition weighted_primary :: "(string, pyfloat) dict \<Rightarrow> (string, pyfloat) dict \<Rightarrow> string list \<Rightarrow> pyfloat" where
  "weighted_primary metrics weights names = py_sum (map (\<lambda>n.
     fmul (case dget metrics n of None \<Rightarrow> 0 | Some x \<Rightarrow> x) (case dget weights n of None \<Rightarrow> 0 | Some w \<Rightarrow> w)) names)"

definition validate_metric_set ::
  "(string \<Rightarrow> pyfloat option) \<Rightarrow> (string, pyval) dict \<Rightarrow> metric_contract \<Rightarrow> metric_set res" where
  "validate_metric_set float_text raw c =
     (let required = set (mc_required_metrics c); primary_name = mc_primary_metric_name c;
          actual = set (dkeys raw) - {primary_name} - set (mc_allow_extra c) in
      guarded (ValueError ''missing required metrics'') (required - actual = {})
      (guarded (ValueError ''undeclared metrics'') (actual - required = {})
      (guarded (ValueError ''missing primary metric'') (primary_name \<in> set (dkeys raw))
      (bind_res (read_metrics float_text raw (mc_required_metrics c)) (\<lambda>metrics.
       guarded (ValueError ''metric outside range'') (list_all (in_range (mc_metric_ranges c)) metrics)
      (guarded (ValueError ''primary weights must cover exactly the required metrics'')
        (set (dkeys (mc_primary_weights c)) = required)
      (let total = py_sum (dvalues (mc_primary_weights c)) in
       guarded (ValueError ''primary weights must have positive total weight'') (0 < total)
      (let reproduced = fdiv (weighted_primary metrics (mc_primary_weights c) (mc_required_metrics c)) total in
       bind_res (fetch (KeyError primary_name) (dget raw primary_name) (finite_metric float_text)) (\<lambda>primary.
       guarded (ValueError ''primary aggregation mismatch'') (\<bar>fsub primary reproduced\<bar> \<le> mc_tolerance c)
       (make_metric_set metrics primary_name primary))))))))))"

end
