(* ===== verification/Graph_View.thy ===== *)
theory Graph_View
  imports Schemas_Context Py_Text
begin

text \<open>
  The read-only experiment graph of the research planner:
  \<^verbatim>\<open>src/src/tacorank/research/graph_view.py\<close>, for the typed \<^verbatim>\<open>PlannerContext\<close> that the
  program passes.  A field the typed summary does not have reads as its default, so the
  alternatives of \<^verbatim>\<open>get_value(...) or get_value(...)\<close> for untyped summaries drop out; the
  enumerations have no member \<^verbatim>\<open>verified\<close>, \<^verbatim>\<open>accepted\<close> (of a decision) or
  \<^verbatim>\<open>smoke-only\<close> beyond those of the schema.
\<close>

record node_view =
  nv_experiment_id :: string
  nv_parent_experiment_id :: "string option"
  nv_parent_commit_sha :: "string option"
  nv_family :: "string option"
  nv_hypothesis :: string
  nv_trust_verdict :: "trust_verdict option"
  nv_stability :: "stability option"
  nv_integrity :: "integrity option"
  nv_decision :: "decision_kind option"
  nv_highest_completed_fidelity :: "fidelity option"
  nv_primary_score :: "pyfloat option"
  nv_child_count :: int
  nv_actual_cost :: "cost_tier option"
  nv_metric_set :: "metric_set option"
  nv_metric_deltas :: "(string, pyfloat) dict"
  nv_prediction_change :: "pyfloat option"
  nv_method_card_ids :: "string list"
  nv_summary :: planner_experiment_summary

definition is_root :: "node_view \<Rightarrow> bool" where
  "is_root n \<longleftrightarrow> nv_parent_experiment_id n = None"

definition is_trusted :: "node_view \<Rightarrow> bool" where
  "is_trusted n \<longleftrightarrow> nv_trust_verdict n = Some Verdict_ACCEPTED
     \<and> (nv_integrity n = None \<or> nv_integrity n = Some Integrity_CLEAN)"

definition is_exploratory_parent :: "node_view \<Rightarrow> bool" where
  "is_exploratory_parent n \<longleftrightarrow> px_parent_eligible (nv_summary n)
     \<and> nv_trust_verdict n = Some Verdict_INCONCLUSIVE \<and> nv_integrity n = Some Integrity_CLEAN
     \<and> nv_stability n = Some Stability_CONFIRMED
     \<and> nv_highest_completed_fidelity n = Some Fidelity_FULL
     \<and> nv_decision n = Some Decision_ACCEPT"

definition blocked_statuses :: "string list" where
  "blocked_statuses = [''retracted'', ''pruned'', ''invalid'', ''suspicious'', ''unstable'']"

text \<open>
  \<^verbatim>\<open>parent_eligible\<close> of the typed summary is a Boolean, so the explicit value decides once the
  safety conditions hold.
\<close>

definition is_parent_eligible :: "node_view \<Rightarrow> bool" where
  "is_parent_eligible n \<longleftrightarrow> px_parent_eligible (nv_summary n)
     \<and> py_lower (px_status (nv_summary n)) \<notin> set blocked_statuses
     \<and> nv_decision n \<notin> {Some Decision_REJECT, Some Decision_PRUNE, Some Decision_INVALID}
     \<and> (is_trusted n \<or> is_exploratory_parent n)"

definition node_from_summary :: "planner_experiment_summary \<Rightarrow> node_view option" where
  "node_from_summary x = (if px_experiment_id x = [] then None else Some
     \<lparr>nv_experiment_id = px_experiment_id x, nv_parent_experiment_id = px_parent_experiment_id x,
      nv_parent_commit_sha = (if px_commit_sha x = [] then None else Some (px_commit_sha x)),
      nv_family = px_family x, nv_hypothesis = px_hypothesis_summary x,
      nv_trust_verdict = px_trust_verdict x, nv_stability = px_stability x,
      nv_integrity = px_integrity x, nv_decision = px_decision x,
      nv_highest_completed_fidelity = px_highest_completed_fidelity x,
      nv_primary_score = (case px_primary_score x of Some s \<Rightarrow> Some s
        | None \<Rightarrow> map_option ms_primary_score (px_metric_set x)),
      nv_child_count = px_child_count x, nv_actual_cost = px_actual_cost x,
      nv_metric_set = px_metric_set x, nv_metric_deltas = px_metric_deltas x,
      nv_prediction_change = px_prediction_change x,
      nv_method_card_ids = px_method_card_ids x, nv_summary = x\<rparr>)"

section \<open>The graph\<close>

type_synonym graph_view = "(string, node_view) dict"

definition graph_of_nodes :: "node_view list \<Rightarrow> graph_view" where
  "graph_of_nodes ns = foldl (\<lambda>d n. if nv_experiment_id n = [] then d
     else dset (nv_experiment_id n) n d) [] ns"

definition frontier_nodes :: "planner_context \<Rightarrow> node_view list" where
  "frontier_nodes c = List.map_filter node_from_summary (pcx_eligible_frontier c)"

definition graph_from_context :: "planner_context \<Rightarrow> graph_view" where
  "graph_from_context c = graph_of_nodes (frontier_nodes c)"

definition children_of :: "graph_view \<Rightarrow> string \<Rightarrow> node_view list" where
  "children_of g i = filter (\<lambda>n. nv_parent_experiment_id n = Some i) (dvalues g)"

definition eligible_parents :: "graph_view \<Rightarrow> node_view list" where
  "eligible_parents g = filter is_parent_eligible (dvalues g)"

text \<open>
  The loop of \<^verbatim>\<open>ancestors_of\<close>.  The frontier may hold a cycle of parents; \<open>seen\<close> ends the
  climb, which the measure says: every round moves one more key of the graph into \<open>seen\<close>.
\<close>

function climb :: "graph_view \<Rightarrow> string list \<Rightarrow> node_view \<Rightarrow> node_view list" where
  "climb g seen n = (case nv_parent_experiment_id n of None \<Rightarrow> []
     | Some p \<Rightarrow> if p = [] \<or> p \<in> set seen then []
         else (case dget g p of None \<Rightarrow> [] | Some q \<Rightarrow> q # climb g (p # seen) q))"
  by pat_completeness auto

termination climb
proof (relation "measure (\<lambda>(g, seen, n). card (set (dkeys g) - set seen))", goal_cases)
  case (2 g seen n p q)
  then have "p \<notin> set seen" "dget g p = Some q" by simp_all
  then have "p \<in> set (dkeys g) - set seen" by (force simp: dkeys_def dest: map_of_SomeD)
  then have "card (set (dkeys g) - set (p # seen)) < card (set (dkeys g) - set seen)"
    by (intro psubset_card_mono) auto
  then show ?case by simp
qed simp

declare climb.simps [simp del]

definition ancestors_of :: "graph_view \<Rightarrow> string \<Rightarrow> node_view list" where
  "ancestors_of g i = (case dget g i of None \<Rightarrow> [] | Some n \<Rightarrow> climb g [] n)"

section \<open>Facts\<close>

lemma node_from_summaryD:
  "node_from_summary x = Some n \<Longrightarrow> nv_experiment_id n = px_experiment_id x
     \<and> px_experiment_id x \<noteq> [] \<and> nv_summary n = x \<and> nv_parent_experiment_id n = px_parent_experiment_id x
     \<and> nv_family n = px_family x \<and> nv_method_card_ids n = px_method_card_ids x"
  by (auto simp: node_from_summary_def split: if_splits)

lemma graph_of_nodes_snoc: "graph_of_nodes (ns @ [n]) =
    (if nv_experiment_id n = [] then graph_of_nodes ns else dset (nv_experiment_id n) n (graph_of_nodes ns))"
  by (simp add: graph_of_nodes_def)

lemma graph_of_nodes_ok:
  "dict_ok (graph_of_nodes ns) \<and> (\<forall>(i, n) \<in> set (graph_of_nodes ns). nv_experiment_id n = i \<and> i \<noteq> [] \<and> n \<in> set ns)"
proof (induction ns rule: rev_induct)
  case Nil
  then show ?case by (simp add: graph_of_nodes_def)
next
  case (snoc n ns)
  let ?g = "graph_of_nodes ns" and ?h = "graph_of_nodes (ns @ [n])"
  have "set (dset i n g) \<subseteq> insert (i, n) (set g)" for i and g :: graph_view
    by (induction g) auto
  then have "set ?h \<subseteq> (if nv_experiment_id n = [] then set ?g else insert (nv_experiment_id n, n) (set ?g))"
    by (simp add: graph_of_nodes_snoc)
  moreover have "dict_ok ?h" using snoc by (simp add: graph_of_nodes_snoc)
  ultimately show ?case using snoc by (auto split: if_splits)
qed

lemma graph_from_context_ok:
  "dict_ok (graph_from_context c)"
  "(i, n) \<in> set (graph_from_context c) \<Longrightarrow> nv_experiment_id n = i \<and> i \<noteq> [] \<and> nv_summary n \<in> set (pcx_eligible_frontier c)
     \<and> node_from_summary (nv_summary n) = Some n"
  using graph_of_nodes_ok [of "frontier_nodes c"] node_from_summaryD
  by (fastforce simp: graph_from_context_def frontier_nodes_def List.map_filter_def)+

lemma eligible_parentsD:
  "n \<in> set (eligible_parents (graph_from_context c)) \<Longrightarrow>
     is_parent_eligible n \<and> nv_summary n \<in> set (pcx_eligible_frontier c) \<and> node_from_summary (nv_summary n) = Some n"
  using graph_from_context_ok(2) by (fastforce simp: eligible_parents_def dvalues_def)

text \<open>The climb visits every key at most once and stays inside the graph.\<close>

lemma climb_keys:
  assumes "\<forall>(i, n) \<in> set g. nv_experiment_id n = i"
  shows "distinct (map nv_experiment_id (climb g seen n))
    \<and> set (map nv_experiment_id (climb g seen n)) \<subseteq> set (dkeys g) - set seen
    \<and> set (climb g seen n) \<subseteq> set (dvalues g)"
  using assms
proof (induction g seen n rule: climb.induct)
  case (1 g seen n)
  show ?case
  proof (cases "\<exists>p q. nv_parent_experiment_id n = Some p \<and> p \<noteq> [] \<and> p \<notin> set seen \<and> dget g p = Some q")
    case True
    then obtain p q where pq: "nv_parent_experiment_id n = Some p" "p \<noteq> []" "p \<notin> set seen" "dget g p = Some q"
      by blast
    then have "climb g seen n = q # climb g (p # seen) q" by (simp add: climb.simps [of g seen n])
    moreover have "(p, q) \<in> set g" by (rule map_of_SomeD [OF pq(4)])
    then have "nv_experiment_id q = p" "p \<in> set (dkeys g)" "q \<in> set (dvalues g)"
      using 1(2) by (force simp: dkeys_def dvalues_def)+
    moreover have "p = [] \<or> p \<in> set seen \<longleftrightarrow> False" using pq by simp
    ultimately show ?thesis using 1(1) [OF pq(1) _ pq(4) 1(2)] pq(2,3) by auto
  next
    case False
    then have "climb g seen n = []" by (auto simp: climb.simps [of g seen n] split: option.splits)
    then show ?thesis by simp
  qed
qed

end
