(* ===== verification/Search_Eligibility.thy ===== *)
theory Search_Eligibility
  imports Graph_View
begin

text \<open>
  Which search actions a verified result still allows
  (\<^verbatim>\<open>src/src/tacorank/research/search_eligibility.py\<close>) and which method cards may be tried
  (\<^verbatim>\<open>method_eligibility.py\<close>), for the typed planner context.
\<close>

datatype prune_disposition = Disp_FRONTIER | Disp_SOFT | Disp_HARD | Disp_NULL | Disp_PENDING

record search_eligibility =
  se_branch_eligible :: bool
  se_best_checkpoint_eligible :: bool
  se_refinement_eligible :: bool
  se_ensemble_eligible :: bool
  se_disposition :: prune_disposition
  se_reasons :: "string list"

definition granted :: "bool \<Rightarrow> string list \<Rightarrow> string list" where
  "granted c xs = (if c then xs else [])"

lemma granted_simps [simp]:
  shows "granted True xs = xs" and "granted False xs = []"
    and "(granted c [x] = []) = (\<not> c)" and "(y \<in> set (granted c [x])) = (c \<and> y = x)"
  by (simp add: granted_def, simp add: granted_def, simp add: granted_def, cases c, simp_all add: granted_def)

text \<open>\<^verbatim>\<open>_normalized\<close> of a text field and \<^verbatim>\<open>_metric_delta\<close>: the keys compare in lower case.\<close>

definition normalized_text :: "string \<Rightarrow> string" where
  "normalized_text s = py_lower (py_strip s)"

definition lowered_keys :: "(string, pyfloat) dict \<Rightarrow> (string, pyfloat) dict" where
  "lowered_keys d = foldl (\<lambda>acc (k, v). dset (py_lower k) v acc) [] d"

fun first_key :: "(string, pyfloat) dict \<Rightarrow> string list \<Rightarrow> pyfloat option" where
  "first_key d [] = None"
| "first_key d (n # ns) = (case dget d n of Some v \<Rightarrow> Some v | None \<Rightarrow> first_key d ns)"

definition metric_delta_named :: "planner_experiment_summary \<Rightarrow> string list \<Rightarrow> pyfloat option" where
  "metric_delta_named x names = first_key (lowered_keys (px_metric_deltas x)) names"

definition gauc_delta :: "planner_experiment_summary \<Rightarrow> pyfloat option" where
  "gauc_delta x = metric_delta_named x [''gauc'']"

definition ndcg_delta :: "planner_experiment_summary \<Rightarrow> pyfloat option" where
  "ndcg_delta x = metric_delta_named x [''ndcg@5'', ''ndcg'']"

definition both_deltas :: "planner_experiment_summary \<Rightarrow> (pyfloat \<Rightarrow> pyfloat \<Rightarrow> bool) \<Rightarrow> bool" where
  "both_deltas x P = (case (gauc_delta x, ndcg_delta x) of (Some g, Some n) \<Rightarrow> P g n | _ \<Rightarrow> False)"

section \<open>The portfolio flags of a result\<close>

definition retired :: "prune_disposition \<Rightarrow> string list \<Rightarrow> search_eligibility" where
  "retired d reasons = \<lparr>se_branch_eligible = False, se_best_checkpoint_eligible = False,
     se_refinement_eligible = False, se_ensemble_eligible = False, se_disposition = d,
     se_reasons = reasons\<rparr>"

definition safety_reasons :: "planner_experiment_summary \<Rightarrow> string list" where
  "safety_reasons x = granted (px_output_accepted x = Some False) [''OUTPUT_REJECTED'']
     @ granted (px_integrity x = Some Integrity_COMPROMISED \<or> px_trust_verdict x = Some Verdict_SUSPICIOUS)
         [''INTEGRITY_UNTRUSTED'']"

definition changed_at_most :: "planner_experiment_summary \<Rightarrow> pyfloat \<Rightarrow> bool" where
  "changed_at_most x threshold = (case px_prediction_change x of None \<Rightarrow> False | Some c \<Rightarrow> c \<le> threshold)"

definition is_no_op_summary :: "planner_experiment_summary \<Rightarrow> pyfloat \<Rightarrow> bool" where
  "is_no_op_summary x threshold \<longleftrightarrow> px_trust_verdict x = Some Verdict_NO_OP \<or> changed_at_most x threshold"

definition hard_reasons :: "planner_experiment_summary \<Rightarrow> pyfloat \<Rightarrow> string list" where
  "hard_reasons x epsilon = granted (px_stability x = Some Stability_UNSTABLE) [''UNSTABLE'']
     @ granted (normalized_text (px_status x) \<in> {''invalid'', ''retracted'', ''suspicious''}
         \<or> px_decision x = Some Decision_INVALID) [''INVALID_OR_RETRACTED'']
     @ granted (case px_parent_delta x of None \<Rightarrow> False | Some d \<Rightarrow> d < - epsilon)
         [''SEVERE_PRIMARY_REGRESSION'']"

definition completed_clean_evaluation :: "planner_experiment_summary \<Rightarrow> pyfloat \<Rightarrow> bool" where
  "completed_clean_evaluation x threshold \<longleftrightarrow> px_output_accepted x = Some True
     \<and> px_integrity x = Some Integrity_CLEAN
     \<and> px_highest_completed_fidelity x \<in> {Some Fidelity_PROXY, Some Fidelity_FULL}
     \<and> px_population x \<in> {Some Population_INTERNAL_PROXY, Some Population_PUBLIC_VALIDATION}
     \<and> px_trust_verdict x \<in> {Some Verdict_NEGATIVE, Some Verdict_INCONCLUSIVE, Some Verdict_ACCEPTED}
     \<and> (case px_prediction_change x of None \<Rightarrow> False | Some c \<Rightarrow> threshold < c)
     \<and> px_parent_delta x \<noteq> None"

definition metric_tradeoff :: "planner_experiment_summary \<Rightarrow> pyfloat \<Rightarrow> bool" where
  "metric_tradeoff x epsilon = both_deltas x (\<lambda>g n. (epsilon < g \<and> n < - epsilon) \<or> (epsilon < n \<and> g < - epsilon))"

definition close_to_parent :: "planner_experiment_summary \<Rightarrow> pyfloat \<Rightarrow> bool" where
  "close_to_parent x epsilon = (case px_parent_delta x of None \<Rightarrow> False | Some d \<Rightarrow> - epsilon \<le> d)"

definition diverse_from_parent :: "planner_experiment_summary \<Rightarrow> bool" where
  "diverse_from_parent x = (case px_prediction_spearman_vs_parent x of None \<Rightarrow> False
     | Some r \<Rightarrow> \<bar>r\<bar> < fl (98 / 100))"

definition soft_result :: "planner_experiment_summary \<Rightarrow> pyfloat \<Rightarrow> search_eligibility" where
  "soft_result x epsilon =
     \<lparr>se_branch_eligible = False, se_best_checkpoint_eligible = px_best_eligible x,
      se_refinement_eligible = (px_child_count x = 0 \<and> metric_tradeoff x epsilon),
      se_ensemble_eligible = (diverse_from_parent x \<and> (close_to_parent x epsilon \<or> metric_tradeoff x epsilon)),
      se_disposition = Disp_SOFT,
      se_reasons = [''CLEAN_MEANINGFUL_SOFT_RESULT'']
        @ granted (metric_tradeoff x epsilon) [''COMPONENT_METRIC_TRADEOFF'']
        @ granted (diverse_from_parent x) [''DIVERSE_FROM_PARENT'']\<rparr>"

definition classify_search_eligibility ::
  "planner_experiment_summary \<Rightarrow> planner_context \<Rightarrow> search_eligibility" where
  "classify_search_eligibility x c =
     (let epsilon = pn_epsilon (pcx_contract_summary c);
          threshold = pn_prediction_change_no_op_threshold (pcx_contract_summary c);
          best = px_best_eligible x in
      if safety_reasons x \<noteq> [] then retired Disp_HARD (safety_reasons x)
      else if is_no_op_summary x threshold then retired Disp_NULL [''NO_MEANINGFUL_PREDICTION_CHANGE'']
      else if hard_reasons x epsilon \<noteq> [] then retired Disp_HARD (hard_reasons x epsilon)
      else if px_parent_eligible x
      then \<lparr>se_branch_eligible = True, se_best_checkpoint_eligible = best, se_refinement_eligible = False,
        se_ensemble_eligible = False, se_disposition = Disp_FRONTIER,
        se_reasons = [''CANONICAL_PARENT_ELIGIBLE'']\<rparr>
      else if \<not> completed_clean_evaluation x threshold
      then (retired Disp_PENDING [''RESULT_NOT_READY_FOR_PORTFOLIO''])\<lparr>se_best_checkpoint_eligible := best\<rparr>
      else if \<not> (close_to_parent x epsilon \<or> metric_tradeoff x epsilon)
      then (retired Disp_HARD [''NEGATIVE_WITHOUT_PORTFOLIO_HEADROOM''])\<lparr>se_best_checkpoint_eligible := best\<rparr>
      else soft_result x epsilon)"

section \<open>Method cards\<close>

definition clean_full_summary :: "planner_experiment_summary \<Rightarrow> bool" where
  "clean_full_summary x \<longleftrightarrow> px_trust_verdict x = Some Verdict_ACCEPTED
     \<and> px_integrity x = Some Integrity_CLEAN \<and> px_highest_completed_fidelity x = Some Fidelity_FULL
     \<and> px_population x = Some Population_PUBLIC_VALIDATION"

definition clean_evaluated_summary :: "planner_experiment_summary \<Rightarrow> bool" where
  "clean_evaluated_summary x \<longleftrightarrow> px_integrity x = Some Integrity_CLEAN \<and> px_output_accepted x = Some True
     \<and> px_highest_completed_fidelity x \<in> {Some Fidelity_PROXY, Some Fidelity_FULL}
     \<and> px_population x \<in> {Some Population_INTERNAL_PROXY, Some Population_PUBLIC_VALIDATION}"

definition data_capabilities :: "string list \<Rightarrow> string list" where
  "data_capabilities allowed =
     granted ({''train_interactions'', ''user_id'', ''long_view''} \<subseteq> set allowed)
       [''within_user_positive_negative_pairs'', ''user_impression_groups'']
     @ granted ({''train_interactions'', ''date''} \<subseteq> set allowed) [''strict_temporal_cutoff'']
     @ granted (''duration_ms'' \<in> set allowed) [''duration_features_legal'']
     @ granted (''auxiliary_engagement_labels'' \<in> set allowed) [''legal_auxiliary_label'']
     @ granted (''random_exposure_log'' \<in> set allowed) [''random_exposure_log'']"

definition WITHIN_USER_FEATURE_AXIS_MIN :: pyfloat where
  "WITHIN_USER_FEATURE_AXIS_MIN = fl (2 / 10)"

text \<open>\<open>max(rates) - min(rates)\<close> of the rates by date.\<close>

definition drift_material :: "pyfloat list \<Rightarrow> bool" where
  "drift_material rates \<longleftrightarrow> 2 \<le> length rates
     \<and> fl (1 / 100) \<le> fsub (foldr max rates (hd rates)) (foldr min rates (hd rates))"

definition profile_capabilities :: "planner_data_profile option \<Rightarrow> string list" where
  "profile_capabilities profile =
     (let rates = (case profile of None \<Rightarrow> [] | Some p \<Rightarrow> map er_positive_rate (dp_train_long_view_by_date p));
          dispersion = (case profile of None \<Rightarrow> None | Some p \<Rightarrow> dp_score_within_user_duration_dispersion p)
      in granted (drift_material rates) [''drift_diagnostics_material'']
       @ [if case dispersion of None \<Rightarrow> True | Some d \<Rightarrow> d < WITHIN_USER_FEATURE_AXIS_MIN
          then ''objective_refit_justified'' else ''within_user_feature_axis_material''])"

definition pairwise_results :: "planner_experiment_summary list \<Rightarrow> planner_experiment_summary list" where
  "pairwise_results history =
     filter (\<lambda>x. ''objective_pairwise_bpr'' \<in> set (px_method_card_ids x) \<and> clean_evaluated_summary x) history"

definition history_capabilities :: "planner_context \<Rightarrow> string list" where
  "history_capabilities c =
     (let history = pcx_family_history c; epsilon = pn_epsilon (pcx_contract_summary c);
          public = filter clean_full_summary history;
          confirmed = filter (\<lambda>x. px_stability x = Some Stability_CONFIRMED \<and> px_parent_eligible x) public
      in granted (pairwise_results history \<noteq> []) [''pairwise_tested'']
       @ granted (pairwise_results history \<noteq> []
           \<and> both_deltas (last (pairwise_results history)) (\<lambda>g n. epsilon < g \<and> n < - epsilon)) [''ndcg_weakness'']
       @ granted (public \<noteq> []) [''standard_public_evaluation_complete'', ''objective_refit_justified'']
       @ granted (2 \<le> length confirmed) [''two_confirmed_clean_members'']
       @ granted (list_ex (\<lambda>x. px_experiment_id x \<in> set (pcx_ensemble_candidate_ids c)
           \<and> se_ensemble_eligible (classify_search_eligibility x c)) history) [''diverse_clean_proxy_member''])"

definition available_capabilities :: "planner_context \<Rightarrow> string list" where
  "available_capabilities c =
     pn_research_capabilities (pcx_contract_summary c)
     @ data_capabilities (pn_allowed_data (pcx_contract_summary c))
     @ profile_capabilities (pcx_data_profile c) @ history_capabilities c"

definition method_card_map :: "planner_context \<Rightarrow> (string, planner_method_card_summary) dict" where
  "method_card_map c = foldl (\<lambda>d m. if pm_method_id m = [] then d else dset (pm_method_id m) m d) []
     (pcx_method_cards c)"

text \<open>The reasons against a card; it is eligible when there is none.\<close>

definition method_card_reasons ::
  "planner_method_card_summary \<Rightarrow> planner_context \<Rightarrow> string option \<Rightarrow> string list" where
  "method_card_reasons m c family =
     (let contract = pcx_contract_summary c in
      granted (normalized_text (pm_status m) \<noteq> ''candidate'') [''METHOD_STATUS_NOT_CANDIDATE'']
      @ granted (family \<noteq> None \<and> Some (pm_family m) \<noteq> family) [''METHOD_FAMILY_MISMATCH'']
      @ (if pm_allowed_data m = [] then [''METHOD_ALLOWED_DATA_UNDECLARED'']
         else granted (\<not> set (pm_allowed_data m) \<subseteq> set (pn_allowed_data contract)) [''METHOD_DATA_NOT_ALLOWED''])
      @ granted (\<not> set (pm_prerequisites m) \<subseteq> set (available_capabilities c))
          [''METHOD_PREREQUISITES_UNSATISFIED'']
      @ granted (set (pn_active_prohibitions contract) \<inter> set (pm_prohibition_conditions m) \<noteq> {})
          [''METHOD_PROHIBITED''])"

definition eligible_method_cards ::
  "planner_context \<Rightarrow> string option \<Rightarrow> planner_method_card_summary list" where
  "eligible_method_cards c family = filter (\<lambda>m. method_card_reasons m c family = []) (pcx_method_cards c)"

section \<open>Facts\<close>

lemma method_card_mapD:
  "dget (method_card_map c) i = Some m \<Longrightarrow> m \<in> set (pcx_method_cards c) \<and> pm_method_id m = i \<and> i \<noteq> []"
proof -
  have "dget (foldl (\<lambda>d m. if pm_method_id m = [] then d else dset (pm_method_id m) m d) [] ms) i = Some m
      \<Longrightarrow> m \<in> set ms \<and> pm_method_id m = i \<and> i \<noteq> []" for ms
    by (induction ms rule: rev_induct) (simp_all split: if_splits)
  then show "dget (method_card_map c) i = Some m \<Longrightarrow> ?thesis" by (simp add: method_card_map_def)
qed

text \<open>What the flags of a result rest on.\<close>

lemma not_hard_close:
  "hard_reasons x epsilon = [] \<Longrightarrow> completed_clean_evaluation x threshold \<Longrightarrow> close_to_parent x epsilon"
  by (auto simp: hard_reasons_def completed_clean_evaluation_def close_to_parent_def split: option.splits)

lemma portfolio_flags:
  fixes x c
  defines "e \<equiv> classify_search_eligibility x c"
  shows "se_branch_eligible e \<Longrightarrow> px_parent_eligible x \<and> se_disposition e = Disp_FRONTIER"
    and "se_refinement_eligible e \<or> se_ensemble_eligible e \<Longrightarrow> se_disposition e = Disp_SOFT
      \<and> completed_clean_evaluation x (pn_prediction_change_no_op_threshold (pcx_contract_summary c))
      \<and> close_to_parent x (pn_epsilon (pcx_contract_summary c)) \<and> \<not> px_parent_eligible x"
    and "se_disposition e \<in> {Disp_HARD, Disp_NULL} \<Longrightarrow> \<not> se_branch_eligible e
      \<and> \<not> se_refinement_eligible e \<and> \<not> se_ensemble_eligible e"
  unfolding e_def classify_search_eligibility_def Let_def
  by (simp_all add: retired_def soft_result_def not_hard_close split: if_splits)

end
