(* ===== verification/LinUCB.thy ===== *)
theory LinUCB
  imports Search_Eligibility Py_Numbers
begin

text \<open>
  The ranker of legal choices, \<^verbatim>\<open>src/src/tacorank/research/linucb.py\<close>: a ridge model refitted
  from the verified history on every call, in binary64 arithmetic.  \<^verbatim>\<open>as_list\<close> of a pydantic
  model iterates over its fields, so the baseline never enters \<^verbatim>\<open>by_id\<close>; \<^verbatim>\<open>str(None)\<close>
  is the text \<^verbatim>\<open>None\<close>.
\<close>

record policy_choice =
  ch_action :: string
  ch_parent :: "node_view option"
  ch_family :: "string option"
  ch_cost_tier :: string
  ch_phase :: string
  ch_reason_code :: string
  ch_reason :: string
  ch_method_card_id :: "string option"
  ch_component_experiment_ids :: "string list"

definition str_of_opt :: "string option \<Rightarrow> string" where
  "str_of_opt v = (case v of None \<Rightarrow> ''None'' | Some s \<Rightarrow> s)"

fun cost_tier_value :: "cost_tier \<Rightarrow> string" where
  "cost_tier_value Cost_LOW = ''low''"
| "cost_tier_value Cost_MEDIUM = ''medium''"
| "cost_tier_value Cost_HIGH = ''high''"

section \<open>Linear algebra\<close>

type_synonym matrix = "pyfloat list list"

definition augmented :: "matrix \<Rightarrow> matrix" where
  "augmented m = map (\<lambda>(i, row). row @ map (\<lambda>k. if i = k then 1 else 0) [0..<length m]) (enumerate 0 m)"

definition entry :: "matrix \<Rightarrow> nat \<Rightarrow> nat \<Rightarrow> pyfloat" where
  "entry m i k = (m ! i) ! k"

text \<open>\<^verbatim>\<open>max(range(column, size), key=...)\<close>: the first row of the largest magnitude.\<close>

definition pivot_row :: "matrix \<Rightarrow> nat \<Rightarrow> nat" where
  "pivot_row m column = foldl (\<lambda>best row. if \<bar>entry m best column\<bar> < \<bar>entry m row column\<bar> then row else best)
     column [Suc column..<length m]"

definition swap_rows :: "matrix \<Rightarrow> nat \<Rightarrow> nat \<Rightarrow> matrix" where
  "swap_rows m i k = m[i := m ! k, k := m ! i]"

definition eliminate :: "nat \<Rightarrow> pyfloat list \<Rightarrow> matrix \<Rightarrow> matrix" where
  "eliminate column pivot m = map (\<lambda>(i, row). if i = column \<or> row ! column = 0 then row
     else map (\<lambda>(v, p). fsub v (fmul (row ! column) p)) (zip row pivot)) (enumerate 0 m)"

definition reduce_column :: "matrix \<Rightarrow> nat \<Rightarrow> matrix res" where
  "reduce_column m column =
     (let pivot = pivot_row m column in
      guarded (ValueError ''LinUCB ridge matrix is singular'') (\<not> \<bar>entry m pivot column\<bar> < fl (1 / 10 ^ 12))
      (let swapped = swap_rows m column pivot; scale = entry swapped column column;
           scaled_row = map (\<lambda>v. fdiv v scale) (swapped ! column)
       in Inr (eliminate column scaled_row (swapped[column := scaled_row]))))"

definition inverse_matrix :: "matrix \<Rightarrow> matrix res" where
  "inverse_matrix m = bind_res (fold_res reduce_column (augmented m) [0..<length m])
     (\<lambda>a. Inr (map (drop (length m)) a))"

definition dot :: "pyfloat list \<Rightarrow> pyfloat list \<Rightarrow> pyfloat" where
  "dot xs ys = py_sum (map (\<lambda>(x, y). fmul x y) (zip xs ys))"

definition matvec :: "matrix \<Rightarrow> pyfloat list \<Rightarrow> pyfloat list" where
  "matvec m v = map (\<lambda>row. dot row v) m"

section \<open>The model\<close>

definition clip :: "pyfloat \<Rightarrow> pyfloat" where
  "clip x = max (- fl (1 / 10)) (min (fl (1 / 10)) x)"

definition choice_features ::
  "string \<Rightarrow> string \<Rightarrow> pyfloat option \<Rightarrow> pyfloat option \<Rightarrow> string list \<Rightarrow> pyfloat list" where
  "choice_features family tier parent_score baseline_score families =
     [1] @ map (\<lambda>f. if family = f then 1 else 0) families
     @ map (\<lambda>t. if tier = t then 1 else 0) [''low'', ''medium'', ''high'']
     @ [case (parent_score, baseline_score) of (Some p, Some b) \<Rightarrow> clip (fsub p b) | _ \<Rightarrow> 0]"

definition known_families :: "policy_choice list \<Rightarrow> planner_experiment_summary list \<Rightarrow> string list" where
  "known_families choices history = sorted_set (filter (\<lambda>f. f \<noteq> [])
     (map (\<lambda>x. str_of_opt (px_family x)) history @ map (\<lambda>ch. str_of_opt (ch_family ch)) choices))"

definition history_by_id ::
  "planner_experiment_summary list \<Rightarrow> (string, planner_experiment_summary) dict" where
  "history_by_id history = foldl (\<lambda>d x. if px_experiment_id x = [] then d else dset (px_experiment_id x) x d) []
     history"

definition rewarded :: "planner_experiment_summary \<Rightarrow> bool" where
  "rewarded x \<longleftrightarrow> px_parent_delta x \<noteq> None \<and> px_integrity x = Some Integrity_CLEAN
     \<and> px_output_accepted x = Some True"

definition summary_features ::
  "planner_context \<Rightarrow> string list \<Rightarrow> planner_experiment_summary \<Rightarrow> pyfloat list" where
  "summary_features c families x = choice_features (str_of_opt (px_family x))
     (case px_actual_cost x of None \<Rightarrow> [] | Some t \<Rightarrow> cost_tier_value t)
     (case dget (history_by_id (pcx_family_history c)) (str_of_opt (px_parent_experiment_id x)) of
        None \<Rightarrow> None | Some p \<Rightarrow> px_primary_score p)
     (px_primary_score (pcx_baseline c)) families"

text \<open>One rewarded result: \<open>reward_vector += r * f\<close> and \<open>matrix += f f\<^sup>T\<close>.\<close>

definition learn ::
  "planner_context \<Rightarrow> string list \<Rightarrow> matrix \<times> pyfloat list \<Rightarrow> planner_experiment_summary
   \<Rightarrow> matrix \<times> pyfloat list" where
  "learn c families state x = (if \<not> rewarded x then state else
     (let f = summary_features c families x; r = clip (the (px_parent_delta x)) in
      (map (\<lambda>(row, fr). map (\<lambda>(v, fc). fadd v (fmul fr fc)) (zip row f)) (zip (fst state) f),
       map (\<lambda>(v, fr). fadd v (fmul r fr)) (zip (snd state) f))))"

definition ridge_matrix :: "pyfloat \<Rightarrow> nat \<Rightarrow> matrix" where
  "ridge_matrix ridge n = map (\<lambda>i. map (\<lambda>k. if i = k then ridge else 0) [0..<n]) [0..<n]"

record ranker =
  rk_alpha :: pyfloat
  rk_ridge :: pyfloat

definition make_ranker :: "pyfloat \<Rightarrow> pyfloat \<Rightarrow> ranker res" where
  "make_ranker alpha ridge =
     guarded (ValueError ''LinUCB alpha must be non-negative and ridge positive'') (\<not> (alpha < 0 \<or> ridge \<le> 0))
     (Inr \<lparr>rk_alpha = alpha, rk_ridge = ridge\<rparr>)"

definition default_ranker :: ranker where
  "default_ranker = \<lparr>rk_alpha = 1 / 4, rk_ridge = 1\<rparr>"

definition tier_penalty :: "string \<Rightarrow> pyfloat" where
  "tier_penalty tier = (if tier = ''low'' then 0 else if tier = ''high'' then fl (3 / 1000) else fl (1 / 1000))"

definition choice_score ::
  "ranker \<Rightarrow> planner_context \<Rightarrow> string list \<Rightarrow> matrix \<Rightarrow> pyfloat list \<Rightarrow> policy_choice \<Rightarrow> pyfloat" where
  "choice_score r c families inverted theta ch =
     (let tier = normalized_text (ch_cost_tier ch);
          f = choice_features (str_of_opt (ch_family ch)) tier
            (case ch_parent ch of None \<Rightarrow> None | Some p \<Rightarrow> nv_primary_score p)
            (px_primary_score (pcx_baseline c)) families;
          uncertainty = fsqrt (max 0 (dot f (matvec inverted f)))
      in fsub (fadd (dot theta f) (fmul (rk_alpha r) uncertainty)) (tier_penalty tier))"

text \<open>The highest score; of equal scores the earliest choice.\<close>

fun best_scored :: "(pyfloat \<times> 'a) list \<Rightarrow> pyfloat \<times> 'a \<Rightarrow> 'a" where
  "best_scored [] best = snd best"
| "best_scored (x # xs) best = best_scored xs (if fst best < fst x then x else best)"

definition rank_choices :: "ranker \<Rightarrow> policy_choice list \<Rightarrow> planner_context \<Rightarrow> policy_choice res" where
  "rank_choices r choices c =
     guarded (ValueError ''LinUCB cannot rank an empty legal choice set'') (choices \<noteq> [])
     (let families = known_families choices (pcx_family_history c);
          dimension = 1 + length families + 3 + 1;
          (matrix, rewards) = foldl (learn c families)
            (ridge_matrix (rk_ridge r) dimension, replicate dimension 0) (pcx_family_history c)
      in bind_res (inverse_matrix matrix) (\<lambda>inverted.
         let theta = matvec inverted rewards;
             scored = map (\<lambda>ch. (choice_score r c families inverted theta ch, ch)) choices
         in Inr (best_scored (tl scored) (hd scored))))"

section \<open>Facts\<close>

lemma best_scored_in: "best_scored xs x \<in> snd ` set (x # xs)"
  by (induction xs arbitrary: x) fastforce+

lemma rank_choices_in: "rank_choices r choices c = Inr ch \<Longrightarrow> ch \<in> set choices"
proof -
  assume "rank_choices r choices c = Inr ch"
  then obtain f where ne: "choices \<noteq> []"
    and ch: "ch = best_scored (tl (map (\<lambda>ch. (f ch, ch)) choices)) (hd (map (\<lambda>ch. (f ch, ch)) choices))"
    by (auto simp: rank_choices_def Let_def raise_simps split: prod.splits)
  then have "ch \<in> snd ` set (map (\<lambda>ch. (f ch, ch)) choices)"
    using best_scored_in [of "tl (map (\<lambda>ch. (f ch, ch)) choices)" "hd (map (\<lambda>ch. (f ch, ch)) choices)"]
    by (cases choices) auto
  then show ?thesis by auto
qed

end
