(* ===== verification/Policy_Routes.thy ===== *)
theory Policy_Routes
  imports LinUCB
begin

text \<open>
  The building blocks of the depth-first search policy,
  \<^verbatim>\<open>src/src/tacorank/research/search_policy.py\<close>: the orders of the playbook, the choice of a
  method card, of a parent and of a proposal.
\<close>

section \<open>Orders\<close>

definition HIGH_VALUE_FAMILIES :: "string list" where
  "HIGH_VALUE_FAMILIES = [''objective'', ''temporal_history'', ''multitask'', ''duration_bias'', ''model'', ''features'']"

definition DEFAULT_FAMILY_ORDER :: "string list" where
  "DEFAULT_FAMILY_ORDER = HIGH_VALUE_FAMILIES @ [''sampling'', ''ensemble'', ''evaluation'', ''other'']"

definition DEFAULT_METHOD_ORDER :: "(string, string list) dict" where
  "DEFAULT_METHOD_ORDER =
     [(''objective'', [''objective_pairwise_bpr'', ''objective_loss_aligned_features'', ''objective_listwise_user_softmax'']),
      (''temporal_history'', [''temporal_history_compact'']),
      (''multitask'', [''multitask_single_auxiliary'']),
      (''duration_bias'', [''duration_bias_censored_watch_time'']),
      (''features'', [''temporal_drift_past_only'']),
      (''model'', [''model_lgbm_lambdarank_blend'', ''model_lgbm_causal_history'', ''model_lgbm_xendcg'', ''model_compact_ranker'']),
      (''ensemble'', [''ensemble_zblend_diverse'', ''ensemble_seed_mean'', ''ensemble_diverse_residual_candidate'', ''ensemble_confirmed_members'']),
      (''evaluation'', [''evaluation_random_exposure_robustness''])]"

definition family_order :: "planner_context \<Rightarrow> string list" where
  "family_order c = (if pp_family_order (pcx_playbook c) = [] then DEFAULT_FAMILY_ORDER
     else pp_family_order (pcx_playbook c))"

definition rule_order :: "planner_context \<Rightarrow> string list" where
  "rule_order c = (if pp_rule_order (pcx_playbook c) = [] then mandatory_rule_order
     else pp_rule_order (pcx_playbook c))"

definition method_order_for :: "planner_context \<Rightarrow> string \<Rightarrow> string list" where
  "method_order_for c family = (case dget (pp_method_order (pcx_playbook c)) family of
     Some (m # ms) \<Rightarrow> m # ms
   | _ \<Rightarrow> (case dget DEFAULT_METHOD_ORDER family of None \<Rightarrow> [] | Some ms \<Rightarrow> ms))"

definition allowed_families :: "planner_context \<Rightarrow> string list" where
  "allowed_families c = filter (\<lambda>f. f \<in> set (pn_allowed_families (pcx_contract_summary c))) (family_order c)"

definition family_history :: "planner_context \<Rightarrow> string list" where
  "family_history c = filter (\<lambda>f. f \<noteq> []) (map (\<lambda>x. str_of_opt (px_family x)) (pcx_family_history c))"

definition playbook_is_valid :: "planner_context \<Rightarrow> bool" where
  "playbook_is_valid c \<longleftrightarrow> pp_rule_order (pcx_playbook c) = mandatory_rule_order
     \<and> pp_family_order (pcx_playbook c) \<noteq> [] \<and> distinct (pp_family_order (pcx_playbook c))
     \<and> (case dget (pp_method_order (pcx_playbook c)) ''objective'' of
          Some (m # ms) \<Rightarrow> m = ''objective_pairwise_bpr'' | _ \<Rightarrow> False)"

definition index_in :: "'a list \<Rightarrow> 'a \<Rightarrow> nat" where
  "index_in xs x = length (takeWhile (\<lambda>y. y \<noteq> x) xs)"

section \<open>Method cards\<close>

type_synonym card_table = "(string, planner_method_card_summary) dict"

definition eligible_by_id :: "planner_context \<Rightarrow> string \<Rightarrow> card_table" where
  "eligible_by_id c family = foldl (\<lambda>d m. dset (pm_method_id m) m d) [] (eligible_method_cards c (Some family))"

definition without_key :: "string \<Rightarrow> card_table \<Rightarrow> card_table" where
  "without_key k d = filter (\<lambda>p. fst p \<noteq> k) d"

text \<open>An attempt blocks its method for its parent only when it was informative.\<close>

definition informative :: "planner_experiment_summary \<Rightarrow> bool" where
  "informative x \<longleftrightarrow> px_decision x \<in> {Some Decision_ACCEPT, Some Decision_PRUNE, Some Decision_REJECT}
     \<or> px_trust_verdict x \<in> {Some Verdict_NEGATIVE, Some Verdict_REDUNDANT}"

definition attempted_methods :: "planner_context \<Rightarrow> string \<Rightarrow> string list" where
  "attempted_methods c parent = concat (map px_method_card_ids (filter
     (\<lambda>x. str_of_opt (px_parent_experiment_id x) = parent \<and> informative x) (pcx_family_history c)))"

definition globally_attempted :: "planner_context \<Rightarrow> string list" where
  "globally_attempted c = filter (\<lambda>m. m \<noteq> []) (concat (map px_method_card_ids (pcx_family_history c)))"

definition remaining_keys :: "card_table \<Rightarrow> string list \<Rightarrow> string list" where
  "remaining_keys d taken = sorted_set (filter (\<lambda>k. k \<notin> set taken) (dkeys d))"

abbreviation residual_card :: string where
  "residual_card \<equiv> ''ensemble_diverse_residual_candidate''"

text \<open>\<^verbatim>\<open>_method_for_family\<close> without and with \<^verbatim>\<open>preferred\<close>.\<close>

definition next_method ::
  "planner_context \<Rightarrow> string \<Rightarrow> string list \<Rightarrow> planner_method_card_summary option" where
  "next_method c family attempted = (if family = ''ensemble'' then None else
     (let eligible = without_key residual_card (eligible_by_id c family) in
      case first_such (\<lambda>m. dget eligible m \<noteq> None \<and> m \<notin> set attempted) (method_order_for c family) of
        Some m \<Rightarrow> dget eligible m
      | None \<Rightarrow> (case remaining_keys eligible attempted of [] \<Rightarrow> None | m # ms \<Rightarrow> dget eligible m)))"

definition preferred_method ::
  "planner_context \<Rightarrow> string \<Rightarrow> string \<Rightarrow> string list \<Rightarrow> planner_method_card_summary option" where
  "preferred_method c family preferred attempted =
     (if preferred \<in> set attempted then None else dget (eligible_by_id c family) preferred)"

definition method_for_family ::
  "planner_context \<Rightarrow> string \<Rightarrow> string option \<Rightarrow> string \<Rightarrow> bool \<Rightarrow> planner_method_card_summary option" where
  "method_for_family c family preferred parent allow_repeated =
     (let attempted = (if allow_repeated then [] else attempted_methods c parent) in
      case preferred of None \<Rightarrow> next_method c family attempted
      | Some m \<Rightarrow> preferred_method c family m attempted)"

text \<open>The playbook's methods first, each once, then the others by identifier.\<close>

definition first_seen :: "'a list \<Rightarrow> 'a list" where
  "first_seen xs = rev (remdups (rev xs))"

definition ordered_eligible_cards :: "planner_context \<Rightarrow> string \<Rightarrow> planner_method_card_summary list" where
  "ordered_eligible_cards c family =
     (let by_id = eligible_by_id c family;
          ordered = first_seen (filter (\<lambda>m. dget by_id m \<noteq> None) (method_order_for c family))
      in List.map_filter (dget by_id) (ordered @ remaining_keys by_id ordered))"

section \<open>Choices\<close>

definition propose_choice ::
  "node_view \<Rightarrow> string \<Rightarrow> planner_method_card_summary \<Rightarrow> string \<Rightarrow> string \<Rightarrow> string \<Rightarrow> string list
   \<Rightarrow> policy_choice" where
  "propose_choice parent family m phase reason_code reason components =
     \<lparr>ch_action = ''propose'', ch_parent = Some parent, ch_family = Some family,
      ch_cost_tier = cost_tier_value (pm_cost_tier m), ch_phase = phase,
      ch_reason_code = reason_code, ch_reason = reason,
      ch_method_card_id = Some (pm_method_id m), ch_component_experiment_ids = components\<rparr>"

definition blocked_choice :: "string \<Rightarrow> string \<Rightarrow> string \<Rightarrow> policy_choice" where
  "blocked_choice reason_code reason phase =
     \<lparr>ch_action = ''blocked'', ch_parent = None, ch_family = None, ch_cost_tier = ''low'',
      ch_phase = phase, ch_reason_code = reason_code, ch_reason = reason,
      ch_method_card_id = None, ch_component_experiment_ids = []\<rparr>"

abbreviation gate_blocked :: "string \<Rightarrow> string \<Rightarrow> policy_choice" where
  "gate_blocked code reason \<equiv> blocked_choice code reason ''playbook_gate''"

section \<open>Parents\<close>

text \<open>Best score first; a node without a score counts as minus infinity.\<close>

definition by_score :: "node_view list \<Rightarrow> node_view list" where
  "by_score ns = sort_key (\<lambda>n. nv_primary_score n = None)
     (sort_key (\<lambda>n. case nv_primary_score n of None \<Rightarrow> 0 | Some s \<Rightarrow> - s) ns)"

definition best_parent :: "node_view list \<Rightarrow> node_view" where
  "best_parent eligible = hd (by_score (sort_key nv_child_count (sort_key nv_experiment_id eligible)))"

definition best_experimental_parent :: "node_view list \<Rightarrow> node_view" where
  "best_experimental_parent eligible =
     (let experimental = filter (\<lambda>n. \<not> is_root n \<and> nv_primary_score n \<noteq> None) eligible
      in best_parent (if experimental = [] then eligible else experimental))"

text \<open>The frontier by score, then depth, then the newest identifier.\<close>

definition depth_first_frontier :: "graph_view \<Rightarrow> node_view list \<Rightarrow> nat \<Rightarrow> node_view list" where
  "depth_first_frontier g eligible limit = take limit
     (by_score (sort_key (\<lambda>n. - int (length (ancestors_of g (nv_experiment_id n))))
       (rev (sort_key nv_experiment_id eligible))))"

definition latest_parent :: "planner_experiment_summary \<Rightarrow> node_view list \<Rightarrow> node_view" where
  "latest_parent latest eligible =
     (case first_such (\<lambda>n. nv_experiment_id n = px_experiment_id latest) eligible of
        Some n \<Rightarrow> n | None \<Rightarrow> best_parent eligible)"

section \<open>Facts\<close>

lemma set_by_score [simp]: "set (by_score ns) = set ns"
  by (simp add: by_score_def)

lemma best_parent_in [simp]: "eligible \<noteq> [] \<Longrightarrow> best_parent eligible \<in> set eligible"
proof -
  assume "eligible \<noteq> []"
  let ?ns = "by_score (sort_key nv_child_count (sort_key nv_experiment_id eligible))"
  have "set ?ns = set eligible" by simp
  with \<open>eligible \<noteq> []\<close> have "?ns \<noteq> []" by (metis set_empty)
  then show ?thesis using hd_in_set [of ?ns] by (simp add: best_parent_def)
qed

lemma best_experimental_parent_in [simp]: "eligible \<noteq> [] \<Longrightarrow> best_experimental_parent eligible \<in> set eligible"
proof -
  let ?e = "filter (\<lambda>n. \<not> is_root n \<and> nv_primary_score n \<noteq> None) eligible"
  assume "eligible \<noteq> []"
  then show ?thesis using best_parent_in [of ?e]
    by (cases "?e = []") (auto simp: best_experimental_parent_def Let_def)
qed

lemma latest_parent_in [simp]: "eligible \<noteq> [] \<Longrightarrow> latest_parent latest eligible \<in> set eligible"
  by (auto simp: latest_parent_def dest: first_such_SomeD split: option.splits)

lemma depth_first_frontier_in: "n \<in> set (depth_first_frontier g eligible k) \<Longrightarrow> n \<in> set eligible"
  using set_take_subset by (fastforce simp: depth_first_frontier_def)

text \<open>A card that is found is eligible for its family.\<close>

definition eligible_card :: "planner_context \<Rightarrow> string \<Rightarrow> planner_method_card_summary \<Rightarrow> bool" where
  "eligible_card c family m \<longleftrightarrow> m \<in> set (pcx_method_cards c) \<and> method_card_reasons m c (Some family) = []"

lemma eligible_by_idD: "dget (eligible_by_id c family) i = Some m \<Longrightarrow> eligible_card c family m \<and> pm_method_id m = i"
proof -
  have "dget (foldl (\<lambda>d m. dset (pm_method_id m) m d) [] ms) i = Some m
      \<Longrightarrow> m \<in> set ms \<and> pm_method_id m = i" for ms
    by (induction ms rule: rev_induct) (simp_all split: if_splits)
  from this [of "eligible_method_cards c (Some family)"]
  show "dget (eligible_by_id c family) i = Some m \<Longrightarrow> ?thesis"
    by (auto simp: eligible_by_id_def eligible_method_cards_def eligible_card_def)
qed

lemma dget_without_key [simp]: "dget (without_key k d) i = (if i = k then None else dget d i)"
  by (induction d) (auto simp: without_key_def)

lemma next_methodD:
  assumes "next_method c family attempted = Some m"
  shows "eligible_card c family m" and "family \<noteq> ''ensemble''" and "pm_method_id m \<notin> set attempted"
proof -
  let ?e = "without_key residual_card (eligible_by_id c family)"
  obtain i where "i \<notin> set attempted" "dget ?e i = Some m"
  proof (cases "first_such (\<lambda>m. dget ?e m \<noteq> None \<and> m \<notin> set attempted) (method_order_for c family)")
    case None
    then obtain i js where "remaining_keys ?e attempted = i # js" "dget ?e i = Some m"
      using assms by (auto simp: next_method_def Let_def split: if_splits list.splits)
    then show thesis
      using that set_sorted_set [of "filter (\<lambda>k. k \<notin> set attempted) (dkeys ?e)"]
      by (auto simp: remaining_keys_def)
  next
    case (Some i)
    then show thesis using that [of i] assms
      by (auto simp: next_method_def Let_def dest!: first_such_SomeD split: if_splits)
  qed
  moreover from this(2) have "pm_method_id m = i" "eligible_card c family m"
    by (auto dest: eligible_by_idD split: if_splits)
  ultimately show "eligible_card c family m" "pm_method_id m \<notin> set attempted" by simp_all
  show "family \<noteq> ''ensemble''" using assms by (auto simp: next_method_def)
qed

lemma preferred_methodD:
  "preferred_method c family m attempted = Some k \<Longrightarrow> eligible_card c family k \<and> pm_method_id k = m \<and> m \<notin> set attempted"
  by (auto simp: preferred_method_def dest: eligible_by_idD split: if_splits)

lemma method_for_familyD:
  assumes "method_for_family c family preferred parent b = Some m"
  shows "eligible_card c family m" and "\<not> b \<Longrightarrow> pm_method_id m \<notin> set (attempted_methods c parent)"
  using assms by (auto simp: method_for_family_def Let_def dest: next_methodD preferred_methodD split: option.splits)

end
