(* ===== verification/Search_Policy.thy ===== *)
theory Search_Policy
  imports Policy_Routes
begin

text \<open>
  The deterministic search policy, \<^verbatim>\<open>src/src/tacorank/research/search_policy.py\<close>: the routes
  after the latest result and the class \<^verbatim>\<open>SearchPolicy\<close>.  The optional ranker is an argument
  that may be any function; without one it is \<^const>\<open>rank_choices\<close>.
\<close>

section \<open>Independent mechanisms\<close>

definition independent_families :: "planner_context \<Rightarrow> string list \<Rightarrow> string \<Rightarrow> string list" where
  "independent_families c allowed latest_family =
     sort_key (\<lambda>f. f \<in> set (family_history c)) (sort_key (index_in (family_order c))
       (filter (\<lambda>f. f \<in> set allowed \<and> f \<noteq> latest_family) (family_order c)))"

definition independent_choices ::
  "planner_context \<Rightarrow> node_view \<Rightarrow> string list \<Rightarrow> string \<Rightarrow> string \<Rightarrow> string \<Rightarrow> policy_choice list" where
  "independent_choices c parent allowed latest_family code reason =
     List.map_filter (\<lambda>f. map_option (\<lambda>m. propose_choice parent f m ''playbook'' code reason [])
       (method_for_family c f None (nv_experiment_id parent) False))
       (independent_families c allowed latest_family)"

text \<open>
  \<^verbatim>\<open>_next_independent_choice(...) or _blocked("NO_ELIGIBLE_METHOD", ...)\<close>
\<close>

definition next_independent ::
  "planner_context \<Rightarrow> node_view \<Rightarrow> string list \<Rightarrow> string \<Rightarrow> string \<Rightarrow> string \<Rightarrow> string \<Rightarrow> policy_choice" where
  "next_independent c parent allowed latest_family code reason otherwise =
     (case independent_choices c parent allowed latest_family code reason of
        [] \<Rightarrow> gate_blocked ''NO_ELIGIBLE_METHOD'' otherwise | ch # chs \<Rightarrow> ch)"

definition same_family_refinement ::
  "planner_context \<Rightarrow> node_view \<Rightarrow> string list \<Rightarrow> policy_choice option" where
  "same_family_refinement c parent allowed =
     (let family = (case nv_family parent of None \<Rightarrow> [] | Some f \<Rightarrow> f) in
      if family = [] \<or> family \<notin> set allowed then None else
      (let eligible = (if family = ''ensemble'' then without_key residual_card (eligible_by_id c family)
             else eligible_by_id c family);
           attempted = attempted_methods c (nv_experiment_id parent);
           ordered = method_order_for c family @ remaining_keys eligible (method_order_for c family);
           untried = (\<lambda>m. dget eligible m \<noteq> None \<and> m \<notin> set attempted);
           found = (case first_such (\<lambda>m. untried m \<and> m \<notin> set (nv_method_card_ids parent)) ordered of
             Some m \<Rightarrow> Some m | None \<Rightarrow> first_such untried ordered)
       in map_option (\<lambda>m. propose_choice parent family m ''playbook'' ''SCORE_GUIDED_SAME_FAMILY_REFINEMENT''
            (''Predictions changed without a trusted gain; refine the strongest eligible experimental path ''
             @ nv_experiment_id parent @ '' within family '' @ family
             @ '' before introducing an unrelated mechanism.'') [])
          (Option.bind found (dget eligible))))"

section \<open>After a no-op\<close>

definition repeated_no_op :: "planner_context \<Rightarrow> planner_experiment_summary \<Rightarrow> planner_experiment_summary \<Rightarrow> bool" where
  "repeated_no_op c latest x \<longleftrightarrow>
     is_no_op_summary x (pn_prediction_change_no_op_threshold (pcx_contract_summary c))
     \<and> str_of_opt (px_parent_experiment_id x) = str_of_opt (px_parent_experiment_id latest)
     \<and> str_of_opt (px_family x) = str_of_opt (px_family latest)
     \<and> set (px_method_card_ids x) \<inter> set (filter (\<lambda>m. m \<noteq> []) (px_method_card_ids latest)) \<noteq> {}"

definition latest_is_no_op :: "planner_context \<Rightarrow> planner_experiment_summary \<Rightarrow> bool" where
  "latest_is_no_op c latest \<longleftrightarrow> normalized_text (px_status latest) = ''no_op''
     \<and> is_no_op_summary latest (pn_prediction_change_no_op_threshold (pcx_contract_summary c))"

definition reimplementation_choice ::
  "planner_context \<Rightarrow> planner_experiment_summary \<Rightarrow> node_view list \<Rightarrow> string list \<Rightarrow> policy_choice option" where
  "reimplementation_choice c latest eligible allowed =
     (let family = str_of_opt (px_family latest);
          methods = filter (\<lambda>m. m \<noteq> []) (px_method_card_ids latest);
          repeats = length (filter (repeated_no_op c latest) (pcx_family_history c)) in
      case first_such (\<lambda>n. nv_experiment_id n = str_of_opt (px_parent_experiment_id latest)) eligible of
        None \<Rightarrow> None
      | Some parent \<Rightarrow>
          if family \<in> set allowed \<and> length methods = 1 \<and> repeats = 1
          then map_option (\<lambda>m. propose_choice parent family m ''no_op_reimplementation''
              ''NO_OP_REIMPLEMENT_MECHANISM''
              ''The previous implementation produced identical predictions. Reimplement or materially refine the same approved mechanism once from its trusted parent; the duplicate-plan gate remains binding.'' [])
            (dget (eligible_by_id c family) (hd methods))
          else None)"

text \<open>\<^verbatim>\<open>None\<close> when the latest result is not a no-op.\<close>

definition no_op_choices ::
  "planner_context \<Rightarrow> node_view list \<Rightarrow> string list \<Rightarrow> policy_choice list option" where
  "no_op_choices c eligible allowed =
     (if pcx_family_history c = [] then None else
      (let latest = last (pcx_family_history c) in
       if \<not> latest_is_no_op c latest then None
       else Some (independent_choices c (best_experimental_parent eligible) allowed
           (str_of_opt (px_family latest)) ''NO_OP_INDEPENDENT_MECHANISM''
           ''The terminal no-op is research evidence rather than an adapter failure; test an independent mechanism from the trusted frontier.''
         @ (case reimplementation_choice c latest eligible allowed of None \<Rightarrow> [] | Some ch \<Rightarrow> [ch]))))"

section \<open>Portfolio actions\<close>

definition required_method_choice ::
  "planner_context \<Rightarrow> node_view \<Rightarrow> string \<Rightarrow> string \<Rightarrow> string \<Rightarrow> string \<Rightarrow> policy_choice" where
  "required_method_choice c parent family m code reason =
     (if family \<notin> set (allowed_families c)
      then gate_blocked ''REQUIRED_FAMILY_UNAVAILABLE''
        (''Playbook family '' @ family @ '' is not allowed by the frozen contract.'')
      else case method_for_family c family (Some m) (nv_experiment_id parent) False of
        None \<Rightarrow> gate_blocked ''REQUIRED_METHOD_UNAVAILABLE''
          (''Playbook method '' @ m @ '' is not eligible under the frozen method-card contract.'')
      | Some k \<Rightarrow> propose_choice parent family k ''playbook'' code reason [])"

text \<open>
  The typed context always has both candidate lists, so they, and not the eligibility flags of the
  result, authorize a portfolio action.
\<close>

definition soft_refinement ::
  "planner_context \<Rightarrow> planner_experiment_summary \<Rightarrow> node_view \<Rightarrow> string list \<Rightarrow> policy_choice option" where
  "soft_refinement c latest node allowed =
     (if nv_experiment_id node \<in> set (pcx_refinement_frontier_ids c)
         \<and> ''objective_pairwise_bpr'' \<in> set (px_method_card_ids latest) \<and> ''objective'' \<in> set allowed
      then map_option (\<lambda>m. propose_choice node ''objective'' m ''refinement'' ''SOFT_PRUNE_METRIC_TRADEOFF_REFINEMENT''
          (''The clean pairwise proxy exposed a component-metric trade-off; allow exactly one documented listwise refinement from ''
           @ nv_experiment_id node @ ''.'') [])
        (method_for_family c ''objective'' (Some ''objective_listwise_user_softmax'') (nv_experiment_id node) False)
      else None)"

definition soft_ensemble ::
  "planner_context \<Rightarrow> node_view \<Rightarrow> node_view list \<Rightarrow> string list \<Rightarrow> policy_choice option" where
  "soft_ensemble c node eligible allowed =
     (let parent = best_parent eligible in
      if nv_experiment_id node \<in> set (pcx_ensemble_candidate_ids c) \<and> ''ensemble'' \<in> set allowed
         \<and> nv_experiment_id node \<noteq> nv_experiment_id parent
      then map_option (\<lambda>m. propose_choice parent ''ensemble'' m ''ensemble'' ''SOFT_PRUNE_DIVERSE_ENSEMBLE_TEST''
          (''Retain '' @ nv_experiment_id node @ '' only as a clean diverse secondary component and test one predeclared blend against trusted parent ''
           @ nv_experiment_id parent @ ''.'') [nv_experiment_id node])
        (method_for_family c ''ensemble'' (Some residual_card) (nv_experiment_id parent) False)
      else None)"

definition soft_prune_choice ::
  "planner_context \<Rightarrow> planner_experiment_summary \<Rightarrow> node_view list \<Rightarrow> string list \<Rightarrow> policy_choice option" where
  "soft_prune_choice c latest eligible allowed = (case node_from_summary latest of
     None \<Rightarrow> None
   | Some node \<Rightarrow> (case soft_refinement c latest node allowed of
       Some ch \<Rightarrow> Some ch | None \<Rightarrow> soft_ensemble c node eligible allowed))"

definition member_ensemble_choice ::
  "planner_context \<Rightarrow> node_view list \<Rightarrow> node_view \<Rightarrow> policy_choice option" where
  "member_ensemble_choice c eligible parent =
     (let members = filter (\<lambda>i. i \<noteq> nv_experiment_id parent \<and> i \<noteq> ''baseline'') (map nv_experiment_id eligible);
          components = take 2 members in
      if members = [] then None
      else map_option (\<lambda>m. propose_choice parent ''ensemble'' m ''ensemble'' ''CONFIRMED_MEMBER_ZBLEND''
          (''Combine trusted parent '' @ nv_experiment_id parent @ '' with confirmed diverse members ''
           @ join_with '', '' components @ '' by per-user z-scored equal-weight blending.'') components)
        (method_for_family c ''ensemble'' (Some ''ensemble_zblend_diverse'') (nv_experiment_id parent) False))"

section \<open>The playbook\<close>

definition clean_full_public :: "planner_experiment_summary \<Rightarrow> bool" where
  "clean_full_public x \<longleftrightarrow>
     (px_trust_verdict x = Some Verdict_ACCEPTED
      \<or> px_trust_verdict x = Some Verdict_INCONCLUSIVE \<and> px_stability x = Some Stability_CONFIRMED
        \<and> px_decision x = Some Decision_ACCEPT \<and> px_parent_eligible x)
     \<and> px_integrity x = Some Integrity_CLEAN \<and> px_highest_completed_fidelity x = Some Fidelity_FULL
     \<and> px_population x = Some Population_PUBLIC_VALIDATION \<and> px_output_accepted x = Some True
     \<and> px_stability x \<in> {Some Stability_SINGLE_SEED, Some Stability_CONFIRMED, Some Stability_NOT_APPLICABLE}
     \<and> px_prediction_change x \<noteq> None"

definition terminal_clean_full :: "planner_experiment_summary \<Rightarrow> bool" where
  "terminal_clean_full x \<longleftrightarrow> px_output_accepted x = Some True
     \<and> px_highest_completed_fidelity x = Some Fidelity_FULL
     \<and> px_population x = Some Population_PUBLIC_VALIDATION \<and> px_integrity x = Some Integrity_CLEAN
     \<and> px_stability x \<in> {Some Stability_SINGLE_SEED, Some Stability_CONFIRMED, Some Stability_NOT_APPLICABLE}
     \<and> px_prediction_change x \<noteq> None
     \<and> (px_decision x \<in> {Some Decision_PRUNE, Some Decision_REJECT}
        \<or> px_trust_verdict x \<in> {Some Verdict_NEGATIVE, Some Verdict_INCONCLUSIVE})"

definition operational_failure :: "planner_experiment_summary \<Rightarrow> bool" where
  "operational_failure x \<longleftrightarrow> normalized_text (px_status x) = ''invalid''
     \<and> px_primary_score x = None \<and> px_metric_set x = None"

definition diagnostic_suffix :: "planner_experiment_summary \<Rightarrow> string" where
  "diagnostic_suffix x =
     (let rendered = List.map_filter (\<lambda>n. map_option (\<lambda>v. n @ ''='' @ format_g6 v) (dget (px_diagnostic_metrics x) n))
        [''spearman_vs_fm_baseline'', ''user_rankable_fraction'', ''item_personalized_fraction'', ''parent_residual_std'']
      in if rendered = [] then [] else '' Diagnostics: '' @ join_with '', '' rendered @ ''.'')"

definition no_method_left :: string where
  "no_method_left = ''No independent eligible method remains.''"

text \<open>The action after a clean full, or an early, result that was rejected.\<close>

definition after_rejection ::
  "planner_context \<Rightarrow> planner_experiment_summary \<Rightarrow> node_view list \<Rightarrow> string list \<Rightarrow> string \<Rightarrow> string \<Rightarrow> policy_choice" where
  "after_rejection c x eligible allowed code reason =
     (case soft_prune_choice c x eligible allowed of Some ch \<Rightarrow> ch
      | None \<Rightarrow> next_independent c (best_experimental_parent eligible) allowed (str_of_opt (px_family x))
          code reason no_method_left)"

definition deepen_choice ::
  "planner_context \<Rightarrow> planner_experiment_summary \<Rightarrow> node_view list \<Rightarrow> string list \<Rightarrow> policy_choice" where
  "deepen_choice c x eligible allowed =
     (let family = str_of_opt (px_family x); parent = latest_parent x eligible;
          preferred = (case remdups (px_method_card_ids x) of [m] \<Rightarrow> Some m | _ \<Rightarrow> None) in
      if family \<notin> set allowed
      then gate_blocked ''REQUIRED_FAMILY_UNAVAILABLE''
        ''The successful family is no longer allowed by the frozen contract.''
      else case method_for_family c family preferred (nv_experiment_id parent) False of
        None \<Rightarrow> gate_blocked ''REQUIRED_METHOD_UNAVAILABLE''
          ''No eligible method can confirm or refine the successful family.''
      | Some m \<Rightarrow> propose_choice parent family m ''playbook'' ''TRUSTED_FULL_IMPROVEMENT''
          ''Deepen the same family after a trusted full improvement.'' [])"

definition no_gain_choice ::
  "planner_context \<Rightarrow> planner_experiment_summary \<Rightarrow> node_view list \<Rightarrow> string list \<Rightarrow> policy_choice" where
  "no_gain_choice c x eligible allowed =
     (let parent = best_experimental_parent eligible;
          family = (case nv_family parent of Some (f # fs) \<Rightarrow> f # fs | _ \<Rightarrow> str_of_opt (px_family x)) in
      case same_family_refinement c parent allowed of Some ch \<Rightarrow> ch
      | None \<Rightarrow> next_independent c parent allowed family ''MEANINGFUL_CHANGE_NO_GAIN''
          ''The strongest eligible experimental path has no remaining same-family refinement; move to the next independent mechanism.''
          no_method_left)"

definition pairwise_choice ::
  "planner_context \<Rightarrow> planner_experiment_summary \<Rightarrow> node_view list \<Rightarrow> string \<Rightarrow> string \<Rightarrow> string \<Rightarrow> policy_choice" where
  "pairwise_choice c x eligible m code reason =
     required_method_choice c (latest_parent x eligible) ''objective'' m code reason"

text \<open>What one rule of the playbook does with a clean full public result.\<close>

definition clean_rule ::
  "planner_context \<Rightarrow> planner_experiment_summary \<Rightarrow> node_view list \<Rightarrow> string list \<Rightarrow> string \<Rightarrow> policy_choice option" where
  "clean_rule c x eligible allowed rule =
     (let epsilon = pn_epsilon (pcx_contract_summary c);
          threshold = pn_prediction_change_no_op_threshold (pcx_contract_summary c);
          pairwise = (\<lambda>P. ''objective_pairwise_bpr'' \<in> set (px_method_card_ids x) \<and> both_deltas x P);
          delta = (\<lambda>P. case px_parent_delta x of None \<Rightarrow> False | Some d \<Rightarrow> P d) in
      if rule = ''pairwise_gauc_up_ndcg_down'' \<and> pairwise (\<lambda>g n. epsilon < g \<and> n < - epsilon)
      then Some (pairwise_choice c x eligible ''objective_listwise_user_softmax'' ''PAIRWISE_GAUC_UP_NDCG_DOWN''
        ''Pairwise improved GAUC but hurt nDCG@5; test one listwise objective.'')
      else if rule = ''pairwise_gauc_down_ndcg_up'' \<and> pairwise (\<lambda>g n. g < - epsilon \<and> epsilon < n)
      then Some (pairwise_choice c x eligible ''objective_listwise_user_softmax'' ''PAIRWISE_GAUC_DOWN_NDCG_UP''
        ''Pairwise improved top-5 placement but hurt broad ordering; test a bounded hybrid/listwise objective.'')
      else if rule = ''pairwise_both_up'' \<and> pairwise (\<lambda>g n. epsilon < g \<and> epsilon < n)
      then Some (pairwise_choice c x eligible ''objective_pairwise_bpr'' ''PAIRWISE_BOTH_METRICS_UP''
        ''Confirm or atomically refine the successful pairwise mechanism.'')
      else if rule = ''meaningful_no_gain'' \<and> delta (\<lambda>d. \<bar>d\<bar> \<le> epsilon)
        \<and> (case px_prediction_change x of None \<Rightarrow> False | Some p \<Rightarrow> threshold < p)
      then Some (no_gain_choice c x eligible allowed)
      else if rule = ''trusted_improvement'' \<and> delta (\<lambda>d. epsilon < d)
      then Some (deepen_choice c x eligible allowed)
      else if rule = ''trusted_regression'' \<and> delta (\<lambda>d. d < - epsilon)
      then Some (next_independent c (best_experimental_parent eligible) allowed (str_of_opt (px_family x))
        ''TRUSTED_FULL_REGRESSION''
        (''The tested mechanism regressed beyond tolerance; move to an independent method.'' @ diagnostic_suffix x)
        no_method_left)
      else None)"

text \<open>What one rule does; the rules about the route come before the others.\<close>

definition apply_rule ::
  "planner_context \<Rightarrow> planner_experiment_summary \<Rightarrow> node_view list \<Rightarrow> string list \<Rightarrow> string \<Rightarrow> policy_choice option" where
  "apply_rule c x eligible allowed rule =
     (if rule = ''output_rejected'' \<and> px_output_accepted x = Some False
      then Some (gate_blocked ''OUTPUT_CHECK_REJECTED''
        ''The latest output failed structural or contract validation and must recover.'')
      else if rule = ''suspicious_or_compromised'' \<and> px_integrity x = Some Integrity_COMPROMISED
      then Some (gate_blocked ''SUSPICIOUS_RESULT_REQUIRES_QUARANTINE''
        ''The latest evaluation is integrity-compromised and requires operator quarantine.'')
      else if rule = ''suspicious_or_compromised'' \<and> px_trust_verdict x = Some Verdict_SUSPICIOUS
      then Some (next_independent c (best_experimental_parent eligible) allowed (str_of_opt (px_family x))
        ''SUSPICIOUS_RESULT_QUARANTINED''
        ''Quarantine the suspicious result as non-reward evidence and continue from a verified eligible parent with an independent method.''
        ''The suspicious result was quarantined and no independent eligible method remains.'')
      else if rule = ''unstable'' \<and> px_stability x = Some Stability_UNSTABLE
      then Some (gate_blocked ''UNSTABLE_RESULT_REQUIRES_CONFIRMATION''
        ''The latest result requires seed confirmation before branching.'')
      else if rule = ''non_public_or_incomplete'' \<and> \<not> clean_full_public x
      then Some (if terminal_clean_full x
        then after_rejection c x eligible allowed ''TERMINAL_FULL_RESULT_REJECTED''
          ''The clean full result was rejected as a checkpoint and has no authorized portfolio action; move to an independent method.''
        else gate_blocked ''RESULT_NOT_BRANCHABLE''
          ''Only a completed public-validation result may drive a research branch.'')
      else if rule = ''promotion_required''
        \<and> px_highest_completed_fidelity x \<in> {Some Fidelity_SMOKE, Some Fidelity_PROXY}
      then Some (if px_decision x \<in> {Some Decision_PRUNE, Some Decision_REJECT}
        then after_rejection c x eligible allowed ''EARLY_FIDELITY_REJECTED''
          (''The latest mechanism was terminally rejected before full evaluation; move to the next independent method.''
           @ diagnostic_suffix x)
        else gate_blocked ''FIDELITY_PROMOTION_REQUIRED''
          ''A smoke or proxy result must be promoted or rejected before branching.'')
      else if \<not> clean_full_public x then None
      else clean_rule c x eligible allowed rule)"

fun first_some :: "('a \<Rightarrow> 'b option) \<Rightarrow> 'a list \<Rightarrow> 'b option" where
  "first_some f [] = None"
| "first_some f (x # xs) = (case f x of Some y \<Rightarrow> Some y | None \<Rightarrow> first_some f xs)"

definition playbook_choice ::
  "planner_context \<Rightarrow> node_view list \<Rightarrow> string list \<Rightarrow> policy_choice option" where
  "playbook_choice c eligible allowed =
     (if pcx_family_history c = [] then None else
      (let x = last (pcx_family_history c) in
       if operational_failure x
       then Some (next_independent c (best_experimental_parent eligible) allowed (str_of_opt (px_family x))
         ''OPERATIONAL_FAILURE_UNTESTED''
         ''The latest experiment ended before verified evaluation; do not interpret it as research evidence and continue with an independent eligible mechanism.''
         ''The failed operational attempt produced no research result and no independent method remains.'')
       else first_some (apply_rule c x eligible allowed) (rule_order c)))"

section \<open>The policy\<close>

record search_policy =
  sp_frontier_limit :: nat
  sp_ranker :: "policy_choice list \<Rightarrow> planner_context \<Rightarrow> policy_choice res"

definition make_search_policy ::
  "int \<Rightarrow> (policy_choice list \<Rightarrow> planner_context \<Rightarrow> policy_choice res) option \<Rightarrow> search_policy res" where
  "make_search_policy limit ranker =
     guarded (ValueError ''frontier_limit must be positive'') (\<not> limit < 1)
     (Inr \<lparr>sp_frontier_limit = nat limit,
        sp_ranker = (case ranker of None \<Rightarrow> rank_choices default_ranker | Some f \<Rightarrow> f)\<rparr>)"

text \<open>\<^verbatim>\<open>SearchPolicy._rank\<close>: what the ranker returns counts only if it is a candidate.\<close>

definition rank_candidates ::
  "search_policy \<Rightarrow> policy_choice list \<Rightarrow> planner_context \<Rightarrow> policy_choice res" where
  "rank_candidates sp candidates c =
     guarded (ValueError ''cannot rank an empty legal choice set'') (candidates \<noteq> [])
     (bind_res (sp_ranker sp candidates c) (\<lambda>ch.
      Inr (if ch \<in> set candidates then ch else hd candidates)))"

definition depth_choices ::
  "planner_context \<Rightarrow> node_view list \<Rightarrow> string list \<Rightarrow> node_view \<Rightarrow> policy_choice list" where
  "depth_choices c eligible allowed parent =
     (let recent = drop (length (family_history c) - 2) (family_history c);
          propose = (\<lambda>f m. propose_choice parent f m ''depth'' ''SCORE_GUIDED_DEPTH_FIRST''
            (''Continue depth-first from trusted branch '' @ nv_experiment_id parent @ '' using legal method ''
             @ pm_method_id m @ ''; backtrack only after this branch is exhausted.'') []);
          depth = List.map_filter (\<lambda>f. if f = ''ensemble'' then member_ensemble_choice c eligible parent
            else map_option (propose f) (method_for_family c f None (nv_experiment_id parent) False)) allowed
      in sort_key (\<lambda>ch. ch_family ch \<noteq> nv_family parent) (sort_key (\<lambda>ch. the (ch_family ch) \<in> set recent)
           (sort_key (\<lambda>ch. index_in allowed (the (ch_family ch))) depth)))"

fun first_depth ::
  "search_policy \<Rightarrow> planner_context \<Rightarrow> node_view list \<Rightarrow> string list \<Rightarrow> node_view list \<Rightarrow> policy_choice res" where
  "first_depth sp c eligible allowed [] = Inr (blocked_choice ''NO_ELIGIBLE_METHOD''
     ''No candidate method satisfies status, data, prerequisite, prohibition and family gates.'' ''none'')"
| "first_depth sp c eligible allowed (n # ns) =
     (case depth_choices c eligible allowed n of
        [] \<Rightarrow> first_depth sp c eligible allowed ns
      | ch # chs \<Rightarrow> rank_candidates sp (ch # chs) c)"

definition frontier_parents :: "planner_context \<Rightarrow> node_view list" where
  "frontier_parents c = eligible_parents (graph_from_context c)"

definition choose_experiment :: "search_policy \<Rightarrow> planner_context \<Rightarrow> policy_choice res" where
  "choose_experiment sp c =
     (let graph = graph_from_context c; eligible = frontier_parents c; allowed = allowed_families c in
      if eligible = [] then Inr (blocked_choice ''NO_ELIGIBLE_PARENT''
        ''No verified full-fidelity parent is available in the planner context.'' ''none'')
      else if allowed = [] then Inr (blocked_choice ''NO_LEGAL_FAMILY''
        ''The frozen contract exposes no legal experiment family.'' ''none'')
      else if method_card_map c = [] then Inr (blocked_choice ''NO_METHOD_CARDS''
        ''The planner context contains no validated method cards.'' ''none'')
      else if \<not> playbook_is_valid c then Inr (blocked_choice ''PLAYBOOK_INVALID''
        ''The planner context contains an invalid improvement playbook.'' ''none'')
      else case no_op_choices c eligible allowed of
        Some [] \<Rightarrow> Inr (gate_blocked ''NO_ELIGIBLE_METHOD''
          ''The latest candidate was a no-op and no legal reimplementation or independent method remains.'')
      | Some candidates \<Rightarrow> rank_candidates sp candidates c
      | None \<Rightarrow> (case playbook_choice c eligible allowed of
          Some ch \<Rightarrow> Inr ch
        | None \<Rightarrow> first_depth sp c eligible allowed
            (depth_first_frontier graph eligible (sp_frontier_limit sp))))"

section \<open>Parallel rounds\<close>

definition scouting_choice :: "node_view \<Rightarrow> string \<Rightarrow> planner_method_card_summary \<Rightarrow> policy_choice" where
  "scouting_choice parent family m = propose_choice parent family m ''parallel_round''
     ''PARALLEL_GLOBALLY_UNTRIED_METHOD''
     (''Use spare round capacity to test globally untried research method '' @ pm_method_id m
      @ '' from trusted parent '' @ nv_experiment_id parent
      @ ''; previously attempted directions are not replayed as scouting lanes.'') []"

text \<open>The loop over families and cards; \<open>selected\<close> holds the methods already in a lane.\<close>

definition add_scout ::
  "planner_context \<Rightarrow> node_view \<Rightarrow> policy_choice list \<times> string list \<Rightarrow> string \<times> planner_method_card_summary
   \<Rightarrow> policy_choice list \<times> string list" where
  "add_scout c parent state fm = (case (state, fm) of ((choices, selected), (f, m)) \<Rightarrow>
     if pm_method_id m = [] \<or> pm_method_id m \<in> set (globally_attempted c) \<or> pm_method_id m \<in> set selected
     then (choices, selected)
     else (choices @ [scouting_choice parent f m], pm_method_id m # selected))"

definition scouting_cards :: "planner_context \<Rightarrow> string list \<Rightarrow> (string \<times> planner_method_card_summary) list" where
  "scouting_cards c allowed = concat (map (\<lambda>f. if f = ''ensemble'' then []
     else map (Pair f) (ordered_eligible_cards c f)) allowed)"

definition is_proposal :: "policy_choice \<Rightarrow> bool" where
  "is_proposal ch \<longleftrightarrow> ch_action ch = ''propose''"

definition parallel_choices :: "search_policy \<Rightarrow> planner_context \<Rightarrow> policy_choice list res" where
  "parallel_choices sp c =
     (let eligible = frontier_parents c; allowed = allowed_families c in
      bind_res (choose_experiment sp c) (\<lambda>primary.
      let choices = (if is_proposal primary then [primary] else []);
          selected = filter (\<lambda>m. m \<noteq> []) (List.map_filter ch_method_card_id choices)
      in Inr (if eligible = [] \<or> allowed = [] \<or> method_card_map c = [] then choices
        else fst (foldl (add_scout c (best_parent eligible)) (choices, selected) (scouting_cards c allowed)))))"

definition choose_parallel_direction ::
  "search_policy \<Rightarrow> planner_context \<Rightarrow> int \<Rightarrow> int \<Rightarrow> policy_choice res" where
  "choose_parallel_direction sp c k n =
     guarded (ValueError ''parallel direction index is out of range'') (\<not> (k < 0 \<or> n \<le> k))
     (bind_res (parallel_choices sp c) (\<lambda>choices.
      guarded (ValueError ''parallel direction index exceeds unique legal search choices'')
        (nat k < length choices) (Inr (choices ! nat k))))"

definition parallel_direction_capacity :: "search_policy \<Rightarrow> planner_context \<Rightarrow> nat res" where
  "parallel_direction_capacity sp c = bind_res (parallel_choices sp c) (\<lambda>choices. Inr (length choices))"

definition choose_synthesis :: "planner_context \<Rightarrow> string list \<Rightarrow> policy_choice" where
  "choose_synthesis c members =
     (let components = List.map_filter (\<lambda>i. first_such (\<lambda>n. nv_experiment_id n = i) (frontier_parents c)) members;
          parent = best_parent components in
      if length components < 2
      then blocked_choice ''INSUFFICIENT_PARALLEL_IMPROVEMENTS''
        ''Synthesis requires at least two independently accepted round members.'' ''synthesis''
      else case method_for_family c ''ensemble'' (Some ''ensemble_parallel_round_synthesis'')
          (nv_experiment_id parent) True of
        None \<Rightarrow> blocked_choice ''SYNTHESIS_METHOD_UNAVAILABLE''
          ''The parallel synthesis method is not legal at this checkpoint.'' ''synthesis''
      | Some m \<Rightarrow> propose_choice parent ''ensemble'' m ''synthesis'' ''PARALLEL_ROUND_SYNTHESIS''
          ''Align every independently accepted round improvement on the best member, resolve interaction conflicts, and produce one gated candidate.''
          (filter (\<lambda>i. i \<noteq> nv_experiment_id parent) (map nv_experiment_id components)))"

end
