(* ===== verification/Plan_Validation.thy ===== *)
theory Plan_Validation
  imports Search_Policy Regex Json
begin

text \<open>
  Duplicate keys and the validation of planner proposals:
  \<^verbatim>\<open>src/src/tacorank/research/duplicate_detection.py\<close>, \<^verbatim>\<open>plan_validation.py\<close> and the detector
  of \<^verbatim>\<open>code_blind.py\<close>.  \<open>sha\<close> is \<^verbatim>\<open>hashlib.sha256(...).hexdigest()\<close>.
\<close>

section \<open>Duplicate keys\<close>

text \<open>\<^verbatim>\<open>repr\<close> and \<^verbatim>\<open>str\<close> of a JSON value.\<close>

fun py_repr :: "pyval \<Rightarrow> string" where
  "py_repr (PyStr s) = str_repr s"
| "py_repr (PyList xs) = ''['' @ join_with '', '' (map py_repr xs) @ '']''"
| "py_repr (PyDict d) = ''{'' @ join_with '', '' (map (\<lambda>(k, v). str_repr k @ '': '' @ py_repr v) d) @ ''}''"
| "py_repr v = scalar_repr v"

fun py_str :: "pyval \<Rightarrow> string" where
  "py_str (PyStr s) = s"
| "py_str v = py_repr v"

text \<open>\<^verbatim>\<open>re.sub(r"\s+", " ", text)\<close>; \<open>gap\<close> says that the last character was white space.\<close>

fun squeeze :: "bool \<Rightarrow> string \<Rightarrow> string" where
  "squeeze gap [] = []"
| "squeeze gap (c # s) = (if py_isspace c then (if gap then squeeze True s else CHR '' '' # squeeze True s)
     else c # squeeze False s)"

definition key_char :: "char \<Rightarrow> bool" where
  "key_char c \<longleftrightarrow> char_range CHR ''a'' CHR ''z'' c \<or> is_digit c \<or> c \<in> set ''_.:/ -''"

definition normalize_key_text :: "string \<Rightarrow> string" where
  "normalize_key_text s = filter key_char (squeeze False (py_lower (py_strip s)))"

fun normalize_value :: "pyval \<Rightarrow> pyval" where
  "normalize_value (PyDict d) = PyDict (sort_key fst (map (\<lambda>(k, v). (k, normalize_value v)) d))"
| "normalize_value (PyList xs) = PyList (sort_key py_repr (map normalize_value xs))"
| "normalize_value (PyStr s) = PyStr (normalize_key_text s)"
| "normalize_value v = v"

definition opt_val :: "string option \<Rightarrow> pyval" where
  "opt_val v = (case v of None \<Rightarrow> PyNone | Some s \<Rightarrow> PyStr s)"

definition duplicate_payload :: "research_proposal \<Rightarrow> pyval" where
  "duplicate_payload p = PyDict
     [(''parent_commit_sha'', PyStr (rp_parent_commit_sha p)),
      (''parent_experiment_id'', opt_val (rp_parent_experiment_id p)),
      (''family'', PyStr (rp_family p)),
      (''method_card_ids'', PyList (map PyStr (rp_method_card_ids p))),
      (''component_experiment_ids'', PyList (map PyStr (rp_component_experiment_ids p))),
      (''legacy_change_summary'', PyStr (if rp_method_card_ids p \<noteq> [] then [] else rp_change_summary p))]"

definition compute_duplicate_key :: "(string \<Rightarrow> string) \<Rightarrow> research_proposal \<Rightarrow> string" where
  "compute_duplicate_key sha p = sha (json_dumps True (normalize_value (duplicate_payload p)))"

text \<open>The detector is the set of keys it has seen.\<close>

type_synonym duplicate_detector = "string list"

definition detector_of :: "planner_experiment_summary list \<Rightarrow> duplicate_detector" where
  "detector_of summaries = filter (\<lambda>k. k \<noteq> []) (map px_duplicate_key summaries)"

definition detector_contains :: "(string \<Rightarrow> string) \<Rightarrow> duplicate_detector \<Rightarrow> research_proposal \<Rightarrow> bool" where
  "detector_contains sha d p \<longleftrightarrow>
     (if rp_duplicate_key p \<noteq> [] then rp_duplicate_key p else compute_duplicate_key sha p) \<in> set d"

definition detector_add ::
  "(string \<Rightarrow> string) \<Rightarrow> duplicate_detector \<Rightarrow> research_proposal \<Rightarrow> duplicate_detector \<times> string" where
  "detector_add sha d p = (compute_duplicate_key sha p # d, compute_duplicate_key sha p)"

definition detector_validate :: "(string \<Rightarrow> string) \<Rightarrow> research_proposal \<Rightarrow> bool" where
  "detector_validate sha p \<longleftrightarrow> rp_duplicate_key p = [] \<or> rp_duplicate_key p = compute_duplicate_key sha p"

section \<open>References to code\<close>

definition path_word :: re where
  "path_word = some_of (Chars id_char)"

definition path_slash :: re where
  "path_slash = one_of [CHR ''/'', CHR 0x5C]"

definition at_start :: re where
  "at_start = Alt Text_start (Chars py_isspace)"

definition words_nocase :: "string list \<Rightarrow> re" where
  "words_nocase ws = alts (map lit_nocase ws)"

definition code_extension :: re where
  "code_extension = words_nocase [''py'', ''pyi'', ''js'', ''ts'', ''tsx'', ''java'', ''go'', ''rs'', ''cpp'', ''cc'', ''c'', ''h'']"

definition IMPLEMENTATION_REFERENCE_RE :: re where
  "IMPLEMENTATION_REFERENCE_RE = alts
     [seq [at_start, some_of (Seq path_word path_slash), path_word, lit ''.'', code_extension, Word_edge],
      seq [at_start, alts [seq [lit ''.'', opt (lit ''.''), path_slash], path_slash,
          seq [Chars is_letter, lit '':'', lit [CHR 0x5C]]],
        some_of (Chars (\<lambda>c. id_char c \<or> c = CHR ''/'' \<or> c = CHR 0x5C))],
      seq [at_start, times 2 (Seq path_word (lit [CHR 0x5C])), Many (Seq path_word (lit [CHR 0x5C])), path_word],
      seq [at_start, alts [lit_nocase ''src'', lit_nocase ''source'', lit_nocase ''solution'', lit_nocase ''app'',
          lit_nocase ''lib'', seq [lit_nocase ''test'', opt (lit_nocase ''s'')],
          seq [lit_nocase ''script'', opt (lit_nocase ''s'')], lit_nocase ''config'', lit_nocase ''contract'',
          seq [lit_nocase ''doc'', opt (lit_nocase ''s'')]], path_slash, path_word],
      seq [Word_edge, path_word, lit ''.'', code_extension, Word_edge],
      seq [Word_edge, words_nocase [''entrypoint'', ''function name'', ''class name'', ''line number'', ''source file''],
        Word_edge]]"

definition contains_implementation_reference :: "string \<Rightarrow> bool" where
  "contains_implementation_reference s = re_found IMPLEMENTATION_REFERENCE_RE s"

section \<open>Validation\<close>

definition HIDDEN_PATTERNS :: "string list" where
  "HIDDEN_PATTERNS = [''hidden test'', ''hidden_test'', ''test label'', ''private label'', ''secret label'', ''ground truth test'']"

definition blank :: "string \<Rightarrow> bool" where
  "blank s \<longleftrightarrow> py_strip s = []"

definition COMMIT_PATTERN :: "string \<Rightarrow> bool" where
  "COMMIT_PATTERN s \<longleftrightarrow> (length s = 40 \<or> length s = 64) \<and> list_all is_lower_hex s"

definition hex64 :: "string \<Rightarrow> bool" where
  "hex64 s \<longleftrightarrow> length s = 64 \<and> list_all (\<lambda>c. is_lower_hex c \<or> char_range CHR ''A'' CHR ''F'' c) s"

definition no_op_threshold :: "planner_context \<Rightarrow> pyfloat" where
  "no_op_threshold c = pn_prediction_change_no_op_threshold (pcx_contract_summary c)"

definition authorized_reimplementation ::
  "research_proposal \<Rightarrow> planner_context \<Rightarrow> policy_choice option \<Rightarrow> bool" where
  "authorized_reimplementation p c choice = (case choice of None \<Rightarrow> False | Some ch \<Rightarrow>
     ch_phase ch = ''no_op_reimplementation'' \<and> ch_reason_code ch = ''NO_OP_REIMPLEMENT_MECHANISM''
     \<and> pcx_family_history c \<noteq> []
     \<and> (let latest = last (pcx_family_history c);
            parent = str_of_opt (px_parent_experiment_id latest);
            methods = set (px_method_card_ids latest) in
        is_no_op_summary latest (no_op_threshold c) \<and> py_lower (px_status latest) = ''no_op''
        \<and> (case ch_parent ch of None \<Rightarrow> [] | Some n \<Rightarrow> nv_experiment_id n) = parent
        \<and> str_of_opt (rp_parent_experiment_id p) = parent
        \<and> rp_family p = str_of_opt (px_family latest)
        \<and> set (rp_method_card_ids p) = methods \<and> length (remdups (px_method_card_ids latest)) = 1
        \<and> length (filter (\<lambda>x. is_no_op_summary x (no_op_threshold c)
              \<and> str_of_opt (px_parent_experiment_id x) = parent
              \<and> str_of_opt (px_family x) = str_of_opt (px_family latest)
              \<and> methods \<inter> set (px_method_card_ids x) \<noteq> {}) (pcx_family_history c)) = 1))"

definition contract_errors :: "planner_context \<Rightarrow> string list" where
  "contract_errors c = granted (\<not> hex64 (pcx_contract_sha256 c) \<or> \<not> pn_resolved (pcx_contract_summary c))
     [''CONTRACT_UNRESOLVED'']"

definition missing_errors :: "research_proposal \<Rightarrow> string list" where
  "missing_errors p = concat (map (\<lambda>(name, v). granted (blank v) [''MISSING_'' @ name])
     [(''RUN_ID'', rp_run_id p), (''EXPERIMENT_ID'', rp_experiment_id p),
      (''PARENT_EXPERIMENT_ID'', case rp_parent_experiment_id p of None \<Rightarrow> [] | Some i \<Rightarrow> i),
      (''PARENT_COMMIT_SHA'', rp_parent_commit_sha p), (''CONTEXT_ID'', rp_context_id p),
      (''HYPOTHESIS'', rp_hypothesis p), (''FAMILY'', rp_family p), (''CHANGE_SUMMARY'', rp_change_summary p),
      (''EXPECTED_MECHANISM'', rp_expected_mechanism p),
      (''FALSIFICATION_CONDITION'', rp_falsification_condition p),
      (''SUCCESS_CRITERIA'', rp_success_criteria p), (''DUPLICATE_KEY'', rp_duplicate_key p)])"

definition identity_errors :: "research_proposal \<Rightarrow> planner_context \<Rightarrow> string list" where
  "identity_errors p c =
     granted (cx_context_id c \<noteq> [] \<and> rp_context_id p \<noteq> cx_context_id c) [''CONTEXT_ID_MISMATCH'']
     @ granted (cx_run_id c \<noteq> [] \<and> rp_run_id p \<noteq> cx_run_id c) [''RUN_ID_MISMATCH'']
     @ granted (cx_run_id c \<noteq> [] \<and> \<not> ID_RE (cx_run_id c)) [''INVALID_RUN_ID'']
     @ granted (\<not> ID_RE (rp_experiment_id p)) [''INVALID_EXPERIMENT_ID'']
     @ granted (\<not> ID_RE (str_of_opt (rp_parent_experiment_id p))) [''INVALID_PARENT_EXPERIMENT_ID'']
     @ granted (cx_context_id c \<noteq> [] \<and> \<not> ID_RE (cx_context_id c)) [''INVALID_CONTEXT_ID'']
     @ granted (\<not> COMMIT_PATTERN (rp_parent_commit_sha p)) [''INVALID_PARENT_COMMIT_SHA'']"

definition family_errors :: "research_proposal \<Rightarrow> planner_context \<Rightarrow> policy_choice option \<Rightarrow> string list" where
  "family_errors p c choice =
     (let legal = pn_allowed_families (pcx_contract_summary c) in
      granted (legal = []) [''CONTRACT_ALLOWED_FAMILIES_MISSING'']
      @ granted (rp_family p \<notin> set legal) [''ILLEGAL_EXPERIMENT_FAMILY'']
      @ granted (pn_allowed_data (pcx_contract_summary c) = []) [''CONTRACT_ALLOWED_DATA_MISSING'']
      @ (case choice of None \<Rightarrow> [] | Some ch \<Rightarrow>
           granted (case ch_parent ch of None \<Rightarrow> False
             | Some n \<Rightarrow> rp_parent_experiment_id p \<noteq> Some (nv_experiment_id n)) [''PARENT_POLICY_MISMATCH'']
           @ granted (case ch_family ch of None \<Rightarrow> False | Some f \<Rightarrow> f \<noteq> [] \<and> rp_family p \<noteq> f)
               [''FAMILY_POLICY_MISMATCH'']))"

text \<open>The parent and the lists of results that the controller authorized by identifier.\<close>

definition authorized_history ::
  "planner_context \<Rightarrow> string list \<Rightarrow> string \<Rightarrow> planner_experiment_summary option" where
  "authorized_history c ids i = (if i \<in> set ids then dget (history_by_id (pcx_family_history c)) i else None)"

definition choice_phase :: "policy_choice option \<Rightarrow> string" where
  "choice_phase choice = (case choice of None \<Rightarrow> [] | Some ch \<Rightarrow> ch_phase ch)"

definition refinement_summary :: "planner_context \<Rightarrow> string \<Rightarrow> planner_experiment_summary option" where
  "refinement_summary c i = (case authorized_history c (pcx_refinement_frontier_ids c) i of None \<Rightarrow> None
     | Some x \<Rightarrow> if se_refinement_eligible (classify_search_eligibility x c) then Some x else None)"

definition plan_parent :: "research_proposal \<Rightarrow> planner_context \<Rightarrow> policy_choice option \<Rightarrow> node_view option" where
  "plan_parent p c choice = (case rp_parent_experiment_id p of None \<Rightarrow> None | Some [] \<Rightarrow> None
     | Some i \<Rightarrow> (case dget (graph_from_context c) i of Some n \<Rightarrow> Some n
         | None \<Rightarrow> if choice_phase choice = ''refinement''
             then Option.bind (refinement_summary c i) node_from_summary else None))"

definition parent_errors :: "research_proposal \<Rightarrow> planner_context \<Rightarrow> policy_choice option \<Rightarrow> string list" where
  "parent_errors p c choice = (case plan_parent p c choice of
     None \<Rightarrow> [''UNKNOWN_PARENT'']
   | Some n \<Rightarrow>
       granted (\<not> is_parent_eligible n \<and> choice_phase choice \<noteq> ''refinement'') [''INELIGIBLE_PARENT'']
       @ granted (\<not> is_parent_eligible n \<and> choice_phase choice = ''refinement''
           \<and> refinement_summary c (nv_experiment_id n) = None) [''INELIGIBLE_REFINEMENT_PARENT'']
       @ granted (case nv_parent_commit_sha n of None \<Rightarrow> False
           | Some sha \<Rightarrow> rp_parent_commit_sha p \<noteq> [] \<and> sha \<noteq> [] \<and> rp_parent_commit_sha p \<noteq> sha)
           [''PARENT_COMMIT_MISMATCH''])"

definition component_error :: "research_proposal \<Rightarrow> planner_context \<Rightarrow> string \<Rightarrow> string list" where
  "component_error p c i =
     (if i = str_of_opt (rp_parent_experiment_id p) then [''ENSEMBLE_COMPONENT_DUPLICATES_PARENT'']
      else case dget (history_by_id (pcx_family_history c)) i of
        None \<Rightarrow> [''UNKNOWN_COMPONENT_EXPERIMENT'']
      | Some x \<Rightarrow>
          (let search = classify_search_eligibility x c;
               soft = (authorized_history c (pcx_ensemble_candidate_ids c) i \<noteq> None \<and> se_ensemble_eligible search)
           in granted (if residual_card \<in> set (rp_method_card_ids p) then \<not> soft
                else \<not> (soft \<or> se_branch_eligible search)) [''INELIGIBLE_ENSEMBLE_COMPONENT'']))"

definition component_errors :: "research_proposal \<Rightarrow> planner_context \<Rightarrow> policy_choice option \<Rightarrow> string list" where
  "component_errors p c choice =
     (let ids = rp_component_experiment_ids p;
          required = (case choice of None \<Rightarrow> [] | Some ch \<Rightarrow> ch_component_experiment_ids ch) in
      granted (\<not> distinct ids) [''DUPLICATE_COMPONENT_EXPERIMENT'']
      @ granted (\<not> list_all ID_RE ids) [''INVALID_COMPONENT_EXPERIMENT_ID'']
      @ granted (required \<noteq> [] \<and> ids \<noteq> required) [''COMPONENT_POLICY_MISMATCH'']
      @ granted (rp_family p \<noteq> ''ensemble'' \<and> ids \<noteq> []) [''COMPONENTS_REQUIRE_ENSEMBLE_FAMILY'']
      @ granted (rp_family p = ''ensemble'' \<and> ids = []) [''ENSEMBLE_COMPONENT_REQUIRED'']
      @ concat (map (component_error p c) ids))"

definition method_errors :: "research_proposal \<Rightarrow> planner_context \<Rightarrow> policy_choice option \<Rightarrow> string list" where
  "method_errors p c choice =
     (let ids = rp_method_card_ids p in
      granted (ids = []) [''METHOD_CARD_REQUIRED'']
      @ granted (\<not> distinct ids) [''DUPLICATE_METHOD_CARD'']
      @ granted (case choice of None \<Rightarrow> False | Some ch \<Rightarrow> (case ch_method_card_id ch of None \<Rightarrow> False
          | Some m \<Rightarrow> m \<noteq> [] \<and> set ids \<noteq> {m})) [''METHOD_POLICY_MISMATCH'']
      @ granted (method_card_map c = []) [''CONTEXT_METHOD_CARDS_MISSING'']
      @ concat (map (\<lambda>i. case dget (method_card_map c) i of None \<Rightarrow> [''UNKNOWN_METHOD_CARD'']
          | Some m \<Rightarrow> method_card_reasons m c (Some (rp_family p))) (sorted_set ids)))"

definition evidence_errors :: "research_proposal \<Rightarrow> planner_context \<Rightarrow> string list" where
  "evidence_errors p c =
     granted (\<not> list_all EVENT_ID_RE (cx_source_event_ids c)) [''INVALID_CONTEXT_EVENT_ID'']
     @ granted (\<not> list_all EVENT_ID_RE (rp_evidence_event_ids p)) [''INVALID_EVIDENCE_EVENT_ID'']
     @ granted (\<not> set (rp_evidence_event_ids p) \<subseteq> set (cx_source_event_ids c)) [''EVIDENCE_OUTSIDE_CONTEXT'']"

text \<open>A record of evidence is what its schema stored; an ill-formed one has no snapshot.\<close>

definition known_literature ::
  "literature_evidence list \<Rightarrow> (string, literature_evidence) dict \<times> string list" where
  "known_literature found = foldl (\<lambda>(known, errors) e.
     if \<not> valid_literature_evidence e then (known, errors @ [''LITERATURE_SKILL_EVIDENCE_INVALID''])
     else (dset (le_evidence_id e) e known,
       errors @ granted (dget known (le_evidence_id e) \<noteq> None) [''DUPLICATE_LITERATURE_SKILL_EVIDENCE''])) ([], []) found"

definition literature_errors ::
  "research_proposal \<Rightarrow> literature_evidence list \<Rightarrow> bool option \<Rightarrow> string list" where
  "literature_errors p found required =
     (let (known, errors) = known_literature found; proposed = rp_literature_evidence p;
          needed = (case required of None \<Rightarrow> known \<noteq> [] | Some b \<Rightarrow> b)
      in errors @ granted (needed \<and> known \<noteq> [] \<and> proposed = []) [''LITERATURE_EVIDENCE_REQUIRED'']
       @ granted (\<not> distinct (map le_evidence_id proposed)) [''DUPLICATE_LITERATURE_EVIDENCE'']
       @ concat (map (\<lambda>e. if \<not> valid_literature_evidence e then [''INVALID_LITERATURE_EVIDENCE'']
           else case dget known (le_evidence_id e) of None \<Rightarrow> [''LITERATURE_EVIDENCE_OUTSIDE_SKILL'']
             | Some source \<Rightarrow> granted (e \<noteq> source) [''LITERATURE_EVIDENCE_TAMPERED'']) proposed))"

definition plan_text :: "research_proposal \<Rightarrow> string" where
  "plan_text p = py_lower (join_with '' '' [rp_hypothesis p, rp_change_summary p, rp_expected_mechanism p,
     rp_falsification_condition p])"

definition text_errors :: "research_proposal \<Rightarrow> string list" where
  "text_errors p =
     granted (list_ex (\<lambda>h. str_in h (plan_text p)) HIDDEN_PATTERNS) [''HIDDEN_TEST_REFERENCE'']
     @ granted (contains_implementation_reference (plan_text p)) [''CODE_SPECIFIC_PLAN_FORBIDDEN'']
     @ granted (list_ex (\<lambda>i. \<not> str_in (py_lower i) (plan_text p)) (rp_component_experiment_ids p))
         [''ENSEMBLE_COMPONENT_NOT_DESCRIBED'']"

text \<open>
  \<^verbatim>\<open>as_list\<close> turns the baseline and the current best into their fields, so the results seen are
  those of the frontier and of the history.
\<close>

definition seen_keys :: "planner_context \<Rightarrow> duplicate_detector" where
  "seen_keys c = detector_of (pcx_eligible_frontier c @ pcx_family_history c)"

definition duplicate_errors ::
  "(string \<Rightarrow> string) \<Rightarrow> research_proposal \<Rightarrow> planner_context \<Rightarrow> policy_choice option
   \<Rightarrow> duplicate_detector option \<Rightarrow> string list" where
  "duplicate_errors sha p c choice detector =
     granted ((detector \<noteq> None \<and> \<not> detector_validate sha p)
       \<or> rp_duplicate_key p \<noteq> compute_duplicate_key sha p) [''DUPLICATE_KEY_MISMATCH'']
     @ granted (detector_contains sha (case detector of Some d \<Rightarrow> d | None \<Rightarrow> seen_keys c) p
         \<and> \<not> authorized_reimplementation p c choice) [''DUPLICATE_EXPERIMENT'']"

fun cost_rank :: "cost_tier \<Rightarrow> nat" where
  "cost_rank Cost_LOW = 0"
| "cost_rank Cost_MEDIUM = 1"
| "cost_rank Cost_HIGH = 2"

definition budget_error :: "int \<Rightarrow> int option \<Rightarrow> string \<Rightarrow> string list" where
  "budget_error estimate remaining code =
     granted (float_of_int estimate < 0) [''NEGATIVE_COST_ESTIMATE'']
     @ granted (case remaining of None \<Rightarrow> False | Some r \<Rightarrow> float_of_int r < float_of_int estimate) [code]"

definition cost_errors :: "research_proposal \<Rightarrow> planner_context \<Rightarrow> string list" where
  "cost_errors p c =
     (let cost = rp_estimated_cost p; budget = pcx_remaining_budget c in
      granted (list_ex (\<lambda>i. case dget (method_card_map c) i of None \<Rightarrow> False
          | Some m \<Rightarrow> cost_rank (ce_cost_tier cost) < cost_rank (pm_cost_tier m)) (rp_method_card_ids p))
        [''METHOD_COST_UNDERESTIMATED'']
      @ budget_error (ce_llm_tokens_upper_bound cost) (pb_remaining_llm_tokens budget) ''TOKEN_BUDGET_EXCEEDED''
      @ budget_error (ce_wall_time_seconds_upper_bound cost) (Some (pb_remaining_wall_time_seconds budget))
          ''WALL_TIME_BUDGET_EXCEEDED''
      @ budget_error (ce_gpu_seconds_upper_bound cost) (pb_remaining_gpu_seconds budget) ''GPU_BUDGET_EXCEEDED'')"

record validation_request =
  vr_choice :: "policy_choice option"
  vr_detector :: "duplicate_detector option"
  vr_literature :: "literature_evidence list"
  vr_literature_required :: "bool option"

text \<open>The distinct errors in the order of the checks; the plan is accepted when there is none.\<close>

definition plan_errors ::
  "(string \<Rightarrow> string) \<Rightarrow> research_proposal \<Rightarrow> planner_context \<Rightarrow> validation_request \<Rightarrow> string list" where
  "plan_errors sha p c q = first_seen (contract_errors c @ missing_errors p @ identity_errors p c
     @ family_errors p c (vr_choice q) @ parent_errors p c (vr_choice q) @ component_errors p c (vr_choice q)
     @ method_errors p c (vr_choice q) @ evidence_errors p c
     @ literature_errors p (vr_literature q) (vr_literature_required q) @ text_errors p
     @ duplicate_errors sha p c (vr_choice q) (vr_detector q) @ cost_errors p c)"

lemma set_first_seen [simp]: "set (first_seen xs) = set xs"
  by (simp add: first_seen_def)

lemma plan_errors_None: "plan_errors sha p c q = [] \<longleftrightarrow>
    contract_errors c = [] \<and> missing_errors p = [] \<and> identity_errors p c = []
    \<and> family_errors p c (vr_choice q) = [] \<and> parent_errors p c (vr_choice q) = []
    \<and> component_errors p c (vr_choice q) = [] \<and> method_errors p c (vr_choice q) = []
    \<and> evidence_errors p c = [] \<and> literature_errors p (vr_literature q) (vr_literature_required q) = []
    \<and> text_errors p = [] \<and> duplicate_errors sha p c (vr_choice q) (vr_detector q) = [] \<and> cost_errors p c = []"
  by (auto simp: plan_errors_def first_seen_def)

end
