(* ===== verification/Research_Planner.thy ===== *)
theory Research_Planner
  imports Plan_Validation
begin

text \<open>
  From a policy choice to the planner's output: the normalization of a provider's answer
  (\<^verbatim>\<open>src/src/tacorank/providers/deepseek.py\<close>), the stop advice
  (\<^verbatim>\<open>research/convergence_advisor.py\<close>) and \<^verbatim>\<open>agents/research_planner.py\<close>.  The provider's
  network call and the literature skill are arguments.
\<close>

section \<open>Stop advice\<close>

record convergence_advice =
  ca_action :: string
  ca_reason_code :: string
  ca_reason :: string
  ca_supporting_event_ids :: "string list"

definition stop_advice :: "planner_context \<Rightarrow> string \<Rightarrow> string \<Rightarrow> convergence_advice" where
  "stop_advice c code reason = \<lparr>ca_action = ''recommend_stop'', ca_reason_code = code, ca_reason = reason,
     ca_supporting_event_ids = cx_source_event_ids c\<rparr>"

definition exhausted_advice :: "planner_context \<Rightarrow> string \<Rightarrow> string \<Rightarrow> convergence_advice" where
  "exhausted_advice c code label = stop_advice c code (''The remaining '' @ label @ '' budget is exhausted.'')"

definition advise :: "planner_context \<Rightarrow> convergence_advice" where
  "advise c =
     (let b = pcx_remaining_budget c; v = pcx_convergence c in
      if pb_remaining_experiments b \<le> 0
      then exhausted_advice c ''EXPERIMENT_BUDGET_EXHAUSTED'' ''experiment''
      else if (case pb_remaining_public_queries b of None \<Rightarrow> False | Some k \<Rightarrow> k \<le> 0)
      then exhausted_advice c ''QUERY_BUDGET_EXHAUSTED'' ''public-query''
      else if pb_remaining_wall_time_seconds b \<le> 0
      then exhausted_advice c ''WALL_TIME_BUDGET_EXHAUSTED'' ''wall-time''
      else if pv_patience v \<le> pv_consecutive_non_improving_full_evaluations v
        \<and> 1 \<le> pv_full_evaluations_completed v
      then stop_advice c ''CONVERGENCE_PATIENCE_REACHED''
        (''No trusted primary improvement exceeded epsilon for ''
         @ int_str (pv_consecutive_non_improving_full_evaluations v) @ '' full evaluations.'')
      else \<lparr>ca_action = ''propose'', ca_reason_code = ''SEARCH_CONTINUES'',
        ca_reason = ''The verified context does not meet an advisory stop condition.'',
        ca_supporting_event_ids = []\<rparr>)"

section \<open>The provider's answer\<close>

type_synonym raw_plan = "(string, pyval) dict"

text \<open>\<^verbatim>\<open>int(value)\<close>; a text may group its digits by single underscores.\<close>

definition int_of_text :: "string \<Rightarrow> int option" where
  "int_of_text s =
     (let t = py_strip s; negative = (t \<noteq> [] \<and> hd t = CHR ''-'');
          body = (if t \<noteq> [] \<and> hd t \<in> {CHR ''-'', CHR ''+''} then tl t else t);
          parts = split_on CHR ''_'' body in
      if list_all (\<lambda>p. p \<noteq> [] \<and> list_all is_digit p) parts
      then Some ((if negative then - 1 else 1) * int (number_of_digits (concat parts))) else None)"

fun py_int :: "pyval \<Rightarrow> int option" where
  "py_int (PyInt k) = Some k"
| "py_int (PyBool b) = Some (of_bool b)"
| "py_int (PyFloat x) = Some (if 0 \<le> x then \<lfloor>x\<rfloor> else \<lceil>x\<rceil>)"
| "py_int (PyStr s) = int_of_text s"
| "py_int v = None"

definition nonnegative_int :: "pyval \<Rightarrow> int \<Rightarrow> int" where
  "nonnegative_int v fallback = (case py_int v of None \<Rightarrow> fallback | Some k \<Rightarrow> max 0 k)"

definition raw_field :: "raw_plan \<Rightarrow> string \<Rightarrow> pyval" where
  "raw_field raw k = (case dget raw k of None \<Rightarrow> PyNone | Some v \<Rightarrow> v)"

fun plan_field_text :: "pyval \<Rightarrow> string" where
  "plan_field_text PyNone = []"
| "plan_field_text (PyList xs) = json_dumps True (PyList xs)"
| "plan_field_text (PyDict d) = json_dumps True (PyDict d)"
| "plan_field_text v = py_strip (py_str v)"

text \<open>\<^verbatim>\<open>[str(item) for item in as_list(value)]\<close>\<close>

fun text_items :: "pyval \<Rightarrow> string list" where
  "text_items PyNone = []"
| "text_items (PyList xs) = map py_str xs"
| "text_items (PyDict d) = dkeys d"
| "text_items v = [py_str v]"

definition experiment_number :: "string \<Rightarrow> string option" where
  "experiment_number s = (if py_startswith ''exp_'' s \<and> drop 4 s \<noteq> [] \<and> list_all is_digit (drop 4 s)
     then Some (drop 4 s) else None)"

definition padded :: "nat \<Rightarrow> string \<Rightarrow> string" where
  "padded width s = replicate (width - length s) CHR ''0'' @ s"

definition next_experiment_id :: "planner_context \<Rightarrow> string" where
  "next_experiment_id c =
     (let numbers = List.map_filter experiment_number
            (map px_experiment_id (pcx_eligible_frontier c @ pcx_family_history c))
      in ''exp_'' @ padded (foldr max (map length numbers) 3)
           (digits_of (foldr max (map number_of_digits numbers) 0 + 1)))"

fun tier_of_text :: "string \<Rightarrow> cost_tier" where
  "tier_of_text s = (if s = ''low'' then Cost_LOW else if s = ''high'' then Cost_HIGH else Cost_MEDIUM)"

definition selected_literature :: "literature_evidence list \<Rightarrow> string list \<Rightarrow> literature_evidence list" where
  "selected_literature found ids =
     (let known = foldl (\<lambda>d e. if le_evidence_id e = [] then d else dset (le_evidence_id e) e d) [] found
      in List.map_filter (dget known) (first_seen (filter (\<lambda>i. dget known i \<noteq> None) ids)))"

definition plan_methods :: "policy_choice \<Rightarrow> planner_context \<Rightarrow> string list \<Rightarrow> string list" where
  "plan_methods ch c requested = (case ch_method_card_id ch of
     Some (m # ms) \<Rightarrow> [m # ms]
   | _ \<Rightarrow> (let families = foldl (\<lambda>d m. dset (pm_method_id m) (pm_family m) d) [] (pcx_method_cards c)
       in filter (\<lambda>i. dget families i = Some (str_of_opt (ch_family ch))) requested))"

definition cost_field :: "raw_plan \<Rightarrow> string \<Rightarrow> pyval" where
  "cost_field raw k = (case raw_field raw ''estimated_cost'' of PyDict d \<Rightarrow> raw_field d k | _ \<Rightarrow> PyNone)"

definition normalize_plan ::
  "(string \<Rightarrow> string) \<Rightarrow> int \<Rightarrow> planner_context \<Rightarrow> policy_choice \<Rightarrow> literature_evidence list \<Rightarrow> raw_plan
   \<Rightarrow> research_proposal" where
  "normalize_plan sha max_output c ch found raw =
     (let sources = cx_source_event_ids c;
          evidence = filter (\<lambda>i. i \<in> set sources) (text_items (raw_field raw ''evidence_event_ids''));
          p = \<lparr>rp_run_id = cx_run_id c, rp_experiment_id = next_experiment_id c,
            rp_parent_experiment_id = Some (case ch_parent ch of None \<Rightarrow> [] | Some n \<Rightarrow> nv_experiment_id n),
            rp_parent_commit_sha = (case ch_parent ch of None \<Rightarrow> [] | Some n \<Rightarrow> str_of_opt (nv_parent_commit_sha n)),
            rp_context_id = cx_context_id c,
            rp_hypothesis = plan_field_text (raw_field raw ''hypothesis''),
            rp_family = str_of_opt (ch_family ch),
            rp_change_summary = plan_field_text (raw_field raw ''change_summary''),
            rp_expected_mechanism = plan_field_text (raw_field raw ''expected_mechanism''),
            rp_success_criteria = plan_field_text (raw_field raw ''success_criteria''),
            rp_falsification_condition = plan_field_text (raw_field raw ''falsification_condition''),
            rp_estimated_cost =
              \<lparr>ce_llm_tokens_upper_bound = nonnegative_int (cost_field raw ''llm_tokens_upper_bound'') max_output,
               ce_wall_time_seconds_upper_bound = nonnegative_int (cost_field raw ''wall_time_seconds_upper_bound'') 600,
               ce_gpu_seconds_upper_bound = nonnegative_int (cost_field raw ''gpu_seconds_upper_bound'') 0,
               ce_cost_tier = tier_of_text (ch_cost_tier ch)\<rparr>,
            rp_method_card_ids = plan_methods ch c (text_items (raw_field raw ''method_card_ids'')),
            rp_component_experiment_ids = ch_component_experiment_ids ch,
            rp_evidence_event_ids = (if evidence = [] then sources else evidence),
            rp_literature_evidence = selected_literature found (text_items (raw_field raw ''literature_evidence_ids'')),
            rp_duplicate_key = []\<rparr>
      in p\<lparr>rp_duplicate_key := compute_duplicate_key sha p\<rparr>)"

section \<open>The planner\<close>

record literature_skill =
  ls_requires_citation :: bool
  ls_research :: "planner_context \<Rightarrow> policy_choice \<Rightarrow> literature_evidence list res"
  ls_delta :: "resource_delta option"

text \<open>
  \<open>pl_complete\<close> is the network call: with the errors of the first answer when it repairs.
\<close>

record planner_agent =
  pa_policy :: search_policy
  pa_sha :: "string \<Rightarrow> string"
  pa_max_output :: int
  pa_complete :: "planner_context \<Rightarrow> policy_choice \<Rightarrow> literature_evidence list \<Rightarrow> string list \<Rightarrow> raw_plan res"
  pa_usage :: resource_delta
  pa_literature :: "literature_skill option"

definition planner_answer ::
  "planner_action \<Rightarrow> proposal_or_spec option \<Rightarrow> string \<Rightarrow> string \<Rightarrow> string list \<Rightarrow> planner_output res" where
  "planner_answer action spec code reason supporting =
     (let out = \<lparr>po_action = action, po_spec = spec, po_reason_code = code, po_reason = reason,
        po_supporting_event_ids = supporting, po_resource_delta = zero_delta\<rparr>
      in guarded (ValidationError ''PlannerOutput'') (valid_planner_output out) (Inr out))"

definition attach_usage :: "planner_agent \<Rightarrow> planner_output \<Rightarrow> planner_output" where
  "attach_usage a out = out\<lparr>po_resource_delta :=
     (case Option.bind (pa_literature a) ls_delta of None \<Rightarrow> pa_usage a
      | Some d \<Rightarrow> (pa_usage a)\<lparr>rd_wall_time_ms := rd_wall_time_ms (pa_usage a) + rd_wall_time_ms d\<rparr>)\<rparr>"

definition research_for ::
  "planner_agent \<Rightarrow> planner_context \<Rightarrow> policy_choice \<Rightarrow> (literature_evidence list \<times> bool option) res" where
  "research_for a c ch = (case pa_literature a of None \<Rightarrow> Inr ([], None)
     | Some skill \<Rightarrow> bind_res (ls_research skill c ch) (\<lambda>found. Inr (found, Some (ls_requires_citation skill))))"

text \<open>One answer of the provider with its validation errors.\<close>

definition attempt_plan ::
  "planner_agent \<Rightarrow> planner_context \<Rightarrow> policy_choice \<Rightarrow> literature_evidence list \<times> bool option \<Rightarrow> string list
   \<Rightarrow> (research_proposal \<times> string list) res" where
  "attempt_plan a c ch found errors = bind_res (pa_complete a c ch (fst found) errors) (\<lambda>raw.
     let p = normalize_plan (pa_sha a) (pa_max_output a) c ch (fst found) raw
     in Inr (p, plan_errors (pa_sha a) p c \<lparr>vr_choice = Some ch, vr_detector = None,
          vr_literature = fst found, vr_literature_required = snd found\<rparr>))"

definition plan_choice :: "planner_agent \<Rightarrow> planner_context \<Rightarrow> policy_choice \<Rightarrow> planner_output res" where
  "plan_choice a c ch =
     bind_res (research_for a c ch) (\<lambda>found.
     bind_res (attempt_plan a c ch found []) (\<lambda>first.
     bind_res (if snd first = [] then Inr first else attempt_plan a c ch found (snd first)) (\<lambda>final.
     bind_res (if snd final = []
        then planner_answer Planner_PROPOSE (Some (Proposal (fst final))) (ch_reason_code ch) (ch_reason ch)
          (cx_source_event_ids c)
        else planner_answer Planner_BLOCKED None ''INVALID_PROVIDER_PLAN''
          (''Provider proposal failed Person 1 plan validation: '' @ join_with '', '' (snd final))
          (cx_source_event_ids c)) (\<lambda>out. Inr (attach_usage a out)))))"

definition propose_with ::
  "planner_agent \<Rightarrow> planner_context \<Rightarrow> policy_choice res \<Rightarrow> planner_output res" where
  "propose_with a c choice =
     (let advice = advise c in
      if ca_action advice = ''recommend_stop''
      then planner_answer Planner_RECOMMEND_STOP None (ca_reason_code advice) (ca_reason advice)
        (if ca_supporting_event_ids advice = [] then cx_source_event_ids c else ca_supporting_event_ids advice)
      else bind_res choice (\<lambda>ch.
        if \<not> is_proposal ch
        then planner_answer Planner_BLOCKED None (ch_reason_code ch) (ch_reason ch) (cx_source_event_ids c)
        else plan_choice a c ch))"

definition propose :: "planner_agent \<Rightarrow> planner_context \<Rightarrow> planner_output res" where
  "propose a c = propose_with a c (choose_experiment (pa_policy a) c)"

text \<open>A forced choice is made before the advice is asked for, so its errors come first.\<close>

definition propose_parallel_direction :: "planner_agent \<Rightarrow> planner_context \<Rightarrow> int \<Rightarrow> int \<Rightarrow> planner_output res" where
  "propose_parallel_direction a c k n =
     bind_res (choose_parallel_direction (pa_policy a) c k n) (\<lambda>ch. propose_with a c (Inr ch))"

definition propose_synthesis :: "planner_agent \<Rightarrow> planner_context \<Rightarrow> string list \<Rightarrow> planner_output res" where
  "propose_synthesis a c members = propose_with a c (Inr (choose_synthesis c members))"

end
