(* ===== verification/Search_Facts.thy ===== *)
theory Search_Facts
  imports Search_Policy
begin

text \<open>
  What the search policy can propose: every route ends in a legal choice, whatever the ranker
  returns.
\<close>

section \<open>Legal choices\<close>

definition legal_parent :: "planner_context \<Rightarrow> string \<Rightarrow> node_view \<Rightarrow> bool" where
  "legal_parent c phase n \<longleftrightarrow> n \<in> set (frontier_parents c)
     \<or> phase = ''refinement'' \<and> nv_experiment_id n \<in> set (pcx_refinement_frontier_ids c)
       \<and> pcx_family_history c \<noteq> [] \<and> node_from_summary (last (pcx_family_history c)) = Some n"

definition fresh_method :: "planner_context \<Rightarrow> string \<Rightarrow> node_view \<Rightarrow> planner_method_card_summary \<Rightarrow> bool" where
  "fresh_method c phase n m \<longleftrightarrow> phase = ''no_op_reimplementation''
     \<or> pm_method_id m \<notin> set (attempted_methods c (nv_experiment_id n))"

definition legal_components :: "string \<Rightarrow> node_view \<Rightarrow> string list \<Rightarrow> bool" where
  "legal_components f n ids \<longleftrightarrow> distinct ids \<and> nv_experiment_id n \<notin> set ids \<and> (ids \<noteq> [] \<longrightarrow> f = ''ensemble'')"

definition legal_choice :: "planner_context \<Rightarrow> policy_choice \<Rightarrow> bool" where
  "legal_choice c ch \<longleftrightarrow> (\<exists>n f m. ch_parent ch = Some n \<and> ch_family ch = Some f
     \<and> ch_method_card_id ch = Some (pm_method_id m) \<and> ch_cost_tier ch = cost_tier_value (pm_cost_tier m)
     \<and> f \<in> set (allowed_families c) \<and> eligible_card c f m \<and> legal_parent c (ch_phase ch) n
     \<and> fresh_method c (ch_phase ch) n m \<and> legal_components f n (ch_component_experiment_ids ch))"

definition answers :: "planner_context \<Rightarrow> policy_choice \<Rightarrow> bool" where
  "answers c ch \<longleftrightarrow> legal_choice c ch \<or> \<not> is_proposal ch"

lemma answers_blocked [simp]: "answers c (blocked_choice code reason phase)"
  by (simp add: answers_def is_proposal_def blocked_choice_def)

lemma legal_answers: "legal_choice c ch \<Longrightarrow> answers c ch"
  by (simp add: answers_def)

lemma legal_proposal:
  assumes "legal_parent c phase n" and "f \<in> set (allowed_families c)" and "eligible_card c f m"
    and "fresh_method c phase n m" and "legal_components f n ids"
  shows "legal_choice c (propose_choice n f m phase code reason ids)"
  using assms by (auto simp: legal_choice_def propose_choice_def)

lemma legal_parent_frontier [simp]: "n \<in> set (frontier_parents c) \<Longrightarrow> legal_parent c phase n"
  by (simp add: legal_parent_def)

lemma no_components [simp]: "legal_components f n []"
  by (simp add: legal_components_def)

lemma fresh_unattempted [simp]:
  "pm_method_id m \<notin> set (attempted_methods c (nv_experiment_id n)) \<Longrightarrow> fresh_method c phase n m"
  by (simp add: fresh_method_def)

text \<open>A card found by \<^const>\<open>method_for_family\<close> for a parent of the frontier.\<close>

lemma found_legal:
  assumes "method_for_family c f preferred (nv_experiment_id n) False = Some m"
    and "n \<in> set (frontier_parents c)" and "f \<in> set (allowed_families c)" and "legal_components f n ids"
  shows "legal_choice c (propose_choice n f m phase code reason ids)"
  by (rule legal_proposal) (use assms method_for_familyD [OF assms(1)] in simp_all)

lemma map_filter_in: "y \<in> set (List.map_filter f xs) \<longleftrightarrow> (\<exists>x \<in> set xs. f x = Some y)"
  by (force simp: List.map_filter_def)

lemma frontier_ids_distinct: "distinct (map nv_experiment_id (frontier_parents c))"
proof -
  have "map nv_experiment_id (dvalues (graph_from_context c)) = dkeys (graph_from_context c)"
    using graph_from_context_ok(2) [of _ _ c] by (force simp: dvalues_def dkeys_def)
  then have "distinct (map nv_experiment_id (dvalues (graph_from_context c)))"
    using graph_from_context_ok(1) [of c] by (simp add: dict_ok_def)
  then show ?thesis by (simp add: frontier_parents_def eligible_parents_def distinct_map_filter)
qed

section \<open>The routes\<close>

lemma independent_legal:
  assumes "n \<in> set (frontier_parents c)"
    and "ch \<in> set (independent_choices c n (allowed_families c) latest code reason)"
  shows "legal_choice c ch"
proof -
  obtain f m where "f \<in> set (allowed_families c)" "method_for_family c f None (nv_experiment_id n) False = Some m"
      "ch = propose_choice n f m ''playbook'' code reason []"
    using assms(2) by (auto simp: independent_choices_def independent_families_def map_filter_in)
  then show ?thesis using found_legal assms(1) by simp
qed

lemma next_independent_answers:
  assumes "n \<in> set (frontier_parents c)"
  shows "answers c (next_independent c n (allowed_families c) latest code reason otherwise)"
proof (cases "independent_choices c n (allowed_families c) latest code reason")
  case (Cons ch chs)
  then have "legal_choice c ch" using independent_legal [OF assms] by (metis list.set_intros(1))
  with Cons show ?thesis by (simp add: next_independent_def answers_def)
qed (simp add: next_independent_def)

lemma same_family_legal:
  assumes "n \<in> set (frontier_parents c)" and "same_family_refinement c n (allowed_families c) = Some ch"
  shows "legal_choice c ch"
proof -
  obtain f m k where "f \<in> set (allowed_families c)" and m: "dget (eligible_by_id c f) m = Some k"
      "m \<notin> set (attempted_methods c (nv_experiment_id n))"
    and ch: "\<exists>phase code reason. ch = propose_choice n f k phase code reason []"
    using assms(2)
    by (fastforce simp: same_family_refinement_def Let_def bind_eq_Some_conv
        split: option.splits if_splits dest!: first_such_SomeD)
  with eligible_by_idD [OF m(1)] ch assms(1) show ?thesis by (auto intro!: legal_proposal)
qed

lemma reimplementation_legal:
  assumes "reimplementation_choice c latest (frontier_parents c) (allowed_families c) = Some ch"
  shows "legal_choice c ch"
proof -
  obtain n f m k where "n \<in> set (frontier_parents c)" "f \<in> set (allowed_families c)" and m: "dget (eligible_by_id c f) m = Some k"
    and ch: "\<exists>code reason. ch = propose_choice n f k ''no_op_reimplementation'' code reason []"
    using assms
    by (fastforce simp: reimplementation_choice_def Let_def split: option.splits if_splits dest!: first_such_SomeD)
  with eligible_by_idD [OF m] ch show ?thesis by (auto intro!: legal_proposal simp: fresh_method_def)
qed

lemma no_op_choices_legal:
  assumes "no_op_choices c (frontier_parents c) (allowed_families c) = Some chs"
    and "frontier_parents c \<noteq> []" and "ch \<in> set chs"
  shows "legal_choice c ch"
  using assms independent_legal [OF best_experimental_parent_in] reimplementation_legal
  by (auto simp: no_op_choices_def Let_def split: if_splits option.splits)

lemma required_method_answers:
  "n \<in> set (frontier_parents c) \<Longrightarrow> answers c (required_method_choice c n family m code reason)"
  using found_legal by (auto simp: required_method_choice_def answers_def [of c "propose_choice _ _ _ _ _ _ _"]
      split: option.splits)

lemma soft_prune_legal:
  assumes "soft_prune_choice c latest (frontier_parents c) (allowed_families c) = Some ch"
    and "frontier_parents c \<noteq> []" and "pcx_family_history c \<noteq> []" and "latest = last (pcx_family_history c)"
  shows "legal_choice c ch"
proof -
  obtain n where n: "node_from_summary latest = Some n"
    and "soft_refinement c latest n (allowed_families c) = Some ch
      \<or> soft_ensemble c n (frontier_parents c) (allowed_families c) = Some ch"
    using assms(1) by (auto simp: soft_prune_choice_def split: option.splits)
  then show ?thesis
  proof (elim disjE)
    assume "soft_refinement c latest n (allowed_families c) = Some ch"
    then obtain m code reason where in_frontier: "nv_experiment_id n \<in> set (pcx_refinement_frontier_ids c)"
        "''objective'' \<in> set (allowed_families c)"
      and m: "method_for_family c ''objective'' (Some ''objective_listwise_user_softmax'') (nv_experiment_id n) False = Some m"
      and "ch = propose_choice n ''objective'' m ''refinement'' code reason []"
      by (auto simp: soft_refinement_def split: if_splits)
    then show ?thesis using method_for_familyD [OF m] n assms(3,4)
      by (auto intro!: legal_proposal simp: legal_parent_def)
  next
    assume "soft_ensemble c n (frontier_parents c) (allowed_families c) = Some ch"
    then show ?thesis using assms(2) found_legal [OF _ best_parent_in]
      by (auto simp: soft_ensemble_def Let_def legal_components_def split: if_splits)
  qed
qed

lemma member_ensemble_legal:
  assumes "member_ensemble_choice c (frontier_parents c) n = Some ch" and "n \<in> set (frontier_parents c)"
    and "''ensemble'' \<in> set (allowed_families c)"
  shows "legal_choice c ch"
proof -
  let ?members = "filter (\<lambda>i. i \<noteq> nv_experiment_id n \<and> i \<noteq> ''baseline'') (map nv_experiment_id (frontier_parents c))"
  have "distinct ?members" using frontier_ids_distinct by simp
  then have "legal_components ''ensemble'' n (take 2 ?members)"
    using set_take_subset [of 2 ?members] by (auto simp: legal_components_def)
  then show ?thesis using assms found_legal by (auto simp: member_ensemble_choice_def Let_def split: if_splits)
qed

section \<open>The playbook and the policy\<close>

lemma first_some_SomeD: "first_some f xs = Some y \<Longrightarrow> \<exists>x \<in> set xs. f x = Some y"
  by (induction xs) (auto split: option.splits)

lemma deepen_answers: "frontier_parents c \<noteq> [] \<Longrightarrow> answers c (deepen_choice c x (frontier_parents c) (allowed_families c))"
  using found_legal [OF _ latest_parent_in]
  by (auto simp: deepen_choice_def Let_def answers_def [of c "propose_choice _ _ _ _ _ _ _"] split: option.splits)

lemma no_gain_answers:
  "frontier_parents c \<noteq> [] \<Longrightarrow> answers c (no_gain_choice c x (frontier_parents c) (allowed_families c))"
  using same_family_legal [OF best_experimental_parent_in] next_independent_answers [OF best_experimental_parent_in]
  by (auto simp: no_gain_choice_def Let_def answers_def split: option.splits)

lemma after_rejection_answers:
  assumes "frontier_parents c \<noteq> []" and "pcx_family_history c \<noteq> []" and "x = last (pcx_family_history c)"
  shows "answers c (after_rejection c x (frontier_parents c) (allowed_families c) code reason)"
  using soft_prune_legal [OF _ assms] next_independent_answers [OF best_experimental_parent_in [OF assms(1)]]
  by (auto simp: after_rejection_def answers_def split: option.splits)

lemma pairwise_answers: "frontier_parents c \<noteq> [] \<Longrightarrow> answers c (pairwise_choice c x (frontier_parents c) m code reason)"
  by (simp add: pairwise_choice_def required_method_answers)

lemma clean_rule_answers:
  "clean_rule c x (frontier_parents c) (allowed_families c) rule = Some ch \<Longrightarrow> frontier_parents c \<noteq> [] \<Longrightarrow> answers c ch"
  using next_independent_answers [OF best_experimental_parent_in]
  by (auto simp: clean_rule_def Let_def pairwise_answers no_gain_answers deepen_answers split: if_splits)

lemma apply_rule_answers:
  assumes "apply_rule c x (frontier_parents c) (allowed_families c) rule = Some ch"
    and "frontier_parents c \<noteq> []" and "pcx_family_history c \<noteq> []" and "x = last (pcx_family_history c)"
  shows "answers c ch"
  using assms(1) next_independent_answers [OF best_experimental_parent_in [OF assms(2)]]
    after_rejection_answers [OF assms(2-4)] clean_rule_answers [OF _ assms(2)]
  by (auto simp: apply_rule_def split: if_splits)

lemma playbook_answers:
  assumes "playbook_choice c (frontier_parents c) (allowed_families c) = Some ch" and "frontier_parents c \<noteq> []"
  shows "answers c ch"
  using assms next_independent_answers [OF best_experimental_parent_in [OF assms(2)]]
  by (auto simp: playbook_choice_def Let_def apply_rule_answers split: if_splits dest!: first_some_SomeD)

lemma depth_choices_legal:
  assumes "ch \<in> set (depth_choices c (frontier_parents c) (allowed_families c) n)" and "n \<in> set (frontier_parents c)"
  shows "legal_choice c ch"
  using assms found_legal member_ensemble_legal [OF _ assms(2)]
  by (auto simp: depth_choices_def Let_def map_filter_in split: if_splits)

lemma rank_candidates_in: "rank_candidates sp chs c = Inr ch \<Longrightarrow> ch \<in> set chs"
  by (auto simp: rank_candidates_def raise_simps split: if_splits)

lemma first_depth_answers:
  assumes "first_depth sp c (frontier_parents c) (allowed_families c) ns = Inr ch" and "set ns \<subseteq> set (frontier_parents c)"
  shows "answers c ch"
  using assms
proof (induction ns)
  case (Cons n ns)
  show ?case
  proof (cases "depth_choices c (frontier_parents c) (allowed_families c) n")
    case Nil
    with Cons show ?thesis by simp
  next
    case (Cons ch' chs)
    then have "ch \<in> set (depth_choices c (frontier_parents c) (allowed_families c) n)"
      using Cons.prems(1) rank_candidates_in by fastforce
    then show ?thesis using Cons.prems(2) by (simp add: answers_def depth_choices_legal)
  qed
qed auto

lemma choose_answers: "choose_experiment sp c = Inr ch \<Longrightarrow> answers c ch"
proof -
  assume chosen: "choose_experiment sp c = Inr ch"
  show "answers c ch"
  proof (cases "frontier_parents c = []")
    case False
    note no_ops = no_op_choices_legal [OF _ False] and routed = playbook_answers [OF _ False]
    have "set (depth_first_frontier (graph_from_context c) (frontier_parents c) k) \<subseteq> set (frontier_parents c)" for k
      using depth_first_frontier_in by blast
    note depth = first_depth_answers [OF _ this]
    have ranked: "answers c ch" if "no_op_choices c (frontier_parents c) (allowed_families c) = Some chs"
        "rank_candidates sp chs c = Inr ch" for chs
      using no_ops [OF that(1)] rank_candidates_in [OF that(2)] by (simp add: legal_answers)
    show ?thesis using chosen False ranked routed depth
      by (auto simp: choose_experiment_def Let_def split: if_splits option.splits list.splits)
  qed (use chosen in \<open>auto simp: choose_experiment_def Let_def\<close>)
qed

end
