(* ===== verification/Search_Samples.thy ===== *)
theory Search_Samples
  imports Search_Facts Sample_Run
begin

text \<open>
  A concrete planner context: an accepted baseline, one accepted child and one card of each of two
  families, with a policy that takes its first candidate.  It shows that the hypotheses of the
  search properties can hold.
\<close>

definition sample_card :: "string \<Rightarrow> string \<Rightarrow> planner_method_card_summary" where
  "sample_card i family = \<lparr>pm_method_id = i, pm_family = family, pm_status = ''candidate'',
     pm_cost_tier = Cost_MEDIUM, pm_summary = ''s'', pm_tags = [], pm_mechanism = ''m'',
     pm_prerequisites = [], pm_allowed_data = [''date''], pm_expected_effect = ''e'', pm_falsifier = ''f'',
     pm_prohibition_conditions = [], pm_implementation_targets = [], pm_source_path = ''p''\<rparr>"

definition sample_sha1 :: string where
  "sample_sha1 = replicate 40 CHR ''0''"

definition root_summary :: planner_experiment_summary where
  "root_summary = sample_summary\<lparr>px_commit_sha := sample_sha1, px_trust_verdict := Some Verdict_ACCEPTED\<rparr>"

definition child_summary :: planner_experiment_summary where
  "child_summary = root_summary\<lparr>px_experiment_id := ''x1'', px_parent_experiment_id := Some ''baseline'',
     px_duplicate_key := ''d1'', px_status := ''accepted''\<rparr>"

definition search_context :: planner_context where
  "search_context = sample_planner_context
    \<lparr>pcx_contract_summary := (pcx_contract_summary sample_planner_context)
       \<lparr>pn_allowed_families := [''objective'', ''model''], pn_allowed_data := [''date'']\<rparr>,
     pcx_eligible_frontier := [root_summary, child_summary],
     pcx_method_cards := [sample_card ''pairwise'' ''objective'', sample_card ''ranker'' ''model''],
     pcx_playbook := (pcx_playbook sample_planner_context)\<lparr>pp_family_order := [''objective'', ''model'']\<rparr>\<rparr>"

definition first_policy :: search_policy where
  "first_policy = \<lparr>sp_frontier_limit = 2, sp_ranker = (\<lambda>chs _. Inr (hd chs))\<rparr>"

definition root_node :: node_view where
  "root_node = the (node_from_summary root_summary)"

definition child_node :: node_view where
  "child_node = the (node_from_summary child_summary)"

lemma sample_nodes:
  "node_from_summary root_summary = Some root_node" "node_from_summary child_summary = Some child_node"
  by (simp_all add: root_node_def child_node_def node_from_summary_def child_summary_def root_summary_def sample_summary_def)

lemma sample_node_fields [simp]:
  "nv_experiment_id root_node = ''baseline''" "nv_experiment_id child_node = ''x1''"
  "nv_parent_experiment_id root_node = None" "nv_parent_experiment_id child_node = Some ''baseline''"
  "nv_primary_score root_node = None" "nv_primary_score child_node = None"
  "nv_family root_node = None" "nv_family child_node = None"
  "nv_child_count root_node = 0" "nv_child_count child_node = 0"
  "nv_parent_commit_sha root_node = Some sample_sha1" "nv_parent_commit_sha child_node = Some sample_sha1"
  by (simp_all add: root_node_def child_node_def node_from_summary_def child_summary_def root_summary_def
      sample_summary_def sample_sha1_def)

lemma sample_nodes_eligible [simp]: "is_parent_eligible root_node" "is_parent_eligible child_node"
  by (simp_all add: is_parent_eligible_def is_trusted_def root_node_def child_node_def node_from_summary_def child_summary_def
      root_summary_def sample_summary_def blocked_statuses_def py_lower_def sample_sha1_def)

lemma search_context_fields [simp]:
  "pcx_family_history search_context = []" "pcx_eligible_frontier search_context = [root_summary, child_summary]"
  "pcx_method_cards search_context = [sample_card ''pairwise'' ''objective'', sample_card ''ranker'' ''model'']"
  by (simp_all add: search_context_def sample_planner_context_def context_document.defs planner_context.defs)

lemma search_graph: "graph_from_context search_context = [(''baseline'', root_node), (''x1'', child_node)]"
  by (simp add: graph_from_context_def frontier_nodes_def graph_of_nodes_def List.map_filter_simps sample_nodes)

lemma search_parents [simp]: "frontier_parents search_context = [root_node, child_node]"
  by (simp add: frontier_parents_def search_graph eligible_parents_def dvalues_def)

lemma search_families [simp]: "allowed_families search_context = [''objective'', ''model'']"
  by (simp add: allowed_families_def family_order_def search_context_def sample_planner_context_def context_document.defs planner_context.defs)

lemma search_cards [simp]: "method_card_map search_context \<noteq> []"
  by (simp add: method_card_map_def sample_card_def)

lemma search_playbook [simp]: "playbook_is_valid search_context"
  by (simp add: playbook_is_valid_def search_context_def sample_planner_context_def context_document.defs planner_context.defs)

lemma search_routes [simp]: "no_op_choices search_context ns fs = None" "playbook_choice search_context ns fs = None"
  "attempted_methods search_context i = []"
  by (simp_all add: no_op_choices_def playbook_choice_def attempted_methods_def)

lemma candidate_status: "normalized_text ''candidate'' = ''candidate''"
  by code_simp

lemma search_reasons [simp]:
  "method_card_reasons (sample_card i f) search_context (Some g) = (if f = g then [] else [''METHOD_FAMILY_MISMATCH''])"
  by (simp add: method_card_reasons_def sample_card_def granted_def search_context_def candidate_status
      sample_planner_context_def context_document.defs planner_context.defs Let_def)

lemma sample_ancestors:
  "ancestors_of (graph_from_context search_context) ''baseline'' = []"
  "ancestors_of (graph_from_context search_context) ''x1'' = [root_node]"
  by (simp_all add: search_graph ancestors_of_def climb.simps)

lemma search_frontier [simp]:
  "depth_first_frontier (graph_from_context search_context) [root_node, child_node] 2 = [child_node, root_node]"
  by (simp add: depth_first_frontier_def by_score_def sample_ancestors)

lemma sample_card_id [simp]: "pm_method_id (sample_card i f) = i" "pm_family (sample_card i f) = f" "pm_cost_tier (sample_card i f) = Cost_MEDIUM"
  by (simp_all add: sample_card_def)

lemma search_by_id:
  "eligible_by_id search_context ''objective'' = [(''pairwise'', sample_card ''pairwise'' ''objective'')]"
  "eligible_by_id search_context ''model'' = [(''ranker'', sample_card ''ranker'' ''model'')]"
  by (simp_all add: eligible_by_id_def eligible_method_cards_def)

lemma search_orders:
  "method_order_for search_context ''objective'' = [''objective_pairwise_bpr'']"
  "method_order_for search_context ''model''
    = [''model_lgbm_lambdarank_blend'', ''model_lgbm_causal_history'', ''model_lgbm_xendcg'', ''model_compact_ranker'']"
  by (simp_all add: method_order_for_def DEFAULT_METHOD_ORDER_def search_context_def
      sample_planner_context_def context_document.defs planner_context.defs)

lemma search_methods [simp]:
  "method_for_family search_context ''objective'' None i b = Some (sample_card ''pairwise'' ''objective'')"
  "method_for_family search_context ''model'' None i b = Some (sample_card ''ranker'' ''model'')"
  by (simp_all add: method_for_family_def Let_def next_method_def search_by_id search_orders without_key_def
      first_such_def remaining_keys_def dkeys_def sorted_set_def)

lemma sample_depth: "\<exists>r reason reason'. reason = ''Continue '' @ r @ ''.'' \<and> depth_choices search_context ns [''objective'', ''model''] child_node =
   [propose_choice child_node ''objective'' (sample_card ''pairwise'' ''objective'') ''depth'' ''SCORE_GUIDED_DEPTH_FIRST'' reason [],
    propose_choice child_node ''model'' (sample_card ''ranker'' ''model'') ''depth'' ''SCORE_GUIDED_DEPTH_FIRST'' reason' []]"
  by (rule exI [of _ "''depth-first from trusted branch x1 using legal method pairwise; backtrack only after this branch is exhausted''"])
    (simp add: depth_choices_def Let_def family_history_def index_in_def List.map_filter_simps propose_choice_def)

lemma sample_choice: "\<exists>ch. choose_experiment first_policy search_context = Inr ch \<and> is_proposal ch
    \<and> ch_parent ch = Some child_node \<and> ch_family ch = Some ''objective'' \<and> ch_phase ch = ''depth''
    \<and> ch_method_card_id ch = Some ''pairwise'' \<and> ch_component_experiment_ids ch = [] \<and> ch_cost_tier ch = ''medium''
    \<and> ch_reason_code ch = ''SCORE_GUIDED_DEPTH_FIRST'' \<and> (\<exists>r. ch_reason ch = ''Continue '' @ r @ ''.'')"
proof -
  obtain t r r' where "r = ''Continue '' @ t @ ''.''" "depth_choices search_context [root_node, child_node] [''objective'', ''model''] child_node =
     [propose_choice child_node ''objective'' (sample_card ''pairwise'' ''objective'') ''depth'' ''SCORE_GUIDED_DEPTH_FIRST'' r [],
      propose_choice child_node ''model'' (sample_card ''ranker'' ''model'') ''depth'' ''SCORE_GUIDED_DEPTH_FIRST'' r' []]"
    using sample_depth by metis
  then show ?thesis
    by (simp add: choose_experiment_def Let_def first_policy_def rank_candidates_def is_proposal_def propose_choice_def)
qed

end
