(* ===== verification/Planner_Samples.thy ===== *)
theory Planner_Samples
  imports Research_Planner Search_Samples
begin

text \<open>
  A planner agent whose provider answers with one fixed plan, and what the validator says of it.
  The first section decides the detector of code references on a text without the characters that
  every reference has.
\<close>

section \<open>Patterns that need a character\<close>

text \<open>Every match of a stuck pattern consumes a character of \<open>Q\<close>.\<close>

fun stuck :: "(char \<Rightarrow> bool) \<Rightarrow> re \<Rightarrow> bool" where
  "stuck Q (Chars p) \<longleftrightarrow> (\<forall>c. p c \<longrightarrow> Q c)"
| "stuck Q (Seq a b) \<longleftrightarrow> stuck Q a \<or> stuck Q b"
| "stuck Q (Alt a b) \<longleftrightarrow> stuck Q a \<and> stuck Q b"
| "stuck Q (Group k r) \<longleftrightarrow> stuck Q r"
| "stuck Q r \<longleftrightarrow> False"

lemma stuck_no_match: "stuck Q r \<Longrightarrow> \<forall>c \<in> set (re_rest st). \<not> Q c \<Longrightarrow> re_match r st = []"
proof (induction Q r arbitrary: st rule: stuck.induct)
  case (2 Q a b)
  then show ?case using re_match_suffix [of _ a st] by fastforce
qed (auto split: list.splits)

lemma stuck_not_found: "stuck Q r \<Longrightarrow> \<forall>c \<in> set s. \<not> Q c \<Longrightarrow> \<not> re_found r s"
proof -
  assume "stuck Q r"
  have "\<forall>c \<in> set s. \<not> Q c \<Longrightarrow> search_from r prev s = None" for prev
    by (induction s arbitrary: prev) (simp_all add: search_from.simps match_at_def stuck_no_match [OF \<open>stuck Q r\<close>])
  then show "\<forall>c \<in> set s. \<not> Q c \<Longrightarrow> \<not> re_found r s" by (simp add: re_found_def re_search_def)
qed

lemma lower_id_char:
  assumes "is_letter d" and "lower_char c = lower_char d"
  shows "id_char c"
proof -
  have "97 \<le> (of_char (lower_char c) :: nat) \<and> (of_char (lower_char c) :: nat) \<le> 122"
    using assms by (simp add: char_range_def)
  then show ?thesis by (auto simp: lower_char_def Let_def id_char_def is_alnum_def split: if_splits)
qed

lemma stuck_nocase: "(\<And>c. id_char c \<Longrightarrow> Q c) \<Longrightarrow> is_letter d \<Longrightarrow> stuck Q (lit_nocase (d # s))"
  using lower_id_char by auto

lemma letters: "list_all is_letter ''pjtgrchsaledfn''"
  by (simp add: char_range_def lower_char_def)

lemma stuck_reference: "stuck (\<lambda>c. id_char c \<or> c = CHR ''/'' \<or> c = CHR 0x5C) IMPLEMENTATION_REFERENCE_RE"
  using letters
  by (simp add: IMPLEMENTATION_REFERENCE_RE_def path_word_def path_slash_def at_start_def words_nocase_def code_extension_def
    some_of_def one_of_def stuck_nocase opt_def del: lit_nocase.simps)
section \<open>A provider with one answer\<close>

definition sample_raw_plan :: raw_plan where
  "sample_raw_plan = map (\<lambda>k. (k, PyStr ''?''))
     [''hypothesis'', ''change_summary'', ''expected_mechanism'', ''success_criteria'', ''falsification_condition'']"

definition sample_agent :: planner_agent where
  "sample_agent = \<lparr>pa_policy = first_policy, pa_sha = (\<lambda>_. ''k''), pa_max_output = 100,
     pa_complete = (\<lambda>_ _ _ _. Inr sample_raw_plan), pa_usage = zero_delta, pa_literature = None\<rparr>"

definition sample_plan :: "policy_choice \<Rightarrow> research_proposal" where
  "sample_plan ch = normalize_plan (\<lambda>_. ''k'') 100 search_context ch [] sample_raw_plan"

lemma search_document [simp]:
  "cx_context_id search_context = ''p1''" "cx_run_id search_context = ''r''" "cx_source_event_ids search_context = []"
  "pcx_contract_sha256 search_context = ZERO_SHA256" "pn_resolved (pcx_contract_summary search_context)"
  "pn_allowed_families (pcx_contract_summary search_context) = [''objective'', ''model'']"
  "pn_allowed_data (pcx_contract_summary search_context) = [''date'']"
  "pb_remaining_experiments (pcx_remaining_budget search_context) = 4"
  "pb_remaining_public_queries (pcx_remaining_budget search_context) = None"
  "pb_remaining_llm_tokens (pcx_remaining_budget search_context) = None"
  "pb_remaining_gpu_seconds (pcx_remaining_budget search_context) = None"
  "pb_remaining_wall_time_seconds (pcx_remaining_budget search_context) = 3600"
  "pv_patience (pcx_convergence search_context) = 3"
  "pv_consecutive_non_improving_full_evaluations (pcx_convergence search_context) = 0"
  by (simp_all add: search_context_def sample_planner_context_def sample_document_def context_document.defs planner_context.defs)

lemma sample_digits: "digits_of (Suc 0) = ''1''"
  by code_simp

lemma sample_next_id [simp]: "next_experiment_id search_context = ''exp_001''"
  by (simp add: next_experiment_id_def padded_def experiment_number_def root_summary_def child_summary_def sample_summary_def
      List.map_filter_simps sample_digits numeral_2_eq_2 Let_def py_startswith_def)

lemma sample_fields:
  "plan_field_text (raw_field sample_raw_plan ''hypothesis'') = ''?''"
  "plan_field_text (raw_field sample_raw_plan ''change_summary'') = ''?''"
  "plan_field_text (raw_field sample_raw_plan ''expected_mechanism'') = ''?''"
  "plan_field_text (raw_field sample_raw_plan ''success_criteria'') = ''?''"
  "plan_field_text (raw_field sample_raw_plan ''falsification_condition'') = ''?''"
  "raw_field sample_raw_plan ''evidence_event_ids'' = PyNone"
  "raw_field sample_raw_plan ''method_card_ids'' = PyNone"
  "raw_field sample_raw_plan ''literature_evidence_ids'' = PyNone"
  "cost_field sample_raw_plan k = PyNone"
  by (simp_all add: sample_raw_plan_def raw_field_def cost_field_def py_strip_def py_isspace_def)

lemma sample_plan_eq: "sample_plan ch = (let p = \<lparr>rp_run_id = ''r'', rp_experiment_id = ''exp_001'',
      rp_parent_experiment_id = Some (case ch_parent ch of None \<Rightarrow> [] | Some n \<Rightarrow> nv_experiment_id n),
      rp_parent_commit_sha = (case ch_parent ch of None \<Rightarrow> [] | Some n \<Rightarrow> str_of_opt (nv_parent_commit_sha n)),
      rp_context_id = ''p1'', rp_hypothesis = ''?'', rp_family = str_of_opt (ch_family ch), rp_change_summary = ''?'',
      rp_expected_mechanism = ''?'', rp_success_criteria = ''?'', rp_falsification_condition = ''?'',
      rp_estimated_cost = \<lparr>ce_llm_tokens_upper_bound = 100, ce_wall_time_seconds_upper_bound = 600,
        ce_gpu_seconds_upper_bound = 0, ce_cost_tier = tier_of_text (ch_cost_tier ch)\<rparr>,
      rp_method_card_ids = plan_methods ch search_context [], rp_component_experiment_ids = ch_component_experiment_ids ch,
      rp_evidence_event_ids = [], rp_literature_evidence = [], rp_duplicate_key = ''k''\<rparr> in p)"
  by (simp add: sample_plan_def normalize_plan_def Let_def sample_fields nonnegative_int_def selected_literature_def
      compute_duplicate_key_def first_seen_def List.map_filter_simps)

lemma sample_text: "text_errors (sample_plan ch) = []" if "ch_component_experiment_ids ch = []"
proof -
  have "py_lower ''? ? ? ?'' = ''? ? ? ?''" by code_simp
  then have lowered: "plan_text (sample_plan ch) = ''? ? ? ?''" by (simp add: plan_text_def sample_plan_eq)
  have "\<not> contains_implementation_reference ''? ? ? ?''"
    unfolding contains_implementation_reference_def
    by (rule stuck_not_found [OF stuck_reference]) (simp add: id_char_def is_alnum_def is_digit_def)
  moreover have "\<not> list_ex (\<lambda>h. str_in h ''? ? ? ?'') HIDDEN_PATTERNS" by code_simp
  ultimately show ?thesis using that by (simp add: text_errors_def lowered granted_def) (simp add: sample_plan_eq)
qed

lemma search_card_map: "method_card_map search_context
   = [(''pairwise'', sample_card ''pairwise'' ''objective''), (''ranker'', sample_card ''ranker'' ''model'')]"
  by (simp add: method_card_map_def)

lemma sample_cost:
  assumes "plan_methods ch search_context [] = [] \<or> plan_methods ch search_context [] = [''pairwise''] \<and> ch_cost_tier ch = ''medium''"
  shows "cost_errors (sample_plan ch) search_context = []"
  using assms fl_mono [of 600 3600] fl_nonneg [of 600] fl_nonneg [of 100]
  by (auto simp: cost_errors_def Let_def budget_error_def float_of_int_def granted_def sample_plan_eq search_card_map)

lemma sample_ids:
  "missing_errors (sample_plan ch) = granted (blank (case ch_parent ch of None \<Rightarrow> [] | Some n \<Rightarrow> nv_experiment_id n)) [''MISSING_PARENT_EXPERIMENT_ID'']
     @ granted (blank (case ch_parent ch of None \<Rightarrow> [] | Some n \<Rightarrow> str_of_opt (nv_parent_commit_sha n))) [''MISSING_PARENT_COMMIT_SHA'']
     @ granted (blank (str_of_opt (ch_family ch))) [''MISSING_FAMILY'']"
  by (simp add: missing_errors_def sample_plan_eq blank_def py_strip_def py_isspace_def granted_def)

lemma sample_errors:
  assumes "ch_parent ch = Some child_node" and "ch_component_experiment_ids ch = []" and "str_of_opt (ch_family ch) \<in> {''objective'', ''ensemble''}"
    and "ch_phase ch \<noteq> ''refinement''" 
    and "plan_methods ch search_context [] = [] \<or> plan_methods ch search_context [] = [''pairwise''] \<and> ch_cost_tier ch = ''medium''"
  shows "contract_errors search_context = []" and "missing_errors (sample_plan ch) = []"
    and "identity_errors (sample_plan ch) search_context = []" and "parent_errors (sample_plan ch) search_context (Some ch) = []"
    and "evidence_errors (sample_plan ch) search_context = []" and "literature_errors (sample_plan ch) [] None = []"
    and "text_errors (sample_plan ch) = []" and "duplicate_errors (\<lambda>_. ''k'') (sample_plan ch) search_context (Some ch) None = []"
    and "cost_errors (sample_plan ch) search_context = []"
proof -
  show "contract_errors search_context = []"
    by (simp add: contract_errors_def granted_def hex64_def ZERO_SHA256_def is_lower_hex_def is_digit_def list_all_iff)
  show "missing_errors (sample_plan ch) = []"
    using assms(1,3) by (auto simp: sample_ids str_of_opt_def blank_def py_strip_def py_isspace_def granted_def sample_sha1_def numeral_eq_Suc split: option.splits)
  show "identity_errors (sample_plan ch) search_context = []"
    using assms(1) by (simp add: identity_errors_def sample_plan_eq granted_def ID_RE_def id_char_def is_alnum_def is_digit_def
      COMMIT_PATTERN_def sample_sha1_def str_of_opt_def is_lower_hex_def list_all_iff)
  show "parent_errors (sample_plan ch) search_context (Some ch) = []"
    using assms(1,4) by (simp add: parent_errors_def plan_parent_def sample_plan_eq search_graph granted_def str_of_opt_def)
  show "evidence_errors (sample_plan ch) search_context = []"
    by (simp add: evidence_errors_def granted_def sample_plan_eq)
  show "literature_errors (sample_plan ch) [] None = []"
    by (simp add: literature_errors_def known_literature_def sample_plan_eq granted_def)
  show "text_errors (sample_plan ch) = []" by (rule sample_text [OF assms(2)])
  show "duplicate_errors (\<lambda>_. ''k'') (sample_plan ch) search_context (Some ch) None = []"
    by (simp add: duplicate_errors_def granted_def sample_plan_eq compute_duplicate_key_def detector_contains_def seen_keys_def
      detector_of_def root_summary_def child_summary_def sample_summary_def)
  show "cost_errors (sample_plan ch) search_context = []" by (rule sample_cost [OF assms(5)])
qed

text \<open>The policy's own choice is planned at the first answer.\<close>

lemma sample_accepted:
  assumes "ch_parent ch = Some child_node" and "ch_component_experiment_ids ch = []" and "ch_family ch = Some ''objective''"
    and "ch_phase ch = ''depth''" and "ch_method_card_id ch = Some ''pairwise''" and "ch_cost_tier ch = ''medium''"
  shows "plan_errors (\<lambda>_. ''k'') (sample_plan ch) search_context
    \<lparr>vr_choice = Some ch, vr_detector = None, vr_literature = [], vr_literature_required = None\<rparr> = []"
proof -
  have methods: "plan_methods ch search_context [] = [''pairwise'']" using assms(5) by (simp add: plan_methods_def)
  have errors: "str_of_opt (ch_family ch) \<in> {''objective'', ''ensemble''}" "ch_phase ch \<noteq> ''refinement''"
    using assms(3,4) by (simp_all add: str_of_opt_def)
  note clean = sample_errors [OF assms(1,2) errors disjI2 [OF conjI [OF methods assms(6)]]]
  have "family_errors (sample_plan ch) search_context (Some ch) = []"
    using assms(1,3) by (simp add: family_errors_def sample_plan_eq granted_def str_of_opt_def)
  moreover have "component_errors (sample_plan ch) search_context (Some ch) = []"
    using assms(2,3) by (simp add: component_errors_def sample_plan_eq granted_def str_of_opt_def)
  moreover have "method_errors (sample_plan ch) search_context (Some ch) = []"
    using assms(3,5) methods
    by (simp add: method_errors_def sample_plan_eq granted_def str_of_opt_def search_card_map sorted_set_def)
  ultimately show ?thesis using clean by (simp add: plan_errors_None)
qed

text \<open>An ensemble without components and with no method card.\<close>

definition bare_ensemble :: policy_choice where
  "bare_ensemble = \<lparr>ch_action = ''propose'', ch_parent = Some child_node, ch_family = Some ''ensemble'', ch_cost_tier = ''low'',
     ch_phase = ''playbook'', ch_reason_code = ''TRUSTED_FULL_IMPROVEMENT'', ch_reason = ''r'', ch_method_card_id = None,
     ch_component_experiment_ids = []\<rparr>"

lemma bare_ensemble_errors: "plan_errors (\<lambda>_. ''k'') (sample_plan bare_ensemble) search_context
    \<lparr>vr_choice = Some bare_ensemble, vr_detector = None, vr_literature = [], vr_literature_required = None\<rparr>
   = [''ILLEGAL_EXPERIMENT_FAMILY'', ''ENSEMBLE_COMPONENT_REQUIRED'', ''METHOD_CARD_REQUIRED'']"
proof -
  have methods: "plan_methods bare_ensemble search_context [] = []" by (simp add: plan_methods_def bare_ensemble_def)
  note clean = sample_errors [of bare_ensemble, OF _ _ _ _ disjI1 [OF methods]]
  have "family_errors (sample_plan bare_ensemble) search_context (Some bare_ensemble) = [''ILLEGAL_EXPERIMENT_FAMILY'']"
    by (simp add: bare_ensemble_def family_errors_def sample_plan_eq granted_def str_of_opt_def)
  moreover have "component_errors (sample_plan bare_ensemble) search_context (Some bare_ensemble) = [''ENSEMBLE_COMPONENT_REQUIRED'']"
    by (simp add: bare_ensemble_def component_errors_def sample_plan_eq granted_def str_of_opt_def)
  moreover have "method_errors (sample_plan bare_ensemble) search_context (Some bare_ensemble) = [''METHOD_CARD_REQUIRED'']"
    using methods by (simp add: method_errors_def sample_plan_eq granted_def search_card_map sorted_set_def) (simp add: bare_ensemble_def)
  moreover have "ch_parent bare_ensemble = Some child_node" "ch_component_experiment_ids bare_ensemble = []"
    "str_of_opt (ch_family bare_ensemble) \<in> {''objective'', ''ensemble''}" "ch_phase bare_ensemble \<noteq> ''refinement''"
    by (simp_all add: bare_ensemble_def str_of_opt_def)
  ultimately show ?thesis using clean by (simp add: plan_errors_def first_seen_def)
qed

lemma sample_attempt: "attempt_plan sample_agent search_context ch ([], None) errors = Inr (sample_plan ch,
    plan_errors (\<lambda>_. ''k'') (sample_plan ch) search_context
      \<lparr>vr_choice = Some ch, vr_detector = None, vr_literature = [], vr_literature_required = None\<rparr>)"
  by (simp add: attempt_plan_def sample_agent_def sample_plan_def Let_def)

lemma sample_delta [simp]: "valid_resource_delta zero_delta"
  by (simp add: valid_resource_delta_def zero_delta_def nonneg_opt_def)

lemma sample_research: "research_for sample_agent c ch = Inr ([], None)"
  by (simp add: research_for_def sample_agent_def)

lemma bare_ensemble_planned: "\<exists>out. plan_choice sample_agent search_context bare_ensemble = Inr out"
proof -
  have "\<exists>out. planner_answer Planner_BLOCKED None ''INVALID_PROVIDER_PLAN''
      (''Provider proposal failed Person 1 plan validation: '' @ join_with '', ''
        [''ILLEGAL_EXPERIMENT_FAMILY'', ''ENSEMBLE_COMPONENT_REQUIRED'', ''METHOD_CARD_REQUIRED'']) [] = Inr out"
    by (simp add: planner_answer_def Let_def valid_planner_output_def nonempty_str_def py_strip_def py_isspace_def guarded_def)
  then obtain out where "planner_answer Planner_BLOCKED None ''INVALID_PROVIDER_PLAN''
      (''Provider proposal failed Person 1 plan validation: '' @ join_with '', ''
        [''ILLEGAL_EXPERIMENT_FAMILY'', ''ENSEMBLE_COMPONENT_REQUIRED'', ''METHOD_CARD_REQUIRED'']) [] = Inr out" by blast
  then show ?thesis
    by (simp add: plan_choice_def sample_research sample_attempt bare_ensemble_errors)
qed

lemma sample_ids_stripped: "nonempty_str (''Continue '' @ r @ ''.'')"
  by (rule nonempty_strI) (simp_all add: py_isspace_def)

lemma sample_proposed: "\<exists>out. propose sample_agent search_context = Inr out \<and> po_action out = Planner_PROPOSE"
proof -
  obtain ch r where ch: "choose_experiment first_policy search_context = Inr ch" "is_proposal ch"
      "ch_parent ch = Some child_node" "ch_family ch = Some ''objective''" "ch_phase ch = ''depth''"
      "ch_method_card_id ch = Some ''pairwise''" "ch_component_experiment_ids ch = []" "ch_cost_tier ch = ''medium''"
      "ch_reason_code ch = ''SCORE_GUIDED_DEPTH_FIRST''" "ch_reason ch = ''Continue '' @ r @ ''.''"
    using sample_choice by blast
  have advice: "ca_action (advise search_context) = ''propose''"
    by (simp add: advise_def Let_def)
  have "valid_research_proposal (sample_plan ch)"
    using ch nonempty_strI [of sample_sha1]
    by (simp add: sample_plan_eq plan_methods_def valid_research_proposal_def valid_id_def ID_RE_def id_char_def is_alnum_def
        is_digit_def nonempty_strI py_isspace_def valid_cost_estimate_def str_of_opt_def sample_sha1_def)
  then have "\<exists>out. planner_answer Planner_PROPOSE (Some (Proposal (sample_plan ch))) (ch_reason_code ch) (ch_reason ch) [] = Inr out"
    using sample_ids_stripped [of r] ch(9,10)
    by (simp add: planner_answer_def Let_def valid_planner_output_def guarded_def nonempty_strI py_isspace_def)
  then obtain out where out: "planner_answer Planner_PROPOSE (Some (Proposal (sample_plan ch))) (ch_reason_code ch) (ch_reason ch) [] = Inr out"
    by blast
  have "plan_choice sample_agent search_context ch = Inr (attach_usage sample_agent out)"
    using out sample_accepted [OF ch(3,7,4,5,6,8)] by (simp add: plan_choice_def sample_research sample_attempt)
  then have "propose sample_agent search_context = Inr (attach_usage sample_agent out)"
    using ch(1,2) advice by (simp add: propose_def propose_with_def Let_def sample_agent_def)
  moreover have "po_action out = Planner_PROPOSE"
    using out by (auto simp: planner_answer_def Let_def raise_simps)
  ultimately show ?thesis by (simp add: attach_usage_def)
qed

end
