(* ===== verification/Search_Properties.thy ===== *)
theory Search_Properties
  imports Search_Samples
begin

text \<open>
  What the search policy guarantees: legal proposals whatever the ranker does, and parallel lanes
  that never repeat a method.
\<close>

section \<open>Parallel lanes\<close>

definition lane_method :: "policy_choice \<Rightarrow> string" where
  "lane_method ch = str_of_opt (ch_method_card_id ch)"

definition scouts_for :: "planner_context \<Rightarrow> node_view \<Rightarrow> (string \<times> planner_method_card_summary) list \<Rightarrow> policy_choice \<Rightarrow> bool" where
  "scouts_for c n fms ch \<longleftrightarrow> (\<exists>(f, m) \<in> set fms. ch = scouting_choice n f m)
     \<and> lane_method ch \<noteq> [] \<and> lane_method ch \<notin> set (globally_attempted c)"

lemma lane_method_scouting [simp]: "lane_method (scouting_choice n f m) = pm_method_id m"
  by (simp add: lane_method_def str_of_opt_def scouting_choice_def propose_choice_def)

lemma scouting_lanes:
  "\<exists>scouts. fst (foldl (add_scout c n) (chs, selected) fms) = chs @ scouts
    \<and> set (snd (foldl (add_scout c n) (chs, selected) fms)) = set selected \<union> lane_method ` set scouts
    \<and> distinct (map lane_method scouts) \<and> lane_method ` set scouts \<inter> set selected = {}
    \<and> list_all (scouts_for c n fms) scouts"
proof (induction fms rule: rev_induct)
  case (snoc fm fms)
  obtain f m where fm: "fm = (f, m)" by fastforce
  let ?st = "foldl (add_scout c n) (chs, selected) fms"
  from snoc obtain scouts where ih: "fst ?st = chs @ scouts" "set (snd ?st) = set selected \<union> lane_method ` set scouts"
      "distinct (map lane_method scouts)" "lane_method ` set scouts \<inter> set selected = {}"
      "list_all (scouts_for c n fms) scouts" by blast
  have mono: "list_all (scouts_for c n (fms @ [fm])) scouts"
    using ih(5) by (auto simp: list_all_iff scouts_for_def)
  show ?case
  proof (cases "pm_method_id m = [] \<or> pm_method_id m \<in> set (globally_attempted c) \<or> pm_method_id m \<in> set (snd ?st)")
    case True
    then have "foldl (add_scout c n) (chs, selected) (fms @ [fm]) = ?st"
      using fm by (auto simp: add_scout_def split: prod.splits)
    with ih mono show ?thesis by auto
  next
    case False
    then have "foldl (add_scout c n) (chs, selected) (fms @ [fm])
        = (chs @ scouts @ [scouting_choice n f m], pm_method_id m # snd ?st)"
      using fm ih(1) by (auto simp: add_scout_def split: prod.splits)
    moreover have "scouts_for c n (fms @ [fm]) (scouting_choice n f m)"
      using False fm by (auto simp: scouts_for_def)
    ultimately show ?thesis using ih mono False
      by (intro exI [of _ "scouts @ [scouting_choice n f m]"]) auto
  qed
qed simp

lemma scouting_cards_legal:
  "(f, m) \<in> set (scouting_cards c allowed) \<Longrightarrow> f \<in> set allowed \<and> eligible_card c f m"
  by (auto simp: scouting_cards_def ordered_eligible_cards_def Let_def map_filter_in dest: eligible_by_idD split: if_splits)

lemma scout_legal:
  assumes "scouts_for c (best_parent (frontier_parents c)) (scouting_cards c (allowed_families c)) ch"
    and "frontier_parents c \<noteq> []"
  shows "legal_choice c ch"
proof -
  let ?n = "best_parent (frontier_parents c)"
  obtain f m where ch: "ch = scouting_choice ?n f m" "(f, m) \<in> set (scouting_cards c (allowed_families c))"
    using assms(1) by (auto simp: scouts_for_def)
  then have "pm_method_id m \<notin> set (globally_attempted c)" "pm_method_id m \<noteq> []"
    using assms(1) by (auto simp: scouts_for_def)
  then have "pm_method_id m \<notin> set (attempted_methods c (nv_experiment_id ?n))"
    by (auto simp: globally_attempted_def attempted_methods_def)
  then show ?thesis using scouting_cards_legal [OF ch(2)] assms(2)
    unfolding ch(1) scouting_choice_def by (intro legal_proposal) auto
qed

text \<open>
  C29: The search policy only proposes what is legal, whatever function ranks its candidates: a
  proposal branches from a verified, eligible parent of the frontier (or refines, once, the latest
  result that the controller put on the refinement list), in a family that the frozen contract
  allows, with a method card that is eligible for that family and that no informative attempt has
  used on that parent, except for the one reimplementation after a no-op; its cost tier is the
  card's, and only ensembles combine components, which are distinct and differ from the parent.
\<close>

theorem search_policy_legal:
  assumes "choose_experiment sp c = Inr ch" and "is_proposal ch"
  shows "\<exists>n f m. ch_parent ch = Some n \<and> ch_family ch = Some f \<and> ch_method_card_id ch = Some (pm_method_id m)
     \<and> (n \<in> set (frontier_parents c) \<and> is_parent_eligible n
        \<or> ch_phase ch = ''refinement'' \<and> nv_experiment_id n \<in> set (pcx_refinement_frontier_ids c)
          \<and> nv_summary n = last (pcx_family_history c))
     \<and> f \<in> set (pn_allowed_families (pcx_contract_summary c)) \<and> m \<in> set (pcx_method_cards c)
     \<and> method_card_reasons m c (Some f) = [] \<and> ch_cost_tier ch = cost_tier_value (pm_cost_tier m)
     \<and> (ch_phase ch = ''no_op_reimplementation'' \<or> pm_method_id m \<notin> set (attempted_methods c (nv_experiment_id n)))
     \<and> distinct (ch_component_experiment_ids ch) \<and> nv_experiment_id n \<notin> set (ch_component_experiment_ids ch)
     \<and> (ch_component_experiment_ids ch \<noteq> [] \<longrightarrow> f = ''ensemble'')"
proof -
  have "legal_choice c ch" using choose_answers [OF assms(1)] assms(2) by (simp add: answers_def)
  then obtain n f m where legal: "ch_parent ch = Some n" "ch_family ch = Some f"
      "ch_method_card_id ch = Some (pm_method_id m)" "ch_cost_tier ch = cost_tier_value (pm_cost_tier m)"
      "f \<in> set (allowed_families c)" "eligible_card c f m" "legal_parent c (ch_phase ch) n"
      "fresh_method c (ch_phase ch) n m" "legal_components f n (ch_component_experiment_ids ch)"
    by (auto simp: legal_choice_def)
  moreover have "n \<in> set (frontier_parents c) \<Longrightarrow> is_parent_eligible n"
    by (simp add: frontier_parents_def eligible_parents_def)
  ultimately show ?thesis
    by (intro exI [of _ n] exI [of _ f] exI [of _ m])
      (auto simp: allowed_families_def eligible_card_def legal_parent_def fresh_method_def legal_components_def
        dest: node_from_summaryD)
qed

theorem search_policy_legal_witness:
  "\<exists>ch n. choose_experiment first_policy search_context = Inr ch \<and> is_proposal ch \<and> ch_parent ch = Some n
     \<and> is_parent_eligible n \<and> ch_method_card_id ch \<in> {Some ''pairwise'', Some ''ranker''}"
proof -
  obtain ch where ch: "choose_experiment first_policy search_context = Inr ch" "is_proposal ch" "ch_phase ch = ''depth''"
    using sample_choice by blast
  show ?thesis using search_policy_legal [OF ch(1,2)] ch by auto
qed

section \<open>Progress\<close>

lemma eligible_by_id_has:
  assumes "eligible_card c f m"
  shows "dget (eligible_by_id c f) (pm_method_id m) \<noteq> None"
proof -
  have "m \<in> set ms \<Longrightarrow> dget (foldl (\<lambda>d m. dset (pm_method_id m) m d) [] ms) (pm_method_id m) \<noteq> None" for ms
    by (induction ms rule: rev_induct) auto
  then show ?thesis using assms by (simp add: eligible_by_id_def eligible_method_cards_def eligible_card_def)
qed

lemma set_remaining_keys: "set (remaining_keys d taken) = set (dkeys d) - set taken"
  by (auto simp: remaining_keys_def sorted_set_def)

lemma dget_dkeys: "dget d k \<noteq> None \<longleftrightarrow> k \<in> set (dkeys d)"
  by (auto simp: dkeys_def dget_None_keys)

lemma next_method_found:
  assumes "eligible_card c f m" and "f \<noteq> ''ensemble''" and "pm_method_id m \<noteq> residual_card"
    and "pm_method_id m \<notin> set attempted"
  shows "next_method c f attempted \<noteq> None"
proof -
  let ?e = "without_key residual_card (eligible_by_id c f)"
  have "dget ?e (pm_method_id m) \<noteq> None" using eligible_by_id_has [OF assms(1)] assms(3) by simp
  then have "pm_method_id m \<in> set (remaining_keys ?e attempted)"
    using assms(4) unfolding dget_dkeys set_remaining_keys by simp
  then obtain k ks where ks: "remaining_keys ?e attempted = k # ks" by (cases "remaining_keys ?e attempted") auto
  then have "k \<in> set (remaining_keys ?e attempted)" by simp
  then have "dget ?e k \<noteq> None" unfolding dget_dkeys set_remaining_keys by simp
  then show ?thesis using assms(2) ks
    by (auto simp: next_method_def Let_def split: option.splits dest!: first_such_SomeD)
qed

lemma map_filter_nonempty: "x \<in> set xs \<Longrightarrow> f x \<noteq> None \<Longrightarrow> List.map_filter f xs \<noteq> []"
  by (auto simp: List.map_filter_def filter_empty_conv)

lemma sort_key_Nil: "sort_key f xs = [] \<longleftrightarrow> xs = []"
  by (metis length_0_conv length_sort)

lemma depth_choices_found:
  assumes "f \<in> set allowed" and "f \<noteq> ''ensemble''" and "method_for_family c f None (nv_experiment_id n) False \<noteq> None"
  shows "depth_choices c eligible allowed n \<noteq> []"
  unfolding depth_choices_def Let_def sort_key_Nil by (rule map_filter_nonempty [OF assms(1)]) (use assms in auto)

lemma depth_choices_proposals: "ch \<in> set (depth_choices c eligible allowed n) \<Longrightarrow> is_proposal ch"
  by (auto simp: depth_choices_def Let_def map_filter_in is_proposal_def propose_choice_def member_ensemble_choice_def
      split: if_splits)

lemma first_depth_proposes:
  assumes "n \<in> set ns" and "depth_choices c (frontier_parents c) (allowed_families c) n \<noteq> []"
  shows "(\<exists>ch. first_depth sp c (frontier_parents c) (allowed_families c) ns = Inr ch \<and> is_proposal ch)
    \<or> (\<exists>n' \<in> set ns. \<exists>x. depth_choices c (frontier_parents c) (allowed_families c) n' \<noteq> []
        \<and> sp_ranker sp (depth_choices c (frontier_parents c) (allowed_families c) n') c = Inl x
        \<and> first_depth sp c (frontier_parents c) (allowed_families c) ns = Inl x)"
  using assms
proof (induction ns)
  case (Cons n' ns)
  show ?case
  proof (cases "depth_choices c (frontier_parents c) (allowed_families c) n'")
    case Nil
    then show ?thesis using Cons by auto
  next
    case ne: (Cons ch' chs)
    show ?thesis
    proof (cases "sp_ranker sp (ch' # chs) c")
      case (Inl x)
      then show ?thesis using ne by (simp add: rank_candidates_def)
    next
      case (Inr ch)
      then obtain ch'' where r: "rank_candidates sp (ch' # chs) c = Inr ch''" by (simp add: rank_candidates_def)
      have "is_proposal ch''" using rank_candidates_in [OF r] ne depth_choices_proposals by metis
      with r ne show ?thesis by simp
    qed
  qed
qed simp

text \<open>
  C30: The search makes progress: when the contract, the cards and the playbook are in order, the
  latest result asks for no route of its own, and some parent within the search's frontier limit
  still has an eligible method of an allowed family, other than an ensemble or the residual card, that no
  informative attempt has used on it, the policy answers with a proposal.  Nothing else can come of it but
  an exception of the ranker itself on the choices of some parent of the frontier.
\<close>

theorem search_makes_progress:
  assumes "n \<in> set (depth_first_frontier (graph_from_context c) (frontier_parents c) (sp_frontier_limit sp))"
    and "f \<in> set (allowed_families c)" and "f \<noteq> ''ensemble''"
    and "m \<in> set (pcx_method_cards c)" and "method_card_reasons m c (Some f) = []"
    and "pm_method_id m \<noteq> residual_card" and "pm_method_id m \<notin> set (attempted_methods c (nv_experiment_id n))"
    and "method_card_map c \<noteq> []" and "playbook_is_valid c"
    and "no_op_choices c (frontier_parents c) (allowed_families c) = None"
    and "playbook_choice c (frontier_parents c) (allowed_families c) = None"
  shows "(\<exists>ch. choose_experiment sp c = Inr ch \<and> is_proposal ch)
    \<or> (\<exists>n' \<in> set (frontier_parents c). \<exists>x. depth_choices c (frontier_parents c) (allowed_families c) n' \<noteq> []
        \<and> sp_ranker sp (depth_choices c (frontier_parents c) (allowed_families c) n') c = Inl x
        \<and> choose_experiment sp c = Inl x)"
proof -
  let ?ns = "depth_first_frontier (graph_from_context c) (frontier_parents c) (sp_frontier_limit sp)"
  have "frontier_parents c \<noteq> []" "allowed_families c \<noteq> []"
    using depth_first_frontier_in [OF assms(1)] assms(2) by auto
  then have choose: "choose_experiment sp c = first_depth sp c (frontier_parents c) (allowed_families c) ?ns"
    using assms(8-11) by (simp add: choose_experiment_def Let_def)
  have "method_for_family c f None (nv_experiment_id n) False \<noteq> None"
    using next_method_found [of c f m] assms(3-7) by (simp add: method_for_family_def eligible_card_def)
  then have "depth_choices c (frontier_parents c) (allowed_families c) n \<noteq> []"
    by (rule depth_choices_found [OF assms(2,3)])
  from first_depth_proposes [OF assms(1) this, of sp] show ?thesis
    unfolding choose using depth_first_frontier_in by blast
qed

text \<open>The policy with the ranker of the repository, which returns on the choices of the sample context.\<close>

definition production_policy :: search_policy where
  "production_policy = \<lparr>sp_frontier_limit = 2, sp_ranker = rank_choices default_ranker\<rparr>"

text \<open>Without results the ridge matrix is the identity, and so is every step of its inversion.\<close>

lemma identity_reduced: "k < 7 \<Longrightarrow> reduce_column (augmented (ridge_matrix 1 7)) k = Inr (augmented (ridge_matrix 1 7))"
proof -
  have one: "fl 1 = 1" by (simp add: fl_id)
  have small: "\<not> 1 < fl (1 / 1000000000000)" using fl_mono [of "1 / 1000000000000" 1] one by simp
  assume "k < 7"
  then consider "k = 0" | "k = 1" | "k = 2" | "k = 3" | "k = 4" | "k = 5" | "k = 6" by linarith
  then show ?thesis
    using small one
    by cases (simp_all add: augmented_def ridge_matrix_def upt_rec reduce_column_def pivot_row_def entry_def swap_rows_def
        eliminate_def fdiv_def)
qed

lemma identity_inverted: "returns (inverse_matrix (ridge_matrix 1 7))"
proof -
  have "list_all (\<lambda>k. k < 7) ks \<Longrightarrow> fold_res reduce_column (augmented (ridge_matrix 1 7)) ks = Inr (augmented (ridge_matrix 1 7))" for ks
    by (induction ks) (simp_all add: identity_reduced)
  then have "fold_res reduce_column (augmented (ridge_matrix 1 7)) [0..<7] = Inr (augmented (ridge_matrix 1 7))"
    by (simp add: list_all_iff)
  moreover have "length (ridge_matrix 1 7) = 7" by (simp add: ridge_matrix_def)
  ultimately show ?thesis by (simp add: inverse_matrix_def)
qed

lemma sample_ranked:
  assumes "n = root_node \<or> n = child_node"
  shows "\<exists>ch. rank_choices default_ranker
    (depth_choices search_context [root_node, child_node] [''objective'', ''model''] n) search_context = Inr ch"
proof -
  let ?chs = "depth_choices search_context [root_node, child_node] [''objective'', ''model''] n"
  have chs: "length ?chs = 2" "map ch_family ?chs = [Some ''objective'', Some ''model'']"
    using assms by (auto simp: depth_choices_def Let_def family_history_def index_in_def List.map_filter_simps
        propose_choice_def)
  then have "known_families ?chs [] = [''model'', ''objective'']"
    by (cases ?chs rule: list.exhaust; cases "tl ?chs")
      (auto simp: known_families_def str_of_opt_def sorted_set_def)
  moreover have "?chs \<noteq> []" using chs(1) by auto
  ultimately show ?thesis using identity_inverted
    by (auto simp: rank_choices_def Let_def default_ranker_def elim!: returnsE)
qed

theorem search_makes_progress_witness:
  "make_search_policy 2 None = Inr production_policy
    \<and> (\<exists>ch. choose_experiment production_policy search_context = Inr ch \<and> is_proposal ch)"
proof -
  have "(\<exists>ch. choose_experiment production_policy search_context = Inr ch \<and> is_proposal ch)
    \<or> (\<exists>n' \<in> set (frontier_parents search_context). \<exists>x.
        depth_choices search_context (frontier_parents search_context) (allowed_families search_context) n' \<noteq> []
        \<and> sp_ranker production_policy (depth_choices search_context (frontier_parents search_context)
            (allowed_families search_context) n') search_context = Inl x
        \<and> choose_experiment production_policy search_context = Inl x)"
    by (rule search_makes_progress [of child_node _ _ "''objective''" "sample_card ''pairwise'' ''objective''"])
      (simp_all add: production_policy_def)
  moreover have "make_search_policy 2 None = Inr production_policy"
    by (simp add: make_search_policy_def production_policy_def)
  ultimately show ?thesis using sample_ranked [of root_node] sample_ranked [of child_node]
    by (auto simp: production_policy_def)
qed

section \<open>Lanes\<close>

lemma scout_is_proposal: "scouts_for c n fms ch \<Longrightarrow> is_proposal ch"
  by (auto simp: scouts_for_def is_proposal_def scouting_choice_def propose_choice_def)

lemma legal_lane: "legal_choice c ch \<Longrightarrow> ch_method_card_id ch = Some (lane_method ch)"
  by (auto simp: legal_choice_def lane_method_def str_of_opt_def)

lemma parallel_choices_lanes:
  assumes "parallel_choices sp c = Inr chs"
  shows "distinct (map lane_method chs)"
    and "\<forall>ch \<in> set chs. is_proposal ch \<and> legal_choice c ch
      \<and> (choose_experiment sp c = Inr ch \<or> lane_method ch \<notin> set (globally_attempted c))"
proof -
  obtain primary where primary: "choose_experiment sp c = Inr primary"
    using assms by (auto simp: parallel_choices_def Let_def bind_res_Inr)
  let ?own = "if is_proposal primary then [primary] else []"
  let ?taken = "filter (\<lambda>m. m \<noteq> []) (List.map_filter ch_method_card_id ?own)"
  let ?n = "best_parent (frontier_parents c)" and ?cards = "scouting_cards c (allowed_families c)"
  have own: "distinct (map lane_method ?own)" "\<forall>ch \<in> set ?own. is_proposal ch \<and> legal_choice c ch \<and> choose_experiment sp c = Inr ch"
    using primary choose_answers [OF primary] by (auto simp: answers_def)
  have taken: "set ?taken = lane_method ` set ?own - {[]}"
  proof (cases "is_proposal primary")
    case True
    then have "legal_choice c primary" using choose_answers [OF primary] by (simp add: answers_def)
    then show ?thesis using True legal_lane [of c primary] by (auto simp: List.map_filter_def)
  qed (simp add: List.map_filter_def)
  have chs: "chs = (if frontier_parents c = [] \<or> allowed_families c = [] \<or> method_card_map c = [] then ?own
      else fst (foldl (add_scout c ?n) (?own, ?taken) ?cards))"
    using assms primary by (simp add: parallel_choices_def Let_def)
  obtain scouts where scouts: "fst (foldl (add_scout c ?n) (?own, ?taken) ?cards) = ?own @ scouts"
      "distinct (map lane_method scouts)" "lane_method ` set scouts \<inter> set ?taken = {}" "list_all (scouts_for c ?n ?cards) scouts"
    using scouting_lanes [of c ?n ?own ?taken ?cards] by blast
  have lanes: "lane_method ch \<noteq> [] \<and> lane_method ch \<notin> set (globally_attempted c) \<and> is_proposal ch" if "ch \<in> set scouts" for ch
  proof -
    have "scouts_for c ?n ?cards ch" using scouts(4) that by (simp add: list_all_iff)
    then show ?thesis using scout_is_proposal by (simp add: scouts_for_def) blast
  qed
  define mine where "mine = ?own"
  note own = own [folded mine_def] and chs = chs [folded mine_def] and scouts = scouts [folded mine_def]
    and taken = taken [folded mine_def]
  have "[] \<notin> lane_method ` set scouts" by (auto dest!: lanes)
  then have "lane_method ` set mine \<inter> lane_method ` set scouts = {}"
    using scouts(3) [unfolded taken] by (simp add: disjoint_iff) metis
  then have "distinct (map lane_method (mine @ scouts))" using own(1) scouts(2) by simp
  with own(1) show "distinct (map lane_method chs)" unfolding chs scouts(1) by simp
  show "\<forall>ch \<in> set chs. is_proposal ch \<and> legal_choice c ch
      \<and> (choose_experiment sp c = Inr ch \<or> lane_method ch \<notin> set (globally_attempted c))"
  proof (cases "frontier_parents c = []")
    case True
    with own(2) show ?thesis unfolding chs by simp
  next
    case False
    have "legal_choice c ch" if "ch \<in> set scouts" for ch
      using scouts(4) that scout_legal [OF _ False] by (auto simp: list_all_iff)
    moreover have "set chs \<subseteq> set mine \<union> set scouts" unfolding chs scouts(1) by auto
    ultimately show ?thesis using own(2) lanes by blast
  qed
qed

text \<open>
  C31: The lanes of a parallel round never repeat a method: exactly the first so many indices as the
  reported capacity have a lane, every lane is a proposal, two lanes of different index have different
  method cards, and every lane other than the policy's own choice tests a method that no experiment
  of the run has used.
\<close>

theorem parallel_lanes_distinct:
  assumes "parallel_direction_capacity sp c = Inr m"
  shows "(0 \<le> k \<and> k < n \<longrightarrow> ((\<exists>ch. choose_parallel_direction sp c k n = Inr ch) \<longleftrightarrow> nat k < m))
    \<and> (choose_parallel_direction sp c k n = Inr a \<longrightarrow> is_proposal a
        \<and> (choose_experiment sp c = Inr a \<or> lane_method a \<notin> set (globally_attempted c)))
    \<and> (choose_parallel_direction sp c k n = Inr a \<and> choose_parallel_direction sp c l n = Inr b \<and> k \<noteq> l
        \<longrightarrow> lane_method a \<noteq> lane_method b)"
proof -
  obtain chs where chs: "parallel_choices sp c = Inr chs" "m = length chs"
    using assms by (auto simp: parallel_direction_capacity_def bind_res_Inr)
  have lane: "choose_parallel_direction sp c k n = Inr a \<longleftrightarrow> 0 \<le> k \<and> k < n \<and> nat k < m \<and> a = chs ! nat k" for k a
    by (auto simp: choose_parallel_direction_def chs raise_simps)
  note lanes = parallel_choices_lanes [OF chs(1)]
  show ?thesis
  proof (intro conjI impI)
    assume "0 \<le> k \<and> k < n"
    then show "(\<exists>ch. choose_parallel_direction sp c k n = Inr ch) \<longleftrightarrow> nat k < m" by (simp add: lane)
  next
    assume "choose_parallel_direction sp c k n = Inr a"
    then have "a \<in> set chs" using chs(2) by (auto simp: lane)
    with lanes(2) show "is_proposal a" "choose_experiment sp c = Inr a \<or> lane_method a \<notin> set (globally_attempted c)"
      by blast+
  next
    assume two: "choose_parallel_direction sp c k n = Inr a \<and> choose_parallel_direction sp c l n = Inr b \<and> k \<noteq> l"
    then have "nat k \<noteq> nat l" "nat k < length (map lane_method chs)" "nat l < length (map lane_method chs)"
      "a = chs ! nat k" "b = chs ! nat l" using chs(2) by (auto simp: lane)
    then show "lane_method a \<noteq> lane_method b" using nth_eq_iff_index_eq [OF lanes(1)] by simp
  qed
qed

theorem parallel_lanes_distinct_witness:
  "\<exists>a b. choose_parallel_direction first_policy search_context 0 2 = Inr a
     \<and> choose_parallel_direction first_policy search_context 1 2 = Inr b \<and> lane_method a \<noteq> lane_method b"
proof -
  obtain ch where ch: "choose_experiment first_policy search_context = Inr ch" "is_proposal ch"
      "ch_method_card_id ch = Some ''pairwise''" using sample_choice by blast
  have "scouting_cards search_context [''objective'', ''model'']
      = [(''objective'', sample_card ''pairwise'' ''objective''), (''model'', sample_card ''ranker'' ''model'')]"
    by (simp add: scouting_cards_def ordered_eligible_cards_def Let_def search_by_id search_orders first_seen_def
        remaining_keys_def sorted_set_def dkeys_def List.map_filter_simps)
  then have "parallel_choices first_policy search_context
      = Inr [ch, scouting_choice (best_parent [root_node, child_node]) ''model'' (sample_card ''ranker'' ''model'')]"
    using ch by (simp add: parallel_choices_def Let_def add_scout_def globally_attempted_def List.map_filter_simps)
  then have "parallel_direction_capacity first_policy search_context = Inr 2"
    by (simp add: parallel_direction_capacity_def)
  note lanes = parallel_lanes_distinct [OF this]
  obtain a b where "choose_parallel_direction first_policy search_context 0 2 = Inr a"
      "choose_parallel_direction first_policy search_context 1 2 = Inr b"
    using lanes [THEN conjunct1, of 0 2] lanes [THEN conjunct1, of 1 2] by auto
  then show ?thesis using lanes [of 0 2 a 1 b] by auto
qed

section \<open>The ancestors\<close>

text \<open>
  The climb to a node's ancestors ends on every graph, also on one whose parents form a cycle:
  the list has no node twice, only nodes of the graph, so at most as many as the graph has, and
  climbing from any node of a context's graph starts with its parent when the graph has it.
\<close>

theorem ancestors_bounded:
  "distinct (map nv_experiment_id (ancestors_of (graph_from_context c) i))
   \<and> set (ancestors_of (graph_from_context c) i) \<subseteq> set (dvalues (graph_from_context c))
   \<and> length (ancestors_of (graph_from_context c) i) \<le> length (graph_from_context c)
   \<and> (\<forall>n p q. dget (graph_from_context c) i = Some n \<and> nv_parent_experiment_id n = Some p
        \<and> dget (graph_from_context c) p = Some q \<longrightarrow> hd (ancestors_of (graph_from_context c) i) = q)"
proof -
  let ?g = "graph_from_context c"
  have keys: "\<forall>(i, n) \<in> set ?g. nv_experiment_id n = i" using graph_from_context_ok(2) by blast
  have climb: "distinct (map nv_experiment_id (ancestors_of ?g i))
      \<and> set (map nv_experiment_id (ancestors_of ?g i)) \<subseteq> set (dkeys ?g) \<and> set (ancestors_of ?g i) \<subseteq> set (dvalues ?g)"
    using climb_keys [OF keys, of "[]"] by (auto simp: ancestors_of_def split: option.splits)
  then have "card (set (map nv_experiment_id (ancestors_of ?g i))) \<le> card (set (dkeys ?g))" by (intro card_mono) auto
  moreover have "card (set (dkeys ?g)) \<le> length ?g" using card_length [of "dkeys ?g"] by (simp add: dkeys_def)
  ultimately have "length (ancestors_of ?g i) \<le> length ?g" using climb by (metis distinct_card length_map le_trans)
  moreover have "hd (ancestors_of ?g i) = q"
    if "dget ?g i = Some n" "nv_parent_experiment_id n = Some p" "dget ?g p = Some q" for n p q
    using that graph_from_context_ok(2) [OF map_of_SomeD [OF that(3)]]
    by (simp add: ancestors_of_def climb.simps [of _ _ n])
  ultimately show ?thesis using climb by blast
qed

theorem ancestors_bounded_witness:
  "hd (ancestors_of (graph_from_context search_context) ''x1'') = root_node"
proof -
  have "dget (graph_from_context search_context) ''x1'' = Some child_node
      \<and> nv_parent_experiment_id child_node = Some ''baseline''
      \<and> dget (graph_from_context search_context) ''baseline'' = Some root_node"
    by (simp add: search_graph)
  then show ?thesis using ancestors_bounded [of search_context "''x1''"] by blast
qed

end
