(* ===== verification/Planner_Properties.thy ===== *)
theory Planner_Properties
  imports Planner_Samples Search_Properties
begin

text \<open>
  The policy, the provider's normalization and the validator together: what the normalized plan of
  a policy choice can be rejected for, and what every planner output satisfies.
\<close>

section \<open>The normalized plan of a choice\<close>

lemma normalize_plan_fields [simp]:
  "rp_run_id (normalize_plan sha k c ch found raw) = cx_run_id c"
  "rp_context_id (normalize_plan sha k c ch found raw) = cx_context_id c"
  "rp_parent_experiment_id (normalize_plan sha k c ch found raw)
     = Some (case ch_parent ch of None \<Rightarrow> [] | Some n \<Rightarrow> nv_experiment_id n)"
  "rp_parent_commit_sha (normalize_plan sha k c ch found raw)
     = (case ch_parent ch of None \<Rightarrow> [] | Some n \<Rightarrow> str_of_opt (nv_parent_commit_sha n))"
  "rp_family (normalize_plan sha k c ch found raw) = str_of_opt (ch_family ch)"
  "rp_component_experiment_ids (normalize_plan sha k c ch found raw) = ch_component_experiment_ids ch"
  "rp_method_card_ids (normalize_plan sha k c ch found raw)
     = plan_methods ch c (text_items (raw_field raw ''method_card_ids''))"
  by (simp_all add: normalize_plan_def Let_def)

lemma granted_Nil [simp]: "granted b [x] = [] \<longleftrightarrow> \<not> b"
  by (simp add: granted_def)

lemma in_granted: "y \<in> set (granted b [x]) \<longleftrightarrow> b \<and> y = x"
  by (cases b) (simp_all add: granted_def)

lemma str_of_opt_Some [simp]: "str_of_opt (Some s) = s"
  by (simp add: str_of_opt_def)

lemma frontier_in_graph:
  assumes "n \<in> set (frontier_parents c)"
  shows "dget (graph_from_context c) (nv_experiment_id n) = Some n" and "nv_experiment_id n \<noteq> []"
    and "is_parent_eligible n"
proof -
  obtain i where "(i, n) \<in> set (graph_from_context c)" "is_parent_eligible n"
    using assms by (auto simp: frontier_parents_def eligible_parents_def dvalues_def)
  then show "dget (graph_from_context c) (nv_experiment_id n) = Some n" "nv_experiment_id n \<noteq> []" "is_parent_eligible n"
    using graph_from_context_ok(1) [of c] graph_from_context_ok(2) [of _ _ c]
    by (auto simp: dict_ok_def dkeys_def)
qed

lemma card_in_map:
  assumes "distinct (map pm_method_id (pcx_method_cards c))" and "m \<in> set (pcx_method_cards c)" and "pm_method_id m \<noteq> []"
  shows "dget (method_card_map c) (pm_method_id m) = Some m"
proof -
  have "m \<in> set ms \<Longrightarrow> distinct (map pm_method_id ms)
      \<Longrightarrow> dget (foldl (\<lambda>d m. if pm_method_id m = [] then d else dset (pm_method_id m) m d) [] ms) (pm_method_id m) = Some m" for ms
    using assms(3) by (induction ms rule: rev_induct) (auto simp: image_iff)
  then show ?thesis using assms by (simp add: method_card_map_def)
qed

lemma history_last:
  assumes "xs \<noteq> []" and "px_experiment_id (last xs) \<noteq> []"
  shows "dget (history_by_id xs) (px_experiment_id (last xs)) = Some (last xs)"
  using assms by (cases xs rule: rev_cases) (simp_all add: history_by_id_def)

text \<open>A choice of the refinement phase may continue the latest result, which need not be in the frontier.\<close>

lemma refined_parent_errors:
  assumes "ch_parent ch = Some n" and "ch_phase ch = ''refinement''"
    and "nv_experiment_id n \<in> set (pcx_refinement_frontier_ids c)" and "pcx_family_history c \<noteq> []"
    and "node_from_summary (last (pcx_family_history c)) = Some n"
    and p_def: "p = normalize_plan sha k c ch found raw"
  shows "case dget (graph_from_context c) (nv_experiment_id n) of
      Some n' \<Rightarrow> set (parent_errors p c (Some ch)) \<subseteq> {''INELIGIBLE_REFINEMENT_PARENT'', ''PARENT_COMMIT_MISMATCH''}
    | None \<Rightarrow> parent_errors p c (Some ch)
        = (if se_refinement_eligible (classify_search_eligibility (last (pcx_family_history c)) c)
           then [] else [''UNKNOWN_PARENT''])"
proof -
  have id: "nv_experiment_id n = px_experiment_id (last (pcx_family_history c))" "nv_experiment_id n \<noteq> []"
    using node_from_summaryD [OF assms(5)] by simp_all
  have plan: "plan_parent p c (Some ch) = (case dget (graph_from_context c) (nv_experiment_id n) of Some n' \<Rightarrow> Some n'
      | None \<Rightarrow> Option.bind (refinement_summary c (nv_experiment_id n)) node_from_summary)"
    using assms(1,2) id(2) by (cases "nv_experiment_id n") (simp_all add: p_def plan_parent_def choice_phase_def split: option.split)
  have summary: "refinement_summary c (nv_experiment_id n)
      = (if se_refinement_eligible (classify_search_eligibility (last (pcx_family_history c)) c)
         then Some (last (pcx_family_history c)) else None)"
    using history_last [OF assms(4)] id assms(3)
    by (simp add: refinement_summary_def authorized_history_def)
  have commit: "rp_parent_commit_sha p = str_of_opt (nv_parent_commit_sha n)" using assms(1) by (simp add: p_def)
  show ?thesis
  proof (cases "dget (graph_from_context c) (nv_experiment_id n)")
    case None
    then show ?thesis using plan summary assms(2,5) commit
      by (auto simp: parent_errors_def choice_phase_def str_of_opt_def split: option.splits)
  next
    case (Some n')
    then show ?thesis using plan assms(2)
      by (auto simp: parent_errors_def choice_phase_def granted_def split: if_splits)
  qed
qed

lemma legal_parent_errors:
  assumes "ch_parent ch = Some n" and "legal_parent c (ch_phase ch) n"
    and p_def: "p = normalize_plan sha k c ch found raw"
  shows "case dget (graph_from_context c) (nv_experiment_id n) of
       Some n' \<Rightarrow> set (parent_errors p c (Some ch)) \<subseteq> (if ch_phase ch = ''refinement''
         then {''INELIGIBLE_REFINEMENT_PARENT'', ''PARENT_COMMIT_MISMATCH''} else {})
     | None \<Rightarrow> ch_phase ch = ''refinement'' \<and> parent_errors p c (Some ch)
         = (if se_refinement_eligible (classify_search_eligibility (last (pcx_family_history c)) c)
            then [] else [''UNKNOWN_PARENT''])"
proof (cases "n \<in> set (frontier_parents c)")
  case True
  then have "plan_parent p c (Some ch) = Some n" using frontier_in_graph [OF True] assms(1)
    by (auto simp: p_def plan_parent_def split: list.splits)
  then have "parent_errors p c (Some ch) = []" using frontier_in_graph(3) [OF True] assms(1)
    by (auto simp: p_def parent_errors_def granted_def str_of_opt_def split: option.splits)
  then show ?thesis using frontier_in_graph(1) [OF True] by simp
next
  case False
  with assms(2) have refines: "ch_phase ch = ''refinement''" "nv_experiment_id n \<in> set (pcx_refinement_frontier_ids c)"
      "pcx_family_history c \<noteq> []" "node_from_summary (last (pcx_family_history c)) = Some n"
    unfolding legal_parent_def by blast+
  from refined_parent_errors [OF assms(1) refines p_def]
  show ?thesis by (cases "dget (graph_from_context c) (nv_experiment_id n)") (simp_all add: refines(1))
qed

lemma legal_component_errors:
  assumes "ch_parent ch = Some n" and "ch_family ch = Some f"
    and "legal_components f n (ch_component_experiment_ids ch)" and p_def: "p = normalize_plan sha k c ch found raw"
  shows "if ch_family ch = Some ''ensemble''
      then set (component_errors p c (Some ch)) \<subseteq> {''ENSEMBLE_COMPONENT_REQUIRED'',
          ''INVALID_COMPONENT_EXPERIMENT_ID'', ''UNKNOWN_COMPONENT_EXPERIMENT'', ''INELIGIBLE_ENSEMBLE_COMPONENT''}
        \<and> (''ENSEMBLE_COMPONENT_REQUIRED'' \<in> set (component_errors p c (Some ch))
           \<longleftrightarrow> ch_component_experiment_ids ch = [])
      else component_errors p c (Some ch) = []"
  using assms(1-3) unfolding p_def
  by (auto simp: component_errors_def component_error_def legal_components_def Let_def in_granted
      split: if_splits option.splits)

text \<open>
  C32: What the validator can reject the normalized plan of a policy choice for, whatever the model
  answers.  Its family and its method card never; of the family checks only missing contract data
  remains.  Its parent never, unless the choice refines the latest result: outside the frontier that is
  rejected exactly when the portfolio classification does not call the result refinable, and inside it only
  as ineligible or for its commit.  Components of another family than ensembles never; those of an ensemble
  only for being absent, which happens exactly when the policy named none, for the form of an identifier or
  for a member that is unknown or ineligible.  The method cards of the context must have distinct, nonempty
  identifiers.
\<close>

theorem policy_choice_passes_policy_checks:
  assumes "choose_experiment sp c = Inr ch" and "is_proposal ch"
    and "distinct (map pm_method_id (pcx_method_cards c))" and "[] \<notin> pm_method_id ` set (pcx_method_cards c)"
  shows "\<exists>n. ch_parent ch = Some n \<and> (let p = normalize_plan sha k c ch found raw in
      family_errors p c (Some ch) = (if pn_allowed_data (pcx_contract_summary c) = [] then [''CONTRACT_ALLOWED_DATA_MISSING''] else [])
      \<and> method_errors p c (Some ch) = []
      \<and> (case dget (graph_from_context c) (nv_experiment_id n) of
           Some n' \<Rightarrow> set (parent_errors p c (Some ch)) \<subseteq> (if ch_phase ch = ''refinement''
             then {''INELIGIBLE_REFINEMENT_PARENT'', ''PARENT_COMMIT_MISMATCH''} else {})
         | None \<Rightarrow> ch_phase ch = ''refinement'' \<and> parent_errors p c (Some ch)
             = (if se_refinement_eligible (classify_search_eligibility (last (pcx_family_history c)) c)
                then [] else [''UNKNOWN_PARENT'']))
      \<and> (if ch_family ch = Some ''ensemble''
         then set (component_errors p c (Some ch)) \<subseteq> {''ENSEMBLE_COMPONENT_REQUIRED'',
             ''INVALID_COMPONENT_EXPERIMENT_ID'', ''UNKNOWN_COMPONENT_EXPERIMENT'', ''INELIGIBLE_ENSEMBLE_COMPONENT''}
           \<and> (''ENSEMBLE_COMPONENT_REQUIRED'' \<in> set (component_errors p c (Some ch))
              \<longleftrightarrow> ch_component_experiment_ids ch = [])
         else component_errors p c (Some ch) = []))"
proof -
  let ?p = "normalize_plan sha k c ch found raw"
  have "legal_choice c ch" using choose_answers [OF assms(1)] assms(2) by (simp add: answers_def)
  then obtain n f m where legal: "ch_parent ch = Some n" "ch_family ch = Some f"
      "ch_method_card_id ch = Some (pm_method_id m)" "f \<in> set (allowed_families c)" "eligible_card c f m"
      "legal_parent c (ch_phase ch) n" "legal_components f n (ch_component_experiment_ids ch)"
    by (auto simp: legal_choice_def)
  have family: "f \<in> set (pn_allowed_families (pcx_contract_summary c))" using legal(4) by (auto simp: allowed_families_def)
  have card: "m \<in> set (pcx_method_cards c)" "method_card_reasons m c (Some f) = []" "pm_method_id m \<noteq> []"
    using legal(5) assms(4) by (simp_all add: eligible_card_def image_iff) metis
  have methods: "rp_method_card_ids ?p = [pm_method_id m]"
    using legal(3) card(3) by (auto simp: plan_methods_def split: list.splits)
  have 1: "family_errors ?p c (Some ch) = granted (pn_allowed_data (pcx_contract_summary c) = []) [''CONTRACT_ALLOWED_DATA_MISSING'']"
    using family legal by (auto simp: family_errors_def granted_def)
  have map: "dget (method_card_map c) (pm_method_id m) = Some m" by (rule card_in_map [OF assms(3) card(1,3)])
  then have "method_card_map c \<noteq> []" by auto
  then have 2: "method_errors ?p c (Some ch) = []"
    using map methods card legal by (simp add: method_errors_def granted_def sorted_set_def)
  note 3 = legal_parent_errors [OF legal(1,6) refl, where sha = sha and k = k and found = found and raw = raw]
  note 4 = legal_component_errors [OF legal(1,2,7) refl, where sha = sha and k = k and found = found and raw = raw]
  show ?thesis using legal(1) 1 2 3 4 by (simp add: Let_def granted_def)
qed

theorem policy_choice_passes_policy_checks_witness:
  "\<exists>ch. choose_experiment first_policy search_context = Inr ch \<and> is_proposal ch
     \<and> method_errors (normalize_plan (\<lambda>_. ''k'') 100 search_context ch [] sample_raw_plan) search_context (Some ch) = []
     \<and> parent_errors (normalize_plan (\<lambda>_. ''k'') 100 search_context ch [] sample_raw_plan) search_context (Some ch) = []
     \<and> component_errors (normalize_plan (\<lambda>_. ''k'') 100 search_context ch [] sample_raw_plan) search_context (Some ch) = []"
proof -
  obtain ch where ch: "choose_experiment first_policy search_context = Inr ch" "is_proposal ch" "ch_phase ch = ''depth''"
      "ch_parent ch = Some child_node" "ch_family ch = Some ''objective''"
    using sample_choice by blast
  have "distinct (map pm_method_id (pcx_method_cards search_context))" "[] \<notin> pm_method_id ` set (pcx_method_cards search_context)"
    by simp_all
  from policy_choice_passes_policy_checks [OF ch(1,2) this, of "\<lambda>_. ''k''" 100 "[]" sample_raw_plan] ch
  show ?thesis by (auto simp: Let_def split: option.splits)
qed

section \<open>The outputs of the planner\<close>

text \<open>What an output of the planning of a choice says about the last answer of the provider.\<close>

definition planned :: "policy_choice \<Rightarrow> planner_output \<Rightarrow> research_proposal \<Rightarrow> string list \<Rightarrow> bool" where
  "planned ch out p errors \<longleftrightarrow>
     (if errors = [] then po_action out = Planner_PROPOSE \<and> po_spec out = Some (Proposal p) \<and> po_reason_code out = ch_reason_code ch
      else po_action out = Planner_BLOCKED \<and> po_spec out = None \<and> po_reason_code out = ''INVALID_PROVIDER_PLAN'')"

lemma planner_answerD:
  "planner_answer action spec code reason ids = Inr out
    \<Longrightarrow> po_action out = action \<and> po_spec out = spec \<and> po_reason_code out = code"
  by (auto simp: planner_answer_def Let_def raise_simps)

lemma attach_usage_fields [simp]:
  "po_action (attach_usage a out) = po_action out" "po_spec (attach_usage a out) = po_spec out"
  "po_reason_code (attach_usage a out) = po_reason_code out"
  by (simp_all add: attach_usage_def)

lemma plan_choiceD:
  assumes "plan_choice a c ch = Inr out"
  shows "\<exists>found errors p es. attempt_plan a c ch found errors = Inr (p, es) \<and> planned ch out p es"
proof -
  obtain found first final out' where "attempt_plan a c ch found [] = Inr first"
      and final: "(if snd first = [] then Inr first else attempt_plan a c ch found (snd first)) = Inr final"
      and out: "(if snd final = []
        then planner_answer Planner_PROPOSE (Some (Proposal (fst final))) (ch_reason_code ch) (ch_reason ch)
          (cx_source_event_ids c)
        else planner_answer Planner_BLOCKED None ''INVALID_PROVIDER_PLAN''
          (''Provider proposal failed Person 1 plan validation: '' @ join_with '', '' (snd final))
          (cx_source_event_ids c)) = Inr out'" "out = attach_usage a out'"
    using assms by (auto simp: plan_choice_def bind_res_Inr)
  then obtain errors where "attempt_plan a c ch found errors = Inr (fst final, snd final)"
    by (cases "snd first = []") auto
  moreover have "planned ch out (fst final) (snd final)"
    using out by (auto simp: planned_def dest!: planner_answerD split: if_splits)
  ultimately show ?thesis by blast
qed

lemma attempt_planD:
  assumes "attempt_plan a c ch found errors = Inr (p, es)"
  obtains raw where "p = normalize_plan (pa_sha a) (pa_max_output a) c ch (fst found) raw"
    and "es = plan_errors (pa_sha a) p c \<lparr>vr_choice = Some ch, vr_detector = None,
      vr_literature = fst found, vr_literature_required = snd found\<rparr>"
  using assms unfolding attempt_plan_def Let_def bind_res_Inr by blast

lemma blank_Nil [simp]: "blank []"
  by (simp add: blank_def py_strip_def)

text \<open>
  C33: An ensemble that the policy proposes without components cannot be planned: whatever the model
  answers, also after the repair, the planner's output is the blocked one of an invalid provider
  plan.
\<close>

theorem ensemble_without_components_blocked:
  assumes "ch_family ch = Some ''ensemble''" and "ch_component_experiment_ids ch = []" and "plan_choice a c ch = Inr out"
  shows "po_action out = Planner_BLOCKED \<and> po_reason_code out = ''INVALID_PROVIDER_PLAN'' \<and> po_spec out = None"
proof -
  have rejected: "es \<noteq> []" if attempt: "attempt_plan a c ch found errors = Inr (p, es)" for found errors p es
  proof -
    obtain raw where raw: "p = normalize_plan (pa_sha a) (pa_max_output a) c ch (fst found) raw"
        "es = plan_errors (pa_sha a) p c \<lparr>vr_choice = Some ch, vr_detector = None,
          vr_literature = fst found, vr_literature_required = snd found\<rparr>"
      using attempt_planD [OF attempt] by blast
    then have "component_errors p c (Some ch) \<noteq> []" using assms(1,2) by (simp add: component_errors_def Let_def)
    with raw(2) show ?thesis by (auto simp: plan_errors_None)
  qed
  obtain found errors p es where "attempt_plan a c ch found errors = Inr (p, es)" "planned ch out p es"
    using plan_choiceD [OF assms(3)] by blast
  with rejected show ?thesis by (auto simp: planned_def)
qed

theorem ensemble_without_components_blocked_witness:
  "\<exists>out. plan_choice sample_agent search_context bare_ensemble = Inr out \<and> po_action out = Planner_BLOCKED"
proof -
  obtain out where "plan_choice sample_agent search_context bare_ensemble = Inr out" using bare_ensemble_planned by blast
  moreover have "ch_family bare_ensemble = Some ''ensemble''" "ch_component_experiment_ids bare_ensemble = []"
    by (simp_all add: bare_ensemble_def)
  ultimately show ?thesis using ensemble_without_components_blocked by metis
qed










end
