(* ===== verification/Duplicate_Properties.thy ===== *)
theory Duplicate_Properties
  imports Planner_Properties "HOL-Library.Multiset"
begin

text \<open>
  What the duplicate key of a proposal stands for: its parent, its family and its method cards and
  components as multisets, all up to the normalization of texts.
\<close>

section \<open>Normalized texts in JSON\<close>

definition key_text :: "string \<Rightarrow> bool" where
  "key_text s \<longleftrightarrow> list_all key_char s"

lemma key_text_normalized [simp]: "key_text (normalize_key_text s)"
  by (simp add: key_text_def normalize_key_text_def list_all_iff)

lemma key_char_code:
  assumes "key_char c"
  shows "(of_char c :: nat) \<in> {32, 45, 46, 47, 58, 95} \<union> {97..122} \<union> {48..57}"
  using assms by (auto simp: key_char_def char_range_def is_digit_def)

lemma key_char_plain:
  assumes "key_char c"
  shows "c \<noteq> CHR 0x22" and "c \<noteq> CHR 0x27" and "json_char True c = [c]" and "repr_char CHR 0x27 c = [c]"
proof -
  show quotes: "c \<noteq> CHR 0x22" "c \<noteq> CHR 0x27" using key_char_code [OF assms] by auto
  show "json_char True c = [c]" using key_char_code [OF assms] by (auto simp: json_char_def Let_def)
  show "repr_char CHR 0x27 c = [c]" using key_char_code [OF assms] quotes by (auto simp: repr_char_def Let_def)
qed

lemma key_text_plain:
  assumes "key_text s"
  shows "json_str True s = CHR 0x22 # s @ [CHR 0x22]" and "str_repr s = CHR 0x27 # s @ [CHR 0x27]"
    and "CHR 0x22 \<notin> set s"
proof -
  have plain: "\<forall>c \<in> set s. json_char True c = [c] \<and> repr_char CHR 0x27 c = [c] \<and> c \<noteq> CHR 0x22 \<and> c \<noteq> CHR 0x27"
    using assms key_char_plain by (auto simp: key_text_def list_all_iff)
  then have "concat (map (json_char True) s) = s" "concat (map (repr_char CHR 0x27) s) = s"
    by (induction s) auto
  with plain show "json_str True s = CHR 0x22 # s @ [CHR 0x22]" "str_repr s = CHR 0x27 # s @ [CHR 0x27]" "CHR 0x22 \<notin> set s"
    by (auto simp: json_str_def str_repr_def Let_def)
qed

lemma quoted_split:
  assumes "CHR 0x22 \<notin> set s" and "CHR 0x22 \<notin> set t" and "s @ CHR 0x22 # r = t @ CHR 0x22 # u"
  shows "s = t \<and> r = u"
  using assms
proof (induction s arbitrary: t)
  case Nil
  then show ?case by (cases t) auto
next
  case (Cons a s)
  then show ?case by (cases t) auto
qed

lemma json_text_split:
  assumes "key_text s" and "key_text t" and "json_str True s @ r = json_str True t @ u"
  shows "s = t \<and> r = u"
  using assms(3) quoted_split [OF key_text_plain(3) key_text_plain(3), OF assms(1,2), of r u]
  by (simp add: key_text_plain(1) assms(1,2))

text \<open>What follows an element of a rendered list.\<close>

definition list_rest :: "string list \<Rightarrow> string \<Rightarrow> string" where
  "list_rest ss r = (if ss = [] then '']'' @ r else CHR '','' # comma_join (map (json_str True) ss) @ '']'' @ r)"

lemma comma_join_Cons: "comma_join (map (json_str True) (s # ss)) @ '']'' @ r = json_str True s @ list_rest ss r"
  by (cases ss) (simp_all add: list_rest_def comma_join_def)

lemma json_texts_split:
  assumes "list_all key_text ss" and "list_all key_text ts"
    and "comma_join (map (json_str True) ss) @ '']'' @ r = comma_join (map (json_str True) ts) @ '']'' @ u"
  shows "ss = ts \<and> r = u"
  using assms
proof (induction ss arbitrary: ts)
  case Nil
  show ?case
  proof (cases ts)
    case (Cons t ts')
    have "'']'' @ r = json_str True t @ list_rest ts' u"
      using Nil.prems(3) unfolding Cons comma_join_Cons by (simp add: comma_join_def)
    then show ?thesis by (simp add: json_str_def)
  qed (use Nil in \<open>simp add: comma_join_def\<close>)
next
  case (Cons s ss)
  note eq = Cons.prems(3) [unfolded comma_join_Cons]
  show ?case
  proof (cases ts)
    case Nil
    with eq show ?thesis by (simp add: comma_join_def json_str_def)
  next
    case ts: (Cons t ts')
    have "s = t \<and> list_rest ss r = list_rest ts' u"
      using Cons.prems(1,2) ts by (intro json_text_split eq [unfolded ts comma_join_Cons]) simp_all
    then show ?thesis using Cons.IH [of ts'] Cons.prems(1,2) ts
      by (cases ss; cases ts') (simp_all add: list_rest_def)
  qed
qed

section \<open>The rendered payload\<close>

definition sorted_texts :: "string list \<Rightarrow> string list" where
  "sorted_texts ss = sort_key str_repr (map normalize_key_text ss)"

lemma sort_key_map: "sort_key f (map g xs) = map g (sort_key (\<lambda>x. f (g x)) xs)"
proof -
  have "insort_key f (g x) (map g ys) = map g (insort_key (\<lambda>x. f (g x)) x ys)" for x ys
    by (induction ys) simp_all
  then show ?thesis by (induction xs) simp_all
qed

lemma normalize_texts: "normalize_value (PyList (map PyStr ss)) = PyList (map PyStr (sorted_texts ss))"
  using sort_key_map [of py_repr PyStr "map normalize_key_text ss"] by (simp add: sorted_texts_def comp_def)

lemma sorted_texts_key_text [simp]: "list_all key_text (sorted_texts ss)"
  by (simp add: sorted_texts_def list_all_iff)

lemma sorted_texts_eq_iff: "sorted_texts ss = sorted_texts ts \<longleftrightarrow> mset (map normalize_key_text ss) = mset (map normalize_key_text ts)"
proof
  assume "sorted_texts ss = sorted_texts ts"
  then show "mset (map normalize_key_text ss) = mset (map normalize_key_text ts)" by (metis sorted_texts_def mset_sort)
next
  assume same: "mset (map normalize_key_text ss) = mset (map normalize_key_text ts)"
  have "str_repr s = CHR 0x27 # s @ [CHR 0x27]" if "s \<in> set (map normalize_key_text ss)" for s
    using that by (auto simp: key_text_plain(2))
  then have "inj_on str_repr (set (map normalize_key_text ss))" by (intro inj_onI) simp
  then show "sorted_texts ss = sorted_texts ts"
    unfolding sorted_texts_def using same by (intro sort_key_inj_key_eq) simp_all
qed

definition rendered_opt :: "string option \<Rightarrow> string" where
  "rendered_opt v = json_dumps True (normalize_value (opt_val v))"

definition rendered_texts :: "string list \<Rightarrow> string" where
  "rendered_texts ss = comma_join (map (json_str True) (sorted_texts ss))"

lemma duplicate_payload_rendered:
  "json_dumps True (normalize_value (duplicate_payload p)) =
     ''{'' @ json_str True ''component_experiment_ids'' @ '':['' @ rendered_texts (rp_component_experiment_ids p) @ '']''
     @ '','' @ json_str True ''family'' @ '':'' @ json_str True (normalize_key_text (rp_family p))
     @ '','' @ json_str True ''legacy_change_summary'' @ '':''
       @ json_str True (normalize_key_text (if rp_method_card_ids p \<noteq> [] then [] else rp_change_summary p))
     @ '','' @ json_str True ''method_card_ids'' @ '':['' @ rendered_texts (rp_method_card_ids p) @ '']''
     @ '','' @ json_str True ''parent_commit_sha'' @ '':'' @ json_str True (normalize_key_text (rp_parent_commit_sha p))
     @ '','' @ json_str True ''parent_experiment_id'' @ '':'' @ rendered_opt (rp_parent_experiment_id p) @ ''}''"
proof -
  let ?d = "[(''component_experiment_ids'', PyList (map PyStr (sorted_texts (rp_component_experiment_ids p)))),
      (''family'', PyStr (normalize_key_text (rp_family p))),
      (''legacy_change_summary'', PyStr (normalize_key_text (if rp_method_card_ids p \<noteq> [] then [] else rp_change_summary p))),
      (''method_card_ids'', PyList (map PyStr (sorted_texts (rp_method_card_ids p)))),
      (''parent_commit_sha'', PyStr (normalize_key_text (rp_parent_commit_sha p))),
      (''parent_experiment_id'', normalize_value (opt_val (rp_parent_experiment_id p)))]"
  have "normalize_value (duplicate_payload p) = PyDict ?d"
    by (simp add: duplicate_payload_def normalize_texts del: normalize_value.simps(2))
  moreover have "sort_key fst (map (\<lambda>(k, v). (k, json_dumps True v)) ?d) = map (\<lambda>(k, v). (k, json_dumps True v)) ?d"
    by (simp del: json_dumps.simps)
  ultimately show ?thesis
    by (simp add: comma_join_def rendered_opt_def rendered_texts_def comp_def)
qed

lemma rendered_opt_inj:
  "rendered_opt v = rendered_opt w \<longleftrightarrow> map_option normalize_key_text v = map_option normalize_key_text w"
  by (cases v; cases w) (simp_all add: rendered_opt_def opt_val_def key_text_plain(1))

lemma json_text_inj [simp]:
  "json_str True (normalize_key_text s) = json_str True (normalize_key_text t) \<longleftrightarrow> normalize_key_text s = normalize_key_text t"
  by (simp add: key_text_plain(1))

definition same_experiment :: "research_proposal \<Rightarrow> research_proposal \<Rightarrow> bool" where
  "same_experiment p q \<longleftrightarrow>
     normalize_key_text (rp_parent_commit_sha p) = normalize_key_text (rp_parent_commit_sha q)
     \<and> map_option normalize_key_text (rp_parent_experiment_id p) = map_option normalize_key_text (rp_parent_experiment_id q)
     \<and> normalize_key_text (rp_family p) = normalize_key_text (rp_family q)
     \<and> mset (map normalize_key_text (rp_method_card_ids p)) = mset (map normalize_key_text (rp_method_card_ids q))
     \<and> mset (map normalize_key_text (rp_component_experiment_ids p)) = mset (map normalize_key_text (rp_component_experiment_ids q))"

lemma payload_same_experiment:
  assumes "rp_method_card_ids p \<noteq> []" and "rp_method_card_ids q \<noteq> []"
  shows "json_dumps True (normalize_value (duplicate_payload p)) = json_dumps True (normalize_value (duplicate_payload q))
    \<longleftrightarrow> same_experiment p q"
proof
  assume "same_experiment p q"
  then show "json_dumps True (normalize_value (duplicate_payload p)) = json_dumps True (normalize_value (duplicate_payload q))"
    using assms unfolding same_experiment_def sorted_texts_eq_iff [symmetric]
    by (simp add: duplicate_payload_rendered rendered_texts_def rendered_opt_inj)
next
  have texts: "rendered_texts ss @ CHR '']'' # r = rendered_texts ts @ CHR '']'' # u \<Longrightarrow> sorted_texts ss = sorted_texts ts \<and> r = u"
    for ss ts r u using json_texts_split [of "sorted_texts ss" "sorted_texts ts" r u] by (simp add: rendered_texts_def)
  have one: "json_str True (normalize_key_text s) @ r = json_str True (normalize_key_text t) @ u \<Longrightarrow> normalize_key_text s = normalize_key_text t \<and> r = u"
    for s t r u by (rule json_text_split) simp_all
  assume "json_dumps True (normalize_value (duplicate_payload p)) = json_dumps True (normalize_value (duplicate_payload q))"
  then show "same_experiment p q"
    using assms unfolding duplicate_payload_rendered same_experiment_def sorted_texts_eq_iff [symmetric]
    by (auto simp: rendered_opt_inj dest!: texts one)
qed

text \<open>
  C35: The duplicate key of a proposal with method cards identifies the experiment: two keys are
  equal exactly when the proposals have the same parent commit, parent experiment and family and the
  same method cards and components, each with its multiplicity and in any order, all up to case,
  white space and punctuation; the hypothesis, the description of the change, the costs, the
  evidence and the identifiers of the plan do not count.  The hash must not collide on the two texts.
\<close>

theorem duplicate_key_equivalence:
  assumes "rp_method_card_ids p \<noteq> []" and "rp_method_card_ids q \<noteq> []"
    and "inj_on sha {json_dumps True (normalize_value (duplicate_payload p)), json_dumps True (normalize_value (duplicate_payload q))}"
  shows "compute_duplicate_key sha p = compute_duplicate_key sha q \<longleftrightarrow>
     normalize_key_text (rp_parent_commit_sha p) = normalize_key_text (rp_parent_commit_sha q)
     \<and> map_option normalize_key_text (rp_parent_experiment_id p) = map_option normalize_key_text (rp_parent_experiment_id q)
     \<and> normalize_key_text (rp_family p) = normalize_key_text (rp_family q)
     \<and> mset (map normalize_key_text (rp_method_card_ids p)) = mset (map normalize_key_text (rp_method_card_ids q))
     \<and> mset (map normalize_key_text (rp_component_experiment_ids p)) = mset (map normalize_key_text (rp_component_experiment_ids q))"
proof -
  have "compute_duplicate_key sha p = compute_duplicate_key sha q
      \<longleftrightarrow> json_dumps True (normalize_value (duplicate_payload p)) = json_dumps True (normalize_value (duplicate_payload q))"
    unfolding compute_duplicate_key_def by (rule inj_on_eq_iff [OF assms(3)]) blast+
  also have "\<dots> \<longleftrightarrow> same_experiment p q" by (rule payload_same_experiment [OF assms(1,2)])
  finally show ?thesis unfolding same_experiment_def .
qed

text \<open>The same cards in another order, in another case and with another hypothesis.\<close>

theorem duplicate_key_equivalence_witness:
  "compute_duplicate_key (\<lambda>s. s) ((sample_plan bare_ensemble)\<lparr>rp_method_card_ids := [''a'', ''B'']\<rparr>)
   = compute_duplicate_key (\<lambda>s. s)
      ((sample_plan bare_ensemble)\<lparr>rp_hypothesis := ''other'', rp_method_card_ids := [''b'', ''a'']\<rparr>)"
proof -
  let ?p = "(sample_plan bare_ensemble)\<lparr>rp_method_card_ids := [''a'', ''B'']\<rparr>"
  let ?q = "(sample_plan bare_ensemble)\<lparr>rp_hypothesis := ''other'', rp_method_card_ids := [''b'', ''a'']\<rparr>"
  have "normalize_key_text ''B'' = ''b''" "normalize_key_text ''b'' = ''b''" by code_simp+
  then have "mset (map normalize_key_text (rp_method_card_ids ?p)) = mset (map normalize_key_text (rp_method_card_ids ?q))" by simp
  moreover have "inj_on (\<lambda>s :: string. s) {json_dumps True (normalize_value (duplicate_payload ?p)),
      json_dumps True (normalize_value (duplicate_payload ?q))}" by simp
  ultimately show ?thesis
    using duplicate_key_equivalence [of ?p ?q "\<lambda>s. s"] by simp
qed

end
