(* ===== verification/Run_Configuration.thy ===== *)
theory Run_Configuration
  imports Convergence Json Event_Store Regex
begin

text \<open>
  The frozen configuration of a run and the verification of its contract:
  \<^verbatim>\<open>src/src/tacorank/config.py\<close>.  The record extends \<^typ>\<open>run_config\<close> by the other fields of
  \<^verbatim>\<open>RunConfig\<close>; left out are \<^verbatim>\<open>repository_root\<close>, the constants \<^verbatim>\<open>schema_version\<close>,
  \<^verbatim>\<open>adapter_mode\<close> and \<^verbatim>\<open>research_provider\<close>, and the two service addresses with their
  \<^verbatim>\<open>urlparse\<close> checks.  \<open>valid_frozen_config\<close> holds of the values that the constructor returns.
\<close>

datatype reasoning_effort = Effort_low | Effort_high | Effort_max

record frozen_config = run_config +
  cfg_run_id :: string
  cfg_contract_path :: string
  cfg_protected_paths_path :: string
  cfg_artifact_roots :: "string list"
  cfg_command_ids :: "string list"
  cfg_metric_names :: "string list"
  cfg_primary_metric_name :: string
  cfg_data_manifest_sha256 :: string
  cfg_evaluator_sha256 :: string
  cfg_baseline_commit_sha :: string
  cfg_parallel_directions :: int
  cfg_synthesize_parallel_improvements :: bool
  cfg_max_repairs_per_experiment :: int
  cfg_allowed_runtime_adjustments :: "(string, pyval) dict"
  cfg_timeout_profiles :: "(string, int) dict"
  cfg_max_confirmation_attempts :: int
  cfg_seed_schedule :: "int list"
  cfg_context_token_limit :: int
  cfg_synthesis_context_token_limit :: int
  cfg_live_adapter_config_sha256 :: "string option"
  cfg_editable_roots :: "string list"
  cfg_allowed_research_families :: "string list"
  cfg_allowed_research_data :: "string list"
  cfg_research_capabilities :: "string list"
  cfg_active_research_prohibitions :: "string list"
  cfg_prediction_change_no_op_threshold :: pyfloat
  cfg_max_single_score_fraction :: pyfloat
  cfg_target_interface_excerpts :: "(string, string) dict"
  cfg_coding_step_limit :: int
  cfg_coding_token_limit :: "int option"
  cfg_coding_wall_time_limit_seconds :: int
  cfg_deepseek_model :: string
  cfg_deepseek_api_key_env :: string
  cfg_deepseek_timeout_seconds :: int
  cfg_research_planning_max_attempts :: int
  cfg_research_planning_retry_backoff_seconds :: pyfloat
  cfg_deepseek_max_output_tokens :: int
  cfg_deepseek_thinking_enabled :: bool
  cfg_deepseek_reasoning_effort :: reasoning_effort
  cfg_literature_research_enabled :: bool
  cfg_literature_provider :: literature_provider
  cfg_literature_timeout_seconds :: int
  cfg_literature_max_papers :: int
  cfg_literature_min_citation_count :: int
  cfg_literature_bank_path :: string
  cfg_literature_bank_sha256 :: "string option"

section \<open>The validators\<close>

definition API_KEY_ENV_RE :: re where
  "API_KEY_ENV_RE = Seq (Chars (\<lambda>c. char_range CHR ''A'' CHR ''Z'' c \<or> c = CHR ''_''))
     (Many (Chars (\<lambda>c. char_range CHR ''A'' CHR ''Z'' c \<or> is_digit c \<or> c = CHR ''_'')))"

definition unique_roots :: "string list \<Rightarrow> bool" where
  "unique_roots roots \<longleftrightarrow> roots \<noteq> [] \<and> list_all valid_path roots \<and> distinct roots"

definition unique_research_values :: "string list \<Rightarrow> bool" where
  "unique_research_values values \<longleftrightarrow> list_all nonempty_str values \<and> distinct values"

text \<open>The numeric bounds of the fields.\<close>

definition valid_config_bounds :: "frozen_config \<Rightarrow> bool" where
  "valid_config_bounds c \<longleftrightarrow> 0 < cfg_max_experiments c
     \<and> 0 < cfg_parallel_directions c \<and> cfg_parallel_directions c \<le> 7
     \<and> 0 < cfg_wall_time_limit_seconds c \<and> opt_ok (\<lambda>k. 0 < k) (cfg_token_limit c)
     \<and> opt_ok (\<lambda>k. 0 < k) (cfg_gpu_seconds_limit c) \<and> nonneg_float (cfg_convergence_epsilon c)
     \<and> 0 < cfg_convergence_patience c
     \<and> 0 \<le> cfg_max_repairs_per_experiment c \<and> cfg_max_repairs_per_experiment c \<le> 2
     \<and> 0 \<le> cfg_max_confirmation_attempts c
     \<and> 0 < cfg_context_token_limit c \<and> 0 < cfg_synthesis_context_token_limit c
     \<and> nonneg_float (cfg_prediction_change_no_op_threshold c)
     \<and> cfg_prediction_change_no_op_threshold c \<le> 1
     \<and> nonneg_float (cfg_max_single_score_fraction c)
     \<and> 0 < cfg_max_single_score_fraction c \<and> cfg_max_single_score_fraction c \<le> 1
     \<and> 0 < cfg_coding_step_limit c \<and> opt_ok (\<lambda>k. 0 < k) (cfg_coding_token_limit c)
     \<and> 0 < cfg_coding_wall_time_limit_seconds c
     \<and> 0 < cfg_deepseek_timeout_seconds c \<and> cfg_deepseek_timeout_seconds c \<le> 600
     \<and> 0 < cfg_research_planning_max_attempts c \<and> cfg_research_planning_max_attempts c \<le> 3
     \<and> nonneg_float (cfg_research_planning_retry_backoff_seconds c)
     \<and> cfg_research_planning_retry_backoff_seconds c \<le> 30
     \<and> 0 < cfg_deepseek_max_output_tokens c
     \<and> 0 < cfg_literature_timeout_seconds c \<and> cfg_literature_timeout_seconds c \<le> 120
     \<and> 0 < cfg_literature_max_papers c \<and> cfg_literature_max_papers c \<le> 8
     \<and> 0 \<le> cfg_literature_min_citation_count c"

definition valid_research_contract :: "frozen_config \<Rightarrow> bool" where
  "valid_research_contract c \<longleftrightarrow> cfg_allowed_research_families c \<noteq> []
     \<and> cfg_allowed_research_data c \<noteq> []
     \<and> \<not> (cfg_literature_research_enabled c \<and> cfg_literature_provider c = Provider_paper_bank
          \<and> cfg_literature_bank_sha256 c = None)"

definition valid_contract_fields :: "frozen_config \<Rightarrow> bool" where
  "valid_contract_fields c \<longleftrightarrow> cfg_metric_names c \<noteq> [] \<and> distinct (cfg_metric_names c)
     \<and> cfg_command_ids c \<noteq> [] \<and> distinct (cfg_command_ids c)
     \<and> cfg_seed_schedule c \<noteq> [] \<and> distinct (cfg_seed_schedule c)
     \<and> cfg_max_confirmation_attempts c + 1 \<le> int (length (cfg_seed_schedule c))
     \<and> valid_runtime_mapping (cfg_allowed_runtime_adjustments c)
     \<and> list_all (\<lambda>(name, seconds). py_strip name \<noteq> [] \<and> 0 < seconds) (cfg_timeout_profiles c)"

definition valid_frozen_config :: "frozen_config \<Rightarrow> bool" where
  "valid_frozen_config c \<longleftrightarrow> valid_config_bounds c \<and> valid_id (cfg_run_id c)
     \<and> valid_path (cfg_contract_path c) \<and> valid_path (cfg_protected_paths_path c)
     \<and> valid_path (cfg_literature_bank_path c)
     \<and> unique_roots (cfg_artifact_roots c) \<and> unique_roots (cfg_editable_roots c)
     \<and> list_all nonempty_str (cfg_command_ids c) \<and> list_all nonempty_str (cfg_metric_names c)
     \<and> nonempty_str (cfg_primary_metric_name c) \<and> nonempty_str (cfg_baseline_commit_sha c)
     \<and> SHA256_RE (cfg_data_manifest_sha256 c) \<and> SHA256_RE (cfg_evaluator_sha256 c)
     \<and> opt_ok SHA256_RE (cfg_live_adapter_config_sha256 c)
     \<and> opt_ok SHA256_RE (cfg_literature_bank_sha256 c)
     \<and> unique_research_values (cfg_allowed_research_families c)
     \<and> unique_research_values (cfg_allowed_research_data c)
     \<and> unique_research_values (cfg_research_capabilities c)
     \<and> unique_research_values (cfg_active_research_prohibitions c)
     \<and> cfg_target_interface_excerpts c \<noteq> [] \<and> dict_ok (cfg_target_interface_excerpts c)
     \<and> list_all (\<lambda>(target, excerpt). valid_path target \<and> nonempty_str excerpt) (cfg_target_interface_excerpts c)
     \<and> nonempty_str (cfg_deepseek_model c)
     \<and> re_fullmatch API_KEY_ENV_RE (cfg_deepseek_api_key_env c) \<noteq> None
     \<and> dict_ok (cfg_timeout_profiles c)
     \<and> valid_research_contract c \<and> valid_contract_fields c"

definition validate_metric_set :: "frozen_config \<Rightarrow> metric_set \<Rightarrow> unit res" where
  "validate_metric_set c m =
     guarded (Raised ''ContractError'' ''metric set does not exactly match frozen metric names'')
       (set (dkeys (ms_metrics m)) = set (cfg_metric_names c))
     (guarded (Raised ''ContractError'' ''primary metric does not match frozen contract'')
       (ms_primary_metric_name m = cfg_primary_metric_name c)
     (Inr ()))"

section \<open>The contract\<close>

record verified_contract =
  vc_contract_sha256 :: string
  vc_protected_paths_sha256 :: string
  vc_config_sha256 :: string

text \<open>\<^verbatim>\<open>bytes.strip()\<close> knows the white space of ASCII only.\<close>

definition bytes_blank :: "string \<Rightarrow> bool" where
  "bytes_blank data \<longleftrightarrow> list_all (\<lambda>c. (of_char c :: nat) \<in> {9, 10, 11, 12, 13, 32}) data"

text \<open>\<^verbatim>\<open>data.decode("utf-8")\<close>; a text with a character above 255 is outside the model.\<close>

fun utf8_decode :: "string \<Rightarrow> string option" where
  "utf8_decode [] = Some []"
| "utf8_decode (b # bs) = (let k = of_char b :: nat in
     if k < 128 then map_option ((#) b) (utf8_decode bs)
     else case bs of [] \<Rightarrow> None
       | b' # bs' \<Rightarrow> (let j = of_char b' :: nat in
           if (k = 194 \<or> k = 195) \<and> 128 \<le> j \<and> j < 192
           then map_option ((#) (char_of ((k - 192) * 64 + (j - 128)))) (utf8_decode bs')
           else None))"

abbreviation contract_error :: "string \<Rightarrow> exc" where
  "contract_error m \<equiv> Raised ''ContractError'' m"

definition manifest_line :: "string \<Rightarrow> re" where
  "manifest_line label = (let gap = Many (Chars py_isspace); item = none_of [CHR 0x0D, CHR 0x0A] in
     seq [Line_start, gap, lit_nocase label, gap, lit '':'', gap, Group 1 (Seq item (Lazy item)), gap, Line_end])"

definition FROZEN_RE :: re where
  "FROZEN_RE = (let gap = Many (Chars py_isspace) in
     seq [Line_start, gap, lit_nocase ''Contract status'', gap, lit '':'', gap, lit_nocase ''FROZEN'', gap, Line_end])"

definition contract_manifest_values :: "string \<Rightarrow> string \<Rightarrow> string list res" where
  "contract_manifest_values contract label =
     (case re_finditer (manifest_line label) contract of
        [m] \<Rightarrow> (let values = map (\<lambda>item. py_strip (strip_chars ''`'' (py_strip item)))
                  (split_on CHR '','' (group 1 m)) in
          guarded (contract_error ''must be a unique comma-separated list'')
            (list_all (\<lambda>v. v \<noteq> []) values \<and> distinct values) (Inr values))
      | _ \<Rightarrow> Inl (contract_error ''contract must contain exactly one line of the label''))"

definition UNRESOLVED_MARKERS :: "string list" where
  "UNRESOLVED_MARKERS = [''TBD'', ''TODO'', ''UNRESOLVED'', ''<<<<<<<'', ''>>>>>>>'']"

text \<open>
  \<open>files\<close> reads a path below the repository root, \<open>dump\<close> is \<^verbatim>\<open>canonical_dict\<close> of the
  configuration, \<open>sha\<close> is SHA-256.
\<close>

definition verify_contract ::
  "(string \<Rightarrow> string) \<Rightarrow> (string \<Rightarrow> string option) \<Rightarrow> pyval \<Rightarrow> frozen_config \<Rightarrow> verified_contract res" where
  "verify_contract sha files dump c =
     fetch (contract_error ''contract and protected-path files must exist'') (files (cfg_contract_path c)) (\<lambda>contract_bytes.
     fetch (contract_error ''contract and protected-path files must exist'') (files (cfg_protected_paths_path c)) (\<lambda>protected_bytes.
     guarded (contract_error ''contract is empty; a human must resolve and freeze it'') (\<not> bytes_blank contract_bytes)
     (guarded (contract_error ''protected path manifest is empty'') (\<not> bytes_blank protected_bytes)
     (fetch (Raised ''UnicodeDecodeError'' []) (utf8_decode contract_bytes) (\<lambda>contract.
     guarded (contract_error ''contract must contain the exact line Contract status: FROZEN'')
       (re_found FROZEN_RE contract)
     (guarded (contract_error ''contract contains unresolved markers'')
       (\<not> list_ex (\<lambda>m. str_in m (py_upper contract)) UNRESOLVED_MARKERS)
     (guarded (contract_error ''frozen metric is not named in the contract'')
       (list_all (\<lambda>m. str_in (py_lower m) (py_lower contract)) (cfg_metric_names c))
     (guarded (contract_error ''frozen primary metric is not named in the contract'')
       (str_in (py_lower (cfg_primary_metric_name c)) (py_lower contract))
     (bind_res (contract_manifest_values contract ''Allowed command IDs'') (\<lambda>commands.
     guarded (contract_error ''configured command_ids do not match the frozen contract'')
       (commands = cfg_command_ids c)
     (bind_res (contract_manifest_values contract ''Artifact roots'') (\<lambda>roots.
     guarded (contract_error ''configured artifact_roots do not match the frozen contract'')
       (roots = cfg_artifact_roots c)
     (Inr \<lparr>vc_contract_sha256 = sha contract_bytes, vc_protected_paths_sha256 = sha protected_bytes,
       vc_config_sha256 = sha (json_dumps True dump)\<rparr>)))))))))))))"

section \<open>Facts\<close>

lemma utf8_decode_pair:
  assumes "128 \<le> (of_char c :: nat)"
  shows "utf8_decode (utf8_char c @ bs) = map_option ((#) c) (utf8_decode bs)"
proof -
  obtain k :: nat where k: "of_char c = k" by simp
  then have less: "k < 256" using nat_of_char_less_256 [of c] by simp
  have q: "k div 64 = 2 \<or> k div 64 = 3"
  proof (cases "k < 192")
    case True
    with assms k have "k div 64 = 2" by (intro div_nat_eqI) simp_all
    then show ?thesis ..
  next
    case False
    with less have "k div 64 = 3" by (intro div_nat_eqI) simp_all
    then show ?thesis ..
  qed
  have "(192 + k div 64) mod 256 = 192 + k div 64" "(128 + k mod 64) mod 256 = 128 + k mod 64"
    using less by auto
  moreover have "char_of (k div 64 * 64 + k mod 64) = c"
    unfolding div_mult_mod_eq by (simp add: k [symmetric])
  moreover have "utf8_char c = [char_of (192 + k div 64), char_of (128 + k mod 64)]"
    using assms k by (simp add: utf8_char_def)
  ultimately show ?thesis
    using q by (auto simp: Let_def of_char_of)
qed

lemma utf8_decode_utf8: "utf8_decode (utf8 s) = Some s"
proof (induction s)
  case (Cons c s)
  then show ?case
    using utf8_decode_pair [of c "utf8 s"]
    by (cases "(of_char c :: nat) < 128") (simp_all add: utf8_def utf8_char_def Let_def)
qed (simp add: utf8_def)

lemma validate_metric_setD:
  "validate_metric_set c m = Inr u \<Longrightarrow> ms_primary_metric_name m = cfg_primary_metric_name c"
  by (simp add: validate_metric_set_def raise_simps)

end
