(* ===== verification/Redaction.thy ===== *)
theory Redaction
  imports Event_Store Regex
begin

text \<open>
  The removal of credentials from text: \<^verbatim>\<open>src/src/tacorank/coding/redaction.py\<close>.  The
  redactor is the list of the explicit secrets, the longest first; \<open>redact_json_bytes\<close>, which parses
  and pretty-prints a document, is not part of the model.
\<close>

definition REDACTED :: string where
  "REDACTED = ''[REDACTED]''"

section \<open>The patterns\<close>

definition at_least :: "nat \<Rightarrow> re \<Rightarrow> re" where
  "at_least n r = Seq (times n r) (Many r)"

abbreviation separator :: re where "separator \<equiv> opt (one_of ''_-'')"

definition SENSITIVE_KEY_RE :: re where
  "SENSITIVE_KEY_RE = alts [seq [lit_nocase ''api'', separator, lit_nocase ''key''],
     seq [lit_nocase ''access'', separator, lit_nocase ''token''],
     Seq (lit_nocase ''auth'') (opt (lit_nocase ''orization'')), lit_nocase ''bearer'',
     seq [lit_nocase ''client'', separator, lit_nocase ''secret''], lit_nocase ''credential'',
     lit_nocase ''passwd'', lit_nocase ''password'',
     seq [lit_nocase ''private'', separator, lit_nocase ''key''], lit_nocase ''secret'',
     seq [lit_nocase ''session'', separator, lit_nocase ''token'']]"

definition upper_digit :: "char \<Rightarrow> bool" where
  "upper_digit c \<longleftrightarrow> char_range CHR ''A'' CHR ''Z'' c \<or> is_digit c"

definition ascii_alnum :: "char \<Rightarrow> bool" where
  "ascii_alnum c \<longleftrightarrow> char_range CHR ''A'' CHR ''Z'' c \<or> char_range CHR ''a'' CHR ''z'' c \<or> is_digit c"

abbreviation alnum_or :: "string \<Rightarrow> re" where
  "alnum_or cs \<equiv> Chars (\<lambda>c. ascii_alnum c \<or> c \<in> set cs)"

definition PEM_RE :: re where
  "PEM_RE = (let kind = Many (Chars (\<lambda>c. upper_digit c \<or> c = CHR '' '')) in
     seq [lit ''-----BEGIN '', kind, lit ''PRIVATE KEY-----'', Lazy (Chars (\<lambda>c. True)),
       lit ''-----END '', kind, lit ''PRIVATE KEY-----''])"

definition BEARER_RE :: re where
  "BEARER_RE = seq [Word_edge, Group 1 (Alt (lit_nocase ''Bearer'') (lit_nocase ''Basic'')),
     some_of (Chars py_isspace), at_least 8 (alnum_or ''._~+/=-'')]"

definition credential_name :: re where
  "credential_name = alts [seq [lit_nocase ''api'', separator, lit_nocase ''key''],
     seq [lit_nocase ''access'', separator, lit_nocase ''token''], lit_nocase ''authorization'',
     seq [lit_nocase ''client'', separator, lit_nocase ''secret''], lit_nocase ''password'',
     seq [lit_nocase ''private'', separator, lit_nocase ''key''], lit_nocase ''secret'',
     seq [lit_nocase ''session'', separator, lit_nocase ''token'']]"

definition quoted_by :: "char \<Rightarrow> re" where
  "quoted_by q = seq [lit [q], Many (none_of [q, CHR 0x0D, CHR 0x0A]), lit [q]]"

definition assigned_value :: re where
  "assigned_value = alts [
     seq [lit ''${'', some_of (none_of [CHR ''}'', CHR 0x0D, CHR 0x0A]), lit ''}''],
     quoted_by CHR 0x22, quoted_by CHR 0x27,
     some_of (Chars (\<lambda>c. \<not> py_isspace c \<and> c \<notin> set '',;}''))]"

definition ASSIGNMENT_RE :: re where
  "ASSIGNMENT_RE = Seq
     (Group 1 (seq [Word_edge, credential_name, Word_edge, Many (Chars py_isspace), one_of '':='',
        Many (Chars py_isspace)]))
     (Group 2 assigned_value)"

definition WELL_KNOWN_TOKEN_RE :: re where
  "WELL_KNOWN_TOKEN_RE = (let word = alnum_or ''_-'' in seq [Word_edge,
     alts [Seq (lit ''sk-'') (at_least 16 word),
       seq [lit ''gh'', one_of ''pousr'', lit ''_'', at_least 20 (alnum_or ''_'')],
       Seq (lit ''AKIA'') (times 16 (Chars upper_digit)),
       seq [lit ''eyJ'', at_least 10 word, lit ''.'', at_least 10 word, lit ''.'', at_least 10 word]],
     Word_edge])"

definition URL_CREDENTIAL_RE :: re where
  "URL_CREDENTIAL_RE = seq [
     Group 1 (seq [Chars is_letter, Many (alnum_or ''+.-''), lit ''://'',
       some_of (Chars (\<lambda>c. \<not> py_isspace c \<and> c \<notin> set ''/:@'')), lit '':'']),
     Group 2 (some_of (Chars (\<lambda>c. \<not> py_isspace c \<and> c \<notin> set ''/@''))), Group 3 (lit ''@'')]"

section \<open>The redactor\<close>

text \<open>\<^verbatim>\<open>s.replace(a, b)\<close> for a text \<open>a\<close> that is not empty.\<close>

function py_replace :: "string \<Rightarrow> string \<Rightarrow> string \<Rightarrow> string" where
  "py_replace a b [] = []"
| "py_replace a b (c # s) = (if a \<noteq> [] \<and> py_startswith a (c # s)
     then b @ py_replace a b (drop (length a) (c # s)) else c # py_replace a b s)"
  by pat_completeness auto
termination
  by (relation "measure (\<lambda>(a, b, s). length s)") (auto simp: neq_Nil_conv)

type_synonym redactor = "string list"

definition secret_redactor :: "string list \<Rightarrow> redactor" where
  "secret_redactor values =
     sort_key (\<lambda>s. (- int (length s), s)) (remdups (filter (\<lambda>v. v \<noteq> []) values))"

fun environment_secrets :: "(string, string) dict \<Rightarrow> string list \<Rightarrow> string list res" where
  "environment_secrets env [] = Inr []"
| "environment_secrets env (name # names) =
     guarded (Raised ''RedactionError'' ''credential environment name is not sensitive'')
       (name \<noteq> [] \<and> re_found SENSITIVE_KEY_RE name)
     (bind_res (environment_secrets env names) (\<lambda>rest.
        Inr (case dget env name of None \<Rightarrow> rest | Some v \<Rightarrow> if v = [] then rest else v # rest)))"

definition redactor_from_environment :: "(string, string) dict \<Rightarrow> string list \<Rightarrow> redactor res" where
  "redactor_from_environment env names =
     bind_res (environment_secrets env names) (\<lambda>values. Inr (secret_redactor values))"

text \<open>The explicit secrets first, then the shapes of credentials.\<close>

definition redact_secrets :: "redactor \<Rightarrow> string \<Rightarrow> string" where
  "redact_secrets secrets text = foldl (\<lambda>t s. py_replace s REDACTED t) text secrets"

definition redact :: "redactor \<Rightarrow> string \<Rightarrow> string" where
  "redact secrets text =
     (let t1 = redact_secrets secrets text;
          t2 = re_sub PEM_RE (\<lambda>_. REDACTED @ '':private-key'') t1;
          t3 = re_sub BEARER_RE (\<lambda>m. group 1 m @ '' '' @ REDACTED) t2;
          t4 = re_sub ASSIGNMENT_RE (\<lambda>m. group 1 m @ REDACTED) t3;
          t5 = re_sub WELL_KNOWN_TOKEN_RE (\<lambda>_. REDACTED @ '':token'') t4
      in re_sub URL_CREDENTIAL_RE (\<lambda>m. group 1 m @ REDACTED @ group 3 m) t5)"

definition redact_optional :: "redactor \<Rightarrow> string option \<Rightarrow> string option" where
  "redact_optional secrets text = map_option (redact secrets) text"

definition contains_known_secret :: "redactor \<Rightarrow> string \<Rightarrow> bool" where
  "contains_known_secret secrets data \<longleftrightarrow> list_ex (\<lambda>s. str_in (utf8 s) data) secrets"

definition is_placeholder :: "string \<Rightarrow> bool" where
  "is_placeholder raw \<longleftrightarrow> (let lowered = py_lower raw; name = filter (\<lambda>c. c \<noteq> CHR ''_'') (tl raw) in
     lowered \<in> {'''', ''null'', ''none'', ''unset'', ''placeholder''}
     \<or> py_startswith ''your_'' lowered
     \<or> py_startswith ''${'' raw \<and> py_endswith ''}'' raw
     \<or> py_startswith ''$'' raw \<and> name \<noteq> [] \<and> list_all is_word_char name)"

definition contains_credential_material :: "redactor \<Rightarrow> string \<Rightarrow> bool" where
  "contains_credential_material secrets text \<longleftrightarrow>
     contains_known_secret secrets (utf8 text)
     \<or> re_found PEM_RE text \<or> re_found BEARER_RE text \<or> re_found WELL_KNOWN_TOKEN_RE text
     \<or> re_found URL_CREDENTIAL_RE text
     \<or> list_ex (\<lambda>m. \<not> is_placeholder (strip_chars [CHR 0x22, CHR 0x27] (py_strip (group 2 m))))
         (re_finditer ASSIGNMENT_RE text)"

fun redact_object :: "redactor \<Rightarrow> pyval \<Rightarrow> pyval" where
  "redact_object secrets (PyDict d) = PyDict (map (\<lambda>(key, item).
     (key, if re_found SENSITIVE_KEY_RE key then PyStr REDACTED else redact_object secrets item)) d)"
| "redact_object secrets (PyList xs) = PyList (map (redact_object secrets) xs)"
| "redact_object secrets (PyStr s) = PyStr (redact secrets s)"
| "redact_object secrets v = v"

section \<open>The explicit secrets are gone\<close>

text \<open>
  A secret that no placeholder can be part of: it holds no bracket and does not occur in the word
  between the brackets.
\<close>

definition plain_secret :: "string \<Rightarrow> bool" where
  "plain_secret s \<longleftrightarrow> s \<noteq> [] \<and> CHR ''['' \<notin> set s \<and> CHR '']'' \<notin> set s \<and> \<not> str_in s ''REDACTED''"

lemma py_startswith_iff: "py_startswith t s \<longleftrightarrow> (\<exists>u. s = t @ u)"
  by (auto simp: py_startswith_def) (metis append_take_drop_id)

lemma str_in_iff: "str_in t s \<longleftrightarrow> (\<exists>u v. s = u @ t @ v)"
proof (induction s)
  case (Cons c s)
  have "str_in t (c # s) \<longleftrightarrow> (\<exists>v. c # s = t @ v) \<or> (\<exists>u v. s = u @ t @ v)"
    by (simp add: Cons.IH py_startswith_iff)
  also have "\<dots> \<longleftrightarrow> (\<exists>u v. c # s = u @ t @ v)"
    by (metis append_Cons append_Nil list.sel(3) neq_Nil_conv tl_append2)
  finally show ?case .
qed auto

text \<open>What the replacement leaves in front of the first bracket is a prefix of the subject.\<close>

lemma replaced_prefix:
  "py_replace a REDACTED t = u @ v \<Longrightarrow> CHR ''['' \<notin> set u \<Longrightarrow> \<exists>w. t = u @ w"
proof (induction a REDACTED t arbitrary: u v rule: py_replace.induct)
  case (2 a c s)
  show ?case
  proof (cases u)
    case (Cons d u')
    show ?thesis
    proof (cases "a \<noteq> [] \<and> py_startswith a (c # s)")
      case True
      with 2 Cons show ?thesis by (simp add: REDACTED_def)
    next
      case False
      with 2(2-) 2(3) Cons show ?thesis using 2(2) [OF False, of u' v] by auto
    qed
  qed simp
qed simp

lemma bracket_split:
  assumes "REDACTED @ r = u @ s @ v" and "plain_secret s"
  shows "\<exists>u'. u = REDACTED @ u'"
proof (rule ccontr)
  assume no: "\<not> ?thesis"
  from assms(1) obtain w where "REDACTED = u @ w \<and> w @ r = s @ v \<or> REDACTED @ w = u \<and> r = w @ s @ v"
    unfolding append_eq_append_conv2 by blast
  then consider "u = REDACTED @ w" | "REDACTED = u @ w" "w \<noteq> []" "w @ r = s @ v"
    by (cases "w = []") auto
  then show False
  proof cases
    case 2
    have bracket: "last w = CHR '']''"
      using 2(1,2) by (metis REDACTED_def last_appendR last.simps last_ConsR list.distinct(1))
    from 2(3) obtain x where "w = s @ x \<and> x @ r = v \<or> w @ x = s \<and> r = x @ v"
      unfolding append_eq_append_conv2 by blast
    then consider "w = s @ x" | "s = w @ x" by auto
    then show False
    proof cases
      case 1
      show False
      proof (cases "u = [] \<or> x = []")
        case True
        then have "s = [] \<or> CHR ''['' = hd s \<or> last s = CHR '']''"
          using 1 2(1) bracket by (cases s) (auto simp: REDACTED_def)
        with assms(2) show False by (metis plain_secret_def last_in_set hd_in_set)
      next
        case False
        then obtain c u' where u: "u = c # u'" by (cases u) auto
        from False obtain x' d where x: "x = x' @ [d]" by (cases x rule: rev_cases) auto
        from 2(1) u x 1 have "c # (u' @ s @ x') @ [d] = ''[REDACTED]''" by (simp add: REDACTED_def)
        then have "u' @ s @ x' = butlast (tl ''[REDACTED]'')" by (metis butlast_snoc list.sel(3))
        then have "str_in s ''REDACTED''" unfolding str_in_iff by (metis butlast.simps(2) list.sel(3) list.distinct(1))
        with assms(2) show False by (simp add: plain_secret_def)
      qed
    next
      case 2
      then have "CHR '']'' \<in> set s" using bracket \<open>w \<noteq> []\<close> by (metis UnCI last_in_set set_append)
      with assms(2) show False by (simp add: plain_secret_def)
    qed
  qed (use no in blast)
qed

lemma replace_keeps_out:
  assumes "plain_secret s" and "\<not> str_in s t"
  shows "\<not> str_in s (py_replace a REDACTED t)"
  using assms
proof (induction a REDACTED t rule: py_replace.induct)
  case (2 a c t)
  show ?case
  proof (cases "a \<noteq> [] \<and> py_startswith a (c # t)")
    case True
    have tail: "\<not> str_in s (drop (length a) (c # t))"
      using 2(4) unfolding str_in_iff by (metis append.assoc append_take_drop_id)
    have "\<not> str_in s (py_replace a REDACTED (drop (length a) (c # t)))" by (rule 2(1) [OF True 2(3) tail])
    then show ?thesis
      using True bracket_split [OF _ 2(3)] by (auto simp: str_in_iff) (metis append.assoc same_append_eq)
  next
    case False
    have tail: "\<not> str_in s t" using 2(4) by simp
    have rest: "\<not> str_in s (py_replace a REDACTED t)" by (rule 2(2) [OF False 2(3) tail])
    have "\<not> py_startswith s (c # py_replace a REDACTED t)"
    proof
      assume "py_startswith s (c # py_replace a REDACTED t)"
      then obtain s' v where s: "s = c # s'" "py_replace a REDACTED t = s' @ v"
        using 2(3) by (cases s) (auto simp: py_startswith_iff plain_secret_def)
      then have "\<exists>w. t = s' @ w" using replaced_prefix 2(3) by (fastforce simp: plain_secret_def)
      then have "py_startswith s (c # t)" using s(1) by (auto simp: py_startswith_iff)
      then show False using 2(4) by simp
    qed
    moreover have "py_replace a REDACTED (c # t) = c # py_replace a REDACTED t" using False by auto
    ultimately show ?thesis using rest by simp
  qed
qed simp

lemma replace_removes:
  assumes "plain_secret s" shows "\<not> str_in s (py_replace s REDACTED t)"
  using assms
proof (induction s REDACTED t rule: py_replace.induct)
  case (2 a c t)
  show ?case
  proof (cases "a \<noteq> [] \<and> py_startswith a (c # t)")
    case True
    have "\<not> str_in a (py_replace a REDACTED (drop (length a) (c # t)))" by (rule 2(1) [OF True 2(3)])
    then show ?thesis
      using True bracket_split [OF _ 2(3)] by (auto simp: str_in_iff) (metis append.assoc same_append_eq)
  next
    case False
    have rest: "\<not> str_in a (py_replace a REDACTED t)" by (rule 2(2) [OF False 2(3)])
    have "\<not> py_startswith a (c # py_replace a REDACTED t)"
    proof
      assume "py_startswith a (c # py_replace a REDACTED t)"
      then obtain s' v where s: "a = c # s'" "py_replace a REDACTED t = s' @ v"
        using 2(3) by (cases a) (auto simp: py_startswith_iff plain_secret_def)
      then have "\<exists>w. t = s' @ w" using replaced_prefix 2(3) by (fastforce simp: plain_secret_def)
      then show False using s(1) False by (auto simp: py_startswith_iff)
    qed
    moreover have "py_replace a REDACTED (c # t) = c # py_replace a REDACTED t" using False by auto
    ultimately show ?thesis using rest by simp
  qed
qed (simp add: plain_secret_def)

lemma redact_secrets_removes:
  assumes "s \<in> set secrets" and "plain_secret s"
  shows "\<not> str_in s (redact_secrets secrets text)"
proof -
  have keep: "\<not> str_in s t \<Longrightarrow> \<not> str_in s (foldl (\<lambda>t a. py_replace a REDACTED t) t as)" for t as
    by (induction as arbitrary: t) (simp_all add: replace_keeps_out [OF assms(2)])
  from assms(1) obtain as bs where "secrets = as @ s # bs" by (meson split_list)
  then show ?thesis by (simp add: redact_secrets_def keep replace_removes [OF assms(2)])
qed

end
