(* ===== verification/Harness_Core.thy ===== *)
theory Harness_Core
  imports Event_Store Recovery_Routing Finalization Run_Configuration Redaction Artifacts
begin

text \<open>
  The harness of \<^verbatim>\<open>src/src/tacorank/orchestrator/router.py\<close> as a program over a world: how
  it calls its adapters, what can escape such a call, and the operations every stage uses.  The world
  is the ledger file, the files of the artifact store, the outside of the program (\<open>'s\<close>: adapters,
  providers, clock) and the two fields that the harness itself changes while it runs.

  An adapter (\<^verbatim>\<open>orchestrator/ports.py\<close>) is a parameter: a \<open>call\<close> that ends with a value or
  raises, and may change the world.  Between \<^verbatim>\<open>await\<close> and its result other lanes of a parallel
  round may have appended to the ledger, so a call may change the ledger file too; what is proved about
  the ledger assumes of the calls that they only let it grow.
\<close>

section \<open>Failures\<close>

text \<open>
  What the handlers of the router read of an exception: its class, its text and the attributes that
  \<^verbatim>\<open>getattr\<close> looks up; \<open>ae_control\<close> says that it is a \<^verbatim>\<open>LedgerError\<close>,
  \<^verbatim>\<open>TransitionError\<close>, \<^verbatim>\<open>OrchestrationError\<close> or \<^verbatim>\<open>AssertionError\<close>,
  \<open>ae_transient\<close> that it is a \<^verbatim>\<open>TransientProviderError\<close>.
\<close>

record adapter_error =
  ae_class :: string
  ae_text :: string
  ae_code :: "string option"
  ae_summary :: "string option"
  ae_output_tail :: "string option"
  ae_artifacts :: "artifact_ref list"
  ae_delta :: "resource_delta option"
  ae_control :: bool
  ae_transient :: bool

text \<open>
  \<open>Internal\<close> is an exception of modelled code, \<open>Resumable\<close> a \<^verbatim>\<open>ResumablePlanningError\<close>,
  \<open>Repair_unavailable\<close> a \<^verbatim>\<open>_RepairWorkerUnavailable\<close> with its action and the text of its
  cause; \<open>Out_of_fuel\<close> is not an exception of the program: it says that the bound on the iterations
  of a loop was too small, and no handler catches it.
\<close>

datatype failure =
    Adapter_error adapter_error
  | Internal exc
  | Resumable string
  | Repair_unavailable recovery_action string
  | Out_of_fuel

section \<open>The world\<close>

record 's world =
  w_ledger :: ledger_file
  w_files :: file_system
  w_parallel :: bool
  w_pending :: "stop_decision_result option"
  w_env :: 's

type_synonym ('s, 'a) run = "'s world \<Rightarrow> (failure + 'a) \<times> 's world"

type_synonym ('s, 'a) call = "'s world \<Rightarrow> (adapter_error + 'a) \<times> 's world"

definition ret :: "'a \<Rightarrow> ('s, 'a) run" where
  "ret x w = (Inr x, w)"

definition fail :: "failure \<Rightarrow> ('s, 'a) run" where
  "fail f w = (Inl f, w)"

definition perform :: "('s, 'b) run \<Rightarrow> ('b \<Rightarrow> ('s, 'a) run) \<Rightarrow> ('s, 'a) run" where
  "perform m k w = (case m w of (Inl f, w') \<Rightarrow> (Inl f, w') | (Inr x, w') \<Rightarrow> k x w')"

text \<open>\<^verbatim>\<open>try: m except Exception as f: handler(f)\<close>\<close>

definition catching :: "('s, 'a) run \<Rightarrow> (failure \<Rightarrow> ('s, 'a) run) \<Rightarrow> ('s, 'a) run" where
  "catching m handler w = (case m w of
      (Inl f, w') \<Rightarrow> if f = Out_of_fuel then (Inl f, w') else handler f w'
    | (Inr x, w') \<Rightarrow> (Inr x, w'))"

definition lift_res :: "'a res \<Rightarrow> ('s, 'a) run" where
  "lift_res r = (case r of Inl e \<Rightarrow> fail (Internal e) | Inr x \<Rightarrow> ret x)"

definition await :: "('s, 'a) call \<Rightarrow> ('s, 'a) run" where
  "await c w = (case c w of (Inl e, w') \<Rightarrow> (Inl (Adapter_error e), w') | (Inr x, w') \<Rightarrow> (Inr x, w'))"

text \<open>\<^verbatim>\<open>try: x = await call() except Exception as f: handle(f)\<close> with \<open>k\<close> the code after it.\<close>

definition attempt :: "('s, 'b) run \<Rightarrow> (failure \<Rightarrow> ('s, 'a) run) \<Rightarrow> ('b \<Rightarrow> ('s, 'a) run) \<Rightarrow> ('s, 'a) run" where
  "attempt m handler k w = (case m w of
      (Inl f, w') \<Rightarrow> if f = Out_of_fuel then (Inl f, w') else handler f w'
    | (Inr x, w') \<Rightarrow> k x w')"

definition ensure :: "exc \<Rightarrow> bool \<Rightarrow> ('s, unit) run" where
  "ensure e c = (if c then ret () else fail (Internal e))"

section \<open>The harness\<close>

record evaluation_decision_context =
  dc_run_id :: string
  dc_experiment_id :: string
  dc_baseline_score :: pyfloat
  dc_parent_score :: "pyfloat option"
  dc_previous_best_score :: "pyfloat option"

definition valid_evaluation_decision_context :: "evaluation_decision_context \<Rightarrow> bool" where
  "valid_evaluation_decision_context c \<longleftrightarrow> nonempty_str (dc_run_id c)
     \<and> nonempty_str (dc_experiment_id c) \<and> is_float (dc_baseline_score c)
     \<and> opt_ok is_float (dc_parent_score c) \<and> opt_ok is_float (dc_previous_best_score c)"

text \<open>
  The fields of \<^verbatim>\<open>Harness.__init__\<close>, the adapters as their methods.  \<open>h_now\<close> is the clock of
  the event store, \<open>h_exc_text\<close> is \<^verbatim>\<open>str\<close> of an exception of the modelled code,
  \<open>h_read_contract\<close> reads the contract file, \<open>h_provider_delta\<close> is
  \<^verbatim>\<open>planner.provider.resource_delta\<close> where the planner has one, and \<open>h_lock\<close> is what happens
  while a lane waits for the evaluation lock.
\<close>

record 's harness =
  h_config :: frozen_config
  h_contract :: verified_contract
  h_store :: event_store
  h_artifact_store :: "artifact_store option"
  h_now :: "'s world \<Rightarrow> int"
  h_exc_text :: "exc \<Rightarrow> string"
  h_read_contract :: "('s, string) call"
  h_build_planner :: "event list \<Rightarrow> ('s, planner_context) call"
  h_build_coder :: "event list \<Rightarrow> experiment_spec \<Rightarrow> ('s, coder_context) call"
  h_build_recovery :: "event list \<Rightarrow> string \<Rightarrow> int \<Rightarrow> ('s, recovery_context) call"
  h_bind_implementation :: "proposal_or_spec \<Rightarrow> ('s, experiment_spec) call"
  h_propose :: "planner_context \<Rightarrow> ('s, planner_output) call"
  h_propose_synthesis :: "(planner_context \<Rightarrow> string list \<Rightarrow> ('s, planner_output) call) option"
  h_provider_delta :: "'s world \<Rightarrow> resource_delta option"
  h_create_patch :: "coder_context \<Rightarrow> experiment_spec \<Rightarrow> ('s, patch_candidate) call"
  h_repair_patch :: "recovery_context \<Rightarrow> recovery_decision \<Rightarrow> ('s, patch_candidate) call"
  h_restart_from_trusted_parent :: "recovery_context \<Rightarrow> recovery_decision \<Rightarrow> ('s, patch_candidate) call"
  h_check_patch :: "patch_candidate \<Rightarrow> ('s, patch_check_result) call"
  h_run :: "run_request \<Rightarrow> ('s, run_result) call"
  h_decide_recovery :: "string \<Rightarrow> failed_value \<Rightarrow> recovery_policy_context \<Rightarrow> ('s, recovery_decision) call"
  h_check_output :: "run_result \<Rightarrow> ('s, output_check_result) call"
  h_evaluate :: "evaluation_request \<Rightarrow> ('s, evaluation_result) call"
  h_decide :: "evaluation_result \<Rightarrow> evaluation_decision_context \<Rightarrow> ('s, experiment_decision) call"
  h_prepare_baseline :: "('s, submission_checked_payload) call option"
  h_lock :: "('s, unit) call"
  h_sleep :: "pyfloat \<Rightarrow> ('s, unit) call"

abbreviation h_run_id :: "'s harness \<Rightarrow> string" where
  "h_run_id h \<equiv> cfg_run_id (h_config h)"

text \<open>The store verifies the artifacts an event names against the files as they are.\<close>

definition store_in :: "'s harness \<Rightarrow> 's world \<Rightarrow> event_store" where
  "store_in h w = (h_store h)\<lparr>verify_artifact := map_option (\<lambda>a. verify_ref a (w_files w)) (h_artifact_store h)\<rparr>"

definition marked :: "string \<Rightarrow> string \<Rightarrow> int \<Rightarrow> string option \<Rightarrow> resource_delta option \<Rightarrow> appending" where
  "marked stage experiment k cause delta = \<lparr>ap_stage = stage, ap_experiment_id = experiment,
     ap_attempt = nat k, ap_cause = cause, ap_delta = delta\<rparr>"

definition record_event :: "'s harness \<Rightarrow> event_payload \<Rightarrow> appending \<Rightarrow> ('s, event) run" where
  "record_event h p c w =
     (let (disk, outcome) = harness_append (store_in h w) (h_run_id h) (w_ledger w) p c (h_now h w)
      in lift_res outcome (w\<lparr>w_ledger := disk\<rparr>))"

definition get_events :: "'s harness \<Rightarrow> ('s, event list) run" where
  "get_events h w = (let (disk, outcome) = harness_events (store_in h w) (w_ledger w)
      in lift_res outcome (w\<lparr>w_ledger := disk\<rparr>))"

definition get_state :: "'s harness \<Rightarrow> ('s, run_state) run" where
  "get_state h = perform (get_events h) (\<lambda>es. lift_res (project es))"

section \<open>What every stage uses\<close>

text \<open>The causes of a full evaluation: the Gate B event, the end of the execution, its start.\<close>

definition cause_of :: "event list \<Rightarrow> event \<Rightarrow> event option" where
  "cause_of es e = (case causation_event_id e of None \<Rightarrow> None
     | Some i \<Rightarrow> last_such (\<lambda>x. event_id x = i) es)"

definition execution_start_of :: "event list \<Rightarrow> event \<Rightarrow> run_request res" where
  "execution_start_of es e =
     fetch (Raised ''OrchestrationError'' ''full evaluation cannot resolve its execution identity'')
       (Option.bind (cause_of es e) (\<lambda>gate. Option.bind (cause_of es gate) (\<lambda>done.
          Option.bind (cause_of es done) (\<lambda>started. as_started (payload started))))) Inr"

definition is_public_full_of :: "string \<Rightarrow> event \<Rightarrow> bool" where
  "is_public_full_of i e = (case as_evaluation (payload e) of None \<Rightarrow> False
     | Some r \<Rightarrow> ev_experiment_id r = i \<and> ev_fidelity r = Fidelity_FULL
         \<and> ev_population r = Population_PUBLIC_VALIDATION)"

fun count_seeds :: "event list \<Rightarrow> string \<Rightarrow> string \<Rightarrow> nat \<Rightarrow> event list \<Rightarrow> nat res" where
  "count_seeds es i sha n [] = Inr n"
| "count_seeds es i sha n (e # rest) =
     (if is_public_full_of i e
      then bind_res (execution_start_of es e) (\<lambda>request.
        count_seeds es i sha (if rq_patch_commit_sha request = sha then Suc n else n) rest)
      else count_seeds es i sha n rest)"

definition nth_item :: "'a list \<Rightarrow> nat \<Rightarrow> 'a res" where
  "nth_item xs n = (if n < length xs then Inr (xs ! n) else Inl IndexError)"

definition execution_seed :: "'s harness \<Rightarrow> string \<Rightarrow> fidelity \<Rightarrow> string \<Rightarrow> ('s, int) run" where
  "execution_seed h i f sha = (let seeds = cfg_seed_schedule (h_config h) in
     if f \<noteq> Fidelity_FULL then lift_res (nth_item seeds 0)
     else perform (get_events h) (\<lambda>es. lift_res
       (bind_res (count_seeds es i sha 0 es) (\<lambda>completed.
          guarded (Raised ''OrchestrationError'' ''distinct full-fidelity seed schedule exhausted'')
            (completed < length seeds) (nth_item seeds completed)))))"

text \<open>\<^verbatim>\<open>values.setdefault(primary, score)\<close> on a copy of the metrics.\<close>

definition metric_values :: "metric_set \<Rightarrow> (string, pyfloat) dict" where
  "metric_values m = (case dget (ms_metrics m) (ms_primary_metric_name m) of
     Some v \<Rightarrow> ms_metrics m | None \<Rightarrow> dset (ms_primary_metric_name m) (ms_primary_score m) (ms_metrics m))"

definition baseline_metrics_of :: "event list \<Rightarrow> (string, pyfloat) dict res" where
  "baseline_metrics_of es = fetch (Raised ''RuntimeError'' ''coroutine raised StopIteration'')
     (pick as_baseline (first_such (\<lambda>e. as_baseline (payload e) \<noteq> None) es))
     (\<lambda>(e, b). Inr (metric_values (bv_metric_set b)))"

definition reference_metrics_of ::
  "event list \<Rightarrow> string option \<Rightarrow> fidelity \<Rightarrow> (string, pyfloat) dict res" where
  "reference_metrics_of es i f =
     (if \<not> truthy_str i \<or> i = Some ''baseline'' then baseline_metrics_of es
      else fetch (Raised ''OrchestrationError'' ''reference experiment has no evaluation'')
        (pick as_evaluation (last_such (\<lambda>e. case as_evaluation (payload e) of None \<Rightarrow> False
           | Some r \<Rightarrow> Some (ev_experiment_id r) = i \<and> ev_fidelity r = f) es))
        (\<lambda>(e, r). Inr (metric_values (ev_metric_set r))))"

definition baseline_metrics :: "'s harness \<Rightarrow> ('s, (string, pyfloat) dict) run" where
  "baseline_metrics h = perform (get_events h) (\<lambda>es. lift_res (baseline_metrics_of es))"

definition reference_metrics :: "'s harness \<Rightarrow> string option \<Rightarrow> fidelity \<Rightarrow> ('s, (string, pyfloat) dict) run" where
  "reference_metrics h i f = perform (get_events h) (\<lambda>es. lift_res (reference_metrics_of es i f))"

fun fidelity_value :: "fidelity \<Rightarrow> string" where
  "fidelity_value Fidelity_SMOKE = ''smoke''"
| "fidelity_value Fidelity_PROXY = ''proxy''"
| "fidelity_value Fidelity_FULL = ''full''"
| "fidelity_value Fidelity_FINAL = ''final''"

definition command_for :: "frozen_config \<Rightarrow> fidelity \<Rightarrow> string res" where
  "command_for c f =
     (case filter (\<lambda>preferred. preferred \<in> set (cfg_command_ids c))
        [''candidate_'' @ fidelity_value f, ''run_'' @ fidelity_value f] of
        preferred # _ \<Rightarrow> Inr preferred
      | [] \<Rightarrow> nth_item (cfg_command_ids c) 0)"

text \<open>The evaluation is supplied from outside, as the argument \<open>evaluation\<close>.\<close>

definition run_started_of :: "'s harness \<Rightarrow> run_started_payload" where
  "run_started_of h = (let c = h_config h; v = h_contract h in
     \<lparr>rs_config_sha256 = vc_config_sha256 v, rs_contract_sha256 = vc_contract_sha256 v,
      rs_protected_paths_sha256 = vc_protected_paths_sha256 v, rs_max_experiments = cfg_max_experiments c,
      rs_parallel_directions = cfg_parallel_directions c,
      rs_synthesize_parallel_improvements = cfg_synthesize_parallel_improvements c,
      rs_deepseek_timeout_seconds = cfg_deepseek_timeout_seconds c,
      rs_research_planning_max_attempts = cfg_research_planning_max_attempts c,
      rs_research_planning_retry_backoff_seconds = cfg_research_planning_retry_backoff_seconds c,
      rs_wall_time_limit_seconds = cfg_wall_time_limit_seconds c, rs_token_limit = cfg_token_limit c,
      rs_gpu_seconds_limit = cfg_gpu_seconds_limit c,
      rs_max_repairs_per_experiment = cfg_max_repairs_per_experiment c,
      rs_max_confirmation_attempts = cfg_max_confirmation_attempts c,
      rs_seed_schedule = cfg_seed_schedule c, rs_convergence_epsilon = cfg_convergence_epsilon c,
      rs_convergence_patience = cfg_convergence_patience c\<rparr>)"

definition contract_verified_of :: "'s harness \<Rightarrow> contract_verified_payload" where
  "contract_verified_of h = (let c = h_config h; v = h_contract h in
     \<lparr>cv_contract_sha256 = vc_contract_sha256 v, cv_protected_paths_sha256 = vc_protected_paths_sha256 v,
      cv_metric_names = cfg_metric_names c, cv_primary_metric_name = cfg_primary_metric_name c,
      cv_command_ids = cfg_command_ids c, cv_artifact_roots = cfg_artifact_roots c,
      cv_evaluator_sha256 = cfg_evaluator_sha256 c\<rparr>)"

definition bootstrap :: "'s harness \<Rightarrow> evaluation_result \<Rightarrow> ('s, unit) run" where
  "bootstrap h evaluation =
     perform (lift_res (validate_metric_set (h_config h) (ev_metric_set evaluation))) (\<lambda>u.
     perform (record_event h (Run_started (run_started_of h)) (marked ''started'' ''run'' 0 None None)) (\<lambda>started.
     perform (record_event h (Contract_verified (contract_verified_of h))
       (marked ''contract_verified'' ''run'' 0 (Some (event_id started)) None)) (\<lambda>contract.
     perform (record_event h (Baseline_verified \<lparr>bv_experiment_id = ''baseline'',
           bv_commit_sha = cfg_baseline_commit_sha (h_config h),
           bv_metric_set = ev_metric_set evaluation, bv_evaluation = evaluation\<rparr>)
       (marked ''baseline_verified'' ''baseline'' 0 (Some (event_id contract)) (Some (ev_resource_delta evaluation)))) (\<lambda>e.
     ret ()))))"

definition deterministic_stop :: "'s harness \<Rightarrow> bool \<Rightarrow> bool \<Rightarrow> ('s, stop_decision_result) run" where
  "deterministic_stop h fatal no_legal = perform (get_events h) (\<lambda>es.
     perform (lift_res (project es)) (\<lambda>s. ret (stop_decision s es (run_config.truncate (h_config h)) fatal no_legal)))"

definition stop_run :: "'s harness \<Rightarrow> stop_decision_result \<Rightarrow> ('s, event) run" where
  "stop_run h d =
     perform (ensure (Raised ''OrchestrationError'' ''refusing to stop without a matched deterministic rule'') (sd_stop d)) (\<lambda>u.
     perform (get_events h) (\<lambda>es.
     if es = [] then fail (Internal IndexError)
     else record_event h (Run_stopped (sd_reason_code d) (sd_reason d))
       (marked ''stopped'' ''run'' 0 (Some (event_id (last es))) None)))"

definition stop_if_runtime_budget_exhausted :: "'s harness \<Rightarrow> ('s, bool) run" where
  "stop_if_runtime_budget_exhausted h = perform (get_state h) (\<lambda>s w.
     (let d = runtime_budget_decision s (run_config.truncate (h_config h)) in
      if \<not> sd_stop d then ret False w
      else if w_parallel w then ret True (w\<lparr>w_pending := Some d\<rparr>)
      else perform (stop_run h d) (\<lambda>e. ret True) w))"

end
