(* ===== verification/Harness_Recovery.thy ===== *)
theory Harness_Recovery
  imports Harness_Core
begin

text \<open>
  What the router does about failures: it records an escaped adapter exception as evidence, asks the
  recovery manager for a decision, lets the coding worker repair a patch, and closes or stops what it cannot continue
  (\<^verbatim>\<open>_record_adapter_failure\<close>, \<^verbatim>\<open>_record_planning_failure\<close>, \<^verbatim>\<open>_recover\<close>,
  \<^verbatim>\<open>_execute_code_repair\<close>, \<^verbatim>\<open>_handle_unexpected_adapter_failure\<close>,
  \<^verbatim>\<open>_abandon_experiment\<close> of \<^verbatim>\<open>router.py\<close>).
\<close>

section \<open>What is known of an exception\<close>

fun exc_class :: "exc \<Rightarrow> string" where
  "exc_class (TransitionError _) = ''TransitionError''"
| "exc_class (ValueError _) = ''ValueError''"
| "exc_class (KeyError _) = ''KeyError''"
| "exc_class IndexError = ''IndexError''"
| "exc_class AttributeError = ''AttributeError''"
| "exc_class (LedgerError _) = ''LedgerError''"
| "exc_class (LedgerCorruptionError _) = ''LedgerCorruptionError''"
| "exc_class (DuplicateIdempotencyKey _) = ''DuplicateIdempotencyKey''"
| "exc_class (FinalizationError _) = ''FinalizationError''"
| "exc_class (NoOpRecoveryRequired _) = ''NoOpRecoveryRequired''"
| "exc_class (ValidationError _) = ''ValidationError''"
| "exc_class (Raised name _) = name"

definition plain_error :: "string \<Rightarrow> string \<Rightarrow> adapter_error" where
  "plain_error class description = \<lparr>ae_class = class, ae_text = description, ae_code = None, ae_summary = None,
     ae_output_tail = None, ae_artifacts = [], ae_delta = None, ae_control = False, ae_transient = False\<rparr>"

definition error_of :: "'s harness \<Rightarrow> failure \<Rightarrow> adapter_error" where
  "error_of h f = (case f of
      Adapter_error e \<Rightarrow> e
    | Internal x \<Rightarrow> plain_error (exc_class x) (h_exc_text h x)
    | Resumable m \<Rightarrow> plain_error ''ResumablePlanningError'' m
    | Repair_unavailable a cause \<Rightarrow> plain_error ''_RepairWorkerUnavailable'' cause
    | Out_of_fuel \<Rightarrow> plain_error [] [])"

text \<open>
  \<^verbatim>\<open>isinstance(error, (LedgerError, TransitionError, OrchestrationError, AssertionError))\<close>; the
  ledger's other exceptions are subclasses of the first, the resumable one of the third.
\<close>

fun is_control_failure :: "failure \<Rightarrow> bool" where
  "is_control_failure (Adapter_error e) = ae_control e"
| "is_control_failure (Internal x) = (exc_class x \<in> {''LedgerError'', ''LedgerCorruptionError'',
     ''DuplicateIdempotencyKey'', ''TransitionError'', ''OrchestrationError'', ''AssertionError''})"
| "is_control_failure (Resumable _) = True"
| "is_control_failure (Repair_unavailable _ _) = False"
| "is_control_failure Out_of_fuel = False"

definition error_class_of :: "adapter_error \<Rightarrow> string" where
  "error_class_of e = py_strip (or_else (ae_code e) (ae_class e))"

definition output_tail_of :: "adapter_error \<Rightarrow> string" where
  "output_tail_of e = py_strip (or_else (ae_output_tail e) [])"

definition safe_summary_of :: "adapter_error \<Rightarrow> string" where
  "safe_summary_of e =
     (let summary = py_strip (or_else (ae_summary e) (ae_text e)); tail = output_tail_of e;
          combined = summary @ (if tail = [] then [] else CHR 0x0A # tail);
          safe = take 800 (normalize_text (redact (secret_redactor []) combined))
      in if safe = [] then error_class_of e else safe)"

text \<open>\<^verbatim>\<open>ResourceDelta.model_validate(raw) if raw is not None else ResourceDelta()\<close>\<close>

definition failure_delta :: "resource_delta option \<Rightarrow> resource_delta res" where
  "failure_delta raw = (case raw of None \<Rightarrow> Inr zero_delta
     | Some d \<Rightarrow> guarded (ValidationError ''ResourceDelta'') (valid_resource_delta d) (Inr d))"

section \<open>Recording a failure\<close>

text \<open>The log artifact with the tail of the output; a failure to write it is ignored.\<close>

definition failure_log_request :: "event_store \<Rightarrow> string \<Rightarrow> string \<Rightarrow> int \<Rightarrow> string \<Rightarrow> artifact_request" where
  "failure_log_request st run experiment k output_tail =
     (let redacted = redact (secret_redactor []) output_tail;
          safe = drop (length redacted - 64 * 1024) redacted;
          digest = take 24 (canonical_sha256 (sha256 st) (PyStr safe))
      in \<lparr>aq_artifact_id = ''trae-failure-'' @ digest, aq_kind = Artifact_LOG,
          aq_relative_path = ''artifacts/'' @ run @ ''/'' @ experiment @ ''/attempt_'' @ int_str (max 1 k)
            @ ''/trae-failure-'' @ digest @ ''.log'',
          aq_content = utf8 (py_rstrip safe @ [CHR 0x0A]),
          aq_content_type = Some ''text/plain; charset=utf-8''\<rparr>)"

definition diagnostic_artifacts_of ::
  "'s harness \<Rightarrow> string \<Rightarrow> int \<Rightarrow> adapter_error \<Rightarrow> ('s, artifact_ref list) run" where
  "diagnostic_artifacts_of h experiment k e w =
     (case h_artifact_store h of None \<Rightarrow> ret (ae_artifacts e) w
      | Some store \<Rightarrow>
        if output_tail_of e = [] \<or> ae_artifacts e \<noteq> [] then ret (ae_artifacts e) w
        else let (files, outcome) = write_artifact store (w_files w)
                   (failure_log_request (h_store h) (h_run_id h) experiment k (output_tail_of e))
             in ret (case outcome of Inl x \<Rightarrow> [] | Inr ref \<Rightarrow> [ref]) (w\<lparr>w_files := files\<rparr>))"

definition adapter_failure_of ::
  "'s harness \<Rightarrow> string \<Rightarrow> int \<Rightarrow> failure_stage \<Rightarrow> adapter_error \<Rightarrow> artifact_ref list \<Rightarrow> resource_delta
   \<Rightarrow> adapter_failure_result" where
  "adapter_failure_of h experiment k stage e artifacts delta =
     \<lparr>af_run_id = h_run_id h, af_experiment_id = experiment, af_attempt = max 1 k,
      af_failure_stage = stage, af_outcome = stage_outcome stage, af_error_class = error_class_of e,
      af_error_fingerprint = fingerprint_failure (sha256 (h_store h)) (error_class_of e) (safe_summary_of e) [],
      af_error_summary = py_strip (safe_summary_of e), af_diagnostic_artifacts = artifacts,
      af_resource_delta = delta\<rparr>"

definition record_adapter_failure ::
  "'s harness \<Rightarrow> string \<Rightarrow> int \<Rightarrow> failure_stage \<Rightarrow> failure \<Rightarrow> string option \<Rightarrow> ('s, event) run" where
  "record_adapter_failure h experiment k stage f cause =
     (let e = error_of h f in
      perform (diagnostic_artifacts_of h experiment k e) (\<lambda>artifacts.
      perform (lift_res (failure_delta (ae_delta e))) (\<lambda>delta.
      let result = adapter_failure_of h experiment k stage e artifacts delta in
      perform (ensure (ValidationError ''AdapterFailureResult'') (valid_adapter_failure_result result)) (\<lambda>u.
      record_event h (Adapter_failed result) (marked (''adapter_failed_'' @ stage_value stage)
        experiment (af_attempt result) cause (Some delta))))))"

text \<open>\<^verbatim>\<open>failure_event.payload.result\<close>\<close>

definition failure_result_of :: "event \<Rightarrow> adapter_failure_result res" where
  "failure_result_of e = (case payload e of Adapter_failed r \<Rightarrow> Inr r | _ \<Rightarrow> Inl AttributeError)"

definition record_planning_failure :: "'s harness \<Rightarrow> string \<Rightarrow> failure \<Rightarrow> string option \<Rightarrow> ('s, event) run" where
  "record_planning_failure h context_id f cause w =
     (let e = error_of h f;
          raw = (case ae_delta e of None \<Rightarrow> h_provider_delta h w | Some d \<Rightarrow> Some d) in
      perform (lift_res (failure_delta raw)) (\<lambda>delta.
      let result = \<lparr>pf_run_id = h_run_id h, pf_context_id = context_id, pf_error_class = error_class_of e,
        pf_error_fingerprint = fingerprint_failure (sha256 (h_store h)) (error_class_of e) (safe_summary_of e) [],
        pf_error_summary = py_strip (safe_summary_of e), pf_diagnostic_artifacts = ae_artifacts e,
        pf_resource_delta = delta\<rparr> in
      perform (ensure (ValidationError ''PlanningFailureResult'') (valid_planning_failure_result result)) (\<lambda>u.
      record_event h (Planning_failed result) (marked ''planning_failed'' ''run'' 0 cause (Some delta)))) w)"

section \<open>Recovery\<close>

record recovery =
  ro_decision :: recovery_decision
  ro_context :: recovery_context
  ro_event_id :: string

abbreviation ro_action :: "recovery \<Rightarrow> recovery_action" where
  "ro_action r \<equiv> rn_action (ro_decision r)"

definition lesson_id_of :: "event list \<Rightarrow> string" where
  "lesson_id_of es = (let n = 1 + length (filter (\<lambda>e. payload_type (payload e) = Type_LESSON_RECORDED) es);
       s = digits_of n in ''lesson_'' @ replicate (3 - length s) CHR ''0'' @ s)"

definition record_lesson ::
  "'s harness \<Rightarrow> lesson_candidate option \<Rightarrow> string \<Rightarrow> string \<Rightarrow> int \<Rightarrow> string \<Rightarrow> ('s, unit) run" where
  "record_lesson h candidate stage experiment k cause = (case candidate of None \<Rightarrow> ret ()
     | Some c \<Rightarrow> perform (get_events h) (\<lambda>es.
         perform (record_event h (Lesson_recorded (lesson_id_of es) c) (marked stage experiment k (Some cause) None))
           (\<lambda>e. ret ())))"

definition policy_input ::
  "'s harness \<Rightarrow> run_state \<Rightarrow> string \<Rightarrow> string \<Rightarrow> failed_value \<Rightarrow> ('s, recovery_policy_context) run" where
  "policy_input h s experiment failure_id v =
     perform (get_events h) (\<lambda>es.
     perform (lift_res (experiment_spec_of es experiment)) (\<lambda>spec.
     perform (await (h_read_contract h)) (\<lambda>contract.
     lift_res (policy_context (sha256 (h_store h)) (run_config.truncate (h_config h))
       (cfg_allowed_runtime_adjustments (h_config h)) (take 2000 (py_strip contract)) (h_run_id h)
       es s experiment failure_id v))))"

definition stop_for_integrity :: "'s harness \<Rightarrow> ('s, unit) run" where
  "stop_for_integrity h = perform (deterministic_stop h True False) (\<lambda>fatal w.
     if w_parallel w then ret () (w\<lparr>w_pending := Some fatal\<rparr>)
     else perform (stop_run h fatal) (\<lambda>e. ret ()) w)"

definition recover_failure :: "'s harness \<Rightarrow> string \<Rightarrow> failed_value \<Rightarrow> string \<Rightarrow> ('s, recovery) run" where
  "recover_failure h failure_id v experiment =
     perform (get_state h) (\<lambda>s.
     perform (lift_res (fetch (KeyError experiment) (node_of s experiment) Inr)) (\<lambda>n.
     perform (get_events h) (\<lambda>es.
     perform (await (h_build_recovery h es experiment (max 0 (st_max_repairs s - node_repair_count n)))) (\<lambda>context.
     perform (record_event h (Context_created (Recovery_context context))
       (marked ''recovery_context'' experiment (node_repair_count n + 1) (Some failure_id) None)) (\<lambda>context_event.
     perform (policy_input h s experiment failure_id v) (\<lambda>input.
     perform (await (h_decide_recovery h failure_id v input)) (\<lambda>decision.
     perform (record_event h (Recovery_decided decision)
       (marked ''recovery_decided'' experiment (rn_repair_attempt decision) (Some (event_id context_event))
         (Some (rn_resource_delta decision)))) (\<lambda>decision_event.
     perform (record_lesson h (rn_lesson_candidate decision) ''recovery_lesson_recorded'' experiment
       (rn_repair_attempt decision) (event_id decision_event)) (\<lambda>u.
     perform (if rn_reason_code decision = ''INTEGRITY_VIOLATION'' then stop_for_integrity h else ret ()) (\<lambda>u.
     ret \<lparr>ro_decision = decision, ro_context = context, ro_event_id = event_id decision_event\<rparr>))))))))))"

definition recover_adapter_failure ::
  "'s harness \<Rightarrow> string \<Rightarrow> int \<Rightarrow> failure_stage \<Rightarrow> failure \<Rightarrow> string option
   \<Rightarrow> ('s, event \<times> adapter_failure_result \<times> recovery) run" where
  "recover_adapter_failure h experiment k stage f cause =
     perform (record_adapter_failure h experiment k stage f cause) (\<lambda>event.
     perform (lift_res (failure_result_of event)) (\<lambda>result.
     perform (recover_failure h (event_id event) (Failed_adapter result) experiment) (\<lambda>r. ret (event, result, r))))"

section \<open>Code repair\<close>

definition is_code_recovery :: "recovery_action \<Rightarrow> bool" where
  "is_code_recovery a \<longleftrightarrow> a = Recovery_TRAE_REPAIR \<or> a = Recovery_RESTART_FROM_TRUSTED_PARENT"

definition repair_worker ::
  "'s harness \<Rightarrow> recovery_action \<Rightarrow> recovery_context \<Rightarrow> recovery_decision \<Rightarrow> ('s, patch_candidate) call" where
  "repair_worker h a = (if a = Recovery_RESTART_FROM_TRUSTED_PARENT
     then h_restart_from_trusted_parent h else h_repair_patch h)"

definition repair_stage :: "recovery_action \<Rightarrow> string" where
  "repair_stage a = (if a = Recovery_RESTART_FROM_TRUSTED_PARENT
     then ''trusted_parent_restart_patch_created'' else ''repair_patch_created'')"

text \<open>The one retry of a repair worker that failed: the decision it ran under and the patch.\<close>

definition retry_repair ::
  "'s harness \<Rightarrow> recovery \<Rightarrow> failure \<Rightarrow> ('s, recovery_decision \<times> patch_candidate \<times> string) run" where
  "retry_repair h r f = (let d = ro_decision r in
     perform (recover_adapter_failure h (rn_experiment_id d) (rn_repair_attempt d + 1) Stage_coding f
       (Some (ro_event_id r))) (\<lambda>(event, result, again).
     if ro_action again \<noteq> Recovery_RETRY_SAME_COMMIT
     then fail (Repair_unavailable (ro_action again) (ae_text (error_of h f)))
     else let context = (ro_context again)\<lparr>rx_recovery_instructions := rn_instructions d\<rparr>;
              reissued = d\<lparr>rn_repair_attempt := rx_repair_attempt (ro_context again)\<rparr> in
       perform (await (repair_worker h (rn_action d) context reissued)) (\<lambda>candidate.
       ret (reissued, candidate, ro_event_id again))))"

record checked_patch =
  cp_patch :: patch_candidate
  cp_check :: patch_check_result
  cp_check_event_id :: string

definition execute_code_repair :: "'s harness \<Rightarrow> recovery \<Rightarrow> string \<Rightarrow> ('s, checked_patch) run" where
  "execute_code_repair h r proposal_event_id =
     (let d = ro_decision r; context = (ro_context r)\<lparr>rx_recovery_instructions := rn_instructions d\<rparr> in
      perform (ensure (Raised ''OrchestrationError''
          ''only Trae repair or a trusted-parent restart can create a replacement patch'')
        (is_code_recovery (rn_action d))) (\<lambda>u.
      perform (attempt (await (repair_worker h (rn_action d) context d)) (retry_repair h r)
        (\<lambda>candidate. ret (d, candidate, ro_event_id r))) (\<lambda>(d', raw, cause).
      let candidate = raw\<lparr>pc_attempt := rn_repair_attempt d' + 1,
        pc_experiment_spec_event_id := proposal_event_id, pc_context_id := cx_context_id context\<rparr> in
      perform (ensure (ValidationError ''PatchCandidate'') (valid_patch_candidate candidate)) (\<lambda>u.
      perform (record_event h (Patch_created candidate) (marked (repair_stage (rn_action d))
        (pc_experiment_id candidate) (pc_attempt candidate) (Some cause) (Some (pc_resource_delta candidate)))) (\<lambda>patch_event.
      perform (await (h_check_patch h candidate)) (\<lambda>check.
      perform (record_event h (Patch_checked check) (marked ''repair_patch_checked''
        (pc_experiment_id candidate) (pc_attempt candidate) (Some (event_id patch_event))
        (Some (pk_resource_delta check)))) (\<lambda>check_event.
      ret \<lparr>cp_patch = candidate, cp_check = check, cp_check_event_id = event_id check_event\<rparr>)))))))"

section \<open>Closing an experiment, stopping the run\<close>

definition is_terminal_decision_of :: "string \<Rightarrow> event \<Rightarrow> bool" where
  "is_terminal_decision_of i e = (case payload e of
     Experiment_decided d \<Rightarrow> ed_experiment_id d = i
       \<and> ed_decision d \<in> {Decision_ACCEPT, Decision_REJECT, Decision_PRUNE, Decision_INVALID}
   | _ \<Rightarrow> False)"

definition has_terminal_decision :: "'s harness \<Rightarrow> string \<Rightarrow> ('s, bool) run" where
  "has_terminal_decision h i = perform (get_events h) (\<lambda>es. ret (list_ex (is_terminal_decision_of i) es))"

definition abandonment :: "string \<Rightarrow> string \<Rightarrow> fidelity \<Rightarrow> string \<Rightarrow> experiment_decision" where
  "abandonment run i f reason = \<lparr>ed_run_id = run, ed_experiment_id = i, ed_evaluation_event_id = None,
     ed_decision = Decision_INVALID, ed_reason_code = reason, ed_fidelity_completed = f,
     ed_parent_eligible = False, ed_best_eligible = False, ed_next_fidelity = None,
     ed_supporting_event_ids = [], ed_lesson_candidate = None, ed_resource_delta = zero_delta\<rparr>"

definition abandon_experiment ::
  "'s harness \<Rightarrow> string \<Rightarrow> int \<Rightarrow> fidelity \<Rightarrow> string \<Rightarrow> string \<Rightarrow> ('s, run_state) run" where
  "abandon_experiment h i k f cause reason =
     perform (has_terminal_decision h i) (\<lambda>closed.
     if closed then get_state h
     else perform (record_event h (Experiment_decided (abandonment (h_run_id h) i f reason))
         (marked ''decision_abandoned'' i k (Some cause) None)) (\<lambda>e. get_state h))"

definition SAFE_TERMINAL_STATUSES :: "experiment_status list" where
  "SAFE_TERMINAL_STATUSES = [Exp_INVALID, Exp_NO_OP, Exp_ACCEPTED, Exp_REJECTED, Exp_PRUNED]"

definition lane_closed_safely :: "'s harness \<Rightarrow> string \<Rightarrow> ('s, bool) run" where
  "lane_closed_safely h i = perform (get_state h) (\<lambda>s. ret (case node_of s i of None \<Rightarrow> False
     | Some n \<Rightarrow> node_status n \<in> set SAFE_TERMINAL_STATUSES))"

definition stop_and_report :: "'s harness \<Rightarrow> string \<Rightarrow> string \<Rightarrow> ('s, run_state) run" where
  "stop_and_report h code reason = perform (stop_run h (stop_with code reason)) (\<lambda>e. get_state h)"

text \<open>\<^verbatim>\<open>max(1, state.active_attempt)\<close>: comparing with \<^verbatim>\<open>None\<close> is a \<^verbatim>\<open>TypeError\<close>.\<close>

definition active_attempt :: "run_state \<Rightarrow> int res" where
  "active_attempt s = fetch (Raised ''TypeError'' []) (st_active_attempt s) (\<lambda>k. Inr (max 1 k))"

definition failed_stage_stop :: "string \<Rightarrow> recovery_action \<Rightarrow> string \<times> string" where
  "failed_stage_stop what a = (''ADAPTER_FAILURE_'' @ py_upper (action_value a),
     ''The '' @ what @ '' adapter failed; recovery recorded '' @ action_value a @ '' and the run was stopped safely.'')"

definition handle_unexpected_adapter_failure :: "'s harness \<Rightarrow> failure \<Rightarrow> ('s, run_state) run" where
  "handle_unexpected_adapter_failure h f =
     (if is_control_failure f
      then stop_and_report h ''RECOVERY_CONTROL_PLANE_FAILURE''
        ''The recovery control plane failed; the run was stopped fail-closed.''
      else perform (get_state h) (\<lambda>s.
        case (if truthy_str (st_active_experiment_id s)
              then Option.bind (st_active_experiment_id s) (\<lambda>i. map_option (\<lambda>n. i) (node_of s i)) else None) of
          None \<Rightarrow> stop_and_report h ''ORCHESTRATOR_ADAPTER_FAILURE''
            ''The orchestration adapter failed before an experiment could be recovered.''
        | Some i \<Rightarrow>
            perform (get_events h) (\<lambda>es.
            let stage = adapter_failure_stage es i in
            perform (get_events h) (\<lambda>es'.
            if es' = [] then fail (Internal IndexError) else
            perform (lift_res (active_attempt s)) (\<lambda>k.
            perform (recover_adapter_failure h i k stage f (Some (event_id (last es')))) (\<lambda>(event, result, r).
            perform (lane_closed_safely h i) (\<lambda>closed.
            if closed then get_state h
            else case failed_stage_stop (stage_value stage) (ro_action r) of
              (code, reason) \<Rightarrow> stop_and_report h code reason)))))))"

end
