(* ===== verification/Harness_Lane.thy ===== *)
theory Harness_Lane
  imports Harness_Recovery
begin

text \<open>
  One experiment from its proposal to its last decision: \<^verbatim>\<open>_prepare_experiment\<close> and
  \<^verbatim>\<open>_run_one_experiment\<close> of \<^verbatim>\<open>router.py\<close>.  The local variables of the loop over the
  fidelities are the record \<open>lane\<close>; one round of the loop is \<open>run_stage\<close>, cut where the source
  has its \<^verbatim>\<open>try\<close> blocks.  The two kinds of loop (repair until Gate A accepts, next fidelity)
  take fuel.
\<close>

section \<open>Proposal\<close>

definition resumable :: "string \<Rightarrow> ('s, 'a) run" where
  "resumable m = fail (Resumable m)"

fun proposal_context_id :: "proposal_or_spec \<Rightarrow> string" where
  "proposal_context_id (Proposal p) = rp_context_id p"
| "proposal_context_id (Spec s) = rp_context_id s"

definition provider_failed ::
  "'s harness \<Rightarrow> planner_context \<Rightarrow> string \<Rightarrow> string \<Rightarrow> failure \<Rightarrow> ('s, 'a option) run" where
  "provider_failed h context cause reason f =
     perform (record_planning_failure h (cx_context_id context) f (Some cause)) (\<lambda>e.
     perform (stop_run h (stop_with ''PLANNER_PROVIDER_FAILURE'' reason)) (\<lambda>e. ret None))"

definition no_proposal :: "'s harness \<Rightarrow> planner_output \<Rightarrow> string \<Rightarrow> ('s, 'a option) run" where
  "no_proposal h out cause =
     perform (record_event h (Planner_recommended out)
       (marked ''planner_recommended'' ''run'' 0 (Some cause) (Some (po_resource_delta out)))) (\<lambda>e.
     if po_action out = Planner_BLOCKED
     then if po_reason_code out = ''INVALID_PROVIDER_PLAN''
       then resumable ''research provider failed bounded plan validation; resume from the persisted planner checkpoint''
       else perform (deterministic_stop h False True) (\<lambda>d. perform (stop_run h d) (\<lambda>e. ret None))
     else perform (deterministic_stop h False False) (\<lambda>d.
       if \<not> sd_stop d
       then resumable ''planner stop recommendation is invalid and no frozen stop rule matched; resume from the persisted planner checkpoint''
       else perform (stop_run h d) (\<lambda>e. ret None)))"

definition bind_proposal ::
  "'s harness \<Rightarrow> planner_context \<Rightarrow> proposal_or_spec option \<Rightarrow> resource_delta \<Rightarrow> string \<Rightarrow> string \<Rightarrow> string
   \<Rightarrow> ('s, experiment_spec \<times> string) run" where
  "bind_proposal h context proposal delta stage cause mismatch =
     (case proposal of None \<Rightarrow> fail (Internal (Raised ''AssertionError'' []))
      | Some p \<Rightarrow>
        if proposal_context_id p \<noteq> cx_context_id context then resumable mismatch
        else perform (await (h_bind_implementation h p)) (\<lambda>spec.
          perform (record_event h (Experiment_proposed spec)
            (marked stage (rp_experiment_id spec) 0 (Some cause) (Some delta))) (\<lambda>e.
          ret (spec, event_id e))))"

definition prepare_experiment :: "'s harness \<Rightarrow> ('s, (experiment_spec \<times> string) option) run" where
  "prepare_experiment h =
     perform (get_events h) (\<lambda>es.
     perform (lift_res (project es)) (\<lambda>s.
     let stop = stop_decision s es (run_config.truncate (h_config h)) False False in
     if sd_stop stop then perform (stop_run h stop) (\<lambda>e. ret None)
     else perform (await (h_build_planner h es)) (\<lambda>context.
     if es = [] then fail (Internal IndexError)
     else perform (record_event h (Context_created (Planner_context context))
       (marked ''planner_context'' ''run'' 0 (Some (event_id (last es))) None)) (\<lambda>context_event.
     attempt (await (h_propose h context))
       (provider_failed h context (event_id context_event)
         ''The research planner failed before proposing a new experiment; the run was stopped with durable failure evidence.'')
       (\<lambda>out.
     if po_action out \<noteq> Planner_PROPOSE then no_proposal h out (event_id context_event)
     else perform (bind_proposal h context (po_spec out) (po_resource_delta out) ''proposed'' (event_id context_event)
         ''planner proposal cites a different context; resume from the persisted planner checkpoint'') (\<lambda>prepared.
       perform (stop_if_runtime_budget_exhausted h) (\<lambda>stopped.
       ret (if stopped then None else Some prepared))))))))"

section \<open>The lane\<close>

record lane =
  ln_spec :: experiment_spec
  ln_proposal_id :: string
  ln_patch :: checked_patch
  ln_queue :: "fidelity list"
  ln_attempt :: int
  ln_settings :: "(string, pyval) dict"
  ln_template :: "run_request option"
  ln_cause :: "string option"

abbreviation ln_experiment_id :: "lane \<Rightarrow> string" where
  "ln_experiment_id l \<equiv> rp_experiment_id (ln_spec l)"

abbreviation ln_accepted :: "lane \<Rightarrow> bool" where
  "ln_accepted l \<equiv> pk_accepted (cp_check (ln_patch l))"

text \<open>What a round of a loop ends with: the next round, or the state that the method returns.\<close>

datatype 'a round = Again 'a | Finish run_state

definition finish :: "'s harness \<Rightarrow> ('s, 'a round) run" where
  "finish h = perform (get_state h) (\<lambda>s. ret (Finish s))"

definition abandon :: "'s harness \<Rightarrow> lane \<Rightarrow> fidelity \<Rightarrow> string \<Rightarrow> string \<Rightarrow> ('s, lane round) run" where
  "abandon h l f cause reason =
     perform (abandon_experiment h (ln_experiment_id l) (ln_attempt l) f cause reason) (\<lambda>s. ret (Finish s))"

text \<open>
  Repeat the stage with the patch of a repair: the request becomes the template of the next one, its cause
  is the Gate A event.
\<close>

definition rerun_with :: "checked_patch \<Rightarrow> run_request \<Rightarrow> fidelity \<Rightarrow> lane \<Rightarrow> lane" where
  "rerun_with p request f l = l\<lparr>ln_patch := p, ln_template := Some request,
     ln_cause := Some (cp_check_event_id p), ln_queue := f # ln_queue l\<rparr>"

text \<open>Repeat the stage on the same commit, with the decided runtime adjustments.\<close>

definition adjusted_request ::
  "frozen_config \<Rightarrow> (string, pyval) dict \<Rightarrow> run_request \<Rightarrow> run_request res" where
  "adjusted_request c adjustments request = (case dget adjustments ''timeout_profile'' of
      None \<Rightarrow> Inr request
    | Some v \<Rightarrow> (case v of
        PyStr profile \<Rightarrow> fetch (KeyError profile) (dget (cfg_timeout_profiles c) profile)
          (\<lambda>seconds. Inr (request\<lparr>rq_timeout_seconds := seconds\<rparr>))
      | _ \<Rightarrow> Inl (Raised ''TypeError'' [])))"

definition merge_settings :: "(string, pyval) dict \<Rightarrow> (string, pyval) dict \<Rightarrow> (string, pyval) dict" where
  "merge_settings settings adjustments = foldl (\<lambda>d (k, v). dset k v d) settings adjustments"

definition rerun_adjusted ::
  "'s harness \<Rightarrow> recovery \<Rightarrow> run_request \<Rightarrow> fidelity \<Rightarrow> lane \<Rightarrow> ('s, lane round) run" where
  "rerun_adjusted h r request f l = (let adjustments = rn_runtime_adjustments (ro_decision r); c = h_config h in
     perform (lift_res (validate_runtime_adjustments (cfg_allowed_runtime_adjustments c)
       (dkeys (cfg_timeout_profiles c)) adjustments)) (\<lambda>u.
     perform (lift_res (adjusted_request c adjustments request)) (\<lambda>template.
     ret (Again (l\<lparr>ln_settings := merge_settings (ln_settings l) adjustments, ln_template := Some template,
       ln_cause := Some (ro_event_id r), ln_queue := f # ln_queue l\<rparr>)))))"

section \<open>Repair loops\<close>

datatype repair_end = Repaired checked_patch | Not_repaired | Handed_back

text \<open>
  \<^verbatim>\<open>while action in _CODE_RECOVERY_ACTIONS\<close>: repair, then ask again when Gate A rejects.
  \<open>budget\<close> says that the loop checks the runtime budgets after each repair; \<open>shielded\<close> that a repair
  worker that is not available hands the experiment back when recovery returned it to planning.
\<close>

definition repair_once :: "'s harness \<Rightarrow> bool \<Rightarrow> recovery \<Rightarrow> string \<Rightarrow> ('s, checked_patch option) run" where
  "repair_once h shielded r proposal_id =
     catching (perform (execute_code_repair h r proposal_id) (\<lambda>p. ret (Some p)))
       (\<lambda>f. case f of Repair_unavailable a cause \<Rightarrow>
              if shielded \<and> a = Recovery_RETURN_TO_PLANNER then ret None else fail f
            | _ \<Rightarrow> fail f)"

fun repair_loop ::
  "nat \<Rightarrow> 's harness \<Rightarrow> bool \<Rightarrow> bool \<Rightarrow> string \<Rightarrow> string \<Rightarrow> recovery \<Rightarrow> ('s, repair_end) run" where
  "repair_loop 0 h budget shielded i proposal_id r = fail Out_of_fuel"
| "repair_loop (Suc n) h budget shielded i proposal_id r =
     (if \<not> is_code_recovery (ro_action r) then ret Not_repaired
      else perform (repair_once h shielded r proposal_id) (\<lambda>repaired.
        case repaired of None \<Rightarrow> ret Handed_back
        | Some p \<Rightarrow>
          perform (if budget then stop_if_runtime_budget_exhausted h else ret False) (\<lambda>stopped.
          if stopped then ret Handed_back
          else if pk_accepted (cp_check p) then ret (Repaired p)
          else perform (recover_failure h (cp_check_event_id p) (Failed_patch (cp_check p)) i)
            (repair_loop n h budget shielded i proposal_id))))"

text \<open>\<^verbatim>\<open>while not patch_check.accepted\<close>\<close>

fun gate_loop :: "nat \<Rightarrow> 's harness \<Rightarrow> string \<Rightarrow> string \<Rightarrow> checked_patch \<Rightarrow> ('s, checked_patch round) run" where
  "gate_loop 0 h i proposal_id p = fail Out_of_fuel"
| "gate_loop (Suc n) h i proposal_id p =
     (if pk_accepted (cp_check p) then ret (Again p)
      else perform (recover_failure h (cp_check_event_id p) (Failed_patch (cp_check p)) i) (\<lambda>r.
        if \<not> is_code_recovery (ro_action r) then finish h
        else perform (execute_code_repair h r proposal_id) (\<lambda>p'.
          perform (stop_if_runtime_budget_exhausted h) (\<lambda>stopped.
          if stopped then finish h else gate_loop n h i proposal_id p'))))"

section \<open>Patch and Gate A\<close>

text \<open>The coding worker with its one retry: the patch and the cause of its event.\<close>

definition create_patch ::
  "'s harness \<Rightarrow> coder_context \<Rightarrow> experiment_spec \<Rightarrow> string \<Rightarrow> ('s, (patch_candidate \<times> string) round) run" where
  "create_patch h context spec context_event_id =
     attempt (await (h_create_patch h context spec))
       (\<lambda>f. perform (recover_adapter_failure h (rp_experiment_id spec) 1 Stage_coding f (Some context_event_id))
          (\<lambda>(event, result, r).
            if ro_action r \<noteq> Recovery_RETRY_SAME_COMMIT then finish h
            else let retry_context = context\<lparr>cc_owner_retry_error_summary := Some (af_error_summary result),
                       cc_owner_retry_instructions := Some (rn_instructions (ro_decision r))\<rparr> in
              attempt (await (h_create_patch h retry_context spec))
                (\<lambda>f'. perform (recover_adapter_failure h (rp_experiment_id spec) 2 Stage_coding f' (Some (ro_event_id r)))
                   (\<lambda>x. finish h))
                (\<lambda>patch. ret (Again (patch, ro_event_id r)))))
       (\<lambda>patch. ret (Again (patch, context_event_id)))"

definition record_patch_check ::
  "'s harness \<Rightarrow> string \<Rightarrow> patch_candidate \<Rightarrow> patch_check_result \<Rightarrow> string \<Rightarrow> ('s, checked_patch round) run" where
  "record_patch_check h i patch check cause =
     perform (record_event h (Patch_checked check) (marked ''patch_checked'' i (pc_attempt patch) (Some cause)
       (Some (pk_resource_delta check)))) (\<lambda>e.
     ret (Again \<lparr>cp_patch = patch, cp_check = check, cp_check_event_id = event_id e\<rparr>))"

definition repaired :: "'s harness \<Rightarrow> recovery \<Rightarrow> string \<Rightarrow> ('s, checked_patch round) run" where
  "repaired h r proposal_id = perform (execute_code_repair h r proposal_id) (\<lambda>p. ret (Again p))"

definition check_patch ::
  "'s harness \<Rightarrow> string \<Rightarrow> string \<Rightarrow> patch_candidate \<Rightarrow> string \<Rightarrow> ('s, checked_patch round) run" where
  "check_patch h i proposal_id patch patch_event_id =
     attempt (await (h_check_patch h patch))
       (\<lambda>f. perform (recover_adapter_failure h i (pc_attempt patch) Stage_patch_gate f (Some patch_event_id))
          (\<lambda>(event, result, r).
            if ro_action r = Recovery_RETRY_SAME_COMMIT
            then attempt (await (h_check_patch h patch))
              (\<lambda>f'. perform (recover_adapter_failure h i (pc_attempt patch) Stage_patch_gate f' (Some (ro_event_id r)))
                 (\<lambda>(event', result', r').
                   if is_code_recovery (ro_action r') then repaired h r' proposal_id else finish h))
              (\<lambda>check. record_patch_check h i patch check (ro_event_id r))
            else if is_code_recovery (ro_action r) then repaired h r proposal_id
            else perform (stop_run h (stop_with ''PATCH_GATE_FAILURE''
                (''The patch gate adapter failed; recovery recorded '' @ action_value (ro_action r)
                 @ '' and the run was stopped safely.''))) (\<lambda>e. finish h)))
       (\<lambda>check. record_patch_check h i patch check patch_event_id)"

text \<open>From the coder context to a patch that Gate A accepted.\<close>

definition obtain_patch ::
  "nat \<Rightarrow> 's harness \<Rightarrow> experiment_spec \<Rightarrow> string \<Rightarrow> ('s, checked_patch round) run" where
  "obtain_patch fuel h spec proposal_id = (let i = rp_experiment_id spec in
     perform (get_events h) (\<lambda>es.
     perform (await (h_build_coder h es spec)) (\<lambda>context.
     perform (record_event h (Context_created (Coder_context context))
       (marked ''coder_context'' i 1 (Some proposal_id) None)) (\<lambda>context_event.
     perform (create_patch h context spec (event_id context_event)) (\<lambda>created.
     case created of Finish s \<Rightarrow> ret (Finish s)
     | Again (raw, cause) \<Rightarrow>
        let patch = raw\<lparr>pc_experiment_spec_event_id := proposal_id\<rparr> in
        perform (ensure (ValidationError ''PatchCandidate'') (valid_patch_candidate patch)) (\<lambda>u.
        perform (record_event h (Patch_created patch)
          (marked ''patch_created'' i (pc_attempt patch) (Some cause) (Some (pc_resource_delta patch)))) (\<lambda>patch_event.
        perform (stop_if_runtime_budget_exhausted h) (\<lambda>stopped.
        if stopped then finish h
        else perform (check_patch h i proposal_id patch (event_id patch_event)) (\<lambda>checked.
          case checked of Finish s \<Rightarrow> ret (Finish s)
          | Again p \<Rightarrow> gate_loop fuel h i proposal_id p)))))))))"

section \<open>Execution\<close>

definition stage_request :: "'s harness \<Rightarrow> lane \<Rightarrow> fidelity \<Rightarrow> ('s, run_request) run" where
  "stage_request h l f = (let c = h_config h; check = cp_check (ln_patch l) in
     perform (case ln_template l of
        Some t \<Rightarrow> ret (t\<lparr>rq_attempt := ln_attempt l, rq_fidelity := f,
          rq_patch_commit_sha := pk_patch_commit_sha check, rq_runtime_settings := ln_settings l\<rparr>)
      | None \<Rightarrow> perform (lift_res (command_for c f)) (\<lambda>command.
          perform (execution_seed h (ln_experiment_id l) f (pk_patch_commit_sha check)) (\<lambda>seed.
          ret \<lparr>rq_run_id = cfg_run_id c, rq_experiment_id = ln_experiment_id l, rq_attempt = ln_attempt l,
            rq_fidelity = f, rq_command_id = command, rq_patch_commit_sha = pk_patch_commit_sha check,
            rq_patch_receipt_id = [], rq_seed = seed, rq_data_manifest_sha256 = cfg_data_manifest_sha256 c,
            rq_timeout_seconds = (case dget (cfg_timeout_profiles c) ''standard'' of None \<Rightarrow> 600 | Some k \<Rightarrow> k),
            rq_memory_limit_mb = 10240, rq_gpu_memory_limit_mb = 0, rq_network_enabled = False,
            rq_runtime_settings = ln_settings l\<rparr>))) (\<lambda>unsigned.
     perform (lift_res (fetch (ValidationError ''RunRequest'') (pk_receipt_id check) Inr)) (\<lambda>receipt.
     let request = unsigned\<lparr>rq_patch_receipt_id := receipt\<rparr> in
     perform (ensure (ValidationError ''RunRequest'') (valid_run_request request)) (\<lambda>u. ret request))))"

text \<open>
  What follows from a recovery decision during execution; \<open>budget\<close> as in the repair loop.
\<close>

definition after_execution_failure ::
  "nat \<Rightarrow> 's harness \<Rightarrow> bool \<Rightarrow> recovery \<Rightarrow> run_request \<Rightarrow> fidelity \<Rightarrow> lane \<Rightarrow> ('s, lane round) run" where
  "after_execution_failure fuel h budget r request f l =
     (if ro_action r = Recovery_RETRY_SAME_COMMIT \<or> ro_action r = Recovery_ADJUST_APPROVED_RUNTIME_SETTING
      then rerun_adjusted h r request f l
      else perform (repair_loop fuel h budget False (ln_experiment_id l) (ln_proposal_id l) r) (\<lambda>ending.
        case ending of Repaired p \<Rightarrow> ret (Again (rerun_with p request f l)) | _ \<Rightarrow> finish h))"

text \<open>One repair; when Gate A accepts the stage runs again, otherwise \<open>otherwise\<close>.\<close>

definition repair_and_rerun ::
  "'s harness \<Rightarrow> recovery \<Rightarrow> run_request \<Rightarrow> fidelity \<Rightarrow> lane \<Rightarrow> ('s, lane round) run \<Rightarrow> ('s, lane round) run" where
  "repair_and_rerun h r request f l otherwise =
     perform (execute_code_repair h r (ln_proposal_id l)) (\<lambda>p.
     if pk_accepted (cp_check p) then ret (Again (rerun_with p request f l)) else otherwise)"

section \<open>Gate B\<close>

text \<open>The output and the cause of its event, or the end of the round.\<close>

datatype 'a verdict = Verdict 'a | Round_over "lane round"

definition over :: "('s, lane round) run \<Rightarrow> ('s, 'a verdict) run" where
  "over m = perform m (\<lambda>r. ret (Round_over r))"

definition check_output ::
  "'s harness \<Rightarrow> run_request \<Rightarrow> fidelity \<Rightarrow> lane \<Rightarrow> run_result \<Rightarrow> string
   \<Rightarrow> ('s, (output_check_result \<times> string) verdict) run" where
  "check_output h request f l result finished_id =
     (let i = ln_experiment_id l; k = ln_attempt l;
          give_up = abandon h l f (ln_proposal_id l) ''STAGE_ABANDONED'' in
      attempt (await (h_check_output h result))
       (\<lambda>err. perform (recover_adapter_failure h i k Stage_output_gate err (Some finished_id)) (\<lambda>(event, res, r).
          if ro_action r = Recovery_RETRY_SAME_COMMIT
          then attempt (await (h_check_output h result))
            (\<lambda>err'. perform (recover_adapter_failure h i k Stage_output_gate err' (Some (ro_event_id r))) (\<lambda>(event', res', r').
               over (if is_code_recovery (ro_action r') then repair_and_rerun h r' request f l give_up else give_up)))
            (\<lambda>output. ret (Verdict (output, ro_event_id r)))
          else over (if is_code_recovery (ro_action r) then repair_and_rerun h r request f l give_up else give_up)))
       (\<lambda>output. ret (Verdict (output, finished_id))))"

section \<open>Evaluation\<close>

definition stage_population :: "fidelity \<Rightarrow> population" where
  "stage_population f = (if f = Fidelity_PROXY then Population_INTERNAL_PROXY else Population_PUBLIC_VALIDATION)"

text \<open>What the evaluation of a stage needs: the metrics of baseline, parent and best, and the request.\<close>

record evaluation_inputs =
  vi_baseline :: "(string, pyfloat) dict"
  vi_parent :: "(string, pyfloat) dict"
  vi_best :: "(string, pyfloat) dict"
  vi_request :: evaluation_request

definition evaluation_request_for ::
  "'s harness \<Rightarrow> run_request \<Rightarrow> fidelity \<Rightarrow> lane \<Rightarrow> output_check_result \<Rightarrow> string
   \<Rightarrow> (string, pyfloat) dict \<Rightarrow> (string, pyfloat) dict \<Rightarrow> ('s, evaluation_inputs) run" where
  "evaluation_request_for h request f l output output_event_id baseline parent =
     perform (await (h_lock h)) (\<lambda>u.
     perform (get_state h) (\<lambda>s.
     perform (reference_metrics h (st_best_experiment_id s) f) (\<lambda>best.
     let q = \<lparr>eq_run_id = h_run_id h, eq_experiment_id = ln_experiment_id l, eq_attempt = ln_attempt l,
       eq_output_checked_event_id = output_event_id, eq_prediction_artifact = oc_prediction_artifact output,
       eq_population = stage_population f, eq_fidelity = f, eq_seed = rq_seed request,
       eq_contract_sha256 = vc_contract_sha256 (h_contract h),
       eq_evaluator_sha256 = cfg_evaluator_sha256 (h_config h),
       eq_baseline_summary = baseline, eq_parent_summary = parent, eq_previous_best_summary = best,
       eq_public_query_index = (if stage_population f = Population_PUBLIC_VALIDATION
         then Some (st_public_validation_queries s + 1) else None)\<rparr> in
     perform (ensure (ValidationError ''EvaluationRequest'') (valid_evaluation_request q)) (\<lambda>u.
     ret \<lparr>vi_baseline = baseline, vi_parent = parent, vi_best = best, vi_request = q\<rparr>))))"

definition record_evaluation ::
  "'s harness \<Rightarrow> fidelity \<Rightarrow> lane \<Rightarrow> evaluation_result \<Rightarrow> string \<Rightarrow> ('s, event) run" where
  "record_evaluation h f l evaluation cause =
     perform (lift_res (validate_metric_set (h_config h) (ev_metric_set evaluation))) (\<lambda>u.
     record_event h (Evaluation_completed evaluation) (marked (''evaluation_'' @ fidelity_value f)
       (ln_experiment_id l) (ln_attempt l) (Some cause) (Some (ev_resource_delta evaluation))))"

definition run_evaluation ::
  "'s harness \<Rightarrow> fidelity \<Rightarrow> lane \<Rightarrow> evaluation_request \<Rightarrow> string \<Rightarrow> ('s, evaluation_result) run" where
  "run_evaluation h f l q cause =
     perform (await (h_evaluate h q)) (\<lambda>evaluation.
     perform (record_evaluation h f l evaluation cause) (\<lambda>e. ret evaluation))"

text \<open>
  The handler around building the request and evaluating: \<open>inputs\<close> is \<^verbatim>\<open>None\<close> when the failure
  came before the request was built.
\<close>

definition evaluation_failed ::
  "'s harness \<Rightarrow> run_request \<Rightarrow> fidelity \<Rightarrow> lane \<Rightarrow> string \<Rightarrow> evaluation_inputs option \<Rightarrow> failure
   \<Rightarrow> ('s, (evaluation_inputs \<times> evaluation_result \<times> string) verdict) run" where
  "evaluation_failed h request f l output_event_id inputs err =
     (let i = ln_experiment_id l; k = ln_attempt l in
      perform (recover_adapter_failure h i k Stage_evaluation err (Some output_event_id)) (\<lambda>(event, res, r).
      if ro_action r = Recovery_RETRY_SAME_COMMIT then
        (case inputs of None \<Rightarrow> over (finish h)
         | Some x \<Rightarrow>
            attempt (perform (await (h_lock h)) (\<lambda>u. run_evaluation h f l (vi_request x) (ro_event_id r)))
              (\<lambda>err'. perform (recover_adapter_failure h i k Stage_evaluation err' (Some (ro_event_id r)))
                 (\<lambda>(event', res', r').
                   let give_up = abandon h l f (event_id event') ''EVALUATION_ABANDONED'' in
                   over (if is_code_recovery (ro_action r') then repair_and_rerun h r' request f l give_up else give_up)))
              (\<lambda>evaluation. ret (Verdict (x, evaluation, ro_event_id r))))
      else if ro_action r = Recovery_ADJUST_APPROVED_RUNTIME_SETTING then over (rerun_adjusted h r request f l)
      else if is_code_recovery (ro_action r)
      then over (repair_and_rerun h r request f l (abandon h l f (event_id event) ''EVALUATION_REPAIR_REJECTED''))
      else over (abandon h l f (event_id event) ''EVALUATION_ABANDONED'')))"

definition evaluate_stage ::
  "'s harness \<Rightarrow> run_request \<Rightarrow> fidelity \<Rightarrow> lane \<Rightarrow> output_check_result \<Rightarrow> string
   \<Rightarrow> ('s, (evaluation_inputs \<times> evaluation_result \<times> string) verdict) run" where
  "evaluate_stage h request f l output output_event_id =
     perform (baseline_metrics h) (\<lambda>baseline.
     perform (reference_metrics h (rp_parent_experiment_id (ln_spec l)) f) (\<lambda>parent.
     attempt (evaluation_request_for h request f l output output_event_id baseline parent)
       (evaluation_failed h request f l output_event_id None)
       (\<lambda>x. attempt (run_evaluation h f l (vi_request x) output_event_id)
          (evaluation_failed h request f l output_event_id (Some x))
          (\<lambda>evaluation. ret (Verdict (x, evaluation, output_event_id))))))"

section \<open>Decision\<close>

definition decision_context :: "'s harness \<Rightarrow> lane \<Rightarrow> evaluation_inputs \<Rightarrow> evaluation_decision_context res" where
  "decision_context h l x = (let name = cfg_primary_metric_name (h_config h) in
     fetch (KeyError name) (dget (vi_baseline x) name) (\<lambda>baseline.
     fetch (KeyError name) (dget (vi_parent x) name) (\<lambda>parent.
     fetch (KeyError name) (dget (vi_best x) name) (\<lambda>best.
     let c = \<lparr>dc_run_id = h_run_id h, dc_experiment_id = ln_experiment_id l, dc_baseline_score = baseline,
       dc_parent_score = Some parent, dc_previous_best_score = Some best\<rparr> in
     guarded (ValidationError ''EvaluationDecisionContext'') (valid_evaluation_decision_context c) (Inr c)))))"

definition decide_stage ::
  "'s harness \<Rightarrow> run_request \<Rightarrow> fidelity \<Rightarrow> lane \<Rightarrow> evaluation_result \<Rightarrow> evaluation_decision_context \<Rightarrow> string
   \<Rightarrow> ('s, (experiment_decision \<times> string) verdict) run" where
  "decide_stage h request f l evaluation context evaluation_event_id =
     (let i = ln_experiment_id l; k = ln_attempt l in
      attempt (await (h_decide h evaluation context))
       (\<lambda>err. perform (recover_adapter_failure h i k Stage_evaluation err (Some evaluation_event_id)) (\<lambda>(event, res, r).
          if ro_action r = Recovery_RETRY_SAME_COMMIT
          then attempt (await (h_decide h evaluation context))
            (\<lambda>err'. perform (recover_adapter_failure h i k Stage_evaluation err' (Some (ro_event_id r)))
               (\<lambda>x. over (finish h)))
            (\<lambda>decision. ret (Verdict (decision, ro_event_id r)))
          else if ro_action r = Recovery_ADJUST_APPROVED_RUNTIME_SETTING then over (rerun_adjusted h r request f l)
          else if is_code_recovery (ro_action r) then over (repair_and_rerun h r request f l (finish h))
          else over (finish h)))
       (\<lambda>decision. ret (Verdict (decision, evaluation_event_id))))"

text \<open>The first verified no-op gets bounded repairs; the loop hands the rest back to planning.\<close>

definition handle_no_op ::
  "nat \<Rightarrow> 's harness \<Rightarrow> run_request \<Rightarrow> fidelity \<Rightarrow> lane \<Rightarrow> string \<Rightarrow> evaluation_result \<Rightarrow> ('s, lane round) run" where
  "handle_no_op fuel h request f l evaluation_event_id evaluation =
     perform (recover_failure h evaluation_event_id (Failed_evaluation evaluation) (ln_experiment_id l)) (\<lambda>r.
     perform (repair_loop fuel h True True (ln_experiment_id l) (ln_proposal_id l) r) (\<lambda>ending.
     case ending of Repaired p \<Rightarrow> ret (Again (rerun_with p request f l)) | _ \<Rightarrow> finish h))"

definition promoted_queue :: "fidelity \<Rightarrow> fidelity list \<Rightarrow> fidelity list" where
  "promoted_queue f queue = (if queue = [] \<or> hd queue \<noteq> f then f # queue else queue)"

definition update_best ::
  "'s harness \<Rightarrow> lane \<Rightarrow> evaluation_result \<Rightarrow> experiment_decision \<Rightarrow> string \<Rightarrow> ('s, unit) run" where
  "update_best h l evaluation decision decision_event_id =
     (let m = ev_metric_set evaluation in
      if \<not> ed_best_eligible decision then ret ()
      else perform (get_state h) (\<lambda>s.
        if (case st_best_primary_score s of None \<Rightarrow> True | Some b \<Rightarrow> b < ms_primary_score m)
        then perform (record_event h (Best_updated \<lparr>bu_experiment_id = ln_experiment_id l,
              bu_commit_sha = pc_patch_commit_sha (cp_patch (ln_patch l)),
              bu_primary_metric_name = ms_primary_metric_name m, bu_primary_score = ms_primary_score m,
              bu_decision_event_id = decision_event_id\<rparr>)
            (marked ''best_updated'' (ln_experiment_id l) (ln_attempt l) (Some decision_event_id) None)) (\<lambda>e. ret ())
        else ret ()))"

definition record_decision ::
  "'s harness \<Rightarrow> fidelity \<Rightarrow> lane \<Rightarrow> evaluation_result \<Rightarrow> experiment_decision \<Rightarrow> string \<Rightarrow> string
   \<Rightarrow> ('s, lane round) run" where
  "record_decision h f l evaluation raw evaluation_event_id cause =
     (let d = raw\<lparr>ed_evaluation_event_id := Some evaluation_event_id\<rparr>; i = ln_experiment_id l; k = ln_attempt l in
      perform (ensure (ValidationError ''ExperimentDecision'') (valid_experiment_decision d)) (\<lambda>u.
      perform (record_event h (Experiment_decided d) (marked (''decision_'' @ fidelity_value f) i k (Some cause)
        (Some (ed_resource_delta d)))) (\<lambda>e.
      perform (record_lesson h (ed_lesson_candidate d) ''lesson_recorded'' i k (event_id e)) (\<lambda>u.
      if ed_decision d = Decision_PROMOTE
      then (case ed_next_fidelity d of None \<Rightarrow> fail (Internal (Raised ''AssertionError'' []))
        | Some g \<Rightarrow> ret (Again (l\<lparr>ln_queue := promoted_queue g (ln_queue l)\<rparr>)))
      else perform (update_best h l evaluation d (event_id e)) (\<lambda>u. finish h)))))"

definition smoke_decision :: "'s harness \<Rightarrow> lane \<Rightarrow> experiment_decision" where
  "smoke_decision h l = \<lparr>ed_run_id = h_run_id h, ed_experiment_id = ln_experiment_id l,
     ed_evaluation_event_id = None, ed_decision = Decision_PROMOTE, ed_reason_code = ''smoke_output_verified'',
     ed_fidelity_completed = Fidelity_SMOKE, ed_parent_eligible = True, ed_best_eligible = False,
     ed_next_fidelity = Some (case ln_queue l of [] \<Rightarrow> Fidelity_PROXY | g # _ \<Rightarrow> g),
     ed_supporting_event_ids = [], ed_lesson_candidate = None, ed_resource_delta = zero_delta\<rparr>"

section \<open>A stage\<close>

text \<open>From an accepted output on: the smoke promotion, or evaluation and decision.\<close>

definition judge_stage ::
  "nat \<Rightarrow> 's harness \<Rightarrow> run_request \<Rightarrow> fidelity \<Rightarrow> lane \<Rightarrow> output_check_result \<Rightarrow> string \<Rightarrow> ('s, lane round) run" where
  "judge_stage fuel h request f l output output_event_id =
     (if f = Fidelity_SMOKE
      then perform (record_event h (Experiment_decided (smoke_decision h l))
          (marked ''decision_smoke'' (ln_experiment_id l) (ln_attempt l) (Some output_event_id) None)) (\<lambda>e. ret (Again l))
      else perform (evaluate_stage h request f l output output_event_id) (\<lambda>evaluated.
        case evaluated of Round_over r \<Rightarrow> ret r
        | Verdict (x, evaluation, cause) \<Rightarrow>
          perform (record_evaluation h f l evaluation cause) (\<lambda>e.
          perform (stop_if_runtime_budget_exhausted h) (\<lambda>stopped.
          if stopped then finish h
          else if ta_verdict (ev_trust evaluation) = Verdict_NO_OP
          then handle_no_op fuel h request f l (event_id e) evaluation
          else perform (lift_res (decision_context h l x)) (\<lambda>context.
            perform (decide_stage h request f l evaluation context (event_id e)) (\<lambda>decided.
            case decided of Round_over r \<Rightarrow> ret r
            | Verdict (decision, cause') \<Rightarrow> record_decision h f l evaluation decision (event_id e) cause'))))))"

definition stage_output ::
  "nat \<Rightarrow> 's harness \<Rightarrow> run_request \<Rightarrow> fidelity \<Rightarrow> lane \<Rightarrow> run_result \<Rightarrow> string \<Rightarrow> ('s, lane round) run" where
  "stage_output fuel h request f l result finished_id =
     perform (check_output h request f l result finished_id) (\<lambda>checked.
     case checked of Round_over r \<Rightarrow> ret r
     | Verdict (output, cause) \<Rightarrow>
        perform (record_event h (Output_checked output) (marked (''output_checked_'' @ fidelity_value f)
          (ln_experiment_id l) (ln_attempt l) (Some cause) (Some (oc_resource_delta output)))) (\<lambda>e.
        if oc_accepted output then judge_stage fuel h request f l output (event_id e)
        else perform (recover_failure h (event_id e) (Failed_output output) (ln_experiment_id l)) (\<lambda>r.
          perform (repair_loop fuel h True False (ln_experiment_id l) (ln_proposal_id l) r) (\<lambda>ending.
          case ending of Repaired p \<Rightarrow> ret (Again (rerun_with p request f l))
          | Handed_back \<Rightarrow> finish h
          | Not_repaired \<Rightarrow> abandon h l f (ln_proposal_id l) ''STAGE_ABANDONED''))))"

definition run_stage :: "nat \<Rightarrow> 's harness \<Rightarrow> fidelity \<Rightarrow> lane \<Rightarrow> ('s, lane round) run" where
  "run_stage fuel h f l0 =
     perform (stage_request h l0 f) (\<lambda>request.
     let i = ln_experiment_id l0; k = ln_attempt l0; l = l0\<lparr>ln_template := None, ln_cause := None\<rparr> in
     perform (record_event h (Execution_started request) (marked (''execution_started_'' @ fidelity_value f) i k
       (Some (or_else (ln_cause l0) (cp_check_event_id (ln_patch l0)))) None)) (\<lambda>started.
     attempt (await (h_run h request))
       (\<lambda>err. perform (recover_adapter_failure h i k Stage_execution err (Some (event_id started))) (\<lambda>(event, res, r).
          after_execution_failure fuel h False r request f l))
       (\<lambda>result.
     perform (record_event h (Execution_finished result) (marked (''execution_finished_'' @ fidelity_value f) i k
       (Some (event_id started)) (Some (rr_resource_delta result)))) (\<lambda>finished.
     perform (stop_if_runtime_budget_exhausted h) (\<lambda>stopped.
     if stopped then finish h
     else if rr_outcome result \<noteq> Outcome_SUCCESS
     then perform (recover_failure h (event_id finished) (Failed_run result) i) (\<lambda>r.
       after_execution_failure fuel h True r request f l)
     else stage_output fuel h request f l result (event_id finished))))))"

fun run_stages :: "nat \<Rightarrow> nat \<Rightarrow> 's harness \<Rightarrow> lane \<Rightarrow> ('s, run_state) run" where
  "run_stages 0 fuel h l = fail Out_of_fuel"
| "run_stages (Suc n) fuel h l = (case ln_queue l of
      [] \<Rightarrow> get_state h
    | f # queue \<Rightarrow> perform (run_stage fuel h f (l\<lparr>ln_queue := queue, ln_attempt := ln_attempt l + 1\<rparr>)) (\<lambda>r.
        case r of Finish s \<Rightarrow> ret s | Again l' \<Rightarrow> run_stages n fuel h l'))"

definition first_lane :: "experiment_spec \<Rightarrow> string \<Rightarrow> checked_patch \<Rightarrow> lane" where
  "first_lane spec proposal_id p = \<lparr>ln_spec = spec, ln_proposal_id = proposal_id, ln_patch = p,
     ln_queue = es_fidelity_plan spec, ln_attempt = 0, ln_settings = [], ln_template = None, ln_cause = None\<rparr>"

definition run_prepared :: "nat \<Rightarrow> 's harness \<Rightarrow> experiment_spec \<times> string \<Rightarrow> ('s, run_state) run" where
  "run_prepared fuel h prepared = (case prepared of (spec, proposal_id) \<Rightarrow>
     perform (obtain_patch fuel h spec proposal_id) (\<lambda>obtained.
     case obtained of Finish s \<Rightarrow> ret s
     | Again p \<Rightarrow> run_stages fuel fuel h (first_lane spec proposal_id p)))"

definition run_experiment_body :: "nat \<Rightarrow> 's harness \<Rightarrow> ('s, run_state) run" where
  "run_experiment_body fuel h =
     perform (prepare_experiment h) (\<lambda>prepared. case prepared of
        None \<Rightarrow> get_state h | Some p \<Rightarrow> run_prepared fuel h p)"

end
