(* ===== verification/Harness_Run.thy ===== *)
theory Harness_Run
  imports Harness_Lane Research_Planner
begin

text \<open>
  The drivers of \<^verbatim>\<open>router.py\<close>: one experiment with the handlers around it, the loop until the
  run is stopped (with one direction at a time), the synthesis after a parallel round and the lane of a
  parallel round, and finalization.  The gathering of concurrent lanes (\<^verbatim>\<open>run_parallel_round\<close>,
  \<^verbatim>\<open>_prepare_parallel_round\<close>) is not part of the model.
\<close>

section \<open>One experiment\<close>

definition repair_unavailable :: "'s harness \<Rightarrow> recovery_action \<Rightarrow> ('s, run_state) run" where
  "repair_unavailable h a =
     (if a = Recovery_RETURN_TO_PLANNER then get_state h
      else perform (get_state h) (\<lambda>s.
        perform (if truthy_str (st_active_experiment_id s)
                 then lane_closed_safely h (the (st_active_experiment_id s)) else ret False) (\<lambda>closed.
        if closed then ret s
        else case failed_stage_stop ''coding repair'' a of (code, reason) \<Rightarrow> stop_and_report h code reason)))"

definition handled_unexpected :: "'s harness \<Rightarrow> failure \<Rightarrow> ('s, run_state) run" where
  "handled_unexpected h f = catching (handle_unexpected_adapter_failure h f)
     (\<lambda>again. stop_and_report h ''RECOVERY_CONTROL_PLANE_FAILURE''
        ''Recovery could not safely record an adapter failure; the run was stopped.'')"

definition run_one_experiment :: "nat \<Rightarrow> 's harness \<Rightarrow> ('s, run_state) run" where
  "run_one_experiment fuel h = catching (run_experiment_body fuel h)
     (\<lambda>f. case f of
        Resumable m \<Rightarrow> fail (Resumable m)
      | Repair_unavailable a cause \<Rightarrow> repair_unavailable h a
      | _ \<Rightarrow> handled_unexpected h f)"

section \<open>Parallel directions\<close>

text \<open>\<^verbatim>\<open>re.fullmatch(r"exp_(\d+)", id)\<close>\<close>

definition exp_number :: "string \<Rightarrow> nat option" where
  "exp_number i = (let digits = drop 4 i in
     if py_startswith ''exp_'' i \<and> digits \<noteq> [] \<and> list_all is_digit digits
     then Some (number_of_digits digits) else None)"

definition parallel_experiment_ids :: "event list \<Rightarrow> nat \<Rightarrow> string list" where
  "parallel_experiment_ids es count =
     (let numbers = List.map_filter (\<lambda>e. Option.bind (as_proposed (payload e)) (\<lambda>s. exp_number (rp_experiment_id s))) es;
          start = foldr max numbers 0 + 1
      in map (\<lambda>v. ''exp_'' @ padded 3 (digits_of v)) [start..<start + count])"

text \<open>
  The operation again after a transient provider error, up to the configured number of attempts, with a
  growing pause.
\<close>

fun planner_attempts ::
  "nat \<Rightarrow> 's harness \<Rightarrow> int \<Rightarrow> ('s, planner_output) call \<Rightarrow> ('s, planner_output) run" where
  "planner_attempts 0 h k operation = fail (Internal (Raised ''AssertionError'' ''planner retry loop exhausted without a result''))"
| "planner_attempts (Suc n) h k operation =
     attempt (await operation)
       (\<lambda>f. if (case f of Adapter_error e \<Rightarrow> ae_transient e | _ \<Rightarrow> False) \<and> n \<noteq> 0
            then (let delay = fmul (cfg_research_planning_retry_backoff_seconds (h_config h)) (of_int k) in
              perform (if 0 < delay then await (h_sleep h delay) else ret ()) (\<lambda>u.
              planner_attempts n h (k + 1) operation))
            else fail f)
       ret"

definition request_planner_with_retry :: "'s harness \<Rightarrow> ('s, planner_output) call \<Rightarrow> ('s, planner_output) run" where
  "request_planner_with_retry h operation =
     planner_attempts (nat (cfg_research_planning_max_attempts (h_config h))) h 1 operation"

definition improved_in_round :: "run_state \<Rightarrow> pyfloat option \<Rightarrow> string \<Rightarrow> bool res" where
  "improved_in_round s incumbent i = fetch (KeyError i) (node_of s i) (\<lambda>n. Inr
     (node_status n = Exp_ACCEPTED
      \<and> (case node_metric_set n of None \<Rightarrow> False
           | Some m \<Rightarrow> (case incumbent of None \<Rightarrow> True | Some b \<Rightarrow> b < ms_primary_score m))
      \<and> node_best_eligible n))"

fun round_improvements :: "run_state \<Rightarrow> pyfloat option \<Rightarrow> string list \<Rightarrow> string list res" where
  "round_improvements s incumbent [] = Inr []"
| "round_improvements s incumbent (i # ids) = bind_res (improved_in_round s incumbent i) (\<lambda>improved.
     bind_res (round_improvements s incumbent ids) (\<lambda>rest. Inr (if improved then i # rest else rest)))"

fun with_experiment_id :: "string \<Rightarrow> proposal_or_spec \<Rightarrow> proposal_or_spec" where
  "with_experiment_id i (Proposal p) = Proposal (p\<lparr>rp_experiment_id := i\<rparr>)"
| "with_experiment_id i (Spec s) = Spec (s\<lparr>rp_experiment_id := i\<rparr>)"

definition synthesis_proposal ::
  "'s harness \<Rightarrow> planner_context \<Rightarrow> planner_output \<Rightarrow> string \<Rightarrow> ('s, experiment_spec \<times> string) run" where
  "synthesis_proposal h context out cause =
     (case po_spec out of
        Some p \<Rightarrow>
          if po_action out \<noteq> Planner_PROPOSE then resumable ''research planner could not produce the required round synthesis''
          else if proposal_context_id p \<noteq> cx_context_id context
          then resumable ''synthesis proposal cites a different planner context''
          else perform (get_events h) (\<lambda>es.
            bind_proposal h context (Some (with_experiment_id (hd (parallel_experiment_ids es 1)) p))
              (po_resource_delta out) ''synthesis_proposed'' cause ''synthesis proposal cites a different planner context'')
      | None \<Rightarrow> resumable ''research planner could not produce the required round synthesis'')"

definition run_synthesized :: "nat \<Rightarrow> 's harness \<Rightarrow> experiment_spec \<times> string \<Rightarrow> ('s, run_state) run" where
  "run_synthesized fuel h prepared = catching (run_prepared fuel h prepared)
     (\<lambda>f. case f of Resumable m \<Rightarrow> fail (Resumable m) | _ \<Rightarrow> handle_unexpected_adapter_failure h f)"

definition run_round_synthesis :: "nat \<Rightarrow> 's harness \<Rightarrow> string list \<Rightarrow> ('s, run_state) run" where
  "run_round_synthesis fuel h components =
     perform (get_events h) (\<lambda>es.
     perform (await (h_build_planner h es)) (\<lambda>context.
     if es = [] then fail (Internal IndexError)
     else perform (record_event h (Context_created (Planner_context context))
       (marked ''synthesis_planner_context'' ''run'' 0 (Some (event_id (last es))) None)) (\<lambda>context_event.
     case h_propose_synthesis h of
       None \<Rightarrow> fail (Internal (Raised ''OrchestrationError''
         ''parallel synthesis requires a synthesis-capable research planner''))
     | Some synthesize \<Rightarrow>
        attempt (request_planner_with_retry h (synthesize context components))
          (\<lambda>f. perform (record_planning_failure h (cx_context_id context) f (Some (event_id context_event))) (\<lambda>e.
             stop_and_report h ''PLANNER_PROVIDER_FAILURE''
               ''The synthesis researcher failed before proposing an aligned candidate.''))
          (\<lambda>out. perform (synthesis_proposal h context out (event_id context_event)) (run_synthesized fuel h)))))"

text \<open>\<^verbatim>\<open>_event_experiment_id\<close>: the experiment of the model a payload nests.\<close>

fun event_experiment_id :: "event_payload \<Rightarrow> string option" where
  "event_experiment_id (Experiment_proposed s) = Some (rp_experiment_id s)"
| "event_experiment_id (Patch_created c) = Some (pc_experiment_id c)"
| "event_experiment_id (Patch_checked r) = Some (pk_experiment_id r)"
| "event_experiment_id (Execution_started r) = Some (rq_experiment_id r)"
| "event_experiment_id (Execution_finished r) = Some (rr_experiment_id r)"
| "event_experiment_id (Adapter_failed r) = Some (af_experiment_id r)"
| "event_experiment_id (Output_checked r) = Some (oc_experiment_id r)"
| "event_experiment_id (Evaluation_completed r) = Some (ev_experiment_id r)"
| "event_experiment_id (Recovery_decided d) = Some (rn_experiment_id d)"
| "event_experiment_id (Experiment_decided d) = Some (ed_experiment_id d)"
| "event_experiment_id (Lesson_recorded i c) = None"
| "event_experiment_id (Context_created c) = cx_experiment_id (context_base c)"
| "event_experiment_id _ = None"

definition lane_failed :: "'s harness \<Rightarrow> string \<Rightarrow> failure \<Rightarrow> ('s, run_state) run" where
  "lane_failed h i f =
     (if is_control_failure f then fail f
      else perform (get_state h) (\<lambda>s.
        perform (lift_res (fetch (KeyError i) (node_of s i) Inr)) (\<lambda>n.
        perform (get_events h) (\<lambda>es.
        let stage = adapter_failure_stage es i in
        perform (get_events h) (\<lambda>es'.
        perform (lift_res (fetch (Raised ''RuntimeError'' ''coroutine raised StopIteration'')
          (last_such (\<lambda>e. event_experiment_id (payload e) = Some i) es') Inr)) (\<lambda>cause.
        perform (recover_adapter_failure h i (max 1 (node_attempt_count n)) stage f (Some (event_id cause))) (\<lambda>(event, res, r).
        perform (lane_closed_safely h i) (\<lambda>closed w.
        if closed then get_state h w
        else get_state h (if w_pending w = None
          then w\<lparr>w_pending := Some (stop_with (''ADAPTER_FAILURE_'' @ py_upper (action_value (ro_action r)))
            (''A parallel '' @ stage_value stage @ '' adapter failed; recovery recorded ''
             @ action_value (ro_action r) @ '' and the round stopped safely.''))\<rparr>
          else w)))))))))"

definition run_parallel_lane :: "nat \<Rightarrow> 's harness \<Rightarrow> experiment_spec \<times> string \<Rightarrow> ('s, run_state) run" where
  "run_parallel_lane fuel h prepared =
     catching (run_prepared fuel h prepared) (lane_failed h (rp_experiment_id (fst prepared)))"

section \<open>The run\<close>

definition run_is_over :: "run_state \<Rightarrow> bool" where
  "run_is_over s \<longleftrightarrow> st_status s \<in> {Run_STOPPED, Run_FINALIZING, Run_FINALIZED, Run_FAILED}"

text \<open>The loop of \<^verbatim>\<open>run_until_stopped\<close> with one direction at a time.\<close>

fun run_rounds :: "nat \<Rightarrow> nat \<Rightarrow> 's harness \<Rightarrow> ('s, run_state) run" where
  "run_rounds 0 fuel h = fail Out_of_fuel"
| "run_rounds (Suc n) fuel h = perform (get_state h) (\<lambda>s.
     if run_is_over s then ret s
     else if st_phase s \<noteq> ''planning'' \<and> st_phase s \<noteq> ''planner_context''
     then fail (Internal (Raised ''OrchestrationError'' ''run can resume only from a durable planning checkpoint''))
     else perform (run_one_experiment fuel h) (\<lambda>s'.
       if st_status s' = Run_STOPPED then ret s'
       else if st_last_event_id s' = st_last_event_id s
       then fail (Internal (Raised ''OrchestrationError'' ''outer loop made no durable ledger progress''))
       else run_rounds n fuel h))"

definition run_until_stopped :: "nat \<Rightarrow> 's harness \<Rightarrow> ('s, run_state) run" where
  "run_until_stopped fuel h = perform (get_events h) (\<lambda>es.
     if es = [] then fail (Internal (Raised ''OrchestrationError'' ''run must be bootstrapped before execution''))
     else run_rounds fuel fuel h)"

section \<open>Finalization\<close>

record final_run =
  fr_result :: run_result
  fr_finished_id :: string

definition final_request :: "'s harness \<Rightarrow> candidate_finalization_plan \<Rightarrow> int \<Rightarrow> string \<Rightarrow> run_request" where
  "final_request h plan k command = (let c = h_config h in
     \<lparr>rq_run_id = cfg_run_id c, rq_experiment_id = fp_experiment_id plan, rq_attempt = k,
      rq_fidelity = Fidelity_FULL, rq_command_id = command, rq_patch_commit_sha = fp_commit_sha plan,
      rq_patch_receipt_id = fp_patch_receipt_id plan, rq_seed = fp_seed plan,
      rq_data_manifest_sha256 = cfg_data_manifest_sha256 c,
      rq_timeout_seconds = (case dget (cfg_timeout_profiles c) ''standard'' of None \<Rightarrow> 600 | Some t \<Rightarrow> t),
      rq_memory_limit_mb = 10240, rq_gpu_memory_limit_mb = 0, rq_network_enabled = False,
      rq_runtime_settings = []\<rparr>)"

definition run_final_execution ::
  "'s harness \<Rightarrow> candidate_finalization_plan \<Rightarrow> int \<Rightarrow> string \<Rightarrow> string \<Rightarrow> ('s, final_run) run" where
  "run_final_execution h plan k command cause =
     (let request = final_request h plan k command; i = fp_experiment_id plan in
      perform (ensure (ValidationError ''RunRequest'') (valid_run_request request)) (\<lambda>u.
      perform (record_event h (Execution_started request)
        (marked (''final_'' @ command @ ''_started'') i k (Some cause) None)) (\<lambda>started.
      perform (await (h_run h request)) (\<lambda>result.
      perform (record_event h (Execution_finished result) (marked (''final_'' @ command @ ''_finished'') i k
        (Some (event_id started)) (Some (rr_resource_delta result)))) (\<lambda>finished.
      perform (ensure (FinalizationError ''execution failed'') (rr_outcome result = Outcome_SUCCESS)) (\<lambda>u.
      ret \<lparr>fr_result = result, fr_finished_id = event_id finished\<rparr>))))))"

definition check_final_output :: "'s harness \<Rightarrow> final_run \<Rightarrow> string \<Rightarrow> ('s, output_check_result \<times> string) run" where
  "check_final_output h r command =
     perform (await (h_check_output h (fr_result r))) (\<lambda>output.
     perform (record_event h (Output_checked output) (marked (''final_'' @ command @ ''_output_checked'')
       (rr_experiment_id (fr_result r)) (rr_attempt (fr_result r)) (Some (fr_finished_id r))
       (Some (oc_resource_delta output)))) (\<lambda>e.
     perform (ensure (FinalizationError ''output failed Gate B'') (oc_accepted output)) (\<lambda>u.
     ret (output, event_id e))))"

definition finalize_baseline :: "'s harness \<Rightarrow> event list \<Rightarrow> run_state \<Rightarrow> ('s, run_state) run" where
  "finalize_baseline h es s = (case h_prepare_baseline h of
      None \<Rightarrow> fail (Internal (FinalizationError ''selected baseline requires a protected final submission provider''))
    | Some prepare \<Rightarrow>
       perform (lift_res (baseline_reproduction_event_id es s)) (\<lambda>reproduction_id.
       perform (await prepare) (\<lambda>submission.
       perform (lift_res (fetch (ValidationError ''FinalSelectedPayload'') (st_best_commit_sha s) Inr)) (\<lambda>commit.
       perform (record_event h (Final_selected \<lparr>fs_experiment_id = ''baseline'', fs_commit_sha = commit,
           fs_reproduction_evaluation_event_id = reproduction_id\<rparr>)
         (marked ''final_selected'' ''baseline'' 0 (Some reproduction_id) None)) (\<lambda>selected.
       perform (record_event h (Submission_checked submission)
         (marked ''submission_checked'' ''baseline'' 0 (Some (event_id selected)) None)) (\<lambda>e.
       get_state h))))))"

definition exactly_reproduced :: "candidate_finalization_plan \<Rightarrow> evaluation_result \<Rightarrow> bool" where
  "exactly_reproduced plan evaluation \<longleftrightarrow> ta_verdict (ev_trust evaluation) = Verdict_ACCEPTED
     \<and> ta_integrity (ev_trust evaluation) = Integrity_CLEAN
     \<and> Some (ms_primary_score (ev_metric_set evaluation)) = fp_best_primary_score plan"

text \<open>The clean reproduction: its evaluation event.\<close>

definition reproduce ::
  "'s harness \<Rightarrow> run_state \<Rightarrow> candidate_finalization_plan \<Rightarrow> string \<Rightarrow> ('s, string) run" where
  "reproduce h s plan stopped_id = (let i = fp_experiment_id plan; k = fp_next_attempt plan in
     perform (run_final_execution h plan k ''clean_reproduce'' stopped_id) (\<lambda>r.
     perform (check_final_output h r ''clean_reproduce'') (\<lambda>(output, output_id).
     perform (baseline_metrics h) (\<lambda>baseline.
     perform (lift_res (fetch (KeyError i) (node_of s i) Inr)) (\<lambda>n.
     perform (reference_metrics h (node_parent_experiment_id n) Fidelity_FULL) (\<lambda>parent.
     perform (reference_metrics h (Some i) Fidelity_FULL) (\<lambda>best.
     perform (get_state h) (\<lambda>now.
     let q = \<lparr>eq_run_id = h_run_id h, eq_experiment_id = i, eq_attempt = k, eq_output_checked_event_id = output_id,
       eq_prediction_artifact = oc_prediction_artifact output, eq_population = Population_PUBLIC_VALIDATION,
       eq_fidelity = Fidelity_FULL, eq_seed = fp_seed plan, eq_contract_sha256 = vc_contract_sha256 (h_contract h),
       eq_evaluator_sha256 = cfg_evaluator_sha256 (h_config h), eq_baseline_summary = baseline,
       eq_parent_summary = parent, eq_previous_best_summary = best,
       eq_public_query_index = Some (st_public_validation_queries now + 1)\<rparr> in
     perform (ensure (ValidationError ''EvaluationRequest'') (valid_evaluation_request q)) (\<lambda>u.
     perform (await (h_evaluate h q)) (\<lambda>evaluation.
     perform (lift_res (validate_metric_set (h_config h) (ev_metric_set evaluation))) (\<lambda>u.
     perform (record_event h (Evaluation_completed evaluation) (marked ''final_reproduction_evaluated'' i k
       (Some output_id) (Some (ev_resource_delta evaluation)))) (\<lambda>e.
     perform (ensure (FinalizationError ''clean reproduction did not exactly reproduce the trusted best score'')
       (exactly_reproduced plan evaluation)) (\<lambda>u. ret (event_id e))))))))))))))"

definition submission_checks :: "output_check_result \<Rightarrow> check_result list" where
  "submission_checks output = map (\<lambda>(name, status). \<lparr>ck_name = ''gate_b_'' @ name, ck_status = status, ck_summary = None\<rparr>)
       (sort_key fst (oc_checks output))
     @ [\<lparr>ck_name = ''official_submission_check'', ck_status = Check_PASS, ck_summary = None\<rparr>]"

definition submission_of :: "candidate_finalization_plan \<Rightarrow> output_check_result \<Rightarrow> submission_checked_payload" where
  "submission_of plan output = \<lparr>sc_accepted = True,
     sc_submission_artifact = (oc_prediction_artifact output)\<lparr>art_artifact_id := ''submission_'' @ fp_experiment_id plan,
       art_kind := Artifact_SUBMISSION\<rparr>,
     sc_checks = submission_checks output\<rparr>"

definition finalize_candidate :: "'s harness \<Rightarrow> event list \<Rightarrow> run_state \<Rightarrow> ('s, run_state) run" where
  "finalize_candidate h es s =
     perform (lift_res (plan_candidate_finalization es s)) (\<lambda>plan.
     perform (reproduce h s plan (event_id (last es))) (\<lambda>reproduction_id.
     let i = fp_experiment_id plan; k = fp_next_attempt plan + 1 in
     perform (run_final_execution h plan k ''candidate_final_infer'' reproduction_id) (\<lambda>final.
     perform (check_final_output h final ''candidate_final_infer'') (\<lambda>(output, output_id).
     perform (run_final_execution h plan (k + 1) ''submission_check'' output_id) (\<lambda>submission.
     perform (ensure (FinalizationError ''submission checker did not consume the accepted final prediction'')
       (case rr_prediction_artifact (fr_result submission) of None \<Rightarrow> False
        | Some a \<Rightarrow> art_sha256 a = art_sha256 (oc_prediction_artifact output))) (\<lambda>u.
     perform (ensure (ValidationError ''SubmissionCheckedPayload'') (valid_submission_checked (submission_of plan output))) (\<lambda>u.
     perform (record_event h (Final_selected \<lparr>fs_experiment_id = i, fs_commit_sha = fp_commit_sha plan,
         fs_reproduction_evaluation_event_id = reproduction_id\<rparr>)
       (marked ''final_selected'' i 0 (Some (fr_finished_id submission)) None)) (\<lambda>selected.
     perform (record_event h (Submission_checked (submission_of plan output))
       (marked ''submission_checked'' i 0 (Some (event_id selected)) None)) (\<lambda>e.
     get_state h)))))))))"

definition finalize :: "'s harness \<Rightarrow> ('s, run_state) run" where
  "finalize h =
     perform (get_events h) (\<lambda>es.
     perform (lift_res (project es)) (\<lambda>s.
     if st_status s = Run_FINALIZED then ret s
     else perform (ensure (FinalizationError ''finalization requires a stopped run'') (st_status s = Run_STOPPED)) (\<lambda>u.
       perform (ensure (FinalizationError ''finalization requires a normal deterministic stop reason'')
         (is_finalizable_stop_reason (st_stop_reason_code s))) (\<lambda>u.
       if st_best_experiment_id s = Some ''baseline'' then finalize_baseline h es s
       else finalize_candidate h es s))))"

definition run_to_completion :: "nat \<Rightarrow> 's harness \<Rightarrow> ('s, run_state) run" where
  "run_to_completion fuel h = perform (run_until_stopped fuel h) (\<lambda>s.
     if st_status s \<noteq> Run_STOPPED
     then fail (Internal (Raised ''OrchestrationError'' ''run stopped abnormally''))
     else finalize h)"

end
