(* ===== verification/Harness_Facts.thy ===== *)
theory Harness_Facts
  imports Harness_Run Ledger_File
begin

text \<open>
  What every program of the harness keeps, whatever its adapters do.  A relation between the world before
  and after is kept by a whole run when the operations on the ledger and the calls keep it: the
  locale \<open>world_relation\<close> states what the relation needs, its lemmas go through the definitions
  of the harness once, and the relation \<open>append_only\<close> on the bytes of the ledger is an instance.
\<close>

section \<open>Relations on worlds\<close>

definition maintains :: "('s world \<Rightarrow> 's world \<Rightarrow> bool) \<Rightarrow> ('s, 'a) run \<Rightarrow> bool" where
  "maintains G m \<longleftrightarrow> (\<forall>w. G w (snd (m w)))"

definition call_maintains :: "('s world \<Rightarrow> 's world \<Rightarrow> bool) \<Rightarrow> ('s, 'a) call \<Rightarrow> bool" where
  "call_maintains G c \<longleftrightarrow> (\<forall>w. G w (snd (c w)))"

text \<open>Every call of every adapter keeps the relation.\<close>

definition adapters_maintain :: "('s world \<Rightarrow> 's world \<Rightarrow> bool) \<Rightarrow> 's harness \<Rightarrow> bool" where
  "adapters_maintain G h \<longleftrightarrow> call_maintains G (h_read_contract h)
     \<and> (\<forall>es. call_maintains G (h_build_planner h es)) \<and> (\<forall>es s. call_maintains G (h_build_coder h es s))
     \<and> (\<forall>es i k. call_maintains G (h_build_recovery h es i k)) \<and> (\<forall>p. call_maintains G (h_bind_implementation h p))
     \<and> (\<forall>c. call_maintains G (h_propose h c))
     \<and> (\<forall>p. h_propose_synthesis h = Some p \<longrightarrow> (\<forall>c ids. call_maintains G (p c ids)))
     \<and> (\<forall>c s. call_maintains G (h_create_patch h c s)) \<and> (\<forall>c d. call_maintains G (h_repair_patch h c d))
     \<and> (\<forall>c d. call_maintains G (h_restart_from_trusted_parent h c d)) \<and> (\<forall>p. call_maintains G (h_check_patch h p))
     \<and> (\<forall>q. call_maintains G (h_run h q)) \<and> (\<forall>i v c. call_maintains G (h_decide_recovery h i v c))
     \<and> (\<forall>r. call_maintains G (h_check_output h r)) \<and> (\<forall>q. call_maintains G (h_evaluate h q))
     \<and> (\<forall>r c. call_maintains G (h_decide h r c))
     \<and> (\<forall>p. h_prepare_baseline h = Some p \<longrightarrow> call_maintains G p)
     \<and> call_maintains G (h_lock h) \<and> (\<forall>t. call_maintains G (h_sleep h t))"

named_theorems maintains_rules

locale world_relation =
  fixes G :: "'s world \<Rightarrow> 's world \<Rightarrow> bool"
  assumes same_ledger: "w_ledger w' = w_ledger w \<Longrightarrow> G w w'"
    and trans: "G w1 w2 \<Longrightarrow> G w2 w3 \<Longrightarrow> G w1 w3"
    and recorded: "G w (snd (record_event h p c w))"
    and read: "G w (snd (get_events h w))"
begin

lemma refl: "G w w"
  by (rule same_ledger) simp

lemma maintains_basic [maintains_rules]:
  "maintains G (ret x)" "maintains G (fail f)" "maintains G (lift_res r)" "maintains G (ensure e c)"
  "maintains G (record_event h p a)" "maintains G (get_events h)"
  using refl recorded read by (auto simp: maintains_def ret_def fail_def lift_res_def ensure_def split: sum.splits)

lemma maintains_perform [maintains_rules]:
  assumes "maintains G m" and "\<And>x. maintains G (k x)"
  shows "maintains G (perform m k)"
proof -
  have "G w (snd (perform m k w))" for w
  proof (cases "m w")
    case (Pair r w')
    with assms(1) have "G w w'" by (auto simp: maintains_def) (metis snd_conv)
    moreover have "G w' (snd (k x w'))" for x using assms(2) by (simp add: maintains_def)
    ultimately show ?thesis using Pair trans by (auto simp: perform_def split: sum.splits)
  qed
  then show ?thesis by (simp add: maintains_def)
qed

lemma maintains_attempt [maintains_rules]:
  assumes "maintains G m" and "\<And>f. maintains G (handler f)" and "\<And>x. maintains G (k x)"
  shows "maintains G (attempt m handler k)"
proof -
  have "G w (snd (attempt m handler k w))" for w
  proof (cases "m w")
    case (Pair r w')
    with assms(1) have "G w w'" by (auto simp: maintains_def) (metis snd_conv)
    moreover have "G w' (snd (k x w'))" "G w' (snd (handler f w'))" for x f
      using assms(2,3) by (simp_all add: maintains_def)
    ultimately show ?thesis using Pair trans by (auto simp: attempt_def split: sum.splits)
  qed
  then show ?thesis by (simp add: maintains_def)
qed

lemma catching_attempt: "catching m handler = attempt m handler ret"
  by (rule ext) (simp add: catching_def attempt_def ret_def split: prod.splits sum.splits)

lemma maintains_catching [maintains_rules]:
  "maintains G m \<Longrightarrow> (\<And>f. maintains G (handler f)) \<Longrightarrow> maintains G (catching m handler)"
  unfolding catching_attempt by (intro maintains_attempt maintains_basic)

lemma maintains_await [maintains_rules]: "call_maintains G c \<Longrightarrow> maintains G (await c)"
  by (simp add: maintains_def call_maintains_def await_def split: prod.splits sum.splits) (metis snd_conv)

lemma maintains_cases [maintains_rules]:
  "(b \<Longrightarrow> maintains G m) \<Longrightarrow> (\<not> b \<Longrightarrow> maintains G m') \<Longrightarrow> maintains G (if b then m else m')"
  "(v = None \<Longrightarrow> maintains G m) \<Longrightarrow> (\<And>x. v = Some x \<Longrightarrow> maintains G (k x)) \<Longrightarrow> maintains G (case v of None \<Rightarrow> m | Some x \<Rightarrow> k x)"
  "(\<And>a b. maintains G (j a b)) \<Longrightarrow> maintains G (case p of (a, b) \<Rightarrow> j a b)"
  "(\<And>a. maintains G (n a)) \<Longrightarrow> (\<And>s. maintains G (o' s)) \<Longrightarrow> maintains G (case r of Again a \<Rightarrow> n a | Finish s \<Rightarrow> o' s)"
  "(\<And>a. maintains G (q a)) \<Longrightarrow> (\<And>s. maintains G (q' s)) \<Longrightarrow> maintains G (case v' of Verdict a \<Rightarrow> q a | Round_over s \<Rightarrow> q' s)"
  "(\<And>a. maintains G (t a)) \<Longrightarrow> maintains G t' \<Longrightarrow> maintains G t'' \<Longrightarrow>
     maintains G (case e of Repaired a \<Rightarrow> t a | Not_repaired \<Rightarrow> t' | Handed_back \<Rightarrow> t'')"
  "(\<And>c. maintains G (u1 c)) \<Longrightarrow> (\<And>c. maintains G (u2 c)) \<Longrightarrow> (\<And>c. maintains G (u3 c))
     \<Longrightarrow> (\<And>a c. maintains G (u4 a c)) \<Longrightarrow> maintains G u5 \<Longrightarrow>
     maintains G (case f of Adapter_error c \<Rightarrow> u1 c | Internal c \<Rightarrow> u2 c | Resumable c \<Rightarrow> u3 c
       | Repair_unavailable a c \<Rightarrow> u4 a c | Out_of_fuel \<Rightarrow> u5)"
  by (auto split: option.splits prod.splits round.splits verdict.splits repair_end.splits failure.splits)

section \<open>The operations\<close>

lemma maintains_state [maintains_rules]: "maintains G (get_state h)"
  unfolding get_state_def by (intro maintains_rules)

lemma maintains_stops [maintains_rules]:
  "maintains G (deterministic_stop h a b)" "maintains G (stop_run h d)" "maintains G (stop_and_report h c r)"
  "maintains G (has_terminal_decision h i)" "maintains G (lane_closed_safely h i)"
  "maintains G (baseline_metrics h)" "maintains G (reference_metrics h j f)" "maintains G (execution_seed h i f sha)"
  "maintains G (record_lesson h l st i k ca)" "maintains G (finish h)"
  unfolding deterministic_stop_def stop_run_def stop_and_report_def has_terminal_decision_def
    lane_closed_safely_def baseline_metrics_def reference_metrics_def execution_seed_def record_lesson_def
    finish_def Let_def
  by (intro maintains_rules)+

lemma after_own_field:
  "maintains G m \<Longrightarrow> w_ledger w' = w_ledger w \<Longrightarrow> G w (snd (m w'))"
  by (auto simp: maintains_def intro: trans same_ledger)

lemma maintains_budget [maintains_rules]: "maintains G (stop_if_runtime_budget_exhausted h)"
proof -
  have "maintains G (\<lambda>w. let d = runtime_budget_decision s (run_config.truncate (h_config h)) in
      if \<not> sd_stop d then ret False w else if w_parallel w then ret True (w\<lparr>w_pending := Some d\<rparr>)
      else perform (stop_run h d) (\<lambda>e. ret True) w)" for s
    unfolding maintains_def Let_def
    by (auto intro!: after_own_field maintains_rules simp del: snd_conv)
  then show ?thesis unfolding stop_if_runtime_budget_exhausted_def by (intro maintains_perform maintains_state)
qed

lemma maintains_integrity [maintains_rules]: "maintains G (stop_for_integrity h)"
proof -
  have "maintains G (\<lambda>w. if w_parallel w then ret () (w\<lparr>w_pending := Some d\<rparr>)
      else perform (stop_run h d) (\<lambda>e. ret ()) w)" for d
    unfolding maintains_def by (auto intro!: after_own_field maintains_rules)
  then show ?thesis unfolding stop_for_integrity_def by (intro maintains_perform maintains_stops)
qed

lemma maintains_diagnostics [maintains_rules]: "maintains G (diagnostic_artifacts_of h i k e)"
  unfolding maintains_def diagnostic_artifacts_of_def
  by (auto intro!: after_own_field maintains_rules simp: Let_def split: option.splits prod.splits)

lemma maintains_planning_failure [maintains_rules]: "maintains G (record_planning_failure h i f c)"
  unfolding maintains_def record_planning_failure_def Let_def
  by (intro allI after_own_field maintains_rules HOL.refl)

lemma maintains_failures [maintains_rules]:
  "maintains G (record_adapter_failure h i k st f c)"
  unfolding record_adapter_failure_def Let_def by (intro maintains_rules)

text \<open>The calls of the adapters.\<close>

lemma adapter_calls [maintains_rules]:
  assumes "adapters_maintain G h"
  shows "call_maintains G (h_read_contract h)" "call_maintains G (h_build_planner h es)"
    "call_maintains G (h_build_coder h es s)" "call_maintains G (h_build_recovery h es i k)"
    "call_maintains G (h_bind_implementation h p)" "call_maintains G (h_propose h pc)"
    "call_maintains G (h_create_patch h cc s)" "call_maintains G (repair_worker h a rc d)"
    "call_maintains G (h_check_patch h pt)" "call_maintains G (h_run h q)"
    "call_maintains G (h_decide_recovery h i v ri)" "call_maintains G (h_check_output h r)"
    "call_maintains G (h_evaluate h eq)" "call_maintains G (h_decide h ev dc)"
    "call_maintains G (h_lock h)" "call_maintains G (h_sleep h t)"
  using assms by (simp_all add: adapters_maintain_def repair_worker_def)

lemma maintains_recovery [maintains_rules]:
  assumes "adapters_maintain G h"
  shows "maintains G (policy_input h s i k v)" "maintains G (recover_failure h k v i)"
    "maintains G (recover_adapter_failure h i n st f c)"
proof -
  have input: "maintains G (policy_input h s i k v)" for s k v i
    unfolding policy_input_def by (intro maintains_rules assms)
  have recover: "maintains G (recover_failure h k v i)" for k v i
    unfolding recover_failure_def by (intro maintains_rules assms input)
  show "maintains G (policy_input h s i k v)" "maintains G (recover_failure h k v i)"
    by (rule input, rule recover)
  show "maintains G (recover_adapter_failure h i n st f c)"
    unfolding recover_adapter_failure_def by (intro maintains_rules assms recover)
qed

lemma maintains_repair [maintains_rules]:
  assumes "adapters_maintain G h"
  shows "maintains G (retry_repair h r f)" "maintains G (execute_code_repair h r p)"
    "maintains G (repair_once h b r p)" "maintains G (repair_loop n h b b' i p r)"
    "maintains G (gate_loop n h i p cp)"
proof -
  have retry: "maintains G (retry_repair h r f)" for r f
    unfolding retry_repair_def Let_def by (intro maintains_rules assms)
  have code: "maintains G (execute_code_repair h r p)" for r p
    unfolding execute_code_repair_def Let_def by (intro maintains_rules assms retry)
  have once: "maintains G (repair_once h b r p)" for b r p
    unfolding repair_once_def by (intro maintains_rules code)
  show "maintains G (repair_loop n h b b' i p r)"
    by (induction n arbitrary: r) (auto intro!: maintains_rules assms once)
  show "maintains G (gate_loop n h i p cp)"
    by (induction n arbitrary: cp) (auto intro!: maintains_rules assms code)
  show "maintains G (retry_repair h r f)" "maintains G (execute_code_repair h r p)"
    "maintains G (repair_once h b r p)"
    by (rule retry, rule code, rule once)
qed

lemma maintains_unexpected [maintains_rules]:
  assumes "adapters_maintain G h"
  shows "maintains G (handle_unexpected_adapter_failure h f)" "maintains G (abandon_experiment h i k fi c re)"
    "maintains G (abandon h l fi c re)"
  unfolding handle_unexpected_adapter_failure_def abandon_experiment_def abandon_def Let_def
  by (intro maintains_rules assms)+

section \<open>One experiment\<close>

lemma maintains_prepare [maintains_rules]:
  assumes "adapters_maintain G h"
  shows "maintains G (provider_failed h c ca re f)" "maintains G (no_proposal h out ca)"
    "maintains G (bind_proposal h c p d st ca m)" "maintains G (prepare_experiment h)"
proof -
  have failed: "maintains G (provider_failed h c ca re f)" for c ca re f
    unfolding provider_failed_def by (intro maintains_rules assms)
  have none: "maintains G (no_proposal h out ca)" for out ca
    unfolding no_proposal_def resumable_def by (intro maintains_rules assms)
  have bind: "maintains G (bind_proposal h c p d st ca m)" for c p d st ca m
    unfolding bind_proposal_def resumable_def by (intro maintains_rules assms)
  show "maintains G (prepare_experiment h)"
    unfolding prepare_experiment_def Let_def by (intro maintains_rules assms failed none bind)
  show "maintains G (provider_failed h c ca re f)" "maintains G (no_proposal h out ca)"
    "maintains G (bind_proposal h c p d st ca m)"
    by (rule failed, rule none, rule bind)
qed

lemma maintains_patch [maintains_rules]:
  assumes "adapters_maintain G h"
  shows "maintains G (obtain_patch n h s p)"
proof -
  have create: "maintains G (create_patch h c s k)" for c s k
    unfolding create_patch_def Let_def by (intro maintains_rules assms)
  have "maintains G (record_patch_check h i pt ck c)" for i pt ck c
    unfolding record_patch_check_def by (intro maintains_rules)
  moreover have "maintains G (repaired h r p)" for r p
    unfolding repaired_def by (intro maintains_rules assms)
  ultimately have check: "maintains G (check_patch h i p pt k)" for i p pt k
    unfolding check_patch_def by (intro maintains_rules assms)
  show ?thesis
    unfolding obtain_patch_def Let_def by (intro maintains_rules assms create check)
qed

lemma maintains_over [maintains_rules]: "maintains G m \<Longrightarrow> maintains G (over m)"
  unfolding over_def by (intro maintains_rules)

lemma maintains_reruns [maintains_rules]:
  assumes "adapters_maintain G h"
  shows "maintains G (stage_request h l f)" "maintains G (rerun_adjusted h r q f l)"
    "maintains G (after_execution_failure n h b r q f l)"
    "maintains G m \<Longrightarrow> maintains G (repair_and_rerun h r q f l m)"
  unfolding stage_request_def rerun_adjusted_def after_execution_failure_def repair_and_rerun_def Let_def
  by (intro maintains_rules assms | assumption)+

lemma maintains_judgement [maintains_rules]:
  assumes "adapters_maintain G h"
  shows "maintains G (check_output h q f l res k)" "maintains G (decide_stage h q f l ev dc k)"
    "maintains G (handle_no_op n h q f l k ev)" "maintains G (record_decision h f l ev d k c)"
    "maintains G (record_evaluation h f l ev k)"
  unfolding check_output_def decide_stage_def handle_no_op_def record_decision_def record_evaluation_def
    update_best_def Let_def
  by (intro maintains_rules assms | assumption)+

lemma maintains_evaluation [maintains_rules]:
  assumes "adapters_maintain G h"
  shows "maintains G (evaluate_stage h q f l out k)"
proof -
  have run: "maintains G (run_evaluation h f l q c)" for q c
    unfolding run_evaluation_def by (intro maintains_rules assms)
  have failed: "maintains G (evaluation_failed h q f l k v e)" for v e
    unfolding evaluation_failed_def Let_def by (intro maintains_rules assms run)
  have "maintains G (evaluation_request_for h q f l out k b p)" for b p
    unfolding evaluation_request_for_def Let_def by (intro maintains_rules assms)
  then show ?thesis
    unfolding evaluate_stage_def by (intro maintains_rules assms run failed)
qed

lemma maintains_stages [maintains_rules]:
  assumes "adapters_maintain G h"
  shows "maintains G (run_stage n h f l)" "maintains G (run_stages k n h l)"
proof -
  have judge: "maintains G (judge_stage n h q f l out k)" for q f l out k
    unfolding judge_stage_def by (intro maintains_rules assms)
  have out: "maintains G (stage_output n h q f l res k)" for q f l res k
    unfolding stage_output_def by (intro maintains_rules assms judge)
  have stage: "maintains G (run_stage n h f l)" for f l
    unfolding run_stage_def Let_def by (intro maintains_rules assms out)
  then show "maintains G (run_stage n h f l)" .
  show "maintains G (run_stages k n h l)"
    by (induction k arbitrary: l) (auto intro!: maintains_rules stage split: list.splits)
qed

lemma maintains_experiment [maintains_rules]:
  assumes "adapters_maintain G h"
  shows "maintains G (run_prepared n h p)" "maintains G (run_experiment_body n h)"
    "maintains G (run_one_experiment n h)"
proof -
  have prepared: "maintains G (run_prepared n h p)" for p
    unfolding run_prepared_def by (intro maintains_rules assms)
  then show "maintains G (run_prepared n h p)" .
  show body: "maintains G (run_experiment_body n h)"
    unfolding run_experiment_body_def by (intro maintains_rules assms prepared)
  have "maintains G (repair_unavailable h a)" "maintains G (handled_unexpected h f)" for a f
    unfolding repair_unavailable_def handled_unexpected_def by (intro maintains_rules assms)+
  with body show "maintains G (run_one_experiment n h)"
    unfolding run_one_experiment_def by (intro maintains_rules)
qed

section \<open>The run\<close>

lemma maintains_run [maintains_rules]:
  assumes "adapters_maintain G h"
  shows "maintains G (run_until_stopped n h)"
proof -
  have "maintains G (run_rounds k n h)" for k
    by (induction k) (auto intro!: maintains_rules assms)
  then show ?thesis unfolding run_until_stopped_def by (intro maintains_rules)
qed

lemma maintains_finalize [maintains_rules]:
  assumes "adapters_maintain G h"
  shows "maintains G (finalize h)"
proof -
  have "call_maintains G p" if "h_prepare_baseline h = Some p" for p
    using assms that by (simp add: adapters_maintain_def)
  then have baseline: "maintains G (finalize_baseline h es s)" for es s
    unfolding finalize_baseline_def by (auto intro!: maintains_rules split: option.splits)
  have run: "maintains G (run_final_execution h p k c ca)" "maintains G (check_final_output h r c)" for p k c ca r
    unfolding run_final_execution_def check_final_output_def Let_def by (intro maintains_rules assms)+
  have "maintains G (reproduce h s p k)" for s p k
    unfolding reproduce_def Let_def by (intro maintains_rules assms run)
  then have "maintains G (finalize_candidate h es s)" for es s
    unfolding finalize_candidate_def Let_def by (intro maintains_rules assms run)
  with baseline show ?thesis unfolding finalize_def by (intro maintains_rules)
qed

lemma maintains_parallel:
  assumes "adapters_maintain G h"
  shows "maintains G (run_parallel_lane n h p)" "maintains G (run_round_synthesis n h ids)"
proof -
  have "maintains G (\<lambda>w. if closed then get_state h w
      else get_state h (if w_pending w = None then w\<lparr>w_pending := Some d\<rparr> else w))" for closed d
    unfolding maintains_def by (auto intro!: after_own_field maintains_rules)
  then have "maintains G (lane_failed h i f)" for i f
    unfolding lane_failed_def Let_def by (intro maintains_rules assms)
  then show "maintains G (run_parallel_lane n h p)"
    unfolding run_parallel_lane_def by (intro maintains_rules assms)
  have planner: "maintains G (request_planner_with_retry h op)" if "call_maintains G op" for op
  proof -
    have "maintains G (planner_attempts m h k op)" for m k
      by (induction m arbitrary: k) (auto intro!: maintains_rules assms that simp: Let_def)
    then show ?thesis by (simp add: request_planner_with_retry_def)
  qed
  have synthesis: "maintains G (synthesis_proposal h c out ca)" "maintains G (run_synthesized n h pr)" for c out ca pr
    unfolding synthesis_proposal_def run_synthesized_def resumable_def by (intro maintains_rules assms)+
  have calls: "call_maintains G (f c ids)" if "h_propose_synthesis h = Some f" for f c
    using assms that by (simp add: adapters_maintain_def)
  show "maintains G (run_round_synthesis n h ids)"
    unfolding run_round_synthesis_def
    by (intro maintains_rules assms planner [OF calls] synthesis | assumption)+
qed

lemma maintains_bootstrap: "maintains G (bootstrap h ev)"
  unfolding bootstrap_def by (intro maintains_rules)

lemma maintains_completion:
  assumes "adapters_maintain G h"
  shows "maintains G (run_to_completion n h)"
  unfolding run_to_completion_def by (intro maintains_rules assms)

end

section \<open>The ledger file only grows\<close>

text \<open>
  The complete lines of the file before are the beginning of the file after, byte for byte.
\<close>

definition append_only :: "'s world \<Rightarrow> 's world \<Rightarrow> bool" where
  "append_only w w' \<longleftrightarrow> (\<exists>t. file_data (w_ledger w') = complete_part (file_data (w_ledger w)) @ t)"

lemma complete_part_append:
  assumes "ends_complete a" shows "complete_part (a @ t) = a @ complete_part t"
proof (cases "newline \<in> set t")
  case True
  then have "dropWhile (\<lambda>c. c \<noteq> newline) (rev t @ rev a) = dropWhile (\<lambda>c. c \<noteq> newline) (rev t) @ rev a"
    by (intro dropWhile_append1 [of newline]) auto
  then show ?thesis by (simp add: complete_part_def)
next
  case False
  then have "complete_part (a @ t) = a" using complete_part_fragment [OF assms] by (simp add: one_line_def)
  moreover have "complete_part t = []"
    using complete_part_fragment [of "[]" t] False by (simp add: one_line_def ends_complete_def)
  ultimately show ?thesis by simp
qed

lemma complete_part_prefix: "\<exists>t. data = complete_part data @ t"
  unfolding complete_part_def by (rule strip_suffix)

lemma file_data_repaired: "file_data (repair_tail disk) = complete_part (file_data disk)"
proof (cases disk)
  case (Some data)
  then show ?thesis
    using complete_part_append [of data "[]"] by (simp add: repair_tail_def file_data_def complete_part_def)
qed (simp add: repair_tail_def file_data_def complete_part_def)

lemma file_data_Some [simp]: "file_data (Some data) = data"
  by (simp add: file_data_def)

lemma append_grows:
  assumes "append st disk a = (disk', outcome)"
  shows "\<exists>t. file_data disk' = complete_part (file_data disk) @ t"
proof -
  have "disk' \<in> {disk, repair_tail disk} \<or> (\<exists>t. disk' = Some (file_data (repair_tail disk) @ t))"
    using assms by (auto simp: append_def Let_def split: if_splits option.splits sum.splits)
  then show ?thesis
    using complete_part_prefix [of "file_data disk"]
    by (auto simp: file_data_repaired)
qed

lemma append_only_trans: "append_only w1 w2 \<Longrightarrow> append_only w2 w3 \<Longrightarrow> append_only w1 w3"
  using complete_part_append [OF complete_part_complete] by (auto simp: append_only_def)

interpretation ledger: world_relation append_only
proof
  fix w w' :: "'a world"
  assume "w_ledger w' = w_ledger w"
  then show "append_only w w'" using complete_part_prefix by (simp add: append_only_def)
next
  fix w1 w2 w3 :: "'a world"
  assume "append_only w1 w2" "append_only w2 w3"
  then show "append_only w1 w3" by (rule append_only_trans)
next
  fix w :: "'a world" and h p c
  show "append_only w (snd (record_event h p c w))"
    using append_grows
    by (auto simp: record_event_def harness_append_def append_only_def lift_res_def ret_def fail_def Let_def
        split: prod.splits sum.splits)
next
  fix w :: "'a world" and h
  have "\<exists>t. file_data (repair_tail (w_ledger w)) = complete_part (file_data (w_ledger w)) @ t"
    by (simp add: file_data_repaired)
  then show "append_only w (snd (get_events h w))"
    by (auto simp: get_events_def harness_events_def read_events_def append_only_def lift_res_def ret_def fail_def
        Let_def split: sum.splits)
qed

end
