(* ===== verification/Harness_Reports.thy ===== *)
theory Harness_Reports
  imports Harness_Facts Store_Properties
begin

text \<open>
  The state a driver returns is the projection of what the ledger holds at that moment: every method
  of the router ends with a fresh read, and nothing is written after it.
\<close>

section \<open>Postconditions\<close>

definition ends :: "('a \<Rightarrow> 's world \<Rightarrow> bool) \<Rightarrow> ('s, 'a) run \<Rightarrow> bool" where
  "ends Q m \<longleftrightarrow> (\<forall>w x w'. m w = (Inr x, w') \<longrightarrow> Q x w')"

named_theorems ends_rules

lemma perform_Inr: "perform m k w = (Inr y, w') \<longleftrightarrow> (\<exists>x v. m w = (Inr x, v) \<and> k x v = (Inr y, w'))"
  by (auto simp: perform_def split: prod.splits sum.splits)

lemma ends_fail [ends_rules]: "ends Q (fail f)"
  by (simp add: ends_def fail_def)

lemma ends_ret: "(\<And>w. Q x w) \<Longrightarrow> ends Q (ret x)"
  by (simp add: ends_def ret_def)

lemma ends_perform [ends_rules]: "(\<And>x. ends Q (k x)) \<Longrightarrow> ends Q (perform m k)"
  by (fastforce simp: ends_def perform_def split: prod.splits sum.splits)

lemma ends_return: "ends P m \<Longrightarrow> (\<And>x w. P x w \<Longrightarrow> Q (g x) w) \<Longrightarrow> ends Q (perform m (\<lambda>x. ret (g x)))"
  by (fastforce simp: ends_def perform_def ret_def split: prod.splits sum.splits)

lemma ends_after: "ends P m \<Longrightarrow> (\<And>x w y w'. P x w \<Longrightarrow> k x w = (Inr y, w') \<Longrightarrow> Q y w') \<Longrightarrow> ends Q (perform m k)"
  by (fastforce simp: ends_def perform_def split: prod.splits sum.splits)

lemma ends_attempt [ends_rules]:
  "(\<And>f. ends Q (handler f)) \<Longrightarrow> (\<And>x. ends Q (k x)) \<Longrightarrow> ends Q (attempt m handler k)"
  by (fastforce simp: ends_def attempt_def split: prod.splits sum.splits if_splits)

lemma ends_catching: "ends Q m \<Longrightarrow> (\<And>f. ends Q (handler f)) \<Longrightarrow> ends Q (catching m handler)"
  by (fastforce simp: ends_def catching_def split: prod.splits sum.splits if_splits)

lemma ends_cases [ends_rules]:
  "(b \<Longrightarrow> ends Q m) \<Longrightarrow> (\<not> b \<Longrightarrow> ends Q m') \<Longrightarrow> ends Q (if b then m else m')"
  "(v = None \<Longrightarrow> ends Q m) \<Longrightarrow> (\<And>x. v = Some x \<Longrightarrow> ends Q (ko x)) \<Longrightarrow> ends Q (case v of None \<Rightarrow> m | Some x \<Rightarrow> ko x)"
  "(\<And>a b. ends Q (j a b)) \<Longrightarrow> ends Q (case p of (a, b) \<Rightarrow> j a b)"
  "(\<And>a. ends Q (t a)) \<Longrightarrow> ends Q t' \<Longrightarrow> ends Q t'' \<Longrightarrow>
     ends Q (case e of Repaired a \<Rightarrow> t a | Not_repaired \<Rightarrow> t' | Handed_back \<Rightarrow> t'')"
  by (auto split: option.splits prod.splits repair_end.splits)

section \<open>Reports\<close>

definition harness_view :: "'s harness \<Rightarrow> 's world \<Rightarrow> event list res" where
  "harness_view h w = repaired_view (h_store h) (w_ledger w)"

definition reported :: "'s harness \<Rightarrow> run_state \<Rightarrow> 's world \<Rightarrow> bool" where
  "reported h s w \<longleftrightarrow> (\<exists>es. harness_view h w = Inr es \<and> project es = Inr s)"

definition round_reported :: "'s harness \<Rightarrow> 'a round \<Rightarrow> 's world \<Rightarrow> bool" where
  "round_reported h r w = (case r of Again _ \<Rightarrow> True | Finish s \<Rightarrow> reported h s w)"

definition verdict_reported :: "'s harness \<Rightarrow> 'a verdict \<Rightarrow> 's world \<Rightarrow> bool" where
  "verdict_reported h v w = (case v of Verdict _ \<Rightarrow> True | Round_over r \<Rightarrow> round_reported h r w)"

lemma read_line_store_in: "read_line (store_in h w) = read_line (h_store h)"
  by (rule ext)+ (simp add: read_line_def store_in_def)

lemma read_locked_store_in [simp]: "read_locked (store_in h w) = read_locked (h_store h)"
proof
  fix disk
  show "read_locked (store_in h w) disk = read_locked (h_store h) disk"
    by (cases disk) (simp_all add: read_locked_def read_line_store_in)
qed

lemma get_events_result:
  "get_events h w = (outcome, w') \<Longrightarrow> outcome = Inr es \<Longrightarrow>
     harness_view h w = Inr es \<and> harness_view h w' = Inr es"
  by (auto simp: get_events_def harness_events_def read_events_def Let_def lift_res_def ret_def fail_def
      harness_view_def repaired_view_read split: sum.splits)

lemma ends_state [ends_rules]: "ends (reported h) (get_state h)"
  unfolding get_state_def
  by (rule ends_after [where P = "\<lambda>es w. harness_view h w = Inr es"])
    (auto simp: ends_def reported_def lift_res_def ret_def fail_def dest: get_events_result split: sum.splits)

lemma ends_again [ends_rules]: "ends (round_reported h) (ret (Again a))"
  by (rule ends_ret) (simp add: round_reported_def)

lemma ends_verdict [ends_rules]: "ends (verdict_reported h) (ret (Verdict a))"
  by (rule ends_ret) (simp add: verdict_reported_def)

lemma ends_finish [ends_rules]: "ends (round_reported h) (finish h)"
  unfolding finish_def by (rule ends_return [OF ends_state]) (simp add: round_reported_def)

lemma ends_over [ends_rules]: "ends (round_reported h) m \<Longrightarrow> ends (verdict_reported h) (over m)"
  unfolding over_def by (rule ends_return) (auto simp: verdict_reported_def)

lemma ends_round:
  assumes "ends (round_reported h) m" and "\<And>a. ends (round_reported h) (k a)"
  shows "ends (round_reported h) (perform m (\<lambda>r. case r of Again a \<Rightarrow> k a | Finish s \<Rightarrow> ret (Finish s)))"
proof (rule ends_after [OF assms(1)])
  fix x w y w'
  assume "round_reported h x w" and "(case x of Again a \<Rightarrow> k a | Finish s \<Rightarrow> ret (Finish s)) w = (Inr y, w')"
  with assms(2) show "round_reported h y w'"
    by (cases x) (auto simp: ends_def ret_def round_reported_def)
qed

lemma ends_verdict_case:
  assumes "ends (verdict_reported h) m" and "\<And>a. ends (round_reported h) (k a)"
  shows "ends (round_reported h) (perform m (\<lambda>v. case v of Verdict a \<Rightarrow> k a | Round_over r \<Rightarrow> ret r))"
proof (rule ends_after [OF assms(1)])
  fix x w y w'
  assume "verdict_reported h x w" and "(case x of Verdict a \<Rightarrow> k a | Round_over r \<Rightarrow> ret r) w = (Inr y, w')"
  with assms(2) show "round_reported h y w'"
    by (cases x) (auto simp: ends_def ret_def verdict_reported_def)
qed

lemma ends_round_state:
  assumes "ends (round_reported h) m" and "\<And>a. ends (reported h) (k a)"
  shows "ends (reported h) (perform m (\<lambda>r. case r of Again a \<Rightarrow> k a | Finish s \<Rightarrow> ret s))"
proof (rule ends_after [OF assms(1)])
  fix x w y w'
  assume "round_reported h x w" and "(case x of Again a \<Rightarrow> k a | Finish s \<Rightarrow> ret s) w = (Inr y, w')"
  with assms(2) show "reported h y w'"
    by (cases x) (auto simp: ends_def ret_def round_reported_def)
qed

section \<open>The operations\<close>

lemma ends_closing [ends_rules]:
  "ends (reported h) (stop_and_report h c r)" "ends (reported h) (abandon_experiment h i k f ca re)"
  unfolding stop_and_report_def abandon_experiment_def by (intro ends_rules)+

lemma ends_abandon [ends_rules]: "ends (round_reported h) (abandon h l f c r)"
  unfolding abandon_def by (rule ends_return [OF ends_closing(2)]) (simp add: round_reported_def)

lemma ends_gate_loop: "ends (round_reported h) (gate_loop n h i p cp)"
  by (induction n arbitrary: cp) (auto intro!: ends_rules)

lemma ends_patch: "ends (round_reported h) (obtain_patch n h s p)"
proof -
  have create: "ends (round_reported h) (create_patch h c s k)" for c s k
    unfolding create_patch_def Let_def by (intro ends_rules)
  have "ends (round_reported h) (record_patch_check h i pt ck c)" "ends (round_reported h) (repaired h r p)"
    for i pt ck c r p
    unfolding record_patch_check_def repaired_def by (intro ends_rules)+
  then have check: "ends (round_reported h) (check_patch h i p pt k)" for i p pt k
    unfolding check_patch_def by (intro ends_rules)
  show ?thesis
    unfolding obtain_patch_def Let_def
    by (intro ends_rules ends_round create check ends_gate_loop)
qed

lemma ends_reruns [ends_rules]:
  "ends (round_reported h) (rerun_adjusted h r q f l)"
  "ends (round_reported h) (after_execution_failure n h b r q f l)"
  "ends (round_reported h) m \<Longrightarrow> ends (round_reported h) (repair_and_rerun h r q f l m)"
  unfolding after_execution_failure_def repair_and_rerun_def rerun_adjusted_def Let_def
  by (intro ends_rules | assumption)+

lemma ends_judgement [ends_rules]:
  "ends (verdict_reported h) (check_output h q f l res k)"
  "ends (verdict_reported h) (evaluation_failed h q f l k v e)"
  "ends (verdict_reported h) (decide_stage h q f l ev dc k)"
  "ends (round_reported h) (handle_no_op n h q f l k ev)"
  "ends (round_reported h) (record_decision h f l ev d k c)"
  unfolding check_output_def evaluation_failed_def decide_stage_def handle_no_op_def record_decision_def Let_def
  by (intro ends_rules | assumption)+

lemma ends_evaluate [ends_rules]: "ends (verdict_reported h) (evaluate_stage h q f l out k)"
  unfolding evaluate_stage_def by (intro ends_rules)

lemma ends_stage: "ends (round_reported h) (run_stage n h f l)"
proof -
  have "ends (round_reported h) (judge_stage n h q f l out k)" for q f l out k
    unfolding judge_stage_def by (intro ends_rules ends_verdict_case)
  then have "ends (round_reported h) (stage_output n h q f l res k)" for q f l res k
    unfolding stage_output_def by (intro ends_rules ends_verdict_case)
  then show ?thesis unfolding run_stage_def Let_def by (intro ends_rules)
qed

lemma ends_stages: "ends (reported h) (run_stages k n h l)"
proof (induction k arbitrary: l)
  case (Suc k)
  then show ?case
    by (cases "ln_queue l") (auto intro!: ends_round_state ends_stage ends_state)
qed (simp add: ends_fail)

lemma ends_prepared: "ends (reported h) (run_prepared n h p)"
  unfolding run_prepared_def by (cases p) (auto intro!: ends_round_state ends_patch ends_stages)

lemma ends_body: "ends (reported h) (run_experiment_body n h)"
  unfolding run_experiment_body_def by (intro ends_rules ends_prepared)

section \<open>Handlers\<close>

text \<open>A read changes nothing of what is read.\<close>

lemma reported_after_read: "reported h s w \<Longrightarrow> get_state h w = (r, w') \<Longrightarrow> reported h s w'"
proof -
  assume "reported h s w" and run: "get_state h w = (r, w')"
  then obtain es where es: "harness_view h w = Inr es" "project es = Inr s" by (auto simp: reported_def)
  have "harness_view h w' = harness_view h w"
    using run by (auto simp: get_state_def perform_def get_events_def harness_events_def read_events_def Let_def
        lift_res_def ret_def fail_def harness_view_def repaired_view_read split: sum.splits prod.splits)
  with es show ?thesis by (simp add: reported_def)
qed

lemma ends_lane_closed:
  assumes "reported h s w" and "lane_closed_safely h i w = (Inr b, w')"
  shows "reported h s w'"
  using assms by (auto simp: lane_closed_safely_def perform_def ret_def split: prod.splits sum.splits
      dest: reported_after_read)

lemma ends_unavailable: "ends (reported h) (repair_unavailable h a)"
proof -
  have "ends (reported h) (perform (get_state h) (\<lambda>s.
        perform (if truthy_str (st_active_experiment_id s)
                 then lane_closed_safely h (the (st_active_experiment_id s)) else ret False) (\<lambda>closed.
        if closed then ret s
        else case failed_stage_stop ''coding repair'' a of (code, reason) \<Rightarrow> stop_and_report h code reason)))"
  proof (rule ends_after [OF ends_state])
    fix s :: run_state and w y w'
    let ?test = "if truthy_str (st_active_experiment_id s)
                 then lane_closed_safely h (the (st_active_experiment_id s)) else ret False"
    let ?stop = "case failed_stage_stop ''coding repair'' a of (code, reason) \<Rightarrow> stop_and_report h code reason"
    assume s: "reported h s w"
      and run: "perform ?test (\<lambda>closed. if closed then ret s else ?stop) w = (Inr y, w')"
    then obtain b v where test: "?test w = (Inr b, v)" and rest: "(if b then ret s else ?stop) v = (Inr y, w')"
      unfolding perform_Inr by blast
    have "reported h s v"
      using test s by (auto simp: ret_def split: if_splits dest: ends_lane_closed)
    moreover have "ends (reported h) ?stop" by (intro ends_rules)
    ultimately show "reported h y w'"
      using rest by (cases b) (auto simp: ret_def ends_def)
  qed
  then show ?thesis using ends_state [of h] by (simp add: repair_unavailable_def)
qed

lemma ends_unexpected: "ends (reported h) (handle_unexpected_adapter_failure h f)"
  unfolding handle_unexpected_adapter_failure_def Let_def by (intro ends_rules)

lemma ends_experiment: "ends (reported h) (run_one_experiment n h)"
proof -
  have "ends (reported h) (handled_unexpected h f)" for f
    unfolding handled_unexpected_def by (intro ends_catching ends_unexpected ends_rules)
  then have "ends (reported h) (case f of Resumable m \<Rightarrow> fail (Resumable m)
      | Repair_unavailable a cause \<Rightarrow> repair_unavailable h a | _ \<Rightarrow> handled_unexpected h f)" for f
    using ends_unavailable ends_fail by (cases f) simp_all
  then show ?thesis
    unfolding run_one_experiment_def by (intro ends_catching ends_body)
qed

text \<open>The loop over the rounds returns a state in which the run is over.\<close>

definition over_and_reported :: "'s harness \<Rightarrow> run_state \<Rightarrow> 's world \<Rightarrow> bool" where
  "over_and_reported h s w \<longleftrightarrow> run_is_over s \<and> reported h s w"

lemma ends_rounds: "ends (over_and_reported h) (run_rounds k n h)"
proof (induction k)
  case (Suc k)
  have round: "ends (over_and_reported h) (perform (run_one_experiment n h) (\<lambda>s'.
       if st_status s' = Run_STOPPED then ret s'
       else if st_last_event_id s' = st_last_event_id s
       then fail (Internal (Raised ''OrchestrationError'' ''outer loop made no durable ledger progress''))
       else run_rounds k n h))" for s :: run_state
  proof (rule ends_after [OF ends_experiment])
    fix s' w y w'
    assume "reported h s' w" and "(if st_status s' = Run_STOPPED then ret s'
       else if st_last_event_id s' = st_last_event_id s
       then fail (Internal (Raised ''OrchestrationError'' ''outer loop made no durable ledger progress''))
       else run_rounds k n h) w = (Inr y, w')"
    then show "over_and_reported h y w'"
      using Suc by (auto simp: over_and_reported_def run_is_over_def ret_def fail_def ends_def split: if_splits)
  qed
  show ?case
    unfolding run_rounds.simps
  proof (rule ends_after [OF ends_state])
    fix s :: run_state and w y w'
    assume "reported h s w" and "(if run_is_over s then ret s
      else if st_phase s \<noteq> ''planning'' \<and> st_phase s \<noteq> ''planner_context''
      then fail (Internal (Raised ''OrchestrationError'' ''run can resume only from a durable planning checkpoint''))
      else perform (run_one_experiment n h) (\<lambda>s'.
       if st_status s' = Run_STOPPED then ret s'
       else if st_last_event_id s' = st_last_event_id s
       then fail (Internal (Raised ''OrchestrationError'' ''outer loop made no durable ledger progress''))
       else run_rounds k n h)) w = (Inr y, w')"
    then show "over_and_reported h y w'"
      using round [of s] by (auto simp: over_and_reported_def ret_def fail_def ends_def split: if_splits)
  qed
qed (simp add: ends_fail)

lemma ends_until_stopped: "ends (over_and_reported h) (run_until_stopped n h)"
  unfolding run_until_stopped_def by (intro ends_rules ends_rounds)

end
