(* ===== verification/Harness_Properties.thy ===== *)
theory Harness_Properties
  imports Harness_Run Harness_Reports Ledger_Properties Evidence_Properties
begin

text \<open>
  What the harness guarantees.  The bound on the iterations of its loops says only when to give up: a run that does not
  report \<open>Out_of_fuel\<close> has the same result and the same world with every larger bound.  And what
  the driver of one experiment lets escape: no error of an adapter, only what stops the program.
\<close>

section \<open>More fuel\<close>

definition below :: "('s, 'a) run \<Rightarrow> ('s, 'a) run \<Rightarrow> bool" where
  "below m m' \<longleftrightarrow> (\<forall>w. fst (m w) = Inl Out_of_fuel \<or> m' w = m w)"

named_theorems below_rules

lemma below_refl: "below m m"
  by (simp add: below_def)

lemma below_empty: "below (fail Out_of_fuel) m"
  by (simp add: below_def fail_def)

lemma below_perform [below_rules]:
  assumes "below m m'" and "\<And>x. below (k x) (k' x)"
  shows "below (perform m k) (perform m' k')"
proof -
  have "fst (perform m k w) = Inl Out_of_fuel \<or> perform m' k' w = perform m k w" for w
  proof (cases "m w")
    case (Pair r w')
    then show ?thesis
      using assms(1)[unfolded below_def, rule_format, of w] assms(2)[unfolded below_def, rule_format, of _ w']
      by (cases r) (auto simp: perform_def)
  qed
  then show ?thesis by (simp add: below_def)
qed

lemma below_attempt [below_rules]:
  assumes "below m m'" and "\<And>f. below (handler f) (handler' f)" and "\<And>x. below (k x) (k' x)"
  shows "below (attempt m handler k) (attempt m' handler' k')"
proof -
  have "fst (attempt m handler k w) = Inl Out_of_fuel \<or> attempt m' handler' k' w = attempt m handler k w" for w
  proof (cases "m w")
    case (Pair r w')
    then show ?thesis
      using assms(1)[unfolded below_def, rule_format, of w] assms(2)[unfolded below_def, rule_format, of _ w']
        assms(3)[unfolded below_def, rule_format, of _ w']
      by (cases r) (auto simp: attempt_def, blast)
  qed
  then show ?thesis by (simp add: below_def)
qed

lemma catching_as_attempt: "catching m handler = attempt m handler ret"
  by (rule ext) (simp add: catching_def attempt_def ret_def split: prod.splits sum.splits)

lemma below_catching [below_rules]:
  "below m m' \<Longrightarrow> (\<And>f. below (handler f) (handler' f)) \<Longrightarrow> below (catching m handler) (catching m' handler')"
  unfolding catching_as_attempt by (intro below_attempt below_refl)

lemma below_cases [below_rules]:
  "(b \<Longrightarrow> below m n) \<Longrightarrow> (\<not> b \<Longrightarrow> below m' n') \<Longrightarrow> below (if b then m else m') (if b then n else n')"
  "below m n \<Longrightarrow> (\<And>x. below (k x) (k' x)) \<Longrightarrow>
     below (case v of None \<Rightarrow> m | Some x \<Rightarrow> k x) (case v of None \<Rightarrow> n | Some x \<Rightarrow> k' x)"
  "(\<And>a b. below (j a b) (j' a b)) \<Longrightarrow> below (case p of (a, b) \<Rightarrow> j a b) (case p of (a, b) \<Rightarrow> j' a b)"
  "(\<And>a. below (g a) (g' a)) \<Longrightarrow> (\<And>s. below (o1 s) (o2 s)) \<Longrightarrow>
     below (case r of Again a \<Rightarrow> g a | Finish s \<Rightarrow> o1 s) (case r of Again a \<Rightarrow> g' a | Finish s \<Rightarrow> o2 s)"
  "(\<And>a. below (q a) (q' a)) \<Longrightarrow> (\<And>s. below (o3 s) (o4 s)) \<Longrightarrow>
     below (case v' of Verdict a \<Rightarrow> q a | Round_over s \<Rightarrow> o3 s) (case v' of Verdict a \<Rightarrow> q' a | Round_over s \<Rightarrow> o4 s)"
  "(\<And>a. below (t a) (t1 a)) \<Longrightarrow> below t' t1' \<Longrightarrow> below t'' t1'' \<Longrightarrow>
     below (case e of Repaired a \<Rightarrow> t a | Not_repaired \<Rightarrow> t' | Handed_back \<Rightarrow> t'')
       (case e of Repaired a \<Rightarrow> t1 a | Not_repaired \<Rightarrow> t1' | Handed_back \<Rightarrow> t1'')"
  by (simp_all split: option.split prod.split round.split verdict.split repair_end.split)

lemma below_repair_loop: "n \<le> n' \<Longrightarrow> below (repair_loop n h b b' i p r) (repair_loop n' h b b' i p r)"
proof (induction n arbitrary: n' r)
  case (Suc n)
  then obtain k where "n' = Suc k" "n \<le> k" by (cases n') auto
  with Suc.IH show ?case
    by (auto intro!: below_perform below_cases below_refl simp del: split_paired_All)
qed (simp add: below_empty)

lemma below_gate_loop: "n \<le> n' \<Longrightarrow> below (gate_loop n h i p cp) (gate_loop n' h i p cp)"
proof (induction n arbitrary: n' cp)
  case (Suc n)
  then obtain k where "n' = Suc k" "n \<le> k" by (cases n') auto
  with Suc.IH show ?case by (auto intro!: below_perform below_cases below_refl)
qed (simp add: below_empty)

lemma below_obtain_patch: "n \<le> n' \<Longrightarrow> below (obtain_patch n h s p) (obtain_patch n' h s p)"
  unfolding obtain_patch_def Let_def
  by (rule below_refl below_gate_loop below_rules | assumption)+

lemma below_after_failure:
  "n \<le> n' \<Longrightarrow> below (after_execution_failure n h b r q f l) (after_execution_failure n' h b r q f l)"
  unfolding after_execution_failure_def
  by (rule below_refl below_repair_loop below_rules | assumption)+

lemma below_no_op: "n \<le> n' \<Longrightarrow> below (handle_no_op n h q f l i ev) (handle_no_op n' h q f l i ev)"
  unfolding handle_no_op_def
  by (rule below_refl below_repair_loop below_rules | assumption)+

lemma below_judge: "n \<le> n' \<Longrightarrow> below (judge_stage n h q f l out k) (judge_stage n' h q f l out k)"
  unfolding judge_stage_def Let_def
  by (rule below_refl below_no_op below_rules | assumption)+

lemma below_output: "n \<le> n' \<Longrightarrow> below (stage_output n h q f l r k) (stage_output n' h q f l r k)"
  unfolding stage_output_def Let_def
  by (rule below_refl below_judge below_repair_loop below_rules | assumption)+

lemma below_stage: "n \<le> n' \<Longrightarrow> below (run_stage n h f l) (run_stage n' h f l)"
  unfolding run_stage_def Let_def
  by (rule below_refl below_output below_after_failure below_rules | assumption)+

lemma below_stages: "k \<le> k' \<Longrightarrow> n \<le> n' \<Longrightarrow> below (run_stages k n h l) (run_stages k' n' h l)"
proof (induction k arbitrary: k' l)
  case (Suc k)
  then obtain j where "k' = Suc j" "k \<le> j" by (cases k') auto
  with Suc show ?case
    by (cases "ln_queue l") (auto intro!: below_perform below_cases below_refl below_stage)
qed (simp add: below_empty)

lemma below_prepared: "n \<le> n' \<Longrightarrow> below (run_prepared n h p) (run_prepared n' h p)"
  unfolding run_prepared_def
  by (rule below_refl below_obtain_patch below_stages below_rules | assumption)+

lemma below_body: "n \<le> n' \<Longrightarrow> below (run_experiment_body n h) (run_experiment_body n' h)"
  unfolding run_experiment_body_def
  by (rule below_refl below_prepared below_rules | assumption)+

lemma below_experiment: "n \<le> n' \<Longrightarrow> below (run_one_experiment n h) (run_one_experiment n' h)"
  unfolding run_one_experiment_def by (rule below_catching [OF below_body below_refl])

lemma below_rounds: "k \<le> k' \<Longrightarrow> n \<le> n' \<Longrightarrow> below (run_rounds k n h) (run_rounds k' n' h)"
proof (induction k arbitrary: k')
  case (Suc k)
  then obtain j where "k' = Suc j" "k \<le> j" by (cases k') auto
  with Suc show ?case
    by (auto intro!: below_perform below_cases below_refl below_experiment)
qed (simp add: below_empty)

lemma below_until_stopped: "n \<le> n' \<Longrightarrow> below (run_until_stopped n h) (run_until_stopped n' h)"
  unfolding run_until_stopped_def
  by (rule below_refl below_rounds below_rules | assumption)+

lemma below_completion: "n \<le> n' \<Longrightarrow> below (run_to_completion n h) (run_to_completion n' h)"
  unfolding run_to_completion_def by (intro below_perform below_until_stopped below_refl)

section \<open>What escapes\<close>

definition escapes :: "(failure \<Rightarrow> bool) \<Rightarrow> ('s, 'a) run \<Rightarrow> bool" where
  "escapes P m \<longleftrightarrow> (\<forall>w f w'. m w = (Inl f, w') \<longrightarrow> P f)"

text \<open>Not the error of an adapter and not an unavailable repair worker.\<close>

fun stops_program :: "failure \<Rightarrow> bool" where
  "stops_program (Adapter_error e) = False"
| "stops_program (Internal x) = True"
| "stops_program (Resumable m) = True"
| "stops_program (Repair_unavailable a c) = False"
| "stops_program Out_of_fuel = True"

named_theorems escape_rules

lemma escapes_basic [escape_rules]:
  "escapes P (ret x)" "P f \<Longrightarrow> escapes P (fail f)" "escapes stops_program (lift_res r)"
  "escapes stops_program (ensure e c)" "escapes stops_program (record_event h p a)"
  "escapes stops_program (get_events h)"
  by (auto simp: escapes_def ret_def fail_def lift_res_def ensure_def record_event_def get_events_def
      split: sum.splits prod.splits if_splits)

lemma escapes_perform [escape_rules]:
  "escapes P m \<Longrightarrow> (\<And>x. escapes P (k x)) \<Longrightarrow> escapes P (perform m k)"
  by (fastforce simp: escapes_def perform_def split: prod.splits sum.splits)

lemma escapes_catching [escape_rules]:
  "P Out_of_fuel \<Longrightarrow> (\<And>f. escapes P (handler f)) \<Longrightarrow> escapes P (catching m handler)"
  by (fastforce simp: escapes_def catching_def split: prod.splits sum.splits if_splits)

lemma escapes_cases [escape_rules]:
  "(b \<Longrightarrow> escapes P m) \<Longrightarrow> (\<not> b \<Longrightarrow> escapes P m') \<Longrightarrow> escapes P (if b then m else m')"
  "(\<And>a b. escapes P (j a b)) \<Longrightarrow> escapes P (case p of (a, b) \<Rightarrow> j a b)"
  by (auto split: prod.split)

lemma escapes_reports [escape_rules]:
  "escapes stops_program (get_state h)" "escapes stops_program (stop_and_report h c r)"
  "escapes stops_program (lane_closed_safely h i)"
  unfolding get_state_def stop_and_report_def stop_run_def lane_closed_safely_def
  by (intro escape_rules stops_program.simps(2) [THEN iffD2] TrueI)+

lemma escapes_experiment: "escapes stops_program (run_one_experiment n h)"
proof -
  have "escapes stops_program (repair_unavailable h a)" "escapes stops_program (handled_unexpected h f)" for a f
    unfolding repair_unavailable_def handled_unexpected_def
    by (intro escape_rules stops_program.simps(5) [THEN iffD2] TrueI)+
  then have "escapes stops_program (case f of Resumable m \<Rightarrow> fail (Resumable m)
      | Repair_unavailable a cause \<Rightarrow> repair_unavailable h a | _ \<Rightarrow> handled_unexpected h f)" for f
    by (cases f) (simp_all add: escapes_basic)
  then show ?thesis
    unfolding run_one_experiment_def by (intro escapes_catching) simp_all
qed

lemma escapes_until_stopped: "escapes stops_program (run_until_stopped n h)"
proof -
  have "escapes stops_program (run_rounds k n h)" for k
  proof (induction k)
    case (Suc k)
    then show ?case by (auto intro!: escape_rules escapes_experiment)
  qed (simp add: escapes_basic)
  then show ?thesis
    unfolding run_until_stopped_def by (auto intro!: escape_rules)
qed

text \<open>
  The properties of the harness's drivers, each applied to a harness whose adapters are all down and
  that finds the ledger of the sample run, or a part of it, on disk.
\<close>

section \<open>A file with a sample ledger\<close>

text \<open>The line of the event at a position is a text of that length.\<close>

definition tally :: "nat \<Rightarrow> string" where
  "tally k = replicate k CHR ''x''"

definition replay_store :: "event list \<Rightarrow> event_store" where
  "replay_store es = bare_store\<lparr>json_loads := \<lambda>t. Some (PyStr (butlast (tl t))),
     event_validate := \<lambda>d. case d of
       PyStr t \<Rightarrow> if 0 < length t \<and> length t \<le> length es then Some (es ! (length t - 1)) else None
     | _ \<Rightarrow> None\<rparr>"

definition replay_line :: "nat \<Rightarrow> string" where
  "replay_line k = canonical_bytes (PyStr (tally k))"

fun replay_file :: "nat \<Rightarrow> string" where
  "replay_file 0 = []"
| "replay_file (Suc k) = replay_file k @ replay_line (Suc k) @ [newline]"

lemma replay_line_is: "replay_line k = CHR 0x22 # tally k @ [CHR 0x22]"
proof -
  have "utf8 (concat (map (json_char False) (replicate k CHR ''x'')) @ [CHR 0x22]) = replicate k CHR ''x'' @ [CHR 0x22]"
    by (induction k) (simp_all add: json_char_def utf8_def utf8_char_def Let_def)
  then show ?thesis
    by (simp add: replay_line_def canonical_bytes_def canonical_dumps_def tally_def json_str_def)
      (simp add: utf8_def utf8_char_def)
qed

lemma replay_file_complete: "ends_complete (replay_file k)"
  by (cases k) (simp_all add: ends_complete_def)

lemma sample_key_digest: "key_digest (idempotency_key (sample_event k p)) = ZERO_SHA256"
proof -
  have "idempotency_key (sample_event k p) = ''r:x:s:'' @ digits_of k @ '':'' @ ZERO_SHA256"
    by (simp add: sample_event_def)
  then show ?thesis unfolding key_digest_def by (simp only: sample_key_split) simp
qed

text \<open>The sample ledger up to a position, as the store reads it.\<close>

lemma replay_reads:
  assumes "legal_ledger dg (number_events 1 ps)" and "k \<le> length ps"
  shows "read_locked (replay_store (number_events 1 ps)) (Some (replay_file k)) = Inr (take k (number_events 1 ps))"
  using assms(2)
proof (induction k)
  case (Suc k)
  let ?es = "number_events 1 ps" and ?before = "take k (number_events 1 ps)"
  let ?e = "?es ! k"
  have es: "?es = ?before @ ?e # drop (Suc k) ?es" using Suc.prems by (simp add: id_take_nth_drop)
  with assms(1) have ok: "accepts dg ?before ?e" by (metis legal_split)
  have same: "f \<in> set ?es \<Longrightarrow> event_hash f = ZERO_SHA256 \<and> prev_event_hash f = ZERO_SHA256
      \<and> key_digest (idempotency_key f) = ZERO_SHA256 \<and> run_id f = ''r'' \<and> causation_event_id f = None" for f
  proof -
    assume "f \<in> set ?es"
    then obtain j p where "f = sample_event j p" by (blast dest: number_events_set)
    then show ?thesis by (simp add: sample_key_digest) (simp add: sample_event_def)
  qed
  have before: "f \<in> set ?before \<Longrightarrow> f \<in> set ?es" for f by (rule in_set_takeD)
  have e: "?e \<in> set ?es" using Suc.prems by simp
  have last: "previous_hash ?before = ZERO_SHA256"
    using same [OF before [OF last_in_set]]
    by (cases "?before = []") (simp_all add: previous_hash_def GENESIS_HASH_def ZERO_SHA256_def)
  have hd: "?before = [] \<or> run_id ?e = run_id (hd ?before)"
  proof (cases "?before = []")
    case False
    then have "hd ?before \<in> set ?es" by (intro before hd_in_set)
    then show ?thesis using same [of "hd ?before"] same [OF e] by simp
  qed simp
  have canon: "canonical_bytes (PyStr (CHR ''x'' # replicate k CHR ''x'')) = CHR 0x22 # CHR ''x'' # replicate k CHR ''x'' @ [CHR 0x22]"
    using replay_line_is [of "Suc k"] by (simp add: replay_line_def tally_def)
  have "read_line (replay_store ?es) ?before (replay_line (Suc k)) = Inr (?before @ [?e])"
    using ok same [OF e] last hd Suc.prems
    by (simp add: read_line_def replay_store_def bare_store_def replay_line_is tally_def canonical_sha256_def
        guarded_def fetch_def known_cause_def truthy_str_def accepts_def canon)
  moreover have "one_line (replay_line (Suc k))" by (simp add: replay_line_def)
  ultimately show ?case
    using read_locked_written [of "Some (replay_file k)" "replay_line (Suc k)"] Suc replay_file_complete
    by (simp add: take_Suc_conv_app_nth)
qed simp

section \<open>A harness without adapters\<close>

definition idle_config :: frozen_config where
  "idle_config = \<lparr>cfg_max_experiments = 4, cfg_wall_time_limit_seconds = 60, cfg_token_limit = None,
     cfg_gpu_seconds_limit = None, cfg_convergence_epsilon = 0, cfg_convergence_patience = 2,
     cfg_run_id = ''r'', cfg_contract_path = ''c'', cfg_protected_paths_path = ''p'',
     cfg_artifact_roots = [''a''], cfg_command_ids = [''train''], cfg_metric_names = [''auc''],
     cfg_primary_metric_name = ''auc'', cfg_data_manifest_sha256 = ZERO_SHA256,
     cfg_evaluator_sha256 = ZERO_SHA256, cfg_baseline_commit_sha = ''c0'', cfg_parallel_directions = 1,
     cfg_synthesize_parallel_improvements = True, cfg_max_repairs_per_experiment = 2,
     cfg_allowed_runtime_adjustments = [], cfg_timeout_profiles = [(''standard'', 60)],
     cfg_max_confirmation_attempts = 2, cfg_seed_schedule = [1, 2], cfg_context_token_limit = 1000,
     cfg_synthesis_context_token_limit = 1000, cfg_live_adapter_config_sha256 = None,
     cfg_editable_roots = [''a''], cfg_allowed_research_families = [], cfg_allowed_research_data = [],
     cfg_research_capabilities = [], cfg_active_research_prohibitions = [],
     cfg_prediction_change_no_op_threshold = 0, cfg_max_single_score_fraction = 1,
     cfg_target_interface_excerpts = [], cfg_coding_step_limit = 1, cfg_coding_token_limit = None,
     cfg_coding_wall_time_limit_seconds = 60, cfg_deepseek_model = ''m'', cfg_deepseek_api_key_env = ''K'',
     cfg_deepseek_timeout_seconds = 60, cfg_research_planning_max_attempts = 2,
     cfg_research_planning_retry_backoff_seconds = 0, cfg_deepseek_max_output_tokens = 1,
     cfg_deepseek_thinking_enabled = False, cfg_deepseek_reasoning_effort = Effort_low,
     cfg_literature_research_enabled = False, cfg_literature_provider = Provider_openalex,
     cfg_literature_timeout_seconds = 60, cfg_literature_max_papers = 1,
     cfg_literature_min_citation_count = 0, cfg_literature_bank_path = ''b'',
     cfg_literature_bank_sha256 = None\<rparr>"

definition down :: "('s, 'a) call" where
  "down w = (Inl (plain_error ''RuntimeError'' ''down''), w)"

definition idle_harness :: "event list \<Rightarrow> unit harness" where
  "idle_harness es = \<lparr>h_config = idle_config,
     h_contract = \<lparr>vc_contract_sha256 = ZERO_SHA256, vc_protected_paths_sha256 = ZERO_SHA256, vc_config_sha256 = ZERO_SHA256\<rparr>,
     h_store = replay_store es, h_artifact_store = None, h_now = (\<lambda>w. 0), h_exc_text = exc_class,
     h_read_contract = down, h_build_planner = (\<lambda>es. down), h_build_coder = (\<lambda>es s. down),
     h_build_recovery = (\<lambda>es i k. down), h_bind_implementation = (\<lambda>p. down), h_propose = (\<lambda>c. down),
     h_propose_synthesis = None, h_provider_delta = (\<lambda>w. None), h_create_patch = (\<lambda>c s. down),
     h_repair_patch = (\<lambda>c d. down), h_restart_from_trusted_parent = (\<lambda>c d. down), h_check_patch = (\<lambda>p. down),
     h_run = (\<lambda>q. down), h_decide_recovery = (\<lambda>i v c. down), h_check_output = (\<lambda>r. down),
     h_evaluate = (\<lambda>q. down), h_decide = (\<lambda>r c. down), h_prepare_baseline = None,
     h_lock = down, h_sleep = (\<lambda>t. down)\<rparr>"

definition idle_world :: "nat \<Rightarrow> unit world" where
  "idle_world k = \<lparr>w_ledger = Some (replay_file k), w_files = \<lparr>fs_bytes = [], fs_dirs = [], fs_links = []\<rparr>, w_parallel = False, w_pending = None, w_env = ()\<rparr>"

lemma idle_reads:
  assumes "k \<le> 26"
  shows "get_events (idle_harness sample_run) (idle_world k) = (Inr (take k sample_run), idle_world k)"
    and "harness_view (idle_harness sample_run) (idle_world k) = Inr (take k sample_run)"
proof -
  have "read_locked (replay_store sample_run) (Some (replay_file k)) = Inr (take k sample_run)"
    using replay_reads [OF sample_run_legal [of sample_dg, unfolded sample_run_def], of k] assms
    by (simp add: sample_run_def sample_payloads_def)
  moreover have "repair_tail (Some (replay_file k)) = Some (replay_file k)"
    using replay_file_complete [of k] by (simp add: repair_tail_def)
  ultimately show "get_events (idle_harness sample_run) (idle_world k) = (Inr (take k sample_run), idle_world k)"
    "harness_view (idle_harness sample_run) (idle_world k) = Inr (take k sample_run)"
    by (simp_all add: get_events_def harness_events_def read_events_def idle_harness_def idle_world_def
        harness_view_def repaired_view_read lift_res_def ret_def)
qed

lemma idle_finalized:
  obtains s where "project sample_run = Inr s" "st_status s = Run_FINALIZED"
    "get_events (idle_harness sample_run) (idle_world 26) = (Inr sample_run, idle_world 26)"
    "get_state (idle_harness sample_run) (idle_world 26) = (Inr s, idle_world 26)"
proof -
  obtain s where s: "project sample_run = Inr s" "st_status s = Run_FINALIZED" using sample_final by blast
  have "take 26 sample_run = sample_run" by (simp add: sample_run_def sample_payloads_def)
  with idle_reads [of 26] have es: "get_events (idle_harness sample_run) (idle_world 26) = (Inr sample_run, idle_world 26)"
    by simp
  then have "get_state (idle_harness sample_run) (idle_world 26) = (Inr s, idle_world 26)"
    using s by (simp add: get_state_def perform_def lift_res_def ret_def)
  with s es show ?thesis by (rule that)
qed

lemma idle_until_stopped:
  "\<exists>s. project sample_run = Inr s \<and> run_until_stopped (Suc n) (idle_harness sample_run) (idle_world 26) = (Inr s, idle_world 26)"
proof -
  obtain s where "project sample_run = Inr s" "st_status s = Run_FINALIZED"
    "get_events (idle_harness sample_run) (idle_world 26) = (Inr sample_run, idle_world 26)"
    "get_state (idle_harness sample_run) (idle_world 26) = (Inr s, idle_world 26)"
    by (rule idle_finalized)
  moreover have "sample_run \<noteq> []" by (simp add: sample_run_def sample_payloads_def)
  ultimately show ?thesis by (simp add: run_until_stopped_def perform_def run_is_over_def ret_def)
qed

lemma idle_adapters: "adapters_maintain append_only (idle_harness es)"
  by (simp add: adapters_maintain_def idle_harness_def call_maintains_def down_def ledger.refl)

section \<open>The ledger of a run\<close>

text \<open>
  The drivers of the harness write to the ledger only by appending: provided that what happens during
  the calls of its adapters only appends, the complete lines of the file at the start are the beginning
  of the file when the driver returns or fails, byte for byte.
\<close>

theorem harness_ledger_append_only:
  assumes "adapters_maintain append_only h"
    and "w' \<in> {snd (bootstrap h ev w), snd (run_one_experiment n h w), snd (run_parallel_lane n h p w),
      snd (run_round_synthesis n h ids w), snd (finalize h w), snd (run_to_completion n h w)}"
  shows "\<exists>t. file_data (w_ledger w') = complete_part (file_data (w_ledger w)) @ t"
proof -
  have "append_only w w'"
    using assms(2) ledger.maintains_bootstrap [of h ev] ledger.maintains_experiment(3) [OF assms(1)]
      ledger.maintains_parallel(1) [OF assms(1), of n p]
      ledger.maintains_parallel(2) [OF assms(1)] ledger.maintains_finalize [OF assms(1)]
      ledger.maintains_completion [OF assms(1)]
    unfolding maintains_def by auto
  then show ?thesis by (simp add: append_only_def)
qed

theorem harness_ledger_append_only_witness:
  "\<exists>t. file_data (w_ledger (snd (run_to_completion 9 (idle_harness sample_run) (idle_world 3))))
    = complete_part (replay_file 3) @ t"
  using harness_ledger_append_only [OF idle_adapters [of sample_run],
      of "snd (run_to_completion 9 (idle_harness sample_run) (idle_world 3))"
      "sample_evaluation ''baseline'' 1 1 0 (sample_trust Stability_SINGLE_SEED 1) []" "idle_world 3" 9
      "(sample_spec ''x1'' ''d1'', ''e'')" "[]"]
  by (simp add: idle_world_def)

text \<open>
  C37: The error of an adapter never escapes the driver of an experiment or of the run: when one of
  them fails, it is because of an exception of the harness itself, because planning cannot be
  resumed, or because the bound on the iterations was too small; never with the exception of an
  adapter and never with the internal signal that no repair worker is available.
\<close>

theorem adapter_errors_never_escape:
  assumes "run_one_experiment n h w = (Inl f, w') \<or> run_until_stopped n h w = (Inl f, w')"
  shows "(\<exists>x. f = Internal x) \<or> (\<exists>m. f = Resumable m) \<or> f = Out_of_fuel"
proof -
  have "stops_program f"
    using assms escapes_experiment [of n h] escapes_until_stopped [of n h] unfolding escapes_def by blast
  then show ?thesis by (cases f) simp_all
qed

theorem adapter_errors_never_escape_witness:
  "\<exists>f w'. run_until_stopped 1 (idle_harness sample_run) (idle_world 0) = (Inl f, w')
    \<and> ((\<exists>x. f = Internal x) \<or> (\<exists>m. f = Resumable m) \<or> f = Out_of_fuel)"
proof -
  let ?x = "Raised ''OrchestrationError'' ''run must be bootstrapped before execution''"
  have run: "run_until_stopped 1 (idle_harness sample_run) (idle_world 0) = (Inl (Internal ?x), idle_world 0)"
    using idle_reads(1) [of 0] by (simp add: run_until_stopped_def perform_def fail_def)
  from adapter_errors_never_escape [OF disjI2 [OF run]] run show ?thesis by blast
qed

text \<open>
  C38: The driver of the run reports the truth: a state it returns is the projection of the events
  that the ledger file holds at that moment, the run is over in it, and, when the store checks
  transitions and validates events, those events are a legal ledger.
\<close>

theorem run_until_stopped_reports:
  assumes "run_until_stopped n h w = (Inr s, w')" and "check_transition (h_store h) = Some validate_transition"
    and "\<forall>d e. event_validate (h_store h) d = Some e \<longrightarrow> valid_event dg e"
  shows "run_is_over s \<and> (\<exists>es. harness_view h w' = Inr es \<and> project es = Inr s \<and> legal_ledger dg es)"
proof -
  from assms(1) ends_until_stopped [of h n] have "run_is_over s" "reported h s w'"
    by (auto simp: ends_def over_and_reported_def)
  then obtain es where es: "harness_view h w' = Inr es" "project es = Inr s" by (auto simp: reported_def)
  then have "read_events (h_store h) True (w_ledger w') = (repair_tail (w_ledger w'), Inr es)"
    by (simp add: harness_view_def repaired_view_read read_events_def)
  from read_is_legal [OF this assms(2,3)] es \<open>run_is_over s\<close> show ?thesis by blast
qed

theorem run_until_stopped_reports_witness:
  "\<exists>s. run_until_stopped 1 (idle_harness sample_run) (idle_world 26) = (Inr s, idle_world 26) \<and> run_is_over s"
proof -
  obtain s where run: "run_until_stopped 1 (idle_harness sample_run) (idle_world 26) = (Inr s, idle_world 26)"
    using idle_until_stopped [of 0] by auto
  have check: "check_transition (h_store (idle_harness sample_run)) = Some validate_transition"
    by (simp add: idle_harness_def replay_store_def bare_store_def)
  have "valid_event sample_dg e" if "e \<in> set sample_run" for e
    using that sample_run_legal [of sample_dg] legal_split by (metis accepts_def split_list)
  then have "valid_event sample_dg (sample_run ! (k - 1))" if "0 < k" "k \<le> length sample_run" for k
    using that by simp
  then have "\<forall>d e. event_validate (h_store (idle_harness sample_run)) d = Some e \<longrightarrow> valid_event sample_dg e"
    by (auto simp: idle_harness_def replay_store_def Suc_le_eq split: pyval.splits if_splits)
  from run_until_stopped_reports [OF run check this] run show ?thesis by blast
qed

section \<open>Finalization\<close>

lemma step_Inr:
  "lift_res r w = (Inr x, w') \<longleftrightarrow> r = Inr x \<and> w' = w"
  "ensure e c w = (Inr u, w') \<longleftrightarrow> c \<and> w' = w"
  "await call w = (Inr x, w') \<longleftrightarrow> call w = (Inr x, w')"
  "ret x w = (Inr y, w') \<longleftrightarrow> y = x \<and> w' = w"
  "fail f w = (Inr y, w') \<longleftrightarrow> False"
  by (auto simp: lift_res_def ensure_def await_def ret_def fail_def split: sum.splits prod.splits)

lemma final_executionD:
  "run_final_execution h plan k command cause w = (Inr r, w') \<Longrightarrow>
     \<exists>v v'. h_run h (final_request h plan k command) v = (Inr (fr_result r), v') \<and> rr_outcome (fr_result r) = Outcome_SUCCESS"
  unfolding run_final_execution_def Let_def by (auto simp: perform_Inr step_Inr) blast

lemma final_outputD:
  "check_final_output h r command w = (Inr (output, i), w') \<Longrightarrow>
     (\<exists>v v'. h_check_output h (fr_result r) v = (Inr output, v')) \<and> oc_accepted output"
  unfolding check_final_output_def by (auto simp: perform_Inr step_Inr)

text \<open>The evaluation that the clean reproduction rests on.\<close>

definition reproducing :: "'s harness \<Rightarrow> candidate_finalization_plan \<Rightarrow> evaluation_request \<Rightarrow> evaluation_result \<Rightarrow> bool" where
  "reproducing h plan q evaluation \<longleftrightarrow> (\<exists>v v'. h_evaluate h q v = (Inr evaluation, v'))
     \<and> eq_experiment_id q = fp_experiment_id plan \<and> eq_seed q = fp_seed plan \<and> eq_fidelity q = Fidelity_FULL
     \<and> eq_population q = Population_PUBLIC_VALIDATION \<and> exactly_reproduced plan evaluation"

lemma reproduceD: "reproduce h s plan i w = (Inr j, w') \<Longrightarrow> \<exists>q evaluation. reproducing h plan q evaluation"
  unfolding reproduce_def Let_def
  apply (clarsimp simp: perform_Inr step_Inr split: prod.splits)
  apply (intro exI)
  unfolding reproducing_def by (intro conjI, intro exI, assumption, simp_all)

text \<open>
  The prediction file that is submitted: a final inference run succeeded, its output passed Gate B,
  and a submission check succeeded on exactly this file.
\<close>

definition submission_verified :: "'s harness \<Rightarrow> candidate_finalization_plan \<Rightarrow> bool" where
  "submission_verified h plan \<longleftrightarrow> (\<exists>k final output submission.
     (\<exists>v v'. h_run h (final_request h plan k ''candidate_final_infer'') v = (Inr final, v'))
     \<and> rr_outcome final = Outcome_SUCCESS
     \<and> (\<exists>v v'. h_check_output h final v = (Inr output, v')) \<and> oc_accepted output
     \<and> (\<exists>v v'. h_run h (final_request h plan (k + 1) ''submission_check'') v = (Inr submission, v'))
     \<and> rr_outcome submission = Outcome_SUCCESS
     \<and> map_option art_sha256 (rr_prediction_artifact submission) = Some (art_sha256 (oc_prediction_artifact output)))"

lemma ends_finalization:
  "ends (reported h) (finalize_baseline h es s)" "ends (reported h) (finalize_candidate h es s)"
  unfolding finalize_baseline_def finalize_candidate_def Let_def by (intro ends_rules)+

lemma finalize_candidateD:
  assumes "finalize_candidate h es s0 w = (Inr s, w')"
  shows "\<exists>plan q evaluation. plan_candidate_finalization es s0 = Inr plan \<and> reproducing h plan q evaluation
    \<and> submission_verified h plan"
proof -
  from assms obtain plan reproduction v1 v2 final v3 out out_id v4 submission v5 where
    plan: "plan_candidate_finalization es s0 = Inr plan"
    and repro: "reproduce h s0 plan (event_id (last es)) v1 = (Inr reproduction, v2)"
    and infer: "run_final_execution h plan (fp_next_attempt plan + 1) ''candidate_final_infer'' reproduction v2 = (Inr final, v3)"
    and gate: "check_final_output h final ''candidate_final_infer'' v3 = (Inr (out, out_id), v4)"
    and submit: "run_final_execution h plan (fp_next_attempt plan + 1 + 1) ''submission_check'' out_id v4 = (Inr submission, v5)"
    and consumed: "case rr_prediction_artifact (fr_result submission) of None \<Rightarrow> False
      | Some a \<Rightarrow> art_sha256 a = art_sha256 (oc_prediction_artifact out)"
    unfolding finalize_candidate_def Let_def by (clarsimp simp: perform_Inr step_Inr split: prod.splits)
  from consumed have "map_option art_sha256 (rr_prediction_artifact (fr_result submission))
      = Some (art_sha256 (oc_prediction_artifact out))" by (cases "rr_prediction_artifact (fr_result submission)") simp_all
  with final_executionD [OF infer] final_outputD [OF gate] final_executionD [OF submit]
  have "submission_verified h plan" unfolding submission_verified_def by blast
  with plan reproduceD [OF repro] show ?thesis by blast
qed

text \<open>
  C39: Finalization never closes a run on an unverified candidate: when it returns, the run was
  finalized before, or it had stopped normally with the frozen baseline as its best, or a plan for
  its best candidate exists under which an evaluation of the whole public population with the plan's
  seed exactly reproduced the trusted best score, the final inference run succeeded and its output
  passed Gate B, and the submission check succeeded on exactly that output.  The state returned is
  the projection of the ledger.
\<close>

theorem finalize_reproduces:
  assumes "finalize h w = (Inr s, w')"
  shows "\<exists>es s0. harness_view h w = Inr es \<and> project es = Inr s0
    \<and> (st_status s0 = Run_FINALIZED \<and> s = s0
       \<or> st_status s0 = Run_STOPPED \<and> is_finalizable_stop_reason (st_stop_reason_code s0) \<and> reported h s w'
         \<and> (st_best_experiment_id s0 = Some ''baseline''
            \<or> (\<exists>plan q evaluation. plan_candidate_finalization es s0 = Inr plan
                \<and> reproducing h plan q evaluation \<and> submission_verified h plan)))"
proof -
  obtain es v s0 where es: "get_events h w = (Inr es, v)" "project es = Inr s0"
    and rest: "(if st_status s0 = Run_FINALIZED then ret s0
      else perform (ensure (FinalizationError ''finalization requires a stopped run'') (st_status s0 = Run_STOPPED)) (\<lambda>u.
        perform (ensure (FinalizationError ''finalization requires a normal deterministic stop reason'')
          (is_finalizable_stop_reason (st_stop_reason_code s0))) (\<lambda>u.
        if st_best_experiment_id s0 = Some ''baseline'' then finalize_baseline h es s0
        else finalize_candidate h es s0))) v = (Inr s, w')"
    using assms unfolding finalize_def perform_Inr step_Inr by blast
  have view: "harness_view h w = Inr es" using get_events_result [OF es(1)] by simp
  show ?thesis
  proof (cases "st_status s0 = Run_FINALIZED")
    case True
    with rest view es(2) show ?thesis by (auto simp: step_Inr)
  next
    case False
    with rest have stopped: "st_status s0 = Run_STOPPED" "is_finalizable_stop_reason (st_stop_reason_code s0)"
      and run: "(if st_best_experiment_id s0 = Some ''baseline'' then finalize_baseline h es s0
        else finalize_candidate h es s0) v = (Inr s, w')"
      by (auto simp: perform_Inr step_Inr)
    have "reported h s w'"
      using run ends_finalization [of h es s0] by (auto simp: ends_def split: if_splits)
    with view es(2) stopped run show ?thesis
      using finalize_candidateD [of h es s0 v s w'] by (auto split: if_splits)
  qed
qed

theorem finalize_reproduces_witness:
  "\<exists>s. finalize (idle_harness sample_run) (idle_world 26) = (Inr s, idle_world 26) \<and> st_status s = Run_FINALIZED"
proof -
  obtain s where s: "project sample_run = Inr s" "st_status s = Run_FINALIZED"
    and es: "get_events (idle_harness sample_run) (idle_world 26) = (Inr sample_run, idle_world 26)"
    by (rule idle_finalized)
  then have run: "finalize (idle_harness sample_run) (idle_world 26) = (Inr s, idle_world 26)"
    by (simp add: finalize_def perform_def lift_res_def ret_def)
  have "harness_view (idle_harness sample_run) (idle_world 26) = Inr sample_run"
    using get_events_result [OF es] by simp
  with finalize_reproduces [OF run] s run show ?thesis by auto
qed

section \<open>The bound on the iterations\<close>

text \<open>
  The bound on the iterations of the harness's loops is no part of the program, and it decides nothing:
  when a run with some bound does not report that it was too small, every larger bound gives the same
  result and leaves the same ledger, files and outside world.
\<close>

theorem harness_fuel_irrelevant:
  assumes "run_until_stopped n h w = (r, w')" and "r \<noteq> Inl Out_of_fuel" and "n \<le> n'"
  shows "run_until_stopped n' h w = (r, w')"
  using below_until_stopped [OF assms(3), of h, unfolded below_def, rule_format, of w] assms(1,2) by simp

theorem harness_fuel_irrelevant_witness:
  "run_until_stopped 7 (idle_harness sample_run) (idle_world 26) = run_until_stopped 1 (idle_harness sample_run) (idle_world 26)"
proof -
  obtain s where run: "run_until_stopped 1 (idle_harness sample_run) (idle_world 26) = (Inr s, idle_world 26)"
    using idle_until_stopped [of 0] by auto
  from harness_fuel_irrelevant [OF run, of 7] run show ?thesis by simp
qed

end
