(* ===== verification/Telemetry.thy ===== *)
theory Telemetry
  imports Schemas_Lifecycle Py_Numbers Regex
begin

text \<open>
  The live monitoring of \<^verbatim>\<open>sre/\<close>: the bounded window of telemetry samples, the rolling detectors,
  the hang diagnosis, the health policy and the observer that the execution loop calls with each sample.
\<close>

section \<open>The window\<close>

text \<open>\<^verbatim>\<open>deque(maxlen=capacity)\<close>, oldest sample first.\<close>

record telemetry_window =
  tw_capacity :: nat
  tw_samples :: "telemetry_sample list"

definition telemetry_window_of :: "int \<Rightarrow> telemetry_window res" where
  "telemetry_window_of capacity = guarded (ValueError ''telemetry window capacity must be a positive integer'')
     (1 \<le> capacity) (Inr \<lparr>tw_capacity = nat capacity, tw_samples = []\<rparr>)"

definition latest :: "telemetry_window \<Rightarrow> telemetry_sample option" where
  "latest w = (if tw_samples w = [] then None else Some (last (tw_samples w)))"

definition add_sample :: "telemetry_sample \<Rightarrow> telemetry_window \<Rightarrow> telemetry_window" where
  "add_sample s w = (let samples = tw_samples w @ [s] in
     w\<lparr>tw_samples := drop (length samples - tw_capacity w) samples\<rparr>)"

definition clear_window :: "telemetry_window \<Rightarrow> telemetry_window" where
  "clear_window w = w\<lparr>tw_samples := []\<rparr>"

section \<open>Anomalies\<close>

text \<open>The metric and its name, in the order of priority.\<close>

definition watched_metrics :: "(string \<times> (telemetry_sample \<Rightarrow> pyfloat option)) list" where
  "watched_metrics = [(''loss'', tl_loss), (''gradient_norm'', tl_gradient_norm)]"

text \<open>\<^verbatim>\<open>math.isfinite\<close> is \<open>is_float\<close>: the rationals that are no finite float stand for the rest.\<close>

definition first_nonfinite_metric :: "telemetry_sample \<Rightarrow> string option" where
  "first_nonfinite_metric s = map_option fst (first_such (\<lambda>(name, metric).
     case metric s of None \<Rightarrow> False | Some v \<Rightarrow> \<not> is_float v) watched_metrics)"

definition stat_median :: "pyfloat list \<Rightarrow> pyfloat" where
  "stat_median values = (let data = sort values; n = length data in
     if odd n then data ! (n div 2)
     else fdiv (fadd (data ! (n div 2 - 1)) (data ! (n div 2))) 2)"

definition BASELINE_FLOOR :: pyfloat where
  "BASELINE_FLOOR = fl (1 / 10 ^ 12)"

definition last_n :: "nat \<Rightarrow> 'a list \<Rightarrow> 'a list" where
  "last_n n xs = drop (length xs - n) xs"

definition persistent_explosion ::
  "telemetry_sample list \<Rightarrow> (telemetry_sample \<Rightarrow> pyfloat option) \<Rightarrow> pyfloat \<Rightarrow> nat \<Rightarrow> nat \<Rightarrow> bool" where
  "persistent_explosion samples metric multiplier baseline_samples persistence =
     (let values = map metric samples;
          finite_value = (\<lambda>v. case v of None \<Rightarrow> False | Some x \<Rightarrow> is_float x);
          candidates = last_n persistence values;
          history = List.map_filter (\<lambda>v. if finite_value v then v else None)
            (take (length values - persistence) values)
      in if length values < baseline_samples + persistence then False
         else if \<not> list_all finite_value candidates then False
         else if length history < baseline_samples then False
         else (let baseline = \<bar>stat_median (last_n baseline_samples history)\<bar>;
                   threshold = fmul (max baseline BASELINE_FLOOR) multiplier
               in list_all (\<lambda>v. case v of None \<Rightarrow> True | Some x \<Rightarrow> threshold < \<bar>x\<bar>) candidates))"

section \<open>Hangs\<close>

record heartbeat_policy =
  hb_deadline_ms :: int
  hb_minimum_stale_samples :: nat
  hb_cpu_idle_percent :: pyfloat
  hb_cpu_unchanged_delta_percent :: pyfloat
  hb_cpu_unchanged_ceiling_percent :: pyfloat
  hb_gpu_expected :: bool
  hb_gpu_idle_percent :: pyfloat

definition default_heartbeat :: heartbeat_policy where
  "default_heartbeat = \<lparr>hb_deadline_ms = 60000, hb_minimum_stale_samples = 2, hb_cpu_idle_percent = 5,
     hb_cpu_unchanged_delta_percent = 1 / 2, hb_cpu_unchanged_ceiling_percent = 10, hb_gpu_expected = False,
     hb_gpu_idle_percent = 5\<rparr>"

definition valid_heartbeat_policy :: "heartbeat_policy \<Rightarrow> bool" where
  "valid_heartbeat_policy p \<longleftrightarrow> 0 < hb_deadline_ms p \<and> 2 \<le> hb_minimum_stale_samples p
     \<and> 0 \<le> hb_cpu_idle_percent p \<and> 0 \<le> hb_cpu_unchanged_delta_percent p
     \<and> 0 \<le> hb_cpu_unchanged_ceiling_percent p \<and> 0 \<le> hb_gpu_idle_percent p"

definition largest :: "pyfloat list \<Rightarrow> pyfloat" where
  "largest xs = foldr max (tl xs) (hd xs)"

definition smallest :: "pyfloat list \<Rightarrow> pyfloat" where
  "smallest xs = foldr min (tl xs) (hd xs)"

definition likely_hang :: "telemetry_sample list \<Rightarrow> heartbeat_policy \<Rightarrow> bool" where
  "likely_hang samples p =
     (let recent = last_n (hb_minimum_stale_samples p) samples; cpu = map tl_cpu_percent recent in
      if length samples < hb_minimum_stale_samples p then False
      else if \<not> list_all tl_process_alive recent then False
      else if \<not> list_all (\<lambda>s. hb_deadline_ms p \<le> tl_last_output_age_ms s) recent then False
      else if \<not> (list_all (\<lambda>v. v \<le> hb_cpu_idle_percent p) cpu
             \<or> largest cpu \<le> hb_cpu_unchanged_ceiling_percent p
               \<and> fsub (largest cpu) (smallest cpu) \<le> hb_cpu_unchanged_delta_percent p) then False
      else if hb_gpu_expected p
      then list_all (\<lambda>s. case tl_gpu_utilization_percent s of None \<Rightarrow> False
             | Some v \<Rightarrow> v \<le> hb_gpu_idle_percent p) recent
      else True)"

section \<open>The policy\<close>

record health_policy =
  hp_heartbeat :: heartbeat_policy
  hp_cpu_memory_limit_mb :: "pyfloat option"
  hp_gpu_memory_limit_mb :: "pyfloat option"
  hp_disk_free_floor_mb :: "pyfloat option"
  hp_anomaly_multiplier :: pyfloat
  hp_anomaly_baseline_samples :: nat
  hp_anomaly_persistence :: nat
  hp_oom_patterns :: "re list"
  hp_policy_violation_patterns :: "re list"

definition valid_health_policy :: "health_policy \<Rightarrow> bool" where
  "valid_health_policy p \<longleftrightarrow> valid_heartbeat_policy (hp_heartbeat p)
     \<and> opt_ok (\<lambda>v. 0 \<le> v) (hp_cpu_memory_limit_mb p) \<and> opt_ok (\<lambda>v. 0 \<le> v) (hp_gpu_memory_limit_mb p)
     \<and> opt_ok (\<lambda>v. 0 \<le> v) (hp_disk_free_floor_mb p) \<and> 1 < hp_anomaly_multiplier p
     \<and> 1 \<le> hp_anomaly_baseline_samples p \<and> 2 \<le> hp_anomaly_persistence p"

text \<open>The patterns are compiled without regard to case.\<close>

definition worded :: "re list \<Rightarrow> re" where
  "worded rs = seq (Word_edge # rs @ [Word_edge])"

definition DEFAULT_OOM_PATTERNS :: "re list" where
  "DEFAULT_OOM_PATTERNS = [worded [lit_nocase ''CUDA out of memory''],
     worded [lit_nocase ''out of memory'', opt (lit_nocase '' error'')],
     worded [lit_nocase ''MemoryError''], worded [lit_nocase ''cannot allocate memory'']]"

definition DEFAULT_POLICY_PATTERNS :: "re list" where
  "DEFAULT_POLICY_PATTERNS = [worded [lit_nocase ''execution policy violation''],
     worded [lit_nocase ''contract violation''], worded [lit_nocase ''protected path violation''],
     worded [lit_nocase ''unauthori'', Chars (\<lambda>c. lower_char c \<in> set ''sz''), lit_nocase ''ed '',
       alts [lit_nocase ''resource'', lit_nocase ''access'']]]"

definition default_health_policy :: health_policy where
  "default_health_policy = \<lparr>hp_heartbeat = default_heartbeat, hp_cpu_memory_limit_mb = None,
     hp_gpu_memory_limit_mb = None, hp_disk_free_floor_mb = None, hp_anomaly_multiplier = 5,
     hp_anomaly_baseline_samples = 5, hp_anomaly_persistence = 2, hp_oom_patterns = DEFAULT_OOM_PATTERNS,
     hp_policy_violation_patterns = DEFAULT_POLICY_PATTERNS\<rparr>"

definition keep_running :: monitor_directive where
  "keep_running = \<lparr>md_action = Monitor_CONTINUE, md_reason_code = None, md_summary = None\<rparr>"

definition terminate :: "string \<Rightarrow> string \<Rightarrow> monitor_directive" where
  "terminate reason summary = \<lparr>md_action = Monitor_TERMINATE, md_reason_code = Some reason, md_summary = Some summary\<rparr>"

definition exceeds :: "int option \<Rightarrow> pyfloat option \<Rightarrow> bool" where
  "exceeds v limit = (case (v, limit) of (Some k, Some l) \<Rightarrow> l < float_of_int k | _ \<Rightarrow> False)"

definition evaluate_health :: "health_policy \<Rightarrow> telemetry_window \<Rightarrow> monitor_directive" where
  "evaluate_health p w = (case latest w of None \<Rightarrow> keep_running
     | Some s \<Rightarrow> (let output_tail = tl_recent_output_tail s; samples = tw_samples w;
           explodes = (\<lambda>metric. persistent_explosion samples metric (hp_anomaly_multiplier p)
             (hp_anomaly_baseline_samples p) (hp_anomaly_persistence p)) in
         if \<not> tl_process_alive s then terminate ''PROCESS_DIED'' ''Process exited unexpectedly.''
         else case first_nonfinite_metric s of
           Some name \<Rightarrow> terminate ''NUMERICAL_NONFINITE'' (''Non-finite '' @ name @ '' detected.'')
         | None \<Rightarrow>
         if list_ex (\<lambda>r. re_found r output_tail) (hp_oom_patterns p)
         then terminate ''EXPLICIT_OOM'' ''Explicit out-of-memory failure detected.''
         else if (case hp_disk_free_floor_mb p of None \<Rightarrow> False | Some f \<Rightarrow> float_of_int (tl_disk_free_mb s) < f)
         then terminate ''DISK_LOW'' ''Available disk is below the configured safe floor.''
         else if list_ex (\<lambda>r. re_found r output_tail) (hp_policy_violation_patterns p)
         then terminate ''EXECUTION_POLICY_VIOLATION'' ''Execution policy violation reported.''
         else if exceeds (Some (tl_rss_mb s)) (hp_cpu_memory_limit_mb p)
         then terminate ''CPU_MEMORY_LIMIT'' ''Process memory exceeds the configured hard limit.''
         else if exceeds (tl_gpu_memory_mb s) (hp_gpu_memory_limit_mb p)
         then terminate ''GPU_MEMORY_LIMIT'' ''GPU memory exceeds the configured hard limit.''
         else if likely_hang samples (hp_heartbeat p)
         then terminate ''HEARTBEAT_STALE'' ''Multiple signals indicate stalled progress.''
         else if explodes tl_loss then terminate ''LOSS_EXPLOSION'' ''Persistent loss explosion detected.''
         else if explodes tl_gradient_norm
         then terminate ''GRADIENT_EXPLOSION'' ''Persistent gradient-norm explosion detected.''
         else keep_running))"

section \<open>The observer\<close>

record observer =
  ob_window :: telemetry_window
  ob_policy :: health_policy
  ob_execution :: "(string \<times> string \<times> int) option"

definition observe :: "telemetry_sample \<Rightarrow> observer \<Rightarrow> monitor_directive \<times> observer" where
  "observe s ob = (let identity = (tl_run_id s, tl_experiment_id s, tl_attempt s);
       before = (if ob_execution ob \<noteq> Some identity then clear_window (ob_window ob) else ob_window ob);
       window = add_sample s before
     in (evaluate_health (ob_policy ob) window, ob\<lparr>ob_window := window, ob_execution := Some identity\<rparr>))"

section \<open>Facts\<close>

definition window_ok :: "telemetry_window \<Rightarrow> bool" where
  "window_ok w \<longleftrightarrow> 1 \<le> tw_capacity w \<and> length (tw_samples w) \<le> tw_capacity w"

lemma window_kept:
  "telemetry_window_of k = Inr w \<Longrightarrow> window_ok w" "window_ok w \<Longrightarrow> window_ok (add_sample s w)"
  "window_ok w \<Longrightarrow> window_ok (clear_window w)"
  by (auto simp: telemetry_window_of_def window_ok_def add_sample_def clear_window_def Let_def raise_simps)

lemma latest_added: "window_ok w \<Longrightarrow> latest (add_sample s w) = Some s"
  by (auto simp: latest_def add_sample_def window_ok_def Let_def last_drop)

text \<open>Every directive satisfies its schema, whatever the window holds.\<close>

lemma directive_cases:
  "valid_monitor_directive keep_running" "reason \<noteq> [] \<Longrightarrow> valid_monitor_directive (terminate reason summary)"
  "valid_monitor_directive a \<Longrightarrow> valid_monitor_directive b \<Longrightarrow> valid_monitor_directive (if c then a else b)"
  "valid_monitor_directive a \<Longrightarrow> (\<And>x. valid_monitor_directive (k x)) \<Longrightarrow>
     valid_monitor_directive (case v of None \<Rightarrow> a | Some x \<Rightarrow> k x)"
  by (simp add: valid_monitor_directive_def keep_running_def,
      simp add: valid_monitor_directive_def terminate_def truthy_str_def, simp, cases v, simp_all)

lemma directives_valid: "valid_monitor_directive (evaluate_health p w)"
  unfolding evaluate_health_def Let_def by (intro directive_cases list.distinct)

text \<open>
  The samples that the schema accepts carry finite values only, so the check for other values never
  fires on them.
\<close>

lemma schema_samples_finite: "valid_telemetry_sample s \<Longrightarrow> first_nonfinite_metric s = None"
  by (auto simp: first_nonfinite_metric_def watched_metrics_def valid_telemetry_sample_def first_such_def
      split: option.splits)

text \<open>A busy processor is never taken for a hang.\<close>

lemma busy_is_no_hang:
  assumes "s \<in> set (last_n (hb_minimum_stale_samples p) samples)"
    and "hb_cpu_idle_percent p < tl_cpu_percent s" and "hb_cpu_unchanged_ceiling_percent p < tl_cpu_percent s"
  shows "\<not> likely_hang samples p"
proof -
  let ?cpu = "map tl_cpu_percent (last_n (hb_minimum_stale_samples p) samples)"
  have max: "x \<in> set xs \<Longrightarrow> x \<le> largest xs" for x and xs :: "pyfloat list"
  proof -
    have fold: "y \<le> foldr max ys a" if "y \<in> set (a # ys)" for y a and ys :: "pyfloat list"
      using that by (induction ys) (auto simp: le_max_iff_disj)
    assume "x \<in> set xs"
    then show ?thesis using fold [of x "hd xs" "tl xs"] by (cases xs) (auto simp: largest_def)
  qed
  have "tl_cpu_percent s \<in> set ?cpu" using assms(1) by simp
  then have "tl_cpu_percent s \<le> largest ?cpu" by (rule max)
  with assms(3) have "\<not> largest ?cpu \<le> hb_cpu_unchanged_ceiling_percent p" by simp
  moreover have "\<not> list_all (\<lambda>v. v \<le> hb_cpu_idle_percent p) ?cpu"
    using assms(1,2) by (force simp: list_all_iff not_le)
  ultimately show ?thesis by (simp add: likely_hang_def Let_def)
qed

text \<open>An execution is judged by its own samples: another execution empties the window first.\<close>

lemma observe_switches:
  assumes "ob_execution ob \<noteq> Some (tl_run_id s, tl_experiment_id s, tl_attempt s)" and "window_ok (ob_window ob)"
  shows "tw_samples (ob_window (snd (observe s ob))) = [s]"
  using assms by (simp add: observe_def clear_window_def add_sample_def window_ok_def Let_def)

end
