(* ===== verification/Diagnostics.thy ===== *)
theory Diagnostics
  imports Metrics Evaluation_Domain
begin

text \<open>
  Diagnostics of an evaluation.  First its attribution to users and rows: \<^verbatim>\<open>src/src/tacorank/evaluation/slices.py\<close>
  without the export of a vector to a NumPy file.  User identifiers are strings, \<open>log2\<close> is the C library's,
  and a square \<^verbatim>\<open>x ** 2\<close> is the rounded product.
\<close>

record user_metric =
  um_user_id :: string
  um_impressions :: nat
  um_positives :: int
  um_auc :: "pyfloat option"
  um_ndcg :: pyfloat

record user_slice =
  us_name :: string
  us_users :: nat
  us_gauc_positive_weight :: int
  us_gauc :: pyfloat
  us_ndcg :: pyfloat
  us_primary :: pyfloat

record rank_diagnostic =
  rd_name :: string
  rd_positive_rows :: nat
  rd_mean_normalized_rank :: pyfloat

definition aligned :: "nat list \<Rightarrow> bool" where
  "aligned lengths \<longleftrightarrow> length (remdups lengths) = 1 \<and> hd lengths \<noteq> 0"

section \<open>Users\<close>

definition user_metric_of :: "(nat \<Rightarrow> pyfloat) \<Rightarrow> nat \<Rightarrow> string \<times> (pyfloat \<times> int) list \<Rightarrow> user_metric" where
  "user_metric_of log2 k = (\<lambda>(user, rows). \<lparr>um_user_id = user, um_impressions = length rows,
     um_positives = sum_list (row_labels rows),
     um_auc = (if mixed_labels rows then Some (auc_of (row_labels rows) (map fst rows)) else None),
     um_ndcg = ndcg_of log2 (row_labels rows) k\<rparr>)"

definition user_metrics ::
  "(nat \<Rightarrow> pyfloat) \<Rightarrow> string list \<Rightarrow> pyval list \<Rightarrow> pyfloat list \<Rightarrow> int \<Rightarrow> user_metric list res" where
  "user_metrics log2 users labels scores k =
     guarded (ValueError ''user IDs, labels and scores must align and be non-empty'')
       (aligned [length users, length labels, length scores])
     (bind_res (normalize_binary_labels labels) (\<lambda>ls.
     guarded (ValueError ''k must be positive'') (0 < k)
     (Inr (map (user_metric_of log2 (nat k)) (user_rows users ls scores)))))"

definition positive_weight :: "user_metric list \<Rightarrow> int" where
  "positive_weight ms = sum_list (map um_positives (filter (\<lambda>m. um_auc m \<noteq> None) ms))"

definition gauc_of :: "user_metric list \<Rightarrow> pyfloat" where
  "gauc_of ms = (if positive_weight ms = 0 then fdiv 1 2
     else fdiv (py_sum (List.map_filter (\<lambda>m. map_option (fmul (float_of_int (um_positives m))) (um_auc m)) ms))
       (float_of_int (positive_weight ms)))"

definition user_slice_of :: "string \<times> user_metric list \<Rightarrow> string \<times> user_slice" where
  "user_slice_of = (\<lambda>(name, ms). (let gauc = gauc_of ms; ndcg = float_mean (map um_ndcg ms) in
     (name, \<lparr>us_name = name, us_users = length ms, us_gauc_positive_weight = positive_weight ms,
        us_gauc = gauc, us_ndcg = ndcg, us_primary = fdiv (fadd gauc ndcg) 2\<rparr>)))"

definition slice_users :: "user_metric list \<Rightarrow> (user_metric \<Rightarrow> string) \<Rightarrow> (string, user_slice) dict" where
  "slice_users ms bucket = map user_slice_of (group_pairs (map (\<lambda>m. (bucket m, m)) ms))"

definition impression_bucket :: "user_metric \<Rightarrow> string" where
  "impression_bucket m = (if um_impressions m \<le> 2 then ''le2'' else if um_impressions m \<le> 5 then ''3_5''
     else if um_impressions m \<le> 12 then ''6_12'' else ''gt12'')"

definition positive_bucket :: "user_metric \<Rightarrow> string" where
  "positive_bucket m = (if um_positives m = 0 then ''zero'' else if um_positives m = 1 then ''one''
     else if um_positives m = 2 then ''two'' else ''three_plus'')"

text \<open>The whole from the slices: GAUC weighs by positives, nDCG by users.\<close>

definition reconstruct_from_user_slices :: "(string, user_slice) dict \<Rightarrow> (pyfloat \<times> pyfloat \<times> pyfloat) res" where
  "reconstruct_from_user_slices slices =
     guarded (ValueError ''at least one slice is required'') (slices \<noteq> [])
     (let values = dvalues slices; users = sum_list (map us_users values);
          weight = sum_list (map us_gauc_positive_weight values);
          gauc = (if weight = 0 then fdiv 1 2
            else fdiv (py_sum (map (\<lambda>v. fmul (us_gauc v) (float_of_int (us_gauc_positive_weight v))) values))
              (float_of_int weight));
          ndcg = fdiv (py_sum (map (\<lambda>v. fmul (us_ndcg v) (of_len (us_users v))) values)) (of_len users)
      in Inr (gauc, ndcg, fdiv (fadd gauc ndcg) 2))"

section \<open>The vector of differences\<close>

definition user_delta :: "user_metric list \<Rightarrow> nat \<Rightarrow> int \<Rightarrow> user_metric \<Rightarrow> (string \<times> pyfloat) res" where
  "user_delta parents users weight m =
     fetch (KeyError (um_user_id m)) (last_such (\<lambda>p. um_user_id p = um_user_id m) parents) (\<lambda>p.
     let ndcg = fdiv (fsub (um_ndcg m) (um_ndcg p)) (of_len users);
         result = (\<lambda>a. Inr (um_user_id m, fdiv (fadd a ndcg) 2)) in
     case um_auc m of None \<Rightarrow> result 0
     | Some a \<Rightarrow> if weight = 0 then result 0
         else fetch (Raised ''AssertionError'' []) (um_auc p) (\<lambda>before.
           result (fdiv (fmul (float_of_int (um_positives m)) (fsub a before)) (float_of_int weight))))"

definition delta_vector ::
  "(nat \<Rightarrow> pyfloat) \<Rightarrow> string list \<Rightarrow> pyval list \<Rightarrow> pyfloat list \<Rightarrow> pyfloat list \<Rightarrow> int
   \<Rightarrow> (string \<times> pyfloat) list res" where
  "delta_vector log2 users labels candidate parent k =
     bind_res (user_metrics log2 users labels candidate k) (\<lambda>ms.
     bind_res (user_metrics log2 users labels parent k) (\<lambda>ps.
     fold_res (\<lambda>acc m. bind_res (user_delta ps (length ms) (positive_weight ms) m) (\<lambda>d. Inr (acc @ [d]))) [] ms))"

definition norm_of :: "pyfloat list \<Rightarrow> pyfloat" where
  "norm_of xs = fsqrt (py_sum (map (\<lambda>x. fmul (fsub x (float_mean xs)) (fsub x (float_mean xs))) xs))"

definition delta_correlation :: "pyfloat list \<Rightarrow> pyfloat list \<Rightarrow> pyfloat res" where
  "delta_correlation left right =
     guarded (ValueError ''delta vectors must be non-empty and aligned'') (length left = length right \<and> left \<noteq> [])
     (Inr (if norm_of left = 0 \<or> norm_of right = 0 then (if left = right then 1 else 0)
       else fdiv (py_sum (map (\<lambda>(a, b). fmul (fsub a (float_mean left)) (fsub b (float_mean right))) (zip left right)))
         (fmul (norm_of left) (norm_of right))))"

text \<open>The share of the movement that the largest differences carry.\<close>

definition gain_concentration :: "pyfloat list \<Rightarrow> pyfloat \<Rightarrow> pyfloat res" where
  "gain_concentration deltas fraction =
     guarded (ValueError ''invalid delta vector or concentration fraction'') (deltas \<noteq> [] \<and> 0 < fraction \<and> fraction \<le> 1)
     (let magnitudes = rev (sort (map abs deltas)); total = py_sum magnitudes;
          count = max 1 (nat \<lceil>fmul (of_len (length magnitudes)) fraction\<rceil>)
      in Inr (if total = 0 then 0 else fdiv (py_sum (take count magnitudes)) total))"

section \<open>Rows\<close>

text \<open>The normalized ranks of the positive rows of one user with their buckets.\<close>

definition positive_ranks :: "(pyfloat \<times> int \<times> string) list \<Rightarrow> (string \<times> pyfloat) list" where
  "positive_ranks rows =
     (let descending = sort_key (\<lambda>row. - fst row) rows in
      List.map_filter (\<lambda>((score, label, bucket), position). if label \<noteq> 1 then None
        else Some (bucket, if length rows = 1 then 1 else fsub 1 (fdiv position (of_len (length rows - 1)))))
      (tie_ranks fst descending))"

definition positive_rank_diagnostics ::
  "string list \<Rightarrow> pyval list \<Rightarrow> pyfloat list \<Rightarrow> string list \<Rightarrow> (string, rank_diagnostic) dict res" where
  "positive_rank_diagnostics users labels scores buckets =
     guarded (ValueError ''rank diagnostic inputs must align and be non-empty'')
       (aligned [length users, length labels, length scores, length buckets])
     (bind_res (normalize_binary_labels labels) (\<lambda>ls.
      let grouped = dvalues (group_pairs (zip users (zip scores (zip ls buckets)))) in
      Inr (map (\<lambda>(name, ranks). (name, \<lparr>rd_name = name, rd_positive_rows = length ranks,
             rd_mean_normalized_rank = float_mean ranks\<rparr>))
        (group_pairs (concat (map positive_ranks grouped))))))"

definition duration_threshold_bucket :: "pyfloat \<Rightarrow> string" where
  "duration_threshold_bucket duration = (if duration < 7000 then ''short_lt7s''
     else if 18000 \<le> fmul (fl (97 / 100)) duration then ''flat_18s'' else ''mid'')"

definition popularity_bucket :: "pyfloat \<Rightarrow> pyfloat \<Rightarrow> pyfloat \<Rightarrow> string res" where
  "popularity_bucket v cold_max warm_max =
     guarded (ValueError ''cold_max must not exceed warm_max'') (cold_max \<le> warm_max)
     (Inr (if v \<le> cold_max then ''cold'' else if v \<le> warm_max then ''warm'' else ''hot''))"

section \<open>Days\<close>

text \<open>The slope of the regression line through the values at 0, 1, 2, ...\<close>

definition index_offsets :: "nat \<Rightarrow> pyfloat list" where
  "index_offsets n = map (\<lambda>i. fsub (of_len i) (fdiv (of_len (n - 1)) 2)) [0..<n]"

definition slope_of :: "pyfloat list \<Rightarrow> pyfloat" where
  "slope_of values = (let xs = index_offsets (length values) in
     fdiv (py_sum (map (\<lambda>(x, v). fmul x (fsub v (float_mean values))) (zip xs values)))
       (py_sum (map (\<lambda>x. fmul x x) xs)))"

definition pick_at :: "nat list \<Rightarrow> 'a list \<Rightarrow> 'a list" where
  "pick_at indexes xs = map (\<lambda>i. xs ! i) indexes"

definition indexes_where :: "('a \<Rightarrow> bool) \<Rightarrow> 'a list \<Rightarrow> nat list" where
  "indexes_where P xs = filter (\<lambda>i. P (xs ! i)) [0..<length xs]"

definition primary_at ::
  "(nat \<Rightarrow> pyfloat) \<Rightarrow> string list \<Rightarrow> pyval list \<Rightarrow> pyfloat list \<Rightarrow> nat list \<Rightarrow> pyfloat res" where
  "primary_at log2 users labels scores indexes =
     bind_res (evaluate_independent log2 (pick_at indexes users) (pick_at indexes labels) (pick_at indexes scores) 5)
       (\<lambda>m. Inr (im_primary m))"

definition daily_primary_slope ::
  "(nat \<Rightarrow> pyfloat) \<Rightarrow> int list \<Rightarrow> string list \<Rightarrow> pyval list \<Rightarrow> pyfloat list \<Rightarrow> pyfloat res" where
  "daily_primary_slope log2 dates users labels scores =
     guarded (ValueError ''daily diagnostic inputs must align'')
       (length dates = length users \<and> length users = length labels \<and> length labels = length scores)
     (let days = sorted_list_of_set (set dates) in
      if length days < 2 then Inr 0
      else bind_res (fold_res (\<lambda>acc day. bind_res
            (primary_at log2 users labels scores (indexes_where (\<lambda>d. d = day) dates)) (\<lambda>v. Inr (acc @ [v]))) [] days)
        (\<lambda>values. Inr (slope_of values)))"

section \<open>Facts\<close>

lemma delta_user_ids:
  assumes "delta_vector log2 users labels candidate parent k = Inr ds"
    and "user_metrics log2 users labels candidate k = Inr ms"
  shows "map fst ds = map um_user_id ms"
proof -
  have fold: "fold_res (\<lambda>acc m. bind_res (user_delta ps n w m) (\<lambda>d. Inr (acc @ [d]))) acc ms = Inr ds
      \<Longrightarrow> map fst ds = map fst acc @ map um_user_id ms" for ps n w acc ms and ds :: "(string \<times> pyfloat) list"
  proof (induction ms arbitrary: acc)
    case (Cons m ms)
    then obtain d where d: "user_delta ps n w m = Inr d"
      and rest: "fold_res (\<lambda>acc m. bind_res (user_delta ps n w m) (\<lambda>d. Inr (acc @ [d]))) (acc @ [d]) ms = Inr ds"
      by (auto simp: raise_simps)
    from d have "fst d = um_user_id m"
      by (auto simp: user_delta_def raise_simps Let_def split: option.splits if_splits)
    with Cons.IH [OF rest] show ?case by simp
  qed simp
  from assms show ?thesis
    by (auto simp: delta_vector_def raise_simps dest!: fold)
qed

text \<open>
  The aggregate diagnostics of an evaluation: \<^verbatim>\<open>src/src/tacorank/evaluation/diagnostics.py\<close>.
  Everything is computed from the predictions of a candidate and its parent; only aggregates leave.
\<close>

record diagnostic_features =
  df_dates :: "int list"
  df_duration_ms :: "pyfloat list"
  df_item_popularity :: "int list"
  df_user_history_count :: "int list"
  df_validation_arms :: "string list"

definition valid_diagnostic_features :: "diagnostic_features \<Rightarrow> bool" where
  "valid_diagnostic_features f \<longleftrightarrow>
     aligned [length (df_dates f), length (df_duration_ms f), length (df_item_popularity f),
       length (df_user_history_count f), length (df_validation_arms f)]
     \<and> list_all (\<lambda>a. a \<in> {''val_a'', ''val_b''}) (df_validation_arms f)
     \<and> list_all (\<lambda>v. 0 \<le> v) (df_duration_ms f) \<and> list_all (\<lambda>v. 0 \<le> v) (df_item_popularity f)
     \<and> list_all (\<lambda>v. 0 \<le> v) (df_user_history_count f)"

text \<open>What every part is given: users, labels and the scores of candidate and parent.\<close>

record compared =
  cm_log2 :: "nat \<Rightarrow> pyfloat"
  cm_users :: "string list"
  cm_labels :: "pyval list"
  cm_candidate :: "pyfloat list"
  cm_parent :: "pyfloat list"

section \<open>Differences by slice\<close>

definition shared_names :: "(string, 'v) dict \<Rightarrow> (string, 'v) dict \<Rightarrow> string list" where
  "shared_names a b = sort (filter (\<lambda>n. n \<in> set (dkeys b)) (dkeys a))"

definition slice_differences ::
  "string \<Rightarrow> ('v \<Rightarrow> pyfloat) \<Rightarrow> (string, 'v) dict \<Rightarrow> (string, 'v) dict \<Rightarrow> (string, pyfloat) dict" where
  "slice_differences prefix value_of candidate parent = List.map_filter (\<lambda>n.
     case (dget candidate n, dget parent n) of
       (Some c, Some p) \<Rightarrow> Some (prefix @ ''.'' @ n, fsub (value_of c) (value_of p)) | _ \<Rightarrow> None)
     (shared_names candidate parent)"

definition user_slice_deltas :: "compared \<Rightarrow> (user_metric \<Rightarrow> string) \<Rightarrow> string \<Rightarrow> (string, pyfloat) dict res" where
  "user_slice_deltas c bucket prefix =
     bind_res (user_metrics (cm_log2 c) (cm_users c) (cm_labels c) (cm_candidate c) 5) (\<lambda>ms.
     bind_res (user_metrics (cm_log2 c) (cm_users c) (cm_labels c) (cm_parent c) 5) (\<lambda>ps.
     Inr (slice_differences prefix us_primary (slice_users ms bucket) (slice_users ps bucket))))"

definition rank_deltas :: "compared \<Rightarrow> string list \<Rightarrow> string \<Rightarrow> (string, pyfloat) dict res" where
  "rank_deltas c buckets prefix =
     bind_res (positive_rank_diagnostics (cm_users c) (cm_labels c) (cm_candidate c) buckets) (\<lambda>candidate.
     bind_res (positive_rank_diagnostics (cm_users c) (cm_labels c) (cm_parent c) buckets) (\<lambda>parent.
     Inr (slice_differences prefix rd_mean_normalized_rank candidate parent)))"

definition primary_delta :: "compared \<Rightarrow> nat list \<Rightarrow> pyfloat res" where
  "primary_delta c indexes =
     bind_res (primary_at (cm_log2 c) (cm_users c) (cm_labels c) (cm_candidate c) indexes) (\<lambda>a.
     bind_res (primary_at (cm_log2 c) (cm_users c) (cm_labels c) (cm_parent c) indexes) (\<lambda>b. Inr (fsub a b)))"

definition primary_deltas_by :: "compared \<Rightarrow> ('k \<Rightarrow> nat list) \<Rightarrow> 'k list \<Rightarrow> ('k, pyfloat) dict res" where
  "primary_deltas_by c indexes keys = fold_res (\<lambda>acc key.
     bind_res (primary_delta c (indexes key)) (\<lambda>v. Inr (acc @ [(key, v)]))) [] keys"

definition validation_arm_deltas :: "compared \<Rightarrow> string list \<Rightarrow> (string, pyfloat) dict res" where
  "validation_arm_deltas c arms = (let rows = (\<lambda>arm. indexes_where (\<lambda>a. a = arm) arms) in
     bind_res (primary_deltas_by c rows (filter (\<lambda>arm. rows arm \<noteq> []) [''val_a'', ''val_b''])) (\<lambda>d.
     Inr (if set (dkeys d) = {''val_a'', ''val_b''} then d else [])))"

definition temporal_deltas :: "compared \<Rightarrow> int list \<Rightarrow> (string, pyfloat) dict res" where
  "temporal_deltas c dates =
     bind_res (primary_deltas_by c (\<lambda>day. indexes_where (\<lambda>d. d = day) dates) (sorted_list_of_set (set dates))) (\<lambda>d.
     Inr (map (\<lambda>(day, v). (int_str day, v)) d))"

section \<open>Buckets\<close>

fun constant_user_values :: "string \<Rightarrow> (string, int) dict \<Rightarrow> (string \<times> int) list \<Rightarrow> (string, int) dict res" where
  "constant_user_values label d [] = Inr d"
| "constant_user_values label d ((user, v) # rest) =
     guarded (ValueError (''diagnostic '' @ label @ '' must be constant within user''))
       (dget d user = None \<or> dget d user = Some v)
     (constant_user_values label (dset user v d) rest)"

definition tertile_thresholds :: "int list \<Rightarrow> (pyfloat \<times> pyfloat) res" where
  "tertile_thresholds values =
     guarded (ValueError ''diagnostic thresholds require values'') (values \<noteq> [])
     (let ordered = sort (map float_of_int values); n = length values - 1
      in Inr (ordered ! (n div 3), ordered ! (2 * n div 3)))"

definition count_bucket :: "int \<Rightarrow> pyfloat \<Rightarrow> pyfloat \<Rightarrow> string" where
  "count_bucket v low high = (if of_int v \<le> low then ''cold'' else if of_int v \<le> high then ''warm'' else ''hot'')"

definition linear_slope :: "pyfloat list \<Rightarrow> pyfloat" where
  "linear_slope values = (let xs = index_offsets (length values) in
     if length values < 2 \<or> py_sum (map (\<lambda>x. fmul x x) xs) = 0 then 0 else slope_of values)"

section \<open>Hypotheses\<close>

definition two_arms :: "(string, pyfloat) dict \<Rightarrow> (pyfloat \<times> pyfloat) option" where
  "two_arms d = (if set (dkeys d) = {''val_a'', ''val_b''}
     then (case (dget d ''val_a'', dget d ''val_b'') of (Some a, Some b) \<Rightarrow> Some (a, b) | _ \<Rightarrow> None) else None)"

record diagnostic_thresholds =
  th_validation_gap :: pyfloat
  th_temporal_slope :: pyfloat
  th_concentration :: pyfloat

definition regressed_metrics :: "metric_delta \<Rightarrow> string list" where
  "regressed_metrics d = sort (map fst (filter (\<lambda>(n, v). v < 0) (dl_metrics d)))"

definition proxy_hypotheses ::
  "diagnostic_thresholds \<Rightarrow> metric_delta \<Rightarrow> pyfloat option \<Rightarrow> pyfloat option \<Rightarrow> string list" where
  "proxy_hypotheses th d proxy gap = (case proxy of None \<Rightarrow> []
     | Some p \<Rightarrow>
        if fmul p (dl_primary d) < 0
        then [''Generalization mismatch: proxy and full parent deltas have opposite signs.'']
        else if (case gap of None \<Rightarrow> False | Some g \<Rightarrow> th_validation_gap th \<le> g)
        then [''Generalization uncertainty: proxy and full effect sizes differ materially.''] else [])"

definition arm_hypotheses ::
  "diagnostic_thresholds \<Rightarrow> (string, pyfloat) dict \<Rightarrow> pyfloat option \<Rightarrow> string list" where
  "arm_hypotheses th arms gap = (case two_arms arms of None \<Rightarrow> []
     | Some (a, b) \<Rightarrow>
        if fmul a b < 0
        then [''Validation-arm sensitivity: Val-A and Val-B parent deltas have opposite signs.'']
        else if (case gap of None \<Rightarrow> False | Some g \<Rightarrow> th_validation_gap th \<le> g)
        then [''Validation-arm sensitivity: Val-A and Val-B effect sizes differ materially.''] else [])"

definition only_if :: "bool \<Rightarrow> 'a \<Rightarrow> 'a list" where
  "only_if c x = (if c then [x] else [])"

definition failure_hypotheses ::
  "diagnostic_thresholds \<Rightarrow> metric_delta \<Rightarrow> pyfloat option \<Rightarrow> pyfloat option \<Rightarrow> (string, pyfloat) dict
   \<Rightarrow> pyfloat option \<Rightarrow> pyfloat option \<Rightarrow> pyfloat \<Rightarrow> string option \<Rightarrow> (string, pyfloat) dict \<Rightarrow> string list" where
  "failure_hypotheses th d proxy proxy_gap arms arm_gap slope concentration worst slices =
     only_if (dl_primary d < 0) ''Broad regression: the aggregate primary score is below the declared parent.''
     @ only_if (regressed_metrics d \<noteq> [])
         (''Metric weakness: '' @ join_with '', '' (regressed_metrics d) @ '' regressed versus the parent.'')
     @ proxy_hypotheses th d proxy proxy_gap
     @ arm_hypotheses th arms arm_gap
     @ only_if (case slope of None \<Rightarrow> False | Some v \<Rightarrow> v < - th_temporal_slope th)
         ''Temporal degradation: candidate-parent performance declines on later dates.''
     @ only_if (th_concentration th \<le> concentration)
         ''Concentrated movement: a small user cohort carries most score movement.''
     @ (case worst of None \<Rightarrow> []
        | Some n \<Rightarrow> only_if (case dget slices n of None \<Rightarrow> False | Some v \<Rightarrow> v < 0)
            (''Cohort weakness: the largest measured slice regression is '' @ n @ ''.''))"

section \<open>The diagnostics\<close>

text \<open>\<^verbatim>\<open>max(slices, key=lambda name: (slices[name], name))\<close>, and the same with \<^verbatim>\<open>min\<close>.\<close>

definition slice_less :: "string \<times> pyfloat \<Rightarrow> string \<times> pyfloat \<Rightarrow> bool" where
  "slice_less a b \<longleftrightarrow> snd a < snd b \<or> snd a = snd b \<and> fst a < fst b"

definition extreme_slice ::
  "(string \<times> pyfloat \<Rightarrow> string \<times> pyfloat \<Rightarrow> bool) \<Rightarrow> (string, pyfloat) dict \<Rightarrow> string option" where
  "extreme_slice better slices = (case slices of [] \<Rightarrow> None
     | s # rest \<Rightarrow> Some (fst (foldl (\<lambda>b x. if better x b then x else b) s rest)))"

definition best_slice_of :: "(string, pyfloat) dict \<Rightarrow> string option" where
  "best_slice_of = extreme_slice (\<lambda>x b. slice_less b x)"

definition worst_slice_of :: "(string, pyfloat) dict \<Rightarrow> string option" where
  "worst_slice_of = extreme_slice slice_less"

definition dupdate :: "('k, 'v) dict \<Rightarrow> ('k, 'v) dict \<Rightarrow> ('k, 'v) dict" where
  "dupdate d new = foldl (\<lambda>acc (k, v). dset k v acc) d new"

definition prefixed :: "string \<Rightarrow> (string, 'v) dict \<Rightarrow> (string, 'v) dict" where
  "prefixed prefix d = map (\<lambda>(n, v). (prefix @ ''.'' @ n, v)) d"

text \<open>What the protected features of the rows add: the arms, the slope and the slices.\<close>

definition feature_slices ::
  "compared \<Rightarrow> diagnostic_features \<Rightarrow> (string, pyfloat) dict
   \<Rightarrow> ((string, pyfloat) dict \<times> pyfloat option \<times> (string, pyfloat) dict) res" where
  "feature_slices c f slices =
     bind_res (validation_arm_deltas c (df_validation_arms f)) (\<lambda>arms.
     bind_res (temporal_deltas c (df_dates f)) (\<lambda>days.
     bind_res (constant_user_values ''history count'' [] (zip (cm_users c) (df_user_history_count f))) (\<lambda>history.
     bind_res (tertile_thresholds (dvalues history)) (\<lambda>(history_low, history_high).
     bind_res (user_slice_deltas c (\<lambda>m. count_bucket (case dget history (um_user_id m) of None \<Rightarrow> 0 | Some k \<Rightarrow> k)
         history_low history_high) ''user_history'') (\<lambda>by_history.
     bind_res (rank_deltas c (map duration_threshold_bucket (df_duration_ms f)) ''duration_rank'') (\<lambda>by_duration.
     bind_res (tertile_thresholds (df_item_popularity f)) (\<lambda>(low, high).
     bind_res (fold_res (\<lambda>acc v. bind_res (popularity_bucket (float_of_int v) low high) (\<lambda>b. Inr (acc @ [b])))
         [] (df_item_popularity f)) (\<lambda>buckets.
     bind_res (rank_deltas c buckets ''popularity_rank'') (\<lambda>by_popularity.
     Inr (arms, Some (linear_slope (map snd (sort_key fst days))),
       foldl dupdate slices [prefixed ''validation_arm'' arms, prefixed ''temporal'' days,
         by_history, by_duration, by_popularity]))))))))))"

definition compute_evaluation_diagnostics ::
  "compared \<Rightarrow> metric_delta \<Rightarrow> diagnostic_features option \<Rightarrow> pyfloat option \<Rightarrow> pyfloat option
   \<Rightarrow> diagnostic_thresholds \<Rightarrow> evaluation_diagnostics res" where
  "compute_evaluation_diagnostics c d features proxy train_gap th =
     guarded (ValueError ''diagnostic thresholds must be non-negative'')
       (0 \<le> th_validation_gap th \<and> 0 \<le> th_temporal_slope th)
     (guarded (ValueError ''concentration threshold must be between zero and one'')
       (0 \<le> th_concentration th \<and> th_concentration th \<le> 1)
     (guarded (ValueError ''diagnostic predictions and labels must align and be non-empty'')
       (aligned [length (cm_users c), length (cm_labels c), length (cm_candidate c), length (cm_parent c)])
     (guarded (ValueError ''diagnostic features do not match the evaluation population'')
       (case features of None \<Rightarrow> True | Some f \<Rightarrow> length (df_dates f) = length (cm_users c))
     (bind_res (delta_vector (cm_log2 c) (cm_users c) (cm_labels c) (cm_candidate c) (cm_parent c) 5) (\<lambda>deltas.
      bind_res (gain_concentration (map snd deltas) (fl (1 / 10))) (\<lambda>concentration.
      bind_res (user_slice_deltas c impression_bucket ''user_impressions'') (\<lambda>impressions.
      bind_res (user_slice_deltas c positive_bucket ''user_positives'') (\<lambda>positives.
      let general = dupdate (dupdate [] impressions) positives in
      bind_res (case features of None \<Rightarrow> Inr ([], None, general) | Some f \<Rightarrow> feature_slices c f general) (\<lambda>(arms, slope, slices).
      let best = best_slice_of slices; worst = worst_slice_of slices;
          arm_gap = map_option (\<lambda>(a, b). \<bar>fsub a b\<bar>) (two_arms arms);
          proxy_gap = map_option (\<lambda>p. \<bar>fsub p (dl_primary d)\<bar>) proxy;
          g = \<lparr>eg_train_validation_gap = train_gap, eg_proxy_parent_delta = proxy, eg_proxy_full_delta_gap = proxy_gap,
            eg_validation_arm_deltas = arms, eg_validation_arm_gap = arm_gap, eg_temporal_delta_slope = slope,
            eg_gain_concentration_top10pct = Some concentration, eg_slice_deltas = sort_key fst slices,
            eg_best_slice = best, eg_worst_slice = worst,
            eg_failure_hypotheses = failure_hypotheses th d proxy proxy_gap arms arm_gap slope concentration worst slices,
            eg_limitations = only_if (train_gap = None)
                ''Direct train/validation gap unavailable: contract v1 emits no protected train predictions.''
              @ [''Associational diagnostics do not prove causality; confirm hypotheses with a controlled ablation.'']\<rparr>
      in guarded (ValidationError ''EvaluationDiagnostics'') (valid_evaluation_diagnostics g) (Inr g))))))))))"

section \<open>Facts\<close>

text \<open>The named slices are slices: the extremes of a dictionary are among its keys.\<close>

lemma extreme_slice_mem: "extreme_slice better slices = Some n \<Longrightarrow> n \<in> set (dkeys slices)"
proof -
  have fold: "foldl (\<lambda>b x. if better x b then x else b) s rest \<in> set (s # rest)" for s rest
    by (induction rest arbitrary: s) auto
  assume "extreme_slice better slices = Some n"
  then obtain s rest where "slices = s # rest" "n = fst (foldl (\<lambda>b x. if better x b then x else b) s rest)"
    by (auto simp: extreme_slice_def split: list.splits)
  with fold [of s rest] show ?thesis by (auto simp: dkeys_def)
qed

lemma slices_named:
  "best_slice_of slices = Some n \<Longrightarrow> n \<in> set (dkeys slices)" "worst_slice_of slices = Some n \<Longrightarrow> n \<in> set (dkeys slices)"
  by (simp_all add: best_slice_of_def worst_slice_of_def extreme_slice_mem)

end
