(* ===== verification/Safety_Paths.thy ===== *)
theory Safety_Paths
  imports Violation_Codes Artifacts Regex Json
begin

text \<open>
  The deterministic path and data boundaries of the patch gate:
  \<^verbatim>\<open>src/src/tacorank/safety/path_policy.py\<close> and the column and location rules of
  \<^verbatim>\<open>safety/data_access_policy.py\<close> (not \<^verbatim>\<open>inspect_source\<close>, which walks a Python
  syntax tree).  Paths are relative to the resolved repository root, the file system is that of
  \<^verbatim>\<open>Artifacts\<close>.
\<close>

section \<open>Findings\<close>

record policy_violation =
  pv_code :: violation_code
  pv_check :: string
  pv_message :: string
  pv_path :: "string option"

text \<open>One finding per code, check, path and message, sorted with a missing path as the empty one.\<close>

definition violation_key :: "policy_violation \<Rightarrow> string list" where
  "violation_key f = [code_value (pv_code f), pv_check f,
     (case pv_path f of None \<Rightarrow> [] | Some p \<Rightarrow> p), pv_message f]"

definition deduplicate_findings :: "policy_violation list \<Rightarrow> policy_violation list" where
  "deduplicate_findings fs = sort_key violation_key (rev (remdups (rev fs)))"

lemma set_deduplicate [simp]: "set (deduplicate_findings fs) = set fs"
  by (simp add: deduplicate_findings_def)

lemma deduplicate_distinct: "distinct (deduplicate_findings fs)" "sorted (map violation_key (deduplicate_findings fs))"
  by (simp_all add: deduplicate_findings_def)

lemma deduplicate_Nil [simp]: "deduplicate_findings fs = [] \<longleftrightarrow> fs = []"
  by (metis set_deduplicate set_empty)

section \<open>Canonical paths\<close>

definition trim_slashes :: "string \<Rightarrow> string" where
  "trim_slashes s = rev (dropWhile (\<lambda>c. c = CHR ''/'') (rev s))"

definition drive_prefix :: "string \<Rightarrow> bool" where
  "drive_prefix v = (case v of a # b # _ \<Rightarrow>
     (char_range CHR ''A'' CHR ''Z'' a \<or> char_range CHR ''a'' CHR ''z'' a) \<and> b = CHR '':'' | _ \<Rightarrow> False)"

definition normalize_policy_path :: "string \<Rightarrow> string res" where
  "normalize_policy_path v =
     guarded (ValueError ''path must be a non-empty string without NUL bytes'')
       (v \<noteq> [] \<and> CHR 0x00 \<notin> set v)
     (guarded (ValueError ''path must use repository-relative POSIX syntax'')
       (CHR 0x5C \<notin> set v \<and> \<not> drive_prefix v)
     (guarded (ValueError ''absolute paths are forbidden'') (\<not> is_absolute v)
     (guarded (ValueError (''path must be canonical and cannot contain '' @ str_repr ''.'' @ '' or '' @ str_repr ''..''))
       (list_all (\<lambda>p. p \<notin> {[], ''.'', ''..''}) (split_on CHR ''/'' v))
     (guarded (ValueError ''path is not canonical'') (pure_str v = v \<and> pure_str v \<noteq> ''.'')
     (Inr (trim_slashes (pure_str v)))))))"

definition lies_below :: "string \<Rightarrow> string \<Rightarrow> bool" where
  "lies_below base p \<longleftrightarrow> p = base \<or> py_startswith (base @ ''/'') p"

definition path_is_within :: "string \<Rightarrow> string \<Rightarrow> bool res" where
  "path_is_within path base =
     bind_res (normalize_policy_path path) (\<lambda>p.
     bind_res (normalize_policy_path (trim_slashes base)) (\<lambda>r.
     Inr (lies_below r p)))"

text \<open>\<^verbatim>\<open>except ValueError as exc: raise ...\<close> with the message of the caught one.\<close>

definition rephrased :: "(string \<Rightarrow> exc) \<Rightarrow> 'a res \<Rightarrow> 'a res" where
  "rephrased f r = (case r of Inl x \<Rightarrow> (case x of ValueError m \<Rightarrow> Inl (f m) | _ \<Rightarrow> Inl x) | Inr y \<Rightarrow> Inr y)"

lemma rephrased_Inr [raise_simps]: "rephrased f r = Inr y \<longleftrightarrow> r = Inr y"
  by (auto simp: rephrased_def split: sum.splits exc.splits)

definition normalize_roots :: "string list \<Rightarrow> string \<Rightarrow> string list res" where
  "normalize_roots values label = bind_res
     (fold_res (\<lambda>roots v. bind_res
        (rephrased (\<lambda>m. ValueError (''invalid '' @ label @ '' root '' @ str_repr v @ '': '' @ m))
          (normalize_policy_path (trim_slashes v)))
        (\<lambda>r. Inr (if r \<in> set roots then roots else roots @ [r]))) [] values)
     (\<lambda>roots. Inr (sort roots))"

section \<open>Changed paths\<close>

record changed_path =
  cp_old_path :: "string option"
  cp_new_path :: "string option"
  cp_status :: string
  cp_old_mode :: "string option"
  cp_new_mode :: "string option"

definition reported_path :: "changed_path \<Rightarrow> string" where
  "reported_path c = (case cp_new_path c of Some (x # p) \<Rightarrow> x # p
     | _ \<Rightarrow> (case cp_old_path c of Some p \<Rightarrow> p | None \<Rightarrow> []))"

definition changed_paths :: "changed_path \<Rightarrow> string list" where
  "changed_paths c = (case (cp_old_path c, cp_new_path c) of
     (None, None) \<Rightarrow> [] | (Some p, None) \<Rightarrow> [p] | (None, Some q) \<Rightarrow> [q]
   | (Some p, Some q) \<Rightarrow> if q = p then [p] else [p, q])"

definition has_mode :: "changed_path \<Rightarrow> string \<Rightarrow> bool" where
  "has_mode c m \<longleftrightarrow> cp_old_mode c = Some m \<or> cp_new_mode c = Some m"

abbreviation is_submodule :: "changed_path \<Rightarrow> bool" where
  "is_submodule c \<equiv> has_mode c ''160000''"

abbreviation is_symlink :: "changed_path \<Rightarrow> bool" where
  "is_symlink c \<equiv> has_mode c ''120000''"

section \<open>The path policy\<close>

record path_policy =
  pp_editable_roots :: "string list"
  pp_protected_paths :: "string list"

definition make_path_policy :: "string list \<Rightarrow> string list \<Rightarrow> path_policy res" where
  "make_path_policy editable protected =
     bind_res (normalize_roots editable ''editable'') (\<lambda>es.
     bind_res (normalize_roots protected ''protected'') (\<lambda>ps.
     guarded (ValueError ''at least one editable root is required'') (es \<noteq> [])
     (Inr \<lparr>pp_editable_roots = es, pp_protected_paths = ps\<rparr>)))"

text \<open>
  The walk down a path: the first component that is a link decides, the first that does not exist
  ends the walk.  Without a link among the components the resolved path stays below the root.
\<close>

fun crosses_symlink_in :: "file_system \<Rightarrow> string list \<Rightarrow> bool" where
  "crosses_symlink_in fs [] = False"
| "crosses_symlink_in fs (p # ps) \<longleftrightarrow> p \<in> set (fs_links fs)
     \<or> (dget (fs_bytes fs) p \<noteq> None \<or> p \<in> set (fs_dirs fs)) \<and> crosses_symlink_in fs ps"

definition crosses_symlink :: "file_system \<Rightarrow> string \<Rightarrow> bool" where
  "crosses_symlink fs path = crosses_symlink_in fs (path_chain path)"

definition path_finding :: "violation_code \<Rightarrow> string \<Rightarrow> string \<Rightarrow> string option \<Rightarrow> policy_violation" where
  "path_finding code check message path =
     \<lparr>pv_code = code, pv_check = check, pv_message = message, pv_path = path\<rparr>"

definition inspect_one :: "path_policy \<Rightarrow> file_system \<Rightarrow> string \<Rightarrow> policy_violation list res" where
  "inspect_one pol fs raw = (case normalize_policy_path raw of
     Inl _ \<Rightarrow> Inr [path_finding V_PATH_TRAVERSAL ''path_escape''
       ''changed path is absolute, non-canonical, or contains traversal'' (Some raw)]
   | Inr path \<Rightarrow>
       bind_res (any_res (path_is_within path) (pp_protected_paths pol)) (\<lambda>protected.
       bind_res (any_res (path_is_within path) (pp_editable_roots pol)) (\<lambda>editable.
       Inr ((if protected then [path_finding V_PROTECTED_PATH_MODIFIED ''protected_path''
               ''candidate patch touches a protected path'' (Some path)] else [])
         @ (if editable then [] else [path_finding V_PATH_TRAVERSAL ''editable_path''
               ''candidate patch is outside every editable root'' (Some path)])
         @ (if crosses_symlink fs path then [path_finding V_SYMLINK_ESCAPE ''path_escape''
               ''changed path traverses a symbolic link'' (Some path)] else [])))))"

definition nonempty_or_none :: "string \<Rightarrow> string option" where
  "nonempty_or_none s = (if s = [] then None else Some s)"

definition inspect_change :: "path_policy \<Rightarrow> file_system \<Rightarrow> changed_path \<Rightarrow> policy_violation list res" where
  "inspect_change pol fs c =
     fold_res (\<lambda>found raw. bind_res (inspect_one pol fs raw) (\<lambda>more. Inr (found @ more)))
       ((if is_submodule c then [path_finding V_SUBMODULE_ESCAPE ''path_escape''
            ''submodule pointers cannot be changed by candidate patches'' (nonempty_or_none (reported_path c))] else [])
        @ (if is_symlink c then [path_finding V_SYMLINK_ESCAPE ''path_escape''
            ''candidate patches cannot add or modify symbolic links'' (nonempty_or_none (reported_path c))] else []))
       (changed_paths c)"

definition inspect_paths :: "path_policy \<Rightarrow> file_system \<Rightarrow> changed_path list \<Rightarrow> policy_violation list res" where
  "inspect_paths pol fs changes = bind_res
     (fold_res (\<lambda>found c. bind_res (inspect_change pol fs c) (\<lambda>more. Inr (found @ more))) [] changes)
     (\<lambda>found. Inr (deduplicate_findings found))"

section \<open>Data access\<close>

record data_view_policy =
  dv_view_id :: string
  dv_allowed_columns :: "string list"
  dv_allowed_path_prefixes :: "string list"

record data_access_policy =
  da_views :: "(string, data_view_policy) dict"
  da_protected_columns :: "string list"
  da_hidden_path_tokens :: "string list"
  da_future_column_patterns :: "re list"
  da_approved_future_columns :: "string list"

definition py_casefold :: "string \<Rightarrow> string" where
  "py_casefold s = concat (map (\<lambda>c. if of_char c = (223::nat) then ''ss'' else [lower_char c]) s)"

text \<open>\<open>compile\<close> is \<^verbatim>\<open>re.compile(pattern, re.IGNORECASE)\<close>, \<open>None\<close> where it raises.\<close>

definition make_data_access_policy ::
  "(string \<Rightarrow> re option) \<Rightarrow> data_view_policy list \<Rightarrow> string list \<Rightarrow> string list \<Rightarrow> string list \<Rightarrow> string list
     \<Rightarrow> data_access_policy res" where
  "make_data_access_policy compile views protected tokens patterns approved =
     (let by_id = foldl (\<lambda>d v. dset (dv_view_id v) v d) [] views in
      guarded (ValueError ''data view ids must be unique'') (length by_id = length views)
      (bind_res (fold_res (\<lambda>rs p. fetch (ValueError ''invalid future-column pattern'') (compile p)
           (\<lambda>r. Inr (rs @ [r]))) [] patterns) (\<lambda>compiled.
       Inr \<lparr>da_views = by_id, da_protected_columns = protected,
         da_hidden_path_tokens = map py_casefold tokens, da_future_column_patterns = compiled,
         da_approved_future_columns = approved\<rparr>)))"

definition is_future_column :: "data_access_policy \<Rightarrow> string \<Rightarrow> bool" where
  "is_future_column pol v \<longleftrightarrow> v \<notin> set (da_approved_future_columns pol)
     \<and> list_ex (\<lambda>r. re_found r v) (da_future_column_patterns pol)"

abbreviation boundary_finding :: "violation_code \<Rightarrow> string \<Rightarrow> string option \<Rightarrow> policy_violation" where
  "boundary_finding code \<equiv> path_finding code ''data_boundary''"

definition column_findings :: "data_access_policy \<Rightarrow> data_view_policy \<Rightarrow> string \<Rightarrow> policy_violation list" where
  "column_findings pol view c =
     (if c \<in> set (da_protected_columns pol) \<or> c \<notin> set (dv_allowed_columns view)
      then [boundary_finding V_HIDDEN_LABEL_ACCESS
        ''candidate requested a column outside the approved data view'' None] else [])
     @ (if is_future_column pol c then [boundary_finding V_FUTURE_INFORMATION_LEAKAGE
        ''candidate requested a future-information column'' None] else [])"

definition location_findings :: "data_access_policy \<Rightarrow> data_view_policy \<Rightarrow> string \<Rightarrow> policy_violation list" where
  "location_findings pol view p =
     (if list_ex (\<lambda>t. str_in t (py_casefold p)) (da_hidden_path_tokens pol)
      then [boundary_finding V_HIDDEN_LABEL_ACCESS
        ''candidate requested a protected label/data location'' (Some p)]
      else if \<not> list_ex (\<lambda>q. lies_below (trim_slashes q) p)
          (dv_allowed_path_prefixes view)
      then [boundary_finding V_HIDDEN_LABEL_ACCESS
        ''candidate requested a path outside the approved data view'' (Some p)] else [])"

definition validate_access ::
  "data_access_policy \<Rightarrow> string \<Rightarrow> string list \<Rightarrow> string list \<Rightarrow> policy_violation list" where
  "validate_access pol view_id paths columns = (case dget (da_views pol) view_id of
     None \<Rightarrow> [boundary_finding V_HIDDEN_LABEL_ACCESS
       ''candidate requested an unknown or protected data view'' None]
   | Some view \<Rightarrow> deduplicate_findings
       (concat (map (column_findings pol view) columns) @ concat (map (location_findings pol view) paths)))"

section \<open>What an empty list of findings means\<close>

lemma split_on_snoc: "split_on d (u @ [d]) = split_on d u @ [[]]"
  by (induction u) (auto split: list.splits)

lemma trim_slashes_id: "v = [] \<or> last v \<noteq> CHR ''/'' \<Longrightarrow> trim_slashes v = v"
  by (cases v rule: rev_cases) (simp_all add: trim_slashes_def)

lemma last_separator: "v \<noteq> [] \<Longrightarrow> last v = d \<Longrightarrow> [] \<in> set (split_on d v)"
  by (metis append_butlast_last_id split_on_snoc in_set_conv_decomp)

lemma normalize_policy_path_id: "normalize_policy_path v = Inr p \<Longrightarrow> p = v"
proof -
  assume "normalize_policy_path v = Inr p"
  then have v: "v \<noteq> []" "pure_str v = v" "trim_slashes (pure_str v) = p"
    and parts: "list_all (\<lambda>q. q \<notin> {[], ''.'', ''..''}) (split_on CHR ''/'' v)"
    unfolding normalize_policy_path_def raise_simps by blast+
  have "[] \<notin> set (split_on CHR ''/'' v)" using parts unfolding list_all_iff by blast
  then have "last v \<noteq> CHR ''/''" using v(1) last_separator by blast
  then show "p = v" using v(2,3) trim_slashes_id by metis
qed

lemma path_is_within_iff:
  "path_is_within p r = Inr b \<longleftrightarrow> normalize_policy_path p = Inr p
     \<and> normalize_policy_path (trim_slashes r) = Inr (trim_slashes r)
     \<and> b = lies_below (trim_slashes r) p"
  unfolding path_is_within_def raise_simps sum.inject by (metis normalize_policy_path_id)

lemma any_res_FalseD: "any_res f xs = Inr False \<Longrightarrow> \<forall>x \<in> set xs. f x = Inr False"
  by (induction xs) (auto simp: raise_simps split: if_splits)

lemma walk_no_link:
  "\<not> crosses_symlink_in fs ps \<Longrightarrow> \<forall>p \<in> set ps. dget (fs_bytes fs) p \<noteq> None \<or> p \<in> set (fs_dirs fs)
     \<Longrightarrow> \<forall>p \<in> set ps. p \<notin> set (fs_links fs)"
  by (induction ps) auto

text \<open>A path without a finding: canonical, below an editable root, below no protected path.\<close>

definition contained :: "path_policy \<Rightarrow> file_system \<Rightarrow> string \<Rightarrow> bool" where
  "contained pol fs p \<longleftrightarrow> normalize_policy_path p = Inr p
     \<and> list_ex (\<lambda>r. lies_below (trim_slashes r) p) (pp_editable_roots pol)
     \<and> list_all (\<lambda>r. \<not> lies_below (trim_slashes r) p) (pp_protected_paths pol)
     \<and> \<not> crosses_symlink fs p"

lemma inspect_one_Nil: "inspect_one pol fs raw = Inr [] \<Longrightarrow> contained pol fs raw"
  using normalize_policy_path_id [of raw]
  by (fastforce simp: inspect_one_def contained_def raise_simps path_is_within_iff list_ex_iff list_all_iff
      split: sum.splits if_splits dest: any_res_TrueD any_res_FalseD)

lemma collect_Nil:
  "fold_res (\<lambda>found x. bind_res (g x) (\<lambda>more. Inr (found @ more))) start xs = Inr []
     \<Longrightarrow> start = [] \<and> (\<forall>x \<in> set xs. g x = Inr [])"
  by (induction xs arbitrary: start) (auto simp: raise_simps)

lemma inspect_paths_Nil:
  assumes "inspect_paths pol fs changes = Inr []" and "c \<in> set changes"
  shows "\<not> is_submodule c \<and> \<not> is_symlink c \<and> (\<forall>p \<in> set (changed_paths c). contained pol fs p)"
proof -
  have "inspect_change pol fs c = Inr []"
    using assms by (auto simp: inspect_paths_def raise_simps dest!: collect_Nil)
  then show ?thesis
    unfolding inspect_change_def
    by (auto dest!: collect_Nil intro: inspect_one_Nil split: if_splits)
qed

end
