(* ===== verification/Git_State.thy ===== *)
theory Git_State
  imports Safety_Paths Event_Store
begin

text \<open>
  What the gates read of git.  First the reader of diffs of
  \<^verbatim>\<open>src/src/tacorank/safety/patch_gate.py\<close>, with \<^verbatim>\<open>str.splitlines\<close> and
  \<^verbatim>\<open>shlex.split\<close> as Python defines them for code points below 256; then the references and
  ancestry of \<^verbatim>\<open>git/refs.py\<close>.
\<close>

section \<open>Lines and words\<close>

definition line_break :: "char \<Rightarrow> bool" where
  "line_break c \<longleftrightarrow> (of_char c :: nat) \<in> set [10, 11, 12, 13, 28, 29, 30, 133]"

fun splitlines_from :: "string \<Rightarrow> string \<Rightarrow> string list" where
  "splitlines_from acc [] = (if acc = [] then [] else [rev acc])"
| "splitlines_from acc (c # s) =
     (if c = CHR 0x0D \<and> s \<noteq> [] \<and> hd s = CHR 0x0A then rev acc # splitlines_from [] (tl s)
      else if line_break c then rev acc # splitlines_from [] s
      else splitlines_from (c # acc) s)"

definition py_splitlines :: "string \<Rightarrow> string list" where
  "py_splitlines s = splitlines_from [] s"

text \<open>
  \<^verbatim>\<open>shlex.split(s, posix=True)\<close>: outside a word, in a word, in a quotation, behind a
  backslash (in a word or in a quotation).
\<close>

datatype shlex_state = Sh_space | Sh_word | Sh_quote char | Sh_escape "char option"

definition shlex_blank :: "char \<Rightarrow> bool" where
  "shlex_blank c \<longleftrightarrow> c \<in> set [CHR '' '', CHR 0x09, CHR 0x0D, CHR 0x0A]"

abbreviation shlex_quote :: "char \<Rightarrow> bool" where
  "shlex_quote c \<equiv> c = CHR 0x27 \<or> c = CHR 0x22"

abbreviation backslash :: char where "backslash \<equiv> CHR 0x5C"

definition shlex_token :: "string \<Rightarrow> bool \<Rightarrow> string list" where
  "shlex_token acc quoted = (if acc \<noteq> [] \<or> quoted then [rev acc] else [])"

definition prepend :: "string list \<Rightarrow> string list res \<Rightarrow> string list res" where
  "prepend ts r = bind_res r (\<lambda>rest. Inr (ts @ rest))"

fun shlex_from :: "shlex_state \<Rightarrow> string \<Rightarrow> bool \<Rightarrow> string \<Rightarrow> string list res" where
  "shlex_from Sh_space acc quoted [] = Inr []"
| "shlex_from Sh_word acc quoted [] = Inr (shlex_token acc quoted)"
| "shlex_from (Sh_quote q) acc quoted [] = Inl (ValueError ''No closing quotation'')"
| "shlex_from (Sh_escape q) acc quoted [] = Inl (ValueError ''No escaped character'')"
| "shlex_from Sh_space acc quoted (c # s) =
     (if shlex_blank c then shlex_from Sh_space [] False s
      else if c = backslash then shlex_from (Sh_escape None) [] False s
      else if shlex_quote c then shlex_from (Sh_quote c) [] False s
      else shlex_from Sh_word [c] False s)"
| "shlex_from Sh_word acc quoted (c # s) =
     (if shlex_blank c then prepend (shlex_token acc quoted) (shlex_from Sh_space [] False s)
      else if shlex_quote c then shlex_from (Sh_quote c) acc quoted s
      else if c = backslash then shlex_from (Sh_escape None) acc quoted s
      else shlex_from Sh_word (c # acc) quoted s)"
| "shlex_from (Sh_quote q) acc quoted (c # s) =
     (if c = q then shlex_from Sh_word acc True s
      else if c = backslash \<and> q = CHR 0x22 then shlex_from (Sh_escape (Some q)) acc True s
      else shlex_from (Sh_quote q) (c # acc) True s)"
| "shlex_from (Sh_escape None) acc quoted (c # s) = shlex_from Sh_word (c # acc) quoted s"
| "shlex_from (Sh_escape (Some q)) acc quoted (c # s) =
     shlex_from (Sh_quote q) (if c \<noteq> backslash \<and> c \<noteq> q then c # backslash # acc else c # acc) quoted s"

definition shlex_split :: "string \<Rightarrow> string list res" where
  "shlex_split s = shlex_from Sh_space [] False s"

section \<open>Blocks\<close>

definition diff_error :: "string \<Rightarrow> exc" where
  "diff_error m = Raised ''DiffParseError'' m"

text \<open>What the loop has read of the current block, and whether a change marker and a hunk were seen.\<close>

record diff_block =
  db_old_path :: "string option"
  db_new_path :: "string option"
  db_status :: string
  db_old_mode :: "string option"
  db_new_mode :: "string option"
  db_old_marker_seen :: bool
  db_new_marker_seen :: bool
  db_old_marker :: "string option"
  db_new_marker :: "string option"
  db_changed :: bool
  db_in_hunk :: bool

definition file_mode :: "string \<Rightarrow> bool" where
  "file_mode m \<longleftrightarrow> length m = 6 \<and> list_all (char_range CHR ''0'' CHR ''7'') m"

definition changed_path_from_block :: "diff_block \<Rightarrow> changed_path res" where
  "changed_path_from_block b =
     guarded (diff_error ''diff file markers are incomplete'') (db_old_marker_seen b = db_new_marker_seen b)
     (guarded (diff_error ''diff file markers do not match diff header'')
       (db_old_marker_seen b \<longrightarrow>
          db_old_marker b = (if db_status b = ''added'' then None else db_old_path b)
          \<and> db_new_marker b = (if db_status b = ''deleted'' then None else db_new_path b))
     (guarded (diff_error ''diff contains an invalid file mode'')
       (list_all file_mode (List.map_filter id [db_old_mode b, db_new_mode b]))
     (Inr \<lparr>cp_old_path = db_old_path b, cp_new_path = db_new_path b,
        cp_status = (if db_status b = [] then ''modified'' else db_status b),
        cp_old_mode = db_old_mode b, cp_new_mode = db_new_mode b\<rparr>)))"

definition diff_header_path :: "string \<Rightarrow> string \<Rightarrow> string res" where
  "diff_header_path v prefix =
     guarded (diff_error (''diff header path lacks '' @ prefix @ '' prefix''))
       (py_startswith prefix v \<and> length v \<noteq> length prefix) (Inr (drop (length prefix) v))"

definition one_word :: "string \<Rightarrow> string \<Rightarrow> string res" where
  "one_word message v = (case shlex_split v of
     Inr [t] \<Rightarrow> Inr t | _ \<Rightarrow> Inl (diff_error message))"

definition metadata_path :: "string \<Rightarrow> string res" where
  "metadata_path v = one_word ''malformed rename path'' v"

definition file_marker_path :: "string \<Rightarrow> string \<Rightarrow> string option res" where
  "file_marker_path v prefix = bind_res (one_word ''malformed diff file marker'' v) (\<lambda>t.
     if t = ''/dev/null'' then Inr None else bind_res (diff_header_path t prefix) (\<lambda>p. Inr (Some p)))"

definition new_block :: "string \<Rightarrow> diff_block res" where
  "new_block line = (case shlex_split line of
     Inr [a, b, old, new] \<Rightarrow>
       guarded (diff_error ''malformed diff header'') (a = ''diff'' \<and> b = ''--git'')
       (bind_res (diff_header_path old ''a/'') (\<lambda>p.
        bind_res (diff_header_path new ''b/'') (\<lambda>q.
        Inr \<lparr>db_old_path = Some p, db_new_path = Some q, db_status = ''modified'', db_old_mode = None,
          db_new_mode = None, db_old_marker_seen = False, db_new_marker_seen = False, db_old_marker = None,
          db_new_marker = None, db_changed = False, db_in_hunk = False\<rparr>)))
   | _ \<Rightarrow> Inl (diff_error ''malformed diff header''))"

text \<open>\<^verbatim>\<open>line.rsplit(" ", 1)[-1]\<close>\<close>

definition last_word :: "string \<Rightarrow> string" where
  "last_word line = last (split_on CHR '' '' line)"

definition read_block_line :: "diff_block \<Rightarrow> string \<Rightarrow> diff_block res" where
  "read_block_line b line =
     (let outside = (\<lambda>prefix. \<not> db_in_hunk b \<and> py_startswith prefix line) in
      if outside ''new file mode '' then
        Inr (b\<lparr>db_status := ''added'', db_new_mode := Some (last_word line), db_changed := True\<rparr>)
      else if outside ''deleted file mode '' then
        Inr (b\<lparr>db_status := ''deleted'', db_old_mode := Some (last_word line), db_new_path := None,
          db_changed := True\<rparr>)
      else if outside ''old mode '' then Inr (b\<lparr>db_old_mode := Some (last_word line), db_changed := True\<rparr>)
      else if outside ''new mode '' then Inr (b\<lparr>db_new_mode := Some (last_word line), db_changed := True\<rparr>)
      else if outside ''rename from '' then
        bind_res (metadata_path (drop (length ''rename from '') line)) (\<lambda>p.
        Inr (b\<lparr>db_old_path := Some p, db_status := ''renamed'', db_changed := True\<rparr>))
      else if outside ''rename to '' then
        bind_res (metadata_path (drop (length ''rename to '') line)) (\<lambda>p.
        Inr (b\<lparr>db_new_path := Some p, db_status := ''renamed'', db_changed := True\<rparr>))
      else if outside ''--- '' then
        bind_res (file_marker_path (drop 4 line) ''a/'') (\<lambda>p.
        Inr (b\<lparr>db_old_marker_seen := True, db_old_marker := p\<rparr>))
      else if outside ''+++ '' then
        bind_res (file_marker_path (drop 4 line) ''b/'') (\<lambda>p.
        Inr (b\<lparr>db_new_marker_seen := True, db_new_marker := p\<rparr>))
      else if py_startswith ''@@ '' line \<or> py_startswith ''@@@ '' line then
        Inr (b\<lparr>db_changed := True, db_in_hunk := True\<rparr>)
      else if py_startswith ''GIT binary patch'' line \<or> py_startswith ''Binary files '' line then
        Inr (b\<lparr>db_changed := True\<rparr>)
      else if py_startswith ''index '' line \<and> 3 \<le> length (split_words line)
          \<and> last (split_words line) = ''160000'' then
        Inr (b\<lparr>db_old_mode := Some ''160000'', db_new_mode := Some ''160000''\<rparr>)
      else Inr b)"

definition close_block :: "diff_block \<Rightarrow> changed_path res" where
  "close_block b = guarded (diff_error ''diff block contains no change marker'') (db_changed b)
     (changed_path_from_block b)"

text \<open>One step of the loop: the changes so far and the current block.\<close>

definition read_diff_line ::
  "changed_path list \<times> diff_block option \<Rightarrow> string \<Rightarrow> (changed_path list \<times> diff_block option) res" where
  "read_diff_line = (\<lambda>(changes, current) line.
     if py_startswith ''diff --git '' line then
       bind_res (case current of None \<Rightarrow> Inr changes
         | Some b \<Rightarrow> bind_res (close_block b) (\<lambda>c. Inr (changes @ [c]))) (\<lambda>done.
       bind_res (new_block line) (\<lambda>b. Inr (done, Some b)))
     else (case current of
       None \<Rightarrow> guarded (diff_error ''content occurs before first diff header'') (py_strip line = [])
         (Inr (changes, None))
     | Some b \<Rightarrow> bind_res (read_block_line b line) (\<lambda>b'. Inr (changes, Some b'))))"

text \<open>The argument is the decoded text.\<close>

definition parse_git_diff :: "string \<Rightarrow> changed_path list res" where
  "parse_git_diff text =
     guarded (diff_error ''diff is empty'') (py_strip text \<noteq> [])
     (bind_res (fold_res read_diff_line ([], None) (py_splitlines text)) (\<lambda>(changes, current).
      fetch (diff_error ''no Git diff blocks found'') current (\<lambda>b.
      bind_res (close_block b) (\<lambda>c.
      guarded (diff_error ''diff contains duplicate logical path blocks'')
        (distinct (map reported_path (changes @ [c])))
      (Inr (changes @ [c]))))))"

definition parsed_changed_files :: "changed_path list \<Rightarrow> string list" where
  "parsed_changed_files changes = sorted_set (map reported_path changes)"

section \<open>What the reader returns\<close>

lemma parse_git_diff_ok:
  assumes "parse_git_diff text = Inr changes"
  shows "changes \<noteq> []" and "distinct (map reported_path changes)"
  using assms by (auto simp: parse_git_diff_def raise_simps split: prod.splits)

text \<open>Text without blanks, quotes and backslashes is one word.\<close>

definition plain_word :: "string \<Rightarrow> bool" where
  "plain_word w \<longleftrightarrow> w \<noteq> [] \<and> list_all (\<lambda>c. \<not> shlex_blank c \<and> \<not> shlex_quote c \<and> c \<noteq> backslash) w"

lemma shlex_plain:
  "list_all (\<lambda>c. \<not> shlex_blank c \<and> \<not> shlex_quote c \<and> c \<noteq> backslash) w \<Longrightarrow>
     shlex_from Sh_word acc False (w @ s) = shlex_from Sh_word (rev w @ acc) False s"
  by (induction w arbitrary: acc) simp_all

lemma shlex_word:
  assumes "plain_word w"
  shows "shlex_split w = Inr [w]"
    and "shlex_split (w @ CHR '' '' # s) = prepend [w] (shlex_split s)"
proof -
  obtain c v where w: "w = c # v" "list_all (\<lambda>c. \<not> shlex_blank c \<and> \<not> shlex_quote c \<and> c \<noteq> backslash) v"
    "\<not> shlex_blank c" "\<not> shlex_quote c" "c \<noteq> backslash"
    using assms by (cases w) (simp_all add: plain_word_def)
  then show "shlex_split w = Inr [w]"
    using shlex_plain [OF w(2), of "[c]" "[]"] by (simp add: shlex_split_def shlex_token_def)
  show "shlex_split (w @ CHR '' '' # s) = prepend [w] (shlex_split s)"
    using w shlex_plain [OF w(2), of "[c]" "CHR '' '' # s"]
    by (simp add: shlex_split_def shlex_token_def shlex_blank_def)
qed

text \<open>
  Validated references and ancestry: \<^verbatim>\<open>src/src/tacorank/git/refs.py\<close> (without
  \<^verbatim>\<open>update_best_ref\<close>, which nothing of the model calls, and the plumbing of processes).  The git
  executable is a parameter: its exit code and output for a directory and an argument list.  An error
  carries its code, not its message.
\<close>

record git_result =
  gr_code :: int
  gr_out :: string

type_synonym git_tool = "string \<Rightarrow> string list \<Rightarrow> git_result"

text \<open>What a gate sees of a repository: its root, git, the files, and \<^verbatim>\<open>Path.resolve\<close>.\<close>

record repository_view =
  rv_root :: string
  rv_git :: git_tool
  rv_files :: file_system
  rv_resolve :: "string \<Rightarrow> string res"

definition git_error :: "string \<Rightarrow> exc" where
  "git_error code = Raised ''GitOperationError'' code"

definition git_out :: "repository_view \<Rightarrow> string list \<Rightarrow> string res" where
  "git_out v args = (let r = rv_git v [] args in
     guarded (git_error ''GIT_COMMAND_FAILED'') (gr_code r = 0) (Inr (gr_out r)))"

definition ascii :: "string \<Rightarrow> bool" where
  "ascii s \<longleftrightarrow> list_all (\<lambda>c. (of_char c :: nat) < 128) s"

definition decode_line :: "string \<Rightarrow> string res" where
  "decode_line data = (let s = py_strip data in
     guarded (git_error ''MALFORMED_GIT_OUTPUT'')
       (ascii data \<and> s \<noteq> [] \<and> CHR 0x0A \<notin> set s \<and> CHR 0x0D \<notin> set s) (Inr s))"

definition validated_repository :: "repository_view \<Rightarrow> string res" where
  "validated_repository v =
     bind_res (git_out v [''rev-parse'', ''--show-toplevel'']) (\<lambda>out.
     bind_res (decode_line out) (\<lambda>text.
     bind_res (rv_resolve v text) (\<lambda>top.
     guarded (git_error ''NOT_REPOSITORY_ROOT'') (top = rv_root v) (Inr top))))"

definition identifier_char :: "char \<Rightarrow> bool" where
  "identifier_char c \<longleftrightarrow> is_alnum c \<or> c \<in> set ''._-''"

definition identifier_shape :: "string \<Rightarrow> bool" where
  "identifier_shape s \<longleftrightarrow> s \<noteq> [] \<and> is_alnum (hd s) \<and> list_all identifier_char s \<and> length s \<le> 128"

definition validate_identifier :: "string \<Rightarrow> string res" where
  "validate_identifier s = guarded (git_error ''INVALID_IDENTIFIER'')
     (identifier_shape s \<and> s \<notin> {''.'', ''..''} \<and> \<not> py_endswith ''.lock'' s \<and> \<not> str_in ''..'' s) (Inr s)"

definition experiment_branch :: "string \<Rightarrow> string \<Rightarrow> string res" where
  "experiment_branch run experiment =
     bind_res (validate_identifier run) (\<lambda>r.
     bind_res (validate_identifier experiment) (\<lambda>e. Inr (''experiment/'' @ r @ ''/'' @ e)))"

definition best_ref :: "string \<Rightarrow> string res" where
  "best_ref run = bind_res (validate_identifier run) (\<lambda>r. Inr (''best/'' @ r))"

definition object_id :: "string \<Rightarrow> bool" where
  "object_id s \<longleftrightarrow> length s \<in> {40, 64} \<and> list_all is_lower_hex s"

definition validate_object_id :: "string \<Rightarrow> string res" where
  "validate_object_id s = guarded (git_error ''INVALID_OBJECT_ID'') (object_id s) (Inr s)"

definition resolve_commit :: "repository_view \<Rightarrow> string \<Rightarrow> string res" where
  "resolve_commit v s =
     bind_res (validate_object_id s) (\<lambda>expected.
     bind_res (git_out v [''rev-parse'', ''--verify'', expected @ ''^{commit}'']) (\<lambda>out.
     bind_res (decode_line out) (\<lambda>resolved.
     guarded (git_error ''OBJECT_ID_MISMATCH'') (resolved = expected) (Inr resolved))))"

definition validate_ref_name :: "repository_view \<Rightarrow> string \<Rightarrow> unit res" where
  "validate_ref_name v ref = guarded (git_error ''INVALID_REF'')
     (ref \<noteq> [] \<and> gr_code (rv_git v [] [''check-ref-format'', ''--branch'', ref]) = 0) (Inr ())"

definition branch_tip :: "repository_view \<Rightarrow> string \<Rightarrow> string option res" where
  "branch_tip v branch =
     bind_res (validate_ref_name v branch) (\<lambda>_.
     bind_res (git_out v [''for-each-ref'', ''--format=%(objectname)'', ''--count=1'', ''refs/heads/'' @ branch])
       (\<lambda>out. if py_strip out = [] then Inr None
              else bind_res (decode_line out) (\<lambda>tip.
                   bind_res (validate_object_id tip) (\<lambda>t. Inr (Some t)))))"

definition is_ancestor :: "repository_view \<Rightarrow> string \<Rightarrow> string \<Rightarrow> bool res" where
  "is_ancestor v ancestor descendant =
     bind_res (resolve_commit v ancestor) (\<lambda>older.
     bind_res (resolve_commit v descendant) (\<lambda>newer.
     let r = gr_code (rv_git v [] [''merge-base'', ''--is-ancestor'', older, newer]) in
     if r = 0 then Inr True else if r = 1 then Inr False
     else Inl (git_error ''GIT_COMMAND_FAILED'')))"

definition require_ancestor :: "repository_view \<Rightarrow> string \<Rightarrow> string \<Rightarrow> unit res" where
  "require_ancestor v ancestor descendant = bind_res (is_ancestor v ancestor descendant)
     (\<lambda>b. guarded (git_error ''ANCESTRY_MISMATCH'') b (Inr ()))"

section \<open>Facts\<close>

lemma resolve_commit_id: "resolve_commit v s = Inr r \<Longrightarrow> r = s \<and> object_id s"
  unfolding resolve_commit_def raise_simps validate_object_id_def by auto

lemma identifier_chars:
  assumes "validate_identifier s = Inr t"
  shows "t = s \<and> list_all identifier_char s"
  using assms unfolding validate_identifier_def raise_simps identifier_shape_def by blast

lemma no_slash: "list_all identifier_char s \<Longrightarrow> CHR ''/'' \<notin> set s"
  by (auto simp: list_all_iff identifier_char_def is_alnum_def is_digit_def)

text \<open>No identifier has a slash, so two branches agree only if run and experiment agree.\<close>

lemma experiment_branchD:
  assumes "experiment_branch r e = Inr b"
  shows "b = ''experiment/'' @ r @ ''/'' @ e" and "CHR ''/'' \<notin> set r"
proof -
  obtain r' e' where ids: "validate_identifier r = Inr r'" "validate_identifier e = Inr e'"
    and b: "b = ''experiment/'' @ r' @ ''/'' @ e'"
    using assms unfolding experiment_branch_def raise_simps sum.inject by metis
  note c = identifier_chars [OF ids(1)] identifier_chars [OF ids(2)]
  show "b = ''experiment/'' @ r @ ''/'' @ e" using b c by (simp only: c)
  show "CHR ''/'' \<notin> set r" using c no_slash by blast
qed

lemma first_part_unique:
  assumes "p @ r @ [d] @ e = p @ r' @ [d] @ e'" and "d \<notin> set r" and "d \<notin> set r'"
  shows "r = r' \<and> e = e'"
proof -
  have cut: "d \<notin> set s \<Longrightarrow> takeWhile (\<lambda>c. c \<noteq> d) (s @ d # t) = s" for s t :: "'a list"
    by (induction s) auto
  have "r @ d # e = r' @ d # e'" using assms(1) by simp
  moreover from this have "r = r'" using cut [OF assms(2)] cut [OF assms(3)] by metis
  ultimately show ?thesis by simp
qed

lemma experiment_branch_inj:
  assumes "experiment_branch r e = Inr b" and "experiment_branch r' e' = Inr b"
  shows "r = r' \<and> e = e'"
proof -
  note one = experiment_branchD [OF assms(1)] and two = experiment_branchD [OF assms(2)]
  show ?thesis using one(1) two(1) by (intro first_part_unique [OF _ one(2) two(2)]) (rule trans [OF sym])
qed

end
