(* ===== verification/Command_Policy.thy ===== *)
theory Command_Policy
  imports Git_State Redaction
begin

text \<open>
  Commands, dependency files and secrets: \<^verbatim>\<open>src/src/tacorank/safety/command_policy.py\<close>, and
  the checks of the gate that walk a Python syntax tree.
\<close>

definition REQUIRED_COMMAND_IDS :: "string list" where
  "REQUIRED_COMMAND_IDS = [''baseline_full'', ''candidate_smoke'', ''candidate_proxy'', ''candidate_full'',
     ''candidate_final_infer'', ''submission_check'', ''clean_reproduce'']"

definition DEPENDENCY_FILES :: "string list" where
  "DEPENDENCY_FILES = [''pyproject.toml'', ''requirements.txt'', ''requirements-dev.txt'', ''poetry.lock'',
     ''uv.lock'', ''Pipfile'', ''Pipfile.lock'', ''setup.py'', ''setup.cfg'', ''environment.yml'',
     ''package.json'', ''package-lock.json'', ''yarn.lock'', ''pnpm-lock.yaml'']"

definition SHELL_EXECUTABLES :: "string list" where
  "SHELL_EXECUTABLES = [''bash'', ''dash'', ''fish'', ''sh'', ''zsh'']"

definition SENSITIVE_ENV_NAME :: re where
  "SENSITIVE_ENV_NAME = alts (map lit_nocase [''TOKEN'', ''SECRET'', ''PASSWORD'', ''PASSWD'', ''API_KEY'',
     ''PRIVATE_KEY'', ''CREDENTIAL''])"

text \<open>The shapes of credentials that no line of a candidate may have.\<close>

definition quote_mark :: "char \<Rightarrow> bool" where
  "quote_mark c \<longleftrightarrow> c = CHR 0x27 \<or> c = CHR 0x22"

definition SECRET_PATTERNS :: "re list" where
  "SECRET_PATTERNS = [
     Regex.seq [lit ''-----BEGIN '', opt (alts [lit ''RSA '', lit ''EC '', lit ''OPENSSH '']), lit ''PRIVATE KEY-----''],
     Regex.seq [Word_edge, lit ''AKIA'', times 16 (Chars upper_digit), Word_edge],
     Regex.seq [Word_edge, lit ''gh'', one_of ''pousr'', lit ''_'', at_least 30 (Chars ascii_alnum), Word_edge],
     Regex.seq [Word_edge, lit ''sk-'', at_least 20 (alnum_or ''_-''), Word_edge],
     Regex.seq [Word_edge, lit_nocase ''Bearer'', some_of (Chars py_isspace), at_least 20 (alnum_or ''._~+/-''),
       Many (lit ''='')],
     Regex.seq [Word_edge, alts [Regex.seq [lit_nocase ''api'', separator, lit_nocase ''key''],
         Regex.seq [lit_nocase ''access'', separator, lit_nocase ''token''],
         Regex.seq [lit_nocase ''secret'', opt (Regex.seq [separator, lit_nocase ''key''])], lit_nocase ''password''],
       Word_edge, Many (Chars py_isspace), one_of '':='', Many (Chars py_isspace), Chars quote_mark,
       at_least 16 (Chars (\<lambda>c. \<not> quote_mark c \<and> \<not> py_isspace c)), Chars quote_mark]]"

definition inspect_secrets :: "string \<Rightarrow> string \<Rightarrow> policy_violation list" where
  "inspect_secrets source path = deduplicate_findings (concat (map (\<lambda>(n, line).
     if list_ex (\<lambda>r. re_found r line) SECRET_PATTERNS
     then [path_finding V_SECRET_DETECTED ''secret_scan''
       (''credential-shaped value detected at line '' @ digits_of n) (Some path)] else [])
     (enumerate 1 (py_splitlines source))))"

section \<open>Reviewed commands\<close>

record command_capability =
  cc_command_id :: string
  cc_argv_prefix :: "string list"
  cc_network_allowed :: bool

text \<open>\<^verbatim>\<open>Path(p).name\<close>\<close>

definition path_name :: "string \<Rightarrow> string" where
  "path_name p = (if pure_parts p = [] then [] else last (pure_parts p))"

definition make_command_capability :: "string \<Rightarrow> string list \<Rightarrow> bool \<Rightarrow> command_capability res" where
  "make_command_capability cid prefix network =
     guarded (ValueError ''command capability requires an id and argv prefix'') (cid \<noteq> [] \<and> prefix \<noteq> [])
     (guarded (ValueError ''argv_prefix entries must be non-empty strings'') (list_all (\<lambda>a. a \<noteq> []) prefix)
     (guarded (ValueError ''shell executables cannot be registered as capabilities'')
       (path_name (hd prefix) \<notin> set SHELL_EXECUTABLES)
     (Inr \<lparr>cc_command_id = cid, cc_argv_prefix = prefix, cc_network_allowed = network\<rparr>)))"

type_synonym command_policy = "(string, command_capability) dict"

definition make_command_policy :: "command_capability list \<Rightarrow> command_policy res" where
  "make_command_policy caps = bind_res
     (fold_res (\<lambda>d c. guarded (ValueError (''duplicate command id: '' @ cc_command_id c))
        (dget d (cc_command_id c) = None) (Inr (dset (cc_command_id c) c d))) [] caps)
     (\<lambda>d. guarded (ValueError ''at least one command capability is required'') (d \<noteq> []) (Inr d))"

definition allowed_command_ids :: "command_policy \<Rightarrow> string list" where
  "allowed_command_ids pol = sort (dkeys pol)"

text \<open>
  A resolved command as the policy reads it: any of its values may have the wrong type, the working
  directory is a \<^verbatim>\<open>Path\<close>, a string or something else.
\<close>

datatype directory_value = Dir_path string | Dir_text string | Dir_other

record resolved_command =
  rc_command_id :: string
  rc_argv :: pyval
  rc_shell :: bool
  rc_network_enabled :: bool
  rc_environment :: pyval
  rc_working_directory :: directory_value

definition command_finding :: "string \<Rightarrow> policy_violation" where
  "command_finding message = path_finding V_UNAPPROVED_COMMAND ''command_policy'' message None"

definition validate_id :: "command_policy \<Rightarrow> string \<Rightarrow> policy_violation list" where
  "validate_id pol cid = (if cid \<in> set (dkeys pol) then []
     else [command_finding ''command id is not present in the reviewed registry''])"

fun proper_argument :: "pyval \<Rightarrow> bool" where
  "proper_argument (PyStr s) \<longleftrightarrow> CHR 0x00 \<notin> set s"
| "proper_argument _ \<longleftrightarrow> False"

fun environment_findings :: "(string \<times> pyval) list \<Rightarrow> policy_violation list" where
  "environment_findings [] = []"
| "environment_findings ((key, v) # rest) = (case v of
     PyStr s \<Rightarrow> if re_found SENSITIVE_ENV_NAME key
       then [path_finding V_SECRET_DETECTED ''secret_scan''
         ''resolved command environment contains a credential-shaped entry'' None]
       else if inspect_secrets s ''<resolved-environment>'' \<noteq> []
       then [path_finding V_SECRET_DETECTED ''secret_scan''
         ''resolved command environment contains a credential-shaped value'' None]
       else environment_findings rest
   | _ \<Rightarrow> [path_finding V_SECRET_DETECTED ''secret_scan''
         ''resolved command environment contains a credential-shaped entry'' None])"

definition mapping_findings :: "pyval \<Rightarrow> policy_violation list" where
  "mapping_findings v = (case v of PyDict env \<Rightarrow> environment_findings env
     | _ \<Rightarrow> [command_finding ''resolved environment must be an explicit mapping''])"

fun valid_directory :: "directory_value \<Rightarrow> bool" where
  "valid_directory (Dir_path p) \<longleftrightarrow> is_absolute p"
| "valid_directory (Dir_text s) \<longleftrightarrow> s \<noteq> []
     \<and> (if is_absolute s then CHR 0x00 \<notin> set s else returns (normalize_policy_path (trim_slashes s)))"
| "valid_directory Dir_other \<longleftrightarrow> False"

definition argument_findings :: "command_policy \<Rightarrow> resolved_command \<Rightarrow> pyval list \<Rightarrow> policy_violation list" where
  "argument_findings pol c argv =
     (if argv = [] \<or> list_ex (\<lambda>a. \<not> proper_argument a) argv
      then [command_finding ''resolved command contains an empty, non-string, or NUL argument''] else [])
     @ (if rc_shell c then [command_finding ''shell execution is forbidden''] else [])
     @ (case dget pol (rc_command_id c) of None \<Rightarrow> []
        | Some cap \<Rightarrow> if take (length (cc_argv_prefix cap)) argv \<noteq> map PyStr (cc_argv_prefix cap)
            then [command_finding
              ''resolved executable or fixed arguments differ from the reviewed capability''] else [])
     @ (if rc_network_enabled c \<and> (case dget pol (rc_command_id c) of None \<Rightarrow> True
            | Some cap \<Rightarrow> \<not> cc_network_allowed cap)
        then [path_finding V_UNAPPROVED_NETWORK ''network_policy''
          ''network was enabled for a command that is sealed network-off'' None] else [])
     @ mapping_findings (rc_environment c)
     @ (if valid_directory (rc_working_directory c) then []
        else [command_finding ''working directory must be an explicit canonical path''])"

definition validate_resolved :: "command_policy \<Rightarrow> resolved_command \<Rightarrow> policy_violation list" where
  "validate_resolved pol c = validate_id pol (rc_command_id c) @ (case rc_argv c of
     PyList argv \<Rightarrow> argument_findings pol c argv
   | _ \<Rightarrow> [command_finding ''resolved command must be an argv sequence, not a shell string''])"

section \<open>Dependencies\<close>

definition is_dependency_file :: "string \<Rightarrow> bool" where
  "is_dependency_file name \<longleftrightarrow> name \<in> set DEPENDENCY_FILES
     \<or> py_startswith ''requirements-'' name \<and> py_endswith ''.txt'' name"

definition inspect_dependency_changes :: "string list \<Rightarrow> string list \<Rightarrow> policy_violation list" where
  "inspect_dependency_changes changed allowed = deduplicate_findings (concat (map (\<lambda>raw.
     case normalize_policy_path raw of
       Inl _ \<Rightarrow> []
     | Inr path \<Rightarrow> if is_dependency_file (path_name path) \<and> path \<notin> set allowed
         then [path_finding V_DEPENDENCY_CHANGE ''dependency_policy''
           ''candidate patch changes an unreviewed dependency manifest or lockfile'' (Some path)] else []) changed))"

section \<open>What an empty list of findings means\<close>

lemma environment_clean:
  "environment_findings env = [] \<Longrightarrow> (k, v) \<in> set env \<Longrightarrow>
     \<exists>s. v = PyStr s \<and> \<not> re_found SENSITIVE_ENV_NAME k \<and> inspect_secrets s ''<resolved-environment>'' = []"
  by (induction env rule: environment_findings.induct) (auto split: pyval.splits if_splits)

text \<open>
  A command without findings is one the registry names, starts with the reviewed arguments, has the
  network only where the capability allows it, no shell, and an environment without credentials.
\<close>

lemma resolved_clean:
  assumes "validate_resolved pol c = []"
  shows "\<exists>argv cap env. rc_argv c = PyList argv \<and> dget pol (rc_command_id c) = Some cap
    \<and> take (length (cc_argv_prefix cap)) argv = map PyStr (cc_argv_prefix cap)
    \<and> (rc_network_enabled c \<longrightarrow> cc_network_allowed cap) \<and> \<not> rc_shell c
    \<and> rc_environment c = PyDict env \<and> environment_findings env = []
    \<and> valid_directory (rc_working_directory c)"
proof -
  from assms obtain argv where argv: "rc_argv c = PyList argv"
    by (auto simp: validate_resolved_def split: pyval.splits)
  with assms have id: "validate_id pol (rc_command_id c) = []" and args: "argument_findings pol c argv = []"
    by (auto simp: validate_resolved_def)
  from id obtain cap where cap: "dget pol (rc_command_id c) = Some cap"
    by (cases "dget pol (rc_command_id c)") (auto simp: validate_id_def dkeys_def map_of_eq_None_iff split: if_splits)
  moreover have "mapping_findings (rc_environment c) = []" using args by (simp add: argument_findings_def)
  then obtain env where "rc_environment c = PyDict env" "environment_findings env = []"
    by (auto simp: mapping_findings_def split: pyval.splits)
  ultimately show ?thesis using args argv
    by (auto simp: argument_findings_def split: if_splits)
qed

text \<open>
  The checks of candidate source over its syntax tree: \<^verbatim>\<open>inspect_source_capabilities\<close> of
  \<^verbatim>\<open>src/src/tacorank/safety/command_policy.py\<close>, \<^verbatim>\<open>inspect_source\<close> of
  \<^verbatim>\<open>safety/data_access_policy.py\<close> and the syntax, import and interface checks of
  \<^verbatim>\<open>safety/patch_gate.py\<close>.  The parser is a parameter: \<open>py_parser\<close> gives the nodes that
  \<^verbatim>\<open>ast.walk\<close> yields, with their lines, and the statements of the module, or the line of the
  syntax error.
\<close>

section \<open>Syntax trees\<close>

datatype py_expr = Ex_name string | Ex_attribute py_expr string | Ex_constant pyval | Ex_other

record py_arguments =
  ar_posonlyargs :: "string list"
  ar_args :: "string list"
  ar_vararg :: "string option"
  ar_kwonlyargs :: "string list"
  ar_kwarg :: "string option"

datatype py_node =
    Node_import "string list"
  | Node_import_from "string option" nat
  | Node_call py_expr "py_expr list" "(string option \<times> py_expr) list"
  | Node_subscript py_expr py_expr
  | Node_function string py_arguments
  | Node_class string
  | Node_expr py_expr
  | Node_other

record py_module =
  py_nodes :: "(nat \<times> py_node) list"
  py_body :: "py_node list"

type_synonym py_parser = "string \<Rightarrow> nat option + py_module"

fun qualified_name :: "py_expr \<Rightarrow> string" where
  "qualified_name (Ex_name i) = i"
| "qualified_name (Ex_attribute e a) =
     (if qualified_name e = [] then a else qualified_name e @ ''.'' @ a)"
| "qualified_name _ = []"

fun literal_string :: "py_expr \<Rightarrow> string option" where
  "literal_string (Ex_constant (PyStr s)) = Some s"
| "literal_string _ = None"

definition dotted :: "string \<Rightarrow> string list" where
  "dotted name = split_on CHR ''.'' name"

section \<open>Capabilities\<close>

definition COMMAND_MODULES :: "string list" where
  "COMMAND_MODULES = [''subprocess'', ''commands'', ''pty'']"

definition NETWORK_MODULES :: "string list" where
  "NETWORK_MODULES = [''aiohttp'', ''ftplib'', ''http.client'', ''httpx'', ''requests'', ''socket'',
     ''telnetlib'', ''urllib'', ''urllib3'']"

definition DANGEROUS_CALLS :: "string list" where
  "DANGEROUS_CALLS = [''eval'', ''exec'', ''os.popen'', ''os.spawnl'', ''os.spawnle'', ''os.spawnlp'',
     ''os.spawnlpe'', ''os.spawnv'', ''os.spawnve'', ''os.spawnvp'', ''os.spawnvpe'', ''os.system'',
     ''subprocess.call'', ''subprocess.check_call'', ''subprocess.check_output'', ''subprocess.Popen'',
     ''subprocess.run'']"

definition COMMAND_CALL_NAMES :: "string list" where
  "COMMAND_CALL_NAMES = [''resolve_command'', ''run_command'', ''execute_command'']"

definition source_finding :: "violation_code \<Rightarrow> string \<Rightarrow> string \<Rightarrow> string \<Rightarrow> nat \<Rightarrow> policy_violation" where
  "source_finding code check message path line =
     path_finding code check (message @ '' at line '' @ digits_of line) (Some path)"

definition found_if :: "bool \<Rightarrow> 'a \<Rightarrow> 'a list" where
  "found_if b x = (if b then [x] else [])"

lemma found_if_Nil [simp]: "found_if b x = [] \<longleftrightarrow> \<not> b"
  by (simp add: found_if_def)

fun imported_names :: "py_node \<Rightarrow> string list" where
  "imported_names (Node_import names) = names"
| "imported_names (Node_import_from (Some m) level) = (if m = [] then [] else [m])"
| "imported_names _ = []"

definition import_findings :: "string list \<Rightarrow> string \<Rightarrow> nat \<Rightarrow> string \<Rightarrow> policy_violation list" where
  "import_findings allowed path line name =
     (let first = hd (dotted name) in
      found_if ((name \<in> set NETWORK_MODULES \<or> first \<in> set NETWORK_MODULES)
          \<and> name \<notin> set allowed \<and> first \<notin> set allowed)
        (source_finding V_UNAPPROVED_NETWORK ''network_policy''
          ''candidate source imports an unapproved network module'' path line)
      @ found_if (first \<in> set COMMAND_MODULES \<and> first \<notin> set allowed)
        (source_finding V_UNAPPROVED_COMMAND ''command_policy''
          ''candidate source imports an unapproved process module'' path line))"

definition unapproved_id :: "string list \<Rightarrow> py_expr \<Rightarrow> bool" where
  "unapproved_id ids e = (case literal_string e of None \<Rightarrow> True | Some v \<Rightarrow> v \<notin> set ids)"

definition sensitive_literal :: "py_expr \<Rightarrow> bool" where
  "sensitive_literal e = (case literal_string e of None \<Rightarrow> False
     | Some v \<Rightarrow> v \<noteq> [] \<and> re_found SENSITIVE_ENV_NAME v)"

abbreviation id_message :: string where
  "id_message \<equiv> ''candidate source references a non-literal or unapproved command id''"

abbreviation environment_message :: string where
  "environment_message \<equiv> ''candidate source attempts to read credential-bearing environment state''"

definition call_findings ::
  "string list \<Rightarrow> string \<Rightarrow> nat \<Rightarrow> py_expr \<Rightarrow> py_expr list \<Rightarrow> (string option \<times> py_expr) list \<Rightarrow> policy_violation list" where
  "call_findings ids path line f args keywords =
     (let name = qualified_name f in
      found_if (name \<in> set DANGEROUS_CALLS) (source_finding V_UNAPPROVED_COMMAND ''command_policy''
        ''candidate source invokes an unapproved dynamic command capability'' path line)
      @ found_if (list_ex (\<lambda>(arg, v). arg = Some ''shell'' \<and> v = Ex_constant (PyBool True)) keywords)
          (source_finding V_UNAPPROVED_COMMAND ''command_policy''
            ''candidate source requests shell execution'' path line)
      @ found_if (last (dotted name) \<in> set COMMAND_CALL_NAMES \<and> args \<noteq> [] \<and> unapproved_id ids (hd args))
          (source_finding V_UNAPPROVED_COMMAND ''command_policy'' id_message path line)
      @ concat (map (\<lambda>(arg, v). found_if (arg = Some ''command_id'' \<and> unapproved_id ids v)
          (source_finding V_UNAPPROVED_COMMAND ''command_policy'' id_message path line)) keywords)
      @ found_if (name \<in> {''os.getenv'', ''os.environ.get''} \<and> args \<noteq> [] \<and> sensitive_literal (hd args))
          (source_finding V_SECRET_DETECTED ''secret_scan'' environment_message path line))"

definition capability_findings ::
  "string list \<Rightarrow> string list \<Rightarrow> string \<Rightarrow> nat \<times> py_node \<Rightarrow> policy_violation list" where
  "capability_findings ids allowed path = (\<lambda>(line, node).
     concat (map (import_findings allowed path line) (imported_names node))
     @ (case node of
          Node_call f args keywords \<Rightarrow> call_findings ids path line f args keywords
        | Node_subscript value index \<Rightarrow>
            found_if (qualified_name value = ''os.environ'' \<and> sensitive_literal index)
              (source_finding V_SECRET_DETECTED ''secret_scan'' environment_message path line)
        | _ \<Rightarrow> []))"

definition inspect_source_capabilities ::
  "py_parser \<Rightarrow> string \<Rightarrow> string \<Rightarrow> string list \<Rightarrow> string list \<Rightarrow> policy_violation list" where
  "inspect_source_capabilities parse source path ids allowed = (case parse source of
     Inl _ \<Rightarrow> []
   | Inr tree \<Rightarrow> deduplicate_findings (concat (map (capability_findings ids allowed path) (py_nodes tree))))"

section \<open>Data access in source\<close>

fun candidate_literal :: "py_node \<Rightarrow> string option" where
  "candidate_literal (Node_expr (Ex_constant (PyStr s))) = Some s"
| "candidate_literal (Node_expr (Ex_name i)) = Some i"
| "candidate_literal (Node_expr (Ex_attribute e a)) = Some a"
| "candidate_literal _ = None"

definition literal_findings :: "data_access_policy \<Rightarrow> string \<Rightarrow> nat \<times> py_node \<Rightarrow> policy_violation list" where
  "literal_findings pol path = (\<lambda>(line, node). case candidate_literal node of
     None \<Rightarrow> []
   | Some v \<Rightarrow>
       found_if (node = Node_expr (Ex_constant (PyStr v)) \<and> v \<in> set (da_protected_columns pol)
           \<or> list_ex (\<lambda>t. str_in t (py_casefold v)) (da_hidden_path_tokens pol))
         (source_finding V_HIDDEN_LABEL_ACCESS ''data_boundary''
           ''candidate source references a protected label or data location'' path line)
       @ found_if (is_future_column pol v)
         (source_finding V_FUTURE_INFORMATION_LEAKAGE ''data_boundary''
           ''candidate source references future information'' path line))"

definition inspect_source :: "py_parser \<Rightarrow> data_access_policy \<Rightarrow> string \<Rightarrow> string \<Rightarrow> policy_violation list" where
  "inspect_source parse pol source path = (case parse source of
     Inl _ \<Rightarrow> []
   | Inr tree \<Rightarrow> deduplicate_findings (concat (map (literal_findings pol path) (py_nodes tree))))"

section \<open>Syntax and imports\<close>

definition import_root :: "py_node \<Rightarrow> string list" where
  "import_root node = (case node of
     Node_import names \<Rightarrow> map (\<lambda>n. hd (dotted n)) names
   | Node_import_from (Some m) 0 \<Rightarrow> if m = [] then [] else [hd (dotted m)]
   | _ \<Rightarrow> [])"

definition import_roots :: "py_module \<Rightarrow> string list" where
  "import_roots tree = sorted_set (concat (map (\<lambda>(line, node). import_root node) (py_nodes tree)))"

definition path_exists :: "file_system \<Rightarrow> string \<Rightarrow> bool" where
  "path_exists fs p \<longleftrightarrow> dget (fs_bytes fs) p \<noteq> None \<or> p \<in> set (fs_dirs fs)"

text \<open>\<open>find_spec\<close> is whether \<^verbatim>\<open>importlib.util.find_spec\<close> finds the module.\<close>

definition module_is_available :: "(string \<Rightarrow> bool) \<Rightarrow> file_system \<Rightarrow> string \<Rightarrow> bool" where
  "module_is_available find_spec fs name \<longleftrightarrow>
     path_exists fs (''src/'' @ name) \<or> path_exists fs name \<or> find_spec name"

definition syntax_findings :: "py_parser \<Rightarrow> (string \<Rightarrow> bool) \<Rightarrow> string \<times> string \<Rightarrow> policy_violation list" where
  "syntax_findings parse available = (\<lambda>(path, source).
     if \<not> py_endswith ''.py'' path then [] else
     (case parse source of
        Inl line \<Rightarrow> [path_finding V_SYNTAX_IMPORT_FAILURE ''syntax_import'' (''Python syntax error at line ''
            @ (case line of None \<Rightarrow> ''?'' | Some n \<Rightarrow> if n = 0 then ''?'' else digits_of n)) (Some path)]
      | Inr tree \<Rightarrow> concat (map (\<lambda>r. found_if (\<not> available r)
          (path_finding V_SYNTAX_IMPORT_FAILURE ''syntax_import''
            (''import root '' @ str_repr r @ '' is unavailable or unapproved'') (Some path))) (import_roots tree))))"

definition inspect_syntax_and_imports ::
  "py_parser \<Rightarrow> (string \<Rightarrow> bool) \<Rightarrow> (string, string) dict \<Rightarrow> policy_violation list" where
  "inspect_syntax_and_imports parse available sources =
     deduplicate_findings (concat (map (syntax_findings parse available) sources))"

section \<open>Interfaces\<close>

record interface_requirement =
  ir_path :: string
  ir_symbol :: string
  ir_kind :: string
  ir_parameters :: "string list option"

text \<open>\<^verbatim>\<open>str.isidentifier\<close>\<close>

definition identifier_start :: "char \<Rightarrow> bool" where
  "identifier_start c \<longleftrightarrow> is_letter c \<and> (of_char c :: nat) < 128 \<or> c = CHR ''_''
     \<or> (let k = of_char c :: nat in k \<in> {170, 181, 186} \<or> 192 \<le> k \<and> k \<noteq> 215 \<and> k \<noteq> 247)"

definition is_identifier :: "string \<Rightarrow> bool" where
  "is_identifier s \<longleftrightarrow> s \<noteq> [] \<and> identifier_start (hd s)
     \<and> list_all (\<lambda>c. identifier_start c \<or> is_digit c \<or> of_char c = (183::nat)) s"

definition make_interface_requirement ::
  "string \<Rightarrow> string \<Rightarrow> string \<Rightarrow> string list option \<Rightarrow> interface_requirement res" where
  "make_interface_requirement path symbol kind parameters =
     bind_res (normalize_policy_path path) (\<lambda>_.
     guarded (ValueError ''interface requirement kind must be function or class'')
       (kind \<in> {''function'', ''class''})
     (guarded (ValueError ''interface symbol must be a Python identifier'') (is_identifier symbol)
     (Inr \<lparr>ir_path = path, ir_symbol = symbol, ir_kind = kind, ir_parameters = parameters\<rparr>)))"

definition parameter_names :: "py_arguments \<Rightarrow> string list" where
  "parameter_names a = ar_posonlyargs a @ ar_args a
     @ (case ar_vararg a of None \<Rightarrow> [] | Some v \<Rightarrow> [CHR ''*'' # v]) @ ar_kwonlyargs a
     @ (case ar_kwarg a of None \<Rightarrow> [] | Some v \<Rightarrow> [''**'' @ v])"

definition matching_nodes :: "interface_requirement \<Rightarrow> py_module \<Rightarrow> py_node list" where
  "matching_nodes q tree = filter (\<lambda>node. case node of
       Node_class n \<Rightarrow> ir_kind q = ''class'' \<and> n = ir_symbol q
     | Node_function n a \<Rightarrow> ir_kind q \<noteq> ''class'' \<and> n = ir_symbol q
     | _ \<Rightarrow> False) (py_body tree)"

definition interface_findings :: "py_parser \<Rightarrow> string option \<Rightarrow> interface_requirement \<Rightarrow> policy_violation list" where
  "interface_findings parse source q = (case source of
     None \<Rightarrow> [path_finding V_INTERFACE_MISMATCH ''interface_contract''
       ''required interface file is missing or non-text'' (Some (ir_path q))]
   | Some text \<Rightarrow> (case parse text of
       Inl _ \<Rightarrow> []
     | Inr tree \<Rightarrow> (case matching_nodes q tree of
         [] \<Rightarrow> [path_finding V_INTERFACE_MISMATCH ''interface_contract''
           (''required '' @ ir_kind q @ '' '' @ str_repr (ir_symbol q) @ '' is missing'') (Some (ir_path q))]
       | node # _ \<Rightarrow> (case (ir_parameters q, node) of
           (Some ps, Node_function n a) \<Rightarrow> found_if (ir_kind q = ''function'' \<and> parameter_names a \<noteq> ps)
             (path_finding V_INTERFACE_MISMATCH ''interface_contract''
               ''required function signature does not match the frozen interface'' (Some (ir_path q)))
         | _ \<Rightarrow> []))))"

text \<open>\<open>blob\<close> reads a file of the candidate commit, \<open>None\<close> where that fails or is not UTF-8.\<close>

definition inspect_interfaces ::
  "py_parser \<Rightarrow> (string \<Rightarrow> string option) \<Rightarrow> (string, string) dict \<Rightarrow> interface_requirement list
     \<Rightarrow> policy_violation list" where
  "inspect_interfaces parse blob sources requirements = deduplicate_findings (concat (map (\<lambda>q.
     interface_findings parse (case dget sources (ir_path q) of Some s \<Rightarrow> Some s | None \<Rightarrow> blob (ir_path q)) q)
     requirements))"

section \<open>What no finding means\<close>

lemma no_dangerous_call:
  assumes "inspect_source_capabilities parse source path ids allowed = []" and "parse source = Inr tree"
    and "(line, Node_call f args keywords) \<in> set (py_nodes tree)"
  shows "qualified_name f \<notin> set DANGEROUS_CALLS \<and> (Some ''shell'', Ex_constant (PyBool True)) \<notin> set keywords"
proof -
  have "capability_findings ids allowed path (line, Node_call f args keywords) = []"
    using assms by (auto simp: inspect_source_capabilities_def)
  then have "call_findings ids path line f args keywords = []" by (simp add: capability_findings_def)
  then show ?thesis by (auto simp: call_findings_def Let_def list_ex_iff)
qed

lemma interface_kept:
  assumes "interface_findings parse source q = []" and "ir_kind q = ''function''" and "ir_parameters q = Some ps"
    and "source = Some text" and "parse text = Inr tree"
  shows "\<exists>a. Node_function (ir_symbol q) a \<in> set (py_body tree) \<and> parameter_names a = ps"
proof -
  obtain node rest where m: "matching_nodes q tree = node # rest"
    using assms by (auto simp: interface_findings_def split: list.splits)
  then have mem: "node \<in> set (matching_nodes q tree)" by simp
  then obtain a where node: "node = Node_function (ir_symbol q) a" "node \<in> set (py_body tree)"
    using assms(2) by (auto simp: matching_nodes_def split: py_node.splits)
  with assms m have "parameter_names a = ps" by (simp add: interface_findings_def)
  with node show ?thesis by blast
qed

end
