(* ===== verification/Protected_Manifest.thy ===== *)
theory Protected_Manifest
  imports Git_State Redaction
begin

text \<open>
  The frozen protected paths and the digests of their content:
  \<^verbatim>\<open>src/src/tacorank/safety/protected_manifest.py\<close>.  SHA-256 and the decoding of UTF-8 are
  parameters; a file system object is a file, a directory or a link, so the unsupported types never
  occur.
\<close>

record byte_tools =
  bt_sha :: "string \<Rightarrow> string"
  bt_decode :: "string \<Rightarrow> string option"

definition MINIMUM_PROTECTED_PATHS :: "string list" where
  "MINIMUM_PROTECTED_PATHS = [''PROTECTED_PATHS.md'', ''contract'', ''runs'', ''src/tacorank/memory'',
     ''src/tacorank/orchestrator'', ''src/tacorank/safety'', ''kuairand-starter-kit/data.py'',
     ''kuairand-starter-kit/evaluate.py'', ''kuairand-starter-kit/submit.py'',
     ''kuairand-starter-kit/baseline_scores.json'']"

definition manifest_error :: "string \<Rightarrow> exc" where
  "manifest_error m = Raised ''ProtectedManifestError'' m"

record protected_snapshot =
  sn_path :: string
  sn_kind :: string
  sn_sha256 :: string
  sn_size_bytes :: int

record gitlink =
  gl_path :: string
  gl_commit_sha :: string

definition hash_json :: "byte_tools \<Rightarrow> pyval \<Rightarrow> string" where
  "hash_json t v = bt_sha t (json_dumps True v)"

definition snapshot_payload :: "protected_snapshot \<Rightarrow> pyval" where
  "snapshot_payload s = PyDict [(''path'', PyStr (sn_path s)), (''kind'', PyStr (sn_kind s)),
     (''sha256'', PyStr (sn_sha256 s)), (''size_bytes'', PyInt (sn_size_bytes s))]"

definition hash_snapshots :: "byte_tools \<Rightarrow> protected_snapshot list \<Rightarrow> string" where
  "hash_snapshots t ss = hash_json t (PyList (map snapshot_payload ss))"

definition hash_file :: "byte_tools \<Rightarrow> string \<Rightarrow> string \<times> int" where
  "hash_file t data = (bt_sha t data, int (length data))"

section \<open>Path lists\<close>

definition normalize_unique_paths :: "string list \<Rightarrow> string list res" where
  "normalize_unique_paths values =
     guarded (manifest_error ''path list cannot be empty'') (values \<noteq> [])
     (bind_res (fold_res (\<lambda>ps v. bind_res
          (rephrased (\<lambda>m. manifest_error (''invalid path '' @ str_repr v @ '': '' @ m))
            (normalize_policy_path (trim_slashes v)))
          (\<lambda>p. Inr (if p \<in> set ps then ps else ps @ [p]))) [] values)
      (\<lambda>ps. Inr (sort ps)))"

definition assert_minimum_protection :: "string list \<Rightarrow> unit res" where
  "assert_minimum_protection protected =
     bind_res (normalize_unique_paths protected) (\<lambda>normal.
     bind_res (fold_res (\<lambda>missing required. bind_res (any_res (path_is_within required) normal)
         (\<lambda>b. Inr (if b then missing else missing @ [required]))) [] MINIMUM_PROTECTED_PATHS) (\<lambda>missing.
     guarded (manifest_error (''protected manifest omits mandatory paths: '' @ join_with '', '' missing))
       (missing = []) (Inr ())))"

text \<open>The bullet items of \<^verbatim>\<open>PROTECTED_PATHS.md\<close>: what the pattern captures of a stripped line.\<close>

definition bullet_item :: "string \<Rightarrow> string option" where
  "bullet_item s = (case s of [] \<Rightarrow> None
     | c # rest \<Rightarrow> if (c = CHR ''-'' \<or> c = CHR ''*'') \<and> rest \<noteq> [] \<and> py_isspace (hd rest)
         \<and> py_lstrip rest \<noteq> [] then Some (py_lstrip rest) else None)"

definition bullet_path :: "string \<Rightarrow> string option" where
  "bullet_path s = (case bullet_item s of None \<Rightarrow> None
     | Some c \<Rightarrow> if py_startswith ''`'' c \<and> py_endswith ''`'' c then Some (butlast (tl c))
         else if list_ex py_isspace c then None else Some c)"

definition parse_protected_line :: "string list \<Rightarrow> string \<Rightarrow> string list res" where
  "parse_protected_line entries raw = (let s = py_strip raw in
     if s = [] \<or> py_startswith ''<!--'' s then Inr entries else
     (case bullet_path s of
        None \<Rightarrow> Inr entries
      | Some c \<Rightarrow> bind_res
          (rephrased (\<lambda>m. manifest_error (''invalid protected path '' @ str_repr c @ '': '' @ m))
            (normalize_policy_path (trim_slashes c)))
          (\<lambda>p. Inr (entries @ [p]))))"

definition parse_protected_paths_markdown :: "string \<Rightarrow> string list res" where
  "parse_protected_paths_markdown text =
     bind_res (fold_res parse_protected_line [] (py_splitlines text)) (\<lambda>entries.
     guarded (manifest_error ''protected manifest contains no path entries'') (entries \<noteq> [])
     (Inr (sorted_set entries)))"

section \<open>What git and the files say\<close>

definition run_git :: "repository_view \<Rightarrow> string \<Rightarrow> string list \<Rightarrow> string option" where
  "run_git v dir args = (let r = rv_git v dir args in if gr_code r = 0 then Some (gr_out r) else None)"

text \<open>\<^verbatim>\<open>bytes.split()\<close>\<close>

definition byte_words :: "string \<Rightarrow> string list" where
  "byte_words s = filter (\<lambda>p. p \<noteq> [])
     (split_on CHR '' '' (map (\<lambda>c. if (of_char c :: nat) \<in> set [9, 10, 11, 12, 13] then CHR '' '' else c) s))"

definition zero_records :: "string \<Rightarrow> string list" where
  "zero_records out = filter (\<lambda>r. r \<noteq> []) (split_on CHR 0x00 out)"

definition gitlink_record :: "string \<Rightarrow> string \<Rightarrow> gitlink option" where
  "gitlink_record prefix rec = (let metadata = takeWhile (\<lambda>c. c \<noteq> CHR 0x09) rec;
       path = drop (Suc (length metadata)) rec in
     if CHR 0x09 \<notin> set rec then None else
     (case byte_words metadata of
        [mode, object, stage] \<Rightarrow>
          if ascii object \<and> path = utf8 prefix \<and> mode = ''160000'' \<and> stage = ''0''
          then Some \<lparr>gl_path = prefix, gl_commit_sha = object\<rparr> else None
      | _ \<Rightarrow> None))"

fun gitlink_among :: "repository_view \<Rightarrow> string list \<Rightarrow> gitlink option" where
  "gitlink_among v [] = None"
| "gitlink_among v (prefix # ps) =
     (case run_git v [] [''ls-files'', ''--stage'', ''-z'', ''--'', prefix] of
        None \<Rightarrow> None
      | Some out \<Rightarrow> (case List.map_filter (gitlink_record prefix) (zero_records out) of
            g # _ \<Rightarrow> Some g | [] \<Rightarrow> gitlink_among v ps))"

definition gitlink_ancestor :: "repository_view \<Rightarrow> string \<Rightarrow> gitlink option" where
  "gitlink_ancestor v path = gitlink_among v (path_chain path)"

definition exists_at :: "file_system \<Rightarrow> string \<Rightarrow> bool" where
  "exists_at fs p \<longleftrightarrow> dget (fs_bytes fs) p \<noteq> None \<or> p \<in> set (fs_dirs fs)"

definition checkout_matches :: "repository_view \<Rightarrow> gitlink \<Rightarrow> bool" where
  "checkout_matches v g = (let fs = rv_files v; marker = gl_path g @ ''/.git'' in
     gl_path g \<notin> set (fs_links fs) \<and> gl_path g \<in> set (fs_dirs fs)
     \<and> marker \<notin> set (fs_links fs) \<and> exists_at fs marker
     \<and> (case run_git v (gl_path g) [''rev-parse'', ''--verify'', ''HEAD^{commit}''] of
          None \<Rightarrow> False | Some out \<Rightarrow> ascii out \<and> py_strip out = gl_commit_sha g))"

definition line_endings_equivalent :: "string \<Rightarrow> string \<Rightarrow> bool" where
  "line_endings_equivalent a b \<longleftrightarrow> CHR 0x00 \<notin> set a \<and> CHR 0x00 \<notin> set b
     \<and> py_replace [CHR 0x0D, CHR 0x0A] [CHR 0x0A] a = py_replace [CHR 0x0D, CHR 0x0A] [CHR 0x0A] b"

definition path_below :: "string \<Rightarrow> string \<Rightarrow> string" where
  "path_below dir p = (if dir = [] then p else dir @ ''/'' @ p)"

text \<open>\<open>dir\<close> is the repository the path belongs to, the root or a submodule.\<close>

definition hash_git_worktree_file :: "byte_tools \<Rightarrow> repository_view \<Rightarrow> string \<Rightarrow> string \<Rightarrow> (string \<times> int) option" where
  "hash_git_worktree_file t v dir p = (case normalize_policy_path p of
     Inl _ \<Rightarrow> None
   | Inr n \<Rightarrow> (case (run_git v dir [''show'', CHR '':'' # n], dget (fs_bytes (rv_files v)) (path_below dir n)) of
       (Some indexed, Some worktree) \<Rightarrow> Some (hash_file t
         (if worktree = indexed \<or> line_endings_equivalent worktree indexed then indexed else worktree))
     | _ \<Rightarrow> None))"

definition canonical_hash :: "byte_tools \<Rightarrow> repository_view \<Rightarrow> string \<Rightarrow> string \<Rightarrow> string \<Rightarrow> string \<times> int" where
  "canonical_hash t v dir p data =
     (case hash_git_worktree_file t v dir p of Some h \<Rightarrow> h | None \<Rightarrow> hash_file t data)"

definition tracked_files_within :: "byte_tools \<Rightarrow> repository_view \<Rightarrow> string \<Rightarrow> string list option res" where
  "tracked_files_within t v path = (case run_git v [] [''ls-files'', ''-z'', ''--'', path] of
     None \<Rightarrow> Inr None
   | Some out \<Rightarrow> bind_res (fold_res (\<lambda>files item.
       bind_res (case bt_decode t item of None \<Rightarrow> Inl (manifest_error ''Git returned an invalid protected path'')
          | Some s \<Rightarrow> (case normalize_policy_path s of
              Inl _ \<Rightarrow> Inl (manifest_error ''Git returned an invalid protected path'') | Inr n \<Rightarrow> Inr n)) (\<lambda>n.
       bind_res (path_is_within n path) (\<lambda>b. Inr (if b then files @ [n] else files)))) [] (zero_records out))
       (\<lambda>files. Inr (Some (sorted_set files))))"

section \<open>Snapshots\<close>

definition link_payload :: "gitlink \<Rightarrow> (string \<times> pyval) list" where
  "link_payload g = [(''gitlink_path'', PyStr (gl_path g)), (''gitlink_commit'', PyStr (gl_commit_sha g))]"

definition file_entry :: "string \<Rightarrow> string \<times> int \<Rightarrow> pyval" where
  "file_entry p h = PyDict [(''path'', PyStr p), (''sha256'', PyStr (fst h)), (''size_bytes'', PyInt (snd h))]"

definition make_snapshot :: "string \<Rightarrow> string \<Rightarrow> string \<Rightarrow> int \<Rightarrow> protected_snapshot" where
  "make_snapshot p kind digest bytes =
     \<lparr>sn_path = p, sn_kind = kind, sn_sha256 = digest, sn_size_bytes = bytes\<rparr>"

text \<open>The files of the index below a protected directory, a missing one with its state.\<close>

definition tracked_entry ::
  "byte_tools \<Rightarrow> repository_view \<Rightarrow> pyval list \<times> int \<Rightarrow> string \<Rightarrow> (pyval list \<times> int) res" where
  "tracked_entry t v = (\<lambda>(entries, total) p.
     guarded (manifest_error (''protected tree contains symbolic link: '' @ p)) (p \<notin> set (fs_links (rv_files v)))
     (if \<not> exists_at (rv_files v) p then
        Inr (entries @ [PyDict [(''path'', PyStr p), (''sha256'', PyStr (bt_sha t [])), (''size_bytes'', PyInt 0),
          (''state'', PyStr ''missing'')]], total)
      else fetch (manifest_error (''tracked protected path is not a regular file: '' @ p))
        (dget (fs_bytes (rv_files v)) p) (\<lambda>data.
        let h = canonical_hash t v [] p data in Inr (entries @ [file_entry p h], total + snd h))))"

text \<open>
  The files that \<^verbatim>\<open>os.walk\<close> visits below a directory in the order of the walk: the files of
  a directory by name before those of its subdirectories, the subdirectories by name.  Of a submodule
  the entry \<^verbatim>\<open>.git\<close> at its top is left out.
\<close>

definition walk_order :: "string list \<Rightarrow> string list" where
  "walk_order ps = sort_key (\<lambda>p. butlast (pure_parts p)) (sort_key (\<lambda>p. last (pure_parts p)) ps)"

definition in_tree :: "string \<Rightarrow> bool \<Rightarrow> string \<Rightarrow> bool" where
  "in_tree target submodule p \<longleftrightarrow> lies_below target p \<and> p \<noteq> target
     \<and> (submodule \<longrightarrow> pure_parts p ! length (pure_parts target) \<noteq> ''.git'')"

definition walked_tree ::
  "byte_tools \<Rightarrow> repository_view \<Rightarrow> string \<Rightarrow> bool \<Rightarrow> (pyval list \<times> int) res" where
  "walked_tree t v target submodule = (let fs = rv_files v;
       entries = map (\<lambda>p. (p, hash_file t (the (dget (fs_bytes fs) p))))
         (walk_order (filter (in_tree target submodule) (remdups (dkeys (fs_bytes fs))))) in
     guarded (manifest_error ''protected tree contains symbolic link'')
       (\<not> list_ex (in_tree target submodule) (fs_links fs))
     (Inr (map (\<lambda>(p, h). file_entry p h) entries, sum_list (map (\<lambda>(p, h). snd h) entries))))"

definition file_snapshot :: "byte_tools \<Rightarrow> repository_view \<Rightarrow> gitlink option \<Rightarrow> string \<Rightarrow> string \<Rightarrow> protected_snapshot res" where
  "file_snapshot t v link p data = (case link of
     Some g \<Rightarrow>
       (let inner = dropWhile (\<lambda>c. c = CHR ''/'') (drop (length (gl_path g)) p);
            h = canonical_hash t v (gl_path g) inner data
        in Inr (make_snapshot p ''submodule_file''
             (hash_json t (PyDict (link_payload g @ [(''content_sha256'', PyStr (fst h))]))) (snd h)))
   | None \<Rightarrow> bind_res (tracked_files_within t v p) (\<lambda>tracked.
       let h = (if tracked = Some [p] then canonical_hash t v [] p data else hash_file t data)
       in Inr (make_snapshot p ''file'' (fst h) (snd h))))"

definition directory_snapshot :: "byte_tools \<Rightarrow> repository_view \<Rightarrow> gitlink option \<Rightarrow> string \<Rightarrow> protected_snapshot res" where
  "directory_snapshot t v link p =
     bind_res (case link of Some _ \<Rightarrow> Inr None | None \<Rightarrow> tracked_files_within t v p) (\<lambda>tracked.
     case tracked of
       Some (f # fs) \<Rightarrow> bind_res (fold_res (tracked_entry t v) ([], 0) (f # fs)) (\<lambda>(entries, total).
         Inr (make_snapshot p ''tracked_directory'' (hash_json t (PyList entries)) total))
     | _ \<Rightarrow> bind_res (walked_tree t v p (link \<noteq> None)) (\<lambda>(entries, total).
         let digest = hash_json t (PyList entries) in
         Inr (case link of
            None \<Rightarrow> make_snapshot p ''directory'' digest total
          | Some g \<Rightarrow> make_snapshot p ''submodule_directory''
              (hash_json t (PyDict (link_payload g @ [(''tree_sha256'', PyStr digest)]))) total)))"

definition snapshot :: "byte_tools \<Rightarrow> repository_view \<Rightarrow> string \<Rightarrow> protected_snapshot res" where
  "snapshot t v path = bind_res (normalize_policy_path path) (\<lambda>p.
     let link = gitlink_ancestor v p; fs = rv_files v in
     case link of
       Some g \<Rightarrow>
         if \<not> checkout_matches v g
         then Inr (make_snapshot p ''uninitialized_submodule'' (hash_json t (PyDict (link_payload g))) 0)
         else guarded (manifest_error (''protected path cannot be a symbolic link: '' @ p)) (p \<notin> set (fs_links fs))
           (if \<not> exists_at fs p
            then Inr (make_snapshot p ''missing_submodule_path'' (hash_json t (PyDict (link_payload g))) 0)
            else (case dget (fs_bytes fs) p of Some data \<Rightarrow> file_snapshot t v link p data
                  | None \<Rightarrow> directory_snapshot t v link p))
     | None \<Rightarrow>
         guarded (manifest_error (''protected path cannot be a symbolic link: '' @ p)) (p \<notin> set (fs_links fs))
           (if \<not> exists_at fs p then Inr (make_snapshot p ''missing'' (bt_sha t []) 0)
            else (case dget (fs_bytes fs) p of Some data \<Rightarrow> file_snapshot t v link p data
                  | None \<Rightarrow> directory_snapshot t v link p)))"

definition snapshots_of :: "byte_tools \<Rightarrow> repository_view \<Rightarrow> string list \<Rightarrow> protected_snapshot list res" where
  "snapshots_of t v paths = fold_res (\<lambda>ss p. bind_res (snapshot t v p) (\<lambda>s. Inr (ss @ [s]))) [] paths"

section \<open>The manifest\<close>

record protected_manifest =
  pm_protected_paths :: "string list"
  pm_snapshots :: "protected_snapshot list"
  pm_manifest_sha256 :: string
  pm_contract_paths :: "string list"
  pm_contract_sha256 :: string
  pm_data_manifest_sha256 :: string
  pm_protected_content_sha256 :: string

definition validate_manifest_sha256 :: "string \<Rightarrow> string \<Rightarrow> unit res" where
  "validate_manifest_sha256 value field =
     guarded (manifest_error (field @ '' must be a lowercase SHA-256'')) (SHA256_RE value) (Inr ())"

definition incomplete_submodules :: "protected_snapshot list \<Rightarrow> string list" where
  "incomplete_submodules ss = sort (map sn_path
     (filter (\<lambda>s. sn_kind s \<in> {''uninitialized_submodule'', ''missing_submodule_path''}) ss))"

definition capture_manifest ::
  "byte_tools \<Rightarrow> repository_view \<Rightarrow> string list \<Rightarrow> string list \<Rightarrow> string \<Rightarrow> string option \<Rightarrow> bool
     \<Rightarrow> protected_manifest res" where
  "capture_manifest t v protected contract data_sha manifest_sha minimum =
     bind_res (normalize_unique_paths protected) (\<lambda>ps.
     bind_res (normalize_unique_paths contract) (\<lambda>cs.
     bind_res (validate_manifest_sha256 data_sha ''data_manifest_sha256'') (\<lambda>_.
     bind_res (if minimum then assert_minimum_protection ps else Inr ()) (\<lambda>_.
     bind_res (snapshots_of t v ps) (\<lambda>ss.
     bind_res (snapshots_of t v cs) (\<lambda>contract_ss.
     let bad = incomplete_submodules (ss @ contract_ss);
         frozen = (case manifest_sha of Some (c # s) \<Rightarrow> c # s
           | _ \<Rightarrow> hash_json t (PyDict [(''schema_version'', PyStr ''1.0''), (''protected_paths'', PyList (map PyStr ps))])) in
     guarded (manifest_error (''cannot freeze protected paths from an uninitialized or incomplete submodule: ''
         @ join_with '', '' bad)) (bad = [])
     (bind_res (validate_manifest_sha256 frozen ''manifest_sha256'') (\<lambda>_.
     Inr \<lparr>pm_protected_paths = ps, pm_snapshots = ss, pm_manifest_sha256 = frozen, pm_contract_paths = cs,
       pm_contract_sha256 = hash_snapshots t contract_ss, pm_data_manifest_sha256 = data_sha,
       pm_protected_content_sha256 = hash_snapshots t ss\<rparr>))))))))"

definition manifest_from_markdown ::
  "byte_tools \<Rightarrow> repository_view \<Rightarrow> string \<Rightarrow> string list \<Rightarrow> string \<Rightarrow> string option \<Rightarrow> bool
     \<Rightarrow> protected_manifest res" where
  "manifest_from_markdown t v raw contract data_sha expected minimum =
     bind_res (case expected of None \<Rightarrow> Inr ()
        | Some e \<Rightarrow> bind_res (validate_manifest_sha256 e ''expected_manifest_sha256'') (\<lambda>_.
            guarded (manifest_error ''protected manifest hash does not match'') (bt_sha t raw = e) (Inr ()))) (\<lambda>_.
     fetch (Raised ''UnicodeDecodeError'' []) (bt_decode t raw) (\<lambda>text.
     bind_res (parse_protected_paths_markdown text) (\<lambda>entries.
     capture_manifest t v entries contract data_sha (Some (bt_sha t raw)) minimum)))"

record manifest_verification =
  mv_valid :: bool
  mv_changed_paths :: "string list"
  mv_current_contract_sha256 :: string
  mv_current_protected_content_sha256 :: string

text \<open>
  \<^verbatim>\<open>expected_by_path\<close> keeps the last snapshot of a path; the paths of a captured manifest are
  distinct.
\<close>

definition verify_manifest :: "byte_tools \<Rightarrow> protected_manifest \<Rightarrow> repository_view \<Rightarrow> manifest_verification res" where
  "verify_manifest t m v =
     bind_res (snapshots_of t v (map sn_path (pm_snapshots m))) (\<lambda>current.
     bind_res (snapshots_of t v (pm_contract_paths m)) (\<lambda>contract.
     let expected = foldl (\<lambda>d s. dset (sn_path s) s d) [] (pm_snapshots m);
         changed = map sn_path (filter (\<lambda>s. dget expected (sn_path s) \<noteq> Some s) current);
         contract_sha = hash_snapshots t contract; content_sha = hash_snapshots t current in
     Inr \<lparr>mv_valid = (changed = [] \<and> contract_sha = pm_contract_sha256 m
            \<and> content_sha = pm_protected_content_sha256 m),
       mv_changed_paths = changed, mv_current_contract_sha256 = contract_sha,
       mv_current_protected_content_sha256 = content_sha\<rparr>))"

section \<open>A captured manifest verifies, and only the sealed content verifies\<close>

lemma make_snapshot_path [simp]: "sn_path (make_snapshot p kind digest n) = p"
  by (simp add: make_snapshot_def)

lemma file_snapshot_path: "file_snapshot t v link p data = Inr s \<Longrightarrow> sn_path s = p"
  by (auto simp: file_snapshot_def Let_def raise_simps split: option.splits)

lemma directory_snapshot_path:
  assumes "directory_snapshot t v link p = Inr s" shows "sn_path s = p"
proof -
  obtain tracked where "(case link of Some _ \<Rightarrow> Inr None | None \<Rightarrow> tracked_files_within t v p) = Inr tracked"
    using assms unfolding directory_snapshot_def raise_simps by blast
  with assms show ?thesis
    by (cases tracked rule: option.exhaust; cases "the tracked")
       (auto simp: directory_snapshot_def Let_def raise_simps split: option.splits prod.splits)
qed

lemma snapshot_path:
  assumes "snapshot t v p = Inr s" shows "sn_path s = p"
proof -
  obtain n where n: "normalize_policy_path p = Inr n" using assms by (auto simp: snapshot_def raise_simps)
  then have "n = p" by (rule normalize_policy_path_id)
  with assms n show ?thesis
    by (auto simp: snapshot_def Let_def raise_simps file_snapshot_path directory_snapshot_path
        split: option.splits if_splits)
qed

lemma collect_res:
  "fold_res (\<lambda>ss p. bind_res (f p) (\<lambda>s. Inr (ss @ [s]))) start ps = Inr ss
     \<longleftrightarrow> (\<exists>more. ss = start @ more \<and> list_all2 (\<lambda>p s. f p = Inr s) ps more)"
proof (induction ps arbitrary: start)
  case (Cons p ps)
  show ?case
  proof (cases "f p")
    case (Inr s)
    then show ?thesis by (auto simp: Cons.IH list_all2_Cons1)
  qed (simp add: list_all2_Cons1)
qed auto

lemma snapshots_of_iff: "snapshots_of t v ps = Inr ss \<longleftrightarrow> list_all2 (\<lambda>p s. snapshot t v p = Inr s) ps ss"
  by (simp add: snapshots_of_def collect_res)

lemma snapshots_of_paths: "snapshots_of t v ps = Inr ss \<Longrightarrow> map sn_path ss = ps"
  unfolding snapshots_of_iff by (induction rule: list_all2_induct) (simp_all add: snapshot_path)

lemma collect_distinct:
  "fold_res (\<lambda>ps v. bind_res (g v) (\<lambda>p. Inr (if p \<in> set ps then ps else ps @ [p]))) start vs = Inr qs
     \<Longrightarrow> distinct start \<Longrightarrow> distinct qs"
  by (induction vs arbitrary: start) (auto simp: raise_simps split: if_splits)

lemma normalize_unique_paths_distinct:
  assumes "normalize_unique_paths values = Inr ps" shows "distinct ps"
  using assms unfolding normalize_unique_paths_def raise_simps sum.inject
  by - (elim conjE exE, drule collect_distinct, auto)

text \<open>The lookup table of a manifest with distinct paths returns every snapshot.\<close>

lemma table_of_snapshots:
  assumes "distinct (map sn_path ss)"
  shows "dget (foldl (\<lambda>d s. dset (sn_path s) s d) start ss) p =
    (case find (\<lambda>s. sn_path s = p) ss of Some s \<Rightarrow> Some s | None \<Rightarrow> dget start p)"
  using assms
proof (induction ss arbitrary: start)
  case (Cons a ss)
  have "sn_path a \<notin> sn_path ` set ss" using Cons.prems by auto
  then have "find (\<lambda>s. sn_path s = sn_path a) ss = None"
    by (metis (mono_tags, lifting) find_None_iff image_eqI)
  with Cons show ?case by (auto split: option.splits)
qed simp

lemma table_member:
  assumes "distinct (map sn_path ss)" and "s \<in> set ss"
  shows "dget (foldl (\<lambda>d s. dset (sn_path s) s d) [] ss) (sn_path s) = Some s"
proof -
  have "find (\<lambda>r. sn_path r = sn_path s) ss = Some s"
    using assms by (induction ss) (auto simp: image_iff)
  then show ?thesis by (simp add: table_of_snapshots [OF assms(1)])
qed

definition sealed :: "byte_tools \<Rightarrow> protected_manifest \<Rightarrow> repository_view \<Rightarrow> bool" where
  "sealed t m v \<longleftrightarrow> snapshots_of t v (map sn_path (pm_snapshots m)) = Inr (pm_snapshots m)
     \<and> (case snapshots_of t v (pm_contract_paths m) of Inl _ \<Rightarrow> False
        | Inr ss \<Rightarrow> hash_snapshots t ss = pm_contract_sha256 m)"

lemma verify_manifest_valid:
  assumes "distinct (map sn_path (pm_snapshots m))"
    and "pm_protected_content_sha256 m = hash_snapshots t (pm_snapshots m)"
  shows "(\<exists>r. verify_manifest t m v = Inr r \<and> mv_valid r) \<longleftrightarrow> sealed t m v"
proof
  assume "sealed t m v"
  then obtain ss where ss: "snapshots_of t v (map sn_path (pm_snapshots m)) = Inr (pm_snapshots m)"
    "snapshots_of t v (pm_contract_paths m) = Inr ss" "hash_snapshots t ss = pm_contract_sha256 m"
    by (auto simp: sealed_def split: sum.splits)
  with assms table_member [OF assms(1)] show "\<exists>r. verify_manifest t m v = Inr r \<and> mv_valid r"
    by (auto simp: verify_manifest_def filter_empty_conv)
next
  assume "\<exists>r. verify_manifest t m v = Inr r \<and> mv_valid r"
  then obtain current contract where c: "snapshots_of t v (map sn_path (pm_snapshots m)) = Inr current"
    "snapshots_of t v (pm_contract_paths m) = Inr contract" "hash_snapshots t contract = pm_contract_sha256 m"
    and same: "\<forall>s \<in> set current. dget (foldl (\<lambda>d s. dset (sn_path s) s d) [] (pm_snapshots m)) (sn_path s) = Some s"
    by (auto simp: verify_manifest_def raise_simps filter_empty_conv Let_def)
  have paths: "map sn_path current = map sn_path (pm_snapshots m)" using c(1) by (rule snapshots_of_paths)
  let ?table = "foldl (\<lambda>d s. dset (sn_path s) s d) [] (pm_snapshots m)"
  have "current = pm_snapshots m"
  proof (rule nth_equalityI)
    show len: "length current = length (pm_snapshots m)" using paths by (metis length_map)
    fix i assume i: "i < length current"
    have key: "sn_path (current ! i) = sn_path (pm_snapshots m ! i)" using paths len i by (metis nth_map)
    have "i < length (pm_snapshots m)" using i unfolding len .
    then have "dget ?table (sn_path (pm_snapshots m ! i)) = Some (pm_snapshots m ! i)"
      by (rule table_member [OF assms(1) nth_mem])
    moreover have "dget ?table (sn_path (current ! i)) = Some (current ! i)"
      using same nth_mem [OF i] by blast
    ultimately have "Some (current ! i) = Some (pm_snapshots m ! i)" unfolding key by (rule trans [OF sym, rotated])
    then show "current ! i = pm_snapshots m ! i" by (rule option.inject [THEN iffD1])
  qed
  with c show "sealed t m v" by (simp add: sealed_def)
qed

lemma capture_manifestD:
  assumes "capture_manifest t v protected contract data_sha manifest_sha minimum = Inr m"
  shows "distinct (map sn_path (pm_snapshots m))" and "sealed t m v"
    and "pm_protected_content_sha256 m = hash_snapshots t (pm_snapshots m)"
    and "map sn_path (pm_snapshots m) = pm_protected_paths m"
proof -
  obtain ps cs ss contract_ss where parts: "normalize_unique_paths protected = Inr ps"
    "snapshots_of t v ps = Inr ss" "snapshots_of t v cs = Inr contract_ss"
    and m: "pm_protected_paths m = ps" "pm_snapshots m = ss" "pm_contract_paths m = cs"
      "pm_contract_sha256 m = hash_snapshots t contract_ss" "pm_protected_content_sha256 m = hash_snapshots t ss"
    using assms unfolding capture_manifest_def Let_def raise_simps by auto
  have paths: "map sn_path ss = ps" using parts(2) by (rule snapshots_of_paths)
  show "distinct (map sn_path (pm_snapshots m))"
    using paths m normalize_unique_paths_distinct [OF parts(1)] by simp
  show "sealed t m v" using parts paths m by (simp add: sealed_def)
  show "pm_protected_content_sha256 m = hash_snapshots t (pm_snapshots m)" using m by simp
  show "map sn_path (pm_snapshots m) = pm_protected_paths m" using paths m by simp
qed

text \<open>A manifest verifies on the repository it was captured from.\<close>

lemma captured_manifest_verifies:
  assumes "capture_manifest t v protected contract data_sha manifest_sha minimum = Inr m"
  shows "\<exists>r. verify_manifest t m v = Inr r \<and> mv_valid r"
  using verify_manifest_valid [OF capture_manifestD(1,3) [OF assms]] capture_manifestD(2) [OF assms] by blast

text \<open>Every mandatory path lies below one of the protected paths.\<close>

lemma minimum_missing:
  "fold_res (\<lambda>missing required. bind_res (any_res (path_is_within required) normal)
     (\<lambda>b. Inr (if b then missing else missing @ [required]))) start rs = Inr [] \<Longrightarrow>
   start = [] \<and> (\<forall>required \<in> set rs. any_res (path_is_within required) normal = Inr True)"
  by (induction rs arbitrary: start) (auto simp: raise_simps split: if_splits)

lemma minimum_protected:
  assumes "assert_minimum_protection protected = Inr ()" and "required \<in> set MINIMUM_PROTECTED_PATHS"
  shows "\<exists>p. path_is_within required p = Inr True"
proof -
  obtain normal where "any_res (path_is_within required) normal = Inr True"
    using assms unfolding assert_minimum_protection_def raise_simps by (blast dest: minimum_missing)
  then show ?thesis by (blast dest: any_res_TrueD)
qed

end
