(* ===== verification/Receipts.thy ===== *)
theory Receipts
  imports Git_State
begin

text \<open>
  Gate A receipts bound to their identity: \<^verbatim>\<open>src/src/tacorank/safety/receipts.py\<close> (the
  constructors of the shared schema are those of \<^verbatim>\<open>schemas.py\<close>).  SHA-256 and
  \<^verbatim>\<open>json.loads\<close> are parameters; the time of the clock comes as its text.
\<close>

record receipt_identity =
  id_run_id :: string
  id_experiment_id :: string
  id_attempt :: int
  id_patch_commit_sha :: string
  id_diff_sha256 :: string
  id_contract_sha256 :: string
  id_protected_manifest_sha256 :: string
  id_data_manifest_sha256 :: string
  id_experiment_root_commit_sha :: "string option"
  id_cumulative_diff_sha256 :: "string option"

definition validate_component :: "string \<Rightarrow> string \<Rightarrow> unit res" where
  "validate_component v field = guarded (ValueError (field @ '' is not a safe path component''))
     (identifier_shape v \<and> v \<notin> {''.'', ''..''}) (Inr ())"

definition git_sha :: "string \<Rightarrow> bool" where
  "git_sha s \<longleftrightarrow> 40 \<le> length s \<and> length s \<le> 64 \<and> list_all is_lower_hex s"

definition validate_git_sha :: "string \<Rightarrow> unit res" where
  "validate_git_sha s =
     guarded (ValueError ''patch_commit_sha must be a lowercase Git object id'') (git_sha s) (Inr ())"

definition validate_receipt_sha :: "string \<Rightarrow> string \<Rightarrow> unit res" where
  "validate_receipt_sha field s = guarded (ValueError (field @ '' must be a lowercase SHA-256'')) (SHA256_RE s) (Inr ())"

text \<open>\<^verbatim>\<open>ReceiptIdentity.__post_init__\<close>\<close>

definition check_identity :: "receipt_identity \<Rightarrow> unit res" where
  "check_identity q =
     bind_res (validate_component (id_run_id q) ''run_id'') (\<lambda>_.
     bind_res (validate_component (id_experiment_id q) ''experiment_id'') (\<lambda>_.
     guarded (ValueError ''attempt must be a positive integer'') (1 \<le> id_attempt q)
     (bind_res (validate_git_sha (id_patch_commit_sha q)) (\<lambda>_.
      bind_res (validate_receipt_sha ''diff_sha256'' (id_diff_sha256 q)) (\<lambda>_.
      bind_res (validate_receipt_sha ''contract_sha256'' (id_contract_sha256 q)) (\<lambda>_.
      bind_res (validate_receipt_sha ''protected_manifest_sha256'' (id_protected_manifest_sha256 q)) (\<lambda>_.
      bind_res (validate_receipt_sha ''data_manifest_sha256'' (id_data_manifest_sha256 q)) (\<lambda>_.
      guarded (ValueError ''experiment root and cumulative diff identities must be supplied together'')
        ((id_experiment_root_commit_sha q = None) = (id_cumulative_diff_sha256 q = None))
      (case id_experiment_root_commit_sha q of None \<Rightarrow> Inr ()
       | Some base \<Rightarrow> bind_res (validate_git_sha base) (\<lambda>_.
           validate_receipt_sha ''cumulative_diff_sha256''
             (case id_cumulative_diff_sha256 q of None \<Rightarrow> [] | Some s \<Rightarrow> s)))))))))))"

record receipt_store =
  rt_artifact_root :: string
  rt_include_run_id :: bool
  rt_max_receipt_bytes :: int
  rt_sha :: "string \<Rightarrow> string"
  rt_loads :: "string \<Rightarrow> pyval option"

definition make_receipt_store ::
  "string \<Rightarrow> bool \<Rightarrow> int \<Rightarrow> (string \<Rightarrow> string) \<Rightarrow> (string \<Rightarrow> pyval option) \<Rightarrow> receipt_store res" where
  "make_receipt_store base include max_bytes sha loads =
     bind_res (normalize_policy_path (trim_slashes base)) (\<lambda>r.
     guarded (ValueError ''max_receipt_bytes must be a positive integer'') (1 \<le> max_bytes)
     (Inr \<lparr>rt_artifact_root = r, rt_include_run_id = include, rt_max_receipt_bytes = max_bytes,
        rt_sha = sha, rt_loads = loads\<rparr>))"

section \<open>Paths\<close>

definition receipt_relative_path :: "receipt_store \<Rightarrow> receipt_identity \<Rightarrow> string \<Rightarrow> string" where
  "receipt_relative_path st q receipt_id =
     (let d = int_str (id_attempt q) in join_with ''/'' ([rt_artifact_root st]
       @ (if rt_include_run_id st then [id_run_id q] else [])
       @ [id_experiment_id q,
          ''attempt_'' @ (if rt_include_run_id st then d else replicate (3 - length d) CHR ''0'' @ d),
          ''gate_a'', receipt_id @ ''.json'']))"

definition safe_artifact_path :: "receipt_store \<Rightarrow> file_system \<Rightarrow> string \<Rightarrow> string res" where
  "safe_artifact_path st fs p =
     bind_res (normalize_policy_path p) (\<lambda>n.
     bind_res (path_is_within n (rt_artifact_root st)) (\<lambda>inside.
     guarded (ValueError ''receipt path is outside the approved artifact root'') inside
     (guarded (ValueError ''receipt path traverses a symbolic link'') (\<not> crosses_symlink fs n)
     (Inr n))))"

section \<open>Writing\<close>

type_synonym receipt_item = "(string, pyval) dict"

definition accepted_status :: "pyval \<Rightarrow> bool" where
  "accepted_status v \<longleftrightarrow> v \<in> {PyStr ''pass'', PyStr ''not_applicable''}"

definition status_of :: "receipt_item \<Rightarrow> pyval" where
  "status_of c = (case dget c ''status'' of None \<Rightarrow> PyNone | Some v \<Rightarrow> v)"

definition identity_payload :: "receipt_identity \<Rightarrow> (string, pyval) dict" where
  "identity_payload q = [(''run_id'', PyStr (id_run_id q)), (''experiment_id'', PyStr (id_experiment_id q)),
     (''attempt'', PyInt (id_attempt q)), (''patch_commit_sha'', PyStr (id_patch_commit_sha q)),
     (''diff_sha256'', PyStr (id_diff_sha256 q)), (''contract_sha256'', PyStr (id_contract_sha256 q)),
     (''protected_manifest_sha256'', PyStr (id_protected_manifest_sha256 q)),
     (''data_manifest_sha256'', PyStr (id_data_manifest_sha256 q))]"

definition root_payload :: "receipt_identity \<Rightarrow> (string, pyval) dict" where
  "root_payload q = (case id_experiment_root_commit_sha q of None \<Rightarrow> []
     | Some base \<Rightarrow> [(''experiment_root_commit_sha'', PyStr base),
         (''cumulative_diff_sha256'', case id_cumulative_diff_sha256 q of None \<Rightarrow> PyNone | Some s \<Rightarrow> PyStr s)])"

definition receipt_payload :: "receipt_identity \<Rightarrow> receipt_item list \<Rightarrow> string \<Rightarrow> (string, pyval) dict" where
  "receipt_payload q checks stamp = (''schema_version'', PyStr ''1.0'') # identity_payload q
     @ [(''checks'', PyList (map PyDict checks)), (''timestamp'', PyStr stamp)] @ root_payload q"

text \<open>\<^verbatim>\<open>_canonical_json\<close>: the text is ASCII.\<close>

definition receipt_bytes :: "(string, pyval) dict \<Rightarrow> string" where
  "receipt_bytes d = json_dumps True (PyDict d) @ [CHR 0x0A]"

record written_receipt =
  wr_receipt_id :: string
  wr_artifact_ref :: artifact_ref
  wr_relative_path :: string

definition receipt_ref :: "string \<Rightarrow> string \<Rightarrow> int \<Rightarrow> artifact_ref" where
  "receipt_ref receipt_id path size_bytes = \<lparr>art_artifact_id = ''sha256-'' @ receipt_id,
     art_kind = Artifact_VERIFICATION_RECEIPT, art_path = path, art_sha256 = receipt_id,
     art_size_bytes = size_bytes, art_content_type = Some ''application/json''\<rparr>"

definition receipt_result :: "string \<Rightarrow> string \<Rightarrow> string \<Rightarrow> written_receipt res" where
  "receipt_result receipt_id path encoded =
     (let ref = receipt_ref receipt_id path (int (length encoded)) in
      guarded (ValidationError ''ArtifactRef'') (valid_artifact_ref ref)
      (Inr \<lparr>wr_receipt_id = receipt_id, wr_artifact_ref = ref, wr_relative_path = path\<rparr>))"

text \<open>
  \<^verbatim>\<open>mkdir(parents=True)\<close> and \<^verbatim>\<open>open("xb")\<close>: an existing file with the same bytes is
  taken as written.
\<close>

definition place_receipt ::
  "receipt_store \<Rightarrow> file_system \<Rightarrow> string \<Rightarrow> string \<Rightarrow> string \<Rightarrow> file_system \<times> written_receipt res" where
  "place_receipt st fs receipt_id path encoded = (case make_parents fs path of
     Inl x \<Rightarrow> (fs, Inl x)
   | Inr fs' \<Rightarrow>
       if path \<in> set (fs_dirs fs') then (fs', Inl (Raised ''IsADirectoryError'' path)) else
       (case dget (fs_bytes fs') path of
          Some existing \<Rightarrow> (fs', guarded (Raised ''RuntimeError'' ''receipt path exists with different bytes'')
            (existing = encoded) (receipt_result receipt_id path encoded))
        | None \<Rightarrow> (fs'\<lparr>fs_bytes := dset path encoded (fs_bytes fs')\<rparr>, receipt_result receipt_id path encoded)))"

definition write_receipt ::
  "receipt_store \<Rightarrow> file_system \<Rightarrow> receipt_identity \<Rightarrow> receipt_item list \<Rightarrow> string
     \<Rightarrow> file_system \<times> written_receipt res" where
  "write_receipt st fs q checks stamp =
     (if checks = [] \<or> list_ex (\<lambda>c. \<not> accepted_status (status_of c)) checks
      then (fs, Inl (ValueError ''an acceptance receipt cannot contain failed checks'')) else
      (let encoded = receipt_bytes (receipt_payload q checks stamp);
           receipt_id = rt_sha st encoded in
       if rt_max_receipt_bytes st < int (length encoded)
       then (fs, Inl (ValueError ''receipt exceeds the configured size bound'')) else
       (case safe_artifact_path st fs (receipt_relative_path st q receipt_id) of
          Inl x \<Rightarrow> (fs, Inl x)
        | Inr path \<Rightarrow> place_receipt st fs receipt_id path encoded)))"

section \<open>Verifying\<close>

definition bad_receipt :: "string \<Rightarrow> exc" where
  "bad_receipt m = ValueError m"

definition item_of :: "(string, pyval) dict \<Rightarrow> string \<Rightarrow> pyval" where
  "item_of d k = (case dget d k of None \<Rightarrow> PyNone | Some v \<Rightarrow> v)"

text \<open>The root identity that a payload has on its own where the caller names none.\<close>

definition check_unclaimed_root :: "receipt_identity \<Rightarrow> (string, pyval) dict \<Rightarrow> unit res" where
  "check_unclaimed_root q d =
     (if id_experiment_root_commit_sha q \<noteq> None
         \<or> ''experiment_root_commit_sha'' \<notin> set (dkeys d) \<and> ''cumulative_diff_sha256'' \<notin> set (dkeys d)
      then Inr () else
      bind_res (case item_of d ''experiment_root_commit_sha'' of PyStr s \<Rightarrow> validate_git_sha s
          | _ \<Rightarrow> Inl (ValueError ''patch_commit_sha must be a lowercase Git object id'')) (\<lambda>_.
      guarded (bad_receipt ''receipt cumulative diff identity is malformed'')
        (case item_of d ''cumulative_diff_sha256'' of PyStr s \<Rightarrow> SHA256_RE s | _ \<Rightarrow> False) (Inr ())))"

text \<open>\<^verbatim>\<open>check.get("status") not in {...}\<close>: only strings can be in the set, lists cannot be looked up.\<close>

definition failed_check :: "pyval \<Rightarrow> bool res" where
  "failed_check v = (case v of
     PyDict d \<Rightarrow> (case item_of d ''status'' of
        PyList _ \<Rightarrow> Inl (Raised ''TypeError'' ''unhashable'') | PyDict _ \<Rightarrow> Inl (Raised ''TypeError'' ''unhashable'')
      | s \<Rightarrow> Inr (\<not> accepted_status s))
   | _ \<Rightarrow> Inl AttributeError)"

definition check_receipt_checks :: "(string, pyval) dict \<Rightarrow> unit res" where
  "check_receipt_checks d = (let unproved = bad_receipt ''receipt does not prove Gate A accepted every check'' in
     case item_of d ''checks'' of
       PyList (c # cs) \<Rightarrow> bind_res (any_res failed_check (c # cs)) (\<lambda>bad. guarded unproved (\<not> bad) (Inr ()))
     | PyList [] \<Rightarrow> Inl unproved | PyNone \<Rightarrow> Inl unproved | PyStr [] \<Rightarrow> Inl unproved | PyDict [] \<Rightarrow> Inl unproved
     | PyStr _ \<Rightarrow> Inl AttributeError | PyDict _ \<Rightarrow> Inl AttributeError
     | PyBool b \<Rightarrow> Inl (if b then Raised ''TypeError'' ''not iterable'' else unproved)
     | PyInt k \<Rightarrow> Inl (if k \<noteq> 0 then Raised ''TypeError'' ''not iterable'' else unproved)
     | PyFloat x \<Rightarrow> Inl (if x \<noteq> 0 then Raised ''TypeError'' ''not iterable'' else unproved))"

definition verify_receipt_payload :: "receipt_identity \<Rightarrow> (string, pyval) dict \<Rightarrow> (string, pyval) dict res" where
  "verify_receipt_payload q d =
     bind_res (check_unclaimed_root q d) (\<lambda>_.
     (let mismatched = filter (\<lambda>(name, v). \<not> scalar_eq v (item_of d name)) (identity_payload q @ root_payload q) in
      guarded (bad_receipt (''receipt identity mismatch: '' @ join_with '', '' (sort (map fst mismatched))))
        (mismatched = [])
      (bind_res (check_receipt_checks d) (\<lambda>_. Inr d))))"

definition verify_receipt ::
  "receipt_store \<Rightarrow> file_system \<Rightarrow> artifact_ref \<Rightarrow> receipt_identity \<Rightarrow> string \<Rightarrow> (string, pyval) dict res" where
  "verify_receipt st fs ref q receipt_id =
     guarded (bad_receipt ''receipt_id must be a lowercase SHA-256'') (SHA256_RE receipt_id)
     (guarded (bad_receipt ''receipt artifact path does not match its exact identity'')
       (art_path ref = receipt_relative_path st q receipt_id)
     (guarded (bad_receipt ''receipt artifact kind is invalid'') (art_kind ref = Artifact_VERIFICATION_RECEIPT)
     (guarded (bad_receipt ''receipt artifact id does not match receipt_id'')
       (art_artifact_id ref = ''sha256-'' @ receipt_id)
     (bind_res (safe_artifact_path st fs (art_path ref)) (\<lambda>path.
      fetch (bad_receipt ''receipt artifact is missing or is a symbolic link'') (dget (fs_bytes fs) path) (\<lambda>encoded.
      guarded (bad_receipt ''receipt artifact size exceeds the configured bound'')
        (1 \<le> art_size_bytes ref \<and> art_size_bytes ref \<le> rt_max_receipt_bytes st)
      (guarded (bad_receipt ''receipt artifact stat identity differs'')
        (int (length encoded) = art_size_bytes ref \<and> int (length encoded) \<le> rt_max_receipt_bytes st)
      (guarded (bad_receipt ''receipt bytes do not match receipt_id'') (rt_sha st encoded = receipt_id)
      (guarded (bad_receipt ''receipt artifact hash does not match'') (art_sha256 ref = rt_sha st encoded)
      (fetch (Raised ''JSONDecodeError'' []) (rt_loads st encoded) (\<lambda>decoded.
       case decoded of PyDict d \<Rightarrow> verify_receipt_payload q d | _ \<Rightarrow> Inl AttributeError)))))))))))"

section \<open>A written receipt verifies\<close>

lemma no_link_no_crossing: "\<forall>p \<in> set ps. p \<notin> set (fs_links fs) \<Longrightarrow> \<not> crosses_symlink_in fs ps"
  by (induction ps) auto

lemma place_receiptD:
  assumes "place_receipt st fs receipt_id path encoded = (fs', Inr w)"
  shows "dget (fs_bytes fs') path = Some encoded" and "fs_links fs' = fs_links fs"
    and "receipt_result receipt_id path encoded = Inr w"
proof -
  obtain fs1 where fs1: "make_parents fs path = Inr fs1"
    using assms by (auto simp: place_receipt_def split: sum.splits)
  with assms make_parents_keeps [OF fs1]
  show "dget (fs_bytes fs') path = Some encoded" "fs_links fs' = fs_links fs"
    "receipt_result receipt_id path encoded = Inr w"
    by (auto simp: place_receipt_def raise_simps split: if_splits option.splits)
qed

lemma place_receipt_keeps:
  assumes "place_receipt st fs receipt_id path encoded = (fs', r)" and "dget (fs_bytes fs) p = Some data"
  shows "dget (fs_bytes fs') p = Some data"
proof (cases "make_parents fs path")
  case (Inr fs1)
  then have "fs_bytes fs1 = fs_bytes fs" using make_parents_keeps by blast
  with assms Inr show ?thesis by (auto simp: place_receipt_def split: if_splits option.splits)
qed (use assms in \<open>simp add: place_receipt_def\<close>)

lemma write_receiptD:
  assumes "write_receipt st fs q checks stamp = (fs', Inr w)"
  defines "encoded \<equiv> receipt_bytes (receipt_payload q checks stamp)"
  shows "checks \<noteq> []" and "list_all (\<lambda>c. accepted_status (status_of c)) checks"
    and "int (length encoded) \<le> rt_max_receipt_bytes st"
    and "safe_artifact_path st fs (receipt_relative_path st q (rt_sha st encoded))
      = Inr (receipt_relative_path st q (rt_sha st encoded))"
    and "place_receipt st fs (rt_sha st encoded) (receipt_relative_path st q (rt_sha st encoded)) encoded = (fs', Inr w)"
proof -
  obtain path where path: "safe_artifact_path st fs (receipt_relative_path st q (rt_sha st encoded)) = Inr path"
    and rest: "checks \<noteq> []" "\<not> list_ex (\<lambda>c. \<not> accepted_status (status_of c)) checks"
      "int (length encoded) \<le> rt_max_receipt_bytes st"
      "place_receipt st fs (rt_sha st encoded) path encoded = (fs', Inr w)"
    using assms(1) unfolding write_receipt_def encoded_def Let_def
    by (auto split: if_splits sum.splits)
  have "path = receipt_relative_path st q (rt_sha st encoded)"
    using path normalize_policy_path_id unfolding safe_artifact_path_def raise_simps sum.inject by metis
  with path rest show "checks \<noteq> []" "list_all (\<lambda>c. accepted_status (status_of c)) checks"
    "int (length encoded) \<le> rt_max_receipt_bytes st"
    "safe_artifact_path st fs (receipt_relative_path st q (rt_sha st encoded))
      = Inr (receipt_relative_path st q (rt_sha st encoded))"
    "place_receipt st fs (rt_sha st encoded) (receipt_relative_path st q (rt_sha st encoded)) encoded = (fs', Inr w)"
    by (simp_all add: list_all_iff list_ex_iff)
qed

text \<open>
  \<^verbatim>\<open>json.dumps(..., sort_keys=True)\<close> forgets the order of the keys at every level: what
  \<^verbatim>\<open>json.loads\<close> gives back of a value is the value with its keys sorted.
\<close>

fun sorted_json :: "pyval \<Rightarrow> pyval" where
  "sorted_json (PyList vs) = PyList (map sorted_json vs)"
| "sorted_json (PyDict d) = PyDict (sort_key fst (map (\<lambda>(k, v). (k, sorted_json v)) d))"
| "sorted_json v = v"

abbreviation sorted_dict :: "(string, pyval) dict \<Rightarrow> (string, pyval) dict" where
  "sorted_dict d \<equiv> sort_key fst (map (\<lambda>(k, v). (k, sorted_json v)) d)"

text \<open>Sorting is stable, so the first entry of a key stays the first.\<close>

lemma dget_filter: "dget d k = (case filter (\<lambda>p. fst p = k) d of [] \<Rightarrow> None | p # ps \<Rightarrow> Some (snd p))"
  by (induction d) auto

lemma dget_sorted: "dget (sorted_dict d) k = map_option sorted_json (dget d k)"
proof -
  have "dget (sorted_dict d) k = dget (map (\<lambda>(k, v). (k, sorted_json v)) d) k"
    unfolding dget_filter [of "sorted_dict d"] sort_key_stable dget_filter [symmetric] ..
  also have "dget (map (\<lambda>(k, v). (k, sorted_json v)) d) k = map_option sorted_json (dget d k)"
    by (induction d) auto
  finally show ?thesis .
qed

lemma dkeys_sorted: "set (dkeys (sorted_dict d)) = set (dkeys d)"
  by (force simp: dkeys_def)

lemma item_of_sorted: "item_of (sorted_dict d) k = sorted_json (item_of d k)"
  unfolding item_of_def dget_sorted by (cases "dget d k") simp_all

lemma item_of_Cons: "item_of ((k, v) # d) n = (if n = k then v else item_of d n)"
  by (simp add: item_of_def)

lemma failed_check_payload: "accepted_status (status_of c) \<Longrightarrow> failed_check (sorted_json (PyDict c)) = Inr False"
proof -
  assume "accepted_status (status_of c)"
  then have "item_of c ''status'' \<in> {PyStr ''pass'', PyStr ''not_applicable''}"
    by (auto simp: accepted_status_def item_of_def status_of_def)
  then have "item_of (sorted_dict c) ''status'' \<in> {PyStr ''pass'', PyStr ''not_applicable''}"
    unfolding item_of_sorted by auto
  then show ?thesis by (auto simp: failed_check_def accepted_status_def)
qed

lemma no_failed_check:
  "list_all (\<lambda>c. accepted_status (status_of c)) cs
     \<Longrightarrow> any_res failed_check (map (sorted_json \<circ> PyDict) cs) = Inr False"
  by (induction cs) (simp_all add: failed_check_payload del: sorted_json.simps)

lemma receipt_payload_verifies:
  assumes "checks \<noteq> []" and "list_all (\<lambda>c. accepted_status (status_of c)) checks"
  shows "verify_receipt_payload q (sorted_dict (receipt_payload q checks stamp))
    = Inr (sorted_dict (receipt_payload q checks stamp))"
proof -
  let ?d = "sorted_dict (receipt_payload q checks stamp)"
  have "check_unclaimed_root q ?d = Inr ()"
    unfolding check_unclaimed_root_def dkeys_sorted
    by (cases "id_experiment_root_commit_sha q")
       (simp_all add: receipt_payload_def identity_payload_def root_payload_def dkeys_def)
  moreover have "filter (\<lambda>(name, v). \<not> scalar_eq v (item_of ?d name)) (identity_payload q @ root_payload q) = []"
    unfolding item_of_sorted
    by (cases "id_experiment_root_commit_sha q"; cases "id_cumulative_diff_sha256 q")
       (simp_all add: receipt_payload_def identity_payload_def root_payload_def item_of_Cons)
  moreover have "item_of ?d ''checks'' = PyList (map (sorted_json \<circ> PyDict) checks)"
    unfolding item_of_sorted by (simp add: receipt_payload_def identity_payload_def item_of_Cons)
  then have "check_receipt_checks ?d = Inr ()"
    using assms(1) no_failed_check [OF assms(2)]
    by (cases checks) (simp_all add: check_receipt_checks_def Let_def del: sorted_json.simps)
  ultimately show ?thesis by (simp add: verify_receipt_payload_def)
qed

lemma receipt_roundtrip:
  assumes w: "write_receipt st fs q checks stamp = (fs', Inr w)"
    and loads: "rt_loads st (receipt_bytes (receipt_payload q checks stamp))
      = Some (sorted_json (PyDict (receipt_payload q checks stamp)))"
    and links: "\<forall>p \<in> set (path_chain (wr_relative_path w)). p \<notin> set (fs_links fs)"
  shows "verify_receipt st fs' (wr_artifact_ref w) q (wr_receipt_id w)
    = Inr (sorted_dict (receipt_payload q checks stamp))"
proof -
  let ?encoded = "receipt_bytes (receipt_payload q checks stamp)"
  let ?id = "rt_sha st ?encoded"
  let ?path = "receipt_relative_path st q ?id"
  note stored = write_receiptD [OF w] and placed = place_receiptD [OF write_receiptD(5) [OF w]]
  from placed(3) have ref: "wr_artifact_ref w = receipt_ref ?id ?path (int (length ?encoded))"
    and ids: "wr_receipt_id w = ?id" "wr_relative_path w = ?path" and valid: "valid_artifact_ref (wr_artifact_ref w)"
    by (auto simp: receipt_result_def Let_def raise_simps)
  have sha: "SHA256_RE ?id" using valid ref by (simp add: valid_artifact_ref_def receipt_ref_def)
  have "\<not> crosses_symlink fs' ?path"
    using links ids(2) no_link_no_crossing [of "path_chain ?path" fs'] placed(2) by (simp add: crosses_symlink_def)
  with stored(4) have safe: "safe_artifact_path st fs' ?path = Inr ?path"
    unfolding safe_artifact_path_def raise_simps by blast
  have "1 \<le> int (length ?encoded)" by (simp add: receipt_bytes_def)
  then show ?thesis
    using sha safe placed(1) stored(1-3) loads
    by (simp add: verify_receipt_def ref ids receipt_ref_def receipt_payload_verifies guarded_def del: sort_key_simps)
qed

text \<open>What a verified receipt says of its identity.\<close>

lemma verified_receiptD:
  assumes "verify_receipt st fs ref q receipt_id = Inr d"
  shows "\<exists>encoded. dget (fs_bytes fs) (art_path ref) = Some encoded \<and> rt_sha st encoded = receipt_id"
    and "(name, v) \<in> set (identity_payload q @ root_payload q) \<Longrightarrow> scalar_eq v (item_of d name)"
proof -
  obtain path encoded where path: "safe_artifact_path st fs (art_path ref) = Inr path"
    and bytes: "dget (fs_bytes fs) path = Some encoded" "rt_sha st encoded = receipt_id"
    and d: "\<exists>v. (case v of PyDict d' \<Rightarrow> verify_receipt_payload q d' | _ \<Rightarrow> Inl AttributeError) = Inr d"
    using assms unfolding verify_receipt_def raise_simps by blast
  from d obtain x where "(case x of PyDict d' \<Rightarrow> verify_receipt_payload q d' | _ \<Rightarrow> Inl AttributeError) = Inr d" ..
  then have "\<exists>d'. verify_receipt_payload q d' = Inr d" by (cases x) auto
  then obtain d' where d: "verify_receipt_payload q d' = Inr d" ..
  have "path = art_path ref"
    using path normalize_policy_path_id unfolding safe_artifact_path_def raise_simps sum.inject by metis
  with bytes show "\<exists>encoded. dget (fs_bytes fs) (art_path ref) = Some encoded \<and> rt_sha st encoded = receipt_id"
    by blast
  show "(name, v) \<in> set (identity_payload q @ root_payload q) \<Longrightarrow> scalar_eq v (item_of d name)"
    using d unfolding verify_receipt_payload_def Let_def raise_simps filter_empty_conv by fastforce
qed

end
