(* ===== verification/Patch_Gate.thy ===== *)
theory Patch_Gate
  imports Command_Policy Protected_Manifest Receipts Schemas_Lifecycle
begin

text \<open>
  Gate A: \<^verbatim>\<open>src/src/tacorank/safety/patch_gate.py\<close>.  Git, the Python parser, SHA-256 and the
  isolated smoke check are parameters.  The repository is seen twice, before and after the smoke
  check; the artifacts are a file system of their own.  An exception that the gate catches only shows
  in the text of a finding.
\<close>

definition CHECK_ORDER :: "string list" where
  "CHECK_ORDER = [''diff_parse'', ''changed_file_match'', ''editable_path'', ''protected_path'', ''path_escape'',
     ''contract_hash'', ''syntax_import'', ''interface_contract'', ''command_policy'', ''data_boundary'',
     ''network_policy'', ''secret_scan'', ''dependency_policy'', ''smoke_test'']"

record patch_gate =
  pg_tools :: byte_tools
  pg_manifest :: protected_manifest
  pg_receipts :: receipt_store
  pg_paths :: path_policy
  pg_data :: data_access_policy
  pg_command_ids :: "string list"
  pg_parse :: py_parser
  pg_find_spec :: "string \<Rightarrow> bool"
  pg_requirements :: "interface_requirement list"
  pg_import_roots :: "string list option"
  pg_capability_imports :: "string list"
  pg_dependency_changes :: "string list"
  pg_artifact_roots :: "string list"
  pg_max_diff_bytes :: int
  pg_smoke :: "(patch_candidate \<Rightarrow> bool \<times> string) option"

text \<open>
  The constructor: editable roots, command ids, artifact roots and bound as the caller gives them; a
  smoke check that is not the isolated adapter is not a value of the model.
\<close>

definition make_patch_gate :: "string list \<Rightarrow> patch_gate \<Rightarrow> patch_gate res" where
  "make_patch_gate editable g =
     bind_res (make_path_policy editable (pm_protected_paths (pg_manifest g))) (\<lambda>policy.
     guarded (ValueError ''Gate A requires at least one allowed command id'') (pg_command_ids g \<noteq> [])
     (bind_res (fold_res (\<lambda>done r. bind_res (normalize_policy_path (trim_slashes r)) (\<lambda>p. Inr (done @ [p]))) []
         (pg_artifact_roots g)) (\<lambda>roots.
      guarded (ValueError ''at least one diff artifact root is required'') (roots \<noteq> [])
      (guarded (ValueError ''max_diff_bytes must be a positive integer'') (1 \<le> pg_max_diff_bytes g)
      (Inr (g\<lparr>pg_paths := policy, pg_command_ids := sorted_set (pg_command_ids g), pg_artifact_roots := roots\<rparr>))))))"

section \<open>Git\<close>

definition git_output :: "repository_view \<Rightarrow> int option \<Rightarrow> string list \<Rightarrow> string res" where
  "git_output v bound args = (let r = rv_git v [] args in
     guarded (git_error ''GIT_OUTPUT_LIMIT'') (case bound of None \<Rightarrow> True | Some b \<Rightarrow> int (length (gr_out r)) \<le> b)
     (guarded (git_error ''GIT_STATE_CHECK_FAILED'') (gr_code r = 0) (Inr (gr_out r))))"

definition git_line :: "repository_view \<Rightarrow> string list \<Rightarrow> string res" where
  "git_line v args = bind_res (git_output v None args) (\<lambda>out. let s = py_strip out in
     guarded (git_error ''GIT_STATE_CHECK_FAILED'')
       (ascii out \<and> s \<noteq> [] \<and> CHR 0x0A \<notin> set s \<and> CHR 0x0D \<notin> set s) (Inr s))"

definition committed_diff_arguments :: "string \<Rightarrow> string \<Rightarrow> string list" where
  "committed_diff_arguments base patch = [''diff'', ''--binary'', ''--full-index'', ''--no-ext-diff'',
     ''--no-textconv'', ''--no-color'', ''--no-relative'', ''--no-indent-heuristic'', ''--diff-algorithm=myers'',
     ''--src-prefix=a/'', ''--dst-prefix=b/'', ''--no-renames'', base, patch, ''--'']"

text \<open>\<^verbatim>\<open>records = encoded.split(b"\x00")\<close> without the empty record behind the last one.\<close>

definition changed_records :: "string \<Rightarrow> string list" where
  "changed_records out = (let rs = split_on CHR 0x00 out in if last rs = [] then butlast rs else rs)"

definition git_changed_files :: "byte_tools \<Rightarrow> repository_view \<Rightarrow> string \<Rightarrow> string \<Rightarrow> int \<Rightarrow> string list res" where
  "git_changed_files t v base patch bound =
     bind_res (git_output v (Some bound) [''diff'', ''--name-only'', ''-z'', ''--no-renames'', base, patch, ''--'']) (\<lambda>out.
     bind_res (fold_res (\<lambda>ps item. case bt_decode t item of
          None \<Rightarrow> Inl (git_error ''MALFORMED_DIFF_PATHS'')
        | Some s \<Rightarrow> (case normalize_policy_path s of
            Inl _ \<Rightarrow> Inl (git_error ''MALFORMED_DIFF_PATHS'') | Inr p \<Rightarrow> Inr (ps @ [p]))) [] (changed_records out)) (\<lambda>ps.
     guarded (git_error ''MALFORMED_DIFF_PATHS'') (distinct ps) (Inr (sort ps))))"

record verified_git_state =
  vg_base_commit_sha :: string
  vg_patch_commit_sha :: string
  vg_experiment_root_commit_sha :: string
  vg_immediate_diff :: string
  vg_immediate_changed_files :: "string list"
  vg_cumulative_diff :: string
  vg_cumulative_changes :: "changed_path list"

definition cumulative_changed_files :: "verified_git_state \<Rightarrow> string list" where
  "cumulative_changed_files s = parsed_changed_files (vg_cumulative_changes s)"

definition required_text :: "string \<Rightarrow> string \<Rightarrow> string res" where
  "required_text s name = guarded (ValueError (''candidate '' @ name @ '' is required'')) (s \<noteq> []) (Inr s)"

text \<open>The root of the experiment: the base of a first attempt, an ancestor of it for a repair.\<close>

definition experiment_root :: "repository_view \<Rightarrow> int \<Rightarrow> string option \<Rightarrow> string \<Rightarrow> string res" where
  "experiment_root v attempt declared base =
     (if attempt = 1 then
        bind_res (case declared of None \<Rightarrow> Inr base | Some d \<Rightarrow> resolve_commit v d) (\<lambda>start.
        guarded (git_error ''EXPERIMENT_ROOT_MISMATCH'') (start = base) (Inr start))
      else fetch (git_error ''EXPERIMENT_ROOT_REQUIRED'') declared (\<lambda>d.
        bind_res (resolve_commit v d) (\<lambda>start.
        bind_res (require_ancestor v start base) (\<lambda>_. Inr start))))"

definition cumulative_changes_of :: "byte_tools \<Rightarrow> string \<Rightarrow> changed_path list res" where
  "cumulative_changes_of t diff = (if diff = [] then Inr [] else
     (case bt_decode t diff of
        None \<Rightarrow> Inl (git_error ''CUMULATIVE_DIFF_PARSE_FAILURE'')
      | Some s \<Rightarrow> (case parse_git_diff s of
          Inl _ \<Rightarrow> Inl (git_error ''CUMULATIVE_DIFF_PARSE_FAILURE'') | Inr cs \<Rightarrow> Inr cs)))"

definition verify_git_state ::
  "patch_gate \<Rightarrow> repository_view \<Rightarrow> patch_candidate \<Rightarrow> string option \<Rightarrow> verified_git_state res" where
  "verify_git_state g v c declared = (let bound = pg_max_diff_bytes g; t = pg_tools g in
     bind_res (validated_repository v) (\<lambda>_.
     bind_res (git_output v None [''status'', ''--porcelain=v1'', ''-z'', ''--untracked-files=all'', ''--ignored=matching''])
       (\<lambda>status.
     guarded (git_error ''WORKTREE_DIRTY'') (status = [])
     (bind_res (bind_res (required_text (pc_base_commit_sha c) ''base_commit_sha'') (resolve_commit v)) (\<lambda>base.
      bind_res (bind_res (required_text (pc_patch_commit_sha c) ''patch_commit_sha'') (resolve_commit v)) (\<lambda>patch.
      bind_res (git_line v [''rev-parse'', ''--verify'', ''HEAD^{commit}'']) (\<lambda>head.
      guarded (git_error ''WORKTREE_COMMIT_MISMATCH'') (head = patch)
      (bind_res (git_line v [''rev-list'', ''--parents'', ''-n'', ''1'', patch]) (\<lambda>parents.
       guarded (git_error ''PATCH_PARENT_MISMATCH'') (split_on CHR '' '' parents = [patch, base])
       (bind_res (git_output v (Some bound) (committed_diff_arguments base patch)) (\<lambda>immediate.
        bind_res (git_changed_files t v base patch bound) (\<lambda>files.
        guarded (ValueError ''candidate attempt must be a positive integer'') (1 \<le> pc_attempt c)
        (bind_res (experiment_root v (pc_attempt c) declared base) (\<lambda>start.
         bind_res (require_ancestor v start patch) (\<lambda>_.
         bind_res (git_output v (Some bound) (committed_diff_arguments start patch)) (\<lambda>cumulative.
         bind_res (cumulative_changes_of t cumulative) (\<lambda>changes.
         Inr \<lparr>vg_base_commit_sha = base, vg_patch_commit_sha = patch, vg_experiment_root_commit_sha = start,
           vg_immediate_diff = immediate, vg_immediate_changed_files = files,
           vg_cumulative_diff = cumulative, vg_cumulative_changes = changes\<rparr>)))))))))))))))))"

section \<open>The diff artifact\<close>

definition safe_identity_component :: "string \<Rightarrow> string \<Rightarrow> string res" where
  "safe_identity_component s field = guarded (ValueError (field @ '' is not a safe artifact component''))
     (identifier_shape s \<and> s \<notin> {''.'', ''..''} \<and> \<not> str_in ''..'' s \<and> \<not> py_endswith ''.lock'' s) (Inr s)"

definition layout_identifier :: "string \<Rightarrow> string \<Rightarrow> string res" where
  "layout_identifier s field = guarded (ValueError (field @ '' is not a valid TacoRank identifier'')) (ID_RE s) (Inr s)"

definition run_artifact_root :: "string \<Rightarrow> string res" where
  "run_artifact_root run = bind_res (layout_identifier run ''run_id'') (\<lambda>r. Inr (''runs/'' @ r @ ''/artifacts''))"

definition experiment_artifact_prefix :: "string \<Rightarrow> string \<Rightarrow> int option \<Rightarrow> string res" where
  "experiment_artifact_prefix run experiment attempt =
     bind_res (run_artifact_root run) (\<lambda>p.
     bind_res (layout_identifier experiment ''experiment_id'') (\<lambda>e.
     case attempt of
       None \<Rightarrow> Inr (p @ ''/'' @ e)
     | Some k \<Rightarrow> guarded (ValueError ''attempt must be a positive integer'') (1 \<le> k)
         (let d = int_str k in Inr (p @ ''/'' @ e @ ''/attempt_'' @ replicate (3 - length d) CHR ''0'' @ d))))"

definition expected_diff_paths :: "patch_gate \<Rightarrow> string \<Rightarrow> string \<Rightarrow> int \<Rightarrow> string list res" where
  "expected_diff_paths g run experiment attempt =
     (let own = map (\<lambda>r. r @ ''/'' @ run @ ''/'' @ experiment @ ''/attempt_'' @ int_str attempt @ ''/patch.diff'')
         (pg_artifact_roots g) in
      if ''runs'' \<in> set (pg_artifact_roots g)
      then bind_res (experiment_artifact_prefix run experiment (Some attempt)) (\<lambda>p. Inr (own @ [p @ ''/patch.diff'']))
      else Inr own)"

definition load_diff_artifact :: "patch_gate \<Rightarrow> file_system \<Rightarrow> patch_candidate \<Rightarrow> string res" where
  "load_diff_artifact g afs c = (let ref = pc_diff_artifact c; bound = pg_max_diff_bytes g in
     bind_res (normalize_policy_path (art_path ref)) (\<lambda>path.
     bind_res (safe_identity_component (pc_run_id c) ''run_id'') (\<lambda>run.
     bind_res (safe_identity_component (pc_experiment_id c) ''experiment_id'') (\<lambda>experiment.
     guarded (ValueError ''candidate attempt must be a positive integer'') (1 \<le> pc_attempt c)
     (bind_res (expected_diff_paths g run experiment (pc_attempt c)) (\<lambda>expected.
      guarded (ValueError ''diff artifact path does not match candidate identity'') (path \<in> set expected)
      (guarded (ValueError ''diff artifact kind is invalid'') (art_kind ref = Artifact_DIFF)
      (guarded (ValueError ''diff artifact path traverses a symbolic link'') (\<not> crosses_symlink afs path)
      (fetch (ValueError ''diff artifact is missing or is a symbolic link'') (dget (fs_bytes afs) path) (\<lambda>encoded.
       guarded (ValueError ''diff artifact size exceeds the configured bound'')
         (1 \<le> art_size_bytes ref \<and> art_size_bytes ref \<le> bound)
       (guarded (ValueError ''diff artifact stat size differs from its reference'')
         (int (length encoded) = art_size_bytes ref)
       (guarded (ValueError ''diff artifact bytes differ from its reference'')
         (bt_sha (pg_tools g) encoded = art_sha256 ref)
       (Inr encoded)))))))))))))"

section \<open>Changed source\<close>

definition blob_arguments :: "string \<Rightarrow> string \<Rightarrow> string list" where
  "blob_arguments commit path = [''cat-file'', ''blob'', commit @ '':'' @ path]"

definition load_one_source ::
  "patch_gate \<Rightarrow> repository_view \<Rightarrow> string \<Rightarrow> (string, string) dict \<times> policy_violation list \<Rightarrow> string
     \<Rightarrow> (string, string) dict \<times> policy_violation list" where
  "load_one_source g v commit = (\<lambda>(sources, findings) path.
     case git_output v (Some (pg_max_diff_bytes g)) (blob_arguments commit path) of
       Inl _ \<Rightarrow> (sources, findings @ [path_finding V_DIFF_MISMATCH ''changed_file_match''
         ''changed file is not readable from the declared candidate commit'' (Some path)])
     | Inr encoded \<Rightarrow> (case bt_decode (pg_tools g) encoded of
         Some s \<Rightarrow> (dset path s sources, findings)
       | None \<Rightarrow> (sources, findings @ [path_finding V_SECRET_DETECTED ''secret_scan''
             ''candidate file is not UTF-8 and cannot be secret-scanned'' (Some path)]
           @ found_if (py_endswith ''.py'' path) (path_finding V_SYNTAX_IMPORT_FAILURE ''syntax_import''
             ''Python source is not valid UTF-8'' (Some path)))))"

definition readable_paths :: "changed_path list \<Rightarrow> string list" where
  "readable_paths changes = List.map_filter (\<lambda>c. case cp_new_path c of None \<Rightarrow> None
     | Some p \<Rightarrow> (case normalize_policy_path p of Inl _ \<Rightarrow> None | Inr n \<Rightarrow> Some n)) changes"

definition load_changed_source ::
  "patch_gate \<Rightarrow> repository_view \<Rightarrow> changed_path list \<Rightarrow> string option
     \<Rightarrow> (string, string) dict \<times> policy_violation list" where
  "load_changed_source g v changes commit = (case commit of
     None \<Rightarrow> ([], [])
   | Some sha \<Rightarrow> (let (sources, findings) = foldl (load_one_source g v sha) ([], []) (readable_paths changes)
       in (sources, deduplicate_findings findings)))"

definition read_blob :: "patch_gate \<Rightarrow> repository_view \<Rightarrow> string option \<Rightarrow> string \<Rightarrow> string option" where
  "read_blob g v commit path = (case commit of
     None \<Rightarrow> None
   | Some sha \<Rightarrow> (case git_output v (Some (pg_max_diff_bytes g)) (blob_arguments sha path) of
       Inl _ \<Rightarrow> None | Inr encoded \<Rightarrow> bt_decode (pg_tools g) encoded))"

section \<open>Check records\<close>

record check_record =
  cx_name :: string
  cx_status :: string
  cx_summary :: string

definition build_check_records :: "policy_violation list \<Rightarrow> (string, string) dict \<Rightarrow> check_record list" where
  "build_check_records findings overrides = map (\<lambda>name.
     let failures = filter (\<lambda>f. pv_check f = name) (deduplicate_findings findings);
         status = (if failures \<noteq> [] then ''fail'' else case dget overrides name of None \<Rightarrow> ''pass'' | Some s \<Rightarrow> s)
     in \<lparr>cx_name = name, cx_status = status, cx_summary =
          (if status = ''fail'' then digits_of (length failures) @ '' violation(s)''
           else if status = ''not_applicable'' then ''check was not applicable to this patch''
           else ''check passed'')\<rparr>) CHECK_ORDER"

definition check_payload_of :: "check_record \<Rightarrow> receipt_item" where
  "check_payload_of c = [(''name'', PyStr (cx_name c)), (''status'', PyStr (cx_status c)), (''summary'', PyStr (cx_summary c))]"

definition shared_check :: "check_record \<Rightarrow> check_result res" where
  "shared_check c = (let status = (if cx_status c = ''pass'' then Some Check_PASS
       else if cx_status c = ''fail'' then Some Check_FAIL
       else if cx_status c = ''not_applicable'' then Some Check_NOT_APPLICABLE else None) in
     fetch (ValidationError ''CheckResult'') status (\<lambda>k.
       Inr \<lparr>ck_name = cx_name c, ck_status = k, ck_summary = Some (py_strip (cx_summary c))\<rparr>))"

definition shared_violation :: "policy_violation \<Rightarrow> violation res" where
  "shared_violation f = (let v = \<lparr>vi_code = code_value (pv_code f), vi_message = py_strip (pv_message f),
       vi_path = map_option py_strip (pv_path f)\<rparr> in
     guarded (ValidationError ''Violation'') (valid_violation v) (Inr v))"

section \<open>The gate\<close>

record gate_request =
  gq_contract_sha256 :: "string option"
  gq_protected_manifest_sha256 :: "string option"
  gq_data_manifest_sha256 :: "string option"
  gq_experiment_root_commit_sha :: "string option"
  gq_authorized_changed_files :: "string list option"

definition or_default :: "'a option \<Rightarrow> 'a \<Rightarrow> 'a" where
  "or_default x d = (case x of None \<Rightarrow> d | Some v \<Rightarrow> v)"

abbreviation contract_of :: "patch_gate \<Rightarrow> gate_request \<Rightarrow> string" where
  "contract_of g q \<equiv> or_default (gq_contract_sha256 q) (pm_contract_sha256 (pg_manifest g))"

abbreviation manifest_of :: "patch_gate \<Rightarrow> gate_request \<Rightarrow> string" where
  "manifest_of g q \<equiv> or_default (gq_protected_manifest_sha256 q) (pm_manifest_sha256 (pg_manifest g))"

abbreviation data_manifest_of :: "patch_gate \<Rightarrow> gate_request \<Rightarrow> string" where
  "data_manifest_of g q \<equiv> or_default (gq_data_manifest_sha256 q) (pm_data_manifest_sha256 (pg_manifest g))"

text \<open>\<^verbatim>\<open>getattr(exc, "code", type(exc).__name__)\<close>\<close>

definition exception_code :: "exc \<Rightarrow> string" where
  "exception_code x = (case x of
     Raised name message \<Rightarrow> if name = ''GitOperationError'' then message else name
   | _ \<Rightarrow> ''ValueError'')"

definition exception_name :: "exc \<Rightarrow> string" where
  "exception_name x = (case x of Raised name message \<Rightarrow> name | _ \<Rightarrow> ''ValueError'')"

definition match_finding :: "string \<Rightarrow> string option \<Rightarrow> policy_violation" where
  "match_finding message path = path_finding V_DIFF_MISMATCH ''changed_file_match'' message path"

definition git_findings :: "verified_git_state res \<Rightarrow> policy_violation list" where
  "git_findings state = (case state of Inr _ \<Rightarrow> []
     | Inl x \<Rightarrow> [match_finding (''candidate Git state is not the exact clean declared commit: '' @ exception_code x) None])"

definition artifact_findings :: "string res \<Rightarrow> policy_violation list" where
  "artifact_findings diff = (case diff of Inr _ \<Rightarrow> []
     | Inl x \<Rightarrow> [match_finding (''diff artifact is missing, unsafe, or does not match its reference: ''
         @ exception_name x) None])"

text \<open>The text of a \<^verbatim>\<open>UnicodeDecodeError\<close> is left out.\<close>

definition parse_diff_bytes :: "patch_gate \<Rightarrow> string \<Rightarrow> changed_path list res" where
  "parse_diff_bytes g diff = (case bt_decode (pg_tools g) diff of
     None \<Rightarrow> Inl (diff_error []) | Some s \<Rightarrow> parse_git_diff s)"

definition parse_findings :: "changed_path list res \<Rightarrow> policy_violation list" where
  "parse_findings parsed = (case parsed of Inr _ \<Rightarrow> []
     | Inl x \<Rightarrow> [path_finding V_DIFF_PARSE_FAILURE ''diff_parse'' (''patch is not a well-formed UTF-8 Git diff: ''
         @ (case x of Raised name m \<Rightarrow> m | _ \<Rightarrow> [])) None])"

definition normalize_reported_paths :: "string list \<Rightarrow> string list \<times> bool" where
  "normalize_reported_paths paths =
     (case fold_res (\<lambda>done p. bind_res (normalize_policy_path p) (\<lambda>n. Inr (done @ [n]))) [] paths of
        Inl _ \<Rightarrow> ([], False)
      | Inr ns \<Rightarrow> (sorted_set ns, length (remdups ns) = length paths))"

definition diff_matches ::
  "patch_gate \<Rightarrow> patch_candidate \<Rightarrow> verified_git_state res \<Rightarrow> string res \<Rightarrow> changed_path list res \<Rightarrow> bool" where
  "diff_matches g c state artifact parsed = (case state of
     Inl _ \<Rightarrow> False
   | Inr s \<Rightarrow> (let (reported, valid) = normalize_reported_paths (pc_changed_files c);
         files = vg_immediate_changed_files s in
       artifact = Inr (vg_immediate_diff s)
       \<and> pc_diff_sha256 c = bt_sha (pg_tools g) (vg_immediate_diff s)
       \<and> valid \<and> reported = files
       \<and> (case parsed of Inl _ \<Rightarrow> True | Inr cs \<Rightarrow> parsed_changed_files cs = files)))"

definition authorized_paths :: "string list \<Rightarrow> string list" where
  "authorized_paths paths =
     (case fold_res (\<lambda>done p. bind_res (normalize_policy_path p) (\<lambda>n. Inr (done @ [n]))) [] paths of
        Inl _ \<Rightarrow> [] | Inr ns \<Rightarrow> ns)"

definition authorization_findings :: "gate_request \<Rightarrow> string list \<Rightarrow> policy_violation list" where
  "authorization_findings q files = (case gq_authorized_changed_files q of
     None \<Rightarrow> []
   | Some allowed \<Rightarrow> concat (map (\<lambda>p. found_if (p \<notin> set (authorized_paths allowed))
       (path_finding V_UNAPPROVED_TARGET_FILE ''changed_file_match''
         ''candidate changed a file not authorized by the ExperimentSpec'' (Some p))) files))"

definition contract_findings ::
  "patch_gate \<Rightarrow> gate_request \<Rightarrow> manifest_verification res \<Rightarrow> policy_violation list" where
  "contract_findings g q verification = (let m = pg_manifest g in
     (case verification of Inr _ \<Rightarrow> []
      | Inl x \<Rightarrow> [path_finding V_CONTRACT_HASH_MISMATCH ''contract_hash''
          (''protected state could not be verified: '' @ exception_name x) None])
     @ found_if (\<not> (SHA256_RE (contract_of g q) \<and> SHA256_RE (manifest_of g q) \<and> SHA256_RE (data_manifest_of g q)
           \<and> contract_of g q = pm_contract_sha256 m \<and> manifest_of g q = pm_manifest_sha256 m
           \<and> data_manifest_of g q = pm_data_manifest_sha256 m
           \<and> (case verification of Inl _ \<Rightarrow> False
              | Inr r \<Rightarrow> mv_current_contract_sha256 r = pm_contract_sha256 m)))
         (path_finding V_CONTRACT_HASH_MISMATCH ''contract_hash''
           ''contract, protected-manifest, or data-manifest identity is not sealed'' None)
     @ (case verification of Inl _ \<Rightarrow> []
        | Inr r \<Rightarrow> map (\<lambda>p. path_finding V_PROTECTED_PATH_MODIFIED ''contract_hash''
            ''protected content differs from the frozen snapshot'' (Some p)) (mv_changed_paths r)))"

definition import_available :: "patch_gate \<Rightarrow> repository_view \<Rightarrow> string \<Rightarrow> bool" where
  "import_available g v name = (case pg_import_roots g of
     Some roots \<Rightarrow> name \<in> set roots
   | None \<Rightarrow> module_is_available (pg_find_spec g) (rv_files v) name)"

definition source_findings ::
  "patch_gate \<Rightarrow> repository_view \<Rightarrow> changed_path list \<Rightarrow> string option \<Rightarrow> policy_violation list" where
  "source_findings g v changes commit =
     (let (sources, unreadable) = load_changed_source g v changes commit in
      unreadable
      @ inspect_syntax_and_imports (pg_parse g) (import_available g v) sources
      @ inspect_interfaces (pg_parse g) (read_blob g v commit) sources (pg_requirements g)
      @ concat (map (\<lambda>(path, source).
          inspect_source_capabilities (pg_parse g) source path (pg_command_ids g) (pg_capability_imports g)
          @ inspect_source (pg_parse g) (pg_data g) source path
          @ inspect_secrets source path) sources))"

definition diff_secret_findings :: "patch_gate \<Rightarrow> string \<Rightarrow> policy_violation list" where
  "diff_secret_findings g diff = (case bt_decode (pg_tools g) diff of
     None \<Rightarrow> [] | Some s \<Rightarrow> if s = [] then [] else inspect_secrets s ''<exact-diff>'')"

text \<open>Everything the gate finds before the smoke check.\<close>

definition static_findings ::
  "patch_gate \<Rightarrow> repository_view \<Rightarrow> file_system \<Rightarrow> patch_candidate \<Rightarrow> gate_request \<Rightarrow> policy_violation list res" where
  "static_findings g v afs c q =
     (let state = verify_git_state g v c (gq_experiment_root_commit_sha q);
          artifact = load_diff_artifact g afs c;
          diff = (case artifact of Inl _ \<Rightarrow> [] | Inr d \<Rightarrow> d);
          parsed = parse_diff_bytes g diff;
          changes = (case state of Inl _ \<Rightarrow> [] | Inr s \<Rightarrow> vg_cumulative_changes s);
          files = parsed_changed_files changes;
          commit = (case state of Inl _ \<Rightarrow> None | Inr s \<Rightarrow> Some (vg_patch_commit_sha s)) in
      bind_res (inspect_paths (pg_paths g) (rv_files v) changes) (\<lambda>paths.
      Inr (git_findings state @ artifact_findings artifact @ parse_findings parsed
        @ found_if (\<not> diff_matches g c state artifact parsed)
            (match_finding ''reported diff identity or changed-file list does not match exact diff bytes'' None)
        @ paths
        @ authorization_findings q files
        @ contract_findings g q (verify_manifest (pg_tools g) (pg_manifest g) v)
        @ source_findings g v changes commit
        @ diff_secret_findings g diff
        @ inspect_dependency_changes files (pg_dependency_changes g))))"

text \<open>A smoke check that raises has failed; its finding carries its summary.\<close>

definition smoke_findings :: "patch_gate \<Rightarrow> patch_candidate \<Rightarrow> policy_violation list" where
  "smoke_findings g c = (case pg_smoke g of
     None \<Rightarrow> []
   | Some run \<Rightarrow> (let (passed, summary) = run c in found_if (\<not> passed)
       (path_finding V_SMOKE_FAILURE ''smoke_test''
         (if summary = [] then ''tiny approved smoke test failed'' else summary) None)))"

text \<open>The second look at repository and protected state.\<close>

definition unchanged_state ::
  "patch_gate \<Rightarrow> repository_view \<Rightarrow> patch_candidate \<Rightarrow> verified_git_state \<Rightarrow> unit res" where
  "unchanged_state g v c s =
     bind_res (verify_git_state g v c (Some (vg_experiment_root_commit_sha s))) (\<lambda>final.
     guarded (ValueError ''candidate Git identity changed during Gate A'') (final = s)
     (bind_res (verify_manifest (pg_tools g) (pg_manifest g) v) (\<lambda>r.
      guarded (ValueError ''protected state changed during Gate A'') (mv_valid r) (Inr ()))))"

definition final_findings ::
  "patch_gate \<Rightarrow> repository_view \<Rightarrow> patch_candidate \<Rightarrow> verified_git_state res \<Rightarrow> policy_violation list" where
  "final_findings g v c state = (case state of Inl _ \<Rightarrow> []
     | Inr s \<Rightarrow> (case unchanged_state g v c s of Inr _ \<Rightarrow> []
         | Inl x \<Rightarrow> [match_finding (''candidate or protected state changed during Gate A: '' @ exception_code x) None]))"

definition check_overrides :: "patch_gate \<Rightarrow> bool \<Rightarrow> bool \<Rightarrow> (string, string) dict" where
  "check_overrides g parsed clean =
     (if parsed then [(''diff_parse'', ''pass'')] else [])
     @ (if pg_requirements g = [] then [(''interface_contract'', ''not_applicable'')] else [])
     @ (if pg_smoke g = None \<or> \<not> clean then [(''smoke_test'', ''not_applicable'')] else [])"

definition gate_identity ::
  "patch_gate \<Rightarrow> patch_candidate \<Rightarrow> gate_request \<Rightarrow> verified_git_state option \<Rightarrow> string \<Rightarrow> receipt_identity" where
  "gate_identity g c q state diff_sha = \<lparr>id_run_id = pc_run_id c, id_experiment_id = pc_experiment_id c,
     id_attempt = pc_attempt c, id_patch_commit_sha = pc_patch_commit_sha c, id_diff_sha256 = diff_sha,
     id_contract_sha256 = contract_of g q, id_protected_manifest_sha256 = manifest_of g q,
     id_data_manifest_sha256 = data_manifest_of g q,
     id_experiment_root_commit_sha = map_option vg_experiment_root_commit_sha state,
     id_cumulative_diff_sha256 = map_option (\<lambda>s. bt_sha (pg_tools g) (vg_cumulative_diff s)) state\<rparr>"

definition issue_receipt ::
  "patch_gate \<Rightarrow> file_system \<Rightarrow> receipt_identity \<Rightarrow> check_record list \<Rightarrow> string \<Rightarrow> file_system \<times> written_receipt res" where
  "issue_receipt g afs identity checks stamp = (case check_identity identity of
     Inl x \<Rightarrow> (afs, Inl x)
   | Inr _ \<Rightarrow> write_receipt (pg_receipts g) afs identity (map check_payload_of checks) stamp)"

definition collected :: "('a \<Rightarrow> 'b res) \<Rightarrow> 'a list \<Rightarrow> 'b list res" where
  "collected f xs = fold_res (\<lambda>done x. bind_res (f x) (\<lambda>y. Inr (done @ [y]))) [] xs"

definition gate_result ::
  "patch_candidate \<Rightarrow> string \<Rightarrow> policy_violation list \<Rightarrow> check_record list \<Rightarrow> written_receipt option
     \<Rightarrow> patch_check_result res" where
  "gate_result c diff_sha findings checks receipt =
     bind_res (collected shared_check checks) (\<lambda>shared_checks.
     bind_res (collected shared_violation (deduplicate_findings findings)) (\<lambda>violations.
     let r = \<lparr>pk_run_id = pc_run_id c, pk_experiment_id = pc_experiment_id c, pk_attempt = pc_attempt c,
       pk_patch_commit_sha = pc_patch_commit_sha c, pk_diff_sha256 = diff_sha, pk_accepted = (receipt \<noteq> None),
       pk_receipt_id = map_option wr_receipt_id receipt, pk_receipt_artifact = map_option wr_artifact_ref receipt,
       pk_checks = shared_checks, pk_violations = violations, pk_resource_delta = zero_delta\<rparr> in
     guarded (ValidationError ''PatchCheckResult'') (valid_patch_check_result r) (Inr r)))"

text \<open>
  \<^verbatim>\<open>_check_sync\<close>: \<open>v\<close> is the repository at the first look, \<open>v'\<close> after the smoke check,
  \<open>afs\<close> the artifacts.
\<close>

definition check_sync ::
  "patch_gate \<Rightarrow> repository_view \<Rightarrow> repository_view \<Rightarrow> file_system \<Rightarrow> patch_candidate \<Rightarrow> gate_request \<Rightarrow> string
     \<Rightarrow> file_system \<times> patch_check_result res" where
  "check_sync g v v' afs c q stamp = (case static_findings g v afs c q of
     Inl x \<Rightarrow> (afs, Inl x)
   | Inr found \<Rightarrow>
       (let state = verify_git_state g v c (gq_experiment_root_commit_sha q);
            artifact = load_diff_artifact g afs c;
            diff = (case artifact of Inl _ \<Rightarrow> [] | Inr d \<Rightarrow> d);
            diff_sha = bt_sha (pg_tools g) (case state of Inl _ \<Rightarrow> diff | Inr s \<Rightarrow> vg_immediate_diff s);
            smoked = (if found = [] then smoke_findings g c else found);
            findings = (if smoked = [] then final_findings g v' c state else smoked);
            checks = build_check_records findings
              (check_overrides g (returns (parse_diff_bytes g diff)) (found = [])) in
        if findings = [] \<and> list_all (\<lambda>k. cx_status k \<noteq> ''fail'') checks then
          (let known = (case state of Inl _ \<Rightarrow> None | Inr s \<Rightarrow> Some s) in
           case issue_receipt g afs (gate_identity g c q known diff_sha) checks stamp of
             (afs', Inl x) \<Rightarrow> (afs', Inl x)
           | (afs', Inr w) \<Rightarrow> (afs', gate_result c diff_sha findings checks (Some w)))
        else (afs, gate_result c diff_sha findings checks None)))"

end
