(* ===== verification/Gate_Properties.thy ===== *)
theory Gate_Properties
  imports Patch_Gate
begin

text \<open>
  What an accepted check of Gate A, the protected manifest, an issued receipt and a clean verdict of the
  command policy guarantee, and the small repository with its gate on which the witnesses run.
\<close>

lemma check_sync_accepted:
  assumes "check_sync g v v' afs c q stamp = (afs', Inr r)" and "pk_accepted r"
  shows "static_findings g v afs c q = Inr []" and "smoke_findings g c = []"
    and "final_findings g v' c (verify_git_state g v c (gq_experiment_root_commit_sha q)) = []"
proof -
  obtain found where found: "static_findings g v afs c q = Inr found"
    using assms(1) by (cases "static_findings g v afs c q") (simp_all add: check_sync_def)
  let ?state = "verify_git_state g v c (gq_experiment_root_commit_sha q)"
  let ?smoked = "if found = [] then smoke_findings g c else found"
  let ?findings = "if ?smoked = [] then final_findings g v' c ?state else ?smoked"
  have "?findings = []"
  proof (rule ccontr)
    assume bad: "?findings \<noteq> []"
    then obtain checks diff_sha where "gate_result c diff_sha ?findings checks None = Inr r"
      using assms(1) found by (auto simp: check_sync_def Let_def simp del: if_split_asm)
    then show False using assms(2) by (auto simp: gate_result_def Let_def raise_simps)
  qed
  then show "static_findings g v afs c q = Inr []" "smoke_findings g c = []"
    "final_findings g v' c ?state = []"
    using found by (auto split: if_splits)
qed

lemma verified_state:
  assumes "verify_git_state g v c declared = Inr s"
  shows "vg_patch_commit_sha s = pc_patch_commit_sha c" and "vg_base_commit_sha s = pc_base_commit_sha c"
proof -
  have req: "bind_res (required_text a n) (resolve_commit v) = Inr b \<Longrightarrow> b = a" for a n b
    unfolding required_text_def raise_simps sum.inject using resolve_commit_id by blast
  obtain base patch where "bind_res (required_text (pc_base_commit_sha c) ''base_commit_sha'') (resolve_commit v) = Inr base"
    "bind_res (required_text (pc_patch_commit_sha c) ''patch_commit_sha'') (resolve_commit v) = Inr patch"
    "vg_base_commit_sha s = base" "vg_patch_commit_sha s = patch"
    using assms unfolding verify_git_state_def Let_def raise_simps sum.inject by auto
  with req show "vg_patch_commit_sha s = pc_patch_commit_sha c" "vg_base_commit_sha s = pc_base_commit_sha c"
    by blast+
qed

lemma static_findings_Nil:
  assumes "static_findings g v afs c q = Inr []"
  obtains s where "verify_git_state g v c (gq_experiment_root_commit_sha q) = Inr s"
    and "load_diff_artifact g afs c = Inr (vg_immediate_diff s)"
    and "pc_diff_sha256 c = bt_sha (pg_tools g) (vg_immediate_diff s)"
    and "normalize_reported_paths (pc_changed_files c) = (vg_immediate_changed_files s, True)"
    and "inspect_paths (pg_paths g) (rv_files v) (vg_cumulative_changes s) = Inr []"
    and "authorization_findings q (cumulative_changed_files s) = []"
    and "contract_findings g q (verify_manifest (pg_tools g) (pg_manifest g) v) = []"
    and "source_findings g v (vg_cumulative_changes s) (Some (vg_patch_commit_sha s)) = []"
    and "inspect_dependency_changes (cumulative_changed_files s) (pg_dependency_changes g) = []"
proof -
  let ?state = "verify_git_state g v c (gq_experiment_root_commit_sha q)"
  let ?artifact = "load_diff_artifact g afs c"
  have "git_findings ?state = []" and "artifact_findings ?artifact = []"
    using assms unfolding static_findings_def Let_def raise_simps by auto
  then obtain s d where s: "?state = Inr s" and d: "?artifact = Inr d"
    by (cases ?state; cases ?artifact) (auto simp: git_findings_def artifact_findings_def)
  have parts: "diff_matches g c (Inr s) (Inr d) (parse_diff_bytes g d)"
    "inspect_paths (pg_paths g) (rv_files v) (vg_cumulative_changes s) = Inr []"
    "authorization_findings q (cumulative_changed_files s) = []"
    "contract_findings g q (verify_manifest (pg_tools g) (pg_manifest g) v) = []"
    "source_findings g v (vg_cumulative_changes s) (Some (vg_patch_commit_sha s)) = []"
    "inspect_dependency_changes (cumulative_changed_files s) (pg_dependency_changes g) = []"
    using assms unfolding static_findings_def Let_def raise_simps
    by (auto simp: s d cumulative_changed_files_def)
  show thesis
  proof (rule that [OF s _ _ _ parts(2-6)])
    show "?artifact = Inr (vg_immediate_diff s)" "pc_diff_sha256 c = bt_sha (pg_tools g) (vg_immediate_diff s)"
      "normalize_reported_paths (pc_changed_files c) = (vg_immediate_changed_files s, True)"
      using parts(1) d by (auto simp: diff_matches_def Let_def split: prod.splits)
  qed
qed

lemma final_findings_Nil:
  assumes "final_findings g v' c (Inr s) = []"
  shows "verify_git_state g v' c (Some (vg_experiment_root_commit_sha s)) = Inr s"
    and "\<exists>m. verify_manifest (pg_tools g) (pg_manifest g) v' = Inr m \<and> mv_valid m"
proof -
  have "\<exists>u. unchanged_state g v' c s = Inr u"
    using assms by (cases "unchanged_state g v' c s") (simp_all add: final_findings_def)
  then show "verify_git_state g v' c (Some (vg_experiment_root_commit_sha s)) = Inr s"
    "\<exists>m. verify_manifest (pg_tools g) (pg_manifest g) v' = Inr m \<and> mv_valid m"
    unfolding unchanged_state_def raise_simps by auto
qed

lemma authorized_reported:
  assumes "authorization_findings q (cumulative_changed_files s) = []" and "gq_authorized_changed_files q = Some allowed"
    and "ch \<in> set (vg_cumulative_changes s)"
  shows "reported_path ch \<in> set (authorized_paths allowed)"
  using assms by (auto simp: authorization_findings_def cumulative_changed_files_def parsed_changed_files_def)

text \<open>The bytes of the receipt name the commit, the diff and the sealed identities that were checked.\<close>

lemma accepted_receipt:
  assumes "check_sync g v v' afs c q stamp = (afs', Inr r)" and "pk_accepted r"
    and "verify_git_state g v c (gq_experiment_root_commit_sha q) = Inr s"
  shows "\<exists>checks i. pk_receipt_id r = Some i
    \<and> rt_sha (pg_receipts g) (receipt_bytes (receipt_payload
        (gate_identity g c q (Some s) (bt_sha (pg_tools g) (vg_immediate_diff s))) checks stamp)) = i
    \<and> dget (fs_bytes afs') (receipt_relative_path (pg_receipts g)
        (gate_identity g c q (Some s) (bt_sha (pg_tools g) (vg_immediate_diff s))) i)
      = Some (receipt_bytes (receipt_payload
        (gate_identity g c q (Some s) (bt_sha (pg_tools g) (vg_immediate_diff s))) checks stamp))"
proof -
  let ?diff_sha = "bt_sha (pg_tools g) (vg_immediate_diff s)"
  let ?q = "gate_identity g c q (Some s) ?diff_sha"
  note clean = check_sync_accepted [OF assms(1,2)]
  obtain checks w where issued: "issue_receipt g afs ?q checks stamp = (afs', Inr w)"
    and r: "gate_result c ?diff_sha [] checks (Some w) = Inr r"
  proof (cases "list_all (\<lambda>k. cx_status k \<noteq> ''fail'') (build_check_records []
      (check_overrides g (returns (parse_diff_bytes g (case load_diff_artifact g afs c of Inl _ \<Rightarrow> [] | Inr d \<Rightarrow> d))) True))")
    case True
    then show thesis using assms(1) clean that unfolding check_sync_def
      by (auto simp: Let_def assms(3) split: prod.splits sum.splits)
  next
    case False
    then have "\<exists>cs. gate_result c ?diff_sha [] cs None = Inr r" using assms(1) clean
      unfolding check_sync_def by (auto simp: Let_def assms(3))
    then show thesis using assms(2) by (auto simp: gate_result_def Let_def raise_simps)
  qed
  from issued have w: "write_receipt (pg_receipts g) afs ?q (map check_payload_of checks) stamp = (afs', Inr w)"
    by (auto simp: issue_receipt_def split: sum.splits)
  note placed = place_receiptD [OF write_receiptD(5) [OF w]]
  have "pk_receipt_id r = Some (wr_receipt_id w)" using r by (auto simp: gate_result_def Let_def raise_simps)
  moreover have "wr_receipt_id w = rt_sha (pg_receipts g) (receipt_bytes (receipt_payload ?q (map check_payload_of checks) stamp))"
    using placed(3) by (auto simp: receipt_result_def Let_def raise_simps)
  ultimately show ?thesis using placed(1)
    by (intro exI [of _ "map check_payload_of checks"] exI [of _ "wr_receipt_id w"]) simp
qed

text \<open>
  C11: A check of Gate A that accepts has seen the declared commit on a clean work tree with exactly the
  reported diff and files; the whole change of the experiment, without submodules and links, stays
  inside the editable roots, outside the protected paths and within the authorized files; the work tree
  and the protected state are the same after the smoke check; and the receipt it names is on disk.
\<close>

theorem accepted_patch_sound:
  assumes "check_sync g v v' afs c q stamp = (afs', Inr r)" and "pk_accepted r"
  shows "\<exists>s. verify_git_state g v c (gq_experiment_root_commit_sha q) = Inr s
    \<and> verify_git_state g v' c (Some (vg_experiment_root_commit_sha s)) = Inr s
    \<and> vg_patch_commit_sha s = pc_patch_commit_sha c
    \<and> load_diff_artifact g afs c = Inr (vg_immediate_diff s)
    \<and> pc_diff_sha256 c = bt_sha (pg_tools g) (vg_immediate_diff s)
    \<and> normalize_reported_paths (pc_changed_files c) = (vg_immediate_changed_files s, True)
    \<and> list_all (\<lambda>ch. \<not> is_submodule ch \<and> \<not> is_symlink ch
        \<and> list_all (contained (pg_paths g) (rv_files v)) (changed_paths ch)
        \<and> (case gq_authorized_changed_files q of None \<Rightarrow> True
           | Some allowed \<Rightarrow> reported_path ch \<in> set (authorized_paths allowed))) (vg_cumulative_changes s)
    \<and> (\<exists>m. verify_manifest (pg_tools g) (pg_manifest g) v' = Inr m \<and> mv_valid m)
    \<and> (\<exists>checks i. pk_receipt_id r = Some i
        \<and> dget (fs_bytes afs') (receipt_relative_path (pg_receipts g)
            (gate_identity g c q (Some s) (pc_diff_sha256 c)) i)
          = Some (receipt_bytes (receipt_payload (gate_identity g c q (Some s) (pc_diff_sha256 c)) checks stamp)))"
proof -
  note clean = check_sync_accepted [OF assms]
  obtain s where s: "verify_git_state g v c (gq_experiment_root_commit_sha q) = Inr s"
    and diff: "load_diff_artifact g afs c = Inr (vg_immediate_diff s)"
      "pc_diff_sha256 c = bt_sha (pg_tools g) (vg_immediate_diff s)"
    and files: "normalize_reported_paths (pc_changed_files c) = (vg_immediate_changed_files s, True)"
    and paths: "inspect_paths (pg_paths g) (rv_files v) (vg_cumulative_changes s) = Inr []"
    and authorized: "authorization_findings q (cumulative_changed_files s) = []"
    by (rule static_findings_Nil [OF clean(1)])
  note final = final_findings_Nil [OF clean(3) [unfolded s]]
  have "list_all (\<lambda>ch. \<not> is_submodule ch \<and> \<not> is_symlink ch
        \<and> list_all (contained (pg_paths g) (rv_files v)) (changed_paths ch)
        \<and> (case gq_authorized_changed_files q of None \<Rightarrow> True
           | Some allowed \<Rightarrow> reported_path ch \<in> set (authorized_paths allowed))) (vg_cumulative_changes s)"
    using inspect_paths_Nil [OF paths] authorized_reported [OF authorized]
    by (auto simp: list_all_iff split: option.splits)
  with s final diff files verified_state(1) [OF s] accepted_receipt [OF assms s] show ?thesis
    unfolding diff(2) by blast
qed

section \<open>The protected state and the receipts\<close>

text \<open>
  C27: A manifest that was captured on one state of the repository verifies on a later state exactly when
  every protected path has the snapshot that it had then and the contract files hash to the sealed value.
\<close>

theorem captured_manifest_detects:
  assumes "capture_manifest t v protected contract data_sha manifest_sha minimum = Inr m"
  shows "(\<exists>r. verify_manifest t m v' = Inr r \<and> mv_valid r) \<longleftrightarrow>
    snapshots_of t v' (pm_protected_paths m) = snapshots_of t v (pm_protected_paths m)
    \<and> bind_res (snapshots_of t v' (pm_contract_paths m)) (\<lambda>ss. Inr (hash_snapshots t ss)) = Inr (pm_contract_sha256 m)"
proof -
  note captured = capture_manifestD [OF assms]
  have "snapshots_of t v (pm_protected_paths m) = Inr (pm_snapshots m)"
    using captured(2,4) by (simp add: sealed_def)
  then show ?thesis
    using verify_manifest_valid [OF captured(1,3)] captured(4)
    by (auto simp: sealed_def raise_simps split: sum.splits)
qed

text \<open>
  C28: An acceptance receipt that was written verifies afterwards for the identity, the reference and the
  identifier it was issued with.  What verification returns is the sealed payload as a dictionary: the file
  holds it with sorted keys, and reading it back gives the same entry for every key.
\<close>

theorem issued_receipt_verifies:
  assumes "write_receipt st fs q checks stamp = (fs', Inr w)"
    and "rt_loads st (receipt_bytes (receipt_payload q checks stamp))
      = Some (sorted_json (PyDict (receipt_payload q checks stamp)))"
    and "\<forall>p \<in> set (path_chain (wr_relative_path w)). p \<notin> set (fs_links fs)"
  shows "\<exists>d. verify_receipt st fs' (wr_artifact_ref w) q (wr_receipt_id w) = Inr d
    \<and> (\<forall>k. dget d k = map_option sorted_json (dget (receipt_payload q checks stamp) k))"
  using receipt_roundtrip [OF assms] dget_sorted by blast

section \<open>Resolved commands\<close>

lemma registered_entries:
  "fold_res (\<lambda>d c. guarded (err c) (dget d (cc_command_id c) = None) (Inr (dset (cc_command_id c) c d))) d0 cs = Inr d
    \<Longrightarrow> dget d i = Some cap \<Longrightarrow> dget d0 i = Some cap \<or> cap \<in> set cs \<and> cc_command_id cap = i"
proof (induction cs arbitrary: d0)
  case (Cons a cs)
  from Cons.prems(1) have "fold_res (\<lambda>d c. guarded (err c) (dget d (cc_command_id c) = None)
      (Inr (dset (cc_command_id c) c d))) (dset (cc_command_id a) a d0) cs = Inr d"
    by (simp add: raise_simps)
  from Cons.IH [OF this Cons.prems(2)] show ?case by (cases "i = cc_command_id a") auto
qed simp

lemma make_command_policy_entries:
  assumes "make_command_policy caps = Inr pol" and "dget pol i = Some cap"
  shows "cap \<in> set caps \<and> cc_command_id cap = i"
proof -
  have "fold_res (\<lambda>d c. guarded (ValueError (''duplicate command id: '' @ cc_command_id c))
      (dget d (cc_command_id c) = None) (Inr (dset (cc_command_id c) c d))) [] caps = Inr pol"
    using assms(1) unfolding make_command_policy_def raise_simps by blast
  from registered_entries [OF this assms(2)] show ?thesis by simp
qed

lemma proper_arguments:
  "list_all proper_argument vs \<Longrightarrow> \<exists>ss. vs = map PyStr ss \<and> list_all (\<lambda>s. CHR 0x00 \<notin> set s) ss"
proof (induction vs)
  case (Cons v vs)
  then obtain ss where "vs = map PyStr ss" "list_all (\<lambda>s. CHR 0x00 \<notin> set s) ss" by auto
  moreover from Cons.prems obtain s where "v = PyStr s" "CHR 0x00 \<notin> set s" by (cases v) auto
  ultimately show ?case by (intro exI [of _ "s # ss"]) simp
qed simp

lemma reviewed_executable:
  "make_command_capability i p n = Inr cap \<Longrightarrow> cc_argv_prefix cap \<noteq> []
     \<and> path_name (hd (cc_argv_prefix cap)) \<notin> set SHELL_EXECUTABLES"
  by (auto simp: make_command_capability_def raise_simps)

text \<open>
  C36: A resolved command in which the command policy finds nothing is safe to start: its executable and
  first arguments are those of a reviewed capability of its identifier and the executable is no shell;
  every argument is a string without a NUL character, no shell interprets them, the network is on only
  where the capability allows it, the directory is explicit, and the environment is a mapping of names
  that do not look like credentials to texts without a credential.
\<close>

theorem validated_command_sound:
  assumes "validate_resolved pol c = []" and "make_command_policy caps = Inr pol"
    and "\<forall>cap \<in> set caps. \<exists>i p n. make_command_capability i p n = Inr cap"
  shows "\<exists>cap argv env. cap \<in> set caps \<and> cc_command_id cap = rc_command_id c
    \<and> rc_argv c = PyList (map PyStr argv) \<and> take (length (cc_argv_prefix cap)) argv = cc_argv_prefix cap
    \<and> argv \<noteq> [] \<and> path_name (hd argv) \<notin> set SHELL_EXECUTABLES \<and> list_all (\<lambda>s. CHR 0x00 \<notin> set s) argv
    \<and> \<not> rc_shell c \<and> (rc_network_enabled c \<longrightarrow> cc_network_allowed cap)
    \<and> valid_directory (rc_working_directory c) \<and> rc_environment c = PyDict env
    \<and> (\<forall>(k, v) \<in> set env. \<exists>s. v = PyStr s \<and> \<not> re_found SENSITIVE_ENV_NAME k
        \<and> inspect_secrets s ''<resolved-environment>'' = [])"
proof -
  obtain vs cap env where vs: "rc_argv c = PyList vs" and cap: "dget pol (rc_command_id c) = Some cap"
    and prefix: "take (length (cc_argv_prefix cap)) vs = map PyStr (cc_argv_prefix cap)"
    and rest: "rc_network_enabled c \<longrightarrow> cc_network_allowed cap" "\<not> rc_shell c"
      "rc_environment c = PyDict env" "environment_findings env = []" "valid_directory (rc_working_directory c)"
    using resolved_clean [OF assms(1)] by blast
  have "vs \<noteq> []" "list_all proper_argument vs"
    using assms(1) vs by (auto simp: validate_resolved_def argument_findings_def list_all_iff list_ex_iff split: if_splits)
  then obtain argv where argv: "vs = map PyStr argv" "list_all (\<lambda>s. CHR 0x00 \<notin> set s) argv" "argv \<noteq> []"
    using proper_arguments by blast
  note entry = make_command_policy_entries [OF assms(2) cap]
  then have reviewed: "cc_argv_prefix cap \<noteq> []" "path_name (hd (cc_argv_prefix cap)) \<notin> set SHELL_EXECUTABLES"
    using assms(3) reviewed_executable by blast+
  have "map PyStr (take (length (cc_argv_prefix cap)) argv) = map PyStr (cc_argv_prefix cap)"
    using prefix argv(1) by (simp add: take_map)
  then have same: "take (length (cc_argv_prefix cap)) argv = cc_argv_prefix cap"
    by (rule map_injective) (simp add: inj_def)
  then have "hd argv = hd (cc_argv_prefix cap)" using reviewed(1) by (metis hd_take length_greater_0_conv)
  with entry vs argv same reviewed rest environment_clean [OF rest(4)] show ?thesis
    by (intro exI [of _ cap] exI [of _ argv] exI [of _ env]) auto
qed

text \<open>
  A changed file with a backslash in its name (git quotes the bytes of a name that is not ASCII that way)
  is a finding that the shared schema refuses, so the gate raises where it means to reject.
\<close>

lemma backslash_path_unreportable:
  "bind_res (inspect_one pol fs (''src/'' @ [CHR 0x5C] @ ''303'')) (collected shared_violation)
     = Inl (ValidationError ''Violation'')"
proof -
  let ?raw = "''src/'' @ [CHR 0x5C] @ ''303''"
  have bad: "\<not> returns (normalize_policy_path ?raw)" by code_simp
  have refused: "collected shared_violation [path_finding V_PATH_TRAVERSAL ''path_escape''
      ''changed path is absolute, non-canonical, or contains traversal'' (Some ?raw)]
    = Inl (ValidationError ''Violation'')"
    by code_simp
  show ?thesis
  proof (cases "normalize_policy_path ?raw")
    case (Inl e)
    show ?thesis unfolding inspect_one_def Inl sum.case bind_res_simps by (rule refused)
  next
    case (Inr p)
    show ?thesis using bad unfolding Inr by simp
  qed
qed

text \<open>A small repository, its gate and a candidate, for the witnesses.\<close>

abbreviation demo_patch :: string where "demo_patch \<equiv> replicate 40 CHR ''a''"

abbreviation demo_base :: string where "demo_base \<equiv> replicate 40 CHR ''b''"

definition demo_diff :: string where
  "demo_diff = ''diff --git a/e/f b/e/f'' @ [CHR 0x0A] @ ''old mode 100644'' @ [CHR 0x0A] @ ''new mode 100755''"

fun demo_git :: "string list \<Rightarrow> string" where
  "demo_git (command # option # rest) =
     (if command = ''rev-parse'' then
        (if option = ''--show-toplevel'' then ''/r'' else if rest = [''HEAD^{commit}''] then demo_patch
         else takeWhile (\<lambda>c. c \<noteq> CHR ''^'') (hd rest))
      else if command = ''rev-list'' then demo_patch @ '' '' @ demo_base
      else if command = ''diff'' then (if option = ''--binary'' then demo_diff else ''e/f'' @ [CHR 0x00])
      else [])"
| "demo_git _ = []"

definition demo_view :: repository_view where
  "demo_view = \<lparr>rv_root = ''/r'', rv_git = (\<lambda>dir args. \<lparr>gr_code = 0, gr_out = demo_git args\<rparr>),
     rv_files = \<lparr>fs_bytes = [(''e/f'', [])], fs_dirs = [''e''], fs_links = []\<rparr>, rv_resolve = Inr\<rparr>"

definition demo_tools :: byte_tools where
  "demo_tools = \<lparr>bt_sha = (\<lambda>_. ZERO_SHA256), bt_decode = Some\<rparr>"

definition demo_manifest :: protected_manifest where
  "demo_manifest = \<lparr>pm_protected_paths = [''p''], pm_snapshots = [make_snapshot ''p'' ''missing'' ZERO_SHA256 0],
     pm_manifest_sha256 = ZERO_SHA256, pm_contract_paths = [''p''], pm_contract_sha256 = ZERO_SHA256,
     pm_data_manifest_sha256 = ZERO_SHA256, pm_protected_content_sha256 = ZERO_SHA256\<rparr>"

definition demo_gate :: patch_gate where
  "demo_gate = \<lparr>pg_tools = demo_tools, pg_manifest = demo_manifest,
     pg_receipts = \<lparr>rt_artifact_root = ''a'', rt_include_run_id = True, rt_max_receipt_bytes = 10000,
       rt_sha = (\<lambda>_. ZERO_SHA256), rt_loads = (\<lambda>_. None)\<rparr>,
     pg_paths = \<lparr>pp_editable_roots = [''e''], pp_protected_paths = [''p'']\<rparr>,
     pg_data = \<lparr>da_views = [], da_protected_columns = [], da_hidden_path_tokens = [],
       da_future_column_patterns = [], da_approved_future_columns = []\<rparr>,
     pg_command_ids = [''candidate_full''], pg_parse = (\<lambda>_. Inl None), pg_find_spec = (\<lambda>_. False),
     pg_requirements = [], pg_import_roots = None, pg_capability_imports = [], pg_dependency_changes = [],
     pg_artifact_roots = [''a''], pg_max_diff_bytes = 1000, pg_smoke = None\<rparr>"

definition demo_artifact :: "artifact_kind \<Rightarrow> string \<Rightarrow> int \<Rightarrow> artifact_ref" where
  "demo_artifact kind path n = \<lparr>art_artifact_id = ''d'', art_kind = kind, art_path = path,
     art_sha256 = ZERO_SHA256, art_size_bytes = n, art_content_type = None\<rparr>"

definition demo_candidate :: patch_candidate where
  "demo_candidate = \<lparr>pc_run_id = ''r'', pc_experiment_id = ''x'', pc_attempt = 1,
     pc_experiment_spec_event_id = ''evt_000001'', pc_context_id = ''k'', pc_base_commit_sha = demo_base,
     pc_patch_commit_sha = demo_patch, pc_diff_sha256 = ZERO_SHA256, pc_changed_files = [''e/f''],
     pc_diff_artifact = demo_artifact Artifact_DIFF ''a/r/x/attempt_1/patch.diff'' (int (length demo_diff)),
     pc_trajectory_artifact = demo_artifact Artifact_TRAJECTORY ''a/t'' 1, pc_trae_version = ''1'',
     pc_model_id = ''m'', pc_steps_used = 1, pc_resource_delta = zero_delta\<rparr>"

definition demo_artifacts :: file_system where
  "demo_artifacts = \<lparr>fs_bytes = [(''a/r/x/attempt_1/patch.diff'', demo_diff)],
     fs_dirs = [''a'', ''a/r'', ''a/r/x'', ''a/r/x/attempt_1''], fs_links = []\<rparr>"

definition demo_request :: gate_request where
  "demo_request = \<lparr>gq_contract_sha256 = None, gq_protected_manifest_sha256 = None,
     gq_data_manifest_sha256 = None, gq_experiment_root_commit_sha = Some demo_base,
     gq_authorized_changed_files = Some [''e/f'']\<rparr>"

section \<open>Text without credentials\<close>

text \<open>Three characters that some pattern of credentials can start with.\<close>

definition secret_head :: "char \<Rightarrow> char \<Rightarrow> char \<Rightarrow> bool" where
  "secret_head c d e \<longleftrightarrow> [c, d, e] \<in> set [''---'', ''AKI'']
     \<or> [c, d] \<in> set [''gh'', ''sk''] \<or> py_lower [c, d] \<in> set [''be'', ''ap'', ''ac'', ''se'', ''pa'']"

fun no_secret_head :: "string \<Rightarrow> bool" where
  "no_secret_head (c # d # e # s) \<longleftrightarrow> \<not> secret_head c d e \<and> no_secret_head (d # e # s)"
| "no_secret_head _ \<longleftrightarrow> True"

definition heads_with :: "re \<Rightarrow> bool" where
  "heads_with r \<longleftrightarrow> (\<forall>st. re_match r st \<noteq> [] \<longrightarrow>
     (\<exists>c d e s. re_rest st = c # d # e # s \<and> secret_head c d e))"

lemma re_match_char:
  "re_match (Seq (Chars P) r) st \<noteq> [] \<Longrightarrow>
     \<exists>c s. re_rest st = c # s \<and> P c \<and> re_match r (st\<lparr>re_prev := Some c, re_rest := s\<rparr>) \<noteq> []"
  by (cases "re_rest st") (auto split: if_splits)

lemma re_match_three:
  assumes "re_match (Seq (Chars P) (Seq (Chars Q) (Seq (Chars R) r))) st \<noteq> []"
  shows "\<exists>c d e s. re_rest st = c # d # e # s \<and> P c \<and> Q d \<and> R e"
proof -
  obtain c s where c: "re_rest st = c # s" "P c"
    "re_match (Seq (Chars Q) (Seq (Chars R) r)) (st\<lparr>re_prev := Some c, re_rest := s\<rparr>) \<noteq> []"
    using re_match_char [OF assms] by blast
  obtain d t where d: "s = d # t" "Q d"
    "re_match (Seq (Chars R) r) (st\<lparr>re_prev := Some d, re_rest := t\<rparr>) \<noteq> []"
    using re_match_char [OF c(3)] by auto
  obtain e u where "t = e # u" "R e" using re_match_char [OF d(3)] by auto
  with c d show ?thesis by blast
qed

lemma heads_with_three:
  "(\<And>c d e. P c \<Longrightarrow> Q d \<Longrightarrow> R e \<Longrightarrow> secret_head c d e) \<Longrightarrow> heads_with (Seq (Chars P) (Seq (Chars Q) (Seq (Chars R) r)))"
  unfolding heads_with_def using re_match_three by metis

lemma heads_with_Seq: "heads_with a \<Longrightarrow> heads_with (Seq a b)"
  unfolding heads_with_def by (metis concat.simps(1) list.simps(8) re_match.simps(3))

lemma heads_with_edge: "heads_with r \<Longrightarrow> heads_with (Seq Word_edge r)"
  unfolding heads_with_def by (auto split: if_splits)

lemma heads_with_Alt: "heads_with a \<Longrightarrow> heads_with b \<Longrightarrow> heads_with (Alt a b)"
  unfolding heads_with_def by auto

lemma heads_with_lit: "secret_head a b c \<Longrightarrow> heads_with (lit (a # b # c # s))"
  unfolding lit.simps by (rule heads_with_three) simp

lemma heads_with_nocase:
  "(\<And>d e f. lower_char d = lower_char a \<Longrightarrow> lower_char e = lower_char b \<Longrightarrow> lower_char f = lower_char c
     \<Longrightarrow> secret_head d e f) \<Longrightarrow> heads_with (lit_nocase (a # b # c # s))"
  unfolding lit_nocase.simps by (rule heads_with_three)

lemma lower_letters: "lower_char CHR ''B'' = CHR ''b''" "lower_char CHR ''e'' = CHR ''e''"
  "lower_char CHR ''a'' = CHR ''a''" "lower_char CHR ''p'' = CHR ''p''" "lower_char CHR ''c'' = CHR ''c''"
  "lower_char CHR ''s'' = CHR ''s''"
  by code_simp+

lemma heads_with_gh: "heads_with (Seq (lit ''gh'') (Seq (one_of cs) r))"
proof -
  have "re_match (Seq (lit ''gh'') (Seq (one_of cs) r)) =
      re_match (Seq (Chars (\<lambda>d. d = CHR ''g'')) (Seq (Chars (\<lambda>d. d = CHR ''h'')) (Seq (Chars (\<lambda>c. c \<in> set cs)) r)))"
    by (rule ext) (simp add: one_of_def split: list.splits)
  moreover have "heads_with (Seq (Chars (\<lambda>d. d = CHR ''g''))
      (Seq (Chars (\<lambda>d. d = CHR ''h'')) (Seq (Chars (\<lambda>c. c \<in> set cs)) r)))"
    by (rule heads_with_three) (simp add: secret_head_def)
  ultimately show ?thesis unfolding heads_with_def by simp
qed

lemma secret_patterns_heads: "r \<in> set SECRET_PATTERNS \<Longrightarrow> heads_with r"
  unfolding SECRET_PATTERNS_def list.set
  apply (elim insertE emptyE)
  apply (simp_all only: Regex.seq.simps alts.simps)
  apply (intro heads_with_edge heads_with_Alt heads_with_gh heads_with_Seq heads_with_lit heads_with_nocase;
    simp add: secret_head_def py_lower_def lower_letters)+
  done

lemma no_head_no_match:
  assumes "heads_with r" and "no_secret_head s" shows "match_at r prev s = None"
proof -
  have "re_match r \<lparr>re_prev = prev, re_rest = s, re_groups = []\<rparr> = []"
  proof (rule ccontr)
    assume "re_match r \<lparr>re_prev = prev, re_rest = s, re_groups = []\<rparr> \<noteq> []"
    then have "\<exists>c d e t. s = c # d # e # t \<and> secret_head c d e"
      using assms(1) unfolding heads_with_def by (metis re_state.select_convs(2))
    with assms(2) show False by auto
  qed
  then show ?thesis by (simp add: match_at_def)
qed

lemma no_secret_head_tl: "no_secret_head (c # s) \<Longrightarrow> no_secret_head s"
  by (cases "c # s" rule: no_secret_head.cases) auto

lemma search_heads: "heads_with r \<Longrightarrow> no_secret_head s \<Longrightarrow> search_from r prev s = None"
proof (induction s arbitrary: prev)
  case Nil
  then show ?case by (subst search_from.simps) (simp add: no_head_no_match)
next
  case (Cons c s)
  then have "match_at r prev (c # s) = None" "search_from r (Some c) s = None"
    using no_head_no_match no_secret_head_tl by blast+
  then show ?case by (subst search_from.simps) simp
qed

lemma enumerate_mem: "(n, x) \<in> set (enumerate k xs) \<Longrightarrow> x \<in> set xs"
  by (auto simp: enumerate_eq_zip dest: set_zip_rightD)

lemma no_secrets:
  assumes "list_all no_secret_head (py_splitlines s)" shows "inspect_secrets s p = []"
proof -
  have "\<not> re_found r line" if "r \<in> set SECRET_PATTERNS" "line \<in> set (py_splitlines s)" for r line
    using assms that search_heads [OF secret_patterns_heads] by (auto simp: re_found_def re_search_def list_all_iff)
  then show ?thesis
    by (auto simp: inspect_secrets_def list_ex_iff dest: enumerate_mem)
qed

section \<open>The witness\<close>

definition demo_state :: verified_git_state where
  "demo_state = \<lparr>vg_base_commit_sha = demo_base, vg_patch_commit_sha = demo_patch,
     vg_experiment_root_commit_sha = demo_base, vg_immediate_diff = demo_diff,
     vg_immediate_changed_files = [''e/f''], vg_cumulative_diff = demo_diff,
     vg_cumulative_changes = [\<lparr>cp_old_path = Some ''e/f'', cp_new_path = Some ''e/f'', cp_status = ''modified'',
       cp_old_mode = Some ''100644'', cp_new_mode = Some ''100755''\<rparr>]\<rparr>"

lemma demo_verified: "verify_git_state demo_gate demo_view demo_candidate (Some demo_base) = Inr demo_state"
  by code_simp

lemma demo_loaded: "load_diff_artifact demo_gate demo_artifacts demo_candidate = Inr demo_diff"
  by code_simp

lemma demo_no_secret: "diff_secret_findings demo_gate demo_diff = []"
proof -
  have "list_all no_secret_head (py_splitlines demo_diff)" by code_simp
  then show ?thesis by (simp add: diff_secret_findings_def demo_gate_def demo_tools_def no_secrets)
qed

lemma demo_matches: "diff_matches demo_gate demo_candidate (Inr demo_state) (Inr demo_diff) (parse_diff_bytes demo_gate demo_diff)"
  by code_simp

lemma demo_parsed: "returns (parse_diff_bytes demo_gate demo_diff)"
  by code_simp

lemma demo_paths: "inspect_paths (pg_paths demo_gate) (rv_files demo_view) (vg_cumulative_changes demo_state) = Inr []"
  by code_simp

lemma demo_contract:
  "contract_findings demo_gate demo_request (verify_manifest (pg_tools demo_gate) (pg_manifest demo_gate) demo_view) = []"
  by code_simp

lemma demo_sources:
  "source_findings demo_gate demo_view (vg_cumulative_changes demo_state) (Some demo_patch) = []"
  by code_simp

lemma demo_files:
  "parsed_changed_files (vg_cumulative_changes demo_state) = [''e/f'']"
  "authorization_findings demo_request [''e/f''] = []"
  "inspect_dependency_changes [''e/f''] (pg_dependency_changes demo_gate) = []"
  by code_simp+

lemma demo_request_root: "gq_experiment_root_commit_sha demo_request = Some demo_base"
  by (simp add: demo_request_def)

lemma demo_static: "static_findings demo_gate demo_view demo_artifacts demo_candidate demo_request = Inr []"
proof -
  have patch: "vg_patch_commit_sha demo_state = demo_patch" by (simp only: demo_state_def verified_git_state.select_convs)
  have "\<exists>cs. parse_diff_bytes demo_gate demo_diff = Inr cs" using demo_parsed by (blast elim: returnsE)
  then have "parse_findings (parse_diff_bytes demo_gate demo_diff) = []" by (auto simp: parse_findings_def)
  then show ?thesis
    unfolding static_findings_def Let_def demo_request_root demo_verified demo_loaded sum.case demo_paths
      bind_res_simps demo_contract patch demo_sources demo_no_secret demo_files
    by (simp add: git_findings_def artifact_findings_def demo_matches)
qed

lemma demo_final: "final_findings demo_gate demo_view demo_candidate (Inr demo_state) = []"
proof -
  have "vg_experiment_root_commit_sha demo_state = demo_base"
    by (simp only: demo_state_def verified_git_state.select_convs)
  moreover have "case verify_manifest (pg_tools demo_gate) (pg_manifest demo_gate) demo_view of
      Inl _ \<Rightarrow> False | Inr m \<Rightarrow> mv_valid m"
    by code_simp
  ultimately have "unchanged_state demo_gate demo_view demo_candidate demo_state = Inr ()"
    unfolding unchanged_state_def by (auto simp: demo_verified split: sum.splits)
  then show ?thesis by (simp add: final_findings_def)
qed

definition demo_checks :: "check_record list" where
  "demo_checks = build_check_records [] (check_overrides demo_gate True True)"

definition demo_identity :: receipt_identity where
  "demo_identity = gate_identity demo_gate demo_candidate demo_request (Some demo_state) ZERO_SHA256"

lemma demo_issued: "case snd (issue_receipt demo_gate demo_artifacts demo_identity demo_checks ''t'') of
    Inl _ \<Rightarrow> False
  | Inr w \<Rightarrow> returns (gate_result demo_candidate ZERO_SHA256 [] demo_checks (Some w))"
  by code_simp

lemma demo_accepted:
  obtains afs r
  where "check_sync demo_gate demo_view demo_view demo_artifacts demo_candidate demo_request ''t'' = (afs, Inr r)"
    and "pk_accepted r"
proof -
  obtain afs w r where issued: "issue_receipt demo_gate demo_artifacts demo_identity demo_checks ''t'' = (afs, Inr w)"
    and r: "gate_result demo_candidate ZERO_SHA256 [] demo_checks (Some w) = Inr r"
    using demo_issued
    by (cases "issue_receipt demo_gate demo_artifacts demo_identity demo_checks ''t''") (auto split: sum.splits elim: returnsE)
  have smoke: "pg_smoke demo_gate = None" by (simp add: demo_gate_def)
  have sha: "bt_sha (pg_tools demo_gate) x = ZERO_SHA256" for x by (simp add: demo_gate_def demo_tools_def)
  have "list_all (\<lambda>k. cx_status k \<noteq> ''fail'') demo_checks" by code_simp
  then have "check_sync demo_gate demo_view demo_view demo_artifacts demo_candidate demo_request ''t'' = (afs, Inr r)"
    using issued r unfolding check_sync_def demo_static demo_request_root demo_verified demo_loaded sum.case Let_def
      demo_final smoke_findings_def smoke option.case sha demo_checks_def demo_identity_def
    by (simp add: demo_parsed demo_final)
  moreover have "pk_accepted r" using r by (auto simp: gate_result_def Let_def raise_simps)
  ultimately show thesis by (rule that)
qed

text \<open>The patch of the sample repository is accepted, and its file is contained.\<close>

theorem accepted_patch_sound_witness:
  "\<exists>s m. verify_git_state demo_gate demo_view demo_candidate (Some demo_base) = Inr s
    \<and> vg_patch_commit_sha s = demo_patch
    \<and> verify_manifest (pg_tools demo_gate) (pg_manifest demo_gate) demo_view = Inr m \<and> mv_valid m"
proof -
  obtain afs r where "check_sync demo_gate demo_view demo_view demo_artifacts demo_candidate demo_request ''t'' = (afs, Inr r)"
    "pk_accepted r"
    by (rule demo_accepted)
  from accepted_patch_sound [OF this] show ?thesis
    unfolding demo_request_root by (auto simp: demo_candidate_def)
qed

text \<open>A manifest of the sample repository notices a protected file that was not there before.\<close>

definition changed_view :: repository_view where
  "changed_view = demo_view\<lparr>rv_files := \<lparr>fs_bytes = [(''p'', ''x'')], fs_dirs = [], fs_links = []\<rparr>\<rparr>"

lemma result_caseD: "(case r of Inl _ \<Rightarrow> False | Inr x \<Rightarrow> P x) \<Longrightarrow> \<exists>x. r = Inr x \<and> P x"
  by (cases r) simp_all

lemma demo_captured:
  "case capture_manifest demo_tools demo_view [''p''] [''c''] ZERO_SHA256 None False of
     Inl _ \<Rightarrow> False
   | Inr m \<Rightarrow> pm_protected_paths m = [''p''] \<and> pm_contract_paths m = [''c''] \<and> pm_contract_sha256 m = ZERO_SHA256"
  by code_simp

lemma demo_contract_hash:
  "bind_res (snapshots_of demo_tools demo_view [''c'']) (\<lambda>ss. Inr (hash_snapshots demo_tools ss)) = Inr ZERO_SHA256"
  by code_simp

lemma changed_snapshots:
  "(case snapshots_of demo_tools changed_view [''p''] of Inl _ \<Rightarrow> None | Inr ss \<Rightarrow> Some (map sn_kind ss)) = Some [''file'']"
  "(case snapshots_of demo_tools demo_view [''p''] of Inl _ \<Rightarrow> None | Inr ss \<Rightarrow> Some (map sn_kind ss)) = Some [''missing'']"
  by code_simp+

theorem captured_manifest_detects_witness:
  "\<exists>m. capture_manifest demo_tools demo_view [''p''] [''c''] ZERO_SHA256 None False = Inr m
    \<and> (\<exists>r. verify_manifest demo_tools m demo_view = Inr r \<and> mv_valid r)
    \<and> \<not> (\<exists>r. verify_manifest demo_tools m changed_view = Inr r \<and> mv_valid r)"
proof -
  obtain m where m: "capture_manifest demo_tools demo_view [''p''] [''c''] ZERO_SHA256 None False = Inr m"
    and parts: "pm_protected_paths m = [''p'']" "pm_contract_paths m = [''c'']" "pm_contract_sha256 m = ZERO_SHA256"
    using result_caseD [OF demo_captured] by blast
  have "snapshots_of demo_tools changed_view [''p''] \<noteq> snapshots_of demo_tools demo_view [''p'']"
  proof
    assume same: "snapshots_of demo_tools changed_view [''p''] = snapshots_of demo_tools demo_view [''p'']"
    show False using changed_snapshots unfolding same by simp
  qed
  then show ?thesis
    using m demo_contract_hash captured_manifest_detects [OF m] unfolding parts by blast
qed

text \<open>
  A reader of the JSON that receipts are written in, for the witness: strings without escapes,
  natural numbers, lists and objects without white space; the number bounds the nesting and length.
\<close>

fun read_string :: "string \<Rightarrow> (string \<times> string) option" where
  "read_string [] = None"
| "read_string (c # s) = (if c = CHR 0x22 then Some ([], s) else if c = CHR 0x5C then None
     else map_option (\<lambda>(t, rest). (c # t, rest)) (read_string s))"

definition read_number :: "string \<Rightarrow> (pyval \<times> string) option" where
  "read_number s = (let d = takeWhile is_digit s in if d = [] then None
     else Some (PyInt (foldl (\<lambda>n c. 10 * n + (of_char c - 48)) 0 d), dropWhile is_digit s))"

fun read_json :: "nat \<Rightarrow> string \<Rightarrow> (pyval \<times> string) option"
  and read_items :: "nat \<Rightarrow> string \<Rightarrow> (pyval list \<times> string) option"
  and read_members :: "nat \<Rightarrow> string \<Rightarrow> ((string, pyval) dict \<times> string) option" where
  "read_json 0 s = None"
| "read_json (Suc n) s = (case s of
     [] \<Rightarrow> None
   | c # rest \<Rightarrow>
       if c = CHR 0x22 then map_option (\<lambda>(t, q). (PyStr t, q)) (read_string rest)
       else if c = CHR ''['' then map_option (\<lambda>(vs, q). (PyList vs, q)) (read_items n rest)
       else if c = CHR ''{'' then map_option (\<lambda>(d, q). (PyDict d, q)) (read_members n rest)
       else read_number s)"
| "read_items 0 s = None"
| "read_items (Suc n) s = (case read_json n s of
     Some (v, CHR '','' # q) \<Rightarrow> map_option (\<lambda>(vs, r). (v # vs, r)) (read_items n q)
   | Some (v, CHR '']'' # q) \<Rightarrow> Some ([v], q)
   | _ \<Rightarrow> None)"
| "read_members 0 s = None"
| "read_members (Suc n) s = (case s of
     CHR 0x22 # s' \<Rightarrow> (case read_string s' of
         Some (k, CHR '':'' # t) \<Rightarrow> (case read_json n t of
             Some (v, CHR '','' # q) \<Rightarrow> map_option (\<lambda>(d, r). ((k, v) # d, r)) (read_members n q)
           | Some (v, CHR ''}'' # q) \<Rightarrow> Some ([(k, v)], q)
           | _ \<Rightarrow> None)
       | _ \<Rightarrow> None)
   | _ \<Rightarrow> None)"

definition read_receipt :: "string \<Rightarrow> pyval option" where
  "read_receipt s = (case read_json 40 s of Some (v, q) \<Rightarrow> if q = [newline] then Some v else None | None \<Rightarrow> None)"

definition demo_item :: receipt_item where
  "demo_item = [(''name'', PyStr ''patch''), (''status'', PyStr ''pass''), (''summary'', PyStr ''ok'')]"

definition demo_owner :: receipt_identity where
  "demo_owner = \<lparr>id_run_id = ''r'', id_experiment_id = ''x'', id_attempt = 12, id_patch_commit_sha = demo_patch,
     id_diff_sha256 = ZERO_SHA256, id_contract_sha256 = ZERO_SHA256, id_protected_manifest_sha256 = ZERO_SHA256,
     id_data_manifest_sha256 = ZERO_SHA256, id_experiment_root_commit_sha = None, id_cumulative_diff_sha256 = None\<rparr>"

definition demo_store :: receipt_store where
  "demo_store = \<lparr>rt_artifact_root = ''a'', rt_include_run_id = True, rt_max_receipt_bytes = 10000,
     rt_sha = (\<lambda>_. ZERO_SHA256), rt_loads = read_receipt\<rparr>"

lemma demo_read: "read_receipt (receipt_bytes (receipt_payload demo_owner [demo_item] ''t''))
    = Some (sorted_json (PyDict (receipt_payload demo_owner [demo_item] ''t'')))"
  by code_simp

lemma demo_written: "returns (snd (write_receipt demo_store demo_artifacts demo_owner [demo_item] ''t''))"
  by code_simp

theorem issued_receipt_verifies_witness:
  "\<exists>fs w d. write_receipt demo_store demo_artifacts demo_owner [demo_item] ''t'' = (fs, Inr w)
    \<and> verify_receipt demo_store fs (wr_artifact_ref w) demo_owner (wr_receipt_id w) = Inr d
    \<and> dget d ''run_id'' = Some (PyStr ''r'')"
proof -
  obtain fs w where w: "write_receipt demo_store demo_artifacts demo_owner [demo_item] ''t'' = (fs, Inr w)"
    using returnsE [OF demo_written] by (metis prod.collapse)
  have loads: "rt_loads demo_store (receipt_bytes (receipt_payload demo_owner [demo_item] ''t''))
      = Some (sorted_json (PyDict (receipt_payload demo_owner [demo_item] ''t'')))"
    using demo_read by (simp add: demo_store_def)
  have links: "\<forall>p \<in> set (path_chain (wr_relative_path w)). p \<notin> set (fs_links demo_artifacts)"
    by (simp add: demo_artifacts_def)
  have "dget (receipt_payload demo_owner [demo_item] ''t'') ''run_id'' = Some (PyStr ''r'')"
    by (simp add: receipt_payload_def identity_payload_def demo_owner_def)
  with w issued_receipt_verifies [OF w loads links] show ?thesis by fastforce
qed

text \<open>A command of the registry with its arguments and a small environment.\<close>

definition demo_capability :: command_capability where
  "demo_capability = \<lparr>cc_command_id = ''train'', cc_argv_prefix = [''python'', ''main.py''], cc_network_allowed = False\<rparr>"

definition demo_command :: resolved_command where
  "demo_command = \<lparr>rc_command_id = ''train'', rc_argv = PyList [PyStr ''python'', PyStr ''main.py'', PyStr ''7''],
     rc_shell = False, rc_network_enabled = False, rc_environment = PyDict [(''A'', PyStr ''1'')],
     rc_working_directory = Dir_path ''/r''\<rparr>"

lemma demo_command_clean: "validate_resolved [(''train'', demo_capability)] demo_command = []"
  by code_simp

lemma demo_registry: "make_command_policy [demo_capability] = Inr [(''train'', demo_capability)]"
  by (simp add: make_command_policy_def demo_capability_def)

theorem validated_command_sound_witness:
  "\<exists>argv. rc_argv demo_command = PyList (map PyStr argv) \<and> hd argv = ''python''
    \<and> path_name (hd argv) \<notin> set SHELL_EXECUTABLES"
proof -
  have "make_command_capability ''train'' [''python'', ''main.py''] False = Inr demo_capability"
    by code_simp
  then have "\<forall>cap \<in> set [demo_capability]. \<exists>i p n. make_command_capability i p n = Inr cap" by auto
  from validated_command_sound [OF demo_command_clean demo_registry this] show ?thesis
    by (intro exI [of _ "[''python'', ''main.py'', ''7'']"]) (auto simp: demo_command_def map_eq_Cons_conv)
qed

end
