(* ===== verification/Spec2Isabelle.thy ===== *)
theory Spec2Isabelle
  imports Evidence_Properties Recovery_Properties Ledger_Properties Finalization_Properties
    Evaluation_Properties Artifacts Retrieval Metrics Duplicate_Properties Harness_Properties Telemetry
    Diagnostics Gate_Properties
begin

text \<open>
  A verification library for the event-sourced control plane of TacoRank, a program that lets
  agents propose, implement and evaluate ranking experiments while a deterministic orchestrator
  decides what is recorded.  File names below are relative to \<^verbatim>\<open>src/src/tacorank/\<close>.

  \<^bold>\<open>How the program works.\<close>  The run is an append-only ledger of typed events, one JSON line each, in
  a hash chain (\<^verbatim>\<open>memory/event_store.py\<close>).  The router (\<^verbatim>\<open>orchestrator/router.py\<close>) drives
  adapters (planner, coding worker, gates, runner, evaluator) and records what each returned.  Before an
  event is appended, \<^verbatim>\<open>orchestrator/state_machine.py\<close> validates it against the events before it;
  the state of the run is a fold of the reducer \<^verbatim>\<open>memory/projections.py\<close> over the ledger.  Stop
  rules (\<^verbatim>\<open>orchestrator/convergence.py\<close>), recovery decisions (\<^verbatim>\<open>recovery/\<close>), evaluation
  verdicts (\<^verbatim>\<open>evaluation/\<close>) and the finalization plan (\<^verbatim>\<open>orchestrator/finalize.py\<close>) are
  functions of ledger and state.

  \<^bold>\<open>Conventions.\<close>  A model of \<^verbatim>\<open>schemas.py\<close> is a record with the fields in the order of the source
  and a field prefix, together with a predicate \<open>valid_...\<close> that holds of exactly the values its field
  constraints and validators accept; enumerations and tagged unions are datatypes.  A raise is
  \<open>Inl\<close> of an exception, a result \<open>Inr\<close> (\<open>'a res\<close> of \<^verbatim>\<open>Prelude\<close>).  Strings are
  lists of bytes, dictionaries association lists in insertion order, Python's integers are unbounded, times
  are microseconds.  A float is the exact rational it denotes; \<^verbatim>\<open>Floats\<close> rounds every operation
  to binary64 (round to nearest, ties to even; overflow, infinities and NaN do not occur in the
  model because the schemas refuse them).

  \<^bold>\<open>Theories.\<close>
  \<^item> \<^verbatim>\<open>Prelude\<close>, \<^verbatim>\<open>Floats\<close>, \<^verbatim>\<open>Py_Text\<close>, \<^verbatim>\<open>Py_Numbers\<close>,
    \<^verbatim>\<open>Regex\<close>, \<^verbatim>\<open>Json\<close>: what the program uses of Python (errors, dictionaries, strings,
    \<^verbatim>\<open>re\<close> with its backtracking order, \<^verbatim>\<open>json.dumps\<close>, float arithmetic, \<^verbatim>\<open>sum\<close>,
    \<^verbatim>\<open>statistics\<close>), and the lemmas every component shares.
  \<^item> \<^verbatim>\<open>Identifiers\<close>, the \<^verbatim>\<open>Schemas\<close> theories and \<^verbatim>\<open>Events\<close>:
    \<^verbatim>\<open>schemas.py\<close>.  \<^verbatim>\<open>Accounting\<close>, \<^verbatim>\<open>Run_State\<close>,
    \<^verbatim>\<open>Convergence\<close>: \<^verbatim>\<open>accounting.py\<close>, \<^verbatim>\<open>orchestrator/state.py\<close>,
    \<^verbatim>\<open>orchestrator/convergence.py\<close>.
  \<^item> \<^verbatim>\<open>Projection\<close> (one function per event type) and \<^verbatim>\<open>Transitions\<close> (one check per
    event type, every guard in the order of the source): the reducer and the validator.
    \<^verbatim>\<open>Lifecycle\<close> to \<^verbatim>\<open>Lifecycle_Properties\<close> and \<^verbatim>\<open>Evidence_Invariants\<close>,
    \<^verbatim>\<open>Evidence_Properties\<close> hold the abstract lifecycle of an experiment, the invariants of legal
    ledgers and their consequences; \<^verbatim>\<open>Sample_Run\<close> is a legal ledger that the witnesses use.
  \<^item> \<^verbatim>\<open>Event_Store\<close>, \<^verbatim>\<open>Ledger_File\<close>, \<^verbatim>\<open>Store_Properties\<close>,
    \<^verbatim>\<open>Ledger_Properties\<close>: the ledger file as bytes, its tail repair
    after a crash, reading and appending, and how the router records.  The contract of a log is the locale
    \<open>event_log\<close>, interpreted on the store.
  \<^item> \<^verbatim>\<open>Retrieval\<close>, \<^verbatim>\<open>Finalization\<close>, \<^verbatim>\<open>Finalization_Properties\<close>,
    \<^verbatim>\<open>Artifacts\<close>: selections from the ledger, the finalization plan, the artifact store over a
    model of the file system.
  \<^item> \<^verbatim>\<open>Violation_Codes\<close>, \<^verbatim>\<open>Fingerprints\<close>, the \<^verbatim>\<open>Recovery\<close> theories and
    \<^verbatim>\<open>Runtime_Adjustments\<close>: \<^verbatim>\<open>recovery/\<close> and the router functions that build its input.
  \<^item> \<^verbatim>\<open>Evaluation_Domain\<close>, \<^verbatim>\<open>No_Op\<close>, \<^verbatim>\<open>Trust\<close>,
    \<^verbatim>\<open>Metrics\<close>, \<^verbatim>\<open>Diagnostics\<close>, \<^verbatim>\<open>Evaluation_Properties\<close>: \<^verbatim>\<open>evaluation/\<close>
    (comparisons, trust, stability, decisions, metrics, slices and diagnostics).
  \<^item> \<^verbatim>\<open>Graph_View\<close>, \<^verbatim>\<open>Search_Eligibility\<close>, \<^verbatim>\<open>LinUCB\<close>,
    \<^verbatim>\<open>Policy_Routes\<close>, \<^verbatim>\<open>Search_Policy\<close>, \<^verbatim>\<open>Plan_Validation\<close>,
    \<^verbatim>\<open>Research_Planner\<close>: \<^verbatim>\<open>research/\<close>, the normalization of
    \<^verbatim>\<open>providers/deepseek.py\<close> and \<^verbatim>\<open>agents/research_planner.py\<close>;
    \<^verbatim>\<open>Search_Facts\<close>, \<^verbatim>\<open>Search_Properties\<close>, \<^verbatim>\<open>Planner_Properties\<close> and
    \<^verbatim>\<open>Duplicate_Properties\<close> hold what they guarantee, \<^verbatim>\<open>Search_Samples\<close> and
    \<^verbatim>\<open>Planner_Samples\<close> the contexts of the witnesses.
  \<^item> \<^verbatim>\<open>Run_Configuration\<close>, \<^verbatim>\<open>Redaction\<close>: \<^verbatim>\<open>config.py\<close> with the verification of the
    frozen contract, and \<^verbatim>\<open>coding/redaction.py\<close>.
  \<^item> \<^verbatim>\<open>Harness_Core\<close>, \<^verbatim>\<open>Harness_Recovery\<close>, \<^verbatim>\<open>Harness_Lane\<close>,
    \<^verbatim>\<open>Harness_Run\<close>: the methods of \<^verbatim>\<open>orchestrator/router.py\<close> as programs over a world
    (ledger file, artifact files, the harness's own fields and an outside that only adapters see), with every
    adapter call a parameter that returns or raises.  \<^verbatim>\<open>Harness_Facts\<close> (what every program keeps:
    the locale \<open>world_relation\<close>, interpreted on the growth of the ledger), \<^verbatim>\<open>Harness_Reports\<close>
    (what is returned) and \<^verbatim>\<open>Harness_Properties\<close> (the bound on the loops, what escapes, the state
    that is returned) hold what they guarantee.
  \<^item> \<^verbatim>\<open>Telemetry\<close>: \<^verbatim>\<open>sre/\<close>, the window of samples, the detectors of anomalies and
    hangs, and the health policy that lets an attempt run or terminates it.
  \<^item> \<^verbatim>\<open>Safety_Paths\<close> (\<^verbatim>\<open>safety/path_policy.py\<close>,
    \<^verbatim>\<open>safety/data_access_policy.py\<close>), \<^verbatim>\<open>Git_State\<close> (\<^verbatim>\<open>git/refs.py\<close> and the
    diff parser of the gate), \<^verbatim>\<open>Command_Policy\<close>, \<^verbatim>\<open>Protected_Manifest\<close>,
    \<^verbatim>\<open>Receipts\<close>, \<^verbatim>\<open>Patch_Gate\<close>: Gate A, which inspects a patch before it may run.
    \<^verbatim>\<open>Gate_Properties\<close> holds what an accepted check guarantees and the sample repository of its
    witness.

  \<^bold>\<open>What the theorems show.\<close>  The evidence properties (C1 to C3, C6 to C8, C12, C40) say that in every ledger
  the validator let through the best candidate, the final selection and the evaluations rest on
  recorded evidence and that the public validation queries are counted without gaps; the gate property (C11) that Gate A accepts only the reported commit, diff and files,
  inside the editable roots, with a receipt on disk; the lifecycle properties (C4, C5, C9, C10, C13) that validator and reducer implement the
  abstract lifecycle, that the repairs, retries and confirmations in the ledger stay within the frozen
  budgets, and that the reducer never gets stuck; the recovery properties (C14 to C17) that the
  recovery policy answers every recoverable failure except a cancelled run, for which it raises, with a
  decision the validator accepts, and never hands integrity findings back for editing; the ledger properties (C18 to C22) that an append is read back, nothing recorded is lost,
  what is read is a legal ledger, so that all of the above applies to it, the chain is tamper evident and
  recording is idempotent; C23 to C26 that finalization plans, artifacts, decisions and
  verdicts are what their consumers require; C27 and C28 that a protected manifest notices every change and
  that a written receipt verifies; C36 that a resolved command without findings is safe to start; the planning properties (C29 to C35) that the search policy
  proposes only what is legal and always something when there is something, that parallel lanes differ,
  for what exactly the validator can reject the normalized plan of a policy choice, that every emitted proposal is validated and new, and
  what a duplicate key identifies; the harness properties (C37 to C39) that no adapter error escapes, that the state a run returns is the projection of the legal ledger on
  disk and that finalization rests on an exact reproduction.

  \<^bold>\<open>Bounds and fuel.\<close>  Recursive definitions end structurally or by a measure that is proved; the
  matcher of \<^verbatim>\<open>Regex\<close> takes the length of the subject as fuel for repetition, which is enough because every
  repetition consumes a character.  The loops of the harness end only if adapters and recovery make them
  end, so they take fuel, and running out is a result of its own that no handler catches;
  the theorem \<open>harness_fuel_irrelevant\<close> shows that every bound that suffices gives the same run.

  \<^bold>\<open>Parameters.\<close>  Code outside the repository is an argument: SHA-256, the JSON reader, pydantic's
  construction of an event from JSON (\<open>event_validate\<close>), the dump of payloads, the C library's base-two
  logarithm and the reading of a float from text; for Gate A the git executable (a function from directory and
  arguments to exit code and output), the parser of Python source, the decoding of UTF-8, the resolution of
  a path, the lookup of an installed module and the smoke check.  What a theorem needs of them is a named hypothesis
  (\<open>faithful\<close>, \<open>text_determines\<close>, injectivity on the hashed texts), and its witness instantiates
  them.

  \<^bold>\<open>Not modelled.\<close>  The gathering of the concurrent lanes of a parallel round (one lane and the synthesis after
  the round are modelled); the parsing of Markdown and JSON text into the schemas; process, container and
  network calls with the adapters around them (\<^verbatim>\<open>execution/\<close>, \<^verbatim>\<open>providers/\<close>,
  \<^verbatim>\<open>coding/\<close>), the creation of patches and work trees in \<^verbatim>\<open>git/\<close>, the output gate
  and the container smoke check of \<^verbatim>\<open>safety/\<close>; prompts,
  reports and charts; command line and deployment; the readers of playbook, method cards, papers and
  literature.
\<close>

end
